(* ===== verification/JsValue.thy ===== *)
theory JsValue imports Complex_Main "HOL-Library.Char_ord" begin

text \<open>
  The prelude: the JavaScript values the modules of \<^verbatim>\<open>cloudflare/src\<close> take from requests,
  database rows and models, and the operations of the language they apply to them.

  A string is a list of code units below 256 (\<^typ>\<open>string\<close>); a number is NaN, an infinity or
  an exact rational (the programs use integers in minor units, counts and millisecond stamps,
  inside the exact range of a double, and short decimals).
  An object is the association list of its own properties, in insertion order.
\<close>

named_theorems js_simps \<open>equations of the JavaScript operations\<close>

section \<open>Values\<close>

datatype jsnum = NaN | PosInf | NegInf | Fin rat

datatype jsval =
    Undef
  | Null
  | JBool bool
  | JNum jsnum
  | JStr string
  | JArr "jsval list"
  | JObj "(string \<times> jsval) list"

abbreviation JInt :: "int \<Rightarrow> jsval" where
  "JInt i \<equiv> JNum (Fin (of_int i))"

text \<open>A property read with optional chaining: \<^verbatim>\<open>v?.k\<close>.\<close>

fun fld :: "jsval \<Rightarrow> string \<Rightarrow> jsval" where
  "fld (JObj kvs) k = (case map_of kvs k of None \<Rightarrow> Undef | Some v \<Rightarrow> v)"
| "fld _ k = Undef"

fun truthy :: "jsval \<Rightarrow> bool" where
  "truthy Undef = False"
| "truthy Null = False"
| "truthy (JBool b) = b"
| "truthy (JNum NaN) = False"
| "truthy (JNum (Fin q)) = (q \<noteq> 0)"
| "truthy (JNum _) = True"
| "truthy (JStr s) = (s \<noteq> [])"
| "truthy (JArr _) = True"
| "truthy (JObj _) = True"

definition jor :: "jsval \<Rightarrow> jsval \<Rightarrow> jsval" where
  "jor a b = (if truthy a then a else b)"

fun nullish :: "jsval \<Rightarrow> bool" where
  "nullish Undef = True"
| "nullish Null = True"
| "nullish _ = False"

definition coalesce :: "jsval \<Rightarrow> jsval \<Rightarrow> jsval" where
  "coalesce a b = (if nullish a then b else a)"

text \<open>\<^verbatim>\<open>Array.isArray(v)?v:[]\<close>.\<close>

fun elems :: "jsval \<Rightarrow> jsval list" where
  "elems (JArr xs) = xs"
| "elems _ = []"

fun is_array :: "jsval \<Rightarrow> bool" where
  "is_array (JArr _) = True"
| "is_array _ = False"

fun is_object :: "jsval \<Rightarrow> bool" where
  "is_object (JArr _) = True"
| "is_object (JObj _) = True"
| "is_object _ = False"

fun is_jstr :: "jsval \<Rightarrow> bool" where
  "is_jstr (JStr _) = True"
| "is_jstr _ = False"

section \<open>Numbers\<close>

definition integral :: "rat \<Rightarrow> bool" where
  "integral q \<longleftrightarrow> of_int \<lfloor>q\<rfloor> = q"

lemma integral_of_int [simp]: "integral (of_int i)"
  by (simp add: integral_def)

lemma integral_numeral [simp]: "integral (numeral n)" "integral (- numeral n)" "integral 0" "integral 1"
  by (simp_all add: integral_def)

text \<open>\<^verbatim>\<open>Number.MAX_SAFE_INTEGER\<close>, that is \<open>2 ^ 53 - 1\<close>.\<close>

definition max_safe :: int where
  "max_safe = 9007199254740991"

text \<open>Strict equality \<^verbatim>\<open>a===b\<close> and subtraction on numbers.\<close>

definition num_eq :: "jsnum \<Rightarrow> jsnum \<Rightarrow> bool" where
  "num_eq a b \<longleftrightarrow> a = b \<and> a \<noteq> NaN"

fun num_sub :: "jsnum \<Rightarrow> jsnum \<Rightarrow> jsnum" where
  "num_sub (Fin a) (Fin b) = Fin (a - b)"
| "num_sub NaN _ = NaN"
| "num_sub _ NaN = NaN"
| "num_sub PosInf PosInf = NaN"
| "num_sub NegInf NegInf = NaN"
| "num_sub PosInf _ = PosInf"
| "num_sub NegInf _ = NegInf"
| "num_sub (Fin _) PosInf = NegInf"
| "num_sub (Fin _) NegInf = PosInf"

fun is_finite :: "jsnum \<Rightarrow> bool" where
  "is_finite (Fin _) = True"
| "is_finite _ = False"

fun is_integer :: "jsnum \<Rightarrow> bool" where
  "is_integer (Fin q) = integral q"
| "is_integer _ = False"

fun is_safe_integer :: "jsnum \<Rightarrow> bool" where
  "is_safe_integer (Fin q) = (integral q \<and> \<bar>q\<bar> \<le> of_int max_safe)"
| "is_safe_integer _ = False"

text \<open>\<^verbatim>\<open>a<b\<close> and \<^verbatim>\<open>a>=b\<close> on numbers: any comparison with NaN is false.\<close>

fun num_lt :: "jsnum \<Rightarrow> jsnum \<Rightarrow> bool" where
  "num_lt NaN _ = False"
| "num_lt _ NaN = False"
| "num_lt (Fin a) (Fin b) = (a < b)"
| "num_lt NegInf NegInf = False"
| "num_lt NegInf _ = True"
| "num_lt (Fin _) PosInf = True"
| "num_lt _ _ = False"

fun num_le :: "jsnum \<Rightarrow> jsnum \<Rightarrow> bool" where
  "num_le NaN _ = False"
| "num_le _ NaN = False"
| "num_le (Fin a) (Fin b) = (a \<le> b)"
| "num_le NegInf _ = True"
| "num_le _ PosInf = True"
| "num_le _ _ = False"

definition num_max :: "jsnum \<Rightarrow> jsnum \<Rightarrow> jsnum" where
  "num_max a b = (if a = NaN \<or> b = NaN then NaN else if num_le a b then b else a)"

definition num_min :: "jsnum \<Rightarrow> jsnum \<Rightarrow> jsnum" where
  "num_min a b = (if a = NaN \<or> b = NaN then NaN else if num_le a b then a else b)"


text \<open>A helper for rational decimals: the digits after the point, by long division, at most
  \<open>fuel\<close> of them (a double prints at most 17 significant digits).\<close>

fun frac_digits :: "nat \<Rightarrow> rat \<Rightarrow> nat list" where
  "frac_digits 0 q = []"
| "frac_digits (Suc fuel) q =
     (if q = 0 then [] else nat \<lfloor>10 * q\<rfloor> # frac_digits fuel (10 * q - of_int \<lfloor>10 * q\<rfloor>))"

definition digit_char :: "nat \<Rightarrow> char" where
  "digit_char d = char_of (48 + d)"

function dec_digits :: "int \<Rightarrow> nat list" where
  "dec_digits i = (if i < 10 then [nat i] else dec_digits (i div 10) @ [nat (i mod 10)])"
  by pat_completeness auto
termination by (relation "measure nat") auto

declare dec_digits.simps [simp del]

definition int_str :: "int \<Rightarrow> string" where
  "int_str i = (if i < 0 then CHR ''-'' # map digit_char (dec_digits (- i)) else map digit_char (dec_digits i))"

definition nat_str :: "nat \<Rightarrow> string" where
  "nat_str n = int_str (int n)"

text \<open>\<^verbatim>\<open>String(n)\<close>: exact for the integers below \<open>10 ^ 21\<close> in size and the decimals of at
  most 17 places; the programs print no other number.\<close>

fun num_str :: "jsnum \<Rightarrow> string" where
  "num_str NaN = ''NaN''"
| "num_str PosInf = ''Infinity''"
| "num_str NegInf = ''-Infinity''"
| "num_str (Fin q) =
     (if integral q then int_str \<lfloor>q\<rfloor>
      else (if q < 0 then ''-'' else []) @ int_str \<lfloor>\<bar>q\<bar>\<rfloor> @ ''.'' @
        map digit_char (frac_digits 17 (\<bar>q\<bar> - of_int \<lfloor>\<bar>q\<bar>\<rfloor>)))"

section \<open>Strings\<close>

text \<open>\<^verbatim>\<open>\s\<close> and the characters \<^verbatim>\<open>trim\<close> removes: tab, line feed, vertical tab, form feed,
  carriage return, space and the no-break space.\<close>

definition is_ws :: "char \<Rightarrow> bool" where
  "is_ws c \<longleftrightarrow> (let n = of_char c :: nat in (9 \<le> n \<and> n \<le> 13) \<or> n = 32 \<or> n = 160)"

text \<open>\<^verbatim>\<open>[\u0000-\u001f\u007f]\<close>.\<close>

definition is_ctl :: "char \<Rightarrow> bool" where
  "is_ctl c \<longleftrightarrow> (let n = of_char c :: nat in n < 32 \<or> n = 127)"

definition trim :: "string \<Rightarrow> string" where
  "trim s = rev (dropWhile is_ws (rev (dropWhile is_ws s)))"

text \<open>\<^verbatim>\<open>s.replace(/\s+/g," ")\<close>.\<close>

fun collapse_from :: "bool \<Rightarrow> string \<Rightarrow> string" where
  "collapse_from prev [] = []"
| "collapse_from prev (c # cs) =
     (if is_ws c then (if prev then collapse_from True cs else CHR '' '' # collapse_from True cs)
      else c # collapse_from False cs)"

definition collapse_ws :: "string \<Rightarrow> string" where
  "collapse_ws s = collapse_from False s"

definition lower_char :: "char \<Rightarrow> char" where
  "lower_char c = (let n = of_char c :: nat in
     if (65 \<le> n \<and> n \<le> 90) \<or> (192 \<le> n \<and> n \<le> 222 \<and> n \<noteq> 215) then char_of (n + 32) else c)"

definition lower :: "string \<Rightarrow> string" where
  "lower s = map lower_char s"

fun join :: "string \<Rightarrow> string list \<Rightarrow> string" where
  "join sep [] = []"
| "join sep [x] = x"
| "join sep (x # xs) = x @ sep @ join sep xs"

text \<open>\<^verbatim>\<open>String(v)\<close>. An array joins its elements with commas, a nullish element as the empty
  string; a plain object prints as its tag.\<close>

fun js_string :: "jsval \<Rightarrow> string" where
  "js_string Undef = ''undefined''"
| "js_string Null = ''null''"
| "js_string (JBool b) = (if b then ''true'' else ''false'')"
| "js_string (JNum n) = num_str n"
| "js_string (JStr s) = s"
| "js_string (JArr xs) =
     join '','' (map (\<lambda>x. if nullish x then [] else js_string x) xs)"
| "js_string (JObj _) = ''[object Object]''"

text \<open>\<^verbatim>\<open>String(v||"")\<close> and \<^verbatim>\<open>String(v??"")\<close>.\<close>

definition str_or :: "jsval \<Rightarrow> string" where
  "str_or v = (if truthy v then js_string v else [])"

definition str_nn :: "jsval \<Rightarrow> string" where
  "str_nn v = (if nullish v then [] else js_string v)"

text \<open>\<^verbatim>\<open>String(v??"").replace(/[\u0000-\u001f\u007f]/g," ").replace(/\s+/g," ").trim().slice(0,max)\<close>,
  the \<^verbatim>\<open>clean\<close> that many modules repeat.\<close>

definition clean_str :: "nat \<Rightarrow> string \<Rightarrow> string" where
  "clean_str k s = take k (trim (collapse_ws (map (\<lambda>c. if is_ctl c then CHR '' '' else c) s)))"

definition clean :: "jsval \<Rightarrow> nat \<Rightarrow> string" where
  "clean v k = clean_str k (str_nn v)"

text \<open>\<^verbatim>\<open>String(v??"").trim().slice(0,max)\<close>, the \<^verbatim>\<open>text\<close> of the finance modules.\<close>

definition text_of :: "jsval \<Rightarrow> nat \<Rightarrow> string" where
  "text_of v k = take k (trim (str_nn v))"

text \<open>\<^verbatim>\<open>x||null\<close> on a string.\<close>

definition or_null :: "string \<Rightarrow> jsval" where
  "or_null s = (if s = [] then Null else JStr s)"

text \<open>\<^verbatim>\<open>s.split(c)\<close> by one character.\<close>

fun split_on :: "char \<Rightarrow> string \<Rightarrow> string list" where
  "split_on c [] = [[]]"
| "split_on c (x # xs) = (if x = c then [] # split_on c xs else (case split_on c xs of [] \<Rightarrow> [[x]] | w # ws \<Rightarrow> (x # w) # ws))"

text \<open>\<^verbatim>\<open>[...new Set(xs)]\<close>: the first occurrence of each element, in order.\<close>

fun dedup_from :: "'a list \<Rightarrow> 'a list \<Rightarrow> 'a list" where
  "dedup_from seen [] = []"
| "dedup_from seen (x # xs) =
     (if x \<in> set seen then dedup_from seen xs else x # dedup_from (x # seen) xs)"

definition dedup :: "'a list \<Rightarrow> 'a list" where
  "dedup xs = dedup_from [] xs"

text \<open>The names every JavaScript object inherits: a lookup by one of them finds a value nobody put there.\<close>

definition object_members :: "string list" where
  "object_members = [''constructor'', ''hasOwnProperty'', ''isPrototypeOf'', ''propertyIsEnumerable'', ''toLocaleString'', ''toString'', ''valueOf'',
    ''__proto__'', ''__defineGetter__'', ''__defineSetter__'', ''__lookupGetter__'', ''__lookupSetter__'']"

section \<open>Number of a value\<close>

definition is_digit :: "char \<Rightarrow> bool" where
  "is_digit c \<longleftrightarrow> (let n = of_char c :: nat in 48 \<le> n \<and> n \<le> 57)"

definition digit_val :: "char \<Rightarrow> nat" where
  "digit_val c = of_char c - 48"

definition digits_val :: "string \<Rightarrow> nat" where
  "digits_val s = foldl (\<lambda>n c. 10 * n + digit_val c) 0 s"

text \<open>The decimal literals of \<^verbatim>\<open>StringToNumber\<close>: digits, an optional fraction, an optional
  exponent, after the sign. The text has been trimmed.\<close>

definition parse_exp :: "string \<Rightarrow> int option" where
  "parse_exp s = (case s of
       [] \<Rightarrow> Some 0
     | e # r \<Rightarrow> (if e \<noteq> CHR ''e'' \<and> e \<noteq> CHR ''E'' then None
         else (let (neg, ds) = (case r of
               c # r' \<Rightarrow> (if c = CHR ''-'' then (True, r') else if c = CHR ''+'' then (False, r') else (False, r))
             | [] \<Rightarrow> (False, []))
           in if ds \<noteq> [] \<and> list_all is_digit ds
              then Some ((if neg then - 1 else 1) * int (digits_val ds)) else None)))"

definition pow10 :: "int \<Rightarrow> rat" where
  "pow10 e = (if 0 \<le> e then 10 ^ nat e else 1 / 10 ^ nat (- e))"

definition parse_unsigned :: "string \<Rightarrow> rat option" where
  "parse_unsigned s =
     (let ip = takeWhile is_digit s; r = dropWhile is_digit s;
          (fp, r') = (case r of c # t \<Rightarrow> (if c = CHR ''.'' then (takeWhile is_digit t, dropWhile is_digit t) else ([], r))
                      | [] \<Rightarrow> ([], []))
      in if ip = [] \<and> fp = [] then None
         else map_option (\<lambda>e. of_nat (digits_val (ip @ fp)) * pow10 (e - int (length fp))) (parse_exp r'))"

definition hex_val :: "char \<Rightarrow> nat option" where
  "hex_val c = (let n = of_char c :: nat in
     if 48 \<le> n \<and> n \<le> 57 then Some (n - 48)
     else if 97 \<le> n \<and> n \<le> 102 then Some (n - 87)
     else if 65 \<le> n \<and> n \<le> 70 then Some (n - 55) else None)"

fun parse_radix :: "nat \<Rightarrow> nat \<Rightarrow> string \<Rightarrow> nat option" where
  "parse_radix b acc [] = Some acc"
| "parse_radix b acc (c # cs) = (case hex_val c of None \<Rightarrow> None
     | Some d \<Rightarrow> if d < b then parse_radix b (b * acc + d) cs else None)"

definition radix_of :: "char \<Rightarrow> nat" where
  "radix_of c = (if c \<in> set ''xX'' then 16 else if c \<in> set ''oO'' then 8 else if c \<in> set ''bB'' then 2 else 0)"

definition str_num :: "string \<Rightarrow> jsnum" where
  "str_num s0 = (let s = trim s0 in
     if s = [] then Fin 0
     else if 2 < length s \<and> s ! 0 = CHR ''0'' \<and> radix_of (s ! 1) \<noteq> 0
     then (case parse_radix (radix_of (s ! 1)) 0 (drop 2 s) of None \<Rightarrow> NaN | Some n \<Rightarrow> Fin (of_nat n))
     else (let neg = (hd s = CHR ''-''); u = (if hd s \<in> set ''+-'' then tl s else s)
       in if u = ''Infinity'' then (if neg then NegInf else PosInf)
          else (case parse_unsigned u of None \<Rightarrow> NaN | Some q \<Rightarrow> Fin (if neg then - q else q))))"

text \<open>\<^verbatim>\<open>Number(v)\<close>; an array or object converts through its string.\<close>

fun to_num :: "jsval \<Rightarrow> jsnum" where
  "to_num Undef = NaN"
| "to_num Null = Fin 0"
| "to_num (JBool b) = Fin (if b then 1 else 0)"
| "to_num (JNum n) = n"
| "to_num (JStr s) = str_num s"
| "to_num (JArr xs) = str_num (js_string (JArr xs))"
| "to_num (JObj _) = NaN"

text \<open>\<^verbatim>\<open>Number(v||0)\<close>.\<close>

definition num_or0 :: "jsval \<Rightarrow> jsnum" where
  "num_or0 v = (if truthy v then to_num v else Fin 0)"

text \<open>A destructured parameter with a default: \<^verbatim>\<open>{x=d}\<close>.\<close>

definition dflt :: "jsval \<Rightarrow> jsval \<Rightarrow> jsval" where
  "dflt v d = (if v = Undef then d else v)"

text \<open>\<^verbatim>\<open>v===true\<close>.\<close>

fun is_true :: "jsval \<Rightarrow> bool" where
  "is_true (JBool b) = b"
| "is_true _ = False"

fun is_false :: "jsval \<Rightarrow> bool" where
  "is_false (JBool b) = (\<not> b)"
| "is_false _ = False"

text \<open>\<^verbatim>\<open>v==="text"\<close>.\<close>

definition is_lit :: "jsval \<Rightarrow> string \<Rightarrow> bool" where
  "is_lit v s \<longleftrightarrow> v = JStr s"

section \<open>Dates\<close>

text \<open>\<^verbatim>\<open>new Date(v).getTime()\<close> and \<^verbatim>\<open>Date.parse\<close>. How a text reads as a date is a parameter
  \<open>dp\<close> of the definitions that use it (milliseconds since the epoch, none for an invalid date),
  since beyond the ISO format it is up to the engine.\<close>

type_synonym date_parse = "string \<Rightarrow> int option"

fun opt_num :: "int option \<Rightarrow> jsnum" where
  "opt_num None = NaN"
| "opt_num (Some t) = Fin (of_int t)"

fun time_clip :: "jsnum \<Rightarrow> jsnum" where
  "time_clip (Fin q) = (if \<bar>q\<bar> \<le> 8640000000000000 then Fin (of_int (if 0 \<le> q then \<lfloor>q\<rfloor> else \<lceil>q\<rceil>)) else NaN)"
| "time_clip _ = NaN"

fun date_ms :: "date_parse \<Rightarrow> jsval \<Rightarrow> jsnum" where
  "date_ms dp (JStr s) = opt_num (dp s)"
| "date_ms dp (JArr xs) = opt_num (dp (js_string (JArr xs)))"
| "date_ms dp (JObj kvs) = opt_num (dp (js_string (JObj kvs)))"
| "date_ms dp v = time_clip (to_num v)"

text \<open>\<^verbatim>\<open>new Date(t).toISOString()\<close>: the proleptic Gregorian date of a count of days since the
  epoch, the fields padded, a year outside 0 to 9999 with a sign and six digits.\<close>

definition civil :: "int \<Rightarrow> int \<times> int \<times> int" where
  "civil days =
     (let z = days + 719468; era = z div 146097; doe = z mod 146097;
          yoe = (doe - doe div 1460 + doe div 36524 - doe div 146096) div 365;
          doy = doe - (365 * yoe + yoe div 4 - yoe div 100);
          mp = (5 * doy + 2) div 153;
          d = doy - (153 * mp + 2) div 5 + 1;
          m = (if mp < 10 then mp + 3 else mp - 9);
          y = yoe + era * 400 + (if m \<le> 2 then 1 else 0)
      in (y, m, d))"

definition pad :: "nat \<Rightarrow> string \<Rightarrow> string" where
  "pad k s = replicate (k - length s) (CHR ''0'') @ s"

definition pad_int :: "nat \<Rightarrow> int \<Rightarrow> string" where
  "pad_int k i = pad k (int_str i)"

definition year_text :: "int \<Rightarrow> string" where
  "year_text y = (if 0 \<le> y \<and> y \<le> 9999 then pad_int 4 y
     else (if y < 0 then CHR ''-'' else CHR ''+'') # pad_int 6 (if y < 0 then - y else y))"

definition date_text :: "int \<Rightarrow> string" where
  "date_text days = (let (y, m, d) = civil days in year_text y @ ''-'' @ pad_int 2 m @ ''-'' @ pad_int 2 d)"

definition iso_text :: "int \<Rightarrow> string" where
  "iso_text t = (let day = t div 86400000; ms = t mod 86400000 in
     date_text day @ ''T'' @ pad_int 2 (ms div 3600000) @ '':'' @ pad_int 2 (ms div 60000 mod 60) @ '':'' @
     pad_int 2 (ms div 1000 mod 60) @ ''.'' @ pad_int 3 (ms mod 1000) @ ''Z'')"

text \<open>\<^verbatim>\<open>/^\d{4}-\d{2}-\d{2}$/\<close>.\<close>

definition date_shape :: "string \<Rightarrow> bool" where
  "date_shape s \<longleftrightarrow> length s = 10 \<and> list_all is_digit (take 4 s @ take 2 (drop 5 s) @ drop 8 s) \<and>
     s ! 4 = CHR ''-'' \<and> s ! 7 = CHR ''-''"

section \<open>JSON text\<close>

definition hex_digit :: "nat \<Rightarrow> char" where
  "hex_digit d = char_of (if d < 10 then 48 + d else 87 + d)"

definition json_char :: "char \<Rightarrow> string" where
  "json_char c = (let n = of_char c :: nat in
     if n = 34 then [char_of (92::nat), char_of (34::nat)]
     else if n = 92 then [char_of (92::nat), char_of (92::nat)]
     else if n = 8 then char_of (92::nat) # ''b''
     else if n = 9 then char_of (92::nat) # ''t''
     else if n = 10 then char_of (92::nat) # ''n''
     else if n = 12 then char_of (92::nat) # ''f''
     else if n = 13 then char_of (92::nat) # ''r''
     else if n < 32 then char_of (92::nat) # ''u00'' @ [hex_digit (n div 16), hex_digit (n mod 16)]
     else [c])"

definition json_quote :: "string \<Rightarrow> string" where
  "json_quote s = CHR 0x22 # concat (map json_char s) @ [CHR 0x22]"

text \<open>\<^verbatim>\<open>JSON.stringify(v)\<close>: an undefined property is left out, an undefined element is
  \<^verbatim>\<open>null\<close>, and so is a number that is not finite.\<close>

fun json :: "jsval \<Rightarrow> string" where
  "json Undef = ''null''"
| "json Null = ''null''"
| "json (JBool b) = (if b then ''true'' else ''false'')"
| "json (JNum n) = (if is_finite n then num_str n else ''null'')"
| "json (JStr s) = json_quote s"
| "json (JArr xs) = ''['' @ join '','' (map json xs) @ '']''"
| "json (JObj kvs) = ''{'' @ join '',''
     (concat (map (\<lambda>kv. if snd kv = Undef then [] else [json_quote (fst kv) @ '':'' @ json (snd kv)]) kvs)) @ ''}''"

text \<open>\<^verbatim>\<open>[...new Set((Array.isArray(v)?v:[]).map(x=>text(x,k)).filter(Boolean))]\<close>.\<close>

definition unique_texts :: "nat \<Rightarrow> jsval \<Rightarrow> string list" where
  "unique_texts k v = dedup (filter (\<lambda>s. s \<noteq> []) (map (\<lambda>x. text_of x k) (elems v)))"

section \<open>Facts about the prelude\<close>

lemma str_or_JStr [simp]: "str_or (JStr s) = s"
  by (simp add: str_or_def)

lemma str_nn_JStr [simp]: "str_nn (JStr s) = s"
  by (simp add: str_nn_def)

lemma length_clean_str: "length (clean_str k s) \<le> k"
  by (simp add: clean_str_def)

lemma length_clean [intro]: "length (clean v k) \<le> k"
  by (simp add: clean_def length_clean_str)

lemma length_text_of [intro]: "length (text_of v k) \<le> k"
  by (simp add: text_of_def)

lemma trim_trim [simp]: "trim (trim s) = trim s"
proof -
  have hd_ok: "dropWhile is_ws (trim s) = trim s"
  proof (cases "trim s")
    case (Cons c cs)
    obtain ws where ws: "dropWhile is_ws s = trim s @ ws"
      unfolding trim_def by (metis rev_append rev_rev_ident takeWhile_dropWhile_id)
    then have "dropWhile is_ws s = c # cs @ ws" using Cons by simp
    then have "\<not> is_ws c" using hd_dropWhile[of is_ws s] by (metis list.distinct(1) list.sel(1))
    then show ?thesis using Cons by simp
  qed simp
  then show ?thesis
    by (simp add: trim_def [of "trim s"]) (simp add: trim_def dropWhile_idem)
qed

lemma set_trim: "set (trim s) \<subseteq> set s"
  unfolding trim_def by (auto dest!: set_dropWhileD)

lemma set_collapse_from: "set (collapse_from b s) \<subseteq> insert (CHR '' '') (set s)"
  by (induction b s rule: collapse_from.induct) (auto split: if_splits)

lemma clean_no_ctl: "c \<in> set (clean v k) \<Longrightarrow> \<not> is_ctl c"
proof -
  assume "c \<in> set (clean v k)"
  then have "c \<in> insert (CHR '' '') (set (map (\<lambda>c. if is_ctl c then CHR '' '' else c) (str_nn v)))"
    unfolding clean_def clean_str_def collapse_ws_def
    using set_trim set_collapse_from set_take_subset by (meson subsetD)
  then show "\<not> is_ctl c"
    by (auto simp: is_ctl_def split: if_splits)
qed

lemma set_dedup_from: "set (dedup_from seen xs) = set xs - set seen"
  by (induction seen xs rule: dedup_from.induct) auto

lemma set_dedup [simp]: "set (dedup xs) = set xs"
  by (simp add: dedup_def set_dedup_from)

lemma distinct_dedup_from: "distinct (dedup_from seen xs)"
  by (induction seen xs rule: dedup_from.induct) (auto simp: set_dedup_from)

lemma distinct_dedup [simp, intro]: "distinct (dedup xs)"
  by (simp add: dedup_def distinct_dedup_from)

lemma dedup_from_distinct: "distinct xs \<Longrightarrow> set xs \<inter> set seen = {} \<Longrightarrow> dedup_from seen xs = xs"
  by (induction seen xs rule: dedup_from.induct) auto

lemma dedup_distinct [simp]: "distinct xs \<Longrightarrow> dedup xs = xs"
  by (simp add: dedup_def dedup_from_distinct)

lemma length_dedup_from: "length (dedup_from seen xs) \<le> length xs"
  by (induction seen xs rule: dedup_from.induct) auto

lemma length_dedup: "length (dedup xs) \<le> length xs"
  by (simp add: dedup_def length_dedup_from)

lemma is_true_iff [simp]: "is_true v \<longleftrightarrow> v = JBool True"
  by (cases v) auto

lemma is_false_iff [simp]: "is_false v \<longleftrightarrow> v = JBool False"
  by (cases v) auto

lemma num_lt_irrefl [simp]: "\<not> num_lt a a"
  by (cases a) auto

lemma num_lt_le: "num_lt a b \<Longrightarrow> num_le a b"
  by (cases a; cases b) auto

lemma num_not_lt: "a \<noteq> NaN \<Longrightarrow> b \<noteq> NaN \<Longrightarrow> (\<not> num_lt a b) = num_le b a"
  by (cases a; cases b) auto

end
