(* ===== verification/Interfaces.thy ===== *)
theory Interfaces imports JsValue "HOL-Library.Multiset" begin

text \<open>
  The contracts the components share, as locales. \<open>guard_chain\<close> is a handler made of early
  returns: an ordered list of checks, each with its denial, and a result for the request that
  passes them all. \<open>machine\<close> is a state changed by operations that keep an invariant;
  \<open>terminal_machine\<close> adds states that no operation leaves. \<open>comparator\<close> is a comparison
  function given to \<^verbatim>\<open>Array.prototype.sort\<close>.
\<close>

section \<open>Early returns\<close>

definition first_fail :: "(bool \<times> 'e) list \<Rightarrow> 'e option" where
  "first_fail cs = map_option snd (find fst cs)"

lemma first_fail_Nil [simp]: "first_fail [] = None"
  by (simp add: first_fail_def)

lemma first_fail_Cons [simp]: "first_fail ((b, e) # cs) = (if b then Some e else first_fail cs)"
  by (simp add: first_fail_def)

lemma first_fail_None: "first_fail cs = None \<longleftrightarrow> (\<forall>(b, e) \<in> set cs. \<not> b)"
  unfolding first_fail_def by (auto simp: find_None_iff)

lemma first_fail_SomeD: "first_fail cs = Some e \<Longrightarrow> (True, e) \<in> set cs"
  by (induction cs) (auto split: if_splits)

lemma first_fail_append:
  "first_fail (us @ vs) = (case first_fail us of None \<Rightarrow> first_fail vs | Some e \<Rightarrow> Some e)"
  by (induction us) auto

text \<open>One step down a nest of early returns: the branch taken, and what it returned.\<close>

lemma if_chain_cases:
  "(if b then x else y) = r \<Longrightarrow> (b \<Longrightarrow> x = r \<Longrightarrow> P) \<Longrightarrow> (\<not> b \<Longrightarrow> y = r \<Longrightarrow> P) \<Longrightarrow> P"
  by (cases b) auto

locale guard_chain =
  fixes checks :: "'r \<Rightarrow> (bool \<times> 'e) list"
    and decide :: "'r \<Rightarrow> 'd"
    and passed :: "'d \<Rightarrow> bool"
    and code :: "'d \<Rightarrow> 'e"
  assumes deny: "first_fail (checks r) = Some e \<Longrightarrow> \<not> passed (decide r) \<and> code (decide r) = e"
    and pass: "first_fail (checks r) = None \<Longrightarrow> passed (decide r)"
begin

lemma passed_iff: "passed (decide r) \<longleftrightarrow> (\<forall>(b, e) \<in> set (checks r). \<not> b)"
  using deny pass first_fail_None by (metis option.exhaust)

lemma passed_no_check: "passed (decide r) \<Longrightarrow> (b, e) \<in> set (checks r) \<Longrightarrow> \<not> b"
  by (auto simp: passed_iff)

lemma denied_code: "\<not> passed (decide r) \<Longrightarrow> (True, code (decide r)) \<in> set (checks r)"
proof -
  assume np: "\<not> passed (decide r)"
  then obtain e where e: "first_fail (checks r) = Some e"
    using pass by (cases "first_fail (checks r)") auto
  then have "code (decide r) = e" using deny by blast
  moreover from e have "(True, e) \<in> set (checks r)" by (rule first_fail_SomeD)
  ultimately show ?thesis by simp
qed

lemma code_is_first:
  "checks r = us @ (True, e) # vs \<Longrightarrow> (\<forall>(b, e') \<in> set us. \<not> b) \<Longrightarrow>
     \<not> passed (decide r) \<and> code (decide r) = e"
  by (intro deny) (simp add: first_fail_append first_fail_None [THEN iffD2])

end

section \<open>States and invariants\<close>

locale machine =
  fixes step :: "'o \<Rightarrow> 's \<Rightarrow> 's"
    and inv :: "'s \<Rightarrow> bool"
  assumes step_inv: "inv s \<Longrightarrow> inv (step p s)"
begin

lemma run_inv: "inv s \<Longrightarrow> inv (fold step ps s)"
  by (induction ps arbitrary: s) (auto intro: step_inv)

end

locale terminal_machine = machine step inv
  for step :: "'o \<Rightarrow> 's \<Rightarrow> 's" and inv :: "'s \<Rightarrow> bool" +
  fixes final :: "'k \<Rightarrow> 's \<Rightarrow> bool"
  assumes step_final: "inv s \<Longrightarrow> final k s \<Longrightarrow> final k (step p s)"
begin

lemma run_final: "inv s \<Longrightarrow> final k s \<Longrightarrow> final k (fold step ps s)"
  by (induction ps arbitrary: s) (auto intro: step_inv step_final)

lemma run_final_suffix:
  "inv s \<Longrightarrow> final k (fold step ps s) \<Longrightarrow> final k (fold step (ps @ qs) s)"
  by (simp add: run_inv run_final)

end

section \<open>Sorting with a comparison function\<close>

text \<open>\<^verbatim>\<open>Array.prototype.sort\<close> is stable: insertion before the first element that is not
  smaller.\<close>

fun sort_insert :: "('a \<Rightarrow> 'a \<Rightarrow> bool) \<Rightarrow> 'a \<Rightarrow> 'a list \<Rightarrow> 'a list" where
  "sort_insert le x [] = [x]"
| "sort_insert le x (y # ys) = (if le x y then x # y # ys else y # sort_insert le x ys)"

definition js_sort :: "('a \<Rightarrow> 'a \<Rightarrow> bool) \<Rightarrow> 'a list \<Rightarrow> 'a list" where
  "js_sort le xs = foldr (sort_insert le) xs []"

lemma mset_sort_insert [simp]: "mset (sort_insert le x xs) = add_mset x (mset xs)"
  by (induction xs) auto

lemma mset_js_sort [simp]: "mset (js_sort le xs) = mset xs"
  unfolding js_sort_def by (induction xs) auto

lemma set_js_sort [simp]: "set (js_sort le xs) = set xs"
  using mset_eq_setD[OF mset_js_sort] .

lemma length_js_sort [simp]: "length (js_sort le xs) = length xs"
  using mset_eq_length[OF mset_js_sort] .

lemma filter_length_js_sort: "length (filter P (js_sort le xs)) = length (filter P xs)"
  by (metis mset_filter mset_js_sort size_mset)

text \<open>The order is only promised among the elements the program sorts, the carrier \<open>ok\<close>.\<close>

locale comparator =
  fixes ok :: "'a \<Rightarrow> bool" and le :: "'a \<Rightarrow> 'a \<Rightarrow> bool"
  assumes total: "ok x \<Longrightarrow> ok y \<Longrightarrow> le x y \<or> le y x"
    and trans: "ok x \<Longrightarrow> ok y \<Longrightarrow> ok z \<Longrightarrow> le x y \<Longrightarrow> le y z \<Longrightarrow> le x z"
begin

lemma sorted_insert:
  "sorted_wrt le xs \<Longrightarrow> ok x \<Longrightarrow> list_all ok xs \<Longrightarrow> sorted_wrt le (sort_insert le x xs)"
proof (induction xs)
  case (Cons y ys)
  have "set (sort_insert le x ys) = insert x (set ys)"
    by (metis mset_sort_insert set_mset_add_mset_insert set_mset_mset)
  moreover have "le x z" if "le x y" "z \<in> set ys" for z
    using that Cons.prems by (intro trans[of x y z]) (auto simp: list_all_iff)
  moreover have "le y x" if "\<not> le x y" using that Cons.prems total[of x y] by simp
  ultimately show ?case using Cons by simp
qed simp

lemma sorted_sort: "list_all ok xs \<Longrightarrow> sorted_wrt le (js_sort le xs)"
proof (induction xs)
  case (Cons x xs)
  moreover have "list_all ok (js_sort le xs)" using Cons.prems by (simp add: list_all_iff)
  ultimately show ?case by (simp add: js_sort_def sorted_insert)
qed (simp add: js_sort_def)

lemma head_least: "list_all ok xs \<Longrightarrow> js_sort le xs = y # ys \<Longrightarrow> x \<in> set xs \<Longrightarrow> le y x"
proof -
  assume ok: "list_all ok xs" and s: "js_sort le xs = y # ys" and x: "x \<in> set xs"
  have "x \<in> set (y # ys)" using x set_js_sort[of le xs] unfolding s by simp
  moreover have "ok y" using ok set_js_sort[of le xs] unfolding s by (auto simp: list_all_iff)
  moreover have "\<forall>z \<in> set ys. le y z" using sorted_sort[OF ok] unfolding s by simp
  ultimately show "le y x" using total[of y y] by auto
qed

end

section \<open>Tables\<close>

text \<open>A table is a list of rows; \<^verbatim>\<open>UPDATE\<close> maps over it. The facts below are about a column
  summed over the rows when the one row of a key changes.\<close>

definition update_where :: "('r \<Rightarrow> bool) \<Rightarrow> ('r \<Rightarrow> 'r) \<Rightarrow> 'r list \<Rightarrow> 'r list" where
  "update_where p f rs = map (\<lambda>r. if p r then f r else r) rs"

definition col_sum :: "('r \<Rightarrow> int) \<Rightarrow> 'r list \<Rightarrow> int" where
  "col_sum f rs = sum_list (map f rs)"

lemma col_sum_simps [simp]: "col_sum f [] = 0" "col_sum f (r # rs) = f r + col_sum f rs"
  "col_sum f (rs @ qs) = col_sum f rs + col_sum f qs"
  by (simp_all add: col_sum_def)

lemma update_where_simps [simp]:
  "update_where p f [] = []"
  "update_where p f (r # rs) = (if p r then f r else r) # update_where p f rs"
  by (simp_all add: update_where_def)

lemma length_update_where [simp]: "length (update_where p f rs) = length rs"
  by (simp add: update_where_def)

lemma map_update_where:
  "(\<And>r. p r \<Longrightarrow> k (f r) = k r) \<Longrightarrow> map k (update_where p f rs) = map k rs"
  by (induction rs) auto

lemma update_where_none: "(\<And>r. r \<in> set rs \<Longrightarrow> \<not> p r) \<Longrightarrow> update_where p f rs = rs"
  by (induction rs) auto

lemma set_update_where: "set (update_where p f rs) = f ` {r \<in> set rs. p r} \<union> {r \<in> set rs. \<not> p r}"
  by (auto simp: update_where_def)

lemma ball_update_where: "(\<forall>c \<in> set (update_where p f rs). Q c) \<longleftrightarrow> (\<forall>c \<in> set rs. Q (if p c then f c else c))"
  by (induction rs) auto

lemma col_sum_cong: "(\<And>r. r \<in> set rs \<Longrightarrow> f r = g r) \<Longrightarrow> col_sum f rs = col_sum g rs"
  by (induction rs) auto

lemma col_sum_nonneg: "(\<And>r. r \<in> set rs \<Longrightarrow> 0 \<le> f r) \<Longrightarrow> 0 \<le> col_sum f rs"
  by (induction rs) auto

lemma col_sum_member_le: "(\<And>r. r \<in> set rs \<Longrightarrow> 0 \<le> f r) \<Longrightarrow> q \<in> set rs \<Longrightarrow> f q \<le> col_sum f rs"
proof (induction rs)
  case (Cons r rs)
  have "0 \<le> col_sum f rs" using Cons.prems(1) by (auto intro: col_sum_nonneg)
  then show ?case using Cons by (cases "q = r") (auto simp: add_increasing)
qed simp

lemma col_sum_update_key:
  assumes "distinct (map k rs)" "q \<in> set rs"
  shows "col_sum f (update_where (\<lambda>r. k r = k q) g rs) = col_sum f rs - f q + f (g q)"
  using assms
proof (induction rs)
  case (Cons r rs)
  show ?case
  proof (cases "q = r")
    case True
    then have "update_where (\<lambda>r. k r = k q) g rs = rs"
      using Cons.prems(1) by (intro update_where_none) (metis distinct.simps(2) image_eqI list.set_map list.simps(9))
    then show ?thesis using True by simp
  next
    case False
    then have q: "q \<in> set rs" using Cons.prems(2) by simp
    then have "k r \<noteq> k q" using Cons.prems(1) by (metis distinct.simps(2) image_eqI list.set_map list.simps(9))
    with q show ?thesis using Cons by simp
  qed
qed simp

lemma distinct_key_unique: "distinct (map k rs) \<Longrightarrow> q \<in> set rs \<Longrightarrow> r \<in> set rs \<Longrightarrow> k q = k r \<Longrightarrow> q = r"
  unfolding distinct_map inj_on_def by blast

lemma find_SomeD: "find p rs = Some r \<Longrightarrow> r \<in> set rs \<and> p r"
  by (auto simp: find_Some_iff)

lemma find_NoneD: "find p rs = None \<Longrightarrow> r \<in> set rs \<Longrightarrow> \<not> p r"
  by (simp add: find_None_iff)

end
