(* ===== verification/AgentPolicy.thy ===== *)
theory AgentPolicy imports Interfaces begin

text \<open>
  \<^verbatim>\<open>cloudflare/src/agent-policy.js\<close>: the catalogue of the actions the Thebe agent may propose
  and the deterministic policy that decides each request. The request's fields are untrusted
  values (\<^typ>\<open>jsval\<close>); the catalogue is the code's, entry by entry.
\<close>

section \<open>Levels, agents, capabilities\<close>

definition AGENT_POLICY_VERSION :: string where
  "AGENT_POLICY_VERSION = ''2026-09-20.single-agent-capabilities-v2''"

definition level_read :: nat where "level_read = 1"
definition level_prepare :: nat where "level_prepare = 2"
definition level_controlled :: nat where "level_controlled = 3"
definition level_high_risk :: nat where "level_high_risk = 4"

lemmas level_defs = level_read_def level_prepare_def level_controlled_def level_high_risk_def

record capability_def =
  cap_key :: string
  cap_label :: string
  cap_purpose :: string
  cap_enabled :: bool

definition THEBE_CAPABILITIES :: "capability_def list" where
  "THEBE_CAPABILITIES = [
    \<lparr>cap_key = ''finance'', cap_label = ''Finance'',
     cap_purpose = ''Interpret reconciled Finance Core outputs, data quality and finance drafts without inventing figures or moving money.'',
     cap_enabled = True\<rparr>,
    \<lparr>cap_key = ''compliance'', cap_label = ''Compliance & Tender Readiness'',
     cap_purpose = ''Interpret verified obligations, evidence and tender-readiness requirements without claiming eligibility, filing, signing or submitting.'',
     cap_enabled = True\<rparr>,
    \<lparr>cap_key = ''operations'', cap_label = ''Operations & People'',
     cap_purpose = ''Summarise aggregate operational signals and prepare bounded operational follow-up without employee surveillance or autonomous employment decisions.'',
     cap_enabled = True\<rparr>,
    \<lparr>cap_key = ''customer'', cap_label = ''Receivables & Customer'',
     cap_purpose = ''Reserved capability boundary for customer and receivables workflows once authoritative customer data, consent and execution controls are production-ready.'',
     cap_enabled = False\<rparr>]"

text \<open>\<^verbatim>\<open>THEBE_AGENTS.thebe.allowedRoles\<close>: the one agent there is.\<close>

definition thebe_allowed_roles :: "string list" where
  "thebe_allowed_roles = [''owner'', ''manager'', ''reviewer'', ''system_observer'']"

definition LEGACY_AGENT_CAPABILITY :: "(string \<times> string) list" where
  "LEGACY_AGENT_CAPABILITY = [(''management'', ''core''), (''compliance'', ''compliance''),
     (''tender'', ''compliance''), (''operations'', ''operations''), (''finance'', ''finance'')]"

text \<open>\<^verbatim>\<open>String(x||"").trim().toLowerCase()\<close>.\<close>

definition norm_key :: "jsval \<Rightarrow> string" where
  "norm_key v = lower (trim (str_or v))"

definition resolveAgentKey :: "jsval \<Rightarrow> string option" where
  "resolveAgentKey agentKey = (let key = norm_key agentKey in
     if key = ''thebe'' then Some ''thebe''
     else if key \<in> set (map fst LEGACY_AGENT_CAPABILITY) then Some ''thebe'' else None)"

section \<open>The catalogue\<close>

record action_def =
  a_key :: string
  a_level :: nat
  a_agents :: "string list"
  a_capability :: string
  a_legacyAgents :: "string list"
  a_roles :: "string list"
  a_description :: string
  a_phase1Enabled :: bool
  a_boundedExecutionEnabled :: bool
  a_humanReviewRequired :: bool
  a_explicitApprovalRequired :: bool
  a_strongAuthRequired :: bool
  a_externalSideEffect :: bool
  a_sensitiveDomain :: "string option"
  a_authoritativeSource :: "string option"

definition action_of :: "string \<Rightarrow> nat \<Rightarrow> string list \<Rightarrow> string \<Rightarrow> bool \<Rightarrow> bool \<Rightarrow> string \<Rightarrow> string list
    \<Rightarrow> bool \<Rightarrow> bool \<Rightarrow> bool \<Rightarrow> bool \<Rightarrow> string option \<Rightarrow> string option \<Rightarrow> action_def" where
  "action_of k l roles d p1 be cap legacy hr ea sa ext dmn src =
     \<lparr>a_key = k, a_level = l, a_agents = [''thebe''], a_capability = cap, a_legacyAgents = legacy,
      a_roles = roles, a_description = d, a_phase1Enabled = p1, a_boundedExecutionEnabled = be,
      a_humanReviewRequired = hr, a_explicitApprovalRequired = ea, a_strongAuthRequired = sa,
      a_externalSideEffect = ext, a_sensitiveDomain = dmn, a_authoritativeSource = src\<rparr>"

definition catalog_list :: "action_def list" where
  "catalog_list = [
  action_of ''business_health.read'' level_read [''owner'', ''manager'', ''system_observer'']
    ''Read governed business-health indicators and recorded risks.''
    True False ''core'' [''management''] False False False False
    None (Some ''business_graph_and_deterministic_metrics''),
  action_of ''compliance_status.read'' level_read [''owner'', ''manager'', ''reviewer'', ''system_observer'']
    ''Read current verified obligations, status and approved source references.''
    True False ''compliance'' [''compliance''] False False False False
    None (Some ''country_rules_and_verified_workspace_records''),
  action_of ''compliance_risk.explain'' level_read [''owner'', ''manager'', ''reviewer'']
    ''Explain a recorded compliance risk and its evidence/source references.''
    True False ''compliance'' [''compliance''] False False False False
    None (Some ''country_rules_and_verified_workspace_records''),
  action_of ''tender_readiness.read'' level_read [''owner'', ''manager'', ''reviewer'']
    ''Read active tender readiness and mandatory evidence gaps without promising eligibility or award.''
    True False ''compliance'' [''tender''] False False False False
    None (Some ''verified_tender_and_evidence_records''),
  action_of ''daily_operations_summary.read'' level_read [''owner'', ''manager'', ''system_observer'']
    ''Read aggregate Daily Operations metrics only; never expose employee report narratives.''
    True False ''operations'' [''operations''] False False False False
    (Some ''workforce_aggregate'') (Some ''aggregate_daily_operations_metrics''),
  action_of ''financial_position.read'' level_read [''owner'', ''manager'', ''reviewer'', ''system_observer'']
    ''Read reconciled cash, receivables, payables, income and expense outputs from the Finance Core without inventing values.''
    True False ''finance'' [''finance''] False False False False
    (Some ''finance'') (Some ''reconciled_finance_core''),
  action_of ''management_accounts.read'' level_read [''owner'', ''manager'', ''reviewer'']
    ''Read generated management-account outputs and their period/provenance metadata.''
    True False ''finance'' [''finance''] False False False False
    (Some ''finance'') (Some ''reconciled_finance_core''),
  action_of ''finance_data_quality.read'' level_read [''owner'', ''manager'', ''reviewer'', ''system_observer'']
    ''Read reconciliation, completeness and provenance indicators used to qualify finance conclusions.''
    True False ''finance'' [''finance''] False False False False
    (Some ''finance'') (Some ''finance_data_quality_controls''),
  action_of ''finance_daily_inflows.read'' level_read [''owner'', ''manager'', ''reviewer'', ''system_observer'']
    ''Read positive Finance Core inflows recorded for the current Botswana business date without claiming that every inflow is a customer collection.''
    True False ''finance'' [''finance''] False False False False
    (Some ''finance'') (Some ''reconciled_finance_core''),
  action_of ''receivables_summary.read'' level_read [''owner'', ''manager'', ''reviewer'', ''system_observer'']
    ''Read authoritative outstanding and overdue customer receivables derived from issued invoices and transaction-backed allocations.''
    True False ''finance'' [''finance''] False False False False
    (Some ''finance'') (Some ''finance_invoices_plus_transaction_allocations''),
  action_of ''receivables_customer.read'' level_read [''owner'', ''manager'', ''reviewer'']
    ''Read one unambiguously matched customer receivable balance from issued invoices and transaction-backed allocations; never fuzzy-match or infer identity.''
    True False ''finance'' [''finance''] False False False False
    (Some ''finance'') (Some ''finance_invoices_plus_transaction_allocations''),
  action_of ''management_brief.prepare'' level_prepare [''owner'', ''manager'']
    ''Prepare a management brief as a draft for human review.''
    True False ''core'' [''management''] True False False False
    None (Some ''business_graph_and_deterministic_metrics''),
  action_of ''compliance_action_plan.prepare'' level_prepare [''owner'', ''manager'', ''reviewer'']
    ''Prepare a compliance action plan from verified rules and recorded workspace facts.''
    True False ''compliance'' [''compliance''] True False False False
    None (Some ''country_rules_and_verified_workspace_records''),
  action_of ''evidence_request.prepare'' level_prepare [''owner'', ''manager'', ''reviewer'']
    ''Prepare, but do not send, an evidence request for human review.''
    True False ''compliance'' [''compliance'', ''tender''] True False False False
    None (Some ''verified_workspace_records''),
  action_of ''tender_pack.prepare'' level_prepare [''owner'', ''manager'', ''reviewer'']
    ''Prepare a tender-readiness evidence/checklist pack for human review.''
    True False ''compliance'' [''tender''] True False False False
    None (Some ''verified_tender_and_evidence_records''),
  action_of ''daily_operations_brief.prepare'' level_prepare [''owner'', ''manager'']
    ''Prepare an aggregate operations brief without employee surveillance or disciplinary recommendations.''
    True False ''operations'' [''operations''] True False False False
    (Some ''workforce_aggregate'') (Some ''aggregate_daily_operations_metrics''),
  action_of ''finance_brief.prepare'' level_prepare [''owner'', ''manager'', ''reviewer'']
    ''Prepare a finance brief from reconciled Finance Core outputs, explicitly carrying period, data-quality and provenance qualifiers.''
    True False ''finance'' [''finance''] True False False False
    (Some ''finance'') (Some ''reconciled_finance_core''),
  action_of ''finance_reconciliation.prepare'' level_prepare [''owner'', ''manager'']
    ''Prepare a reconciliation proposal from the canonical Finance Core without recording a reconciliation run, sending notifications, posting journals or moving money.''
    True False ''finance'' [''finance''] True False False False
    (Some ''finance'') (Some ''reconciled_finance_core''),
  action_of ''journal_entry.prepare'' level_prepare [''owner'', ''manager'', ''reviewer'']
    ''Reserved journal-entry draft action; disabled until ledger evidence-linking and accountant review controls are production-ready.''
    False False ''finance'' [''finance''] True False False False
    (Some ''finance_ledger'') (Some ''reconciled_finance_core''),
  action_of ''filing_draft.prepare'' level_prepare [''owner'', ''manager'', ''reviewer'']
    ''Reserved filing-draft action; disabled until country-rule and form-specific validation is complete.''
    False False ''compliance'' [''compliance''] True False False False
    (Some ''regulatory_filing'') (Some ''country_rules_and_verified_workspace_records''),
  action_of ''payroll_draft.prepare'' level_prepare [''owner'', ''manager'']
    ''Reserved payroll-draft action; disabled because payroll remains outside the launch Finance Core boundary.''
    False False ''finance'' [''finance''] True False False False
    (Some ''payroll'') (Some ''approved_payroll_integration''),
  action_of ''task.create'' level_controlled [''owner'', ''manager'']
    ''Create an internal task through controlled execution.''
    False True ''core'' [''management'', ''compliance'', ''tender'', ''operations'', ''finance''] False False False False
    None None,
  action_of ''document.request'' level_controlled [''owner'', ''manager'']
    ''Send a controlled document request.''
    False False ''compliance'' [''compliance'', ''tender'', ''finance''] False False False True
    None None,
  action_of ''reminder.send'' level_controlled [''owner'', ''manager'']
    ''Send a controlled reminder through an approved notification channel.''
    False False ''core'' [''management'', ''compliance'', ''tender'', ''operations'', ''finance''] False False False True
    None None,
  action_of ''approval.create'' level_controlled [''owner'', ''manager'']
    ''Create an internal approval request without performing the underlying high-risk action.''
    False False ''core'' [''management'', ''compliance'', ''tender'', ''operations'', ''finance''] False False False False
    None None,
  action_of ''journal_entry.post'' level_controlled [''owner'', ''manager'']
    ''Post an approved journal entry to the Finance Core.''
    False False ''finance'' [''finance''] False False False False
    (Some ''finance_ledger'') (Some ''reconciled_finance_core''),
  action_of ''payment.execute'' level_high_risk [''owner'']
    ''Reserved high-risk payment execution.''
    False False ''finance'' [''management'', ''finance''] False True True True
    (Some ''payments'') None,
  action_of ''government_filing.submit'' level_high_risk [''owner'']
    ''Reserved high-risk government filing submission.''
    False False ''compliance'' [''compliance''] False True True True
    (Some ''regulatory_filing'') None,
  action_of ''document.sign'' level_high_risk [''owner'']
    ''Reserved high-risk signature action.''
    False False ''core'' [''management'', ''compliance'', ''tender'', ''finance''] False True True True
    (Some ''signature'') None,
  action_of ''employment.terminate'' level_high_risk [''owner'']
    ''Reserved employment termination action. The agent may never autonomously decide termination.''
    False False ''operations'' [''management''] False True True True
    (Some ''employment'') None,
  action_of ''financing.accept'' level_high_risk [''owner'']
    ''Reserved high-risk financing acceptance action.''
    False False ''finance'' [''management'', ''finance''] False True True True
    (Some ''financing'') None]"

text \<open>\<^verbatim>\<open>AGENT_ACTION_CATALOG[key]\<close>; the object has no prototype, so only its own keys resolve.\<close>

definition AGENT_ACTION_CATALOG :: "string \<Rightarrow> action_def option" where
  "AGENT_ACTION_CATALOG k = map_of (map (\<lambda>d. (a_key d, d)) catalog_list) k"

definition agentCanRouteAction :: "jsval \<Rightarrow> action_def option \<Rightarrow> bool" where
  "agentCanRouteAction agentKey actionDefinition = (let requested = norm_key agentKey in
     if resolveAgentKey (JStr requested) \<noteq> Some ''thebe'' then False
     else (case actionDefinition of None \<Rightarrow> False
       | Some d \<Rightarrow> if requested = ''thebe'' then ''thebe'' \<in> set (a_agents d)
                   else requested \<in> set (a_legacyAgents d)))"

section \<open>The policy\<close>

record policy_request =
  q_agentKey :: jsval
  q_actionKey :: jsval
  q_actorRole :: jsval
  q_tenantScoped :: jsval
  q_systemActor :: jsval
  q_strongAuth :: jsval
  q_approvalState :: jsval
  q_phase :: jsval

record policy_decision =
  d_allowed :: bool
  d_decision :: string
  d_code :: string
  d_reason :: string
  d_policyVersion :: string
  d_capability :: "string option"
  d_action :: "action_def option"
  d_humanReviewRequired :: bool
  d_explicitApprovalRequired :: bool
  d_strongAuthRequired :: bool
  d_externalSideEffect :: bool

definition opt_flag :: "(action_def \<Rightarrow> bool) \<Rightarrow> action_def option \<Rightarrow> bool" where
  "opt_flag f d = (case d of None \<Rightarrow> False | Some x \<Rightarrow> f x)"

definition deny :: "string \<Rightarrow> string \<Rightarrow> action_def option \<Rightarrow> policy_decision" where
  "deny code reason d =
     \<lparr>d_allowed = False, d_decision = ''deny'', d_code = code, d_reason = reason, d_policyVersion = AGENT_POLICY_VERSION,
      d_capability = None, d_action = d,
      d_humanReviewRequired = opt_flag a_humanReviewRequired d,
      d_explicitApprovalRequired = opt_flag a_explicitApprovalRequired d,
      d_strongAuthRequired = opt_flag a_strongAuthRequired d,
      d_externalSideEffect = opt_flag a_externalSideEffect d\<rparr>"

definition phase_of :: "policy_request \<Rightarrow> string" where
  "phase_of q = js_string (jor (dflt (q_phase q) (JStr ''phase1'')) (JStr ''phase1''))"

definition phase_enabled :: "string \<Rightarrow> action_def \<Rightarrow> bool" where
  "phase_enabled launchPhase d \<longleftrightarrow>
     (launchPhase = ''phase1'' \<and> a_phase1Enabled d) \<or>
     (launchPhase = ''bounded_v1'' \<and> a_boundedExecutionEnabled d \<and> a_level d = level_controlled)"

definition allow :: "string \<Rightarrow> action_def \<Rightarrow> policy_decision" where
  "allow launchPhase d =
     (let prepareOnly = (a_level d = level_prepare);
          boundedExecute = (launchPhase = ''bounded_v1'' \<and> a_level d = level_controlled)
      in \<lparr>d_allowed = True,
          d_decision = (if boundedExecute then ''controlled_execute'' else if prepareOnly then ''prepare_only'' else ''allow_read''),
          d_code = (if boundedExecute then ''bounded_execution_policy'' else if prepareOnly then ''human_review_required'' else ''allowed''),
          d_reason = (if boundedExecute then ''The action is eligible for deterministic bounded execution, subject to delegated authority and the runtime guard.''
             else if prepareOnly then ''The agent may create a bounded draft, but a human must review it before any downstream action.''
             else ''The read is permitted within the authenticated tenant and role scope.''),
          d_policyVersion = AGENT_POLICY_VERSION,
          d_capability = Some (a_capability d), d_action = Some d,
          d_humanReviewRequired = (prepareOnly \<or> a_humanReviewRequired d),
          d_explicitApprovalRequired = a_explicitApprovalRequired d,
          d_strongAuthRequired = a_strongAuthRequired d,
          d_externalSideEffect = False\<rparr>)"

definition evaluateAgentAction :: "policy_request \<Rightarrow> policy_decision" where
  "evaluateAgentAction q =
     (if resolveAgentKey (q_agentKey q) = None
      then deny ''unknown_agent'' ''Unknown agent; policy fails closed.'' None
      else (case AGENT_ACTION_CATALOG (str_or (q_actionKey q)) of
        None \<Rightarrow> deny ''unknown_action'' ''Unknown action; policy fails closed.'' None
      | Some d \<Rightarrow>
        (let role = norm_key (q_actorRole q); launchPhase = phase_of q in
         if \<not> is_true (q_tenantScoped q)
         then deny ''tenant_scope_required'' ''Agent actions require an authenticated tenant scope.'' (Some d)
         else if role = ''system_observer'' \<and> \<not> is_true (q_systemActor q)
         then deny ''system_actor_required'' ''The system observer role is reserved for trusted internal scheduled execution.'' (Some d)
         else if \<not> agentCanRouteAction (q_agentKey q) (Some d)
         then deny ''agent_action_mismatch'' ''This request is not authorised for the action's capability.'' (Some d)
         else if role \<notin> set thebe_allowed_roles \<or> role \<notin> set (a_roles d)
         then deny ''role_forbidden'' ''The current role is not authorised for this agent action.'' (Some d)
         else if \<not> phase_enabled launchPhase d
         then deny ''action_not_enabled'' ''The action is not enabled in the current launch phase.'' (Some d)
         else if a_level d = level_high_risk \<and> a_explicitApprovalRequired d \<and> q_approvalState q \<noteq> JStr ''approved''
         then deny ''explicit_approval_required'' ''Explicit human approval is required.'' (Some d)
         else if a_level d = level_high_risk \<and> a_strongAuthRequired d \<and> \<not> is_true (q_strongAuth q)
         then deny ''strong_auth_required'' ''Strong authentication is required.'' (Some d)
         else if a_externalSideEffect d
         then deny ''external_side_effect_not_enabled'' ''The current agent launch phase cannot perform external side effects.'' (Some d)
         else allow launchPhase d)))"

definition listPhase1AgentActions :: "jsval \<Rightarrow> jsval \<Rightarrow> action_def list" where
  "listPhase1AgentActions agentKey actorRole = (let role = norm_key actorRole in
     if resolveAgentKey agentKey = None \<or> role \<notin> set thebe_allowed_roles then []
     else filter (\<lambda>d. a_phase1Enabled d \<and> agentCanRouteAction agentKey (Some d) \<and>
                      role \<in> set (a_roles d) \<and> \<not> a_externalSideEffect d) catalog_list)"

section \<open>Facts about the catalogue\<close>

lemma catalog_Some: "AGENT_ACTION_CATALOG k = Some d \<Longrightarrow> d \<in> set catalog_list \<and> a_key d = k"
  unfolding AGENT_ACTION_CATALOG_def by (auto dest!: map_of_SomeD)

lemma catalog_keys_distinct: "distinct (map a_key catalog_list)"
  by code_simp

lemma catalog_complete: "d \<in> set catalog_list \<Longrightarrow> AGENT_ACTION_CATALOG (a_key d) = Some d"
  unfolding AGENT_ACTION_CATALOG_def using catalog_keys_distinct
  by (auto simp: comp_def intro!: map_of_is_SomeI)

text \<open>What the policy relies on, entry by entry: a phase-1 action is a read or a draft without
  external effect; a bounded action is the internal task and nothing else; every high-risk
  action has an external effect, asks for approval and strong authentication and is the owner's;
  every role of an entry is one of the agent's.\<close>

definition entry_ok :: "action_def \<Rightarrow> bool" where
  "entry_ok d \<longleftrightarrow>
     (a_phase1Enabled d \<longrightarrow> a_level d \<in> {level_read, level_prepare} \<and> \<not> a_externalSideEffect d) \<and>
     (a_boundedExecutionEnabled d \<longrightarrow> a_key d = ''task.create'' \<and> a_level d = level_controlled) \<and>
     (a_level d = level_high_risk \<longrightarrow> a_externalSideEffect d \<and> a_explicitApprovalRequired d \<and>
        a_strongAuthRequired d \<and> a_roles d = [''owner'']) \<and>
     (a_level d = level_prepare \<longrightarrow> a_humanReviewRequired d) \<and>
     a_level d \<in> {level_read, level_prepare, level_controlled, level_high_risk} \<and>
     set (a_roles d) \<subseteq> set thebe_allowed_roles"

lemma catalog_entry_ok_all: "list_all entry_ok catalog_list"
  by code_simp

lemma catalog_entry_ok: "d \<in> set catalog_list \<Longrightarrow> entry_ok d"
  using catalog_entry_ok_all by (simp add: list_all_iff)

lemma catalog_role:
  "AGENT_ACTION_CATALOG k = Some d \<Longrightarrow> r \<in> set (a_roles d) \<Longrightarrow> r \<in> set thebe_allowed_roles"
  using catalog_Some catalog_entry_ok unfolding entry_ok_def by blast

lemma catalog_key_nonempty: "d \<in> set catalog_list \<Longrightarrow> a_key d \<noteq> []"
proof -
  have "list_all (\<lambda>d. a_key d \<noteq> []) catalog_list" by code_simp
  then show "d \<in> set catalog_list \<Longrightarrow> a_key d \<noteq> []" by (simp add: list_all_iff)
qed

section \<open>The policy as a chain of early returns\<close>

definition policy_checks :: "policy_request \<Rightarrow> (bool \<times> string) list" where
  "policy_checks q = (case resolveAgentKey (q_agentKey q) of None \<Rightarrow> [(True, ''unknown_agent'')]
     | Some _ \<Rightarrow> (case AGENT_ACTION_CATALOG (str_or (q_actionKey q)) of None \<Rightarrow> [(True, ''unknown_action'')]
     | Some d \<Rightarrow>
        (let role = norm_key (q_actorRole q) in
         [(\<not> is_true (q_tenantScoped q), ''tenant_scope_required''),
          (role = ''system_observer'' \<and> \<not> is_true (q_systemActor q), ''system_actor_required''),
          (\<not> agentCanRouteAction (q_agentKey q) (Some d), ''agent_action_mismatch''),
          (role \<notin> set thebe_allowed_roles \<or> role \<notin> set (a_roles d), ''role_forbidden''),
          (\<not> phase_enabled (phase_of q) d, ''action_not_enabled''),
          (a_level d = level_high_risk \<and> a_explicitApprovalRequired d \<and> q_approvalState q \<noteq> JStr ''approved'',
           ''explicit_approval_required''),
          (a_level d = level_high_risk \<and> a_strongAuthRequired d \<and> \<not> is_true (q_strongAuth q), ''strong_auth_required''),
          (a_externalSideEffect d, ''external_side_effect_not_enabled'')])))"

lemma deny_simps [simp]: "d_allowed (deny c r d) = False" "d_code (deny c r d) = c" "d_action (deny c r d) = d"
  by (simp_all add: deny_def)

lemma allow_simps [simp]: "d_allowed (allow p d) = True" "d_action (allow p d) = Some d"
  "d_externalSideEffect (allow p d) = False"
  by (simp_all add: allow_def Let_def)

lemma evaluate_by_checks:
  "(case first_fail (policy_checks q) of
      Some e \<Rightarrow> \<not> d_allowed (evaluateAgentAction q) \<and> d_code (evaluateAgentAction q) = e
    | None \<Rightarrow> d_allowed (evaluateAgentAction q))"
proof (cases "resolveAgentKey (q_agentKey q)")
  case None
  then show ?thesis by (simp add: policy_checks_def evaluateAgentAction_def)
next
  case (Some a)
  note a = this
  show ?thesis
  proof (cases "AGENT_ACTION_CATALOG (str_or (q_actionKey q))")
    case None
    with a show ?thesis by (simp add: policy_checks_def evaluateAgentAction_def)
  next
    case (Some d)
    obtain R where R: "evaluateAgentAction q = R" by blast
    have "(case first_fail (policy_checks q) of Some e \<Rightarrow> \<not> d_allowed R \<and> d_code R = e | None \<Rightarrow> d_allowed R)"
      using R unfolding evaluateAgentAction_def Let_def a Some option.case if_False option.distinct
      unfolding policy_checks_def Let_def a Some option.case first_fail_Cons first_fail_Nil
      by (elim if_chain_cases; hypsubst; simp only: deny_simps allow_simps if_True if_False option.case option.distinct
          not_True_eq_False not_False_eq_True simp_thms)
    then show ?thesis unfolding R .
  qed
qed

interpretation policy: guard_chain policy_checks evaluateAgentAction d_allowed d_code
proof unfold_locales
  show "\<not> d_allowed (evaluateAgentAction q) \<and> d_code (evaluateAgentAction q) = e"
    if "first_fail (policy_checks q) = Some e" for q e
    using evaluate_by_checks[of q] that by simp
  show "d_allowed (evaluateAgentAction q)" if "first_fail (policy_checks q) = None" for q
    using evaluate_by_checks[of q] that by simp
qed

lemma evaluate_allowed_action:
  assumes "d_allowed (evaluateAgentAction q)"
  shows "\<exists>d. AGENT_ACTION_CATALOG (str_or (q_actionKey q)) = Some d \<and>
         evaluateAgentAction q = allow (phase_of q) d \<and> phase_enabled (phase_of q) d \<and> \<not> a_externalSideEffect d"
proof -
  have ok: "\<forall>(b, e) \<in> set (policy_checks q). \<not> b" using assms by (simp add: policy.passed_iff)
  then obtain a where a: "resolveAgentKey (q_agentKey q) = Some a"
    by (cases "resolveAgentKey (q_agentKey q)") (auto simp: policy_checks_def)
  with ok obtain d where d: "AGENT_ACTION_CATALOG (str_or (q_actionKey q)) = Some d"
    by (cases "AGENT_ACTION_CATALOG (str_or (q_actionKey q))") (auto simp: policy_checks_def)
  obtain R where R: "evaluateAgentAction q = R" "d_allowed R" using assms by blast
  have "R = allow (phase_of q) d \<and> phase_enabled (phase_of q) d \<and> \<not> a_externalSideEffect d"
    using R unfolding evaluateAgentAction_def Let_def a d option.case
    by (elim if_chain_cases) auto
  then show ?thesis using R d by blast
qed

text \<open>A bounded action that the policy allows is the internal task, in the bounded phase.\<close>

lemma allowed_controlled:
  assumes "d_allowed (evaluateAgentAction q)" "AGENT_ACTION_CATALOG (str_or (q_actionKey q)) = Some d"
    "a_level d = level_controlled"
  shows "a_key d = ''task.create'' \<and> phase_of q = ''bounded_v1''"
proof -
  have "phase_enabled (phase_of q) d" using evaluate_allowed_action[OF assms(1)] assms(2) by auto
  moreover have "entry_ok d" using catalog_Some[OF assms(2)] catalog_entry_ok by blast
  ultimately show ?thesis using assms(3) by (auto simp: phase_enabled_def entry_ok_def level_defs)
qed

section \<open>Properties\<close>

lemma policy_decides:
  "d_allowed (evaluateAgentAction q) \<longleftrightarrow>
     (resolveAgentKey (q_agentKey q) \<noteq> None \<and>
      (\<exists>d. AGENT_ACTION_CATALOG (str_or (q_actionKey q)) = Some d \<and>
        q_tenantScoped q = JBool True \<and>
        \<not> (norm_key (q_actorRole q) = ''system_observer'' \<and> q_systemActor q \<noteq> JBool True) \<and>
        agentCanRouteAction (q_agentKey q) (Some d) \<and>
        norm_key (q_actorRole q) \<in> set (a_roles d) \<and>
        phase_enabled (phase_of q) d \<and>
        \<not> (a_level d = level_high_risk \<and> a_explicitApprovalRequired d \<and> q_approvalState q \<noteq> JStr ''approved'') \<and>
        \<not> (a_level d = level_high_risk \<and> a_strongAuthRequired d \<and> q_strongAuth q \<noteq> JBool True) \<and>
        \<not> a_externalSideEffect d))"
proof (cases "resolveAgentKey (q_agentKey q)")
  case None
  then show ?thesis by (simp add: evaluateAgentAction_def)
next
  case (Some a)
  show ?thesis
  proof (cases "AGENT_ACTION_CATALOG (str_or (q_actionKey q))")
    case None
    then show ?thesis by (simp add: evaluateAgentAction_def)
  next
    case (Some d)
    have role: "(r \<in> set thebe_allowed_roles \<and> r \<in> set (a_roles d) \<and> P) = (r \<in> set (a_roles d) \<and> P)" for r P
      using catalog_role[OF Some] by blast
    show ?thesis
      unfolding policy.passed_iff policy_checks_def Let_def
      by (simp add: Some \<open>resolveAgentKey (q_agentKey q) = Some a\<close> role)
  qed
qed

lemma allow_not_deny: "d_decision (allow p d) \<noteq> ''deny''"
  by (simp add: allow_def Let_def)

lemma decision_denies: "d_decision (evaluateAgentAction q) = ''deny'' \<longleftrightarrow> \<not> d_allowed (evaluateAgentAction q)"
proof (cases "d_allowed (evaluateAgentAction q)")
  case True
  then show ?thesis using evaluate_allowed_action[OF True] allow_not_deny by auto
next
  case False
  obtain R where R: "evaluateAgentAction q = R" by blast
  have "R = allow p d \<Longrightarrow> d_allowed R" for p d by simp
  then have "d_decision R = ''deny''"
    using R False unfolding evaluateAgentAction_def Let_def
    by (elim if_chain_cases case_optionE; auto simp: deny_def split: option.splits if_splits)
  then show ?thesis using False R by simp
qed

lemma policy_reports:
  "(if d_allowed (evaluateAgentAction q) then None else Some (d_code (evaluateAgentAction q))) =
     (if resolveAgentKey (q_agentKey q) = None then Some ''unknown_agent''
      else (case AGENT_ACTION_CATALOG (str_or (q_actionKey q)) of
        None \<Rightarrow> Some ''unknown_action''
      | Some d \<Rightarrow> first_fail
          [(q_tenantScoped q \<noteq> JBool True, ''tenant_scope_required''),
           (norm_key (q_actorRole q) = ''system_observer'' \<and> q_systemActor q \<noteq> JBool True, ''system_actor_required''),
           (\<not> agentCanRouteAction (q_agentKey q) (Some d), ''agent_action_mismatch''),
           (norm_key (q_actorRole q) \<notin> set (a_roles d), ''role_forbidden''),
           (\<not> phase_enabled (phase_of q) d, ''action_not_enabled''),
           (a_level d = level_high_risk \<and> a_explicitApprovalRequired d \<and> q_approvalState q \<noteq> JStr ''approved'',
            ''explicit_approval_required''),
           (a_level d = level_high_risk \<and> a_strongAuthRequired d \<and> q_strongAuth q \<noteq> JBool True,
            ''strong_auth_required''),
           (a_externalSideEffect d, ''external_side_effect_not_enabled'')]))"
proof (cases "resolveAgentKey (q_agentKey q)")
  case None
  then show ?thesis by (simp add: evaluateAgentAction_def)
next
  case (Some a)
  note a = this
  show ?thesis
  proof (cases "AGENT_ACTION_CATALOG (str_or (q_actionKey q))")
    case None
    with a show ?thesis by (simp add: evaluateAgentAction_def)
  next
    case (Some d)
    have role: "r \<notin> set thebe_allowed_roles \<or> r \<notin> set (a_roles d) \<longleftrightarrow> r \<notin> set (a_roles d)" for r
      using catalog_role[OF Some] by blast
    have "(if d_allowed (evaluateAgentAction q) then None else Some (d_code (evaluateAgentAction q))) =
        first_fail (policy_checks q)"
      using evaluate_by_checks[of q] by (auto split: option.splits)
    then show ?thesis
      by (simp only: policy_checks_def Let_def a Some role option.case option.distinct if_False is_true_iff not_False_eq_True refl)
  qed
qed

text \<open>C33: the policy fails closed. It allows a request exactly when the agent key resolves, the
  action is in the catalogue, the tenant scope is the literal \<^verbatim>\<open>true\<close>, a system observer is a
  system actor, the key routes to the action, the role is one of the action's, the action is
  enabled in the launch phase, a high-risk action carries approval and strong authentication,
  and the action has no external side effect. Every other request is answered \<^verbatim>\<open>deny\<close> with the
  code of the first of these checks, in this order, that it fails.\<close>

theorem policy_allows_iff:
  "(d_allowed (evaluateAgentAction q) \<longleftrightarrow>
     (resolveAgentKey (q_agentKey q) \<noteq> None \<and>
      (\<exists>d. AGENT_ACTION_CATALOG (str_or (q_actionKey q)) = Some d \<and>
        q_tenantScoped q = JBool True \<and>
        \<not> (norm_key (q_actorRole q) = ''system_observer'' \<and> q_systemActor q \<noteq> JBool True) \<and>
        agentCanRouteAction (q_agentKey q) (Some d) \<and>
        norm_key (q_actorRole q) \<in> set (a_roles d) \<and>
        phase_enabled (phase_of q) d \<and>
        \<not> (a_level d = level_high_risk \<and> a_explicitApprovalRequired d \<and> q_approvalState q \<noteq> JStr ''approved'') \<and>
        \<not> (a_level d = level_high_risk \<and> a_strongAuthRequired d \<and> q_strongAuth q \<noteq> JBool True) \<and>
        \<not> a_externalSideEffect d))) \<and>
   (d_decision (evaluateAgentAction q) = ''deny'' \<longleftrightarrow> \<not> d_allowed (evaluateAgentAction q)) \<and>
   (if d_allowed (evaluateAgentAction q) then None else Some (d_code (evaluateAgentAction q))) =
     (if resolveAgentKey (q_agentKey q) = None then Some ''unknown_agent''
      else (case AGENT_ACTION_CATALOG (str_or (q_actionKey q)) of
        None \<Rightarrow> Some ''unknown_action''
      | Some d \<Rightarrow> first_fail
          [(q_tenantScoped q \<noteq> JBool True, ''tenant_scope_required''),
           (norm_key (q_actorRole q) = ''system_observer'' \<and> q_systemActor q \<noteq> JBool True, ''system_actor_required''),
           (\<not> agentCanRouteAction (q_agentKey q) (Some d), ''agent_action_mismatch''),
           (norm_key (q_actorRole q) \<notin> set (a_roles d), ''role_forbidden''),
           (\<not> phase_enabled (phase_of q) d, ''action_not_enabled''),
           (a_level d = level_high_risk \<and> a_explicitApprovalRequired d \<and> q_approvalState q \<noteq> JStr ''approved'',
            ''explicit_approval_required''),
           (a_level d = level_high_risk \<and> a_strongAuthRequired d \<and> q_strongAuth q \<noteq> JBool True,
            ''strong_auth_required''),
           (a_externalSideEffect d, ''external_side_effect_not_enabled'')]))"
  by (intro conjI policy_decides decision_denies policy_reports)

text \<open>whatever the request carries (approval and strong authentication included), the policy
  allows only reads, drafts that a human reviews, and, in the bounded launch phase, the internal
  task; no high-risk action and no action with an external side effect.\<close>

lemma policy_allowed_scope:
  assumes "d_allowed (evaluateAgentAction q)"
  shows "\<exists>d. d_action (evaluateAgentAction q) = Some d \<and> a_key d = str_or (q_actionKey q) \<and>
     \<not> a_externalSideEffect d \<and> a_level d \<noteq> level_high_risk \<and>
     (a_level d = level_controlled \<longrightarrow> a_key d = ''task.create'' \<and> phase_of q = ''bounded_v1'') \<and>
     (a_level d = level_prepare \<longrightarrow> d_humanReviewRequired (evaluateAgentAction q))"
proof -
  from assms obtain d where d: "AGENT_ACTION_CATALOG (str_or (q_actionKey q)) = Some d"
    and e: "evaluateAgentAction q = allow (phase_of q) d" "phase_enabled (phase_of q) d" "\<not> a_externalSideEffect d"
    using evaluate_allowed_action by blast
  from d have k: "d \<in> set catalog_list" "a_key d = str_or (q_actionKey q)" by (auto dest: catalog_Some)
  from catalog_entry_ok[OF k(1)] e have "a_level d \<noteq> level_high_risk"
    and "a_level d = level_controlled \<longrightarrow> a_key d = ''task.create'' \<and> phase_of q = ''bounded_v1''"
    by (auto simp: entry_ok_def phase_enabled_def level_defs)
  moreover have "a_level d = level_prepare \<longrightarrow> d_humanReviewRequired (evaluateAgentAction q)"
    by (simp add: e(1) allow_def Let_def)
  ultimately show ?thesis using e k by simp
qed

definition sample_read :: policy_request where
  "sample_read = \<lparr>q_agentKey = JStr ''Finance '', q_actionKey = JStr ''financial_position.read'',
     q_actorRole = JStr ''owner'', q_tenantScoped = JBool True, q_systemActor = Undef,
     q_strongAuth = Undef, q_approvalState = Undef, q_phase = Undef\<rparr>"

lemma sample_read_allowed: "d_allowed (evaluateAgentAction sample_read)"
  by code_simp

lemma policy_allowed_scope_example:
  "d_allowed (evaluateAgentAction sample_read) \<and>
   (\<exists>d. d_action (evaluateAgentAction sample_read) = Some d \<and> a_level d \<noteq> level_high_risk \<and> \<not> a_externalSideEffect d)"
  using sample_read_allowed policy_allowed_scope[OF sample_read_allowed] by blast

text \<open>the list of actions offered to a client agrees with the policy: an action is listed
  for an agent key and a role exactly when the policy allows the request for it in phase 1, in a
  tenant scope, from a system actor.\<close>

lemma listed_iff_allowed:
  "d \<in> set (listPhase1AgentActions agentKey actorRole) \<longleftrightarrow>
     d \<in> set catalog_list \<and>
     d_allowed (evaluateAgentAction \<lparr>q_agentKey = agentKey, q_actionKey = JStr (a_key d),
       q_actorRole = actorRole, q_tenantScoped = JBool True, q_systemActor = JBool True,
       q_strongAuth = sa, q_approvalState = ap, q_phase = JStr ''phase1''\<rparr>)"
proof (cases "d \<in> set catalog_list")
  case True
  have key: "str_or (JStr (a_key d)) = a_key d"
    using catalog_key_nonempty[OF True] by (simp add: str_or_def)
  have role: "norm_key actorRole \<in> set (a_roles d) \<Longrightarrow> norm_key actorRole \<in> set thebe_allowed_roles"
    using catalog_role[OF catalog_complete[OF True]] .
  have ph: "phase_enabled ''phase1'' d \<longleftrightarrow> a_phase1Enabled d" by (simp add: phase_enabled_def)
  have lev: "a_phase1Enabled d \<Longrightarrow> a_level d \<noteq> level_high_risk"
    using catalog_entry_ok[OF True] by (auto simp: entry_ok_def level_defs)
  show ?thesis
    unfolding policy_decides listPhase1AgentActions_def Let_def
    using True role lev by (auto simp: key catalog_complete ph phase_of_def dflt_def jor_def)
next
  case False
  then show ?thesis by (simp add: listPhase1AgentActions_def Let_def)
qed

end
