(* ===== verification/DelegatedAuthority.thy ===== *)
theory DelegatedAuthority imports AgentPolicy begin

text \<open>
  \<^verbatim>\<open>cloudflare/src/delegated-authority.js\<close>: whether a tenant's delegation (a database row)
  lets a bounded action run. The row's columns come under their snake-case or camel-case names
  and are coerced as the code does. Dates are read by the parameter \<open>dp\<close>.
\<close>

definition DELEGATED_AUTHORITY_VERSION :: string where
  "DELEGATED_AUTHORITY_VERSION = ''2026-09-20.stage1_5-shadow-v2''"

definition level_observe :: int where "level_observe = 0"
definition level_recommend :: int where "level_recommend = 1"
definition autonomy_prepare :: int where "autonomy_prepare = 2"
definition level_bounded_execute :: int where "level_bounded_execute = 3"
definition level_human_only :: int where "level_human_only = 4"

lemmas autonomy_defs = level_observe_def level_recommend_def autonomy_prepare_def
  level_bounded_execute_def level_human_only_def

definition NEVER_AUTONOMOUS_ACTIONS :: "string list" where
  "NEVER_AUTONOMOUS_ACTIONS = [''payment.execute'', ''government_filing.submit'', ''document.sign'',
     ''employment.terminate'', ''financing.accept'', ''journal_entry.post'']"

definition asBool :: "jsval \<Rightarrow> bool" where
  "asBool v \<longleftrightarrow> v = JBool True \<or> v = JNum (Fin 1) \<or> v = JStr ''1''"

definition asInt :: "jsval \<Rightarrow> int \<Rightarrow> int" where
  "asInt v fallback = (case to_num v of Fin q \<Rightarrow> if integral q then \<lfloor>q\<rfloor> else fallback | _ \<Rightarrow> fallback)"

definition requiredAutonomyLevel :: "action_def option \<Rightarrow> int" where
  "requiredAutonomyLevel actionDefinition =
     (let level = (case actionDefinition of None \<Rightarrow> 0 | Some d \<Rightarrow> a_level d) in
      if level \<ge> 4 then level_human_only
      else if level = 3 then level_bounded_execute
      else if level = 2 then autonomy_prepare
      else if level = 1 then level_observe
      else level_recommend)"

definition isNeverAutonomousAction :: "jsval \<Rightarrow> bool" where
  "isNeverAutonomousAction actionKey \<longleftrightarrow> str_or actionKey \<in> set NEVER_AUTONOMOUS_ACTIONS"

record grant =
  g_id :: string
  g_tenantId :: string
  g_agentKey :: string
  g_actionKey :: string
  g_status :: string
  g_maxAutonomyLevel :: int
  g_externalSideEffects :: bool
  g_strongAuthRequired :: bool
  g_humanConfirmationRequired :: bool
  g_maxDailyActions :: "int option"
  g_maxAmountMinor :: "int option"
  g_shadowOnly :: bool
  g_validFrom :: jsval
  g_expiresAt :: jsval

text \<open>\<^verbatim>\<open>row.a==null&&row.b==null?null:Math.max(0,asInt(row.a??row.b,0))\<close>.\<close>

definition opt_limit :: "jsval \<Rightarrow> jsval \<Rightarrow> int option" where
  "opt_limit a b = (if nullish a \<and> nullish b then None else Some (max 0 (asInt (coalesce a b) 0)))"

definition normalizeDelegation :: "jsval \<Rightarrow> grant option" where
  "normalizeDelegation row = (if \<not> truthy row then None else Some
     \<lparr>g_id = str_or (fld row ''id''),
      g_tenantId = str_or (jor (fld row ''tenant_id'') (fld row ''tenantId'')),
      g_agentKey = str_or (jor (fld row ''agent_key'') (fld row ''agentKey'')),
      g_actionKey = str_or (jor (fld row ''action_key'') (fld row ''actionKey'')),
      g_status = js_string (jor (fld row ''status'') (JStr ''inactive'')),
      g_maxAutonomyLevel = asInt (coalesce (fld row ''max_autonomy_level'') (fld row ''maxAutonomyLevel'')) 0,
      g_externalSideEffects = asBool (coalesce (fld row ''external_side_effects'') (fld row ''externalSideEffects'')),
      g_strongAuthRequired = asBool (coalesce (fld row ''strong_auth_required'') (fld row ''strongAuthRequired'')),
      g_humanConfirmationRequired =
        asBool (coalesce (fld row ''human_confirmation_required'') (fld row ''humanConfirmationRequired'')),
      g_maxDailyActions = opt_limit (fld row ''max_daily_actions'') (fld row ''maxDailyActions''),
      g_maxAmountMinor = opt_limit (fld row ''max_amount_minor'') (fld row ''maxAmountMinor''),
      g_shadowOnly = (if nullish (fld row ''shadow_only'') \<and> nullish (fld row ''shadowOnly'') then True
                      else asBool (coalesce (fld row ''shadow_only'') (fld row ''shadowOnly''))),
      g_validFrom = jor (jor (fld row ''valid_from'') (fld row ''validFrom'')) Null,
      g_expiresAt = jor (jor (fld row ''expires_at'') (fld row ''expiresAt'')) Null\<rparr>)"

record authority_result =
  r_allowed :: bool
  r_decision :: string
  r_code :: string
  r_reason :: string
  r_requiredAutonomyLevel :: int
  r_policyVersion :: string
  r_delegationId :: "string option"
  r_executionAllowed :: bool
  r_humanReviewRequired :: bool
  r_shadowOnly :: bool

definition result :: "bool \<Rightarrow> string \<Rightarrow> string \<Rightarrow> string \<Rightarrow> int \<Rightarrow> grant option \<Rightarrow> bool \<Rightarrow> bool \<Rightarrow> authority_result" where
  "result allowed decision code reason lvl delegation ex review =
     \<lparr>r_allowed = allowed, r_decision = decision, r_code = code, r_reason = reason,
      r_requiredAutonomyLevel = lvl, r_policyVersion = DELEGATED_AUTHORITY_VERSION,
      r_delegationId = (case delegation of None \<Rightarrow> None | Some g \<Rightarrow> if g_id g = [] then None else Some (g_id g)),
      r_executionAllowed = ex, r_humanReviewRequired = review,
      r_shadowOnly = (case delegation of None \<Rightarrow> True | Some g \<Rightarrow> g_shadowOnly g)\<rparr>"

abbreviation refuse :: "string \<Rightarrow> string \<Rightarrow> int \<Rightarrow> grant option \<Rightarrow> authority_result" where
  "refuse code reason lvl g \<equiv> result False ''deny'' code reason lvl g False False"

abbreviation review :: "string \<Rightarrow> string \<Rightarrow> string \<Rightarrow> int \<Rightarrow> grant option \<Rightarrow> authority_result" where
  "review decision code reason lvl g \<equiv> result False decision code reason lvl g False True"

record authority_request =
  h_agentKey :: jsval
  h_actionKey :: jsval
  h_actionDefinition :: "action_def option"
  h_tenantId :: jsval
  h_delegation :: jsval
  h_mode :: jsval
  h_globalExecutionEnabled :: jsval
  h_amountMinor :: jsval
  h_dailyActionCount :: jsval
  h_strongAuth :: jsval
  h_approvalState :: jsval
  h_now :: jsnum

text \<open>\<^verbatim>\<open>Math.max(0,Number(amountMinor)||0)\<close>: what is not a number counts as 0.\<close>

definition amount_of :: "jsval \<Rightarrow> jsnum" where
  "amount_of v = (let n = to_num (dflt v (JNum (Fin 0))) in num_max (Fin 0) (if n = NaN then Fin 0 else n))"

definition count_of :: "jsval \<Rightarrow> jsnum" where
  "count_of v = to_num (dflt v (JNum (Fin 0)))"

definition shadow_mode :: "authority_request \<Rightarrow> bool" where
  "shadow_mode h \<longleftrightarrow> dflt (h_mode h) (JStr ''shadow'') = JStr ''shadow''"

definition action_key_of :: "authority_request \<Rightarrow> string" where
  "action_key_of h = str_or (jor (h_actionKey h) (case h_actionDefinition h of None \<Rightarrow> Undef | Some d \<Rightarrow> JStr (a_key d)))"

text \<open>The checks on a grant, from the tenant to the amount: the first that fails answers.\<close>

definition evaluateGrant :: "date_parse \<Rightarrow> authority_request \<Rightarrow> action_def \<Rightarrow> grant \<Rightarrow> authority_result" where
  "evaluateGrant dp h d g =
     (let key = action_key_of h;
          requestedAgent = str_or (h_agentKey h);
          authenticatedTenant = trim (str_or (h_tenantId h));
          lvl = requiredAutonomyLevel (Some d);
          validFrom = date_ms dp (g_validFrom g);
          expiresAt = date_ms dp (g_expiresAt g)
      in if authenticatedTenant \<noteq> [] \<and> (g_tenantId g = [] \<or> g_tenantId g \<noteq> authenticatedTenant)
      then refuse ''delegation_tenant_mismatch'' ''The delegation is not bound to the authenticated tenant.'' lvl (Some g)
      else if g_status g \<noteq> ''active''
      then refuse ''delegation_inactive'' ''The delegation is not active.'' lvl (Some g)
      else if requestedAgent \<noteq> [] \<and> g_agentKey g \<noteq> [] \<and> g_agentKey g \<noteq> requestedAgent
      then refuse ''delegation_agent_mismatch'' ''The delegation does not cover this agent.'' lvl (Some g)
      else if g_actionKey g \<noteq> [] \<and> g_actionKey g \<noteq> key
      then refuse ''delegation_action_mismatch'' ''The delegation does not cover this action.'' lvl (Some g)
      else if g_maxAutonomyLevel g < lvl
      then refuse ''delegation_level_insufficient'' ''The delegation autonomy ceiling is below the action requirement.'' lvl (Some g)
      else if truthy (g_validFrom g) \<and> is_finite validFrom \<and> num_lt (h_now h) validFrom
      then refuse ''delegation_not_started'' ''The delegation is not valid yet.'' lvl (Some g)
      else if truthy (g_expiresAt g) \<and> is_finite expiresAt \<and> num_le expiresAt (h_now h)
      then refuse ''delegation_expired'' ''The delegation has expired.'' lvl (Some g)
      else if a_externalSideEffect d \<and> \<not> g_externalSideEffects g
      then refuse ''external_side_effect_not_delegated'' ''The delegation does not permit external side effects.'' lvl (Some g)
      else if g_strongAuthRequired g \<and> h_strongAuth h \<noteq> JStr ''server_verified''
      then review ''review_required'' ''strong_auth_required'' ''Server-verified strong authentication is required before this delegated action could proceed.'' lvl (Some g)
      else if g_humanConfirmationRequired g \<and> h_approvalState h \<noteq> JStr ''approved''
      then review ''review_required'' ''human_confirmation_required'' ''Human confirmation is required by the delegation.'' lvl (Some g)
      else if (case g_maxDailyActions g of None \<Rightarrow> False | Some m \<Rightarrow> num_le (Fin (of_int m)) (count_of (h_dailyActionCount h)))
      then refuse ''daily_action_limit_reached'' ''The delegation daily action limit has been reached.'' lvl (Some g)
      else if (case g_maxAmountMinor g of None \<Rightarrow> False | Some m \<Rightarrow> num_lt (Fin (of_int m)) (amount_of (h_amountMinor h)))
      then refuse ''amount_limit_exceeded'' ''The proposed amount exceeds the delegation limit.'' lvl (Some g)
      else if shadow_mode h
      then result True ''shadow_allow'' ''shadow_policy_pass'' ''The action passes delegated-authority checks in shadow mode. No side effect was executed.'' lvl (Some g) False False
      else if g_shadowOnly g
      then refuse ''shadow_only_grant'' ''This delegation is permanently shadow-only in the current schema.'' lvl (Some g)
      else if \<not> is_true (h_globalExecutionEnabled h)
      then refuse ''execution_globally_disabled'' ''Bounded execution is globally disabled.'' lvl (Some g)
      else result True ''allow_execute'' ''bounded_execution_allowed'' ''The bounded action satisfies delegated-authority controls.'' lvl (Some g) True False)"

definition evaluateDelegatedAuthority :: "date_parse \<Rightarrow> authority_request \<Rightarrow> authority_result" where
  "evaluateDelegatedAuthority dp h =
     (let lvl = requiredAutonomyLevel (h_actionDefinition h);
          grant = normalizeDelegation (h_delegation h)
      in case h_actionDefinition h of
        None \<Rightarrow> refuse ''unknown_action'' ''Unknown action; delegated authority fails closed.'' lvl None
      | Some d \<Rightarrow>
        if action_key_of h \<in> set NEVER_AUTONOMOUS_ACTIONS \<or> lvl = level_human_only
        then review ''human_only'' ''human_only_action'' ''This action is permanently outside autonomous authority and always requires a human decision.'' lvl grant
        else if lvl \<le> autonomy_prepare
        then result True (if shadow_mode h then ''shadow_allow'' else ''policy_allow'') ''delegation_not_required''
               ''This action does not require bounded execution authority.'' lvl grant False (a_humanReviewRequired d)
        else (case grant of
            None \<Rightarrow> refuse ''delegation_required'' ''Bounded execution requires an explicit tenant delegation.'' lvl None
          | Some g \<Rightarrow> evaluateGrant dp h d g))"

section \<open>The grant as a chain of early returns\<close>

definition in_window :: "date_parse \<Rightarrow> authority_request \<Rightarrow> grant \<Rightarrow> bool" where
  "in_window dp h g \<longleftrightarrow>
     \<not> (truthy (g_validFrom g) \<and> is_finite (date_ms dp (g_validFrom g)) \<and> num_lt (h_now h) (date_ms dp (g_validFrom g))) \<and>
     \<not> (truthy (g_expiresAt g) \<and> is_finite (date_ms dp (g_expiresAt g)) \<and> num_le (date_ms dp (g_expiresAt g)) (h_now h))"

definition within_limits :: "authority_request \<Rightarrow> grant \<Rightarrow> bool" where
  "within_limits h g \<longleftrightarrow>
     (\<forall>m. g_maxDailyActions g = Some m \<longrightarrow> \<not> num_le (Fin (of_int m)) (count_of (h_dailyActionCount h))) \<and>
     (\<forall>m. g_maxAmountMinor g = Some m \<longrightarrow> \<not> num_lt (Fin (of_int m)) (amount_of (h_amountMinor h)))"

definition grant_covers :: "authority_request \<Rightarrow> action_def \<Rightarrow> grant \<Rightarrow> bool" where
  "grant_covers h d g \<longleftrightarrow>
     (trim (str_or (h_tenantId h)) \<noteq> [] \<longrightarrow> g_tenantId g = trim (str_or (h_tenantId h))) \<and>
     g_status g = ''active'' \<and>
     (str_or (h_agentKey h) \<noteq> [] \<and> g_agentKey g \<noteq> [] \<longrightarrow> g_agentKey g = str_or (h_agentKey h)) \<and>
     (g_actionKey g \<noteq> [] \<longrightarrow> g_actionKey g = action_key_of h) \<and>
     requiredAutonomyLevel (Some d) \<le> g_maxAutonomyLevel g \<and>
     (a_externalSideEffect d \<longrightarrow> g_externalSideEffects g) \<and>
     (g_strongAuthRequired g \<longrightarrow> h_strongAuth h = JStr ''server_verified'') \<and>
     (g_humanConfirmationRequired g \<longrightarrow> h_approvalState h = JStr ''approved'')"

lemma result_simps [simp]:
  "r_allowed (result a dec c rs l g x rv) = a" "r_code (result a dec c rs l g x rv) = c"
  "r_executionAllowed (result a dec c rs l g x rv) = x" "r_decision (result a dec c rs l g x rv) = dec"
  "r_humanReviewRequired (result a dec c rs l g x rv) = rv"
  by (simp_all add: result_def)

lemma opt_case_iff: "(case x of None \<Rightarrow> False | Some m \<Rightarrow> P m) \<longleftrightarrow> (\<exists>m. x = Some m \<and> P m)"
  by (cases x) auto

lemma if_allowed [simp]:
  "r_allowed (if b then result False dec c rs l g False rv else y) \<longleftrightarrow> \<not> b \<and> r_allowed y"
  "r_executionAllowed (if b then result a dec c rs l g False rv else y) \<longleftrightarrow> \<not> b \<and> r_executionAllowed y"
  by simp_all

lemma tenant_unbound: "(T \<noteq> [] \<and> (t = [] \<or> t \<noteq> T)) = (T \<noteq> [] \<and> t \<noteq> T)" for T t :: string
  by blast

lemma evaluateGrant_allowed:
  "r_allowed (evaluateGrant dp h d g) \<longleftrightarrow>
     grant_covers h d g \<and> in_window dp h g \<and> within_limits h g \<and>
     (shadow_mode h \<or> \<not> g_shadowOnly g \<and> h_globalExecutionEnabled h = JBool True)"
  unfolding evaluateGrant_def Let_def grant_covers_def in_window_def within_limits_def opt_case_iff
  by (simp add: not_less tenant_unbound) argo

lemma evaluateGrant_executes:
  "r_executionAllowed (evaluateGrant dp h d g) \<longleftrightarrow> r_allowed (evaluateGrant dp h d g) \<and> \<not> shadow_mode h"
  unfolding evaluateGrant_def Let_def by simp

lemma required_level_simps:
  "requiredAutonomyLevel (Some d) = level_bounded_execute \<longleftrightarrow> a_level d = 3"
  "requiredAutonomyLevel (Some d) = level_human_only \<longleftrightarrow> a_level d \<ge> 4"
  "requiredAutonomyLevel (Some d) \<le> autonomy_prepare \<longleftrightarrow> a_level d < 3"
  by (auto simp: requiredAutonomyLevel_def autonomy_defs Let_def)

definition grant_pass :: "authority_request \<Rightarrow> action_def \<Rightarrow> grant \<Rightarrow> authority_result" where
  "grant_pass h d g =
    (if shadow_mode h
     then result True ''shadow_allow'' ''shadow_policy_pass'' ''The action passes delegated-authority checks in shadow mode. No side effect was executed.'' (requiredAutonomyLevel (Some d)) (Some g) False False
     else result True ''allow_execute'' ''bounded_execution_allowed'' ''The bounded action satisfies delegated-authority controls.'' (requiredAutonomyLevel (Some d)) (Some g) True False)"

lemma evaluateGrant_result:
  assumes "r_allowed (evaluateGrant dp h d g)"
  shows "evaluateGrant dp h d g = grant_pass h d g"
proof -
  obtain R where R: "evaluateGrant dp h d g = R" "r_allowed R" using assms by blast
  have "R = grant_pass h d g"
    using R unfolding evaluateGrant_def Let_def by (elim if_chain_cases; hypsubst; simp only: result_simps grant_pass_def if_True if_False)
  then show ?thesis using R by simp
qed

section \<open>Properties\<close>

lemma execution_decided:
  "r_executionAllowed (evaluateDelegatedAuthority dp h) \<longleftrightarrow>
     (\<exists>d g. h_actionDefinition h = Some d \<and> normalizeDelegation (h_delegation h) = Some g \<and>
        a_level d = 3 \<and> action_key_of h \<notin> set NEVER_AUTONOMOUS_ACTIONS \<and>
        grant_covers h d g \<and> in_window dp h g \<and> within_limits h g \<and>
        \<not> g_shadowOnly g \<and> \<not> shadow_mode h \<and> h_globalExecutionEnabled h = JBool True)"
proof (cases "h_actionDefinition h")
  case None
  then show ?thesis by (simp add: evaluateDelegatedAuthority_def)
next
  case (Some d)
  then show ?thesis
    by (auto simp: evaluateDelegatedAuthority_def Let_def required_level_simps evaluateGrant_executes
        evaluateGrant_allowed split: option.splits)
qed

text \<open>C32: a side effect is authorised exactly when the action is a bounded one outside the
  never-autonomous list, the tenant has a grant that covers tenant, agent, action, level,
  authentication and confirmation, the clock is in the grant's window, the daily count and the
  amount are within its limits, the grant is not shadow-only, the mode is not shadow and
  execution is switched on globally by the literal \<^verbatim>\<open>true\<close>.\<close>

theorem execution_authorised_iff:
  "r_executionAllowed (evaluateDelegatedAuthority dp h) \<longleftrightarrow>
     (\<exists>d g. h_actionDefinition h = Some d \<and> normalizeDelegation (h_delegation h) = Some g \<and>
        a_level d = 3 \<and> action_key_of h \<notin> set NEVER_AUTONOMOUS_ACTIONS \<and>
        grant_covers h d g \<and> in_window dp h g \<and> within_limits h g \<and>
        \<not> g_shadowOnly g \<and> \<not> shadow_mode h \<and> h_globalExecutionEnabled h = JBool True)"
  by (rule execution_decided)

lemma never_autonomous_denied:
  "action_key_of h \<in> set NEVER_AUTONOMOUS_ACTIONS \<Longrightarrow> \<not> r_allowed (evaluateDelegatedAuthority dp h)"
  by (cases "h_actionDefinition h") (simp_all add: evaluateDelegatedAuthority_def)

lemma allowed_needs_grant:
  assumes "r_allowed (evaluateDelegatedAuthority dp h)" "h_actionDefinition h = Some d" "a_level d \<ge> 3"
  shows "\<exists>g. normalizeDelegation (h_delegation h) = Some g \<and> r_allowed (evaluateGrant dp h d g) \<and>
           evaluateDelegatedAuthority dp h = evaluateGrant dp h d g"
  using assms required_level_simps[of d]
  by (cases "normalizeDelegation (h_delegation h)")
    (auto simp: evaluateDelegatedAuthority_def Let_def split: if_splits)

lemma num_le_trans: "num_le a b \<Longrightarrow> num_le b c \<Longrightarrow> num_le a c"
  by (cases a; cases b; cases c) auto

lemma num_lt_le_trans: "num_lt a b \<Longrightarrow> num_le b c \<Longrightarrow> num_lt a c"
  by (cases a; cases b; cases c) auto

lemma within_limits_mono:
  assumes "within_limits h g"
    and "num_le (amount_of (h_amountMinor h')) (amount_of (h_amountMinor h))"
    and "num_le (count_of (h_dailyActionCount h')) (count_of (h_dailyActionCount h))"
  shows "within_limits h' g"
  using assms unfolding within_limits_def by (meson num_le_trans num_lt_le_trans)

text \<open>The limits are ceilings. Whatever is authorised stays authorised, in the same way, for
  a smaller amount and a smaller daily count.\<close>

lemma authority_antimono:
  assumes "r_allowed (evaluateDelegatedAuthority dp h)"
    and "num_le (amount_of amount') (amount_of (h_amountMinor h))"
    and "num_le (count_of count') (count_of (h_dailyActionCount h))"
  shows "evaluateDelegatedAuthority dp (h\<lparr>h_amountMinor := amount', h_dailyActionCount := count'\<rparr>) =
         evaluateDelegatedAuthority dp h"
proof -
  let ?h = "h\<lparr>h_amountMinor := amount', h_dailyActionCount := count'\<rparr>"
  have same: "action_key_of ?h = action_key_of h" "shadow_mode ?h = shadow_mode h"
    by (simp_all add: action_key_of_def shadow_mode_def)
  have grant: "evaluateGrant dp ?h d g = evaluateGrant dp h d g"
    if "r_allowed (evaluateGrant dp h d g)" for d g
  proof -
    have w: "within_limits h g" using that by (simp add: evaluateGrant_allowed)
    then have "within_limits ?h g" using assms(2,3) by (auto intro: within_limits_mono)
    with that have "r_allowed (evaluateGrant dp ?h d g)"
      by (simp add: evaluateGrant_allowed same grant_covers_def in_window_def)
    from evaluateGrant_result[OF this] evaluateGrant_result[OF that] show ?thesis
      by (simp add: grant_pass_def same)
  qed
  show ?thesis
  proof (cases "h_actionDefinition h")
    case None
    then show ?thesis by (simp add: evaluateDelegatedAuthority_def)
  next
    case (Some d)
    have low: "requiredAutonomyLevel (Some d) \<le> autonomy_prepare \<Longrightarrow> ?thesis"
      by (simp add: evaluateDelegatedAuthority_def same Let_def Some)
    have high: "\<not> requiredAutonomyLevel (Some d) \<le> autonomy_prepare \<Longrightarrow> ?thesis"
      using allowed_needs_grant[OF assms(1) Some] grant
      by (auto simp: evaluateDelegatedAuthority_def same Let_def Some required_level_simps)
    show ?thesis using low high by blast
  qed
qed

definition sample_grant :: jsval where
  "sample_grant = JObj [(''id'', JStr ''g1''), (''tenant_id'', JStr ''t1''), (''agent_key'', JStr ''thebe''),
     (''action_key'', JStr ''task.create''), (''status'', JStr ''active''), (''max_autonomy_level'', JInt 3),
     (''max_daily_actions'', JInt 5), (''max_amount_minor'', JInt 1000), (''shadow_only'', JInt 0),
     (''valid_from'', JNum (Fin 100)), (''expires_at'', JNum (Fin 200))]"

definition sample_authority :: authority_request where
  "sample_authority = \<lparr>h_agentKey = JStr ''thebe'', h_actionKey = JStr ''task.create'',
     h_actionDefinition = AGENT_ACTION_CATALOG ''task.create'', h_tenantId = JStr ''t1'',
     h_delegation = sample_grant, h_mode = JStr ''execute'', h_globalExecutionEnabled = JBool True,
     h_amountMinor = JInt 900, h_dailyActionCount = JInt 4, h_strongAuth = Undef, h_approvalState = Undef,
     h_now = Fin 150\<rparr>"

lemma sample_authority_evaluated:
  "r_executionAllowed (evaluateDelegatedAuthority (\<lambda>_. None) sample_authority) \<and>
   r_allowed (evaluateDelegatedAuthority (\<lambda>_. None) sample_authority) \<and>
   num_le (amount_of (JInt 10)) (amount_of (h_amountMinor sample_authority)) \<and>
   num_le (count_of (JInt 0)) (count_of (h_dailyActionCount sample_authority))"
  by code_simp

lemma authority_antimono_example:
  "r_executionAllowed (evaluateDelegatedAuthority (\<lambda>_. None)
     (sample_authority\<lparr>h_amountMinor := JInt 10, h_dailyActionCount := JInt 0\<rparr>))"
  using authority_antimono[of "\<lambda>_. None" sample_authority "JInt 10" "JInt 0"] sample_authority_evaluated by simp

end
