(* ===== verification/RuntimeGuard.thy ===== *)
theory RuntimeGuard imports DelegatedAuthority begin

text \<open>
  \<^verbatim>\<open>cloudflare/src/agent-cost-admission.js\<close> and \<^verbatim>\<open>cloudflare/src/agent-runtime-guard.js\<close>: the
  check before every tool call. It composes the cost admission, the action policy
  (\<^verbatim>\<open>AgentPolicy\<close>) and the delegated authority (\<^verbatim>\<open>DelegatedAuthority\<close>).
\<close>

section \<open>Cost admission\<close>

definition AGENT_COST_POLICY_VERSION :: string where
  "AGENT_COST_POLICY_VERSION = ''2026-10-08.v1''"

text \<open>\<^verbatim>\<open>Number.isSafeInteger(value)&&value>=0\<close>, with no coercion.\<close>

fun validMinor :: "jsval \<Rightarrow> bool" where
  "validMinor (JNum (Fin q)) = (integral q \<and> 0 \<le> q \<and> q \<le> of_int max_safe)"
| "validMinor _ = False"

fun minor_of :: "jsval \<Rightarrow> int" where
  "minor_of (JNum (Fin q)) = \<lfloor>q\<rfloor>"
| "minor_of _ = 0"

record cost_decision =
  k_allowed :: bool
  k_code :: string
  k_remainingMinor :: "int option"
  k_version :: string

definition cost_deny :: "string \<Rightarrow> cost_decision" where
  "cost_deny c = \<lparr>k_allowed = False, k_code = c, k_remainingMinor = None, k_version = AGENT_COST_POLICY_VERSION\<rparr>"

text \<open>The argument is the object the caller passes, whose fields are read as they are.\<close>

definition evaluateAgentCostAdmission :: "jsval \<Rightarrow> cost_decision" where
  "evaluateAgentCostAdmission arg =
     (let tenantId = fld arg ''tenantId''; actorTenantId = fld arg ''actorTenantId''; agentId = fld arg ''agentId'';
          est = fld arg ''estimatedCostMinor''; spent = fld arg ''spentMinor''; budget = fld arg ''budgetMinor''
      in if \<not> is_true (fld arg ''enabled'') then cost_deny ''cost_admission_disabled''
      else if \<not> truthy tenantId \<or> \<not> truthy actorTenantId \<or> js_string tenantId \<noteq> js_string actorTenantId
      then cost_deny ''cost_tenant_mismatch''
      else if \<not> truthy agentId \<or> \<not> is_jstr agentId then cost_deny ''agent_identity_required''
      else if is_true (fld arg ''suspended'') then cost_deny ''agent_suspended''
      else if \<not> is_true (dflt (fld arg ''usageKnown'') (JBool True)) then cost_deny ''cost_usage_unknown''
      else if \<not> list_all validMinor [est, spent, budget] then cost_deny ''cost_amount_invalid''
      else if minor_of est > minor_of budget - minor_of spent then cost_deny ''agent_cost_budget_exceeded''
      else \<lparr>k_allowed = True, k_code = ''cost_admitted'',
            k_remainingMinor = Some (minor_of budget - minor_of spent - minor_of est),
            k_version = AGENT_COST_POLICY_VERSION\<rparr>)"

record agent_usage =
  u_provider :: string
  u_model :: string
  u_runId :: string
  u_inputTokens :: int
  u_outputTokens :: int
  u_estimatedCostMinor :: int
  u_currency :: string
  u_verifiedCost :: bool

definition normalizeAgentUsage :: "jsval \<Rightarrow> agent_usage option" where
  "normalizeAgentUsage arg =
     (let provider = fld arg ''provider''; model = fld arg ''model''; runId = fld arg ''runId'';
          inp = fld arg ''inputTokens''; outp = fld arg ''outputTokens''; est = fld arg ''estimatedCostMinor''
      in if \<not> truthy provider \<or> \<not> truthy model \<or> \<not> truthy runId \<or>
            \<not> is_jstr provider \<or> \<not> is_jstr model \<or> \<not> is_jstr runId then None
      else if \<not> list_all validMinor [inp, outp, est] then None
      else Some \<lparr>u_provider = js_string provider, u_model = js_string model, u_runId = js_string runId,
        u_inputTokens = minor_of inp, u_outputTokens = minor_of outp, u_estimatedCostMinor = minor_of est,
        u_currency = ''BWP'', u_verifiedCost = False\<rparr>)"

section \<open>The guard\<close>

record guard_request =
  w_agentKey :: jsval
  w_actionKey :: jsval
  w_actorRole :: jsval
  w_systemActor :: jsval
  w_tenantScoped :: jsval
  w_tenantId :: jsval
  w_actorTenantId :: jsval
  w_targetTenantId :: jsval
  w_agentStatus :: jsval
  w_killSwitchActive :: jsval
  w_budgetStatus :: jsval
  w_costAdmission :: jsval
  w_approvalState :: jsval
  w_approvalPayloadHash :: jsval
  w_actionPayloadHash :: jsval
  w_strongAuth :: jsval
  w_delegation :: jsval
  w_mode :: jsval
  w_globalExecutionEnabled :: jsval
  w_amountMinor :: jsval
  w_dailyActionCount :: jsval
  w_phase :: jsval
  w_now :: jsnum

record guard_result =
  v_allowed :: bool
  v_executionAllowed :: bool
  v_decision :: string
  v_code :: string
  v_reason :: string
  v_guardVersion :: string
  v_action :: "action_def option"
  v_policy :: "policy_decision option"
  v_authority :: "authority_result option"
  v_preExecutionMonitor :: bool
  v_auditRequired :: bool

definition AGENT_RUNTIME_GUARD_VERSION :: string where
  "AGENT_RUNTIME_GUARD_VERSION = ''2026-09-20.pre-execution-v3''"

definition guard_deny :: "string \<Rightarrow> string \<Rightarrow> action_def option \<Rightarrow> policy_decision option
    \<Rightarrow> authority_result option \<Rightarrow> guard_result" where
  "guard_deny code reason d p a =
     \<lparr>v_allowed = False, v_executionAllowed = False, v_decision = ''deny'', v_code = code, v_reason = reason,
      v_guardVersion = AGENT_RUNTIME_GUARD_VERSION, v_action = d, v_policy = p, v_authority = a,
      v_preExecutionMonitor = True, v_auditRequired = True\<rparr>"

definition scopedTenant :: "guard_request \<Rightarrow> string" where
  "scopedTenant w = trim (str_or (w_tenantId w))"

text \<open>\<^verbatim>\<open>String(x||scopedTenant).trim()\<close>.\<close>

definition tenant_or :: "jsval \<Rightarrow> string \<Rightarrow> string" where
  "tenant_or v t = trim (if truthy v then js_string v else t)"

definition approval_of :: "guard_request \<Rightarrow> string" where
  "approval_of w = js_string (jor (dflt (w_approvalState w) (JStr ''none'')) (JStr ''none''))"

definition execution_requested :: "guard_request \<Rightarrow> bool" where
  "execution_requested w \<longleftrightarrow> js_string (dflt (w_mode w) (JStr ''shadow'')) = ''execute''"

definition guard_policy_request :: "guard_request \<Rightarrow> policy_request" where
  "guard_policy_request w =
     \<lparr>q_agentKey = dflt (w_agentKey w) (JStr ''thebe''), q_actionKey = JStr (str_or (w_actionKey w)),
      q_actorRole = w_actorRole w, q_tenantScoped = JBool True,
      q_systemActor = dflt (w_systemActor w) (JBool False),
      q_strongAuth = JBool (w_strongAuth w = JStr ''server_verified''),
      q_approvalState = dflt (w_approvalState w) (JStr ''none''),
      q_phase = dflt (w_phase w) (JStr ''phase1'')\<rparr>"

definition guard_authority_request :: "guard_request \<Rightarrow> action_def \<Rightarrow> authority_request" where
  "guard_authority_request w d =
     \<lparr>h_agentKey = dflt (w_agentKey w) (JStr ''thebe''), h_actionKey = JStr (str_or (w_actionKey w)),
      h_actionDefinition = Some d, h_tenantId = JStr (scopedTenant w), h_delegation = w_delegation w,
      h_mode = dflt (w_mode w) (JStr ''shadow''),
      h_globalExecutionEnabled = dflt (w_globalExecutionEnabled w) (JBool False),
      h_amountMinor = w_amountMinor w, h_dailyActionCount = w_dailyActionCount w,
      h_strongAuth = dflt (w_strongAuth w) (JStr ''none''),
      h_approvalState = dflt (w_approvalState w) (JStr ''none''), h_now = w_now w\<rparr>"

definition evaluateAgentRuntimeGuard :: "date_parse \<Rightarrow> guard_request \<Rightarrow> guard_result" where
  "evaluateAgentRuntimeGuard dp w =
    (let key = str_or (w_actionKey w);
         scoped = scopedTenant w;
         actorTenant = tenant_or (w_actorTenantId w) scoped;
         targetTenant = tenant_or (w_targetTenantId w) scoped
     in case AGENT_ACTION_CATALOG key of
       None \<Rightarrow> guard_deny ''unknown_action'' ''Unknown action; runtime guard fails closed.'' None None None
     | Some d \<Rightarrow>
      if \<not> is_true (w_tenantScoped w) \<or> scoped = []
      then guard_deny ''tenant_scope_required'' ''A verified tenant scope is required before an agent tool call.'' (Some d) None None
      else if actorTenant = [] \<or> targetTenant = [] \<or> actorTenant \<noteq> scoped \<or> targetTenant \<noteq> scoped
      then guard_deny ''cross_tenant_forbidden'' ''Actor, target and authenticated tenant scope must match.'' (Some d) None None
      else if js_string (dflt (w_agentStatus w) (JStr ''enabled'')) \<noteq> ''enabled''
      then guard_deny ''agent_disabled'' ''Thebe execution is disabled for this agent identity.'' (Some d) None None
      else if is_true (w_killSwitchActive w)
      then guard_deny ''runtime_kill_switch_active'' ''The tenant or platform agent kill switch is active.'' (Some d) None None
      else if js_string (dflt (w_budgetStatus w) (JStr ''within_limit'')) \<noteq> ''within_limit''
      then guard_deny ''agent_budget_exceeded'' ''The applicable agent/model/action budget is not within its allowed limit.'' (Some d) None None
      else if dflt (w_costAdmission w) Null \<noteq> Null \<and> \<not> k_allowed (evaluateAgentCostAdmission (w_costAdmission w))
      then guard_deny (k_code (evaluateAgentCostAdmission (w_costAdmission w))) ''Agent cost admission denied this tool call.'' (Some d) None None
      else if isNeverAutonomousAction (JStr key)
      then guard_deny ''human_only_action'' ''This action is permanently human-only and cannot be made autonomous by a model or delegation.'' (Some d) None None
      else if approval_of w = ''approved'' \<and> (trim (str_or (w_approvalPayloadHash w)) = [] \<or> trim (str_or (w_actionPayloadHash w)) = [])
      then guard_deny ''approval_payload_binding_required'' ''Approved actions must carry both the approved payload hash and the current action payload hash.'' (Some d) None None
      else if approval_of w = ''approved'' \<and> trim (str_or (w_approvalPayloadHash w)) \<noteq> trim (str_or (w_actionPayloadHash w))
      then guard_deny ''stale_approval_payload'' ''Approval is bound to a different action payload; re-approval is required.'' (Some d) None None
      else
       (let policy = evaluateAgentAction (guard_policy_request w);
            authority = evaluateDelegatedAuthority dp (guard_authority_request w d)
        in if \<not> d_allowed policy
        then guard_deny (d_code policy) (d_reason policy) (Some d) (Some policy) None
        else if \<not> r_allowed authority
        then guard_deny (r_code authority) (r_reason authority) (Some d) (Some policy) (Some authority)
        else if execution_requested w \<and> \<not> r_executionAllowed authority
        then guard_deny (r_code authority) ''Execution was requested but deterministic delegated authority did not authorize side effects.'' (Some d) (Some policy) (Some authority)
        else \<lparr>v_allowed = True,
              v_executionAllowed = (execution_requested w \<and> r_executionAllowed authority),
              v_decision = (if execution_requested w then ''allow_execute'' else d_decision policy),
              v_code = (if execution_requested w then ''runtime_execution_allowed'' else ''runtime_policy_pass''),
              v_reason = (if execution_requested w then ''The tool call passed the deterministic pre-execution guard.''
                 else ''The tool call passed the deterministic runtime guard without enabling execution.''),
              v_guardVersion = AGENT_RUNTIME_GUARD_VERSION, v_action = Some d, v_policy = Some policy,
              v_authority = Some authority, v_preExecutionMonitor = True, v_auditRequired = True\<rparr>))"

section \<open>Facts\<close>

lemma guard_deny_simps [simp]:
  "v_allowed (guard_deny c r d p a) = False" "v_executionAllowed (guard_deny c r d p a) = False"
  "v_code (guard_deny c r d p a) = c"
  by (simp_all add: guard_deny_def)

lemma validMinor_bounds: "validMinor v \<Longrightarrow> 0 \<le> minor_of v \<and> minor_of v \<le> max_safe"
  by (induction v rule: validMinor.induct) (auto simp: integral_def floor_le_iff)

lemma if_guard [simp]:
  "v_allowed (if b then guard_deny c r d p a else y) \<longleftrightarrow> \<not> b \<and> v_allowed y"
  "v_executionAllowed (if b then guard_deny c r d p a else y) \<longleftrightarrow> \<not> b \<and> v_executionAllowed y"
  by simp_all

text \<open>The checks the guard makes itself, before the policy and the authority.\<close>

definition guard_prechecks :: "guard_request \<Rightarrow> bool" where
  "guard_prechecks w \<longleftrightarrow>
     w_tenantScoped w = JBool True \<and> scopedTenant w \<noteq> [] \<and>
     tenant_or (w_actorTenantId w) (scopedTenant w) = scopedTenant w \<and>
     tenant_or (w_targetTenantId w) (scopedTenant w) = scopedTenant w \<and>
     js_string (dflt (w_agentStatus w) (JStr ''enabled'')) = ''enabled'' \<and>
     w_killSwitchActive w \<noteq> JBool True \<and>
     js_string (dflt (w_budgetStatus w) (JStr ''within_limit'')) = ''within_limit'' \<and>
     (dflt (w_costAdmission w) Null \<noteq> Null \<longrightarrow> k_allowed (evaluateAgentCostAdmission (w_costAdmission w))) \<and>
     str_or (w_actionKey w) \<notin> set NEVER_AUTONOMOUS_ACTIONS \<and>
     (approval_of w = ''approved'' \<longrightarrow> trim (str_or (w_approvalPayloadHash w)) \<noteq> [] \<and>
        trim (str_or (w_approvalPayloadHash w)) = trim (str_or (w_actionPayloadHash w)))"

lemma cross_tenant_iff:
  "(S \<noteq> [] \<and> \<not> (A = [] \<or> T = [] \<or> A \<noteq> S \<or> T \<noteq> S)) = (S \<noteq> [] \<and> A = S \<and> T = S)" for S A T :: string
  by blast

lemma approval_bound_iff:
  "(\<not> (ap \<and> (h = [] \<or> k = [])) \<and> \<not> (ap \<and> h \<noteq> k)) = (ap \<longrightarrow> h \<noteq> [] \<and> h = k)" for h k :: string
  by blast

lemma scoped_trim [simp]: "trim (scopedTenant w) = scopedTenant w"
  by (simp add: scopedTenant_def)

lemma never_key [simp]: "isNeverAutonomousAction (JStr k) \<longleftrightarrow> k \<in> set NEVER_AUTONOMOUS_ACTIONS"
  by (auto simp: isNeverAutonomousAction_def str_or_def NEVER_AUTONOMOUS_ACTIONS_def)

lemma guard_allowed:
  "v_allowed (evaluateAgentRuntimeGuard dp w) \<longleftrightarrow>
     (\<exists>d. AGENT_ACTION_CATALOG (str_or (w_actionKey w)) = Some d \<and> guard_prechecks w \<and>
        d_allowed (evaluateAgentAction (guard_policy_request w)) \<and>
        r_allowed (evaluateDelegatedAuthority dp (guard_authority_request w d)) \<and>
        (execution_requested w \<longrightarrow> r_executionAllowed (evaluateDelegatedAuthority dp (guard_authority_request w d))))"
proof (cases "AGENT_ACTION_CATALOG (str_or (w_actionKey w))")
  case None
  then show ?thesis by (simp add: evaluateAgentRuntimeGuard_def)
next
  case (Some d)
  show ?thesis
    unfolding evaluateAgentRuntimeGuard_def Let_def Some option.case if_guard guard_prechecks_def
    using cross_tenant_iff[of "scopedTenant w" "tenant_or (w_actorTenantId w) (scopedTenant w)" "tenant_or (w_targetTenantId w) (scopedTenant w)"]
      approval_bound_iff[of "approval_of w = ''approved''" "trim (str_or (w_approvalPayloadHash w))" "trim (str_or (w_actionPayloadHash w))"]
    by (simp add: is_true_iff) argo
qed

lemma guard_executes0:
  "v_executionAllowed (evaluateAgentRuntimeGuard dp w) \<longleftrightarrow>
     (\<exists>d. AGENT_ACTION_CATALOG (str_or (w_actionKey w)) = Some d \<and> guard_prechecks w \<and>
        d_allowed (evaluateAgentAction (guard_policy_request w)) \<and>
        r_allowed (evaluateDelegatedAuthority dp (guard_authority_request w d)) \<and> execution_requested w \<and>
        r_executionAllowed (evaluateDelegatedAuthority dp (guard_authority_request w d)))"
proof (cases "AGENT_ACTION_CATALOG (str_or (w_actionKey w))")
  case None
  then show ?thesis by (simp add: evaluateAgentRuntimeGuard_def)
next
  case (Some d)
  show ?thesis
    unfolding evaluateAgentRuntimeGuard_def Let_def Some option.case if_guard guard_prechecks_def
    using cross_tenant_iff[of "scopedTenant w" "tenant_or (w_actorTenantId w) (scopedTenant w)" "tenant_or (w_targetTenantId w) (scopedTenant w)"]
      approval_bound_iff[of "approval_of w = ''approved''" "trim (str_or (w_approvalPayloadHash w))" "trim (str_or (w_actionPayloadHash w))"]
    by (simp add: is_true_iff) argo
qed

lemma guard_executes:
  "v_executionAllowed (evaluateAgentRuntimeGuard dp w) \<longleftrightarrow>
     v_allowed (evaluateAgentRuntimeGuard dp w) \<and> execution_requested w"
  unfolding guard_allowed guard_executes0 by blast

section \<open>Properties\<close>

text \<open>cost admission admits only what the budget still covers: the estimate, the spending and
  the budget are whole amounts in the safe range, spending plus estimate stay within the budget,
  and the remaining amount it reports is exactly what is left.\<close>

lemma cost_admitted_within_budget:
  assumes "k_allowed (evaluateAgentCostAdmission req)"
  shows "0 \<le> minor_of (fld req ''estimatedCostMinor'') \<and> 0 \<le> minor_of (fld req ''spentMinor'') \<and>
    minor_of (fld req ''spentMinor'') + minor_of (fld req ''estimatedCostMinor'') \<le> minor_of (fld req ''budgetMinor'') \<and>
    minor_of (fld req ''budgetMinor'') \<le> max_safe \<and>
    k_remainingMinor (evaluateAgentCostAdmission req) =
      Some (minor_of (fld req ''budgetMinor'') - minor_of (fld req ''spentMinor'') - minor_of (fld req ''estimatedCostMinor''))"
  using assms
  by (auto simp: evaluateAgentCostAdmission_def Let_def cost_deny_def dest: validMinor_bounds split: if_splits)

definition sample_cost :: jsval where
  "sample_cost = JObj [(''tenantId'', JStr ''t1''), (''actorTenantId'', JStr ''t1''), (''agentId'', JStr ''THEBE-001''),
     (''estimatedCostMinor'', JInt 40), (''spentMinor'', JInt 50), (''budgetMinor'', JInt 100), (''enabled'', JBool True)]"

lemma sample_cost_admitted: "k_allowed (evaluateAgentCostAdmission sample_cost)"
  by code_simp

lemma cost_admitted_within_budget_example:
  "k_allowed (evaluateAgentCostAdmission sample_cost) \<and>
   minor_of (fld sample_cost ''spentMinor'') + minor_of (fld sample_cost ''estimatedCostMinor'') \<le> minor_of (fld sample_cost ''budgetMinor'')"
  using sample_cost_admitted cost_admitted_within_budget[OF sample_cost_admitted] by blast

text \<open>The catalogue's entry of the one action that can be executed.\<close>

definition task_create_entry :: "action_def \<Rightarrow> bool" where
  "task_create_entry d \<longleftrightarrow> a_level d = 3 \<and> a_roles d = [''owner'', ''manager''] \<and>
     a_boundedExecutionEnabled d \<and> \<not> a_externalSideEffect d \<and> \<not> a_phase1Enabled d"

lemma task_create_catalog: "\<exists>d. AGENT_ACTION_CATALOG ''task.create'' = Some d \<and> task_create_entry d"
proof -
  have "case AGENT_ACTION_CATALOG ''task.create'' of None \<Rightarrow> False | Some d \<Rightarrow> task_create_entry d" by code_simp
  then show ?thesis by (auto split: option.splits)
qed

text \<open>The policy's and the authority's answers for that action, in terms of the guard's request.\<close>

lemma str_or_str [simp]: "str_or (JStr (str_or v)) = str_or v"
  by (simp add: str_or_def)

lemma dflt_str_eq: "c \<noteq> b \<Longrightarrow> dflt v (JStr b) = JStr c \<longleftrightarrow> v = JStr c"
  by (cases v) (auto simp: dflt_def)

lemma policy_on_task:
  assumes k: "str_or (w_actionKey w) = ''task.create''" and d: "AGENT_ACTION_CATALOG ''task.create'' = Some d"
    and e: "task_create_entry d"
  shows "d_allowed (evaluateAgentAction (guard_policy_request w)) \<longleftrightarrow>
    phase_of (guard_policy_request w) = ''bounded_v1'' \<and>
    resolveAgentKey (dflt (w_agentKey w) (JStr ''thebe'')) \<noteq> None \<and>
    norm_key (w_actorRole w) \<in> {''owner'', ''manager''} \<and>
    agentCanRouteAction (dflt (w_agentKey w) (JStr ''thebe'')) (Some d)"
proof -
  let ?q = "guard_policy_request w"
  have ph: "phase_enabled (phase_of ?q) d \<longleftrightarrow> phase_of ?q = ''bounded_v1''"
    using e by (auto simp: phase_enabled_def task_create_entry_def level_defs)
  have q: "q_agentKey ?q = dflt (w_agentKey w) (JStr ''thebe'')" "str_or (q_actionKey ?q) = ''task.create''"
    "q_tenantScoped ?q = JBool True" "q_actorRole ?q = w_actorRole w"
    using k by (simp_all add: guard_policy_request_def)
  have en: "a_level d \<noteq> level_high_risk" "set (a_roles d) = {''owner'', ''manager''}" "\<not> a_externalSideEffect d"
    using e by (simp_all add: task_create_entry_def level_defs)
  have obs: "(\<not> (r = ''system_observer'' \<and> B) \<and> A \<and> r \<in> {''owner'', ''manager''} \<and> P) =
      (A \<and> r \<in> {''owner'', ''manager''} \<and> P)" for r :: string and A B P by auto
  have one: "(\<exists>x. Some d = Some x \<and> P x) = P d" for P by auto
  show ?thesis
    unfolding policy_decides q d one en(2) obs ph using en by argo
qed

lemma authority_on_task:
  assumes k: "str_or (w_actionKey w) = ''task.create''" and d: "AGENT_ACTION_CATALOG ''task.create'' = Some d"
    and e: "task_create_entry d" and pre: "guard_prechecks w" and x: "execution_requested w"
  shows "r_executionAllowed (evaluateDelegatedAuthority dp (guard_authority_request w d)) \<longleftrightarrow>
    w_globalExecutionEnabled w = JBool True \<and>
    (\<exists>g. normalizeDelegation (w_delegation w) = Some g \<and>
        g_tenantId g = scopedTenant w \<and> g_status g = ''active'' \<and>
        (g_agentKey g = [] \<or> str_or (dflt (w_agentKey w) (JStr ''thebe'')) = [] \<or>
         g_agentKey g = str_or (dflt (w_agentKey w) (JStr ''thebe''))) \<and>
        (g_actionKey g = [] \<or> g_actionKey g = ''task.create'') \<and>
        3 \<le> g_maxAutonomyLevel g \<and>
        (g_strongAuthRequired g \<longrightarrow> w_strongAuth w = JStr ''server_verified'') \<and>
        (g_humanConfirmationRequired g \<longrightarrow> w_approvalState w = JStr ''approved'') \<and>
        \<not> g_shadowOnly g \<and>
        in_window dp (guard_authority_request w d) g \<and> within_limits (guard_authority_request w d) g)"
proof -
  let ?h = "guard_authority_request w d"
  have key: "action_key_of ?h = ''task.create''"
    using k by (simp add: action_key_of_def guard_authority_request_def jor_def)
  have never: "''task.create'' \<notin> set NEVER_AUTONOMOUS_ACTIONS" using pre k by (simp add: guard_prechecks_def)
  have mode: "\<not> shadow_mode ?h"
    using x by (auto simp: shadow_mode_def execution_requested_def guard_authority_request_def dflt_def)
  have lvl: "requiredAutonomyLevel (Some d) = 3"
    using e by (simp add: requiredAutonomyLevel_def task_create_entry_def autonomy_defs)
  have glob: "h_globalExecutionEnabled ?h = JBool True \<longleftrightarrow> w_globalExecutionEnabled w = JBool True"
    by (auto simp: guard_authority_request_def dflt_def split: jsval.splits if_splits)
  have ten: "trim (str_or (h_tenantId ?h)) = scopedTenant w" "scopedTenant w \<noteq> []"
    using pre by (simp_all add: guard_authority_request_def guard_prechecks_def)
  have h: "str_or (h_agentKey ?h) = str_or (dflt (w_agentKey w) (JStr ''thebe''))"
    "h_strongAuth ?h = JStr ''server_verified'' \<longleftrightarrow> w_strongAuth w = JStr ''server_verified''"
    "h_approvalState ?h = JStr ''approved'' \<longleftrightarrow> w_approvalState w = JStr ''approved''"
    by (simp_all add: guard_authority_request_def dflt_str_eq)
  have ext: "\<not> a_externalSideEffect d" using e by (simp add: task_create_entry_def)
  have cov: "grant_covers ?h d g \<longleftrightarrow> g_tenantId g = scopedTenant w \<and> g_status g = ''active'' \<and>
      (g_agentKey g = [] \<or> str_or (dflt (w_agentKey w) (JStr ''thebe'')) = [] \<or>
       g_agentKey g = str_or (dflt (w_agentKey w) (JStr ''thebe''))) \<and>
      (g_actionKey g = [] \<or> g_actionKey g = ''task.create'') \<and> 3 \<le> g_maxAutonomyLevel g \<and>
      (g_strongAuthRequired g \<longrightarrow> w_strongAuth w = JStr ''server_verified'') \<and>
      (g_humanConfirmationRequired g \<longrightarrow> w_approvalState w = JStr ''approved'')" for g
    unfolding grant_covers_def ten(1) key lvl h using ten(2) ext by blast
  have dl: "h_actionDefinition ?h = Some d" "h_delegation ?h = w_delegation w"
    by (simp_all add: guard_authority_request_def)
  have l3: "a_level d = 3" using e by (simp add: task_create_entry_def)
  have one: "(\<exists>x g. Some d = Some x \<and> P x g) = (\<exists>g. P d g)" for P :: "action_def \<Rightarrow> grant \<Rightarrow> bool" by auto
  show ?thesis
    unfolding execution_decided key glob dl one cov using mode never l3 by (simp only: simp_thms) blast
qed

lemma executes_allowed:
  "r_executionAllowed (evaluateDelegatedAuthority dp h) \<Longrightarrow> r_allowed (evaluateDelegatedAuthority dp h)"
  by (auto simp: evaluateDelegatedAuthority_def Let_def evaluateGrant_executes split: option.splits if_splits)

lemma guard_runs_task_only:
  assumes "v_executionAllowed (evaluateAgentRuntimeGuard dp w)"
  shows "str_or (w_actionKey w) = ''task.create''"
proof -
  from assms obtain d where d: "AGENT_ACTION_CATALOG (str_or (w_actionKey w)) = Some d"
    and pol: "d_allowed (evaluateAgentAction (guard_policy_request w))"
    and ex: "r_executionAllowed (evaluateDelegatedAuthority dp (guard_authority_request w d))"
    by (auto simp: guard_executes0)
  from ex have "a_level d = 3" by (auto simp: execution_decided guard_authority_request_def)
  then have "a_key d = ''task.create''"
    using allowed_controlled[OF pol] d by (simp add: guard_policy_request_def level_defs)
  then show ?thesis using catalog_Some[OF d] by simp
qed

lemma guard_on_task:
  assumes k: "str_or (w_actionKey w) = ''task.create''" and d: "AGENT_ACTION_CATALOG ''task.create'' = Some d"
  shows "v_executionAllowed (evaluateAgentRuntimeGuard dp w) \<longleftrightarrow> execution_requested w \<and> guard_prechecks w \<and>
    d_allowed (evaluateAgentAction (guard_policy_request w)) \<and>
    r_executionAllowed (evaluateDelegatedAuthority dp (guard_authority_request w d))"
  unfolding guard_executes0 using k d executes_allowed by auto

text \<open>C23: the guard authorises a side effect exactly when all of this holds, and for no other
  action: the internal task in the bounded launch phase, on an explicit execute request, with
  execution switched on globally by the literal \<^verbatim>\<open>true\<close>; the guard's own checks (one tenant, agent
  enabled, kill switch off, budget and cost within their limits, an approval, when there is one,
  bound to the very payload being run); an agent key that resolves and routes to the action and
  the role of an owner or a manager; and a grant of the tenant that is active, bound to this
  agent and action where it names any, of autonomy level 3 or more, with the strong
  authentication and the confirmation it asks for, not shadow-only, within its time window and
  its daily and amount limits.\<close>

theorem guard_execution_requires:
  "v_executionAllowed (evaluateAgentRuntimeGuard dp w) \<longleftrightarrow>
     str_or (w_actionKey w) = ''task.create'' \<and> phase_of (guard_policy_request w) = ''bounded_v1'' \<and>
     js_string (dflt (w_mode w) (JStr ''shadow'')) = ''execute'' \<and>
     w_globalExecutionEnabled w = JBool True \<and> guard_prechecks w \<and>
     resolveAgentKey (dflt (w_agentKey w) (JStr ''thebe'')) \<noteq> None \<and>
     norm_key (w_actorRole w) \<in> {''owner'', ''manager''} \<and>
     (\<exists>d g. AGENT_ACTION_CATALOG ''task.create'' = Some d \<and>
        agentCanRouteAction (dflt (w_agentKey w) (JStr ''thebe'')) (Some d) \<and>
        normalizeDelegation (w_delegation w) = Some g \<and>
        g_tenantId g = scopedTenant w \<and> g_status g = ''active'' \<and>
        (g_agentKey g = [] \<or> str_or (dflt (w_agentKey w) (JStr ''thebe'')) = [] \<or>
         g_agentKey g = str_or (dflt (w_agentKey w) (JStr ''thebe''))) \<and>
        (g_actionKey g = [] \<or> g_actionKey g = ''task.create'') \<and>
        3 \<le> g_maxAutonomyLevel g \<and>
        (g_strongAuthRequired g \<longrightarrow> w_strongAuth w = JStr ''server_verified'') \<and>
        (g_humanConfirmationRequired g \<longrightarrow> w_approvalState w = JStr ''approved'') \<and>
        \<not> g_shadowOnly g \<and>
        in_window dp (guard_authority_request w d) g \<and> within_limits (guard_authority_request w d) g)"
proof (cases "str_or (w_actionKey w) = ''task.create''")
  case True
  note k = this
  obtain d where d: "AGENT_ACTION_CATALOG ''task.create'' = Some d" and e: "task_create_entry d"
    using task_create_catalog by blast
  show ?thesis
  proof (cases "execution_requested w \<and> guard_prechecks w")
    case True
    have one: "(\<exists>x g. Some d = Some x \<and> A x \<and> B x g) = (A d \<and> (\<exists>g. B d g))" for A B by blast
    show ?thesis
      unfolding guard_on_task[OF k d] policy_on_task[OF k d e] one d k
        authority_on_task[OF k d e conjunct2[OF True] conjunct1[OF True]] execution_requested_def
      by (intro iffI; elim conjE; intro conjI refl; assumption)
  next
    case False
    then show ?thesis unfolding guard_on_task[OF k d] execution_requested_def by blast
  qed
next
  case False
  then show ?thesis using guard_runs_task_only by blast
qed

definition sample_guard :: guard_request where
  "sample_guard = \<lparr>w_agentKey = Undef, w_actionKey = JStr ''task.create'', w_actorRole = JStr ''owner'',
     w_systemActor = Undef, w_tenantScoped = JBool True, w_tenantId = JStr ''t1'', w_actorTenantId = Undef,
     w_targetTenantId = Undef, w_agentStatus = Undef, w_killSwitchActive = JBool False, w_budgetStatus = Undef,
     w_costAdmission = sample_cost, w_approvalState = JStr ''approved'', w_approvalPayloadHash = JStr ''h1'',
     w_actionPayloadHash = JStr ''h1'', w_strongAuth = Undef, w_delegation = sample_grant,
     w_mode = JStr ''execute'', w_globalExecutionEnabled = JBool True, w_amountMinor = Undef,
     w_dailyActionCount = Undef, w_phase = JStr ''bounded_v1'', w_now = Fin 150\<rparr>"

lemma sample_guard_executes: "v_executionAllowed (evaluateAgentRuntimeGuard (\<lambda>_. None) sample_guard)"
  by code_simp

theorem guard_execution_requires_witness:
  "v_executionAllowed (evaluateAgentRuntimeGuard (\<lambda>_. None) sample_guard) \<and>
   guard_prechecks sample_guard \<and> w_globalExecutionEnabled sample_guard = JBool True \<and>
   norm_key (w_actorRole sample_guard) \<in> {''owner'', ''manager''} \<and>
   \<not> v_executionAllowed (evaluateAgentRuntimeGuard (\<lambda>_. None) (sample_guard\<lparr>w_globalExecutionEnabled := JInt 1\<rparr>))"
  using sample_guard_executes guard_execution_requires[of "\<lambda>_. None" sample_guard]
    guard_execution_requires[of "\<lambda>_. None" "sample_guard\<lparr>w_globalExecutionEnabled := JInt 1\<rparr>"]
  by simp

end
