(* ===== verification/CostLedger.thy ===== *)
theory CostLedger imports RuntimeGuard begin

text \<open>
  \<^verbatim>\<open>cloudflare/src/agent-cost-reservations.js\<close> over the tables and triggers of
  \<^verbatim>\<open>cloudflare/migrations/068_agent_cost_accounting.sql\<close>: budget reservations that are made,
  settled against the actual charge, or released. A statement is a function on the tables that
  fails (\<^const>\<open>None\<close>) when a constraint or a trigger aborts it; a batch commits all of its
  statements or none.
\<close>

section \<open>Tables\<close>

record budget_row =
  b_tenant :: string
  b_agent :: string
  b_budget :: int
  b_spent :: int
  b_reserved :: int
  b_enabled :: bool
  b_suspended :: bool

datatype res_status = Reserved | Settled | Released

record reservation =
  rv_id :: string
  rv_tenant :: string
  rv_agent :: string
  rv_run :: string
  rv_estimate :: int
  rv_actual :: "int option"
  rv_status :: res_status
  rv_provider :: string
  rv_model :: string
  rv_inputTokens :: int
  rv_outputTokens :: int

record cost_event =
  ev_reservation :: string
  ev_tenant :: string
  ev_agent :: string
  ev_type :: res_status
  ev_estimate :: int
  ev_actual :: "int option"

record cost_db =
  budgets :: "budget_row list"
  reservations :: "reservation list"
  events :: "cost_event list"
  deletion_pending :: "string list"
  db_up :: bool

definition budget_of :: "cost_db \<Rightarrow> string \<Rightarrow> string \<Rightarrow> budget_row option" where
  "budget_of s t a = find (\<lambda>b. b_tenant b = t \<and> b_agent b = a) (budgets s)"

definition reservation_of :: "cost_db \<Rightarrow> string \<Rightarrow> reservation option" where
  "reservation_of s i = find (\<lambda>r. rv_id r = i) (reservations s)"

definition update_budget :: "string \<Rightarrow> string \<Rightarrow> (budget_row \<Rightarrow> budget_row) \<Rightarrow> cost_db \<Rightarrow> cost_db" where
  "update_budget t a f s = s\<lparr>budgets := update_where (\<lambda>b. (b_tenant b, b_agent b) = (t, a)) f (budgets s)\<rparr>"

text \<open>\<^verbatim>\<open>INSERT INTO agent_cost_reservations\<close>: the primary key, the unique run, the deletion guard,
  the foreign key, and the trigger that moves the estimate into the reserved column.\<close>

definition insert_reservation :: "reservation \<Rightarrow> cost_db \<Rightarrow> cost_db option" where
  "insert_reservation r s =
     (if reservation_of s (rv_id r) \<noteq> None \<or>
         list_ex (\<lambda>x. (rv_tenant x, rv_agent x, rv_run x) = (rv_tenant r, rv_agent r, rv_run r)) (reservations s) \<or>
         rv_tenant r \<in> set (deletion_pending s) \<or> rv_estimate r < 0
      then None
      else (case budget_of s (rv_tenant r) (rv_agent r) of
          None \<Rightarrow> None
        | Some b \<Rightarrow>
            if b_enabled b \<and> \<not> b_suspended b \<and> b_spent b + b_reserved b + rv_estimate r \<le> b_budget b
            then Some ((update_budget (rv_tenant r) (rv_agent r)
                   (\<lambda>b. b\<lparr>b_reserved := b_reserved b + rv_estimate r\<rparr>) s)\<lparr>reservations := reservations s @ [r]\<rparr>)
            else None))"

text \<open>\<^verbatim>\<open>INSERT INTO agent_cost_events\<close>: one event of each type per reservation, and only one that
  agrees with the reservation's row.\<close>

definition insert_event :: "cost_event \<Rightarrow> cost_db \<Rightarrow> cost_db option" where
  "insert_event e s =
     (if list_ex (\<lambda>x. ev_reservation x = ev_reservation e \<and> ev_type x = ev_type e) (events s) then None
      else (case reservation_of s (ev_reservation e) of
          None \<Rightarrow> None
        | Some r \<Rightarrow>
            if rv_tenant r = ev_tenant e \<and> rv_agent r = ev_agent e \<and> rv_estimate r = ev_estimate e \<and>
               rv_status r = ev_type e \<and>
               (if ev_type e = Settled then ev_actual e \<noteq> None \<and> ev_actual e = rv_actual r else ev_actual e = None)
            then Some (s\<lparr>events := events s @ [e]\<rparr>)
            else None))"

text \<open>\<^verbatim>\<open>UPDATE agent_cost_reservations SET status=...\<close> on the row of a key, when it is still
  reserved, with the trigger that moves the amounts. The count is the rows changed.\<close>

definition settle_row :: "string \<Rightarrow> string \<Rightarrow> string \<Rightarrow> int \<Rightarrow> int \<Rightarrow> (reservation \<Rightarrow> reservation) \<Rightarrow> cost_db
    \<Rightarrow> (nat \<times> cost_db) option" where
  "settle_row i t a est actual f s =
     (case find (\<lambda>r. rv_id r = i \<and> rv_tenant r = t \<and> rv_agent r = a \<and> rv_status r = Reserved \<and> rv_estimate r = est) (reservations s) of
        None \<Rightarrow> Some (0, s)
      | Some r \<Rightarrow> (case budget_of s t a of
          None \<Rightarrow> None
        | Some b \<Rightarrow>
            if b_reserved b \<ge> est \<and> b_spent b + b_reserved b - est + actual \<le> b_budget b
            then Some (1, (update_budget t a (\<lambda>b. b\<lparr>b_reserved := b_reserved b - est, b_spent := b_spent b + actual\<rparr>) s)
                   \<lparr>reservations := update_where (\<lambda>x. rv_id x = i) (\<lambda>x. (f x)\<lparr>rv_status := Settled, rv_actual := Some actual\<rparr>) (reservations s)\<rparr>)
            else None))"

definition release_row :: "string \<Rightarrow> string \<Rightarrow> string \<Rightarrow> cost_db \<Rightarrow> (nat \<times> cost_db) option" where
  "release_row i t a s =
     (case find (\<lambda>r. rv_id r = i \<and> rv_tenant r = t \<and> rv_agent r = a \<and> rv_status r = Reserved) (reservations s) of
        None \<Rightarrow> Some (0, s)
      | Some r \<Rightarrow> (case budget_of s t a of
          None \<Rightarrow> None
        | Some b \<Rightarrow>
            if b_reserved b \<ge> rv_estimate r
            then Some (1, (update_budget t a (\<lambda>b. b\<lparr>b_reserved := b_reserved b - rv_estimate r\<rparr>) s)
                   \<lparr>reservations := update_where (\<lambda>x. rv_id x = i) (\<lambda>x. x\<lparr>rv_status := Released\<rparr>) (reservations s)\<rparr>)
            else None))"

text \<open>The journal entry of a status change: \<^verbatim>\<open>INSERT ... SELECT ... WHERE status=? AND
  changes()=1\<close>; no row when the update changed none.\<close>

definition journal :: "res_status \<Rightarrow> string \<Rightarrow> (nat \<times> cost_db) \<Rightarrow> (nat \<times> cost_db) option" where
  "journal st i ns = (case ns of (n, s) \<Rightarrow>
     (case reservation_of s i of
        None \<Rightarrow> Some (0, s)
      | Some r \<Rightarrow> if rv_status r = st \<and> n = 1
          then map_option (Pair 1) (insert_event
                 \<lparr>ev_reservation = i, ev_tenant = rv_tenant r, ev_agent = rv_agent r, ev_type = st,
                  ev_estimate = rv_estimate r, ev_actual = (if st = Settled then rv_actual r else None)\<rparr> s)
          else Some (0, s)))"

section \<open>Operations\<close>

record cost_args =
  c_tenantId :: jsval
  c_actorTenantId :: jsval
  c_agentId :: jsval
  c_runId :: jsval
  c_reservationId :: jsval
  c_estimatedCostMinor :: jsval
  c_actualCostMinor :: jsval
  c_provider :: jsval
  c_model :: jsval
  c_inputTokens :: jsval
  c_outputTokens :: jsval

definition isIdentifier :: "jsval \<Rightarrow> bool" where
  "isIdentifier v \<longleftrightarrow> is_jstr v \<and> trim (js_string v) \<noteq> []"

text \<open>The answer and the tables after it. \<open>seen\<close> is the state the handler read its budget or
  reservation from, \<open>s\<close> the state its batch runs on: other requests may commit in between.\<close>

type_synonym cost_answer = "bool \<times> string"

definition reserveAgentCost :: "cost_db \<Rightarrow> cost_args \<Rightarrow> cost_db \<Rightarrow> cost_answer \<times> cost_db" where
  "reserveAgentCost seen c s =
    (let t = js_string (c_tenantId c); a = js_string (c_agentId c); i = js_string (c_reservationId c);
         est = minor_of (c_estimatedCostMinor c)
     in if \<not> isIdentifier (c_tenantId c) \<or> c_tenantId c \<noteq> c_actorTenantId c \<or> \<not> isIdentifier (c_agentId c) \<or>
           \<not> isIdentifier (c_runId c) \<or> \<not> isIdentifier (c_reservationId c) \<or> \<not> validMinor (c_estimatedCostMinor c)
     then ((False, ''cost_reservation_invalid''), s)
     else if \<not> db_up seen then ((False, ''cost_reservation_unavailable''), s)
     else (case budget_of seen t a of
         None \<Rightarrow> ((False, ''cost_budget_missing''), s)
       | Some b \<Rightarrow>
         if \<not> list_all validMinor [JInt (b_spent b), JInt (b_reserved b), JInt (b_budget b)]
         then ((False, ''cost_budget_invalid''), s)
         else (let decision = evaluateAgentCostAdmission (JObj
                 [(''tenantId'', c_tenantId c), (''actorTenantId'', c_actorTenantId c), (''agentId'', c_agentId c),
                  (''estimatedCostMinor'', c_estimatedCostMinor c), (''spentMinor'', JInt (b_spent b + b_reserved b)),
                  (''budgetMinor'', JInt (b_budget b)), (''enabled'', JBool (b_enabled b)),
                  (''suspended'', JBool (b_suspended b)), (''usageKnown'', JBool True)])
           in if \<not> k_allowed decision then ((False, k_code decision), s)
           else (case Option.bind (insert_reservation
                   \<lparr>rv_id = i, rv_tenant = t, rv_agent = a, rv_run = js_string (c_runId c), rv_estimate = est,
                    rv_actual = None, rv_status = Reserved, rv_provider = [], rv_model = [],
                    rv_inputTokens = 0, rv_outputTokens = 0\<rparr> s)
                 (insert_event \<lparr>ev_reservation = i, ev_tenant = t, ev_agent = a, ev_type = Reserved,
                    ev_estimate = est, ev_actual = None\<rparr>) of
               None \<Rightarrow> ((False, ''cost_reservation_conflict''), s)
             | Some s' \<Rightarrow> if db_up s then ((True, ''cost_reserved''), s') else ((False, ''cost_reservation_conflict''), s)))))"

definition settleAgentCost :: "cost_db \<Rightarrow> cost_args \<Rightarrow> cost_db \<Rightarrow> cost_answer \<times> cost_db" where
  "settleAgentCost seen c s =
    (let t = js_string (c_tenantId c); a = js_string (c_agentId c); i = js_string (c_reservationId c);
         actual = minor_of (c_actualCostMinor c)
     in if \<not> isIdentifier (c_tenantId c) \<or> c_tenantId c \<noteq> c_actorTenantId c \<or> \<not> isIdentifier (c_agentId c) \<or>
           \<not> isIdentifier (c_reservationId c) \<or>
           \<not> list_all validMinor [c_actualCostMinor c, c_inputTokens c, c_outputTokens c] \<or>
           \<not> isIdentifier (c_provider c) \<or> \<not> isIdentifier (c_model c)
     then ((False, ''cost_settlement_invalid''), s)
     else if \<not> db_up seen then ((False, ''cost_settlement_conflict''), s)
     else (case find (\<lambda>r. rv_id r = i \<and> rv_tenant r = t \<and> rv_agent r = a) (reservations seen) of
         None \<Rightarrow> ((False, ''cost_reservation_not_active''), s)
       | Some row \<Rightarrow>
         if rv_status row \<noteq> Reserved \<or> \<not> validMinor (JInt (rv_estimate row))
         then ((False, ''cost_reservation_not_active''), s)
         else (case Option.bind (settle_row i t a (rv_estimate row) actual
                 (\<lambda>x. x\<lparr>rv_provider := take 100 (trim (js_string (c_provider c))),
                        rv_model := take 100 (trim (js_string (c_model c))),
                        rv_inputTokens := minor_of (c_inputTokens c), rv_outputTokens := minor_of (c_outputTokens c)\<rparr>) s)
                 (journal Settled i) of
             None \<Rightarrow> ((False, ''cost_settlement_conflict''), s)
           | Some (n, s') \<Rightarrow> if \<not> db_up s then ((False, ''cost_settlement_conflict''), s)
               else if n \<noteq> 1 then ((False, ''cost_settlement_conflict''), s')
               else ((True, ''cost_settled''), s'))))"

definition releaseAgentCost :: "cost_args \<Rightarrow> cost_db \<Rightarrow> cost_answer \<times> cost_db" where
  "releaseAgentCost c s =
    (let t = js_string (c_tenantId c); a = js_string (c_agentId c); i = js_string (c_reservationId c)
     in if \<not> isIdentifier (c_tenantId c) \<or> c_tenantId c \<noteq> c_actorTenantId c \<or> \<not> isIdentifier (c_agentId c) \<or>
           \<not> isIdentifier (c_reservationId c)
     then ((False, ''cost_release_invalid''), s)
     else if \<not> db_up s then ((False, ''cost_release_conflict''), s)
     else (case Option.bind (release_row i t a s) (journal Released i) of
         None \<Rightarrow> ((False, ''cost_release_conflict''), s)
       | Some (n, s') \<Rightarrow> if n \<noteq> 1 then ((False, ''cost_release_conflict''), s')
           else ((True, ''cost_released''), s')))"

datatype cost_op =
    ReserveOp cost_db cost_args
  | SettleOp cost_db cost_args
  | ReleaseOp cost_args

fun cost_step :: "cost_op \<Rightarrow> cost_db \<Rightarrow> cost_db" where
  "cost_step (ReserveOp seen c) s = snd (reserveAgentCost seen c s)"
| "cost_step (SettleOp seen c) s = snd (settleAgentCost seen c s)"
| "cost_step (ReleaseOp c) s = snd (releaseAgentCost c s)"

section \<open>The accounting invariant\<close>

text \<open>Of the budget of a tenant and an agent, what a reservation holds and what it has spent.\<close>

definition held :: "string \<Rightarrow> string \<Rightarrow> reservation \<Rightarrow> int" where
  "held t a r = (if rv_tenant r = t \<and> rv_agent r = a \<and> rv_status r = Reserved then rv_estimate r else 0)"

definition charged :: "string \<Rightarrow> string \<Rightarrow> reservation \<Rightarrow> int" where
  "charged t a r = (if rv_tenant r = t \<and> rv_agent r = a \<and> rv_status r = Settled
     then (case rv_actual r of None \<Rightarrow> 0 | Some x \<Rightarrow> x) else 0)"

definition budget_ok :: "reservation list \<Rightarrow> budget_row \<Rightarrow> bool" where
  "budget_ok rs b \<longleftrightarrow> b_spent b + b_reserved b \<le> b_budget b \<and>
     b_reserved b = col_sum (held (b_tenant b) (b_agent b)) rs \<and>
     b_spent b = col_sum (charged (b_tenant b) (b_agent b)) rs"

definition row_ok :: "reservation \<Rightarrow> bool" where
  "row_ok r \<longleftrightarrow> 0 \<le> rv_estimate r \<and> (case rv_actual r of None \<Rightarrow> rv_status r \<noteq> Settled | Some x \<Rightarrow> 0 \<le> x \<and> rv_status r = Settled)"

definition ledger_inv :: "cost_db \<Rightarrow> bool" where
  "ledger_inv s \<longleftrightarrow> distinct (map (\<lambda>b. (b_tenant b, b_agent b)) (budgets s)) \<and>
     distinct (map rv_id (reservations s)) \<and>
     (\<forall>b \<in> set (budgets s). budget_ok (reservations s) b) \<and> (\<forall>r \<in> set (reservations s). row_ok r)"

text \<open>The view \<^verbatim>\<open>agent_cost_ledger_gaps\<close>: the reservations whose journal lacks an entry.\<close>

definition has_event :: "cost_db \<Rightarrow> string \<Rightarrow> res_status \<Rightarrow> bool" where
  "has_event s i st \<longleftrightarrow> (\<exists>e \<in> set (events s). ev_reservation e = i \<and> ev_type e = st)"

definition agent_cost_ledger_gaps :: "cost_db \<Rightarrow> reservation list" where
  "agent_cost_ledger_gaps s = filter (\<lambda>r. \<not> has_event s (rv_id r) Reserved \<or>
     (rv_status r \<in> {Settled, Released} \<and> \<not> has_event s (rv_id r) (rv_status r))) (reservations s)"

definition cost_inv :: "cost_db \<Rightarrow> bool" where
  "cost_inv s \<longleftrightarrow> ledger_inv s \<and> agent_cost_ledger_gaps s = []"

lemma held_nonneg: "row_ok r \<Longrightarrow> 0 \<le> held t a r"
  by (simp add: held_def row_ok_def)

lemma charged_nonneg: "row_ok r \<Longrightarrow> 0 \<le> charged t a r"
  by (simp add: charged_def row_ok_def split: option.splits)

lemma ledger_inv_nonneg:
  "ledger_inv s \<Longrightarrow> b \<in> set (budgets s) \<Longrightarrow> 0 \<le> b_spent b \<and> 0 \<le> b_reserved b"
  by (auto simp: ledger_inv_def budget_ok_def intro!: col_sum_nonneg held_nonneg charged_nonneg)

lemma insert_event_eq: "insert_event e s = Some s' \<Longrightarrow> s' = s\<lparr>events := events s @ [e]\<rparr>"
  by (auto simp: insert_event_def split: option.splits if_splits)

lemma ledger_inv_events [simp]: "ledger_inv (s\<lparr>events := es\<rparr>) = ledger_inv s"
  by (simp add: ledger_inv_def)

lemma budget_keys_update [simp]:
  assumes "\<And>b. b_tenant (f b) = b_tenant b \<and> b_agent (f b) = b_agent b"
  shows "map (\<lambda>b. (b_tenant b, b_agent b)) (budgets (update_budget t a f s)) = map (\<lambda>b. (b_tenant b, b_agent b)) (budgets s)"
  using assms by (simp add: update_budget_def map_update_where)

lemma insert_reservation_ledger:
  assumes "ledger_inv s" "insert_reservation r s = Some s'" "rv_status r = Reserved" "rv_actual r = None"
  shows "ledger_inv s'"
proof -
  let ?f = "\<lambda>b. b\<lparr>b_reserved := b_reserved b + rv_estimate r\<rparr>"
  from assms(2) obtain b where b: "budget_of s (rv_tenant r) (rv_agent r) = Some b"
    and lim: "b_spent b + b_reserved b + rv_estimate r \<le> b_budget b"
    and s': "s' = (update_budget (rv_tenant r) (rv_agent r) ?f s)\<lparr>reservations := reservations s @ [r]\<rparr>"
    and new: "reservation_of s (rv_id r) = None" and est: "0 \<le> rv_estimate r"
    by (auto simp: insert_reservation_def not_less split: if_splits option.splits)
  have bs: "b \<in> set (budgets s)" "b_tenant b = rv_tenant r" "b_agent b = rv_agent r"
    using find_SomeD[OF b[unfolded budget_of_def]] by auto
  have uniq: "c = b" if "c \<in> set (budgets s)" "b_tenant c = rv_tenant r" "b_agent c = rv_agent r" for c
    using distinct_key_unique[of "\<lambda>b. (b_tenant b, b_agent b)" "budgets s" c b] assms(1) that bs
    by (simp add: ledger_inv_def)
  have ok: "budget_ok (reservations s @ [r]) (if (b_tenant c, b_agent c) = (rv_tenant r, rv_agent r) then ?f c else c)"
    if "c \<in> set (budgets s)" for c
    using that assms(1) uniq[OF that] lim assms(3)
    by (auto simp: ledger_inv_def budget_ok_def held_def charged_def)
  have "rv_id r \<notin> rv_id ` set (reservations s)"
    using find_NoneD[OF new[unfolded reservation_of_def]] by (metis imageE)
  moreover have "map (\<lambda>b. (b_tenant b, b_agent b)) (budgets (update_budget (rv_tenant r) (rv_agent r) ?f s)) =
      map (\<lambda>b. (b_tenant b, b_agent b)) (budgets s)"
    by (rule budget_keys_update) simp
  moreover have "\<forall>c \<in> set (budgets (update_budget (rv_tenant r) (rv_agent r) ?f s)). budget_ok (reservations s @ [r]) c"
    using ok by (simp add: update_budget_def ball_update_where)
  ultimately show ?thesis
    using assms(1,3,4) est unfolding s' ledger_inv_def by (simp add: row_ok_def)
qed

text \<open>A reserved row that becomes settled or released: the estimate leaves the reserved column
  and the charge, if any, enters the spent one.\<close>

lemma close_row_ledger:
  assumes inv: "ledger_inv s" and r: "r \<in> set (reservations s)" "rv_status r = Reserved"
    and b: "budget_of s (rv_tenant r) (rv_agent r) = Some b"
    and g: "rv_id (g r) = rv_id r" "rv_tenant (g r) = rv_tenant r" "rv_agent (g r) = rv_agent r"
      "rv_status (g r) \<noteq> Reserved" "row_ok (g r)"
    and x: "x = charged (rv_tenant r) (rv_agent r) (g r)"
    and lim: "b_spent b + b_reserved b - rv_estimate r + x \<le> b_budget b"
    and upd: "\<And>b. upd b = b\<lparr>b_reserved := b_reserved b - rv_estimate r, b_spent := b_spent b + x\<rparr>"
  shows "ledger_inv ((update_budget (rv_tenant r) (rv_agent r) upd s)
           \<lparr>reservations := update_where (\<lambda>q. rv_id q = rv_id r) g (reservations s)\<rparr>)"
proof -
  let ?rs = "reservations s" and ?rs' = "update_where (\<lambda>q. rv_id q = rv_id r) g (reservations s)"
  have dist: "distinct (map rv_id ?rs)" using inv by (simp add: ledger_inv_def)
  have tot: "col_sum f ?rs' = col_sum f ?rs - f r + f (g r)" for f
    by (rule col_sum_update_key[OF dist r(1)])
  have bs: "b \<in> set (budgets s)" "b_tenant b = rv_tenant r" "b_agent b = rv_agent r"
    using find_SomeD[OF b[unfolded budget_of_def]] by auto
  have uniq: "c = b" if "c \<in> set (budgets s)" "b_tenant c = rv_tenant r" "b_agent c = rv_agent r" for c
    using distinct_key_unique[of "\<lambda>b. (b_tenant b, b_agent b)" "budgets s" c b] inv that bs
    by (simp add: ledger_inv_def)
  have ok: "budget_ok ?rs' (if (b_tenant c, b_agent c) = (rv_tenant r, rv_agent r) then upd c else c)"
    if c: "c \<in> set (budgets s)" for c
  proof (cases "(b_tenant c, b_agent c) = (rv_tenant r, rv_agent r)")
    case True
    then have "c = b" using uniq c by simp
    moreover have "budget_ok ?rs b" using inv bs(1) by (simp add: ledger_inv_def)
    ultimately show ?thesis
      using True lim r(2) g x by (simp add: budget_ok_def tot upd held_def charged_def [of _ _ r])
  next
    case False
    then have "\<And>q. q \<in> {r, g r} \<Longrightarrow> held (b_tenant c) (b_agent c) q = 0 \<and> charged (b_tenant c) (b_agent c) q = 0"
      using g by (auto simp: held_def charged_def)
    moreover have "budget_ok ?rs c" using inv c by (simp add: ledger_inv_def)
    ultimately show ?thesis using False by (auto simp: budget_ok_def tot)
  qed
  have ids: "map rv_id ?rs' = map rv_id ?rs"
    unfolding update_where_def using g(1) dist r(1) by (auto dest: distinct_key_unique)
  have rows: "\<forall>q \<in> set ?rs'. row_ok q"
    using inv g(5) dist r(1) by (auto simp: ledger_inv_def update_where_def dest: distinct_key_unique)
  have buds: "\<forall>c \<in> set (budgets (update_budget (rv_tenant r) (rv_agent r) upd s)). budget_ok ?rs' c"
    using ok by (simp add: update_budget_def ball_update_where)
  have keys: "map (\<lambda>b. (b_tenant b, b_agent b)) (budgets (update_budget (rv_tenant r) (rv_agent r) upd s)) =
      map (\<lambda>b. (b_tenant b, b_agent b)) (budgets s)"
    by (rule budget_keys_update) (simp add: upd)
  show ?thesis
    using inv buds keys ids rows unfolding ledger_inv_def by simp
qed

lemma settle_row_ledger:
  assumes "ledger_inv s" "settle_row i t a est actual f s = Some (n, s')" "0 \<le> actual"
    and f: "\<And>x. rv_id (f x) = rv_id x" "\<And>x. rv_tenant (f x) = rv_tenant x" "\<And>x. rv_agent (f x) = rv_agent x"
      "\<And>x. rv_estimate (f x) = rv_estimate x"
  shows "ledger_inv s'"
proof (cases "find (\<lambda>r. rv_id r = i \<and> rv_tenant r = t \<and> rv_agent r = a \<and> rv_status r = Reserved \<and> rv_estimate r = est) (reservations s)")
  case None
  then show ?thesis using assms by (simp add: settle_row_def)
next
  case (Some r)
  from find_SomeD[OF this] have r: "r \<in> set (reservations s)" "rv_status r = Reserved"
    "rv_id r = i" "rv_tenant r = t" "rv_agent r = a" "rv_estimate r = est" by auto
  from assms(2) Some obtain b where b: "budget_of s t a = Some b"
    and lim: "b_spent b + b_reserved b - est + actual \<le> b_budget b"
    and s': "s' = (update_budget t a (\<lambda>b. b\<lparr>b_reserved := b_reserved b - est, b_spent := b_spent b + actual\<rparr>) s)
               \<lparr>reservations := update_where (\<lambda>x. rv_id x = i) (\<lambda>x. (f x)\<lparr>rv_status := Settled, rv_actual := Some actual\<rparr>) (reservations s)\<rparr>"
    by (auto simp: settle_row_def split: option.splits if_splits)
  have "row_ok r" using assms(1) r(1) by (simp add: ledger_inv_def)
  then have "row_ok ((f r)\<lparr>rv_status := Settled, rv_actual := Some actual\<rparr>)"
    using f assms(3) by (simp add: row_ok_def split: option.splits)
  then show ?thesis
    using close_row_ledger[OF assms(1) r(1,2), of b "\<lambda>x. (f x)\<lparr>rv_status := Settled, rv_actual := Some actual\<rparr>" actual] b lim f r
    unfolding s' by (simp add: charged_def)
qed

lemma release_row_ledger:
  assumes "ledger_inv s" "release_row i t a s = Some (n, s')"
  shows "ledger_inv s'"
proof (cases "find (\<lambda>r. rv_id r = i \<and> rv_tenant r = t \<and> rv_agent r = a \<and> rv_status r = Reserved) (reservations s)")
  case None
  then show ?thesis using assms by (simp add: release_row_def)
next
  case (Some r)
  from find_SomeD[OF this] have r: "r \<in> set (reservations s)" "rv_status r = Reserved"
    "rv_id r = i" "rv_tenant r = t" "rv_agent r = a" by auto
  from assms(2) Some obtain b where b: "budget_of s t a = Some b"
    and s': "s' = (update_budget t a (\<lambda>b. b\<lparr>b_reserved := b_reserved b - rv_estimate r\<rparr>) s)
               \<lparr>reservations := update_where (\<lambda>x. rv_id x = i) (\<lambda>x. x\<lparr>rv_status := Released\<rparr>) (reservations s)\<rparr>"
    by (auto simp: release_row_def split: option.splits if_splits)
  have ok: "row_ok r" using assms(1) r(1) by (simp add: ledger_inv_def)
  then have ok': "row_ok (r\<lparr>rv_status := Released\<rparr>)"
    using r(2) by (simp add: row_ok_def split: option.splits)
  have "b \<in> set (budgets s)" using find_SomeD[OF b[unfolded budget_of_def]] by simp
  then have "b_spent b + b_reserved b \<le> b_budget b" using assms(1) by (auto simp: ledger_inv_def budget_ok_def)
  moreover have "0 \<le> rv_estimate r" using ok by (simp add: row_ok_def)
  ultimately show ?thesis
    using close_row_ledger[OF assms(1) r(1,2), of b "\<lambda>x. x\<lparr>rv_status := Released\<rparr>" 0] b r ok'
    unfolding s' by (simp add: charged_def)
qed

section \<open>The batches\<close>

lemma gaps_empty:
  "agent_cost_ledger_gaps s = [] \<longleftrightarrow> (\<forall>r \<in> set (reservations s). has_event s (rv_id r) Reserved \<and>
     (rv_status r \<noteq> Reserved \<longrightarrow> has_event s (rv_id r) (rv_status r)))"
  by (auto simp: agent_cost_ledger_gaps_def filter_empty_conv) (metis res_status.exhaust)+

lemma has_event_append [simp]:
  "has_event (s\<lparr>events := events s @ [e]\<rparr>) i st \<longleftrightarrow> has_event s i st \<or> ev_reservation e = i \<and> ev_type e = st"
  by (auto simp: has_event_def)

lemma has_event_frame [simp]:
  "has_event (s\<lparr>reservations := rs\<rparr>) i st = has_event s i st"
  "has_event (update_budget t a f s) i st = has_event s i st"
  by (simp_all add: has_event_def update_budget_def)

lemma update_budget_frame [simp]:
  "reservations (update_budget t a f s) = reservations s" "events (update_budget t a f s) = events s"
  by (simp_all add: update_budget_def)

lemma reserve_batch:
  assumes "cost_inv s" "rv_status r = Reserved" "rv_actual r = None"
    and "Option.bind (insert_reservation r s) (insert_event e) = Some s'"
    and "ev_reservation e = rv_id r" "ev_type e = Reserved"
  shows "cost_inv s'"
proof -
  from assms(4) obtain s1 where s1: "insert_reservation r s = Some s1" and s': "s' = s1\<lparr>events := events s1 @ [e]\<rparr>"
    by (auto simp: Option.bind_eq_Some_conv dest: insert_event_eq)
  then have "reservations s1 = reservations s @ [r]" "\<And>i st. has_event s1 i st = has_event s i st"
    by (auto simp: insert_reservation_def split: if_splits option.splits)
  moreover have "ledger_inv s1" using assms(1-3) s1 by (auto simp: cost_inv_def intro: insert_reservation_ledger)
  ultimately show ?thesis
    using assms by (auto simp: cost_inv_def gaps_empty s')
qed

text \<open>The journal after a status change: the entry goes in, or the batch fails.\<close>

lemma journal_batch:
  assumes "journal st i (n, s1) = Some (m, s')" "ledger_inv s1"
    and rows: "\<And>r. r \<in> set (reservations s1) \<Longrightarrow> rv_id r = i \<Longrightarrow> rv_status r = st"
    and ex: "\<exists>r \<in> set (reservations s1). rv_id r = i" and n: "n = 1"
    and others: "\<And>r. r \<in> set (reservations s1) \<Longrightarrow> has_event s1 (rv_id r) Reserved \<and>
       (rv_id r \<noteq> i \<longrightarrow> rv_status r \<noteq> Reserved \<longrightarrow> has_event s1 (rv_id r) (rv_status r))"
  shows "cost_inv s' \<and> m = 1 \<and> reservations s' = reservations s1"
proof -
  obtain r where r: "reservation_of s1 i = Some r"
    using ex find_NoneD[of _ "reservations s1"] unfolding reservation_of_def by fastforce
  then have st: "rv_status r = st"
    using rows find_SomeD[OF r[unfolded reservation_of_def]] by auto
  with assms(1) r n obtain e where e: "s' = s1\<lparr>events := events s1 @ [e]\<rparr>" "ev_reservation e = i" "ev_type e = st" "m = 1"
    by (auto simp: journal_def dest!: insert_event_eq)
  have "has_event s' (rv_id q) Reserved \<and> (rv_status q \<noteq> Reserved \<longrightarrow> has_event s' (rv_id q) (rv_status q))"
    if q: "q \<in> set (reservations s1)" for q
    using others[OF q] rows[OF q] e by (cases "rv_id q = i") auto
  then show ?thesis
    using assms(2) e(1,4) by (simp add: cost_inv_def gaps_empty)
qed

lemma close_batch:
  assumes "cost_inv s" "ledger_inv s1" "journal st i (1, s1) = Some (m, s')"
    and rs: "reservations s1 = update_where (\<lambda>x. rv_id x = i) g (reservations s)"
    and ev: "\<And>i st. has_event s1 i st = has_event s i st"
    and g: "\<And>x. rv_id (g x) = rv_id x" "\<And>x. rv_status (g x) = st"
    and r: "r \<in> set (reservations s)" "rv_id r = i"
  shows "cost_inv s' \<and> m = 1 \<and> reservations s' = reservations s1"
proof (rule journal_batch[OF assms(3,2)])
  show "\<exists>q \<in> set (reservations s1). rv_id q = i"
    unfolding rs set_update_where using r g(1) by (intro bexI[of _ "g r"]) auto
next
  fix q assume "q \<in> set (reservations s1)" "rv_id q = i"
  then show "rv_status q = st" unfolding rs set_update_where using g by auto
next
  fix q assume "q \<in> set (reservations s1)"
  then consider p where "p \<in> set (reservations s)" "rv_id p = i" "q = g p" | "q \<in> set (reservations s)" "rv_id q \<noteq> i"
    unfolding rs set_update_where by blast
  then show "has_event s1 (rv_id q) Reserved \<and> (rv_id q \<noteq> i \<longrightarrow> rv_status q \<noteq> Reserved \<longrightarrow> has_event s1 (rv_id q) (rv_status q))"
    using assms(1) by cases (auto simp: ev g cost_inv_def gaps_empty)
qed simp

lemma settle_batch:
  assumes "cost_inv s" "0 \<le> actual"
    and f: "\<And>x. rv_id (f x) = rv_id x" "\<And>x. rv_tenant (f x) = rv_tenant x" "\<And>x. rv_agent (f x) = rv_agent x"
      "\<And>x. rv_estimate (f x) = rv_estimate x"
    and b: "Option.bind (settle_row i t a est actual f s) (journal Settled i) = Some (n, s')"
  shows "cost_inv s'"
proof -
  from b obtain m s1 where s1: "settle_row i t a est actual f s = Some (m, s1)" and j: "journal Settled i (m, s1) = Some (n, s')"
    by (auto simp: Option.bind_eq_Some_conv)
  have inv1: "ledger_inv s1" using settle_row_ledger[OF _ s1 assms(2) f] assms(1) by (simp add: cost_inv_def)
  show ?thesis
  proof (cases "find (\<lambda>r. rv_id r = i \<and> rv_tenant r = t \<and> rv_agent r = a \<and> rv_status r = Reserved \<and> rv_estimate r = est) (reservations s)")
    case None
    then show ?thesis using s1 j assms(1) by (auto simp: settle_row_def journal_def split: option.splits)
  next
    case (Some r)
    then have m: "m = 1" and rs: "reservations s1 = update_where (\<lambda>x. rv_id x = i) (\<lambda>x. (f x)\<lparr>rv_status := Settled, rv_actual := Some actual\<rparr>) (reservations s)"
      and ev: "\<And>i st. has_event s1 i st = has_event s i st"
      using s1 by (auto simp: settle_row_def split: option.splits if_splits)
    show ?thesis
      using close_batch[OF assms(1) inv1 j[unfolded m] rs ev] f(1) find_SomeD[OF Some] by auto
  qed
qed

lemma release_batch:
  assumes "cost_inv s" and b: "Option.bind (release_row i t a s) (journal Released i) = Some (n, s')"
  shows "cost_inv s'"
proof -
  from b obtain m s1 where s1: "release_row i t a s = Some (m, s1)" and j: "journal Released i (m, s1) = Some (n, s')"
    by (auto simp: Option.bind_eq_Some_conv)
  have inv1: "ledger_inv s1" using release_row_ledger[OF _ s1] assms(1) by (simp add: cost_inv_def)
  show ?thesis
  proof (cases "find (\<lambda>r. rv_id r = i \<and> rv_tenant r = t \<and> rv_agent r = a \<and> rv_status r = Reserved) (reservations s)")
    case None
    then show ?thesis using s1 j assms(1) by (auto simp: release_row_def journal_def split: option.splits)
  next
    case (Some r)
    then have m: "m = 1" and rs: "reservations s1 = update_where (\<lambda>x. rv_id x = i) (\<lambda>x. x\<lparr>rv_status := Released\<rparr>) (reservations s)"
      and ev: "\<And>i st. has_event s1 i st = has_event s i st"
      using s1 by (auto simp: release_row_def split: option.splits if_splits)
    show ?thesis
      using close_batch[OF assms(1) inv1 j[unfolded m] rs ev] find_SomeD[OF Some] by auto
  qed
qed


section \<open>The operations keep the invariant\<close>

lemma reserve_inv: "cost_inv s \<Longrightarrow> cost_inv (snd (reserveAgentCost seen c s))"
  unfolding reserveAgentCost_def Let_def
  by (auto split: option.splits dest: reserve_batch[rotated 3])

lemma settle_inv: "cost_inv s \<Longrightarrow> cost_inv (snd (settleAgentCost seen c s))"
  unfolding settleAgentCost_def Let_def
  by (auto split: option.splits dest: settle_batch[rotated -1] dest!: validMinor_bounds)

lemma release_inv: "cost_inv s \<Longrightarrow> cost_inv (snd (releaseAgentCost c s))"
  unfolding releaseAgentCost_def Let_def
  by (auto split: option.splits dest: release_batch[rotated -1])

definition closed_row :: "reservation \<Rightarrow> cost_db \<Rightarrow> bool" where
  "closed_row k s \<longleftrightarrow> k \<in> set (reservations s) \<and> rv_status k \<noteq> Reserved"

lemma journal_reservations: "journal st i (n, s) = Some (m, s') \<Longrightarrow> reservations s' = reservations s"
  by (auto simp: journal_def dest!: insert_event_eq split: option.splits if_splits)

lemma insert_event_reservations: "insert_event e s = Some s' \<Longrightarrow> reservations s' = reservations s"
  by (auto dest: insert_event_eq)

lemma insert_reservation_reservations: "insert_reservation r s = Some s' \<Longrightarrow> reservations s' = reservations s @ [r]"
  by (auto simp: insert_reservation_def split: option.splits if_splits)

lemma update_keeps_closed:
  assumes "distinct (map rv_id (reservations s))" "closed_row k s"
    and "r \<in> set (reservations s)" "rv_status r = Reserved" "rv_id r = i"
  shows "k \<in> set (update_where (\<lambda>x. rv_id x = i) g (reservations s))"
proof -
  have "rv_id k \<noteq> i" using assms distinct_key_unique[OF assms(1), of k r] by (auto simp: closed_row_def)
  then show ?thesis using assms(2) by (auto simp: closed_row_def set_update_where)
qed

lemma settle_row_closed:
  "ledger_inv s \<Longrightarrow> settle_row i t a est x f s = Some (n, s') \<Longrightarrow> closed_row k s \<Longrightarrow> closed_row k s'"
  unfolding settle_row_def closed_row_def[of k s']
  by (auto simp: ledger_inv_def dest!: find_SomeD intro: update_keeps_closed split: option.splits if_splits)
    (auto simp: closed_row_def)

lemma release_row_closed:
  "ledger_inv s \<Longrightarrow> release_row i t a s = Some (n, s') \<Longrightarrow> closed_row k s \<Longrightarrow> closed_row k s'"
  unfolding release_row_def closed_row_def[of k s']
  by (auto simp: ledger_inv_def dest!: find_SomeD intro: update_keeps_closed split: option.splits if_splits)
    (auto simp: closed_row_def)

lemma closed_row_reservations: "reservations s' = reservations s \<Longrightarrow> closed_row k s' = closed_row k s"
  by (simp add: closed_row_def)

lemma reserve_closed: "closed_row k s \<Longrightarrow> closed_row k (snd (reserveAgentCost seen c s))"
  unfolding reserveAgentCost_def Let_def
  by (auto simp: closed_row_def Option.bind_eq_Some_conv split: option.splits
      dest!: insert_event_reservations insert_reservation_reservations)

lemma settle_closed: "ledger_inv s \<Longrightarrow> closed_row k s \<Longrightarrow> closed_row k (snd (settleAgentCost seen c s))"
  unfolding settleAgentCost_def Let_def
  by (auto simp: Option.bind_eq_Some_conv split: option.splits
      dest!: journal_reservations dest: settle_row_closed closed_row_reservations)

lemma release_closed: "ledger_inv s \<Longrightarrow> closed_row k s \<Longrightarrow> closed_row k (snd (releaseAgentCost c s))"
  unfolding releaseAgentCost_def Let_def
  by (auto simp: Option.bind_eq_Some_conv split: option.splits
      dest!: journal_reservations dest: release_row_closed closed_row_reservations)

interpretation ledger: terminal_machine cost_step cost_inv closed_row
proof unfold_locales
  fix s p
  assume "cost_inv s"
  then show "cost_inv (cost_step p s)"
    by (cases p) (simp_all add: reserve_inv settle_inv release_inv)
next
  fix s k p
  assume "cost_inv s" "closed_row k s"
  then show "closed_row k (cost_step p s)"
    by (cases p) (simp_all add: cost_inv_def reserve_closed settle_closed release_closed)
qed

section \<open>Properties\<close>

text \<open>C4: after any sequence of reservations, settlements and releases, each decided on tables
  that other requests may have changed since, no budget is overdrawn: spent and reserved are
  not negative and stay within the budget, the reserved column is exactly the sum of the open
  estimates and the spent column the sum of the settled charges, and the journal has no gap.\<close>

theorem cost_ledger_sound:
  assumes "cost_inv s" and "b \<in> set (budgets (fold cost_step ops s))"
  shows "0 \<le> b_spent b \<and> 0 \<le> b_reserved b \<and> b_spent b + b_reserved b \<le> b_budget b \<and>
    b_reserved b = col_sum (held (b_tenant b) (b_agent b)) (reservations (fold cost_step ops s)) \<and>
    b_spent b = col_sum (charged (b_tenant b) (b_agent b)) (reservations (fold cost_step ops s)) \<and>
    agent_cost_ledger_gaps (fold cost_step ops s) = []"
proof -
  have inv: "cost_inv (fold cost_step ops s)" by (rule ledger.run_inv[OF assms(1)])
  then have "budget_ok (reservations (fold cost_step ops s)) b"
    using assms(2) by (simp add: cost_inv_def ledger_inv_def)
  then show ?thesis
    using inv ledger_inv_nonneg[OF _ assms(2)] by (simp add: cost_inv_def budget_ok_def)
qed

definition sample_args :: "int \<Rightarrow> int \<Rightarrow> cost_args" where
  "sample_args est actual = \<lparr>c_tenantId = JStr ''t1'', c_actorTenantId = JStr ''t1'', c_agentId = JStr ''THEBE-001'',
     c_runId = JStr ''run1'', c_reservationId = JStr ''r1'', c_estimatedCostMinor = JInt est, c_actualCostMinor = JInt actual,
     c_provider = JStr ''p'', c_model = JStr ''m'', c_inputTokens = JInt 10, c_outputTokens = JInt 20\<rparr>"

definition sample_db :: cost_db where
  "sample_db = \<lparr>budgets = [\<lparr>b_tenant = ''t1'', b_agent = ''THEBE-001'', b_budget = 100, b_spent = 0,
     b_reserved = 0, b_enabled = True, b_suspended = False\<rparr>],
     reservations = [], events = [], deletion_pending = [], db_up = True\<rparr>"

definition sample_ops :: "cost_op list" where
  "sample_ops = [ReserveOp sample_db (sample_args 40 0), SettleOp (cost_step (ReserveOp sample_db (sample_args 40 0)) sample_db) (sample_args 40 30)]"

lemma sample_db_inv: "cost_inv sample_db"
  by (simp add: cost_inv_def ledger_inv_def sample_db_def budget_ok_def agent_cost_ledger_gaps_def)

lemma sample_run_budget:
  "\<lparr>b_tenant = ''t1'', b_agent = ''THEBE-001'', b_budget = 100, b_spent = 30,
     b_reserved = 0, b_enabled = True, b_suspended = False\<rparr> \<in> set (budgets (fold cost_step sample_ops sample_db))"
  by code_simp

theorem cost_ledger_sound_witness:
  "agent_cost_ledger_gaps (fold cost_step sample_ops sample_db) = [] \<and>
   col_sum (charged ''t1'' ''THEBE-001'') (reservations (fold cost_step sample_ops sample_db)) = 30"
  using cost_ledger_sound[OF sample_db_inv sample_run_budget] by simp

text \<open>C37: a reservation that is settled or released is final: its row, with its estimate, charge
  and usage, stays as it is whatever requests follow.\<close>

theorem closed_reservation_final:
  assumes "cost_inv s" and "closed_row k (fold cost_step ops s)"
  shows "k \<in> set (reservations (fold cost_step (ops @ later) s))"
  using ledger.run_final_suffix[OF assms] by (simp add: closed_row_def)

definition sample_closed :: reservation where
  "sample_closed = hd (reservations (fold cost_step sample_ops sample_db))"

lemma sample_closed_row: "closed_row sample_closed (fold cost_step sample_ops sample_db)"
  unfolding closed_row_def sample_closed_def by code_simp

theorem closed_reservation_final_witness:
  "sample_closed \<in> set (reservations (fold cost_step (sample_ops @ [ReleaseOp (sample_args 0 0)]) sample_db))"
  by (rule closed_reservation_final[OF sample_db_inv sample_closed_row])

text \<open>a stale read cannot overdraw. When \<^verbatim>\<open>reserveAgentCost\<close> answers that the cost is
  reserved, the budget of the tables its batch ran on was enabled, not suspended and had room
  for the estimate, whatever the handler had read before.\<close>

lemma reserved_only_with_room:
  assumes "fst (reserveAgentCost seen c s) = (True, code)"
  shows "\<exists>b r. budget_of s (js_string (c_tenantId c)) (js_string (c_agentId c)) = Some b \<and>
     b_enabled b \<and> \<not> b_suspended b \<and>
     b_spent b + b_reserved b + minor_of (c_estimatedCostMinor c) \<le> b_budget b \<and>
     reservations (snd (reserveAgentCost seen c s)) = reservations s @ [r] \<and>
     rv_id r = js_string (c_reservationId c) \<and> rv_estimate r = minor_of (c_estimatedCostMinor c) \<and>
     rv_status r = Reserved"
proof -
  let ?r = "\<lparr>rv_id = js_string (c_reservationId c), rv_tenant = js_string (c_tenantId c), rv_agent = js_string (c_agentId c),
     rv_run = js_string (c_runId c), rv_estimate = minor_of (c_estimatedCostMinor c), rv_actual = None,
     rv_status = Reserved, rv_provider = [], rv_model = [], rv_inputTokens = 0, rv_outputTokens = 0\<rparr>"
  obtain s1 where s1: "insert_reservation ?r s = Some s1"
    "reservations (snd (reserveAgentCost seen c s)) = reservations s1"
    using assms unfolding reserveAgentCost_def Let_def
    by (auto simp: Option.bind_eq_Some_conv dest!: insert_event_reservations split: option.splits if_splits)
  then have "reservations s1 = reservations s @ [?r]" by (simp add: insert_reservation_reservations)
  with s1 show ?thesis
    by (auto simp: insert_reservation_def split: option.splits if_splits intro!: exI[of _ ?r])
qed

lemma sample_reserved: "fst (reserveAgentCost sample_db (sample_args 40 0) sample_db) = (True, ''cost_reserved'')"
  by code_simp

lemma reserved_only_with_room_example:
  "\<exists>b. budget_of sample_db ''t1'' ''THEBE-001'' = Some b \<and> b_spent b + b_reserved b + 40 \<le> b_budget b"
  using reserved_only_with_room[OF sample_reserved] by (auto simp: sample_args_def)

end
