(* ===== verification/Orchestration.thy ===== *)
theory Orchestration imports Interfaces begin

text \<open>
  \<^verbatim>\<open>cloudflare/src/agent-orchestration.js\<close>: the plan of read-only work units the single agent
  derives from a workspace observation, and the check of the proposals a model returns against
  the source references the plan allows.
\<close>

definition AGENT_ORCHESTRATION_VERSION :: string where
  "AGENT_ORCHESTRATION_VERSION = ''2026-09-20.single-agent-v2''"

definition MAX_WORK_UNITS :: nat where "MAX_WORK_UNITS = 6"
definition MAX_PARALLEL_WORK_UNITS :: nat where "MAX_PARALLEL_WORK_UNITS = 3"

text \<open>\<^verbatim>\<open>unique\<close>: the trimmed, non-empty, distinct texts of an array.\<close>

definition unique :: "jsval \<Rightarrow> string list" where
  "unique values = dedup (filter (\<lambda>s. s \<noteq> []) (map (\<lambda>x. trim (str_or x)) (elems values)))"

definition unique_strs :: "string list \<Rightarrow> string list" where
  "unique_strs xs = unique (JArr (map JStr xs))"

record work_unit =
  wu_id :: string
  wu_capability :: string
  wu_objective :: string
  wu_priority :: string
  wu_sourceRefs :: "string list"
  wu_isolation :: string
  wu_authority :: string
  wu_executionAllowed :: bool
  wu_externalSideEffects :: bool
  wu_status :: string

definition unit_of :: "string \<Rightarrow> string \<Rightarrow> string \<Rightarrow> string list \<Rightarrow> string \<Rightarrow> work_unit" where
  "unit_of i capability objective refs priority =
     \<lparr>wu_id = i, wu_capability = capability, wu_objective = objective, wu_priority = priority,
      wu_sourceRefs = unique_strs refs, wu_isolation = ''read_only_capability_context'',
      wu_authority = ''none'', wu_executionAllowed = False, wu_externalSideEffects = False,
      wu_status = ''planned''\<rparr>"

record orchestration =
  o_version :: string
  o_architecture :: string
  o_agentKey :: string
  o_goal :: string
  o_loop :: "string list"
  o_workUnits :: "work_unit list"
  o_maxParallel :: nat
  o_executionAllowed :: bool
  o_allowedSourceRefs :: "string list"
  o_guarantees :: "string list"

text \<open>\<^verbatim>\<open>Number(x||0)>0\<close>.\<close>

definition positive :: "jsval \<Rightarrow> bool" where
  "positive v \<longleftrightarrow> num_lt (Fin 0) (num_or0 v)"

definition planned_units :: "jsval \<Rightarrow> work_unit list" where
  "planned_units observation =
    (let finance = fld observation ''finance''; operations = fld observation ''operations'';
         compliance = fld observation ''compliance''; performance = fld observation ''performance'';
         exceptions = positive (fld finance ''reconciliationExceptions'');
         failed = positive (fld operations ''failedWorkflowCount'');
         overdue = positive (fld compliance ''overdueCount'');
         critical = positive (fld performance ''criticalSignals'')
     in (if exceptions \<or> \<not> truthy (fld finance ''latestReconciliationAt'')
         then [unit_of ''finance-review'' ''finance''
                 (if exceptions then ''Assess recorded reconciliation exceptions and finance certainty.''
                  else ''Assess finance certainty because no reconciliation snapshot is recorded.'')
                 [''finance_reconciliation''] (if exceptions then ''high'' else ''medium'')] else []) @
        (if failed \<or> positive (fld operations ''pendingWorkflowCount'')
         then [unit_of ''operations-review'' ''operations''
                 ''Assess failed and pending workflow load using aggregate operating signals.''
                 [''workflow_jobs''] (if failed then ''high'' else ''medium'')] else []) @
        (if overdue \<or> positive (fld compliance ''dueWithin14Days'')
         then [unit_of ''compliance-review'' ''compliance''
                 ''Assess recorded overdue and near-term compliance obligations.''
                 [''compliance_obligations''] (if overdue then ''high'' else ''medium'')] else []) @
        (if critical \<or> positive (fld performance ''warningSignals'')
         then [unit_of ''performance-review'' ''core''
                 ''Assess aggregate business-performance signals before recommending follow-up.''
                 [''performance_insights''] (if critical then ''high'' else ''medium'')] else []))"

definition brief_unit :: work_unit where
  "brief_unit = unit_of ''owner-brief-review'' ''core''
     ''Review the current workspace observation and identify the safest useful next action.''
     [''workspace_observation''] ''low''"

definition buildSingleAgentOrchestration :: "jsval \<Rightarrow> jsval \<Rightarrow> jsval \<Rightarrow> orchestration" where
  "buildSingleAgentOrchestration goal observation additionalSourceRefs =
    (let planned = planned_units observation;
         workUnits = (if planned = [] then [brief_unit] else planned);
         bounded = take MAX_WORK_UNITS workUnits
     in \<lparr>o_version = AGENT_ORCHESTRATION_VERSION, o_architecture = ''single_agent'', o_agentKey = ''thebe'',
         o_goal = take 500 (trim (str_or goal)),
         o_loop = [''observe'', ''decompose'', ''route_capabilities'', ''reason'', ''verify'', ''recover_or_recommend''],
         o_workUnits = bounded, o_maxParallel = MAX_PARALLEL_WORK_UNITS, o_executionAllowed = False,
         o_allowedSourceRefs = unique (JArr (JStr ''workspace_observation'' #
            map JStr (concat (map wu_sourceRefs bounded)) @ elems additionalSourceRefs)),
         o_guarantees = [''single_canonical_agent_identity'', ''capability_workers_have_no_authority'',
            ''tool_authority_remains_deterministic'', ''no_external_side_effects_from_orchestration'',
            ''verification_does_not_expand_permissions'']\<rparr>)"

section \<open>Verification of proposals\<close>

record verified_proposal =
  vp_proposal :: jsval
  vp_sourceRefs :: "string list"
  vp_grounded :: bool
  vp_sourceRefsValidated :: bool
  vp_claimsVerified :: bool
  vp_humanReviewRequired :: bool
  vp_status :: string
  vp_droppedSourceRefCount :: nat
  vp_authorityExpanded :: bool
  vp_executionAllowed :: bool

record verification_summary =
  vs_total :: nat
  vs_grounded :: nat
  vs_ungrounded :: nat
  vs_allGrounded :: bool
  vs_claimsVerified :: bool
  vs_humanReviewRequired :: bool
  vs_authorityExpanded :: bool
  vs_executionAllowed :: bool
  vs_orchestrationVersion :: string

definition verify_one :: "string list \<Rightarrow> jsval \<Rightarrow> verified_proposal" where
  "verify_one allowed proposal =
    (let requestedRefs = unique (fld proposal ''sourceRefs'');
         refs = filter (\<lambda>r. r \<in> set allowed) requestedRefs;
         dropped = filter (\<lambda>r. r \<notin> set allowed) requestedRefs;
         humanOnly = (str_or (fld proposal ''authority'') = ''human_only'' \<or> str_or (fld proposal ''risk'') = ''high'')
     in \<lparr>vp_proposal = proposal, vp_sourceRefs = refs, vp_grounded = False,
         vp_sourceRefsValidated = (refs \<noteq> []), vp_claimsVerified = False, vp_humanReviewRequired = True,
         vp_status = (if humanOnly then ''human_only'' else ''needs_human_review''),
         vp_droppedSourceRefCount = length dropped, vp_authorityExpanded = False, vp_executionAllowed = False\<rparr>)"

definition verifyOrchestratedProposals :: "jsval \<Rightarrow> jsval \<Rightarrow> verified_proposal list \<times> verification_summary" where
  "verifyOrchestratedProposals proposals orch =
    (let allowed = unique (fld orch ''allowedSourceRefs'');
         verified = map (verify_one allowed) (elems proposals);
         groundedCount = length (filter vp_grounded verified)
     in (verified,
        \<lparr>vs_total = length verified, vs_grounded = groundedCount, vs_ungrounded = length verified - groundedCount,
         vs_allGrounded = (length verified = groundedCount), vs_claimsVerified = False,
         vs_humanReviewRequired = True, vs_authorityExpanded = False, vs_executionAllowed = False,
         vs_orchestrationVersion = js_string (jor (fld orch ''version'') (JStr AGENT_ORCHESTRATION_VERSION))\<rparr>))"

section \<open>Facts\<close>

lemma set_unique: "set (unique v) = {s. s \<noteq> [] \<and> (\<exists>x \<in> set (elems v). s = trim (str_or x))}"
  by (auto simp: unique_def)

lemma distinct_unique: "distinct (unique v)"
  by (simp add: unique_def)

text \<open>The plan is four optional units; what holds of each of the four holds of the plan.\<close>

lemma optional_units:
  "length ((if a then [x] else []) @ (if b then [y] else []) @ (if c then [z] else []) @ (if d then [w] else [])) \<le> 4"
  "\<lbrakk>P x; P y; P z; P w\<rbrakk> \<Longrightarrow>
     list_all P ((if a then [x] else []) @ (if b then [y] else []) @ (if c then [z] else []) @ (if d then [w] else []))"
  "distinct [f x, f y, f z, f w] \<Longrightarrow>
     distinct (map f ((if a then [x] else []) @ (if b then [y] else []) @ (if c then [z] else []) @ (if d then [w] else [])))"
  by (cases a; cases b; cases c; cases d; simp)+

lemma length_planned: "length (planned_units obs) \<le> 4"
  unfolding planned_units_def Let_def by (rule optional_units(1))

lemma unit_of_simps [simp]:
  "wu_id (unit_of i c ob r p) = i" "wu_authority (unit_of i c ob r p) = ''none''"
  "wu_executionAllowed (unit_of i c ob r p) = False" "wu_externalSideEffects (unit_of i c ob r p) = False"
  "wu_isolation (unit_of i c ob r p) = ''read_only_capability_context''"
  "wu_sourceRefs (unit_of i c ob r p) = unique_strs r" "wu_priority (unit_of i c ob r p) = p"
  by (simp_all add: unit_of_def)

definition inert_unit :: "work_unit \<Rightarrow> bool" where
  "inert_unit u \<longleftrightarrow> wu_authority u = ''none'' \<and> \<not> wu_executionAllowed u \<and> \<not> wu_externalSideEffects u \<and>
     wu_isolation u = ''read_only_capability_context''"

lemma planned_inert: "list_all inert_unit (planned_units obs)"
  unfolding planned_units_def Let_def by (rule optional_units(2); simp only: inert_unit_def unit_of_simps simp_thms)

lemma planned_distinct: "distinct (map wu_id (planned_units obs))"
  unfolding planned_units_def Let_def by (rule optional_units(3); simp only: unit_of_simps) simp

lemma units_bounded:
  "o_workUnits (buildSingleAgentOrchestration goal obs add) =
     (if planned_units obs = [] then [brief_unit] else planned_units obs)"
  using length_planned[of obs] by (simp add: buildSingleAgentOrchestration_def Let_def MAX_WORK_UNITS_def)

section \<open>Properties\<close>

text \<open>The plan is never empty and never more than the six units it is bounded to; the bound
  drops no unit; the units have distinct ids; and none of them carries authority, execution or
  an external side effect, whatever the observation says.\<close>

lemma orchestration_units:
  "o_workUnits (buildSingleAgentOrchestration goal obs add) \<noteq> [] \<and>
   length (o_workUnits (buildSingleAgentOrchestration goal obs add)) \<le> MAX_WORK_UNITS \<and>
   distinct (map wu_id (o_workUnits (buildSingleAgentOrchestration goal obs add))) \<and>
   list_all inert_unit (o_workUnits (buildSingleAgentOrchestration goal obs add)) \<and>
   set (planned_units obs) \<subseteq> set (o_workUnits (buildSingleAgentOrchestration goal obs add)) \<and>
   \<not> o_executionAllowed (buildSingleAgentOrchestration goal obs add)"
  using length_planned[of obs] planned_inert[of obs] planned_distinct[of obs]
  by (simp add: units_bounded brief_unit_def inert_unit_def MAX_WORK_UNITS_def)
    (simp add: buildSingleAgentOrchestration_def Let_def)

text \<open>C38: verification never lends a proposal more than the plan allows: each proposal comes back
  once and in order, with exactly its references that the plan allows and a count of the others,
  marked as validated only when one remains, always in need of human review, never grounded,
  executable or expanded in authority; only an empty list counts as all grounded.\<close>

theorem verified_proposals:
  "map vp_proposal (fst (verifyOrchestratedProposals props orch)) = elems props \<and>
   (\<forall>v \<in> set (fst (verifyOrchestratedProposals props orch)).
      set (vp_sourceRefs v) = set (unique (fld (vp_proposal v) ''sourceRefs'')) \<inter> set (unique (fld orch ''allowedSourceRefs'')) \<and>
      distinct (vp_sourceRefs v) \<and>
      length (vp_sourceRefs v) + vp_droppedSourceRefCount v = length (unique (fld (vp_proposal v) ''sourceRefs'')) \<and>
      vp_sourceRefsValidated v = (vp_sourceRefs v \<noteq> []) \<and>
      vp_humanReviewRequired v \<and> \<not> vp_grounded v \<and> \<not> vp_executionAllowed v \<and> \<not> vp_authorityExpanded v) \<and>
   vs_allGrounded (snd (verifyOrchestratedProposals props orch)) = (elems props = []) \<and>
   vs_ungrounded (snd (verifyOrchestratedProposals props orch)) = length (elems props)"
proof -
  have none: "filter vp_grounded (map (verify_one al) ps) = []" for al ps
    by (auto simp: verify_one_def Let_def filter_empty_conv)
  have same: "map vp_proposal (map (verify_one al) ps) = ps" for al ps
    by (induction ps) (simp_all add: verify_one_def Let_def)
  show ?thesis
    unfolding verifyOrchestratedProposals_def Let_def fst_conv snd_conv none same
    by (auto simp: verify_one_def Let_def distinct_unique sum_length_filter_compl)
qed

definition sample_orchestration :: jsval where
  "sample_orchestration = JObj [(''allowedSourceRefs'', JArr [JStr ''finance_reconciliation''])]"

definition sample_proposal :: jsval where
  "sample_proposal = JObj [(''risk'', JStr ''high''),
     (''sourceRefs'', JArr [JStr '' finance_reconciliation'', JStr ''bank_password'', JStr ''finance_reconciliation''])]"

theorem verified_proposals_witness:
  "\<exists>v. fst (verifyOrchestratedProposals (JArr [sample_proposal]) sample_orchestration) = [v] \<and>
     vp_sourceRefs v = [''finance_reconciliation''] \<and> vp_droppedSourceRefCount v = 1 \<and>
     vp_sourceRefsValidated v \<and> \<not> vp_executionAllowed v \<and> vp_status v = ''human_only''"
proof -
  define r where "r = verifyOrchestratedProposals (JArr [sample_proposal]) sample_orchestration"
  have one: "map vp_proposal (fst r) = [sample_proposal]"
    and all: "\<forall>v \<in> set (fst r). vp_sourceRefsValidated v = (vp_sourceRefs v \<noteq> []) \<and> \<not> vp_executionAllowed v"
    using verified_proposals [of "JArr [sample_proposal]" sample_orchestration] unfolding r_def elems.simps by blast+
  then obtain v where v: "fst r = [v]" by (cases "fst r") auto
  have "map (\<lambda>v. (vp_sourceRefs v, vp_droppedSourceRefCount v, vp_status v)) (fst r) =
      [([''finance_reconciliation''], 1, ''human_only'')]"
    unfolding r_def by code_simp
  with v all show ?thesis unfolding r_def by auto
qed

end
