(* ===== verification/Continuation.thy ===== *)
theory Continuation imports Interfaces begin

text \<open>
  Continuation checkpoints: \<^verbatim>\<open>agent-continuation.js\<close>. A run is compacted into a bounded
  object without authority, its JSON text is hashed and the digest stored beside it; before a
  later run resumes from it, the checkpoint is verified and reduced to a resume context.
  The SHA-256 function \<open>sha\<close> (text to hexadecimal digest) and the text of the current time are
  parameters: both are the platform's.
\<close>

section \<open>Compaction\<close>

definition AGENT_CONTINUATION_VERSION :: string where
  "AGENT_CONTINUATION_VERSION = ''2026-09-20.single-agent-v3''"

definition MAX_GOAL :: nat where "MAX_GOAL = 500"
definition MAX_SUMMARY :: nat where "MAX_SUMMARY = 1800"
definition MAX_PROPOSALS :: nat where "MAX_PROPOSALS = 8"
definition MAX_CHECKPOINT_UNITS :: nat where "MAX_CHECKPOINT_UNITS = 6"

text \<open>\<^verbatim>\<open>["low","medium","high"].includes(String(v))?String(v):"medium"\<close>.\<close>

definition rank_of :: "jsval \<Rightarrow> string" where
  "rank_of v = (if js_string v \<in> {''low'', ''medium'', ''high''} then js_string v else ''medium'')"

definition refs_of :: "jsval \<Rightarrow> jsval" where
  "refs_of v = JArr (map JStr (unique_texts 120 v))"

definition text_or :: "jsval \<Rightarrow> nat \<Rightarrow> string \<Rightarrow> jsval" where
  "text_or v k d = JStr (if text_of v k = [] then d else text_of v k)"

definition compactObservation :: "jsval \<Rightarrow> jsval" where
  "compactObservation observation =
    (let finance = fld observation ''finance''; operations = fld observation ''operations'';
         compliance = fld observation ''compliance''; performance = fld observation ''performance''
     in JObj [
       (''observedAt'', or_null (text_of (fld observation ''observedAt'') 80)),
       (''finance'', JObj [
         (''reconciliationExceptions'', JNum (num_or0 (fld finance ''reconciliationExceptions''))),
         (''reconciliationExposureMinor'', JNum (num_or0 (fld finance ''reconciliationExposureMinor''))),
         (''latestReconciliationAt'', or_null (text_of (fld finance ''latestReconciliationAt'') 80))]),
       (''operations'', JObj [
         (''pendingWorkflowCount'', JNum (num_or0 (fld operations ''pendingWorkflowCount''))),
         (''failedWorkflowCount'', JNum (num_or0 (fld operations ''failedWorkflowCount''))),
         (''latestSummaryDate'', or_null (text_of (fld operations ''latestSummaryDate'') 40))]),
       (''compliance'', JObj [
         (''overdueCount'', JNum (num_or0 (fld compliance ''overdueCount''))),
         (''dueWithin14Days'', JNum (num_or0 (fld compliance ''dueWithin14Days''))),
         (''nextDueAt'', or_null (text_of (fld compliance ''nextDueAt'') 80))]),
       (''performance'', JObj [
         (''criticalSignals'', JNum (num_or0 (fld performance ''criticalSignals''))),
         (''warningSignals'', JNum (num_or0 (fld performance ''warningSignals'')))])])"

definition compact_unit :: "jsval \<Rightarrow> jsval" where
  "compact_unit item = JObj [
     (''id'', JStr (text_of (fld item ''id'') 120)),
     (''capability'', JStr (text_of (fld item ''capability'') 80)),
     (''objective'', JStr (text_of (fld item ''objective'') 500)),
     (''priority'', JStr (rank_of (fld item ''priority''))),
     (''sourceRefs'', refs_of (fld item ''sourceRefs'')),
     (''state'', JStr ''context_prepared''),
     (''independentAgentIdentity'', JBool False),
     (''independentMemory'', JBool False),
     (''independentAuthority'', JBool False),
     (''executionAllowed'', JBool False),
     (''externalSideEffects'', JBool False)]"

definition compactWorkUnits :: "jsval \<Rightarrow> jsval list" where
  "compactWorkUnits orch = map compact_unit (take MAX_CHECKPOINT_UNITS (elems (fld orch ''workUnits'')))"

definition compact_proposal :: "jsval \<Rightarrow> jsval" where
  "compact_proposal item = JObj [
     (''id'', or_null (text_of (fld item ''id'') 120)),
     (''ordinal'', JNum (num_or0 (fld item ''ordinal''))),
     (''title'', JStr (text_of (fld item ''title'') 180)),
     (''priority'', JStr (rank_of (fld item ''priority''))),
     (''risk'', text_or (fld item ''risk'') 40 ''unknown''),
     (''authority'', text_or (fld item ''authority'') 80 ''recommendation_only''),
     (''executionPolicy'', text_or (jor (fld item ''execution_policy'') (fld item ''executionPolicy'')) 120 ''not_executable''),
     (''status'', text_or (fld item ''status'') 80 ''pending''),
     (''sourceRefs'', refs_of (fld item ''sourceRefs'')),
     (''executionAllowed'', JBool False)]"

definition compactProposals :: "jsval \<Rightarrow> jsval list" where
  "compactProposals props = map compact_proposal (take MAX_PROPOSALS (elems props))"

text \<open>The body of a checkpoint, key by key in the order it is written (the order the JSON text has).\<close>

definition checkpoint_fields :: "string \<Rightarrow> jsval \<Rightarrow> (string \<times> jsval) list" where
  "checkpoint_fields now_iso input =
    (let observation = fld input ''observation''; orch = fld input ''orchestration'';
         verification = fld observation ''verification''
     in [(''version'', JStr AGENT_CONTINUATION_VERSION),
       (''architecture'', JStr ''single_agent''),
       (''agentKey'', JStr ''thebe''),
       (''runId'', JStr (text_of (fld input ''runId'') 120)),
       (''goal'', JStr (text_of (fld input ''goal'') MAX_GOAL)),
       (''summary'', JStr (text_of (fld input ''summary'') MAX_SUMMARY)),
       (''confidence'', JStr (rank_of (fld input ''confidence''))),
       (''createdAt'', text_or (fld input ''createdAt'') 80 now_iso),
       (''source'', JStr (if is_lit (fld input ''source'') ''synthesized_from_run'' then ''synthesized_from_run''
          else ''run_checkpoint'')),
       (''completedStages'', JArr (map JStr [''observe'', ''decompose'', ''route_capabilities'', ''reason'', ''verify''])),
       (''nextStage'', JStr ''fresh_observation_then_recommend''),
       (''observation'', compactObservation observation),
       (''workUnits'', JArr (compactWorkUnits (jor orch (fld observation ''orchestration'')))),
       (''proposals'', JArr (compactProposals (fld input ''proposals''))),
       (''verification'', JObj [
         (''total'', JNum (num_or0 (fld verification ''total''))),
         (''grounded'', JNum (num_or0 (fld verification ''grounded''))),
         (''ungrounded'', JNum (num_or0 (fld verification ''ungrounded''))),
         (''allGrounded'', JBool (is_true (fld verification ''allGrounded''))),
         (''authorityExpanded'', JBool False),
         (''executionAllowed'', JBool False)]),
       (''evidence'', JObj [(''allowedSourceRefs'', refs_of (jor (fld orch ''allowedSourceRefs'')
            (fld (fld observation ''orchestration'') ''allowedSourceRefs'')))]),
       (''authority'', JObj [
         (''inherited'', JBool False),
         (''independentAuthority'', JBool False),
         (''approvalReusable'', JBool False),
         (''executionAllowed'', JBool False),
         (''externalSideEffects'', JBool False)]),
       (''resumePolicy'', JObj [
         (''freshObservationRequired'', JBool True),
         (''revalidateSourceRefs'', JBool True),
         (''approvalsReusable'', JBool False),
         (''executionAuthorityInherited'', JBool False),
         (''recheckRuntimeGuardBeforeAnyFutureExecution'', JBool True)])])"

definition canonicalCheckpointBody :: "string \<Rightarrow> jsval \<Rightarrow> jsval" where
  "canonicalCheckpointBody now_iso input = JObj (checkpoint_fields now_iso input)"

definition buildContinuationCheckpoint :: "(string \<Rightarrow> string) \<Rightarrow> string \<Rightarrow> jsval \<Rightarrow> jsval" where
  "buildContinuationCheckpoint sha now_iso input =
     JObj (checkpoint_fields now_iso input @
           [(''digest'', JStr (sha (json (canonicalCheckpointBody now_iso input))))])"

section \<open>Verification\<close>

record checkpoint_check =
  cc_valid :: bool
  cc_code :: string
  cc_digest :: jsval

definition invalid :: "string \<Rightarrow> checkpoint_check" where
  "invalid c = \<lparr>cc_valid = False, cc_code = c, cc_digest = Undef\<rparr>"

text \<open>\<^verbatim>\<open>/^[a-f0-9]{64}$/\<close>.\<close>

definition is_digest :: "string \<Rightarrow> bool" where
  "is_digest s \<longleftrightarrow> length s = 64 \<and> list_all (\<lambda>c. c \<in> set ''abcdef0123456789'') s"

definition false_at :: "jsval \<Rightarrow> string \<Rightarrow> bool" where
  "false_at v k \<longleftrightarrow> is_false (fld v k)"

definition unit_powerless :: "jsval \<Rightarrow> bool" where
  "unit_powerless item \<longleftrightarrow> list_all (false_at item)
     [''independentAgentIdentity'', ''independentMemory'', ''independentAuthority'', ''executionAllowed'', ''externalSideEffects'']"

text \<open>\<^verbatim>\<open>{digest,...body}=checkpoint\<close>.\<close>

fun without_digest :: "jsval \<Rightarrow> jsval" where
  "without_digest (JObj kvs) = JObj (filter (\<lambda>kv. fst kv \<noteq> ''digest'') kvs)"
| "without_digest v = v"

definition verifyContinuationCheckpoint :: "(string \<Rightarrow> string) \<Rightarrow> jsval \<Rightarrow> checkpoint_check" where
  "verifyContinuationCheckpoint sha checkpoint =
    (let authority = fld checkpoint ''authority''; resume = fld checkpoint ''resumePolicy'';
         digest = fld checkpoint ''digest''
     in if \<not> is_object checkpoint then invalid ''checkpoint_invalid''
        else if fld checkpoint ''version'' \<noteq> JStr AGENT_CONTINUATION_VERSION then invalid ''checkpoint_version_mismatch''
        else if fld checkpoint ''architecture'' \<noteq> JStr ''single_agent'' \<or> fld checkpoint ''agentKey'' \<noteq> JStr ''thebe''
          then invalid ''checkpoint_agent_identity_invalid''
        else if \<not> truthy (fld checkpoint ''runId'') then invalid ''checkpoint_run_required''
        else if \<not> list_all (false_at authority)
            [''inherited'', ''independentAuthority'', ''approvalReusable'', ''executionAllowed'', ''externalSideEffects'']
          then invalid ''checkpoint_authority_invalid''
        else if \<not> is_true (fld resume ''freshObservationRequired'') \<or> \<not> false_at resume ''approvalsReusable'' \<or>
            \<not> false_at resume ''executionAuthorityInherited'' \<or>
            \<not> is_true (fld resume ''recheckRuntimeGuardBeforeAnyFutureExecution'')
          then invalid ''checkpoint_resume_policy_invalid''
        else if \<not> list_all unit_powerless (elems (fld checkpoint ''workUnits''))
          then invalid ''checkpoint_work_unit_authority_invalid''
        else if \<not> list_all (\<lambda>item. false_at item ''executionAllowed'') (elems (fld checkpoint ''proposals''))
          then invalid ''checkpoint_proposal_execution_invalid''
        else if \<not> is_digest (str_or digest) then invalid ''checkpoint_digest_invalid''
        else if JStr (sha (json (without_digest checkpoint))) \<noteq> digest then invalid ''checkpoint_digest_mismatch''
        else \<lparr>cc_valid = True, cc_code = ''checkpoint_valid'', cc_digest = digest\<rparr>)"

section \<open>Resuming\<close>

definition review_history :: "jsval \<Rightarrow> string" where
  "review_history status = (if is_lit status ''approved'' then ''historically_approved_not_reusable''
     else if is_lit status ''rejected'' then ''historically_rejected'' else ''no_reusable_approval'')"

definition prior_proposal :: "jsval \<Rightarrow> jsval" where
  "prior_proposal item = JObj [
     (''ordinal'', fld item ''ordinal''), (''title'', fld item ''title''), (''priority'', fld item ''priority''),
     (''risk'', fld item ''risk''), (''authority'', fld item ''authority''),
     (''reviewHistory'', JStr (review_history (fld item ''status''))),
     (''sourceRefs'', fld item ''sourceRefs'')]"

text \<open>Reading a property of a nullish proposal throws, the result is then none.\<close>

definition buildResumeContext :: "jsval \<Rightarrow> jsval option" where
  "buildResumeContext checkpoint =
    (if list_ex nullish (elems (fld checkpoint ''proposals'')) then None
     else Some (JObj [
       (''continuationVersion'', JStr (text_of (fld checkpoint ''version'') 80)),
       (''parentRunId'', JStr (text_of (fld checkpoint ''runId'') 120)),
       (''checkpointDigest'', JStr (text_of (fld checkpoint ''digest'') 80)),
       (''goal'', JStr (text_of (fld checkpoint ''goal'') MAX_GOAL)),
       (''priorSummary'', JStr (text_of (fld checkpoint ''summary'') 1000)),
       (''priorConfidence'', JStr (rank_of (fld checkpoint ''confidence''))),
       (''priorSignals'', jor (fld checkpoint ''observation'') (JObj [])),
       (''priorWorkUnits'', JArr (elems (fld checkpoint ''workUnits''))),
       (''priorProposals'', JArr (map prior_proposal (elems (fld checkpoint ''proposals'')))),
       (''freshObservationRequired'', JBool True),
       (''approvalsReusable'', JBool False),
       (''executionAuthorityInherited'', JBool False),
       (''instruction'', JStr (''Re-observe the workspace before recommending next steps. Treat prior '' @
          ''approvals as non-transferable and do not expand authority.''))]))"

section \<open>Facts\<close>

lemma js_string_rank [simp]: "rank_of v \<in> {''low'', ''medium'', ''high''}"
  by (simp add: rank_of_def)

lemma unit_powerless_compact [simp]: "unit_powerless (compact_unit item)"
  by (simp add: unit_powerless_def false_at_def compact_unit_def)

lemma compact_proposal_inert [simp]: "false_at (compact_proposal item) ''executionAllowed''"
  by (simp add: false_at_def compact_proposal_def)

lemma without_digest_built:
  "without_digest (buildContinuationCheckpoint sha t inp) = canonicalCheckpointBody t inp"
  by (simp add: buildContinuationCheckpoint_def canonicalCheckpointBody_def checkpoint_fields_def Let_def)

lemma built_fields [simp]:
  "fld (buildContinuationCheckpoint sha t inp) ''version'' = JStr AGENT_CONTINUATION_VERSION"
  "fld (buildContinuationCheckpoint sha t inp) ''architecture'' = JStr ''single_agent''"
  "fld (buildContinuationCheckpoint sha t inp) ''agentKey'' = JStr ''thebe''"
  "fld (buildContinuationCheckpoint sha t inp) ''runId'' = JStr (text_of (fld inp ''runId'') 120)"
  "fld (buildContinuationCheckpoint sha t inp) ''workUnits'' =
     JArr (compactWorkUnits (jor (fld inp ''orchestration'') (fld (fld inp ''observation'') ''orchestration'')))"
  "fld (buildContinuationCheckpoint sha t inp) ''proposals'' = JArr (compactProposals (fld inp ''proposals''))"
  "fld (buildContinuationCheckpoint sha t inp) ''digest'' = JStr (sha (json (canonicalCheckpointBody t inp)))"
  by (simp_all add: buildContinuationCheckpoint_def checkpoint_fields_def Let_def)

lemma built_authority [simp]:
  "false_at (fld (buildContinuationCheckpoint sha t inp) ''authority'') k \<longleftrightarrow>
     k \<in> {''inherited'', ''independentAuthority'', ''approvalReusable'', ''executionAllowed'', ''externalSideEffects''}"
  by (simp add: buildContinuationCheckpoint_def checkpoint_fields_def Let_def false_at_def)

lemma built_resume [simp]:
  "fld (fld (buildContinuationCheckpoint sha t inp) ''resumePolicy'') ''freshObservationRequired'' = JBool True"
  "false_at (fld (buildContinuationCheckpoint sha t inp) ''resumePolicy'') ''approvalsReusable''"
  "false_at (fld (buildContinuationCheckpoint sha t inp) ''resumePolicy'') ''executionAuthorityInherited''"
  "fld (fld (buildContinuationCheckpoint sha t inp) ''resumePolicy'') ''recheckRuntimeGuardBeforeAnyFutureExecution'' = JBool True"
  by (simp_all add: buildContinuationCheckpoint_def checkpoint_fields_def Let_def false_at_def)

text \<open>The refusals of the verification, in order.\<close>

definition checkpoint_checks :: "(string \<Rightarrow> string) \<Rightarrow> jsval \<Rightarrow> (bool \<times> string) list" where
  "checkpoint_checks sha c =
    [(\<not> is_object c, ''checkpoint_invalid''),
     (fld c ''version'' \<noteq> JStr AGENT_CONTINUATION_VERSION, ''checkpoint_version_mismatch''),
     (fld c ''architecture'' \<noteq> JStr ''single_agent'' \<or> fld c ''agentKey'' \<noteq> JStr ''thebe'', ''checkpoint_agent_identity_invalid''),
     (\<not> truthy (fld c ''runId''), ''checkpoint_run_required''),
     (\<not> list_all (false_at (fld c ''authority''))
        [''inherited'', ''independentAuthority'', ''approvalReusable'', ''executionAllowed'', ''externalSideEffects''],
        ''checkpoint_authority_invalid''),
     (\<not> is_true (fld (fld c ''resumePolicy'') ''freshObservationRequired'') \<or> \<not> false_at (fld c ''resumePolicy'') ''approvalsReusable'' \<or>
        \<not> false_at (fld c ''resumePolicy'') ''executionAuthorityInherited'' \<or>
        \<not> is_true (fld (fld c ''resumePolicy'') ''recheckRuntimeGuardBeforeAnyFutureExecution''), ''checkpoint_resume_policy_invalid''),
     (\<not> list_all unit_powerless (elems (fld c ''workUnits'')), ''checkpoint_work_unit_authority_invalid''),
     (\<not> list_all (\<lambda>item. false_at item ''executionAllowed'') (elems (fld c ''proposals'')), ''checkpoint_proposal_execution_invalid''),
     (\<not> is_digest (str_or (fld c ''digest'')), ''checkpoint_digest_invalid''),
     (JStr (sha (json (without_digest c))) \<noteq> fld c ''digest'', ''checkpoint_digest_mismatch'')]"

lemma invalid_simps [simp]: "\<not> cc_valid (invalid e)" "cc_code (invalid e) = e"
  by (simp_all add: invalid_def)

lemma verify_by_checks:
  "(case first_fail (checkpoint_checks sha c) of
      Some e \<Rightarrow> \<not> cc_valid (verifyContinuationCheckpoint sha c) \<and> cc_code (verifyContinuationCheckpoint sha c) = e
    | None \<Rightarrow> cc_valid (verifyContinuationCheckpoint sha c))"
proof -
  obtain R where R: "verifyContinuationCheckpoint sha c = R" by blast
  have "(case first_fail (checkpoint_checks sha c) of Some e \<Rightarrow> \<not> cc_valid R \<and> cc_code R = e | None \<Rightarrow> cc_valid R)"
    using R unfolding verifyContinuationCheckpoint_def checkpoint_checks_def Let_def first_fail_Cons first_fail_Nil
    by (elim if_chain_cases; hypsubst; simp only: invalid_simps checkpoint_check.simps if_True if_False option.case
        not_True_eq_False not_False_eq_True simp_thms)
  then show ?thesis unfolding R .
qed

interpretation checkpoint: guard_chain "checkpoint_checks sha" "verifyContinuationCheckpoint sha" cc_valid cc_code for sha
proof unfold_locales
  show "\<not> cc_valid (verifyContinuationCheckpoint sha r) \<and> cc_code (verifyContinuationCheckpoint sha r) = e"
    if "first_fail (checkpoint_checks sha r) = Some e" for r e
    using verify_by_checks[of sha r] that by simp
  show "cc_valid (verifyContinuationCheckpoint sha r)" if "first_fail (checkpoint_checks sha r) = None" for r
    using verify_by_checks[of sha r] that by simp
qed

lemma str_or_digest: "is_digest (str_or (JStr s)) \<longleftrightarrow> is_digest s"
  by simp

lemma valid_not_nullish: "false_at item k \<Longrightarrow> \<not> nullish item"
  by (cases item) (auto simp: false_at_def)

lemma compact_units_powerless [simp]: "list_all unit_powerless (compactWorkUnits v)"
  by (simp add: compactWorkUnits_def list_all_iff)

lemma compact_proposals_inert [simp]: "list_all (\<lambda>item. false_at item ''executionAllowed'') (compactProposals v)"
  by (simp add: compactProposals_def list_all_iff)

lemma compact_bounds [simp]:
  "length (compactWorkUnits v) \<le> 6" "length (compactProposals v) \<le> 8"
  by (simp_all add: compactWorkUnits_def compactProposals_def MAX_CHECKPOINT_UNITS_def MAX_PROPOSALS_def)

lemma built_checks:
  assumes "\<And>s. is_digest (sha s)"
  shows "first_fail (checkpoint_checks sha (buildContinuationCheckpoint sha t inp)) =
      (if text_of (fld inp ''runId'') 120 = [] then Some ''checkpoint_run_required'' else None)"
proof -
  have "is_object (buildContinuationCheckpoint sha t inp)" by (simp add: buildContinuationCheckpoint_def)
  then show ?thesis
    unfolding checkpoint_checks_def by (simp add: assms without_digest_built)
qed

lemma built_verifies:
  assumes "\<And>s. is_digest (sha s)"
  shows "cc_valid (verifyContinuationCheckpoint sha (buildContinuationCheckpoint sha t inp)) \<longleftrightarrow>
     text_of (fld inp ''runId'') 120 \<noteq> []"
  using verify_by_checks[of sha "buildContinuationCheckpoint sha t inp"] built_checks[of sha t inp] assms
  by (auto split: if_splits)

section \<open>Properties\<close>

text \<open>C39: a checkpoint that was just built verifies, provided the run has an id (and the digest
  function yields 64 hexadecimal digits, as SHA-256 does); without one it is refused for that
  reason. It holds at most six work units and eight proposals, all without authority.\<close>

theorem checkpoint_roundtrip:
  assumes "\<And>s. is_digest (sha s)"
  shows "(let c = buildContinuationCheckpoint sha t inp; r = verifyContinuationCheckpoint sha c
     in cc_valid r = (text_of (fld inp ''runId'') 120 \<noteq> []) \<and>
        (\<not> cc_valid r \<longrightarrow> cc_code r = ''checkpoint_run_required'') \<and>
        length (elems (fld c ''workUnits'')) \<le> 6 \<and> length (elems (fld c ''proposals'')) \<le> 8 \<and>
        list_all unit_powerless (elems (fld c ''workUnits'')))"
  using verify_by_checks[of sha "buildContinuationCheckpoint sha t inp"] built_checks[of sha t inp] assms
  by (auto simp: Let_def split: if_splits)

text \<open>C40: a checkpoint that verifies is unchanged since its digest was taken, and lends nothing to
  the run that resumes from it: its digest is that of its own JSON text, none of its work units or
  proposals carries identity, memory, authority or execution, and the resume context can be built
  from it (no proposal is missing), asks for a fresh observation, inherits no authority, passes no
  approval on and hands the proposals over without an execution flag.\<close>

theorem verified_checkpoint_lends_nothing:
  assumes "cc_valid (verifyContinuationCheckpoint sha c)"
  shows "fld c ''digest'' = JStr (sha (json (without_digest c))) \<and>
    list_all unit_powerless (elems (fld c ''workUnits'')) \<and>
    (\<exists>ctx. buildResumeContext c = Some ctx \<and>
       fld ctx ''freshObservationRequired'' = JBool True \<and> fld ctx ''approvalsReusable'' = JBool False \<and>
       fld ctx ''executionAuthorityInherited'' = JBool False \<and>
       length (elems (fld ctx ''priorProposals'')) = length (elems (fld c ''proposals'')) \<and>
       (\<forall>p \<in> set (elems (fld ctx ''priorProposals'')). fld p ''executionAllowed'' = Undef \<and>
          fld p ''reviewHistory'' \<noteq> JStr ''approved''))"
proof -
  have ok: "\<forall>(b, e) \<in> set (checkpoint_checks sha c). \<not> b"
    using assms by (simp add: checkpoint.passed_iff)
  then have d: "fld c ''digest'' = JStr (sha (json (without_digest c)))"
    and u: "list_all unit_powerless (elems (fld c ''workUnits''))"
    and p: "list_all (\<lambda>item. false_at item ''executionAllowed'') (elems (fld c ''proposals''))"
    unfolding checkpoint_checks_def by simp_all
  from p have "\<not> list_ex nullish (elems (fld c ''proposals''))"
    by (auto simp: list_ex_iff list_all_iff dest: valid_not_nullish)
  then show ?thesis using d u
    by (simp add: buildResumeContext_def prior_proposal_def review_history_def)
qed

section \<open>Samples\<close>

text \<open>A digest function for the examples: the low hexadecimal digits of the first 64 characters.\<close>

definition sample_sha :: "string \<Rightarrow> string" where
  "sample_sha s = take 64 (map (\<lambda>c. hex_digit (of_char c mod 16)) (take 64 s) @ replicate 64 (CHR ''0''))"

lemma hex_digit_ok: "(n::nat) < 16 \<Longrightarrow> hex_digit n \<in> set ''abcdef0123456789''"
proof -
  have "\<forall>n \<in> {0::nat..<16}. hex_digit n \<in> set ''abcdef0123456789''" by code_simp
  then show "n < 16 \<Longrightarrow> hex_digit n \<in> set ''abcdef0123456789''" by simp
qed

lemma sample_sha_digest: "is_digest (sample_sha s)"
proof -
  have "\<forall>c \<in> set (sample_sha s). c \<in> set ''abcdef0123456789''"
  proof
    fix c assume "c \<in> set (sample_sha s)"
    then have "c = CHR ''0'' \<or> (\<exists>d::char. c = hex_digit (of_char d mod 16))"
      by (auto simp: sample_sha_def dest!: in_set_takeD)
    then show "c \<in> set ''abcdef0123456789''" using hex_digit_ok[of "of_char d mod 16" for d::char] by fastforce
  qed
  then show ?thesis by (simp add: is_digest_def sample_sha_def list_all_iff)
qed

definition sample_run :: jsval where
  "sample_run = JObj [(''runId'', JStr ''run-1''), (''goal'', JStr '' pay suppliers ''), (''confidence'', JStr ''high''),
     (''proposals'', JArr [JObj [(''title'', JStr ''Call the bank''), (''status'', JStr ''approved'')]])]"

lemma sample_run_id: "text_of (fld sample_run ''runId'') 120 \<noteq> []"
  by code_simp

theorem checkpoint_roundtrip_witness:
  "cc_valid (verifyContinuationCheckpoint sample_sha (buildContinuationCheckpoint sample_sha ''2026-10-01'' sample_run))"
  using checkpoint_roundtrip [where sha = sample_sha and t = "''2026-10-01''" and inp = sample_run] sample_sha_digest
    sample_run_id unfolding Let_def by blast

theorem verified_checkpoint_lends_nothing_witness:
  "\<exists>ctx. buildResumeContext (buildContinuationCheckpoint sample_sha ''2026-10-01'' sample_run) = Some ctx \<and>
     fld ctx ''executionAuthorityInherited'' = JBool False \<and> length (elems (fld ctx ''priorProposals'')) = 1"
proof -
  have v: "cc_valid (verifyContinuationCheckpoint sample_sha (buildContinuationCheckpoint sample_sha ''2026-10-01'' sample_run)) \<and>
     length (elems (fld (buildContinuationCheckpoint sample_sha ''2026-10-01'' sample_run) ''proposals'')) = 1"
    using sample_sha_digest by (simp add: built_verifies sample_run_id) (simp add: sample_run_def compactProposals_def MAX_PROPOSALS_def)
  define c where "c = buildContinuationCheckpoint sample_sha ''2026-10-01'' sample_run"
  have "cc_valid (verifyContinuationCheckpoint sample_sha c)" and n: "length (elems (fld c ''proposals'')) = 1"
    using v by (simp_all only: c_def)
  then obtain ctx where "buildResumeContext c = Some ctx" "fld ctx ''executionAuthorityInherited'' = JBool False"
      "length (elems (fld ctx ''priorProposals'')) = length (elems (fld c ''proposals''))"
    using verified_checkpoint_lends_nothing [of sample_sha c] by blast
  with n show ?thesis unfolding c_def[symmetric] by auto
qed

end
