(* ===== verification/OwnerAttention.thy ===== *)
theory OwnerAttention imports Interfaces "HOL-Library.AList" "HOL-Library.List_Lexorder" begin

text \<open>
  The owner's attention list: \<^verbatim>\<open>owner-attention.js\<close>. Rows of the daily brief, approvals, outcomes
  and deterministic recommendations become items of one shape, are sorted, and are counted; a
  source that could not be read has no count. The reading of dates \<open>dp\<close> is a parameter, and so is
  the collation \<open>ck\<close>: \<^verbatim>\<open>a.localeCompare(b)\<close> compares the collation keys of the two texts.
\<close>

section \<open>Availability of the sources\<close>

definition OWNER_ATTENTION_VERSION :: string where "OWNER_ATTENTION_VERSION = ''2026-10-11.v1''"

definition VALID_STATES :: "string list" where "VALID_STATES = [''ready'', ''loading'', ''unavailable'']"

definition VALID_SEVERITIES :: "string list" where
  "VALID_SEVERITIES = [''critical'', ''urgent'', ''high'', ''warning'', ''medium'', ''low'', ''info'', ''positive'']"

definition VALID_TRUTH_STATES :: "string list" where
  "VALID_TRUTH_STATES = [''verified'', ''recorded'', ''submitted'', ''completed'', ''generated'', ''approved'', ''open'',
     ''in_progress'', ''review'', ''blocked'', ''unknown'', ''recommendation'']"

text \<open>A text or null: \<^verbatim>\<open>clean(v,max)||null\<close>.\<close>

definition opt_clean :: "jsval \<Rightarrow> nat \<Rightarrow> string option" where
  "opt_clean v k = (if clean v k = [] then None else Some (clean v k))"

definition iso :: "date_parse \<Rightarrow> jsval \<Rightarrow> string option" where
  "iso dp v = (let raw = clean v 80 in if raw = [] then None else map_option iso_text (dp raw))"

definition isoDate :: "date_parse \<Rightarrow> jsval \<Rightarrow> string option" where
  "isoDate dp v = (let raw = clean v 20 in
     if raw = [] then None
     else if date_shape raw \<and> dp (raw @ ''T00:00:00Z'') \<noteq> None then Some raw
     else map_option (\<lambda>t. take 10 (iso_text t)) (dp raw))"

text \<open>\<^verbatim>\<open>bool(v,fallback)\<close>.\<close>

definition bool_or :: "jsval \<Rightarrow> bool \<Rightarrow> bool" where
  "bool_or v d = (if is_true v then True else if is_false v then False else d)"

fun flag_of :: "jsval \<Rightarrow> bool option" where
  "flag_of (JBool b) = Some b"
| "flag_of _ = None"

record availability =
  av_available :: "bool option"
  av_required :: bool
  av_observedAt :: "string option"
  av_reason :: "string option"

definition normalizeAvailabilityEntry :: "date_parse \<Rightarrow> jsval \<Rightarrow> bool \<Rightarrow> availability" where
  "normalizeAvailabilityEntry dp v required =
    (case v of
       JBool b \<Rightarrow> \<lparr>av_available = Some b, av_required = required, av_observedAt = None, av_reason = None\<rparr>
     | _ \<Rightarrow> if \<not> is_object v then \<lparr>av_available = None, av_required = required, av_observedAt = None, av_reason = None\<rparr>
         else \<lparr>av_available = flag_of (fld v ''available''), av_required = bool_or (fld v ''required'') required,
               av_observedAt = iso dp (fld v ''observedAt''), av_reason = opt_clean (fld v ''reason'') 180\<rparr>)"

text \<open>The own properties of an object; an array has its indices.\<close>

fun own_entries :: "jsval \<Rightarrow> (string \<times> jsval) list" where
  "own_entries (JObj kvs) = kvs"
| "own_entries (JArr xs) = zip (map nat_str [0..<length xs]) xs"
| "own_entries _ = []"

definition source_defaults :: "(string \<times> bool) list" where
  "source_defaults = [(''dailyBrief'', True), (''businessContext'', False), (''approvals'', True), (''outcomes'', True)]"

definition own_value :: "jsval \<Rightarrow> string \<Rightarrow> jsval" where
  "own_value source name = (case map_of (own_entries source) name of None \<Rightarrow> Undef | Some v \<Rightarrow> v)"

definition default_required :: "string \<Rightarrow> bool" where
  "default_required name = (map_of source_defaults name = Some True)"

text \<open>An empty key is skipped; assigning to \<^verbatim>\<open>__proto__\<close> creates no own property.\<close>

definition put_source :: "date_parse \<Rightarrow> jsval \<Rightarrow> string \<Rightarrow> (string \<times> availability) list \<Rightarrow> (string \<times> availability) list" where
  "put_source dp source name out =
    (let key = clean_str 80 name in
     if key = [] \<or> key = ''__proto__'' then out
     else AList.update key (normalizeAvailabilityEntry dp (own_value source name) (default_required name)) out)"

definition normalizeOwnerAttentionAvailability :: "date_parse \<Rightarrow> jsval \<Rightarrow> (string \<times> availability) list" where
  "normalizeOwnerAttentionAvailability dp source =
     fold (put_source dp source) (dedup (map fst source_defaults @ map fst (own_entries source))) []"

type_synonym availability_map = "(string \<times> availability) list"

definition sourceAvailable :: "availability_map \<Rightarrow> string \<Rightarrow> bool" where
  "sourceAvailable av name = (case map_of av name of None \<Rightarrow> False | Some e \<Rightarrow> av_available e = Some True)"

definition requiredSourceUnavailable :: "availability_map \<Rightarrow> bool" where
  "requiredSourceUnavailable av = list_ex (\<lambda>e. av_required (snd e) \<and> av_available (snd e) = Some False) av"

definition requiredSourceUnknown :: "availability_map \<Rightarrow> bool" where
  "requiredSourceUnknown av = list_ex (\<lambda>e. av_required (snd e) \<and> av_available (snd e) \<noteq> Some True) av"

section \<open>Items\<close>

definition severity :: "jsval \<Rightarrow> string" where
  "severity v = (let raw = lower (clean v 24) in if raw \<in> set VALID_SEVERITIES then raw else ''medium'')"

definition truthState :: "jsval \<Rightarrow> jsval \<Rightarrow> string" where
  "truthState v authoritative =
    (if \<not> truthy authoritative then ''recommendation''
     else (let raw = lower (clean v 32) in if raw \<in> set VALID_TRUTH_STATES then raw else ''recorded''))"

definition evidenceState :: "jsval \<Rightarrow> string" where
  "evidenceState v = (let raw = lower (clean v 40) in if raw = [] then ''unknown'' else raw)"

definition sourceRefs :: "jsval \<Rightarrow> string list" where
  "sourceRefs v = take 12 (dedup (filter (\<lambda>s. s \<noteq> []) (map (\<lambda>x. clean x 120) (elems v))))"

definition ownerValue :: "jsval \<Rightarrow> jsval" where
  "ownerValue v =
    (if \<not> truthy v then Null
     else case v of JStr s \<Rightarrow> JObj [(''label'', or_null (clean v 120))]
       | _ \<Rightarrow> if \<not> is_object v then Null
         else (let i = clean (jor (fld v ''id'') (fld v ''userId'')) 120;
                   l = clean (jor (fld v ''label'') (jor (fld v ''name'') (fld v ''displayName''))) 120
               in if i = [] \<and> l = [] then Null else JObj [(''id'', or_null i), (''label'', or_null l)]))"

record item_input =
  in_sourceType :: jsval
  in_sourceId :: jsval
  in_category :: jsval
  in_title :: jsval
  in_owner :: jsval
  in_dueAt :: jsval
  in_severity :: jsval
  in_truthState :: jsval
  in_evidenceState :: jsval
  in_refs :: jsval
  in_recommendation :: jsval
  in_actionRoute :: jsval
  in_updatedAt :: jsval
  in_authoritative :: jsval
  in_status :: jsval
  in_detail :: jsval

record att_item =
  at_key :: string
  at_sourceType :: string
  at_sourceId :: string
  at_category :: string
  at_title :: string
  at_owner :: jsval
  at_dueAt :: "string option"
  at_severity :: string
  at_truthState :: string
  at_evidenceState :: string
  at_sourceRefs :: "string list"
  at_recommendedAction :: "string option"
  at_actionRoute :: "string option"
  at_updatedAt :: "string option"
  at_authoritative :: bool
  at_status :: "string option"
  at_detail :: "string option"

definition canonicalItem :: "date_parse \<Rightarrow> item_input \<Rightarrow> att_item option" where
  "canonicalItem dp a =
    (let st = clean (in_sourceType a) 80; si = clean (in_sourceId a) 160; ti = clean (in_title a) 220;
         authoritative = dflt (in_authoritative a) (JBool True);
         cat = clean (dflt (in_category a) (JStr ''action'')) 40
     in if st = [] \<or> si = [] \<or> ti = [] then None
        else Some \<lparr>at_key = st @ '':'' @ si, at_sourceType = st, at_sourceId = si,
          at_category = (if cat = [] then ''action'' else cat), at_title = ti,
          at_owner = ownerValue (in_owner a), at_dueAt = iso dp (in_dueAt a),
          at_severity = severity (dflt (in_severity a) (JStr ''medium'')),
          at_truthState = truthState (dflt (in_truthState a) (JStr ''recorded'')) authoritative,
          at_evidenceState = evidenceState (dflt (in_evidenceState a) (JStr ''unknown'')),
          at_sourceRefs = sourceRefs (in_refs a),
          at_recommendedAction = opt_clean (in_recommendation a) 320,
          at_actionRoute = opt_clean (in_actionRoute a) 180, at_updatedAt = iso dp (in_updatedAt a),
          at_authoritative = is_true authoritative, at_status = opt_clean (in_status a) 60,
          at_detail = opt_clean (in_detail a) 500\<rparr>)"

text \<open>\<^verbatim>\<open>row?.a||row?.b||d\<close>.\<close>

definition first_of :: "jsval \<Rightarrow> string list \<Rightarrow> jsval \<Rightarrow> jsval" where
  "first_of row ks d = foldr (\<lambda>k r. jor (fld row k) r) ks d"

definition numbered :: "string \<Rightarrow> nat \<Rightarrow> jsval" where
  "numbered prefix index = JStr (prefix @ nat_str (index + 1))"

definition updated_fields :: "string list" where
  "updated_fields = [''updatedAt'', ''updated_at'', ''createdAt'', ''created_at'']"

definition action_input :: "nat \<Rightarrow> jsval \<Rightarrow> item_input" where
  "action_input index row =
    \<lparr>in_sourceType = first_of row [''source'', ''sourceType'', ''kind''] (JStr ''daily_brief''),
     in_sourceId = first_of row [''id'', ''sourceId'', ''key''] (numbered ''action-'' index),
     in_category = JStr ''action'',
     in_title = first_of row [''title'', ''label''] (JStr ''Business action''),
     in_owner = first_of row [''owner'', ''assignedOwner''] Null,
     in_dueAt = first_of row [''dueAt'', ''due_at''] Null,
     in_severity = first_of row [''severity''] (JStr (if to_num (fld row ''priority'') = Fin 1 then ''high'' else ''medium'')),
     in_truthState = first_of row [''truthState'', ''status''] (JStr ''recorded''),
     in_evidenceState = first_of row [''evidenceState'', ''evidenceHealth''] (JStr ''unknown''),
     in_refs = first_of row [''sourceRefs'', ''evidenceRefs''] (JArr []),
     in_recommendation = first_of row [''recommendedAction'', ''recommendation'', ''action''] Null,
     in_actionRoute = first_of row [''actionRoute'', ''target''] Null,
     in_updatedAt = first_of row updated_fields Null,
     in_authoritative = JBool True,
     in_status = first_of row [''status''] Null,
     in_detail = first_of row [''detail'', ''reason''] Null\<rparr>"

definition dailyActionItems :: "date_parse \<Rightarrow> jsval \<Rightarrow> att_item list" where
  "dailyActionItems dp dailyBrief =
     (let rows = elems (fld dailyBrief ''topActions'')
      in List.map_filter (\<lambda>(i, row). canonicalItem dp (action_input i row)) (enumerate 0 rows))"

definition recommendation_input :: "jsval \<Rightarrow> nat \<Rightarrow> jsval \<Rightarrow> item_input" where
  "recommendation_input businessBrief index row =
    \<lparr>in_sourceType = JStr ''business_priority'',
     in_sourceId = first_of row [''key'', ''id''] (numbered ''priority-'' index),
     in_category = JStr ''recommendation'',
     in_title = first_of row [''title''] (JStr ''Thebe recommendation''),
     in_owner = Null,
     in_dueAt = first_of row [''dueAt''] Null,
     in_severity = first_of row [''severity''] (JStr ''medium''),
     in_truthState = JStr ''recommendation'',
     in_evidenceState = JStr (if elems (fld row ''sourceRefs'') \<noteq> [] then ''referenced'' else ''unknown''),
     in_refs = first_of row [''sourceRefs''] (JArr []),
     in_recommendation = first_of row [''detail'', ''recommendation''] Null,
     in_actionRoute = first_of row [''actionKey'', ''actionRoute''] Null,
     in_updatedAt = first_of businessBrief [''observedAt''] Null,
     in_authoritative = JBool False,
     in_status = JStr ''recommendation'',
     in_detail = first_of row [''detail''] Null\<rparr>"

definition deterministicRecommendations :: "date_parse \<Rightarrow> jsval \<Rightarrow> att_item list" where
  "deterministicRecommendations dp businessBrief =
     (let rows = elems (fld businessBrief ''priorities'')
      in List.map_filter (\<lambda>(i, row). canonicalItem dp (recommendation_input businessBrief i row)) (enumerate 0 rows))"

definition approval_input :: "nat \<Rightarrow> jsval \<Rightarrow> item_input" where
  "approval_input index row =
    \<lparr>in_sourceType = first_of row [''sourceType'', ''type''] (JStr ''approval''),
     in_sourceId = first_of row [''sourceId'', ''id''] (numbered ''approval-'' index),
     in_category = JStr ''approval'',
     in_title = first_of row [''title'', ''label''] (JStr ''Approval required''),
     in_owner = first_of row [''owner'', ''reviewer''] Null,
     in_dueAt = first_of row [''dueAt'', ''due_at''] Null,
     in_severity = first_of row [''severity''] (JStr ''medium''),
     in_truthState = first_of row [''truthState'', ''status''] (JStr ''review''),
     in_evidenceState = first_of row [''evidenceState'', ''evidenceHealth''] (JStr ''unknown''),
     in_refs = first_of row [''sourceRefs'', ''evidenceRefs''] (JArr []),
     in_recommendation = first_of row [''recommendedAction'', ''recommendation'']
       (JStr ''Review the supporting record before deciding.''),
     in_actionRoute = first_of row [''actionRoute'', ''target''] Null,
     in_updatedAt = first_of row updated_fields Null,
     in_authoritative = JBool True,
     in_status = first_of row [''status''] Null,
     in_detail = first_of row [''detail'', ''reason''] Null\<rparr>"

definition approvalItems :: "date_parse \<Rightarrow> jsval \<Rightarrow> att_item list" where
  "approvalItems dp approvals =
     List.map_filter (\<lambda>(i, row). canonicalItem dp (approval_input i row)) (enumerate 0 (elems approvals))"

definition outcome_input :: "nat \<Rightarrow> jsval \<Rightarrow> item_input" where
  "outcome_input index row =
    \<lparr>in_sourceType = first_of row [''sourceType'', ''type''] (JStr ''outcome''),
     in_sourceId = first_of row [''sourceId'', ''id''] (numbered ''outcome-'' index),
     in_category = JStr ''outcome'',
     in_title = first_of row [''title'', ''label''] (JStr ''Outcome pending''),
     in_owner = first_of row [''owner''] Null,
     in_dueAt = first_of row [''dueAt'', ''due_at''] Null,
     in_severity = first_of row [''severity''] (JStr ''medium''),
     in_truthState = first_of row [''truthState'', ''status''] (JStr ''review''),
     in_evidenceState = first_of row [''evidenceState'', ''evidenceHealth''] (JStr ''unknown''),
     in_refs = first_of row [''sourceRefs'', ''evidenceRefs''] (JArr []),
     in_recommendation = first_of row [''recommendedAction'', ''recommendation'']
       (JStr ''Record the verified outcome when evidence is available.''),
     in_actionRoute = first_of row [''actionRoute'', ''target''] Null,
     in_updatedAt = first_of row updated_fields Null,
     in_authoritative = JBool True,
     in_status = first_of row [''status''] Null,
     in_detail = first_of row [''detail'', ''reason''] Null\<rparr>"

definition outcomeItems :: "date_parse \<Rightarrow> jsval \<Rightarrow> att_item list" where
  "outcomeItems dp outcomes =
     List.map_filter (\<lambda>(i, row). canonicalItem dp (outcome_input i row)) (enumerate 0 (elems outcomes))"

section \<open>The order of the list\<close>

definition severityRank :: "string \<Rightarrow> int" where
  "severityRank s = (case map_of [(''critical'', 0), (''urgent'', 1), (''high'', 2), (''warning'', 3), (''medium'', 4),
     (''low'', 5), (''info'', 6), (''positive'', 7)] s of None \<Rightarrow> 9 | Some r \<Rightarrow> r)"

definition due_ms :: "date_parse \<Rightarrow> att_item \<Rightarrow> jsnum" where
  "due_ms dp x = (case at_dueAt x of None \<Rightarrow> PosInf | Some s \<Rightarrow> opt_num (dp s))"

text \<open>The comparison function: its number is positive when the second item goes first, and a NaN
  counts as zero.\<close>

definition item_compare :: "date_parse \<Rightarrow> (string \<Rightarrow> 'k::linorder) \<Rightarrow> att_item \<Rightarrow> att_item \<Rightarrow> jsnum" where
  "item_compare dp ck a b =
    (let delta = severityRank (at_severity a) - severityRank (at_severity b); aDue = due_ms dp a; bDue = due_ms dp b
     in if delta \<noteq> 0 then Fin (of_int delta)
        else if \<not> num_eq aDue bDue then num_sub aDue bDue
        else Fin (if ck (at_key a) < ck (at_key b) then - 1 else if ck (at_key b) < ck (at_key a) then 1 else 0))"

definition item_le :: "date_parse \<Rightarrow> (string \<Rightarrow> 'k::linorder) \<Rightarrow> att_item \<Rightarrow> att_item \<Rightarrow> bool" where
  "item_le dp ck a b \<longleftrightarrow> \<not> num_lt (Fin 0) (item_compare dp ck a b)"

definition sortItems :: "date_parse \<Rightarrow> (string \<Rightarrow> 'k::linorder) \<Rightarrow> att_item list \<Rightarrow> att_item list" where
  "sortItems dp ck items = js_sort (item_le dp ck) items"

section \<open>Counts and the projection\<close>

definition countIfAvailable :: "availability_map \<Rightarrow> string \<Rightarrow> att_item list \<Rightarrow> string \<Rightarrow> nat option" where
  "countIfAvailable av name items category =
    (if \<not> sourceAvailable av name then None
     else Some (length (filter (\<lambda>x. at_category x = category) items)))"

definition urgentCount :: "att_item list \<Rightarrow> nat" where
  "urgentCount items = length (filter (\<lambda>x. at_authoritative x \<and> at_severity x \<in> {''critical'', ''urgent'', ''high''}) items)"

text \<open>\<^verbatim>\<open>now\<close> is a date or a text.\<close>

datatype clock = Date_Object jsnum | Date_Text jsval

fun clock_ms :: "date_parse \<Rightarrow> clock \<Rightarrow> jsnum" where
  "clock_ms dp (Date_Object n) = n"
| "clock_ms dp (Date_Text v) = opt_num (dp (js_string v))"

definition overdueCount :: "date_parse \<Rightarrow> att_item list \<Rightarrow> clock \<Rightarrow> nat option" where
  "overdueCount dp items now =
    (let nowMs = clock_ms dp now in
     if \<not> is_finite nowMs then None
     else Some (length (filter (\<lambda>x. at_authoritative x \<and> at_dueAt x \<noteq> None \<and> num_lt (due_ms dp x) nowMs \<and>
        at_truthState x \<notin> {''completed'', ''approved''}) items)))"

record attention_request =
  rq_requestedState :: jsval
  rq_generatedAt :: jsval
  rq_businessDate :: jsval
  rq_market :: jsval
  rq_businessBrief :: jsval
  rq_dailyBrief :: jsval
  rq_approvals :: jsval
  rq_outcomes :: jsval
  rq_sourceAvailability :: jsval
  rq_now :: clock

record attention_counts =
  ct_action :: "nat option"
  ct_approvals :: "nat option"
  ct_outcomes :: "nat option"
  ct_recommendations :: "nat option"
  ct_total :: "nat option"
  ct_urgent :: "nat option"
  ct_overdue :: "nat option"

record projection =
  pr_version :: string
  pr_state :: string
  pr_generatedAt :: string
  pr_businessDate :: "string option"
  pr_market :: jsval
  pr_counts :: attention_counts
  pr_items :: "att_item list"
  pr_sourceAvailability :: availability_map

definition market_block :: "jsval \<Rightarrow> jsval" where
  "market_block market =
    (if truthy market \<and> is_object market
     then JObj [(''code'', or_null (clean (fld market ''code'') 24)),
       (''country'', or_null (clean (fld market ''country'') 80)),
       (''jurisdiction'', or_null (clean (jor (fld market ''jurisdiction'') (fld market ''country'')) 80)),
       (''currency'', or_null (clean (fld market ''currency'') 16)),
       (''timeZone'', or_null (clean (fld market ''timeZone'') 80))]
     else Null)"

definition attention_items :: "date_parse \<Rightarrow> availability_map \<Rightarrow> attention_request \<Rightarrow> att_item list" where
  "attention_items dp av q =
    (if sourceAvailable av ''dailyBrief'' then dailyActionItems dp (rq_dailyBrief q) else []) @
    (if sourceAvailable av ''approvals'' then approvalItems dp (rq_approvals q) else []) @
    (if sourceAvailable av ''outcomes'' then outcomeItems dp (rq_outcomes q) else []) @
    (if sourceAvailable av ''businessContext'' then deterministicRecommendations dp (rq_businessBrief q) else [])"

text \<open>The text of the current time is a parameter, used when \<^verbatim>\<open>generatedAt\<close> is no date.\<close>

definition buildOwnerAttentionProjection ::
    "date_parse \<Rightarrow> (string \<Rightarrow> 'k::linorder) \<Rightarrow> string \<Rightarrow> attention_request \<Rightarrow> projection" where
  "buildOwnerAttentionProjection dp ck now_iso q =
    (let av = normalizeOwnerAttentionAvailability dp (rq_sourceAvailability q);
         explicit = (case dflt (rq_requestedState q) (JStr ''ready'') of
            JStr s \<Rightarrow> if s \<in> set VALID_STATES then s else ''ready'' | _ \<Rightarrow> ''ready'');
         state = (if explicit = ''loading'' then ''loading''
            else if requiredSourceUnavailable av \<or> requiredSourceUnknown av then ''unavailable'' else explicit);
         items = sortItems dp ck (attention_items dp av q);
         actionCount = countIfAvailable av ''dailyBrief'' items ''action'';
         approvalCount = countIfAvailable av ''approvals'' items ''approval'';
         outcomeCount = countIfAvailable av ''outcomes'' items ''outcome'';
         counts = [actionCount, approvalCount, outcomeCount];
         covered = list_all (\<lambda>c. c \<noteq> None) counts
     in \<lparr>pr_version = OWNER_ATTENTION_VERSION, pr_state = state,
         pr_generatedAt = (case iso dp (rq_generatedAt q) of Some t \<Rightarrow> t | None \<Rightarrow> now_iso),
         pr_businessDate = isoDate dp (rq_businessDate q), pr_market = market_block (rq_market q),
         pr_counts = \<lparr>ct_action = actionCount, ct_approvals = approvalCount, ct_outcomes = outcomeCount,
            ct_recommendations = countIfAvailable av ''businessContext'' items ''recommendation'',
            ct_total = (if covered then Some (sum_list (map the counts)) else None),
            ct_urgent = (if covered then Some (urgentCount items) else None),
            ct_overdue = (if covered then overdueCount dp items (rq_now q) else None)\<rparr>,
         pr_items = items, pr_sourceAvailability = av\<rparr>)"

section \<open>Facts\<close>

lemma set_map_filter: "x \<in> set (List.map_filter f xs) \<longleftrightarrow> (\<exists>y \<in> set xs. f y = Some x)"
  by (induction xs) (auto simp: List.map_filter_def split: option.splits)

lemma canonicalItem_SomeD:
  "canonicalItem dp a = Some x \<Longrightarrow>
     at_dueAt x = iso dp (in_dueAt a) \<and> at_authoritative x = is_true (dflt (in_authoritative a) (JBool True)) \<and>
     at_truthState x = truthState (dflt (in_truthState a) (JStr ''recorded'')) (dflt (in_authoritative a) (JBool True)) \<and>
     at_category x = (let cat = clean (dflt (in_category a) (JStr ''action'')) 40 in if cat = [] then ''action'' else cat)"
  unfolding canonicalItem_def Let_def
  by (erule if_chain_cases) (simp, simp only: option.inject, hypsubst, simp)

lemma clean_categories [simp]:
  "clean (JStr ''action'') 40 = ''action''" "clean (JStr ''approval'') 40 = ''approval''"
  "clean (JStr ''outcome'') 40 = ''outcome''" "clean (JStr ''recommendation'') 40 = ''recommendation''"
  by code_simp+

definition item_kind :: "string \<Rightarrow> bool \<Rightarrow> date_parse \<Rightarrow> att_item \<Rightarrow> bool" where
  "item_kind cat authoritative dp x \<longleftrightarrow> at_category x = cat \<and> at_authoritative x = authoritative \<and>
     (\<not> authoritative \<longrightarrow> at_truthState x = ''recommendation'') \<and>
     (case at_dueAt x of None \<Rightarrow> True | Some s \<Rightarrow> \<exists>r t. dp r = Some t \<and> s = iso_text t)"

lemma iso_SomeD: "iso dp v = Some s \<Longrightarrow> \<exists>r t. dp r = Some t \<and> s = iso_text t"
  by (auto simp: iso_def Let_def split: if_splits)

lemma canonical_kind:
  assumes "canonicalItem dp a = Some x" "in_authoritative a = JBool b" "in_category a = JStr cat"
    "clean (JStr cat) 40 = cat" "cat \<noteq> []"
  shows "item_kind cat b dp x"
  using canonicalItem_SomeD[OF assms(1)] assms(2-5) iso_SomeD[of dp "in_dueAt a"]
  by (auto simp: item_kind_def dflt_def truthState_def split: option.splits)

lemma action_kind: "x \<in> set (dailyActionItems dp v) \<Longrightarrow> item_kind ''action'' True dp x"
  by (auto simp: dailyActionItems_def set_map_filter action_input_def elim: canonical_kind)

lemma approval_kind: "x \<in> set (approvalItems dp v) \<Longrightarrow> item_kind ''approval'' True dp x"
  by (auto simp: approvalItems_def set_map_filter approval_input_def elim: canonical_kind)

lemma outcome_kind: "x \<in> set (outcomeItems dp v) \<Longrightarrow> item_kind ''outcome'' True dp x"
  by (auto simp: outcomeItems_def set_map_filter outcome_input_def elim: canonical_kind)

lemma recommendation_kind: "x \<in> set (deterministicRecommendations dp v) \<Longrightarrow> item_kind ''recommendation'' False dp x"
  by (auto simp: deterministicRecommendations_def set_map_filter recommendation_input_def elim: canonical_kind)

lemmas item_kinds = action_kind approval_kind outcome_kind recommendation_kind

lemma filter_kind:
  "(\<And>x. x \<in> set xs \<Longrightarrow> item_kind c b dp x) \<Longrightarrow> filter (\<lambda>x. at_category x = c') xs = (if c' = c then xs else [])"
  by (induction xs) (auto simp: item_kind_def)

lemma filter_category:
  "filter (\<lambda>x. at_category x = c) (dailyActionItems dp v1) = (if c = ''action'' then dailyActionItems dp v1 else [])"
  "filter (\<lambda>x. at_category x = c) (approvalItems dp v2) = (if c = ''approval'' then approvalItems dp v2 else [])"
  "filter (\<lambda>x. at_category x = c) (outcomeItems dp v3) = (if c = ''outcome'' then outcomeItems dp v3 else [])"
  "filter (\<lambda>x. at_category x = c) (deterministicRecommendations dp v4) =
     (if c = ''recommendation'' then deterministicRecommendations dp v4 else [])"
  by (simp_all add: filter_kind[OF action_kind] filter_kind[OF approval_kind] filter_kind[OF outcome_kind]
      filter_kind[OF recommendation_kind])

text \<open>An item is dated when its due date, if it has one, reads as a time.\<close>

definition dated :: "date_parse \<Rightarrow> att_item \<Rightarrow> bool" where
  "dated dp x \<longleftrightarrow> (case at_dueAt x of None \<Rightarrow> True | Some s \<Rightarrow> dp s \<noteq> None)"

lemma due_ms_dated: "dated dp x \<Longrightarrow> due_ms dp x = PosInf \<or> (\<exists>q. due_ms dp x = Fin q)"
  by (auto simp: dated_def due_ms_def split: option.splits)

lemma item_le_iff:
  assumes "dated dp a" "dated dp b"
  shows "item_le dp ck a b \<longleftrightarrow>
     (let r = severityRank (at_severity a); s = severityRank (at_severity b) in
      r < s \<or> (r = s \<and> (num_lt (due_ms dp a) (due_ms dp b) \<or> (due_ms dp a = due_ms dp b \<and> ck (at_key a) \<le> ck (at_key b)))))"
  using due_ms_dated[OF assms(1)] due_ms_dated[OF assms(2)]
  by (auto simp: item_le_def item_compare_def Let_def num_eq_def)

interpretation attention: comparator "dated dp" "item_le dp (ck :: string \<Rightarrow> 'k::linorder)" for dp ck
proof unfold_locales
  fix x y z :: att_item
  note due = due_ms_dated[of dp x] due_ms_dated[of dp y] due_ms_dated[of dp z]
  show "item_le dp ck x y \<or> item_le dp ck y x" if "dated dp x" "dated dp y"
    using that due by (auto simp: item_le_iff Let_def)
  show "item_le dp ck x z" if "dated dp x" "dated dp y" "dated dp z" "item_le dp ck x y" "item_le dp ck y z"
    using that due by (auto simp: item_le_iff Let_def)
qed

lemma attention_items_kind:
  "x \<in> set (attention_items dp av q) \<Longrightarrow>
     \<exists>c. item_kind c (c \<noteq> ''recommendation'') dp x"
  unfolding attention_items_def
  using action_kind[of x dp] approval_kind[of x dp] outcome_kind[of x dp] recommendation_kind[of x dp]
  by (auto split: if_splits intro: exI[of _ "''action''"] exI[of _ "''approval''"] exI[of _ "''outcome''"]
      exI[of _ "''recommendation''"])

lemma length_category_sorted:
  "length (filter (\<lambda>x. at_category x = c) (sortItems dp ck xs)) = length (filter (\<lambda>x. at_category x = c) xs)"
  by (simp add: sortItems_def filter_length_js_sort)

lemma count_of_source:
  "countIfAvailable av name (sortItems dp ck xs) c =
     (if sourceAvailable av name then Some (length (filter (\<lambda>x. at_category x = c) xs)) else None)"
  by (simp add: countIfAvailable_def length_category_sorted)

lemma attention_counts:
  "length (filter (\<lambda>x. at_category x = ''action'') (attention_items dp av q)) =
     (if sourceAvailable av ''dailyBrief'' then length (dailyActionItems dp (rq_dailyBrief q)) else 0)"
  "length (filter (\<lambda>x. at_category x = ''approval'') (attention_items dp av q)) =
     (if sourceAvailable av ''approvals'' then length (approvalItems dp (rq_approvals q)) else 0)"
  "length (filter (\<lambda>x. at_category x = ''outcome'') (attention_items dp av q)) =
     (if sourceAvailable av ''outcomes'' then length (outcomeItems dp (rq_outcomes q)) else 0)"
  "length (filter (\<lambda>x. at_category x = ''recommendation'') (attention_items dp av q)) =
     (if sourceAvailable av ''businessContext'' then length (deterministicRecommendations dp (rq_businessBrief q)) else 0)"
  by (simp_all add: attention_items_def filter_category)

lemma projection_fields [simp]:
  "pr_items (buildOwnerAttentionProjection dp ck w q) =
     sortItems dp ck (attention_items dp (normalizeOwnerAttentionAvailability dp (rq_sourceAvailability q)) q)"
  "pr_sourceAvailability (buildOwnerAttentionProjection dp ck w q) =
     normalizeOwnerAttentionAvailability dp (rq_sourceAvailability q)"
  by (simp_all add: buildOwnerAttentionProjection_def Let_def)

section \<open>Properties\<close>

text \<open>a source that is not known to be available has no count, never a zero; the count of an
  available source is the number of its items, whatever the order of the list; the total exists only
  when all three authoritative sources are available, is then their sum, and leaves recommendations out;
  and the urgent and overdue counts exist only then.\<close>

lemma attention_counts_honest:
  "(let av = normalizeOwnerAttentionAvailability dp (rq_sourceAvailability q);
        c = pr_counts (buildOwnerAttentionProjection dp ck w q);
        n1 = length (dailyActionItems dp (rq_dailyBrief q)); n2 = length (approvalItems dp (rq_approvals q));
        n3 = length (outcomeItems dp (rq_outcomes q))
    in ct_action c = (if sourceAvailable av ''dailyBrief'' then Some n1 else None) \<and>
       ct_approvals c = (if sourceAvailable av ''approvals'' then Some n2 else None) \<and>
       ct_outcomes c = (if sourceAvailable av ''outcomes'' then Some n3 else None) \<and>
       ct_recommendations c = (if sourceAvailable av ''businessContext''
          then Some (length (deterministicRecommendations dp (rq_businessBrief q))) else None) \<and>
       ct_total c = (if sourceAvailable av ''dailyBrief'' \<and> sourceAvailable av ''approvals'' \<and> sourceAvailable av ''outcomes''
          then Some (n1 + n2 + n3) else None) \<and>
       (ct_urgent c = None) = (ct_total c = None) \<and>
       (ct_overdue c \<noteq> None) = (ct_total c \<noteq> None \<and> is_finite (clock_ms dp (rq_now q))))"
  unfolding buildOwnerAttentionProjection_def Let_def
  by (simp add: count_of_source attention_counts overdueCount_def Let_def)

text \<open>the list holds each item once and in order: the more severe first, then the earlier due
  (no due date last), then by key. Reading a date that was printed in ISO form gives it back.\<close>

lemma attention_sorted:
  assumes "\<And>s t. dp s = Some t \<Longrightarrow> dp (iso_text t) = Some t"
  shows "mset (pr_items (buildOwnerAttentionProjection dp ck w q)) =
      mset (attention_items dp (pr_sourceAvailability (buildOwnerAttentionProjection dp ck w q)) q) \<and>
    sorted_wrt (\<lambda>a b. severityRank (at_severity a) < severityRank (at_severity b) \<or>
        (severityRank (at_severity a) = severityRank (at_severity b) \<and>
         (num_lt (due_ms dp a) (due_ms dp b) \<or> (due_ms dp a = due_ms dp b \<and> ck (at_key a) \<le> ck (at_key b)))))
      (pr_items (buildOwnerAttentionProjection dp ck w q))"
proof -
  define xs where "xs = attention_items dp (normalizeOwnerAttentionAvailability dp (rq_sourceAvailability q)) q"
  have ok: "list_all (dated dp) xs"
    unfolding xs_def list_all_iff
    using assms by (force dest!: attention_items_kind simp: item_kind_def dated_def split: option.splits)
  then have "sorted_wrt (item_le dp ck) (sortItems dp ck xs)"
    unfolding sortItems_def by (rule attention.sorted_sort)
  moreover have "\<forall>x \<in> set (sortItems dp ck xs). dated dp x"
    using ok by (simp add: sortItems_def list_all_iff)
  ultimately show ?thesis
    unfolding projection_fields xs_def[symmetric]
    by (auto simp: sortItems_def item_le_iff Let_def elim!: sorted_wrt_mono_rel[rotated])
qed

text \<open>The projection is ready only when every required source is known to be available; and the
  recommendations in it never pass for records: an item is authoritative exactly when it is not a
  recommendation, and its truth state is then not taken from the row.\<close>

lemma attention_ready_and_authority:
  "(pr_state (buildOwnerAttentionProjection dp ck w q) = ''ready'' \<longrightarrow>
      (\<forall>e \<in> snd ` set (pr_sourceAvailability (buildOwnerAttentionProjection dp ck w q)).
         av_required e \<longrightarrow> av_available e = Some True)) \<and>
   (\<forall>x \<in> set (pr_items (buildOwnerAttentionProjection dp ck w q)).
      at_authoritative x = (at_category x \<noteq> ''recommendation'') \<and>
      (at_category x = ''recommendation'' \<longrightarrow> at_truthState x = ''recommendation''))"
proof -
  define av where "av = normalizeOwnerAttentionAvailability dp (rq_sourceAvailability q)"
  have "pr_state (buildOwnerAttentionProjection dp ck w q) = ''ready'' \<Longrightarrow> \<not> requiredSourceUnknown av"
    by (auto simp: buildOwnerAttentionProjection_def Let_def av_def split: if_splits)
  then have "pr_state (buildOwnerAttentionProjection dp ck w q) = ''ready'' \<Longrightarrow>
      \<forall>e \<in> snd ` set av. av_required e \<longrightarrow> av_available e = Some True"
    by (force simp: requiredSourceUnknown_def list_ex_iff)
  moreover have "at_authoritative x = (at_category x \<noteq> ''recommendation'') \<and>
      (at_category x = ''recommendation'' \<longrightarrow> at_truthState x = ''recommendation'')"
    if "x \<in> set (attention_items dp av q)" for x
    using attention_items_kind[OF that] by (auto simp: item_kind_def)
  ultimately show ?thesis
    unfolding projection_fields by (simp add: sortItems_def av_def)
qed

section \<open>Samples\<close>

definition sample_dates :: date_parse where
  "sample_dates s = (if s = ''2026-10-12'' \<or> s = ''2026-10-12T00:00:00.000Z'' then Some 1791763200000 else None)"

lemma sample_dates_law: "sample_dates s = Some t \<Longrightarrow> sample_dates (iso_text t) = Some t"
proof -
  have "sample_dates (iso_text 1791763200000) = Some 1791763200000" by code_simp
  then show "sample_dates s = Some t \<Longrightarrow> sample_dates (iso_text t) = Some t"
    by (auto simp: sample_dates_def split: if_splits)
qed

definition sample_attention :: attention_request where
  "sample_attention = \<lparr>rq_requestedState = Undef, rq_generatedAt = Undef, rq_businessDate = Undef, rq_market = Null,
     rq_businessBrief = JObj [(''priorities'', JArr [JObj [(''key'', JStr ''p''), (''severity'', JStr ''Critical''), (''truthState'', JStr ''verified'')]])],
     rq_dailyBrief = JObj [(''topActions'', JArr [JObj [(''id'', JStr ''a'')],
        JObj [(''id'', JStr ''b''), (''dueAt'', JStr '' 2026-10-12'')]])],
     rq_approvals = JArr [], rq_outcomes = JArr [],
     rq_sourceAvailability = JObj [(''dailyBrief'', JBool True), (''approvals'', JBool True),
        (''outcomes'', JObj [(''available'', JBool True)]), (''businessContext'', JBool True)],
     rq_now = Date_Object (Fin 1791763200001)\<rparr>"

lemma attention_sorted_example:
  "map at_sourceId (pr_items (buildOwnerAttentionProjection sample_dates (\<lambda>k::string. k) ''now'' sample_attention)) = [''p'', ''b'', ''a''] \<and>
   mset (pr_items (buildOwnerAttentionProjection sample_dates (\<lambda>k::string. k) ''now'' sample_attention)) =
     mset (attention_items sample_dates (pr_sourceAvailability
       (buildOwnerAttentionProjection sample_dates (\<lambda>k::string. k) ''now'' sample_attention)) sample_attention)"
proof -
  have "map at_sourceId (pr_items (buildOwnerAttentionProjection sample_dates (\<lambda>k::string. k) ''now'' sample_attention)) = [''p'', ''b'', ''a'']"
    unfolding projection_fields by code_simp
  then show ?thesis using attention_sorted [of sample_dates "\<lambda>k::string. k" "''now''" sample_attention] sample_dates_law by blast
qed

lemma attention_ready_and_authority_example:
  "pr_state (buildOwnerAttentionProjection sample_dates (\<lambda>k::string. k) ''now'' sample_attention) = ''ready'' \<and>
   \<not> requiredSourceUnknown (pr_sourceAvailability (buildOwnerAttentionProjection sample_dates (\<lambda>k::string. k) ''now'' sample_attention))"
proof -
  have "pr_state (buildOwnerAttentionProjection sample_dates (\<lambda>k::string. k) ''now'' sample_attention) = ''ready''"
    by code_simp
  then show ?thesis
    using attention_ready_and_authority [of sample_dates "\<lambda>k::string. k" "''now''" sample_attention]
    unfolding requiredSourceUnknown_def list_ex_iff by blast
qed

end
