(* ===== verification/VoiceRouting.thy ===== *)
theory VoiceRouting imports Interfaces begin

text \<open>
  The choice of the realtime voice provider: \<^verbatim>\<open>voice-provider-routing.js\<close>. Production is pinned
  to one profile; a candidate profile is only reachable in evaluation mode, with qualifying evidence
  and a review permit.
\<close>

definition VOICE_PROVIDER_ROUTING_VERSION :: string where "VOICE_PROVIDER_ROUTING_VERSION = ''2026-10-04.v273''"

record voice_profile =
  vo_id :: string
  vo_provider :: string
  vo_model :: string
  vo_endpoint :: string
  vo_transport :: string
  vo_delegation :: string
  vo_activation :: string

definition VOICE_PRODUCTION_PROFILE :: voice_profile where
  "VOICE_PRODUCTION_PROFILE =
    \<lparr>vo_id = ''openai-realtime-ga'', vo_provider = ''openai'', vo_model = ''gpt-realtime-2.1'',
     vo_endpoint = ''https://api.openai.com/v1/realtime/calls'', vo_transport = ''webrtc'',
     vo_delegation = ''function_tool'', vo_activation = ''production''\<rparr>"

definition VOICE_EVALUATION_PROFILES :: "voice_profile list" where
  "VOICE_EVALUATION_PROFILES =
    [\<lparr>vo_id = ''openai-gpt-live-1'', vo_provider = ''openai'', vo_model = ''gpt-live-1'',
      vo_endpoint = ''https://api.openai.com/v1/live/sessions'', vo_transport = ''webrtc'',
      vo_delegation = ''backend'', vo_activation = ''evaluation_only''\<rparr>]"

definition trimmed :: "jsval \<Rightarrow> string" where "trimmed v = trim (str_nn v)"

definition candidateById :: "string \<Rightarrow> voice_profile option" where
  "candidateById i = find (\<lambda>p. vo_id p = i) VOICE_EVALUATION_PROFILES"

record voice_query =
  vq_mode :: jsval
  vq_requestedProfileId :: jsval
  vq_evidenceDecision :: jsval
  vq_reviewPermit :: jsval

text \<open>The properties that only the last return has are optional.\<close>

record voice_route =
  vr_ok :: bool
  vr_mode :: string
  vr_profile :: "voice_profile option"
  vr_fallback :: bool
  vr_code :: string
  vr_requestedProfileId :: "string option"
  vr_reviewPermit :: "string option"
  vr_productionActivation :: "bool option"

definition route :: "bool \<Rightarrow> string \<Rightarrow> voice_profile option \<Rightarrow> bool \<Rightarrow> string \<Rightarrow> string \<Rightarrow> voice_route" where
  "route ok mode profile fallback c req =
    \<lparr>vr_ok = ok, vr_mode = mode, vr_profile = profile, vr_fallback = fallback, vr_code = c,
     vr_requestedProfileId = (if req = [] then None else Some req), vr_reviewPermit = None,
     vr_productionActivation = None\<rparr>"

definition resolveVoiceProviderRoute :: "voice_query \<Rightarrow> voice_route" where
  "resolveVoiceProviderRoute q =
    (let m = lower (trimmed (dflt (vq_mode q) (JStr ''production'')));
         normalizedMode = (if m = [] then ''production'' else m);
         requested = trimmed (dflt (vq_requestedProfileId q) (JStr []));
         permit = trimmed (dflt (vq_reviewPermit q) (JStr []));
         evidence = vq_evidenceDecision q
     in if normalizedMode = ''production''
        then route True ''production'' (Some VOICE_PRODUCTION_PROFILE) False
          (if requested \<noteq> [] \<and> requested \<noteq> vo_id VOICE_PRODUCTION_PROFILE then ''production_profile_pinned''
           else ''production_profile_selected'')
          (if requested = [] then vo_id VOICE_PRODUCTION_PROFILE else requested)
        else if normalizedMode \<noteq> ''evaluation''
        then route False normalizedMode None False ''voice_routing_mode_invalid'' requested
        else case candidateById requested of
          None \<Rightarrow> route False ''evaluation'' None False ''voice_evaluation_profile_unknown'' requested
        | Some candidate \<Rightarrow>
            if \<not> is_true (fld evidence ''eligible'') \<or> \<not> is_lit (fld evidence ''code'') ''evidence_qualifies_for_review''
            then route True ''evaluation'' (Some VOICE_PRODUCTION_PROFILE) True
              ''voice_candidate_evidence_not_qualified'' (vo_id candidate)
            else if permit = []
            then route True ''evaluation'' (Some VOICE_PRODUCTION_PROFILE) True
              ''voice_candidate_review_permit_required'' (vo_id candidate)
            else (route True ''evaluation'' (Some candidate) False ''voice_candidate_review_route_selected'' (vo_id candidate))
              \<lparr>vr_reviewPermit := Some permit, vr_productionActivation := Some False\<rparr>)"

definition routed_id :: "voice_route \<Rightarrow> string option" where
  "routed_id r = map_option vo_id (vr_profile r)"

definition no_query :: voice_query where
  "no_query = \<lparr>vq_mode = Undef, vq_requestedProfileId = Undef, vq_evidenceDecision = Undef, vq_reviewPermit = Undef\<rparr>"

definition evidence_of :: "bool \<Rightarrow> string \<Rightarrow> jsval" where
  "evidence_of eligible c = JObj [(''eligible'', JBool eligible), (''code'', JStr c)]"

definition verifyVoiceProviderRoutingPolicy :: "bool \<times> voice_route list" where
  "verifyVoiceProviderRoutingPolicy =
    (let qualified = evidence_of True ''evidence_qualifies_for_review'';
         unqualified = evidence_of False ''evaluation_threshold_failed'';
         live = JStr ''openai-gpt-live-1''; review = JStr ''review-1'';
         productionDefault = resolveVoiceProviderRoute no_query;
         productionCandidateRequest = resolveVoiceProviderRoute \<lparr>vq_mode = JStr ''production'',
           vq_requestedProfileId = live, vq_evidenceDecision = qualified, vq_reviewPermit = review\<rparr>;
         unknownMode = resolveVoiceProviderRoute (no_query\<lparr>vq_mode := JStr ''other'', vq_requestedProfileId := live\<rparr>);
         unknownCandidate = resolveVoiceProviderRoute \<lparr>vq_mode = JStr ''evaluation'',
           vq_requestedProfileId = JStr ''unknown'', vq_evidenceDecision = qualified, vq_reviewPermit = review\<rparr>;
         unqualifiedCandidate = resolveVoiceProviderRoute \<lparr>vq_mode = JStr ''evaluation'',
           vq_requestedProfileId = live, vq_evidenceDecision = unqualified, vq_reviewPermit = review\<rparr>;
         noReviewPermit = resolveVoiceProviderRoute \<lparr>vq_mode = JStr ''evaluation'',
           vq_requestedProfileId = live, vq_evidenceDecision = qualified, vq_reviewPermit = Undef\<rparr>;
         reviewedCandidate = resolveVoiceProviderRoute \<lparr>vq_mode = JStr ''evaluation'',
           vq_requestedProfileId = live, vq_evidenceDecision = qualified, vq_reviewPermit = review\<rparr>;
         production = Some (vo_id VOICE_PRODUCTION_PROFILE);
         pass = (routed_id productionDefault = production \<and> routed_id productionCandidateRequest = production \<and>
           vr_code productionCandidateRequest = ''production_profile_pinned'' \<and>
           \<not> vr_ok unknownMode \<and> \<not> vr_ok unknownCandidate \<and>
           routed_id unqualifiedCandidate = production \<and> vr_fallback unqualifiedCandidate \<and>
           routed_id noReviewPermit = production \<and> vr_fallback noReviewPermit \<and>
           routed_id reviewedCandidate = Some ''openai-gpt-live-1'' \<and> vr_mode reviewedCandidate = ''evaluation'' \<and>
           vr_productionActivation reviewedCandidate = Some False)
     in (pass, [productionDefault, productionCandidateRequest, unknownMode, unknownCandidate, unqualifiedCandidate,
          noReviewPermit, reviewedCandidate]))"

section \<open>Facts\<close>

text \<open>What lets a candidate through.\<close>

definition candidate_admitted :: "voice_query \<Rightarrow> voice_profile \<Rightarrow> bool" where
  "candidate_admitted q p \<longleftrightarrow>
     lower (trimmed (dflt (vq_mode q) (JStr ''production''))) = ''evaluation'' \<and>
     candidateById (trimmed (dflt (vq_requestedProfileId q) (JStr []))) = Some p \<and>
     fld (vq_evidenceDecision q) ''eligible'' = JBool True \<and>
     fld (vq_evidenceDecision q) ''code'' = JStr ''evidence_qualifies_for_review'' \<and>
     trimmed (dflt (vq_reviewPermit q) (JStr [])) \<noteq> []"

lemma route_simps [simp]:
  "vr_ok (route k m p f c i) = k" "vr_mode (route k m p f c i) = m" "vr_profile (route k m p f c i) = p"
  "vr_fallback (route k m p f c i) = f" "vr_code (route k m p f c i) = c"
  "vr_productionActivation (route k m p f c i) = None"
  by (simp_all add: route_def)

lemma candidate_not_production: "candidateById i = Some p \<Longrightarrow> p \<noteq> VOICE_PRODUCTION_PROFILE \<and> vo_activation p = ''evaluation_only'' \<and> vo_id p = i"
  by (auto simp: candidateById_def VOICE_EVALUATION_PROFILES_def VOICE_PRODUCTION_PROFILE_def split: if_splits)

section \<open>Properties\<close>

text \<open>A route leads to the production profile, to no profile, or to an evaluation candidate; it
  leads to a candidate exactly when evaluation was asked for, the candidate is registered, its evidence
  qualifies and a review permit is present, and the route then denies production activation; production
  mode always leads to the pinned profile, whatever profile is asked for.\<close>

lemma voice_candidate_iff:
  "(vr_profile (resolveVoiceProviderRoute q) = Some p \<and> p \<noteq> VOICE_PRODUCTION_PROFILE) = candidate_admitted q p \<and>
   (candidate_admitted q p \<longrightarrow>
      vr_productionActivation (resolveVoiceProviderRoute q) = Some False \<and>
      vr_mode (resolveVoiceProviderRoute q) = ''evaluation'' \<and> vo_activation p = ''evaluation_only'') \<and>
   (vr_mode (resolveVoiceProviderRoute q) = ''production'' \<longrightarrow>
      vr_profile (resolveVoiceProviderRoute q) = Some VOICE_PRODUCTION_PROFILE \<and> vr_ok (resolveVoiceProviderRoute q))"
proof -
  obtain R where R: "resolveVoiceProviderRoute q = R" by blast
  have "(vr_profile R = Some p \<and> p \<noteq> VOICE_PRODUCTION_PROFILE) = candidate_admitted q p \<and>
      (candidate_admitted q p \<longrightarrow> vr_productionActivation R = Some False \<and> vr_mode R = ''evaluation'' \<and> vo_activation p = ''evaluation_only'') \<and>
      (vr_mode R = ''production'' \<longrightarrow> vr_profile R = Some VOICE_PRODUCTION_PROFILE \<and> vr_ok R)"
  proof (cases "candidateById (trimmed (dflt (vq_requestedProfileId q) (JStr [])))")
    case None
    then show ?thesis using R unfolding resolveVoiceProviderRoute_def Let_def
      by (elim if_chain_cases) (auto simp: candidate_admitted_def split: if_splits)
  next
    case (Some c)
    note c = candidate_not_production[OF Some]
    show ?thesis using R c unfolding resolveVoiceProviderRoute_def Let_def Some option.case
      by (elim if_chain_cases) (auto simp: candidate_admitted_def is_lit_def Some split: if_splits)
  qed
  then show ?thesis unfolding R .
qed

definition sample_voice_query :: voice_query where
  "sample_voice_query = \<lparr>vq_mode = JStr '' Evaluation '', vq_requestedProfileId = JStr ''openai-gpt-live-1'',
     vq_evidenceDecision = evidence_of True ''evidence_qualifies_for_review'', vq_reviewPermit = JStr ''review-9''\<rparr>"

lemma voice_candidate_iff_example:
  "\<exists>p. candidate_admitted sample_voice_query p \<and> vo_id p = ''openai-gpt-live-1'' \<and>
     vr_productionActivation (resolveVoiceProviderRoute sample_voice_query) = Some False"
proof -
  have "candidate_admitted sample_voice_query (hd VOICE_EVALUATION_PROFILES) \<and>
      vo_id (hd VOICE_EVALUATION_PROFILES) = ''openai-gpt-live-1''" by code_simp
  then show ?thesis using voice_candidate_iff [of sample_voice_query "hd VOICE_EVALUATION_PROFILES"] by blast
qed

text \<open>The routing policy's own check passes.\<close>

theorem voice_policy_check_passes:
  "fst verifyVoiceProviderRoutingPolicy \<and> length (snd verifyVoiceProviderRoutingPolicy) = 7"
  by code_simp

end
