(* ===== verification/MarketProfile.thy ===== *)
theory MarketProfile imports Interfaces begin

text \<open>
  The market registry: \<^verbatim>\<open>market-profile.js\<close>. A market is usable at run time when nothing blocks
  its activation; dates and amounts fall back to the default market. The formatters of the
  platform (\<^verbatim>\<open>Intl.DateTimeFormat\<close>, \<^verbatim>\<open>toLocaleString\<close>) are parameters.
\<close>

definition THEBE_MARKET_PROFILE_VERSION :: string where "THEBE_MARKET_PROFILE_VERSION = ''2026-09-27.v2''"

text \<open>\<^verbatim>\<open>toUpperCase\<close>; the two letters whose capital is beyond the code units modelled stay.\<close>

definition upper_char :: "char \<Rightarrow> string" where
  "upper_char c = (let n = of_char c :: nat in
     if n = 223 then ''SS''
     else if (97 \<le> n \<and> n \<le> 122) \<or> (224 \<le> n \<and> n \<le> 254 \<and> n \<noteq> 247) then [char_of (n - 32)] else [c])"

definition cleanCode :: "jsval \<Rightarrow> string" where
  "cleanCode v = concat (map upper_char (trim (str_or v)))"

definition present :: "string option \<Rightarrow> bool" where
  "present s \<longleftrightarrow> (case s of None \<Rightarrow> False | Some t \<Rightarrow> trim t \<noteq> [])"

definition DEFAULT_RUNTIME_MARKET_CODE :: string where "DEFAULT_RUNTIME_MARKET_CODE = ''BW''"

record market =
  mk_code :: string
  mk_country :: string
  mk_rolloutStatus :: string
  mk_runtimeEnabled :: bool
  mk_currency :: string
  mk_currencySymbol :: string
  mk_locale :: string
  mk_timeZone :: string
  mk_regulatoryPack :: "string option"
  mk_moneyPrefixTokens :: "string list"
  mk_moneySuffixTokens :: "string list"

definition THEBE_MARKETS :: "market list" where
  "THEBE_MARKETS =
    [\<lparr>mk_code = ''BW'', mk_country = ''Botswana'', mk_rolloutStatus = ''live'', mk_runtimeEnabled = True,
      mk_currency = ''BWP'', mk_currencySymbol = ''P'', mk_locale = ''en-BW'', mk_timeZone = ''Africa/Gaborone'',
      mk_regulatoryPack = Some ''botswana-foundation-pack-v1'', mk_moneyPrefixTokens = [''P'', ''BWP''],
      mk_moneySuffixTokens = [''pula'', ''BWP'']\<rparr>,
     \<lparr>mk_code = ''NA'', mk_country = ''Namibia'', mk_rolloutStatus = ''next'', mk_runtimeEnabled = False,
      mk_currency = ''NAD'', mk_currencySymbol = ''N$'', mk_locale = ''en-NA'', mk_timeZone = ''Africa/Windhoek'',
      mk_regulatoryPack = None, mk_moneyPrefixTokens = [''N$'', ''NAD''],
      mk_moneySuffixTokens = [''NAD'', ''Namibian dollar'', ''Namibian dollars'']\<rparr>]"

text \<open>A code is a default-valued parameter: undefined is the default market.\<close>

definition code_param :: "jsval \<Rightarrow> jsval" where
  "code_param v = dflt v (JStr DEFAULT_RUNTIME_MARKET_CODE)"

definition marketProfile :: "jsval \<Rightarrow> market option" where
  "marketProfile v = find (\<lambda>m. mk_code m = cleanCode (code_param v)) THEBE_MARKETS"

definition blocked :: "bool \<Rightarrow> string \<Rightarrow> string list" where
  "blocked b s = (if b then [s] else [])"

fun activationBlockers :: "market option \<Rightarrow> string list" where
  "activationBlockers None = [''market_not_registered'']"
| "activationBlockers (Some p) =
     blocked (\<not> mk_runtimeEnabled p) ''runtime_disabled'' @
     blocked (mk_rolloutStatus p \<noteq> ''live'') ''rollout_not_live'' @
     blocked (\<not> present (Some (mk_code p)) \<or> \<not> present (Some (mk_country p))) ''market_identity_incomplete'' @
     blocked (\<not> present (Some (mk_currency p)) \<or> \<not> present (Some (mk_currencySymbol p))) ''currency_config_incomplete'' @
     blocked (\<not> present (Some (mk_locale p)) \<or> \<not> present (Some (mk_timeZone p))) ''locale_config_incomplete'' @
     blocked (\<not> present (mk_regulatoryPack p)) ''regulatory_pack_missing'' @
     blocked (mk_moneyPrefixTokens p = [] \<or> mk_moneySuffixTokens p = []) ''money_tokens_missing''"

record readiness =
  rd_marketCode :: "string option"
  rd_registered :: bool
  rd_ready :: bool
  rd_rolloutStatus :: "string option"
  rd_runtimeEnabled :: bool
  rd_regulatoryPack :: "string option"
  rd_blockers :: "string list"

definition marketActivationReadiness :: "jsval \<Rightarrow> readiness" where
  "marketActivationReadiness v =
    (let normalized = cleanCode (code_param v); profile = marketProfile (JStr normalized);
         blockers = activationBlockers profile
     in \<lparr>rd_marketCode = (case profile of Some p \<Rightarrow> Some (mk_code p) | None \<Rightarrow> if normalized = [] then None else Some normalized),
         rd_registered = (profile \<noteq> None), rd_ready = (blockers = []),
         rd_rolloutStatus = map_option mk_rolloutStatus profile,
         rd_runtimeEnabled = (case profile of Some p \<Rightarrow> mk_runtimeEnabled p | None \<Rightarrow> False),
         rd_regulatoryPack = (case profile of Some p \<Rightarrow> mk_regulatoryPack p | None \<Rightarrow> None),
         rd_blockers = blockers\<rparr>)"

definition runtimeMarketProfile :: "jsval \<Rightarrow> market option" where
  "runtimeMarketProfile v = (if rd_ready (marketActivationReadiness v) then marketProfile v else None)"

definition marketRollout :: "string list \<times> string list" where
  "marketRollout =
    (map mk_code (filter (\<lambda>m. map_option mk_rolloutStatus (runtimeMarketProfile (JStr (mk_code m))) = Some ''live'') THEBE_MARKETS),
     map mk_code (filter (\<lambda>m. mk_rolloutStatus m = ''next'') THEBE_MARKETS))"

text \<open>\<^verbatim>\<open>runtimeMarketProfile(code)||runtimeMarketProfile(DEFAULT)\<close>; reading a property of no profile
  would throw, here the outer none.\<close>

definition profile_or_default :: "jsval \<Rightarrow> market option" where
  "profile_or_default v = (case runtimeMarketProfile v of Some p \<Rightarrow> Some p
     | None \<Rightarrow> runtimeMarketProfile (JStr DEFAULT_RUNTIME_MARKET_CODE))"

text \<open>The date formatter takes a time zone and a time and may throw; the code then falls back to
  the UTC date.\<close>

definition marketBusinessDate :: "(string \<Rightarrow> int \<Rightarrow> string option) \<Rightarrow> int \<Rightarrow> jsval \<Rightarrow> string" where
  "marketBusinessDate intl now v =
    (case profile_or_default v of
       Some p \<Rightarrow> (case intl (mk_timeZone p) now of Some s \<Rightarrow> s | None \<Rightarrow> take 10 (iso_text now))
     | None \<Rightarrow> take 10 (iso_text now))"

type_synonym number_format = "string \<Rightarrow> nat \<Rightarrow> nat \<Rightarrow> jsnum \<Rightarrow> string"

definition formatMarketMajor :: "number_format \<Rightarrow> jsval \<Rightarrow> jsval \<Rightarrow> nat \<Rightarrow> nat \<Rightarrow> string option" where
  "formatMarketMajor fmt v marketCode minDigits maxDigits =
     map_option (\<lambda>p. mk_currencySymbol p @ fmt (mk_locale p) minDigits maxDigits (num_or0 v)) (profile_or_default marketCode)"

fun num_div100 :: "jsnum \<Rightarrow> jsnum" where
  "num_div100 (Fin q) = Fin (q / 100)"
| "num_div100 n = n"

definition formatMarketMinor :: "number_format \<Rightarrow> jsval \<Rightarrow> jsval \<Rightarrow> string option" where
  "formatMarketMinor fmt v marketCode = formatMarketMajor fmt (JNum (num_div100 (num_or0 v))) marketCode 2 2"

definition marketMoneyTokens :: "jsval \<Rightarrow> (string list \<times> string list) option" where
  "marketMoneyTokens v = map_option (\<lambda>p. (mk_moneyPrefixTokens p, mk_moneySuffixTokens p)) (runtimeMarketProfile v)"

section \<open>Facts\<close>

lemma present_eval [simp]: "present None = False" "present (Some t) = (trim t \<noteq> [])"
  by (simp_all add: present_def)

lemma blocked_Nil [simp]: "blocked b s = [] \<longleftrightarrow> \<not> b"
  by (simp add: blocked_def)

text \<open>No blocker means that everything a market needs is there.\<close>

lemma activation_ready:
  "activationBlockers (Some p) = [] \<longleftrightarrow>
     mk_runtimeEnabled p \<and> mk_rolloutStatus p = ''live'' \<and>
     (\<forall>t \<in> {mk_code p, mk_country p, mk_currency p, mk_currencySymbol p, mk_locale p, mk_timeZone p}. trim t \<noteq> []) \<and>
     present (mk_regulatoryPack p) \<and> mk_moneyPrefixTokens p \<noteq> [] \<and> mk_moneySuffixTokens p \<noteq> []"
  by auto

definition botswana :: market where "botswana = hd THEBE_MARKETS"
definition namibia :: market where "namibia = hd (tl THEBE_MARKETS)"

lemma markets: "THEBE_MARKETS = [botswana, namibia]"
  by (simp add: THEBE_MARKETS_def botswana_def namibia_def)

lemma codes [simp]: "mk_code botswana = ''BW''" "mk_code namibia = ''NA''"
  by (simp_all add: botswana_def namibia_def THEBE_MARKETS_def)

lemma blockers_eval: "activationBlockers (Some botswana) = []" "activationBlockers (Some namibia) \<noteq> []"
  by code_simp+

lemma marketProfile_eval:
  "marketProfile v = (if cleanCode (code_param v) = ''BW'' then Some botswana
     else if cleanCode (code_param v) = ''NA'' then Some namibia else None)"
  by (simp add: marketProfile_def markets)

lemma clean_codes [simp]:
  "cleanCode (code_param (JStr ''BW'')) = ''BW''" "cleanCode (code_param (JStr ''NA'')) = ''NA''"
  by code_simp+

lemma runtimeMarketProfile_eval:
  "runtimeMarketProfile v = (if cleanCode (code_param v) = ''BW'' then Some botswana else None)"
  using blockers_eval
  by (simp add: runtimeMarketProfile_def marketActivationReadiness_def Let_def marketProfile_eval)

lemma profile_or_default_eval [simp]: "profile_or_default v = Some botswana"
  by (simp add: profile_or_default_def runtimeMarketProfile_eval DEFAULT_RUNTIME_MARKET_CODE_def)

section \<open>Properties\<close>

text \<open>a profile is usable at run time exactly when it is registered under the cleaned code and
  nothing blocks it, and then it is live, enabled and complete; only Botswana is, so every business date
  is in its time zone or the UTC date, every amount has its symbol and no formatting fails, whatever
  market is named.\<close>

lemma runtime_market:
  "runtimeMarketProfile v = (case marketProfile v of None \<Rightarrow> None
      | Some p \<Rightarrow> if activationBlockers (Some p) = [] then Some p else None) \<and>
   marketRollout = ([''BW''], [''NA'']) \<and>
   marketBusinessDate intl now v = (case intl ''Africa/Gaborone'' now of Some s \<Rightarrow> s | None \<Rightarrow> take 10 (iso_text now)) \<and>
   formatMarketMajor fmt amount v a b = Some (''P'' @ fmt ''en-BW'' a b (num_or0 amount)) \<and>
   (marketMoneyTokens v = None) = (cleanCode (code_param v) \<noteq> ''BW'')"
proof -
  have f: "mk_timeZone botswana = ''Africa/Gaborone''" "mk_currencySymbol botswana = ''P''" "mk_locale botswana = ''en-BW''"
      "mk_rolloutStatus botswana = ''live''" "mk_rolloutStatus namibia = ''next''"
    by (simp_all add: botswana_def namibia_def THEBE_MARKETS_def)
  show ?thesis
    using blockers_eval
    by (simp add: runtimeMarketProfile_eval marketProfile_eval marketRollout_def markets f marketBusinessDate_def
        formatMarketMajor_def marketMoneyTokens_def del: activationBlockers.simps)
qed

end
