(* ===== verification/MoneyTrends.thy ===== *)
theory MoneyTrends imports Interfaces begin

text \<open>
  The reading of recorded transactions in \<^verbatim>\<open>money-intelligence.js\<close>: thirty-day periods,
  concentration of debits, collection behaviour of customers, expense categories and supplier
  spend. Amounts are exact rationals; the programs hold whole minor units, which doubles
  represent exactly, so only shares and averages are idealised.
\<close>

section \<open>Numbers and dates\<close>

definition number :: "jsval \<Rightarrow> rat" where
  "number v = (case to_num v of Fin q \<Rightarrow> q | _ \<Rightarrow> 0)"

definition dayMs :: int where "dayMs = 86400000"

text \<open>\<^verbatim>\<open>Math.round\<close>.\<close>

definition js_round :: "rat \<Rightarrow> rat" where
  "js_round q = of_int \<lfloor>q + 1 / 2\<rfloor>"

definition round3 :: "rat \<Rightarrow> rat" where
  "round3 q = js_round (q * 1000) / 1000"

definition dateOnly :: "jsval \<Rightarrow> string" where
  "dateOnly v = take 10 (str_or v)"

definition startOfDay :: "date_parse \<Rightarrow> jsval \<Rightarrow> int option" where
  "startOfDay dp v = dp (dateOnly v @ ''T00:00:00Z'')"

definition pctChange :: "rat \<Rightarrow> rat \<Rightarrow> rat option" where
  "pctChange current prior =
     (if prior \<le> 0 then (if current > 0 then None else Some 0) else Some ((current - prior) / prior))"

text \<open>\<^verbatim>\<open>currentOutflow>0?Math.round((amt/currentOutflow)*1000)/1000:null\<close>.\<close>

definition share_of :: "rat \<Rightarrow> rat \<Rightarrow> rat option" where
  "share_of amt outflow = (if outflow > 0 then Some (round3 (amt / outflow)) else None)"

section \<open>Periods\<close>

record flow =
  fl_inflow :: rat
  fl_outflow :: rat
  fl_count :: nat

record debit =
  db_id :: string
  db_postedOn :: string
  db_description :: string
  db_reference :: string
  db_amountMinor :: rat

record tally =
  tl_current :: flow
  tl_prior :: flow
  tl_debits :: "debit list"

definition empty_flow :: flow where "empty_flow = \<lparr>fl_inflow = 0, fl_outflow = 0, fl_count = 0\<rparr>"

definition add_flow :: "rat \<Rightarrow> flow \<Rightarrow> flow" where
  "add_flow amount b =
    (let c = b\<lparr>fl_count := fl_count b + 1\<rparr>
     in if amount > 0 then c\<lparr>fl_inflow := fl_inflow b + amount\<rparr>
        else if amount < 0 then c\<lparr>fl_outflow := fl_outflow b + \<bar>amount\<bar>\<rparr> else c)"

definition debit_of :: "jsval \<Rightarrow> debit" where
  "debit_of row = \<lparr>db_id = clean (fld row ''id'') 120, db_postedOn = dateOnly (fld row ''posted_on''),
     db_description = clean (fld row ''description'') 120, db_reference = clean (fld row ''reference'') 80,
     db_amountMinor = number (fld row ''amount_minor'')\<rparr>"

text \<open>One turn of the loop; \<^verbatim>\<open>continue\<close> leaves the state as it is.\<close>

definition tally_row :: "date_parse \<Rightarrow> int option \<Rightarrow> jsval \<Rightarrow> tally \<Rightarrow> tally" where
  "tally_row dp anchor row st =
    (case (anchor, startOfDay dp (fld row ''posted_on'')) of
       (Some a, Some posted) \<Rightarrow>
         (let age = (a - posted) div dayMs; amount = number (fld row ''amount_minor'')
          in if 0 \<le> age \<and> age < 30
             then st\<lparr>tl_current := add_flow amount (tl_current st),
                     tl_debits := (if amount < 0 then tl_debits st @ [debit_of row] else tl_debits st)\<rparr>
             else if 30 \<le> age \<and> age < 60 then st\<lparr>tl_prior := add_flow amount (tl_prior st)\<rparr>
             else st)
     | _ \<Rightarrow> st)"

record period =
  pe_inflow :: rat
  pe_outflow :: rat
  pe_count :: nat
  pe_net :: rat

record trend =
  tr_current30 :: period
  tr_prior30 :: period
  tr_outflowChangePct :: "rat option"
  tr_inflowChangePct :: "rat option"
  tr_largeDebitThresholdMinor :: rat
  tr_largeDebits :: "debit list"

definition period_of :: "flow \<Rightarrow> period" where
  "period_of b = \<lparr>pe_inflow = fl_inflow b, pe_outflow = fl_outflow b, pe_count = fl_count b,
     pe_net = fl_inflow b - fl_outflow b\<rparr>"

definition size_of :: "debit \<Rightarrow> rat" where "size_of d = \<bar>db_amountMinor d\<bar>"

definition summarizeTransactions :: "date_parse \<Rightarrow> jsval list \<Rightarrow> jsval \<Rightarrow> trend" where
  "summarizeTransactions dp rows businessDate =
    (let anchor = startOfDay dp businessDate;
         st = fold (tally_row dp anchor) rows \<lparr>tl_current = empty_flow, tl_prior = empty_flow, tl_debits = []\<rparr>;
         debits = tl_debits st;
         avgDebit = (if debits = [] then 0 else sum_list (map size_of debits) / of_nat (length debits));
         threshold = max 500000 (js_round (avgDebit * 5 / 2));
         large = take 5 (js_sort (\<lambda>a b. size_of b \<le> size_of a) (filter (\<lambda>d. threshold \<le> size_of d) debits))
     in \<lparr>tr_current30 = period_of (tl_current st), tr_prior30 = period_of (tl_prior st),
         tr_outflowChangePct = pctChange (fl_outflow (tl_current st)) (fl_outflow (tl_prior st)),
         tr_inflowChangePct = pctChange (fl_inflow (tl_current st)) (fl_inflow (tl_prior st)),
         tr_largeDebitThresholdMinor = threshold, tr_largeDebits = large\<rparr>)"

section \<open>Concentration, collection and categories\<close>

record concentration =
  cn_descriptor :: string
  cn_transactionCount :: rat
  cn_totalOutflowMinor :: rat
  cn_share :: "rat option"

definition debitConcentration :: "jsval list \<Rightarrow> rat \<Rightarrow> concentration list" where
  "debitConcentration rows currentOutflow = map (\<lambda>row.
     let amt = number (fld row ''total_outflow_minor''); d = clean (fld row ''descriptor'') 120
     in \<lparr>cn_descriptor = (if d = [] then ''Unlabelled debit'' else d),
         cn_transactionCount = max 0 (number (fld row ''transaction_count'')),
         cn_totalOutflowMinor = amt, cn_share = share_of amt currentOutflow\<rparr>) rows"

definition dateDiffDays :: "date_parse \<Rightarrow> string \<Rightarrow> string \<Rightarrow> rat option" where
  "dateDiffDays dp a b = (case (startOfDay dp (JStr a), startOfDay dp (JStr b)) of
     (Some am, Some bm) \<Rightarrow> Some (js_round (of_int (am - bm) / of_int dayMs)) | _ \<Rightarrow> None)"

text \<open>\<^verbatim>\<open>a<b\<close> on texts: by code units.\<close>

fun text_lt :: "string \<Rightarrow> string \<Rightarrow> bool" where
  "text_lt _ [] = False"
| "text_lt [] (_ # _) = True"
| "text_lt (a # as) (b # bs) =
     ((of_char a :: nat) < of_char b \<or> (a = b \<and> text_lt as bs))"

record collection =
  co_customerId :: string
  co_customerName :: string
  co_outstandingMinor :: rat
  co_overdueMinor :: rat
  co_earliestDueOn :: "string option"
  co_overdueDays :: rat
  co_historicalPaidInvoiceCount :: rat
  co_historicalOnTimeRate :: "rat option"
  co_attention :: string

text \<open>A null rate compares as zero.\<close>

definition rate_or0 :: "rat option \<Rightarrow> rat" where
  "rate_or0 r = (case r of None \<Rightarrow> 0 | Some q \<Rightarrow> q)"

definition attention_of :: "rat \<Rightarrow> rat \<Rightarrow> rat option \<Rightarrow> string" where
  "attention_of historyCount overdueDays rate =
    (if historyCount < 3 then (if overdueDays > 14 then ''watch'' else ''insufficient_history'')
     else if overdueDays \<ge> 30 \<and> rate_or0 rate < 1 / 2 then ''higher_attention''
     else if overdueDays \<ge> 14 \<or> rate_or0 rate < 13 / 20 then ''watch'' else ''normal'')"

definition collection_row :: "date_parse \<Rightarrow> string \<Rightarrow> jsval \<Rightarrow> collection" where
  "collection_row dp businessDate row =
    (let historyCount = max 0 (number (fld row ''historical_paid_count''));
         onTimeCount = max 0 (number (fld row ''historical_on_time_count''));
         rate = (if historyCount > 0 then Some (round3 (onTimeCount / historyCount)) else None);
         earliestDue = dateOnly (fld row ''earliest_due_on'');
         overdueDays = (if earliestDue \<noteq> [] \<and> text_lt earliestDue businessDate
            then max 0 (rate_or0 (dateDiffDays dp businessDate earliestDue)) else 0)
     in \<lparr>co_customerId = clean (fld row ''customer_id'') 120, co_customerName = clean (fld row ''customer_name'') 160,
         co_outstandingMinor = number (fld row ''outstanding_minor''), co_overdueMinor = number (fld row ''overdue_minor''),
         co_earliestDueOn = (if earliestDue = [] then None else Some earliestDue), co_overdueDays = overdueDays,
         co_historicalPaidInvoiceCount = historyCount, co_historicalOnTimeRate = rate,
         co_attention = attention_of historyCount overdueDays rate\<rparr>)"

definition collectionBehavior :: "date_parse \<Rightarrow> jsval list \<Rightarrow> string \<Rightarrow> collection list" where
  "collectionBehavior dp rows businessDate = map (collection_row dp businessDate) rows"

record expense =
  ex_supplierId :: string
  ex_supplierName :: string
  ex_expenseCategory :: string
  ex_transactionCount :: rat
  ex_totalOutflowMinor :: rat
  ex_share :: "rat option"

record category_total =
  ca_expenseCategory :: string
  ca_totalOutflowMinor :: rat
  ca_share :: "rat option"

definition expense_row :: "rat \<Rightarrow> jsval \<Rightarrow> expense" where
  "expense_row currentOutflow row =
    (let amt = number (fld row ''total_outflow_minor''); c = clean (fld row ''expense_category'') 60
     in \<lparr>ex_supplierId = clean (fld row ''supplier_id'') 120, ex_supplierName = clean (fld row ''supplier_name'') 160,
         ex_expenseCategory = (if c = [] then ''other'' else c),
         ex_transactionCount = max 0 (number (fld row ''transaction_count'')), ex_totalOutflowMinor = amt,
         ex_share = share_of amt currentOutflow\<rparr>)"

text \<open>The \<^verbatim>\<open>Map\<close> of totals, in order of first insertion.\<close>

fun add_total :: "string \<Rightarrow> rat \<Rightarrow> (string \<times> rat) list \<Rightarrow> (string \<times> rat) list" where
  "add_total k q [] = [(k, q)]"
| "add_total k q ((k', q') # m) = (if k = k' then (k', q' + q) # m else (k', q') # add_total k q m)"

definition category_totals :: "expense list \<Rightarrow> (string \<times> rat) list" where
  "category_totals items = fold (\<lambda>x. add_total (ex_expenseCategory x) (ex_totalOutflowMinor x)) items []"

definition expenseCategoryLearning :: "jsval list \<Rightarrow> rat \<Rightarrow> expense list \<times> category_total list" where
  "expenseCategoryLearning rows currentOutflow =
    (let items = map (expense_row currentOutflow) rows
     in (items, js_sort (\<lambda>a b. ca_totalOutflowMinor b \<le> ca_totalOutflowMinor a)
          (map (\<lambda>(c, q). \<lparr>ca_expenseCategory = c, ca_totalOutflowMinor = q, ca_share = share_of q currentOutflow\<rparr>)
             (category_totals items))))"

section \<open>Supplier spend\<close>

record supplier_trend =
  st_supplierId :: string
  st_supplierName :: string
  st_expenseCategory :: string
  st_current30OutflowMinor :: rat
  st_prior30OutflowMinor :: rat
  st_currentTransactionCount :: rat
  st_priorTransactionCount :: rat
  st_currentAverageTransactionMinor :: "rat option"
  st_priorAverageTransactionMinor :: "rat option"
  st_changePct :: "rat option"
  st_absoluteChangeMinor :: rat
  st_enoughHistory :: bool
  st_attention :: string

definition average_of :: "rat \<Rightarrow> rat \<Rightarrow> rat option" where
  "average_of amt n = (if n \<noteq> 0 then Some (js_round (amt / n)) else None)"

definition spend_attention :: "bool \<Rightarrow> rat option \<Rightarrow> rat \<Rightarrow> string" where
  "spend_attention enough changePct absolute =
    (if enough \<and> (case changePct of None \<Rightarrow> False | Some c \<Rightarrow> c \<ge> 1 / 4) \<and> absolute \<ge> 100000 then ''increase''
     else if enough \<and> (case changePct of None \<Rightarrow> False | Some c \<Rightarrow> c \<le> - 1 / 4) \<and> absolute \<le> - 100000 then ''decrease''
     else if enough then ''stable'' else ''sparse_history'')"

definition supplier_row :: "jsval \<Rightarrow> supplier_trend" where
  "supplier_row row =
    (let cur = number (fld row ''current_outflow_minor''); prior = number (fld row ''prior_outflow_minor'');
         cc = max 0 (number (fld row ''current_count'')); pc = max 0 (number (fld row ''prior_count''));
         changePct = (if prior > 0 then Some ((cur - prior) / prior) else None);
         absolute = cur - prior; enough = (cc \<ge> 2 \<and> pc \<ge> 2); c = clean (fld row ''expense_category'') 60
     in \<lparr>st_supplierId = clean (fld row ''supplier_id'') 120, st_supplierName = clean (fld row ''supplier_name'') 160,
         st_expenseCategory = (if c = [] then ''other'' else c),
         st_current30OutflowMinor = cur, st_prior30OutflowMinor = prior,
         st_currentTransactionCount = cc, st_priorTransactionCount = pc,
         st_currentAverageTransactionMinor = average_of cur cc, st_priorAverageTransactionMinor = average_of prior pc,
         st_changePct = map_option round3 changePct, st_absoluteChangeMinor = absolute, st_enoughHistory = enough,
         st_attention = spend_attention enough changePct absolute\<rparr>)"

definition spend_rank :: "string \<Rightarrow> nat" where
  "spend_rank a = (if a = ''increase'' then 0 else if a = ''stable'' then 1 else if a = ''decrease'' then 2 else 3)"

definition spend_le :: "supplier_trend \<Rightarrow> supplier_trend \<Rightarrow> bool" where
  "spend_le a b \<longleftrightarrow>
    (let d = int (spend_rank (st_attention a)) - int (spend_rank (st_attention b))
     in \<not> (if d \<noteq> 0 then d > 0 else \<bar>st_absoluteChangeMinor b\<bar> - \<bar>st_absoluteChangeMinor a\<bar> > 0))"

definition supplierSpendTrend :: "jsval list \<Rightarrow> supplier_trend list" where
  "supplierSpendTrend rows = js_sort spend_le (map supplier_row rows)"

section \<open>Facts\<close>

text \<open>Descending sorts by a number, and the order of the supplier rows.\<close>

interpretation descending: comparator "\<lambda>_. True" "\<lambda>a b. f b \<le> (f a :: rat)" for f :: "'a \<Rightarrow> rat"
  by unfold_locales auto

lemma spend_le_iff:
  "spend_le a b \<longleftrightarrow> spend_rank (st_attention a) < spend_rank (st_attention b) \<or>
     (spend_rank (st_attention a) = spend_rank (st_attention b) \<and> \<bar>st_absoluteChangeMinor b\<bar> \<le> \<bar>st_absoluteChangeMinor a\<bar>)"
  by (auto simp: spend_le_def Let_def)

interpretation spend_order: comparator "\<lambda>_. True" spend_le
  by unfold_locales (auto simp: spend_le_iff)

text \<open>The rows of a window of days before the business date, and the amounts in it.\<close>

definition in_window :: "date_parse \<Rightarrow> int option \<Rightarrow> int \<Rightarrow> int \<Rightarrow> jsval \<Rightarrow> bool" where
  "in_window dp anchor lo hi row =
    (case (anchor, startOfDay dp (fld row ''posted_on'')) of
       (Some a, Some p) \<Rightarrow> lo \<le> (a - p) div dayMs \<and> (a - p) div dayMs < hi | _ \<Rightarrow> False)"

definition amounts :: "jsval list \<Rightarrow> rat list" where
  "amounts rows = map (\<lambda>row. number (fld row ''amount_minor'')) rows"

definition gains :: "rat list \<Rightarrow> rat" where "gains xs = sum_list (filter (\<lambda>x. x > 0) xs)"
definition losses :: "rat list \<Rightarrow> rat" where "losses xs = sum_list (map uminus (filter (\<lambda>x. x < 0) xs))"

lemma add_flow_simps:
  "fl_count (add_flow x b) = fl_count b + 1"
  "fl_inflow (add_flow x b) = fl_inflow b + (if x > 0 then x else 0)"
  "fl_outflow (add_flow x b) = fl_outflow b + (if x < 0 then - x else 0)"
  by (simp_all add: add_flow_def Let_def)

lemma fold_add_flow:
  "fl_count (fold add_flow xs b) = fl_count b + length xs"
  "fl_inflow (fold add_flow xs b) = fl_inflow b + gains xs"
  "fl_outflow (fold add_flow xs b) = fl_outflow b + losses xs"
  by (induction xs arbitrary: b) (simp_all add: add_flow_simps gains_def losses_def)

lemma tally_row_simps:
  "tl_current (tally_row dp a row st) =
     (if in_window dp a 0 30 row then add_flow (number (fld row ''amount_minor'')) (tl_current st) else tl_current st)"
  "tl_prior (tally_row dp a row st) =
     (if in_window dp a 30 60 row then add_flow (number (fld row ''amount_minor'')) (tl_prior st) else tl_prior st)"
  "tl_debits (tally_row dp a row st) = tl_debits st @
     (if in_window dp a 0 30 row \<and> number (fld row ''amount_minor'') < 0 then [debit_of row] else [])"
  by (auto simp: tally_row_def in_window_def Let_def split: option.splits)

lemma fold_tally:
  "tl_current (fold (tally_row dp a) rows st) = fold add_flow (amounts (filter (in_window dp a 0 30) rows)) (tl_current st)"
  "tl_prior (fold (tally_row dp a) rows st) = fold add_flow (amounts (filter (in_window dp a 30 60) rows)) (tl_prior st)"
  "tl_debits (fold (tally_row dp a) rows st) = tl_debits st @
     map debit_of (filter (\<lambda>row. in_window dp a 0 30 row \<and> number (fld row ''amount_minor'') < 0) rows)"
  by (induction rows arbitrary: st) (simp_all add: tally_row_simps amounts_def)

lemma sorted_take: "sorted_wrt P xs \<Longrightarrow> sorted_wrt P (take n xs)"
  by (metis append_take_drop_id sorted_wrt_append)

lemma set_take_js_sort: "x \<in> set (take n (js_sort le xs)) \<Longrightarrow> x \<in> set xs"
  by (auto dest: in_set_takeD)

lemma keys_add_total: "set (map fst (add_total k q m)) = insert k (set (map fst m))"
  by (induction k q m rule: add_total.induct) auto

lemma map_of_add_total:
  "map_of (add_total k q m) c = (if c = k then Some ((case map_of m c of None \<Rightarrow> 0 | Some r \<Rightarrow> r) + q) else map_of m c)"
  by (induction k q m rule: add_total.induct) auto

lemma category_totals_fold:
  "map_of (fold (\<lambda>x. add_total (ex_expenseCategory x) (ex_totalOutflowMinor x)) items m) c =
     (if c \<in> fst ` set m \<or> c \<in> ex_expenseCategory ` set items
      then Some ((case map_of m c of None \<Rightarrow> 0 | Some q \<Rightarrow> q) +
        sum_list (map ex_totalOutflowMinor (filter (\<lambda>x. ex_expenseCategory x = c) items))) else None)"
proof (induction items arbitrary: m)
  case Nil
  then show ?case by (cases "map_of m c") (auto simp: map_of_eq_None_iff dest!: map_of_SomeD intro: rev_image_eqI)
next
  case (Cons x items)
  have keys: "fst ` set (add_total k q m) = insert k (fst ` set m)" for k q
    using keys_add_total[of k q m] by simp
  show ?case by (auto simp: Cons.IH map_of_add_total keys)
qed

lemma distinct_add_total: "distinct (map fst m) \<Longrightarrow> distinct (map fst (add_total k q m))"
proof (induction k q m rule: add_total.induct)
  case (2 k q k' q' m)
  then show ?case using keys_add_total[of k q m] by (auto simp del: set_map)
qed simp

lemma distinct_category_totals: "distinct (map fst (category_totals items))"
proof -
  have "distinct (map fst m) \<Longrightarrow>
      distinct (map fst (fold (\<lambda>x. add_total (ex_expenseCategory x) (ex_totalOutflowMinor x)) items m))" for m
    by (induction items arbitrary: m) (simp_all add: distinct_add_total)
  then show ?thesis by (simp add: category_totals_def)
qed

lemma sum_of_add_total: "sum_list (map snd (add_total k q m)) = sum_list (map snd m) + q"
  by (induction k q m rule: add_total.induct) auto

lemma sum_of_totals: "sum_list (map snd (category_totals items)) = sum_list (map ex_totalOutflowMinor items)"
proof -
  have "sum_list (map snd (fold (\<lambda>x. add_total (ex_expenseCategory x) (ex_totalOutflowMinor x)) items m)) =
      sum_list (map snd m) + sum_list (map ex_totalOutflowMinor items)" for m
    by (induction items arbitrary: m) (simp_all add: sum_of_add_total)
  then show ?thesis by (simp add: category_totals_def)
qed

lemma sum_js_sort: "sum_list (map f (js_sort le xs)) = (sum_list (map f xs) :: rat)"
  by (metis mset_js_sort mset_map sum_mset_sum_list)

lemma trend_periods:
  "tr_current30 (summarizeTransactions dp rows d) =
     (let cur = amounts (filter (in_window dp (startOfDay dp d) 0 30) rows)
      in \<lparr>pe_inflow = gains cur, pe_outflow = losses cur, pe_count = length cur, pe_net = gains cur - losses cur\<rparr>)"
  "tr_prior30 (summarizeTransactions dp rows d) =
     (let prior = amounts (filter (in_window dp (startOfDay dp d) 30 60) rows)
      in \<lparr>pe_inflow = gains prior, pe_outflow = losses prior, pe_count = length prior, pe_net = gains prior - losses prior\<rparr>)"
  "500000 \<le> tr_largeDebitThresholdMinor (summarizeTransactions dp rows d)"
  by (simp_all add: summarizeTransactions_def Let_def fold_tally fold_add_flow period_of_def empty_flow_def)

section \<open>Properties\<close>

text \<open>The two periods are the sums over the rows of the last thirty days and of the thirty days
  before, each row counted in at most one of them; the large debits are at most five debits of the
  current period, largest first, none below the threshold, which is never below 5 000.00; and no debit
  left out is larger than one that is listed.\<close>

lemma trend_is_window_sum:
  "(let t = summarizeTransactions dp rows d; a = startOfDay dp d;
        cur = amounts (filter (in_window dp a 0 30) rows); prior = amounts (filter (in_window dp a 30 60) rows);
        debits = map debit_of (filter (\<lambda>r. in_window dp a 0 30 r \<and> number (fld r ''amount_minor'') < 0) rows)
    in tr_current30 t = \<lparr>pe_inflow = gains cur, pe_outflow = losses cur, pe_count = length cur, pe_net = gains cur - losses cur\<rparr> \<and>
       tr_prior30 t = \<lparr>pe_inflow = gains prior, pe_outflow = losses prior, pe_count = length prior, pe_net = gains prior - losses prior\<rparr> \<and>
       500000 \<le> tr_largeDebitThresholdMinor t \<and> length (tr_largeDebits t) \<le> 5 \<and>
       sorted_wrt (\<lambda>x y. size_of y \<le> size_of x) (tr_largeDebits t) \<and>
       set (tr_largeDebits t) \<subseteq> {x \<in> set debits. tr_largeDebitThresholdMinor t \<le> size_of x} \<and>
       (\<forall>x \<in> set debits. tr_largeDebitThresholdMinor t \<le> size_of x \<longrightarrow>
          x \<in> set (tr_largeDebits t) \<or> (\<forall>y \<in> set (tr_largeDebits t). size_of x \<le> size_of y)))"
proof -
  define a where "a = startOfDay dp d"
  define debits where "debits = map debit_of (filter (\<lambda>r. in_window dp a 0 30 r \<and> number (fld r ''amount_minor'') < 0) rows)"
  define th where "th = tr_largeDebitThresholdMinor (summarizeTransactions dp rows d)"
  define L where "L = js_sort (\<lambda>x y. size_of y \<le> size_of x) (filter (\<lambda>x. th \<le> size_of x) debits)"
  have sorted: "sorted_wrt (\<lambda>x y. size_of y \<le> size_of x) L"
    unfolding L_def by (rule descending.sorted_sort) (simp add: list_all_iff)
  have large: "tr_largeDebits (summarizeTransactions dp rows d) = take 5 L"
    by (simp add: summarizeTransactions_def Let_def fold_tally L_def th_def debits_def a_def)
  have rest: "\<forall>x \<in> set L. x \<in> set (take 5 L) \<or> (\<forall>y \<in> set (take 5 L). size_of x \<le> size_of y)"
  proof
    fix x assume "x \<in> set L"
    then have "x \<in> set (take 5 L) \<or> x \<in> set (drop 5 L)" by (metis Un_iff append_take_drop_id set_append)
    moreover have "sorted_wrt (\<lambda>x y. size_of y \<le> size_of x) (take 5 L @ drop 5 L)" using sorted by simp
    ultimately show "x \<in> set (take 5 L) \<or> (\<forall>y \<in> set (take 5 L). size_of x \<le> size_of y)"
      unfolding sorted_wrt_append by blast
  qed
  have setL: "set L = {x \<in> set debits. th \<le> size_of x}" by (auto simp: L_def)
  show ?thesis
    unfolding Let_def a_def[symmetric] debits_def[symmetric] th_def[symmetric] large
    using trend_periods[of dp rows d] rest sorted_take[OF sorted, of 5] set_take_subset[of 5 L]
    unfolding a_def[symmetric] th_def[symmetric] setL Let_def by simp
qed

text \<open>grouping the confirmed supplier outflows by category loses and double counts nothing: each
  category of a row appears once with the sum of its rows, the sums add up to the sum of the rows, and
  the categories are listed largest first.\<close>

lemma category_totals_partition:
  "(let (items, cats) = expenseCategoryLearning rows outflow
    in sum_list (map ca_totalOutflowMinor cats) = sum_list (map ex_totalOutflowMinor items) \<and>
       distinct (map ca_expenseCategory cats) \<and>
       set (map ca_expenseCategory cats) = set (map ex_expenseCategory items) \<and>
       list_all (\<lambda>c. ca_totalOutflowMinor c =
          sum_list (map ex_totalOutflowMinor (filter (\<lambda>x. ex_expenseCategory x = ca_expenseCategory c) items))) cats \<and>
       sorted_wrt (\<lambda>c d. ca_totalOutflowMinor d \<le> ca_totalOutflowMinor c) cats)"
proof -
  define items where "items = map (expense_row outflow) rows"
  define row :: "string \<times> rat \<Rightarrow> category_total" where "row = (\<lambda>(c, q). \<lparr>ca_expenseCategory = c, ca_totalOutflowMinor = q, ca_share = share_of q outflow\<rparr>)"
  define le :: "category_total \<Rightarrow> category_total \<Rightarrow> bool" where "le = (\<lambda>a b. ca_totalOutflowMinor b \<le> ca_totalOutflowMinor a)"
  define cats where "cats = js_sort le (map row (category_totals items))"
  have r: "expenseCategoryLearning rows outflow = (items, cats)"
    by (simp add: expenseCategoryLearning_def Let_def items_def cats_def row_def le_def)
  have row: "ca_expenseCategory (row p) = fst p" "ca_totalOutflowMinor (row p) = snd p" for p
    by (simp_all add: row_def split: prod.splits)
  have tot: "(c, q) \<in> set (category_totals items) \<Longrightarrow> map_of (category_totals items) c = Some q" for c q
    using distinct_category_totals by (rule map_of_is_SomeI)
  have sums: "q = sum_list (map ex_totalOutflowMinor (filter (\<lambda>x. ex_expenseCategory x = c) items))"
    if "(c, q) \<in> set (category_totals items)" for c q
    using tot[OF that] category_totals_fold[of items "[]" c] by (simp add: category_totals_def split: if_splits)
  have keys: "set (map fst (category_totals items)) = set (map ex_expenseCategory items)"
  proof -
    have "set (map fst (category_totals items)) = {c. map_of (category_totals items) c \<noteq> None}"
      by (auto simp: map_of_eq_None_iff)
    then show ?thesis using category_totals_fold[of items "[]"] by (auto simp: category_totals_def)
  qed
  have d: "distinct (map ca_expenseCategory cats)"
  proof -
    have "mset (map ca_expenseCategory cats) = mset (map fst (category_totals items))"
      by (simp add: cats_def row comp_def multiset.map_comp)
    then show ?thesis using distinct_category_totals by (metis mset_eq_imp_distinct_iff)
  qed
  have k: "set (map ca_expenseCategory cats) = set (map ex_expenseCategory items)"
    unfolding keys[symmetric] by (simp add: cats_def row image_image)
  have t: "sum_list (map ca_totalOutflowMinor cats) = sum_list (map ex_totalOutflowMinor items)"
    using sum_of_totals[of items] by (simp add: cats_def sum_js_sort row comp_def)
  have e: "list_all (\<lambda>c. ca_totalOutflowMinor c =
      sum_list (map ex_totalOutflowMinor (filter (\<lambda>x. ex_expenseCategory x = ca_expenseCategory c) items))) cats"
    using sums by (auto simp: cats_def list_all_iff row)
  have "sorted_wrt le cats" unfolding cats_def le_def by (rule descending.sorted_sort) (simp add: list_all_iff)
  then show ?thesis
    unfolding r Let_def prod.case using d k t e by (simp add: le_def)
qed

definition sample_days :: date_parse where
  "sample_days s = (if s = ''2026-09-30T00:00:00Z'' then Some 1790726400000
     else if s = ''2026-09-01T00:00:00Z'' then Some 1788220800000
     else if s = ''2026-08-15T00:00:00Z'' then Some 1786752000000 else None)"

definition sample_row :: "string \<Rightarrow> int \<Rightarrow> jsval" where
  "sample_row day amt = JObj [(''posted_on'', JStr day), (''amount_minor'', JInt amt)]"

definition sample_rows :: "jsval list" where
  "sample_rows = [sample_row ''2026-09-30'' 900, sample_row ''2026-09-01'' (- 600000), sample_row ''2026-08-15'' (- 400), sample_row ''soon'' 5]"

lemma trend_is_window_sum_example:
  "tr_current30 (summarizeTransactions sample_days sample_rows (JStr ''2026-09-30'')) =
      \<lparr>pe_inflow = 900, pe_outflow = 600000, pe_count = 2, pe_net = - 599100\<rparr> \<and>
   500000 \<le> tr_largeDebitThresholdMinor (summarizeTransactions sample_days sample_rows (JStr ''2026-09-30''))"
proof -
  have a: "startOfDay sample_days (JStr ''2026-09-30'') = Some 1790726400000" by code_simp
  have "amounts (filter (in_window sample_days (Some 1790726400000) 0 30) sample_rows) = [900, - 600000]" by code_simp
  then show ?thesis
    using trend_is_window_sum [of sample_days sample_rows "JStr ''2026-09-30''", unfolded a Let_def]
    by (simp add: gains_def losses_def)
qed

end
