(* ===== verification/SpendEnvelope.thy ===== *)
theory SpendEnvelope imports MoneyTrends MarketProfile "HOL-Library.List_Lexorder" begin

text \<open>
  Planning from owner assumptions in \<^verbatim>\<open>money-intelligence.js\<close>: the assumptions of the owner's
  profile (\<^verbatim>\<open>ownerEnteredMemory\<close> of \<^verbatim>\<open>business-context.js\<close>), scenarios, the forward cash calendar,
  the weekly envelope of discretionary spend and the decision on one proposed spend. Amounts are exact
  rationals. The collation key \<open>ck\<close> of \<^verbatim>\<open>localeCompare\<close> and the reading of dates are parameters.
\<close>

section \<open>Owner assumptions\<close>

definition profile_keys :: "(string \<times> string) list" where
  "profile_keys =
    [(''monthlyRevenueTargetBwp'', ''decisionMonthlyRevenueTargetBwp''), (''currentCashBwp'', ''decisionCurrentCashBwp''),
     (''minimumCashBufferBwp'', ''decisionMinimumCashBufferBwp''), (''monthlyCashOutflowsBwp'', ''decisionMonthlyCashOutflowsBwp''),
     (''monthlyLabourCostBwp'', ''decisionMonthlyLabourCostBwp''), (''plannedPurchaseBwp'', ''decisionPlannedPurchaseBwp''),
     (''operatingDaysPerMonth'', ''decisionOperatingDaysPerMonth''), (''plannedPurchaseLabel'', ''decisionPlannedPurchaseLabel''),
     (''sameMonthCollectionPct'', ''decisionSameMonthCollectionPct'')]"

text \<open>\<^verbatim>\<open>finite(v)\<close>: the number, or null when it is not finite.\<close>

definition finite_or_null :: "jsval \<Rightarrow> jsval" where
  "finite_or_null v = (if is_finite (to_num v) then JNum (to_num v) else Null)"

definition profile_value :: "jsval \<Rightarrow> string \<Rightarrow> jsval" where
  "profile_value profile k = (case map_of profile_keys k of None \<Rightarrow> Null | Some p \<Rightarrow> finite_or_null (fld profile p))"

definition owner_assumptions :: "jsval \<Rightarrow> jsval" where
  "owner_assumptions profile = JObj
    (map (\<lambda>k. (k, profile_value profile k))
       [''monthlyRevenueTargetBwp'', ''currentCashBwp'', ''minimumCashBufferBwp'', ''monthlyCashOutflowsBwp'',
        ''monthlyLabourCostBwp'', ''plannedPurchaseBwp'', ''operatingDaysPerMonth'', ''sameMonthCollectionPct''] @
     [(''plannedPurchaseLabel'', or_null (clean (fld profile ''decisionPlannedPurchaseLabel'') 80))])"

record assumptions =
  as_monthlyOutflowsMinor :: "rat option"
  as_minimumCashBufferMinor :: "rat option"
  as_plannedPurchaseMinor :: "rat option"
  as_plannedPurchaseLabel :: "string option"
  as_monthlyLabourCostMinor :: "rat option"
  as_monthlyRevenueTargetMinor :: "rat option"
  as_sameMonthCollectionPct :: "rat option"
  as_estimatedRunwayDays :: "jsnum option"
  as_safeDiscretionaryMinor :: "jsnum option"

definition toMinor :: "bool \<Rightarrow> jsval \<Rightarrow> rat option" where
  "toMinor positive v = (case to_num v of
     Fin n \<Rightarrow> if (if positive then n > 0 else n \<ge> 0) then Some (js_round (n * 100)) else None | _ \<Rightarrow> None)"

text \<open>An increasing function on a number: the infinities and NaN stay.\<close>

fun num_up :: "(rat \<Rightarrow> rat) \<Rightarrow> jsnum \<Rightarrow> jsnum" where
  "num_up f (Fin q) = Fin (f q)"
| "num_up f n = n"

text \<open>An amount is absent when it is null or zero: \<^verbatim>\<open>amount?...:null\<close>.\<close>

definition nonzero :: "rat option \<Rightarrow> rat option" where
  "nonzero q = (if q = Some 0 then None else q)"

definition assumptionMetrics :: "jsval \<Rightarrow> jsval \<Rightarrow> assumptions" where
  "assumptionMetrics cashPositionMinor memory =
    (let a = fld memory ''assumptions'';
         cash = num_or0 cashPositionMinor;
         outflows = toMinor True (fld a ''monthlyCashOutflowsBwp'');
         buffer = toMinor False (fld a ''minimumCashBufferBwp'');
         label = clean (fld a ''plannedPurchaseLabel'') 100
     in \<lparr>as_monthlyOutflowsMinor = outflows, as_minimumCashBufferMinor = buffer,
         as_plannedPurchaseMinor = toMinor True (fld a ''plannedPurchaseBwp''),
         as_plannedPurchaseLabel = (if label = [] then None else Some label),
         as_monthlyLabourCostMinor = toMinor False (fld a ''monthlyLabourCostBwp''),
         as_monthlyRevenueTargetMinor = toMinor True (fld a ''monthlyRevenueTargetBwp''),
         as_sameMonthCollectionPct = (case to_num (fld a ''sameMonthCollectionPct'') of
            Fin q \<Rightarrow> Some (max 0 (min 100 q)) | _ \<Rightarrow> None),
         as_estimatedRunwayDays = map_option (\<lambda>m. num_up (\<lambda>q. js_round (q * 10) / 10)
            (num_max (Fin 0) (num_up (\<lambda>q. q / m * 30) cash))) (nonzero outflows),
         as_safeDiscretionaryMinor = map_option (\<lambda>b. num_max (Fin 0) (num_up (\<lambda>q. q - b) cash)) buffer\<rparr>)"

section \<open>Scenarios and commitments\<close>

record horizon =
  hz_days :: nat
  hz_recordedEnding :: rat
  hz_ownerEnding :: rat
  hz_ownerEndingWithCollection :: rat
  hz_ownerCollectionUpside :: rat
  hz_belowOwnerBuffer :: "bool option"

record scenario =
  sc_dailyRecordedInflowMinor :: rat
  sc_dailyRecordedOutflowMinor :: rat
  sc_dailyOwnerScenarioOutflowMinor :: rat
  sc_collectionUpsideMinor :: rat
  sc_cashFlowMarginProxyPct :: "rat option"
  sc_revenueTargetCoveragePct :: "rat option"
  sc_firstOwnerBufferBreachDays :: "nat option"
  sc_horizons :: "horizon list"

definition horizon_at :: "rat \<Rightarrow> rat \<Rightarrow> rat \<Rightarrow> rat \<Rightarrow> rat \<Rightarrow> rat option \<Rightarrow> nat \<Rightarrow> horizon" where
  "horizon_at cash dailyInflow dailyOutflow ownerDaily collection30 buffer days =
    (let d = of_nat days; recorded = js_round (cash + (dailyInflow - dailyOutflow) * d);
         upside = js_round (collection30 * min 1 (d / 30));
         ending = js_round (cash + dailyInflow * d - ownerDaily * d)
     in \<lparr>hz_days = days, hz_recordedEnding = recorded, hz_ownerEnding = ending,
         hz_ownerEndingWithCollection = js_round (ending + upside), hz_ownerCollectionUpside = upside,
         hz_belowOwnerBuffer = map_option (\<lambda>b. ending < b) buffer\<rparr>)"

definition cashScenario :: "jsval \<Rightarrow> period \<Rightarrow> assumptions \<Rightarrow> jsval \<Rightarrow> scenario" where
  "cashScenario cashPositionMinor current a receivablesOutstandingMinor =
    (let inflow = pe_inflow current; outflow = pe_outflow current;
         dailyInflow = inflow / 30; dailyOutflow = outflow / 30;
         ownerDaily = (case nonzero (as_monthlyOutflowsMinor a) of Some m \<Rightarrow> m / 30 | None \<Rightarrow> dailyOutflow);
         collection30 = (case as_sameMonthCollectionPct a of None \<Rightarrow> 0
            | Some pct \<Rightarrow> js_round (max 0 (number receivablesOutstandingMinor) * pct / 100));
         horizons = map (horizon_at (number cashPositionMinor) dailyInflow dailyOutflow ownerDaily collection30
            (as_minimumCashBufferMinor a)) [7, 30, 90]
     in \<lparr>sc_dailyRecordedInflowMinor = js_round dailyInflow, sc_dailyRecordedOutflowMinor = js_round dailyOutflow,
         sc_dailyOwnerScenarioOutflowMinor = js_round ownerDaily, sc_collectionUpsideMinor = collection30,
         sc_cashFlowMarginProxyPct = (if inflow > 0 then Some (round3 ((inflow - outflow) / inflow)) else None),
         sc_revenueTargetCoveragePct = map_option (\<lambda>t. round3 (inflow / t)) (nonzero (as_monthlyRevenueTargetMinor a)),
         sc_firstOwnerBufferBreachDays = map_option hz_days (find (\<lambda>h. hz_belowOwnerBuffer h = Some True) horizons),
         sc_horizons = horizons\<rparr>)"

record commitment =
  cm_type :: string
  cm_label :: string
  cm_amountMinor :: rat
  cm_recurring :: bool

definition ownerCommitments :: "assumptions \<Rightarrow> commitment list \<times> rat" where
  "ownerCommitments a =
    (let items =
       (case nonzero (as_plannedPurchaseMinor a) of None \<Rightarrow> []
        | Some q \<Rightarrow> [\<lparr>cm_type = ''planned_purchase'', cm_label = (case as_plannedPurchaseLabel a of Some l \<Rightarrow> l
             | None \<Rightarrow> ''Owner-entered planned purchase''), cm_amountMinor = q, cm_recurring = False\<rparr>]) @
       (case nonzero (as_monthlyLabourCostMinor a) of None \<Rightarrow> []
        | Some q \<Rightarrow> [\<lparr>cm_type = ''monthly_labour_cost_assumption'', cm_label = ''Owner-entered monthly labour cost'',
             cm_amountMinor = q, cm_recurring = True\<rparr>])
     in (items, sum_list (map cm_amountMinor (filter (\<lambda>x. \<not> cm_recurring x) items))))"

section \<open>The forward cash calendar\<close>

record cash_event =
  ev_date :: string
  ev_originalDueOn :: "string option"
  ev_type :: string
  ev_outflow :: bool
  ev_amountMinor :: rat
  ev_label :: string
  ev_reference :: "string option"
  ev_includedInCommittedCash :: bool
  ev_collectionAttention :: "string option"
  ev_historicalOnTimeRate :: "rat option"

definition opt_text :: "string \<Rightarrow> string option" where
  "opt_text s = (if s = [] then None else Some s)"

text \<open>\<^verbatim>\<open>dateDiffDays(a,b)>30\<close>; an unreadable date is not later.\<close>

definition beyond30 :: "date_parse \<Rightarrow> string \<Rightarrow> string \<Rightarrow> bool" where
  "beyond30 dp a b = (case dateDiffDays dp a b of Some d \<Rightarrow> d > 30 | None \<Rightarrow> False)"

definition payable_event :: "date_parse \<Rightarrow> string \<Rightarrow> jsval \<Rightarrow> cash_event option" where
  "payable_event dp businessDate row =
    (let rawDue = dateOnly (fld row ''dueOn'');
         effective = (if rawDue \<noteq> [] \<and> text_lt rawDue businessDate then businessDate else rawDue)
     in if number (fld row ''outstandingMinor'') \<le> 0 then None
        else if effective = [] \<or> beyond30 dp effective businessDate then None
        else Some \<lparr>ev_date = effective, ev_originalDueOn = opt_text rawDue, ev_type = ''committed_payable'', ev_outflow = True,
          ev_amountMinor = number (fld row ''outstandingMinor''),
          ev_label = clean (jor (fld row ''supplierName'') (fld row ''payableNumber'')) 160,
          ev_reference = opt_text (clean (fld row ''payableNumber'') 100), ev_includedInCommittedCash = True,
          ev_collectionAttention = None, ev_historicalOnTimeRate = None\<rparr>)"

text \<open>The \<^verbatim>\<open>Map\<close> of behaviours by customer keeps the last one of a customer.\<close>

definition behavior_of :: "collection list \<Rightarrow> string \<Rightarrow> collection option" where
  "behavior_of bs i = find (\<lambda>b. co_customerId b = i) (rev bs)"

definition receivable_event :: "date_parse \<Rightarrow> string \<Rightarrow> collection list \<Rightarrow> jsval \<Rightarrow> cash_event option" where
  "receivable_event dp businessDate bs row =
    (let due = dateOnly (fld row ''dueOn''); behavior = behavior_of bs (str_or (fld row ''customerId''))
     in if number (fld row ''outstandingMinor'') \<le> 0 then None
        else if due = [] \<or> beyond30 dp due businessDate then None
        else Some \<lparr>ev_date = (if text_lt due businessDate then businessDate else due), ev_originalDueOn = Some due,
          ev_type = ''potential_receivable'', ev_outflow = False,
          ev_amountMinor = number (fld row ''outstandingMinor''),
          ev_label = clean (jor (fld row ''customerName'') (fld row ''invoiceNumber'')) 160,
          ev_reference = opt_text (clean (fld row ''invoiceNumber'') 100), ev_includedInCommittedCash = False,
          ev_collectionAttention = Some (case behavior of Some b \<Rightarrow> co_attention b | None \<Rightarrow> ''insufficient_history''),
          ev_historicalOnTimeRate = (case behavior of Some b \<Rightarrow> co_historicalOnTimeRate b | None \<Rightarrow> None)\<rparr>)"

definition event_le :: "(string \<Rightarrow> 'k::linorder) \<Rightarrow> cash_event \<Rightarrow> cash_event \<Rightarrow> bool" where
  "event_le ck a b \<longleftrightarrow>
    \<not> (if ck (ev_date a) < ck (ev_date b) then False else if ck (ev_date b) < ck (ev_date a) then True
       else (if ev_outflow a then - 1 else 1 :: int) - (if ev_outflow b then - 1 else 1) > 0)"

text \<open>The running balance, its lowest value and the date of it.\<close>

record running =
  rn_cash :: rat
  rn_lowest :: rat
  rn_lowestDate :: string
  rn_events :: "(cash_event \<times> rat) list"

definition run_event :: "cash_event \<Rightarrow> running \<Rightarrow> running" where
  "run_event e st =
    (let cash = (if ev_includedInCommittedCash e \<and> ev_outflow e then rn_cash st - ev_amountMinor e else rn_cash st)
     in st\<lparr>rn_cash := cash, rn_lowest := (if cash < rn_lowest st then cash else rn_lowest st),
           rn_lowestDate := (if cash < rn_lowest st then ev_date e else rn_lowestDate st),
           rn_events := rn_events st @ [(e, cash)]\<rparr>)"

record outlook =
  ol_committedOutflowMinor :: rat
  ol_overdueOutflowMinor :: rat
  ol_upcomingOutflowMinor :: rat
  ol_potentialReceivableMinor :: rat
  ol_overdueReceivableMinor :: rat
  ol_upcomingReceivableMinor :: rat

definition outlook_of :: "jsval \<Rightarrow> jsval \<Rightarrow> string \<Rightarrow> outlook" where
  "outlook_of payables receivables k =
    (let po = number (fld payables ''overdueMinor''); pu = number (fld payables k);
         ro = number (fld receivables ''overdueMinor''); ru = number (fld receivables k)
     in \<lparr>ol_committedOutflowMinor = po + pu, ol_overdueOutflowMinor = po, ol_upcomingOutflowMinor = pu,
         ol_potentialReceivableMinor = ro + ru, ol_overdueReceivableMinor = ro, ol_upcomingReceivableMinor = ru\<rparr>)"

record cash_calendar =
  cl_payablesAvailable :: bool
  cl_receivablesAvailable :: bool
  cl_payableRowsShown :: nat
  cl_payableRowsTotal :: rat
  cl_receivableRowsShown :: nat
  cl_receivableRowsTotal :: rat
  cl_payablesComplete :: bool
  cl_receivablesComplete :: bool
  cl_events :: "(cash_event \<times> rat) list"
  cl_next7 :: outlook
  cl_next14 :: outlook
  cl_next30 :: outlook
  cl_lowestCommittedCashMinor :: rat
  cl_lowestCommittedCashDate :: string

definition calendar_events :: "date_parse \<Rightarrow> (string \<Rightarrow> 'k::linorder) \<Rightarrow> string \<Rightarrow> jsval \<Rightarrow> jsval \<Rightarrow> collection list \<Rightarrow> cash_event list" where
  "calendar_events dp ck businessDate payables receivables bs =
     js_sort (event_le ck) (List.map_filter (payable_event dp businessDate) (elems (fld payables ''payables'')) @
       List.map_filter (receivable_event dp businessDate bs) (elems (fld receivables ''invoices'')))"

definition start_running :: "rat \<Rightarrow> string \<Rightarrow> running" where
  "start_running cash businessDate = \<lparr>rn_cash = cash, rn_lowest = cash, rn_lowestDate = businessDate, rn_events = []\<rparr>"

definition forwardCashCalendar ::
    "date_parse \<Rightarrow> (string \<Rightarrow> 'k::linorder) \<Rightarrow> string \<Rightarrow> jsval \<Rightarrow> jsval \<Rightarrow> jsval \<Rightarrow> collection list \<Rightarrow> cash_calendar" where
  "forwardCashCalendar dp ck businessDate cashPositionMinor payables receivables bs =
    (let st = fold run_event (calendar_events dp ck businessDate payables receivables bs)
           (start_running (number cashPositionMinor) businessDate);
         shownP = length (elems (fld payables ''payables'')); totalP = number (fld payables ''outstandingPayableCount'');
         shownR = length (elems (fld receivables ''invoices'')); totalR = number (fld receivables ''outstandingInvoiceCount'')
     in \<lparr>cl_payablesAvailable = is_true (fld payables ''available''),
         cl_receivablesAvailable = (\<not> is_false (fld receivables ''available'')),
         cl_payableRowsShown = shownP, cl_payableRowsTotal = totalP, cl_receivableRowsShown = shownR,
         cl_receivableRowsTotal = totalR, cl_payablesComplete = (totalP \<le> of_nat shownP),
         cl_receivablesComplete = (totalR \<le> of_nat shownR), cl_events = rn_events st,
         cl_next7 = outlook_of payables receivables ''due7dMinor'',
         cl_next14 = outlook_of payables receivables ''due14dMinor'',
         cl_next30 = outlook_of payables receivables ''due30dMinor'',
         cl_lowestCommittedCashMinor = rn_lowest st, cl_lowestCommittedCashDate = rn_lowestDate st\<rparr>)"

section \<open>Payable stress\<close>

record top_supplier =
  ts_supplierId :: string
  ts_supplierName :: string
  ts_outstandingMinor :: rat
  ts_overdueMinor :: rat
  ts_outstandingPayableCount :: rat
  ts_shareOfOutstanding :: rat

text \<open>The two last counts are only there when a top supplier is.\<close>

record supplier_share =
  ss_totalOutstandingMinor :: rat
  ss_topSupplier :: "top_supplier option"
  ss_supplierRowsShown :: nat
  ss_supplierCount :: rat

definition payableSupplierConcentration :: "jsval \<Rightarrow> supplier_share" where
  "payableSupplierConcentration payables =
    (let amt = max 0 (number (fld payables ''outstandingMinor'')); suppliers = elems (fld payables ''suppliers'');
         none = \<lparr>ss_totalOutstandingMinor = amt, ss_topSupplier = None, ss_supplierRowsShown = 0, ss_supplierCount = 0\<rparr>
     in case suppliers of
          first # _ \<Rightarrow>
            (if \<not> truthy first \<or> amt \<le> 0 then none
             else (let own = max 0 (number (fld first ''outstandingMinor''))
               in \<lparr>ss_totalOutstandingMinor = amt,
                   ss_topSupplier = Some \<lparr>ts_supplierId = clean (fld first ''supplierId'') 120,
                     ts_supplierName = clean (fld first ''supplierName'') 160, ts_outstandingMinor = own,
                     ts_overdueMinor = max 0 (number (fld first ''overdueMinor'')),
                     ts_outstandingPayableCount = max 0 (number (fld first ''outstandingPayableCount'')),
                     ts_shareOfOutstanding = round3 (own / amt)\<rparr>,
                   ss_supplierRowsShown = length suppliers,
                   ss_supplierCount = max 0 (number (fld payables ''supplierCount''))\<rparr>))
        | [] \<Rightarrow> none)"

record stress =
  sx_cashPositionMinor :: rat
  sx_committed14dMinor :: rat
  sx_cashAfterCommitted14dMinor :: rat
  sx_coverageRatio :: "rat option"
  sx_shortfallMinor :: rat
  sx_minimumCashBufferMinor :: "rat option"
  sx_afterVsOwnerBufferMinor :: "rat option"

definition cashCommitmentStress :: "jsval \<Rightarrow> cash_calendar \<Rightarrow> rat option \<Rightarrow> stress" where
  "cashCommitmentStress cashPositionMinor cal minBuffer =
    (let cash = number cashPositionMinor; committed14 = max 0 (ol_committedOutflowMinor (cl_next14 cal));
         after14 = cash - committed14; buffer = map_option (max 0) minBuffer
     in \<lparr>sx_cashPositionMinor = cash, sx_committed14dMinor = committed14, sx_cashAfterCommitted14dMinor = after14,
         sx_coverageRatio = (if committed14 > 0 then Some (round3 (cash / committed14)) else None),
         sx_shortfallMinor = max 0 (- after14), sx_minimumCashBufferMinor = buffer,
         sx_afterVsOwnerBufferMinor = map_option (\<lambda>b. after14 - b) buffer\<rparr>)"

section \<open>The weekly envelope\<close>

record spend_envelope =
  se_ready :: bool
  se_state :: string
  se_missingInputs :: "string list"
  se_blockingEvidence :: "string list"
  se_currency :: string
  se_recordedCashPositionMinor :: rat
  se_supplierPayablesDue7dMinor :: "rat option"
  se_payrollReserveMinor :: "rat option"
  se_minimumCashBufferMinor :: "rat option"
  se_protectedMinor :: "rat option"
  se_discretionaryEnvelopeMinor :: "rat option"
  se_ownerPlannedPurchaseMinor :: "rat option"
  se_afterPlannedPurchaseMinor :: "rat option"
  se_payablesAvailable :: bool
  se_reconciliationStale :: bool
  se_warnings :: "string list"

definition envelope_warnings :: "bool \<Rightarrow> jsval \<Rightarrow> rat option \<Rightarrow> string list" where
  "envelope_warnings payablesAvailable stale planned =
    [''Uses recorded cash, recorded supplier payables due now/within 7 days, and owner-entered payroll/buffer assumptions.'',
     ''Assumes no receivables are collected before spending.'',
     ''Unknown, unrecorded or later-due obligations are not reserved.''] @
    (if \<not> payablesAvailable then [''The supplier-payables ledger is unavailable, so Thebe will not calculate a discretionary spend amount.''] else []) @
    (if truthy stale then [''The latest finance reconciliation is stale, so Thebe will not calculate a discretionary spend amount until cash is reviewed.''] else []) @
    (if nonzero planned \<noteq> None then [''An owner-entered planned purchase is shown separately because its timing is unspecified.''] else [])"

definition weeklySpendEnvelope :: "jsval \<Rightarrow> cash_calendar \<Rightarrow> assumptions \<Rightarrow> jsval \<Rightarrow> spend_envelope" where
  "weeklySpendEnvelope cashPositionMinor cal a stale =
    (let cash = number cashPositionMinor;
         committed7d = max 0 (ol_committedOutflowMinor (cl_next7 cal));
         payroll = map_option (max 0) (as_monthlyLabourCostMinor a);
         buffer = map_option (max 0) (as_minimumCashBufferMinor a);
         planned = map_option (max 0) (as_plannedPurchaseMinor a);
         missing = (if payroll = None then [''monthly_labour_cost''] else []) @
                   (if buffer = None then [''minimum_cash_buffer''] else []);
         issues = (if \<not> cl_payablesAvailable cal then [''supplier_payables_unavailable''] else []) @
                  (if is_true stale then [''finance_reconciliation_stale''] else []);
         ready = (missing = [] \<and> issues = []);
         protectd = (if ready then Some (committed7d + the payroll + the buffer) else None);
         envelope = map_option (\<lambda>p. max 0 (cash - p)) protectd;
         after = map_option (\<lambda>e. max 0 (e - (case planned of Some q \<Rightarrow> q | None \<Rightarrow> 0))) envelope
     in \<lparr>se_ready = ready,
         se_state = (if missing \<noteq> [] \<and> issues \<noteq> [] then ''needs_inputs_and_finance_review''
            else if missing \<noteq> [] then ''needs_owner_inputs'' else if issues \<noteq> [] then ''needs_finance_review''
            else if the envelope > 0 then ''available'' else ''none''),
         se_missingInputs = missing, se_blockingEvidence = issues,
         se_currency = (case runtimeMarketProfile (JStr DEFAULT_RUNTIME_MARKET_CODE) of
            Some p \<Rightarrow> (if mk_currency p = [] then ''BWP'' else mk_currency p) | None \<Rightarrow> ''BWP''),
         se_recordedCashPositionMinor = cash,
         se_supplierPayablesDue7dMinor = (if cl_payablesAvailable cal then Some committed7d else None),
         se_payrollReserveMinor = payroll, se_minimumCashBufferMinor = buffer, se_protectedMinor = protectd,
         se_discretionaryEnvelopeMinor = envelope, se_ownerPlannedPurchaseMinor = planned,
         se_afterPlannedPurchaseMinor = after, se_payablesAvailable = cl_payablesAvailable cal,
         se_reconciliationStale = is_true stale, se_warnings = envelope_warnings (cl_payablesAvailable cal) stale planned\<rparr>)"

text \<open>The last argument of the decision is null when there is no envelope.\<close>

record spend_decision =
  sd_ready :: bool
  sd_state :: string
  sd_error :: "string option"
  sd_label :: string
  sd_proposedSpendMinor :: "rat option"
  sd_weeklyEnvelopeMinor :: "rat option"
  sd_withinEnvelope :: "bool option"
  sd_remainingEnvelopeMinor :: "rat option"
  sd_exceedsEnvelopeByMinor :: "rat option"
  sd_recordedCashAfterSpendMinor :: "rat option"
  sd_protectedReservesPreserved :: "bool option"
  sd_missingInputs :: "string list"
  sd_blockingEvidence :: "string list"
  sd_warnings :: "string list"

definition no_decision :: "string \<Rightarrow> string \<Rightarrow> string \<Rightarrow> rat option \<Rightarrow> spend_decision" where
  "no_decision state e label amount =
    \<lparr>sd_ready = False, sd_state = state, sd_error = Some e, sd_label = label, sd_proposedSpendMinor = amount,
     sd_weeklyEnvelopeMinor = None, sd_withinEnvelope = None, sd_remainingEnvelopeMinor = None,
     sd_exceedsEnvelopeByMinor = None, sd_recordedCashAfterSpendMinor = None, sd_protectedReservesPreserved = None,
     sd_missingInputs = [], sd_blockingEvidence = [], sd_warnings = []\<rparr>"

definition valid_spend :: "jsval \<Rightarrow> rat option" where
  "valid_spend v = (case to_num v of
     Fin q \<Rightarrow> if is_safe_integer (Fin q) \<and> q > 0 \<and> q \<le> 100000000000000 then Some q else None | _ \<Rightarrow> None)"

definition simulateWeeklySpendDecision :: "spend_envelope option \<Rightarrow> jsval \<Rightarrow> jsval \<Rightarrow> spend_decision" where
  "simulateWeeklySpendDecision env proposedSpendMinor label0 =
    (let label = (let l = clean label0 120 in if l = [] then ''Proposed spend'' else l)
     in case valid_spend proposedSpendMinor of
          None \<Rightarrow> no_decision ''invalid_amount'' ''invalid_proposed_spend_minor'' label None
        | Some amount \<Rightarrow>
            (case env of
               None \<Rightarrow> no_decision ''blocked'' ''weekly_spend_envelope_unavailable'' label (Some amount)
             | Some e \<Rightarrow>
                 (case (se_ready e, se_discretionaryEnvelopeMinor e) of
                    (True, Some envelope0) \<Rightarrow>
                      (let envelope = max 0 envelope0; fits = (amount \<le> envelope);
                           cash = max 0 (se_recordedCashPositionMinor e)
                       in \<lparr>sd_ready = True, sd_state = (if fits then ''within_envelope'' else ''above_envelope''), sd_error = None,
                           sd_label = label, sd_proposedSpendMinor = Some amount, sd_weeklyEnvelopeMinor = Some envelope,
                           sd_withinEnvelope = Some fits, sd_remainingEnvelopeMinor = Some (max 0 (envelope - amount)),
                           sd_exceedsEnvelopeByMinor = Some (max 0 (amount - envelope)),
                           sd_recordedCashAfterSpendMinor = Some (cash - amount), sd_protectedReservesPreserved = Some fits,
                           sd_missingInputs = [], sd_blockingEvidence = [], sd_warnings = []\<rparr>)
                  | _ \<Rightarrow> (no_decision ''blocked'' ''weekly_spend_envelope_unavailable'' label (Some amount))
                      \<lparr>sd_missingInputs := take 8 (se_missingInputs e), sd_blockingEvidence := take 8 (se_blockingEvidence e),
                       sd_warnings := take 8 (se_warnings e)\<rparr>)))"

section \<open>Facts\<close>

lemma event_le_iff:
  "event_le ck a b \<longleftrightarrow> ck (ev_date a) < ck (ev_date b) \<or>
     (ck (ev_date a) = ck (ev_date b) \<and> (ev_outflow b \<longrightarrow> ev_outflow a))"
  by (auto simp: event_le_def)

interpretation event_order: comparator "\<lambda>_. True" "event_le (ck :: string \<Rightarrow> 'k::linorder)" for ck
  by unfold_locales (auto simp: event_le_iff)

text \<open>What a prefix of the calendar takes out of the committed cash.\<close>

definition committed_out :: "cash_event list \<Rightarrow> rat" where
  "committed_out es = sum_list (map ev_amountMinor (filter (\<lambda>e. ev_includedInCommittedCash e \<and> ev_outflow e) es))"

fun balances :: "rat \<Rightarrow> cash_event list \<Rightarrow> rat list" where
  "balances c [] = []"
| "balances c (e # es) = (let c' = (if ev_includedInCommittedCash e \<and> ev_outflow e then c - ev_amountMinor e else c)
     in c' # balances c' es)"

lemma length_balances [simp]: "length (balances c es) = length es"
  by (induction c es rule: balances.induct) (simp_all add: Let_def)

lemma nth_balances: "k < length es \<Longrightarrow> balances c es ! k = c - committed_out (take (Suc k) es)"
proof (induction c es arbitrary: k rule: balances.induct)
  case (2 c e es)
  then show ?case by (cases k) (auto simp: Let_def committed_out_def)
qed simp

lemma fold_run_event:
  "rn_events (fold run_event es st) = rn_events st @ zip es (balances (rn_cash st) es)"
  "rn_lowest (fold run_event es st) = foldl min (rn_lowest st) (balances (rn_cash st) es)"
  by (induction es arbitrary: st) (simp_all add: run_event_def Let_def min_def)

lemma foldl_min_least: "x \<in> insert m (set xs) \<Longrightarrow> foldl min m xs \<le> (x :: rat)"
proof (induction xs arbitrary: m x)
  case (Cons y ys)
  have "foldl min (min m y) ys \<le> min m y" by (rule Cons.IH) simp
  then show ?case using Cons.prems Cons.IH[of x "min m y"] by auto
qed simp

lemma foldl_min_in: "foldl min m xs \<in> insert (m :: rat) (set xs)"
proof (induction xs arbitrary: m)
  case (Cons y ys)
  have "foldl min (min m y) ys \<in> insert (min m y) (set ys)" by (rule Cons.IH)
  moreover have "min m y \<in> {m, y}" by (simp add: min_def)
  ultimately show ?case by auto
qed simp

lemma js_round_0 [simp]: "js_round 0 = 0"
  by code_simp

lemma payable_event_SomeD:
  "payable_event dp d row = Some e \<Longrightarrow> ev_outflow e \<and> ev_includedInCommittedCash e \<and> 0 < ev_amountMinor e"
  unfolding payable_event_def Let_def by (auto split: if_splits)

lemma receivable_event_SomeD: "receivable_event dp d bs row = Some e \<Longrightarrow> \<not> ev_outflow e \<and> \<not> ev_includedInCommittedCash e"
  unfolding receivable_event_def Let_def by (auto split: if_splits)

lemma set_option_filter: "x \<in> set (List.map_filter f xs) \<longleftrightarrow> (\<exists>y \<in> set xs. f y = Some x)"
  by (induction xs) (auto simp: List.map_filter_def split: option.splits)

lemma calendar_event_kind:
  "e \<in> set (calendar_events dp ck d p r bs) \<Longrightarrow> ev_outflow e = ev_includedInCommittedCash e \<and> (ev_outflow e \<longrightarrow> 0 < ev_amountMinor e)"
  by (auto simp: calendar_events_def set_option_filter dest!: payable_event_SomeD receivable_event_SomeD)

lemma envelope_fields:
  "se_ready (weeklySpendEnvelope cash cal a stale) \<longleftrightarrow> as_monthlyLabourCostMinor a \<noteq> None \<and>
     as_minimumCashBufferMinor a \<noteq> None \<and> cl_payablesAvailable cal \<and> stale \<noteq> JBool True"
  "se_discretionaryEnvelopeMinor (weeklySpendEnvelope cash cal a stale) =
     (if se_ready (weeklySpendEnvelope cash cal a stale)
      then Some (max 0 (number cash - (max 0 (ol_committedOutflowMinor (cl_next7 cal)) +
        max 0 (the (as_monthlyLabourCostMinor a)) + max 0 (the (as_minimumCashBufferMinor a))))) else None)"
  "se_recordedCashPositionMinor (weeklySpendEnvelope cash cal a stale) = number cash"
  by (auto simp: weeklySpendEnvelope_def Let_def)

lemma envelope_missing: "se_missingInputs (weeklySpendEnvelope cash cal a stale) =
   (if as_monthlyLabourCostMinor a = None then [''monthly_labour_cost''] else []) @
   (if as_minimumCashBufferMinor a = None then [''minimum_cash_buffer''] else [])"
  by (simp add: weeklySpendEnvelope_def Let_def)

lemma decision_within:
  assumes "sd_withinEnvelope (simulateWeeklySpendDecision env spend label) = Some True"
  shows "\<exists>q e v. valid_spend spend = Some q \<and> env = Some e \<and> se_ready e \<and> se_discretionaryEnvelopeMinor e = Some v \<and>
    q \<le> max 0 v \<and> sd_proposedSpendMinor (simulateWeeklySpendDecision env spend label) = Some q \<and>
    sd_recordedCashAfterSpendMinor (simulateWeeklySpendDecision env spend label) = Some (max 0 (se_recordedCashPositionMinor e) - q)"
  using assms
  by (auto simp: simulateWeeklySpendDecision_def Let_def no_decision_def split: option.splits bool.splits)

lemma valid_spend_pos: "valid_spend v = Some q \<Longrightarrow> 0 < q \<and> q \<le> 100000000000000"
  by (auto simp: valid_spend_def split: jsnum.splits if_splits)

section \<open>Properties\<close>

text \<open>The weekly envelope is only computed when the labour cost and the buffer are known, the payables
  are available and the reconciliation is not stale; it is then the recorded cash less the payables of
  seven days, the labour cost and the buffer, never negative; otherwise there is none, and every missing
  input is named.\<close>

lemma weekly_envelope_fails_closed:
  "(se_discretionaryEnvelopeMinor (weeklySpendEnvelope cash cal a stale) =
      (case (as_monthlyLabourCostMinor a, as_minimumCashBufferMinor a) of
         (Some payroll, Some buffer) \<Rightarrow>
           if cl_payablesAvailable cal \<and> stale \<noteq> JBool True
           then Some (max 0 (number cash - (max 0 (ol_committedOutflowMinor (cl_next7 cal)) + max 0 payroll + max 0 buffer)))
           else None
       | _ \<Rightarrow> None)) \<and>
   (se_missingInputs (weeklySpendEnvelope cash cal a stale) = []) =
      (as_monthlyLabourCostMinor a \<noteq> None \<and> as_minimumCashBufferMinor a \<noteq> None)"
  by (cases "as_monthlyLabourCostMinor a"; cases "as_minimumCashBufferMinor a")
    (simp_all add: envelope_fields envelope_missing)

text \<open>C35: a spend that the simulation finds within the weekly envelope really leaves the reserves alone:
  the recorded cash after it still covers the payables of the next seven days, the monthly labour cost
  and the minimum buffer.\<close>

theorem within_envelope_keeps_reserves:
  assumes "sd_withinEnvelope (simulateWeeklySpendDecision (Some (weeklySpendEnvelope cash cal a stale)) spend label) = Some True"
  shows "\<exists>q payroll buffer. valid_spend spend = Some q \<and> 0 < q \<and>
    as_monthlyLabourCostMinor a = Some payroll \<and> as_minimumCashBufferMinor a = Some buffer \<and>
    number cash - q \<ge> max 0 (ol_committedOutflowMinor (cl_next7 cal)) + max 0 payroll + max 0 buffer \<and>
    sd_recordedCashAfterSpendMinor (simulateWeeklySpendDecision (Some (weeklySpendEnvelope cash cal a stale)) spend label)
      = Some (number cash - q)"
proof -
  obtain q v where q: "valid_spend spend = Some q" "se_ready (weeklySpendEnvelope cash cal a stale)"
      "se_discretionaryEnvelopeMinor (weeklySpendEnvelope cash cal a stale) = Some v" "q \<le> max 0 v"
    and after: "sd_recordedCashAfterSpendMinor (simulateWeeklySpendDecision (Some (weeklySpendEnvelope cash cal a stale)) spend label)
      = Some (max 0 (number cash) - q)"
    using decision_within[OF assms] envelope_fields(3)[of cash cal a stale] by auto
  obtain payroll buffer where ab: "as_monthlyLabourCostMinor a = Some payroll" "as_minimumCashBufferMinor a = Some buffer"
    using q(2) by (auto simp: envelope_fields(1))
  have pos: "0 < q" using valid_spend_pos[OF q(1)] by simp
  have v: "v = max 0 (number cash - (max 0 (ol_committedOutflowMinor (cl_next7 cal)) + max 0 payroll + max 0 buffer))"
    using q(2,3) ab by (simp add: envelope_fields(2))
  with pos q(4) have le: "q \<le> number cash - (max 0 (ol_committedOutflowMinor (cl_next7 cal)) + max 0 payroll + max 0 buffer)"
    by (simp add: max_def split: if_splits)
  with pos have "0 \<le> number cash" by (simp add: max_def split: if_splits)
  then show ?thesis using q(1) pos ab le after by (simp add: max_def)
qed

text \<open>An owner who entered no assumption at all is not asked for any: the profile's missing values
  become null, null converts to zero, and the labour cost and the buffer count as entered with nothing to
  reserve; the envelope is then the whole cash less the payables of seven days.\<close>

lemma blank_profile_is_not_missing:
  "(let a = assumptionMetrics cash (JObj [(''assumptions'', owner_assumptions (JObj []))]);
        e = weeklySpendEnvelope cash cal a (JBool False)
    in as_monthlyLabourCostMinor a = Some 0 \<and> as_minimumCashBufferMinor a = Some 0 \<and> se_missingInputs e = [] \<and>
       se_ready e = cl_payablesAvailable cal \<and>
       (se_discretionaryEnvelopeMinor e = (if cl_payablesAvailable cal
          then Some (max 0 (number cash - max 0 (ol_committedOutflowMinor (cl_next7 cal)))) else None)))"
proof -
  define m where "m = JObj [(''assumptions'', owner_assumptions (JObj []))]"
  have "fld (fld m ''assumptions'') ''monthlyLabourCostBwp'' = Null" "fld (fld m ''assumptions'') ''minimumCashBufferBwp'' = Null"
    unfolding m_def by code_simp+
  then have a: "as_monthlyLabourCostMinor (assumptionMetrics cash m) = Some 0"
      "as_minimumCashBufferMinor (assumptionMetrics cash m) = Some 0"
    by (simp_all add: assumptionMetrics_def Let_def toMinor_def)
  then show ?thesis
    unfolding Let_def m_def[symmetric] by (simp add: envelope_missing envelope_fields)
qed

text \<open>C36: the balance shown after an event of the calendar is the recorded cash less the committed
  payables up to it; potential receivables never add to it; the events are in order of date, payables
  first on the same date; and the lowest committed cash is the least of the balances and the cash itself.\<close>

theorem calendar_balances:
  fixes ck :: "string \<Rightarrow> 'k::linorder"
  shows "(let c = forwardCashCalendar dp ck d cash payables receivables bs;
        es = calendar_events dp ck d payables receivables bs
    in map fst (cl_events c) = es \<and> sorted_wrt (event_le ck) es \<and>
       (\<forall>k < length es. snd (cl_events c ! k) = number cash - committed_out (take (Suc k) es) \<and>
          cl_lowestCommittedCashMinor c \<le> snd (cl_events c ! k)) \<and>
       cl_lowestCommittedCashMinor c \<in> insert (number cash) (set (map snd (cl_events c))) \<and>
       cl_lowestCommittedCashMinor c \<le> number cash)"
proof -
  define es where "es = calendar_events dp ck d payables receivables bs"
  define bal where "bal = balances (number cash) es"
  have len: "length bal = length es" by (simp add: bal_def)
  have ev: "cl_events (forwardCashCalendar dp ck d cash payables receivables bs) = zip es bal"
    and low: "cl_lowestCommittedCashMinor (forwardCashCalendar dp ck d cash payables receivables bs) = foldl min (number cash) bal"
    by (simp_all add: forwardCashCalendar_def Let_def fold_run_event start_running_def es_def[symmetric] bal_def)
  have srt: "sorted_wrt (event_le ck) es"
    unfolding es_def calendar_events_def by (rule event_order.sorted_sort) (simp add: list_all_iff)
  have snd_nth: "snd (zip es bal ! k) = bal ! k" if "k < length es" for k using that by (simp add: len nth_zip)
  have nth: "snd (zip es bal ! k) = number cash - committed_out (take (Suc k) es)" if "k < length es" for k
    unfolding snd_nth[OF that] unfolding bal_def by (rule nth_balances[OF that])
  have low_nth: "foldl min (number cash) bal \<le> snd (zip es bal ! k)" if "k < length es" for k
    unfolding snd_nth[OF that] using that by (intro foldl_min_least) (simp add: len)
  have fsts: "map fst (zip es bal) = es" and snds: "map snd (zip es bal) = bal" using len by simp_all
  show ?thesis
    unfolding Let_def es_def[symmetric] ev low snds
    by (intro conjI allI impI fsts srt nth low_nth foldl_min_in foldl_min_least insertI1)
qed

section \<open>Samples\<close>

definition sample_payables :: jsval where
  "sample_payables = JObj [(''available'', JBool True), (''overdueMinor'', JInt 100), (''due7dMinor'', JInt 200),
     (''payables'', JArr [JObj [(''dueOn'', JStr ''2026-10-02''), (''outstandingMinor'', JInt 200)],
        JObj [(''dueOn'', JStr ''2026-09-20''), (''outstandingMinor'', JInt 100)]])]"

definition sample_receivables :: jsval where
  "sample_receivables = JObj [(''invoices'', JArr [JObj [(''dueOn'', JStr ''2026-10-01''), (''outstandingMinor'', JInt 5000)]])]"

definition sample_calendar :: cash_calendar where
  "sample_calendar = forwardCashCalendar (\<lambda>_. None) (\<lambda>d::string. d) ''2026-10-01'' (JInt 1000) sample_payables sample_receivables []"

definition sample_assumptions :: assumptions where
  "sample_assumptions = assumptionMetrics (JInt 1000)
     (JObj [(''assumptions'', JObj [(''minimumCashBufferBwp'', JInt 1), (''monthlyLabourCostBwp'', JInt 2)])])"

theorem within_envelope_keeps_reserves_witness:
  "\<exists>q. valid_spend (JInt 350) = Some q \<and>
     sd_recordedCashAfterSpendMinor (simulateWeeklySpendDecision
       (Some (weeklySpendEnvelope (JInt 1000) sample_calendar sample_assumptions Undef)) (JInt 350) Undef) = Some (number (JInt 1000) - q)"
proof -
  have "sd_withinEnvelope (simulateWeeklySpendDecision
      (Some (weeklySpendEnvelope (JInt 1000) sample_calendar sample_assumptions Undef)) (JInt 350) Undef) = Some True"
    by code_simp
  from within_envelope_keeps_reserves [OF this] show ?thesis by blast
qed

theorem calendar_balances_witness:
  "map snd (cl_events sample_calendar) = [900, 900, 700] \<and>
   snd (cl_events sample_calendar ! 2) = number (JInt 1000) -
     committed_out (take (Suc 2) (calendar_events (\<lambda>_. None) (\<lambda>d::string. d) ''2026-10-01'' sample_payables sample_receivables []))"
proof -
  have e: "map snd (cl_events sample_calendar) = [900, 900, 700] \<and>
      length (calendar_events (\<lambda>_. None) (\<lambda>d::string. d) ''2026-10-01'' sample_payables sample_receivables []) = 3"
    by code_simp
  then show ?thesis
    using calendar_balances [of "\<lambda>_. None" "\<lambda>d::string. d" "''2026-10-01''" "JInt 1000" sample_payables sample_receivables "[]"]
    unfolding sample_calendar_def Let_def by simp
qed

end
