(* ===== verification/EmployeeDispatch.thy ===== *)
theory EmployeeDispatch imports Interfaces "HOL-Library.List_Lexorder" begin

text \<open>
  The employee dispatch queue: \<^verbatim>\<open>employee-dispatch.js\<close> with the table and triggers of
  \<^verbatim>\<open>20261024_employee_dispatch.sql\<close> and the fenced batch of \<^verbatim>\<open>agentic-task-execution.js\<close>.
  A job is leased to a worker for 45 seconds, at most three times; the task it stands for is created in
  the same batch that completes the row. The system is a relation between states: the clock, the
  owners and any number of workers, each holding jobs it was given at some time, move in any order.
  What the rest of the platform decides (sessions, memberships, permits, provenance) is the free choice
  of a step.
\<close>

section \<open>The tables\<close>

datatype qstate = Queued | Leased | Committing | Completed | Dead_Letter

record qrow =
  qr_id :: string
  qr_tenant :: string
  qr_request :: string
  qr_proposal :: string
  qr_permit :: string
  qr_owner :: string
  qr_session :: string
  qr_state :: qstate
  qr_attempts :: nat
  qr_available :: int
  qr_token :: "string option"
  qr_until :: "int option"
  qr_result :: "string option"
  qr_error :: "string option"

record control =
  ctl_tenant :: string
  ctl_enabled :: bool
  ctl_stopped :: bool
  ctl_revision :: nat

text \<open>The executed task requests (tenant, request, created task) and the jobs handed out so far.\<close>

record dispatch_db =
  dd_queue :: "qrow list"
  dd_controls :: "control list"
  dd_tasks :: "(string \<times> string \<times> string) list"
  dd_now :: int
  dd_jobs :: "qrow list"

definition running :: "control list \<Rightarrow> string \<Rightarrow> bool" where
  "running cs t \<longleftrightarrow> list_ex (\<lambda>c. ctl_tenant c = t \<and> ctl_enabled c \<and> \<not> ctl_stopped c) cs"

definition executed :: "dispatch_db \<Rightarrow> string \<Rightarrow> string \<Rightarrow> bool" where
  "executed db t r \<longleftrightarrow> (t, r) \<in> (\<lambda>(t, r, k). (t, r)) ` set (dd_tasks db)"

section \<open>Enqueueing\<close>

record dispatch_auth =
  da_tenant :: string
  da_user :: string
  da_session :: string
  da_owner :: bool

definition validId :: "jsval \<Rightarrow> bool" where
  "validId v = (case v of JStr s \<Rightarrow> 0 < length s \<and> length s \<le> 200 | _ \<Rightarrow> False)"

definition validKey :: "jsval \<Rightarrow> bool" where
  "validKey v = (case v of JStr s \<Rightarrow> 0 < length s \<and> length s \<le> 2048 | _ \<Rightarrow> False)"

datatype answer =
    Refused nat string
  | Accepted nat string qstate bool

text \<open>The insert of a row, ignored when its id or its request is already queued. \<open>authority\<close>: every
  \<^verbatim>\<open>EXISTS\<close> of the insert but the ones on the controls and the status of the request holds.\<close>

definition admit_row :: "qrow \<Rightarrow> bool \<Rightarrow> dispatch_db \<Rightarrow> dispatch_db" where
  "admit_row row authority db =
    (if authority \<and> running (dd_controls db) (qr_tenant row) \<and> \<not> executed db (qr_tenant row) (qr_request row) \<and>
        \<not> list_ex (\<lambda>q. qr_id q = qr_id row \<or> (qr_tenant q = qr_tenant row \<and> qr_request q = qr_request row)) (dd_queue db)
     then db\<lparr>dd_queue := dd_queue db @ [row]\<rparr> else db)"

definition new_row :: "string \<Rightarrow> string \<Rightarrow> string \<Rightarrow> string \<Rightarrow> dispatch_auth \<Rightarrow> int \<Rightarrow> qrow" where
  "new_row new_id r p k auth now = \<lparr>qr_id = new_id, qr_tenant = da_tenant auth, qr_request = r, qr_proposal = k, qr_permit = p,
     qr_owner = da_user auth, qr_session = da_session auth, qr_state = Queued, qr_attempts = 0, qr_available = now,
     qr_token = None, qr_until = None, qr_result = None, qr_error = None\<rparr>"

text \<open>\<open>source\<close>: the approved provenance was found.\<close>

definition enqueueEmployeeDispatch ::
    "bool \<Rightarrow> dispatch_auth \<Rightarrow> jsval \<Rightarrow> jsval \<Rightarrow> jsval \<Rightarrow> bool \<Rightarrow> bool \<Rightarrow> string \<Rightarrow> dispatch_db \<Rightarrow> answer \<times> dispatch_db" where
  "enqueueEmployeeDispatch enabled auth requestId permitId proposalKey source authority new_id db =
    (if \<not> enabled then (Refused 409 ''employee_dispatch_disabled'', db)
     else if da_tenant auth = [] \<or> da_user auth = [] \<or> da_session auth = [] then (Refused 401 ''unauthenticated'', db)
     else if \<not> da_owner auth then (Refused 403 ''owner_required'', db)
     else if \<not> validId requestId \<or> \<not> validId permitId \<or> \<not> validKey proposalKey
       then (Refused 400 ''invalid_dispatch_request'', db)
     else if \<not> source then (Refused 409 ''approved_employee_provenance_required'', db)
     else
       (let t = da_tenant auth; r = js_string requestId; p = js_string permitId; k = js_string proposalKey;
            db1 = admit_row (new_row new_id r p k auth (dd_now db)) authority db
        in case find (\<lambda>q. qr_tenant q = t \<and> qr_request q = r) (dd_queue db1) of
             None \<Rightarrow> (Refused 409 ''dispatch_authority_or_binding_conflict'', db1)
           | Some q \<Rightarrow>
               (if qr_proposal q \<noteq> k \<or> qr_permit q \<noteq> p \<or> qr_owner q \<noteq> da_user auth \<or> qr_session q \<noteq> da_session auth
                then (Refused 409 ''dispatch_authority_or_binding_conflict'', db1)
                else (Accepted (if qr_id q = new_id then 201 else 200) (qr_id q) (qr_state q) (qr_id q \<noteq> new_id), db1))))"

section \<open>Claiming\<close>

definition of_tenant :: "string option \<Rightarrow> qrow \<Rightarrow> bool" where
  "of_tenant t q \<longleftrightarrow> (case t of None \<Rightarrow> True | Some x \<Rightarrow> qr_tenant q = x)"

definition lease_over :: "int \<Rightarrow> qrow \<Rightarrow> bool" where
  "lease_over now q \<longleftrightarrow> (case qr_until q of None \<Rightarrow> False | Some u \<Rightarrow> u \<le> now)"

definition retry_spent :: "string option \<Rightarrow> int \<Rightarrow> qrow \<Rightarrow> bool" where
  "retry_spent t now q \<longleftrightarrow> qr_state q = Leased \<and> lease_over now q \<and> qr_attempts q \<ge> 3 \<and> of_tenant t q"

definition bury :: "qrow \<Rightarrow> qrow" where
  "bury q = q\<lparr>qr_state := Dead_Letter, qr_token := None, qr_until := None, qr_error := Some ''retry_limit''\<rparr>"

definition claimable :: "string option \<Rightarrow> dispatch_db \<Rightarrow> qrow \<Rightarrow> bool" where
  "claimable t db q \<longleftrightarrow> running (dd_controls db) (qr_tenant q) \<and> of_tenant t q \<and> qr_attempts q < 3 \<and>
     ((qr_state q = Queued \<and> qr_available q \<le> dd_now db) \<or> (qr_state q = Leased \<and> lease_over (dd_now db) q))"

definition due_le :: "qrow \<Rightarrow> qrow \<Rightarrow> bool" where
  "due_le a b \<longleftrightarrow> qr_available a < qr_available b \<or> (qr_available a = qr_available b \<and> qr_id a \<le> qr_id b)"

definition lease :: "string \<Rightarrow> int \<Rightarrow> qrow \<Rightarrow> qrow" where
  "lease token now q = q\<lparr>qr_state := Leased, qr_attempts := qr_attempts q + 1, qr_token := Some token, qr_until := Some (now + 45)\<rparr>"

definition sweep_spent :: "string option \<Rightarrow> dispatch_db \<Rightarrow> dispatch_db" where
  "sweep_spent t db = db\<lparr>dd_queue := update_where (retry_spent t (dd_now db)) bury (dd_queue db)\<rparr>"

definition claimEmployeeDispatch :: "bool \<Rightarrow> string option \<Rightarrow> string \<Rightarrow> dispatch_db \<Rightarrow> qrow option \<times> dispatch_db" where
  "claimEmployeeDispatch enabled t token db =
    (if \<not> enabled then (None, db)
     else (let db1 = sweep_spent t db
       in case js_sort due_le (filter (claimable t db1) (dd_queue db1)) of
            [] \<Rightarrow> (None, db1)
          | q # _ \<Rightarrow> (let job = lease token (dd_now db1) q
              in (Some job, db1\<lparr>dd_queue := update_where (\<lambda>r. qr_id r = qr_id q) (\<lambda>_. job) (dd_queue db1),
                   dd_jobs := job # dd_jobs db1\<rparr>))))"

section \<open>Processing a job\<close>

text \<open>A row is held by a job when its lease is the job's and still runs.\<close>

definition held_by :: "qrow \<Rightarrow> int \<Rightarrow> qrow \<Rightarrow> bool" where
  "held_by job now q \<longleftrightarrow> qr_id q = qr_id job \<and> qr_tenant q = qr_tenant job \<and> qr_state q = Leased \<and>
     qr_token q = qr_token job \<and> (case qr_until q of None \<Rightarrow> False | Some u \<Rightarrow> u > now)"

text \<open>The batch of the execution: the fence, the request's own status, the controls and the rest of the
  guard (\<open>guard\<close>); a batch that would complete the row without executing the request is rolled back.\<close>

definition finish_row :: "string \<Rightarrow> qrow \<Rightarrow> qrow" where
  "finish_row task q = q\<lparr>qr_state := Completed, qr_result := Some task, qr_token := None, qr_until := None\<rparr>"

definition commit_allowed :: "qrow \<Rightarrow> bool \<Rightarrow> dispatch_db \<Rightarrow> bool" where
  "commit_allowed job guard db \<longleftrightarrow>
     list_ex (\<lambda>q. held_by job (dd_now db) q \<and> qr_request q = qr_request job \<and> qr_owner q = qr_owner job \<and>
       qr_permit q = qr_permit job \<and> qr_proposal q = qr_proposal job) (dd_queue db) \<and>
     \<not> executed db (qr_tenant job) (qr_request job) \<and> running (dd_controls db) (qr_tenant job) \<and> guard"

definition commit_batch :: "qrow \<Rightarrow> bool \<Rightarrow> string \<Rightarrow> dispatch_db \<Rightarrow> bool \<times> dispatch_db" where
  "commit_batch job guard task db =
    (if commit_allowed job guard db
     then (True, db\<lparr>dd_queue := update_where (held_by job (dd_now db)) (finish_row task) (dd_queue db),
            dd_tasks := dd_tasks db @ [(qr_tenant job, qr_request job, task)]\<rparr>)
     else (False, db))"

text \<open>What the platform answers: the owner's session is active, the request was refused before the batch
  with a status, the batch's guard, the id of the new task, whether the permit turned out to be consumed
  and whether the task was read back.\<close>

record exec_env =
  xe_session :: bool
  xe_denied :: "nat option"
  xe_guard :: bool
  xe_task :: string
  xe_consumed :: bool
  xe_verified :: bool

definition execute_job :: "qrow \<Rightarrow> exec_env \<Rightarrow> dispatch_db \<Rightarrow> nat \<times> dispatch_db" where
  "execute_job job e db =
    (if \<not> xe_session e then (409, db)
     else case xe_denied e of
       Some st \<Rightarrow> (st, db)
     | None \<Rightarrow> (case commit_batch job (xe_guard e) (xe_task e) db of
           (True, db') \<Rightarrow> (if xe_verified e then 200 else 500, db')
         | (False, db') \<Rightarrow> (if xe_consumed e then 409 else 500, db')))"

definition release :: "qrow \<Rightarrow> bool \<Rightarrow> int \<Rightarrow> qrow \<Rightarrow> qrow" where
  "release job transient now q = q\<lparr>qr_state := (if transient \<and> qr_attempts job < 3 then Queued else Dead_Letter),
     qr_token := None, qr_until := None, qr_available := now + 10 * 2 ^ (qr_attempts job - 1),
     qr_error := Some (if transient then ''execution_unavailable'' else ''authority_denied'')\<rparr>"

definition processEmployeeDispatch :: "bool \<Rightarrow> qrow \<Rightarrow> exec_env \<Rightarrow> dispatch_db \<Rightarrow> (bool \<times> string) \<times> dispatch_db" where
  "processEmployeeDispatch enabled job e db =
    (if \<not> enabled then ((False, ''employee_dispatch_disabled''), db)
     else (case execute_job job e db of (status, db1) \<Rightarrow>
       (if 200 \<le> status \<and> status \<le> 299 then ((True, []), db1)
        else (let transient = (500 \<le> status)
          in ((False, if transient then ''execution_unavailable'' else ''authority_denied''),
              db1\<lparr>dd_queue := update_where (held_by job (dd_now db1)) (release job transient (dd_now db1)) (dd_queue db1)\<rparr>)))))"

section \<open>Sweeps and the owner's stop\<close>

text \<open>\<^verbatim>\<open>Number.isInteger(limit)?Math.min(10,Math.max(0,limit)):0\<close>.\<close>

definition sweep_limit :: "jsval \<Rightarrow> nat" where
  "sweep_limit v = (case v of JNum (Fin q) \<Rightarrow> if integral q then nat (min 10 (max 0 \<lfloor>q\<rfloor>)) else 0 | _ \<Rightarrow> 0)"

text \<open>The tokens and the platform's answers, one pair for each turn, are supplied.\<close>

fun sweep_loop :: "string option \<Rightarrow> (string \<times> exec_env) list \<Rightarrow> nat \<Rightarrow> nat \<times> nat \<Rightarrow> dispatch_db \<Rightarrow> (nat \<times> nat) \<times> dispatch_db" where
  "sweep_loop t _ 0 done_ok db = (done_ok, db)"
| "sweep_loop t [] (Suc n) done_ok db = (done_ok, db)"
| "sweep_loop t ((token, e) # rest) (Suc n) (processed, completed) db =
     (case claimEmployeeDispatch True t token db of
        (None, db1) \<Rightarrow> ((processed, completed), db1)
      | (Some job, db1) \<Rightarrow>
          (case processEmployeeDispatch True job e db1 of ((ok, _), db2) \<Rightarrow>
             sweep_loop t rest n (processed + 1, if ok then completed + 1 else completed) db2))"

definition runEmployeeDispatchSweep ::
    "bool \<Rightarrow> string option \<Rightarrow> jsval \<Rightarrow> (string \<times> exec_env) list \<Rightarrow> dispatch_db \<Rightarrow> (nat \<times> nat) \<times> dispatch_db" where
  "runEmployeeDispatchSweep enabled t limit oracle db =
     (if \<not> enabled then ((0, 0), db) else sweep_loop t oracle (sweep_limit limit) (0, 0) db)"

definition stopEmployeeDispatch :: "string \<Rightarrow> nat \<Rightarrow> bool \<Rightarrow> dispatch_db \<Rightarrow> bool \<times> dispatch_db" where
  "stopEmployeeDispatch t expectedRevision authority db =
    (let here = (\<lambda>c. ctl_tenant c = t)
     in if \<not> authority \<or> (expectedRevision \<noteq> 0 \<and> \<not> list_ex (\<lambda>c. here c \<and> ctl_revision c = expectedRevision) (dd_controls db))
        then (False, db)
        else if list_ex here (dd_controls db)
        then (list_ex (\<lambda>c. here c \<and> ctl_revision c = expectedRevision) (dd_controls db),
              db\<lparr>dd_controls := update_where (\<lambda>c. here c \<and> ctl_revision c = expectedRevision)
                 (\<lambda>c. c\<lparr>ctl_enabled := False, ctl_stopped := True, ctl_revision := ctl_revision c + 1\<rparr>) (dd_controls db)\<rparr>)
        else (True, db\<lparr>dd_controls := dd_controls db @
                 [\<lparr>ctl_tenant = t, ctl_enabled = False, ctl_stopped = True, ctl_revision = 1\<rparr>]\<rparr>))"

section \<open>The system\<close>

text \<open>An operator may enable a tenant (the revision then rises, as the trigger asks); a request that is not
  in the queue may be executed by other routes, one in the queue may not.\<close>

inductive dispatch_step :: "dispatch_db \<Rightarrow> dispatch_db \<Rightarrow> bool" where
  Clock: "0 \<le> d \<Longrightarrow> dispatch_step db (db\<lparr>dd_now := dd_now db + d\<rparr>)"
| Enqueue: "new_id \<notin> qr_id ` set (dd_queue db) \<Longrightarrow>
     dispatch_step db (snd (enqueueEmployeeDispatch enabled auth r p k source authority new_id db))"
| Claim: "Some token \<notin> qr_token ` set (dd_jobs db) \<Longrightarrow> dispatch_step db (snd (claimEmployeeDispatch enabled t token db))"
| Process: "job \<in> set (dd_jobs db) \<Longrightarrow> dispatch_step db (snd (processEmployeeDispatch enabled job e db))"
| Stop: "dispatch_step db (snd (stopEmployeeDispatch t revision authority db))"
| Enable: "dispatch_step db (db\<lparr>dd_controls := update_where (\<lambda>c. ctl_tenant c = t)
     (\<lambda>c. c\<lparr>ctl_enabled := True, ctl_stopped := False, ctl_revision := ctl_revision c + 1\<rparr>) (dd_controls db)\<rparr>)"
| Direct: "\<not> list_ex (\<lambda>q. qr_tenant q = t \<and> qr_request q = r) (dd_queue db) \<Longrightarrow> \<not> executed db t r \<Longrightarrow>
     dispatch_step db (db\<lparr>dd_tasks := dd_tasks db @ [(t, r, k)]\<rparr>)"

definition empty_dispatch :: "dispatch_db \<Rightarrow> bool" where
  "empty_dispatch db \<longleftrightarrow> dd_queue db = [] \<and> dd_tasks db = [] \<and> dd_jobs db = []"

inductive dispatch_reach :: "dispatch_db \<Rightarrow> bool" where
  Start: "empty_dispatch db \<Longrightarrow> dispatch_reach db"
| Step: "dispatch_reach db \<Longrightarrow> dispatch_step db db' \<Longrightarrow> dispatch_reach db'"

section \<open>The invariant\<close>

definition binding :: "qrow \<Rightarrow> string \<times> string \<times> string \<times> string \<times> string \<times> string \<times> string" where
  "binding q = (qr_id q, qr_tenant q, qr_request q, qr_proposal q, qr_permit q, qr_owner q, qr_session q)"

definition request_of :: "qrow \<Rightarrow> string \<times> string" where "request_of q = (qr_tenant q, qr_request q)"

definition task_keys :: "dispatch_db \<Rightarrow> (string \<times> string) list" where
  "task_keys db = map (\<lambda>(t, r, k). (t, r)) (dd_tasks db)"

lemma task_keys_simps [simp]:
  "task_keys (db\<lparr>dd_queue := q\<rparr>) = task_keys db" "task_keys (db\<lparr>dd_jobs := js\<rparr>) = task_keys db"
  "task_keys (db\<lparr>dd_now := n\<rparr>) = task_keys db" "task_keys (db\<lparr>dd_controls := cs\<rparr>) = task_keys db"
  "task_keys (db\<lparr>dd_tasks := ts\<rparr>) = map (\<lambda>(t, r, k). (t, r)) ts"
  by (simp_all add: task_keys_def)

lemma executed_keys: "executed db t r \<longleftrightarrow> (t, r) \<in> set (task_keys db)"
  by (simp add: executed_def task_keys_def)

text \<open>What the table's checks say of a row, and that a queued row has an attempt left.\<close>

definition qrow_ok :: "qrow \<Rightarrow> bool" where
  "qrow_ok q \<longleftrightarrow> qr_attempts q \<le> 3 \<and> qr_state q \<noteq> Committing \<and>
     (if qr_state q = Leased then qr_token q \<noteq> None \<and> qr_until q \<noteq> None \<and> 0 < qr_attempts q
      else qr_token q = None \<and> qr_until q = None) \<and>
     (qr_state q = Completed \<longleftrightarrow> qr_result q \<noteq> None) \<and> (qr_state q = Queued \<longrightarrow> qr_attempts q < 3)"

definition row_inv :: "(string \<times> string) set \<Rightarrow> qrow set \<Rightarrow> qrow \<Rightarrow> bool" where
  "row_inv keys jobs q \<longleftrightarrow> qrow_ok q \<and> (qr_state q = Completed \<longleftrightarrow> request_of q \<in> keys) \<and>
     (qr_state q = Leased \<longrightarrow> (\<exists>j \<in> jobs. qr_token j = qr_token q \<and> qr_attempts j = qr_attempts q))"

definition dispatch_inv :: "dispatch_db \<Rightarrow> bool" where
  "dispatch_inv db \<longleftrightarrow> distinct (map qr_id (dd_queue db)) \<and> distinct (map request_of (dd_queue db)) \<and>
     (\<forall>q \<in> set (dd_queue db). row_inv (set (task_keys db)) (set (dd_jobs db)) q) \<and>
     distinct (task_keys db) \<and> distinct (map qr_token (dd_jobs db)) \<and> (\<forall>j \<in> set (dd_jobs db). qr_token j \<noteq> None)"

lemma inv_rows: "dispatch_inv db \<Longrightarrow> q \<in> set (dd_queue db) \<Longrightarrow> row_inv (set (task_keys db)) (set (dd_jobs db)) q"
  by (simp add: dispatch_inv_def)

lemma token_job:
  assumes "dispatch_inv db" "j \<in> set (dd_jobs db)" "q \<in> set (dd_queue db)" "qr_state q = Leased" "qr_token q = qr_token j"
  shows "qr_attempts q = qr_attempts j"
proof -
  obtain i where i: "i \<in> set (dd_jobs db)" "qr_token i = qr_token q" "qr_attempts i = qr_attempts q"
    using inv_rows[OF assms(1,3)] assms(4) unfolding row_inv_def by blast
  have "distinct (map qr_token (dd_jobs db))" using assms(1) by (simp add: dispatch_inv_def)
  then have "i = j" using i(1,2) assms(2,5) by (intro distinct_key_unique[of qr_token "dd_jobs db"]) simp_all
  with i show ?thesis by simp
qed

lemma row_inv_more_jobs: "row_inv ks js q \<Longrightarrow> js \<subseteq> js' \<Longrightarrow> row_inv ks js' q"
  unfolding row_inv_def by blast

text \<open>An update of some rows keeps the invariant when it keeps their bindings and their own condition.\<close>

lemma inv_update_rows:
  assumes inv: "dispatch_inv db"
    and row: "\<And>q. q \<in> set (dd_queue db) \<Longrightarrow> p q \<Longrightarrow> binding (f q) = binding q \<and> row_inv (set (task_keys db)) (set (dd_jobs db)) (f q)"
  shows "dispatch_inv (db\<lparr>dd_queue := update_where p f (dd_queue db)\<rparr>)"
proof -
  have same: "map k (update_where p f (dd_queue db)) = map k (dd_queue db)"
    if "\<And>q q'. binding q = binding q' \<Longrightarrow> k q = k q'" for k :: "qrow \<Rightarrow> 'a"
    unfolding update_where_def map_map comp_def map_eq_conv using row by (auto intro!: that)
  have "map qr_id (update_where p f (dd_queue db)) = map qr_id (dd_queue db)"
    "map request_of (update_where p f (dd_queue db)) = map request_of (dd_queue db)"
    by (rule same; simp add: binding_def request_of_def)+
  moreover have "\<forall>q \<in> set (update_where p f (dd_queue db)). row_inv (set (task_keys db)) (set (dd_jobs db)) q"
    using row inv_rows[OF inv] by (simp add: ball_update_where)
  ultimately show ?thesis
    using inv unfolding dispatch_inv_def by simp
qed

lemma row_by_id: "dispatch_inv db \<Longrightarrow> q \<in> set (dd_queue db) \<Longrightarrow> r \<in> set (dd_queue db) \<Longrightarrow> qr_id q = qr_id r \<Longrightarrow> q = r"
  by (rule distinct_key_unique[of qr_id "dd_queue db"]) (simp_all add: dispatch_inv_def)

lemma inv_clock: "dispatch_inv db \<Longrightarrow> dispatch_inv (db\<lparr>dd_now := n\<rparr>)"
  by (simp add: dispatch_inv_def)

lemma inv_controls: "dispatch_inv db \<Longrightarrow> dispatch_inv (db\<lparr>dd_controls := cs\<rparr>)"
  by (simp add: dispatch_inv_def)

lemma inv_admit_row:
  assumes "dispatch_inv db" "qr_state row = Queued" "qr_attempts row = 0" "qr_token row = None" "qr_until row = None" "qr_result row = None"
  shows "dispatch_inv (admit_row row authority db)"
proof (cases "admit_row row authority db = db")
  case False
  then have new: "admit_row row authority db = db\<lparr>dd_queue := dd_queue db @ [row]\<rparr>"
      "request_of row \<notin> set (task_keys db)" "qr_id row \<notin> qr_id ` set (dd_queue db)" "request_of row \<notin> request_of ` set (dd_queue db)"
    by (auto simp: admit_row_def executed_keys request_of_def list_ex_iff split: if_splits)
  have "row_inv (set (task_keys db)) (set (dd_jobs db)) row"
    using assms(2-6) new(2) by (simp add: row_inv_def qrow_ok_def)
  then show ?thesis using assms(1) new unfolding dispatch_inv_def by simp
qed (simp add: assms(1))

lemma enqueue_db:
  "snd (enqueueEmployeeDispatch enabled auth r p k source authority new_id db) = db \<or>
   snd (enqueueEmployeeDispatch enabled auth r p k source authority new_id db) =
     admit_row (new_row new_id (js_string r) (js_string p) (js_string k) auth (dd_now db)) authority db"
  unfolding enqueueEmployeeDispatch_def Let_def by (simp split: option.split)

lemma inv_enqueue: "dispatch_inv db \<Longrightarrow> dispatch_inv (snd (enqueueEmployeeDispatch enabled auth r p k source authority new_id db))"
  using enqueue_db[of enabled auth r p k source authority new_id db]
    inv_admit_row[of db "new_row new_id (js_string r) (js_string p) (js_string k) auth (dd_now db)" authority]
  by (auto simp: new_row_def)

lemma inv_sweep_spent: "dispatch_inv db \<Longrightarrow> dispatch_inv (sweep_spent t db)"
  unfolding sweep_spent_def
  by (rule inv_update_rows)
    (auto simp: retry_spent_def bury_def binding_def request_of_def row_inv_def qrow_ok_def dest!: inv_rows)

lemma inv_add_job:
  "dispatch_inv db \<Longrightarrow> qr_token job \<noteq> None \<Longrightarrow> qr_token job \<notin> qr_token ` set (dd_jobs db) \<Longrightarrow>
     dispatch_inv (db\<lparr>dd_jobs := job # dd_jobs db\<rparr>)"
  unfolding dispatch_inv_def by (auto elim: row_inv_more_jobs)

lemma lease_simps [simp]:
  "binding (lease token now q) = binding q" "qr_token (lease token now q) = Some token" "qr_state (lease token now q) = Leased"
  "qr_until (lease token now q) = Some (now + 45)" "qr_attempts (lease token now q) = qr_attempts q + 1"
  "request_of (lease token now q) = request_of q" "qr_result (lease token now q) = qr_result q" "qr_id (lease token now q) = qr_id q"
  by (simp_all add: lease_def binding_def request_of_def)

text \<open>The two ways a claim ends.\<close>

lemma claim_cases:
  obtains "claimEmployeeDispatch enabled t token db = (None, db)" "\<not> enabled"
  | "enabled" "claimEmployeeDispatch enabled t token db = (None, sweep_spent t db)"
      "\<forall>q \<in> set (dd_queue (sweep_spent t db)). \<not> claimable t (sweep_spent t db) q"
  | q where "enabled" "q \<in> set (dd_queue (sweep_spent t db))" "claimable t (sweep_spent t db) q"
      "claimEmployeeDispatch enabled t token db = (Some (lease token (dd_now db) q),
        (sweep_spent t db)\<lparr>dd_jobs := lease token (dd_now db) q # dd_jobs db,
          dd_queue := update_where (\<lambda>r. qr_id r = qr_id q) (\<lambda>_. lease token (dd_now db) q) (dd_queue (sweep_spent t db))\<rparr>)"
proof (cases enabled)
  case True
  note en = this
  have same: "dd_now (sweep_spent t db) = dd_now db" "dd_jobs (sweep_spent t db) = dd_jobs db"
    by (simp_all add: sweep_spent_def)
  show ?thesis
  proof (cases "js_sort due_le (filter (claimable t (sweep_spent t db)) (dd_queue (sweep_spent t db)))")
    case Nil
    then have "filter (claimable t (sweep_spent t db)) (dd_queue (sweep_spent t db)) = []"
      by (metis length_js_sort length_0_conv)
    with Nil en that(2) show ?thesis by (simp add: claimEmployeeDispatch_def filter_empty_conv)
  next
    case (Cons q qs)
    then have "q \<in> set (filter (claimable t (sweep_spent t db)) (dd_queue (sweep_spent t db)))"
      by (metis list.set_intros(1) set_js_sort)
    with Cons en that(3)[of q] same show ?thesis by (simp add: claimEmployeeDispatch_def Let_def)
  qed
qed (use that(1) in \<open>simp add: claimEmployeeDispatch_def\<close>)

lemma inv_claim:
  assumes "dispatch_inv db" "Some token \<notin> qr_token ` set (dd_jobs db)"
  shows "dispatch_inv (snd (claimEmployeeDispatch enabled t token db))"
proof (rule claim_cases[of enabled t token db])
  fix q
  define db1 where "db1 = sweep_spent t db"
  define job where "job = lease token (dd_now db) q"
  assume q: "q \<in> set (dd_queue (sweep_spent t db))" "claimable t (sweep_spent t db) q"
    and r: "claimEmployeeDispatch enabled t token db = (Some (lease token (dd_now db) q),
        (sweep_spent t db)\<lparr>dd_jobs := lease token (dd_now db) q # dd_jobs db,
          dd_queue := update_where (\<lambda>r. qr_id r = qr_id q) (\<lambda>_. lease token (dd_now db) q) (dd_queue (sweep_spent t db))\<rparr>)"
  have jobs: "dd_jobs db1 = dd_jobs db" by (simp add: db1_def sweep_spent_def)
  have inv1: "dispatch_inv db1" unfolding db1_def using assms(1) by (rule inv_sweep_spent)
  have inv2: "dispatch_inv (db1\<lparr>dd_jobs := job # dd_jobs db1\<rparr>)"
    using inv1 assms(2) by (intro inv_add_job) (simp_all add: jobs job_def)
  have rq: "row_inv (set (task_keys db1)) (set (dd_jobs db1)) q" using inv_rows[OF inv1] q(1) by (simp add: db1_def)
  have "row_inv (set (task_keys db1)) (set (job # dd_jobs db1)) job"
    using rq q(2) by (auto simp: row_inv_def qrow_ok_def job_def claimable_def)
  moreover have "r = q" if "r \<in> set (dd_queue db1)" "qr_id r = qr_id q" for r
    using row_by_id[OF inv1 that(1)] q(1) that(2) by (simp add: db1_def)
  ultimately have "dispatch_inv ((db1\<lparr>dd_jobs := job # dd_jobs db1\<rparr>)\<lparr>dd_queue :=
      update_where (\<lambda>r. qr_id r = qr_id q) (\<lambda>_. job) (dd_queue (db1\<lparr>dd_jobs := job # dd_jobs db1\<rparr>))\<rparr>)"
    by (intro inv_update_rows[OF inv2]) (auto simp: job_def)
  then show "dispatch_inv (snd (claimEmployeeDispatch enabled t token db))"
    unfolding r by (simp add: db1_def[symmetric] job_def[symmetric] jobs)
qed (use assms(1) inv_sweep_spent in simp_all)

lemma held_row: "held_by job now q \<Longrightarrow> qr_state q = Leased \<and> qr_token q = qr_token job \<and> qr_id q = qr_id job"
  by (simp add: held_by_def)

lemma inv_release:
  assumes "dispatch_inv db" "job \<in> set (dd_jobs db)"
  shows "dispatch_inv (db\<lparr>dd_queue := update_where (held_by job now) (release job transient now) (dd_queue db)\<rparr>)"
proof (rule inv_update_rows[OF assms(1)])
  fix q assume q: "q \<in> set (dd_queue db)" "held_by job now q"
  then have "qr_attempts q = qr_attempts job"
    using token_job[OF assms(1,2) q(1)] by (simp add: held_by_def)
  then show "binding (release job transient now q) = binding q \<and>
      row_inv (set (task_keys db)) (set (dd_jobs db)) (release job transient now q)"
    using inv_rows[OF assms(1) q(1)] q(2)
    by (auto simp: release_def binding_def row_inv_def qrow_ok_def request_of_def held_by_def)
qed

lemma commit_cases:
  obtains "commit_batch job guard task db = (False, db)"
  | q where "q \<in> set (dd_queue db)" "held_by job (dd_now db) q" "request_of q = request_of job" "guard"
      "request_of job \<notin> set (task_keys db)" "running (dd_controls db) (qr_tenant job)"
      "commit_batch job guard task db = (True, db\<lparr>dd_queue := update_where (held_by job (dd_now db)) (finish_row task) (dd_queue db),
         dd_tasks := dd_tasks db @ [(qr_tenant job, qr_request job, task)]\<rparr>)"
proof (cases "commit_allowed job guard db")
  case True
  then obtain q where "q \<in> set (dd_queue db)" "held_by job (dd_now db) q" "qr_request q = qr_request job"
    by (auto simp: commit_allowed_def list_ex_iff)
  with True that(2)[of q] show ?thesis
    by (simp add: commit_batch_def commit_allowed_def executed_keys request_of_def held_by_def)
qed (use that(1) in \<open>simp add: commit_batch_def\<close>)

lemma inv_commit:
  assumes inv: "dispatch_inv db"
  shows "dispatch_inv (snd (commit_batch job guard task db))"
proof (rule commit_cases[of job guard task db])
  fix q
  assume q: "q \<in> set (dd_queue db)" "held_by job (dd_now db) q" "request_of q = request_of job"
    and new: "request_of job \<notin> set (task_keys db)"
    and r: "commit_batch job guard task db = (True, db\<lparr>dd_queue := update_where (held_by job (dd_now db)) (finish_row task) (dd_queue db),
         dd_tasks := dd_tasks db @ [(qr_tenant job, qr_request job, task)]\<rparr>)"
  have keys: "map (\<lambda>(t, r, k). (t, r)) (dd_tasks db @ [(qr_tenant job, qr_request job, task)]) = task_keys db @ [request_of job]"
    by (simp add: task_keys_def request_of_def)
  have only: "c = q" if "c \<in> set (dd_queue db)" "held_by job (dd_now db) c \<or> request_of c = request_of job" for c
  proof -
    have "qr_id c = qr_id q \<or> request_of c = request_of q" using that(2) q by (auto simp: held_by_def)
    then show ?thesis
    proof
      assume "qr_id c = qr_id q"
      with row_by_id[OF inv that(1) q(1)] show ?thesis by simp
    next
      assume "request_of c = request_of q"
      then show ?thesis using inv that(1) q(1)
        by (intro distinct_key_unique[of request_of "dd_queue db"]) (simp_all add: dispatch_inv_def)
    qed
  qed
  have same: "map qr_id (update_where (held_by job (dd_now db)) (finish_row task) (dd_queue db)) = map qr_id (dd_queue db)"
    "map request_of (update_where (held_by job (dd_now db)) (finish_row task) (dd_queue db)) = map request_of (dd_queue db)"
    by (rule map_update_where; simp add: finish_row_def request_of_def)+
  have done_row: "row_inv (set (task_keys db @ [request_of job])) (set (dd_jobs db)) (finish_row task q)"
    using inv_rows[OF inv q(1)] q(3) by (auto simp: row_inv_def qrow_ok_def finish_row_def request_of_def)
  have "row_inv (set (task_keys db @ [request_of job])) (set (dd_jobs db)) (if held_by job (dd_now db) c then finish_row task c else c)"
    if c: "c \<in> set (dd_queue db)" for c
  proof (cases "c = q")
    case True
    then show ?thesis using done_row q(2) by simp
  next
    case False
    then have "\<not> held_by job (dd_now db) c" "request_of c \<noteq> request_of job" using only[OF c] by blast+
    then show ?thesis using inv_rows[OF inv c] by (simp add: row_inv_def)
  qed
  then show "dispatch_inv (snd (commit_batch job guard task db))"
    unfolding r using inv new keys same by (simp add: dispatch_inv_def ball_update_where)
qed (simp add: inv)

lemma execute_db: "snd (execute_job job e db) = db \<or> snd (execute_job job e db) = snd (commit_batch job (xe_guard e) (xe_task e) db)"
  by (auto simp: execute_job_def split: option.splits prod.splits bool.splits)

lemma execute_jobs: "dd_jobs (snd (execute_job job e db)) = dd_jobs db" "dd_now (snd (execute_job job e db)) = dd_now db"
  using execute_db[of job e db] by (auto simp: commit_batch_def)

lemma inv_execute: "dispatch_inv db \<Longrightarrow> dispatch_inv (snd (execute_job job e db))"
  using execute_db[of job e db] inv_commit[of db job "xe_guard e" "xe_task e"] by auto

lemma process_db:
  "snd (processEmployeeDispatch enabled job e db) = db \<or>
   snd (processEmployeeDispatch enabled job e db) = snd (execute_job job e db) \<or>
   (\<exists>transient. snd (processEmployeeDispatch enabled job e db) =
      (snd (execute_job job e db))\<lparr>dd_queue := update_where (held_by job (dd_now db)) (release job transient (dd_now db))
        (dd_queue (snd (execute_job job e db)))\<rparr>)"
  using execute_jobs(2)[of job e db]
  by (auto simp: processEmployeeDispatch_def Let_def split: prod.splits)

lemma inv_process:
  assumes "dispatch_inv db" "job \<in> set (dd_jobs db)"
  shows "dispatch_inv (snd (processEmployeeDispatch enabled job e db))"
  using process_db[of enabled job e db] assms inv_execute[OF assms(1), of job e]
    inv_release[OF inv_execute[OF assms(1), of job e], of job] execute_jobs(1)[of job e db]
  by auto

lemma inv_stop: "dispatch_inv db \<Longrightarrow> dispatch_inv (snd (stopEmployeeDispatch t n authority db))"
  by (simp add: stopEmployeeDispatch_def Let_def inv_controls)

lemma inv_direct:
  assumes "dispatch_inv db" "\<not> list_ex (\<lambda>q. qr_tenant q = t \<and> qr_request q = r) (dd_queue db)" "\<not> executed db t r"
  shows "dispatch_inv (db\<lparr>dd_tasks := dd_tasks db @ [(t, r, k)]\<rparr>)"
proof -
  have keys: "map (\<lambda>(t, r, k). (t, r)) (dd_tasks db @ [(t, r, k)]) = task_keys db @ [(t, r)]" by (simp add: task_keys_def)
  have "row_inv (set (task_keys db @ [(t, r)])) (set (dd_jobs db)) q" if q: "q \<in> set (dd_queue db)" for q
    using inv_rows[OF assms(1) q] assms(2) q by (auto simp: row_inv_def request_of_def list_ex_iff)
  then show ?thesis using assms(1,3) keys by (simp add: dispatch_inv_def executed_keys)
qed

lemma inv_dispatch_step: "dispatch_step db db' \<Longrightarrow> dispatch_inv db \<Longrightarrow> dispatch_inv db'"
proof (induction rule: dispatch_step.induct)
  case (Direct t r db k)
  then show ?case by (intro inv_direct)
qed (simp_all add: inv_clock inv_controls inv_enqueue inv_claim inv_process inv_stop)

lemma inv_dispatch_reach: "dispatch_reach db \<Longrightarrow> dispatch_inv db"
proof (induction rule: dispatch_reach.induct)
  case (Start db)
  then show ?case by (simp add: empty_dispatch_def dispatch_inv_def task_keys_def)
qed (rule inv_dispatch_step)

section \<open>How a row evolves\<close>

interpretation due_order: comparator "\<lambda>_. True" due_le
  by unfold_locales (auto simp: due_le_def)

definition terminal :: "qrow \<Rightarrow> bool" where
  "terminal q \<longleftrightarrow> qr_state q = Completed \<or> qr_state q = Dead_Letter"

text \<open>A later form of the same row: same binding, no fewer attempts, and the same row once terminal.\<close>

definition row_later :: "qrow \<Rightarrow> qrow \<Rightarrow> bool" where
  "row_later q q' \<longleftrightarrow> binding q' = binding q \<and> qr_attempts q \<le> qr_attempts q' \<and> (terminal q \<longrightarrow> q' = q)"

lemma row_later_refl [simp]: "row_later q q"
  by (simp add: row_later_def)

lemma row_later_trans: "row_later p q \<Longrightarrow> row_later q r \<Longrightarrow> row_later p r"
  unfolding row_later_def by auto

definition queue_later :: "dispatch_db \<Rightarrow> dispatch_db \<Rightarrow> bool" where
  "queue_later db db' \<longleftrightarrow> (\<forall>q \<in> set (dd_queue db). \<exists>q' \<in> set (dd_queue db'). row_later q q')"

lemma queue_later_same: "dd_queue db' = dd_queue db \<Longrightarrow> queue_later db db'"
  unfolding queue_later_def by (metis row_later_refl)

lemma queue_later_update:
  "(\<And>q. q \<in> set (dd_queue db) \<Longrightarrow> p q \<Longrightarrow> row_later q (f q)) \<Longrightarrow> dd_queue db' = update_where p f (dd_queue db) \<Longrightarrow> queue_later db db'"
  unfolding queue_later_def
proof
  fix q assume "\<And>q. q \<in> set (dd_queue db) \<Longrightarrow> p q \<Longrightarrow> row_later q (f q)" "dd_queue db' = update_where p f (dd_queue db)"
    and q: "q \<in> set (dd_queue db)"
  then have "(if p q then f q else q) \<in> set (dd_queue db')" "row_later q (if p q then f q else q)"
    by (simp_all add: update_where_def)
  then show "\<exists>q' \<in> set (dd_queue db'). row_later q q'" by blast
qed

lemma queue_later_more: "set (dd_queue db) \<subseteq> set (dd_queue db') \<Longrightarrow> queue_later db db'"
  unfolding queue_later_def by (metis row_later_refl subsetD)

lemma queue_later_trans: "queue_later a b \<Longrightarrow> queue_later b c \<Longrightarrow> queue_later a c"
  unfolding queue_later_def by (meson row_later_trans)

lemma later_sweep: "queue_later db (sweep_spent t db)"
  by (rule queue_later_update[where p = "retry_spent t (dd_now db)" and f = bury])
    (auto simp: sweep_spent_def retry_spent_def bury_def row_later_def binding_def terminal_def)

lemma later_claim:
  assumes "dispatch_inv db"
  shows "queue_later db (snd (claimEmployeeDispatch enabled t token db))"
proof (rule claim_cases[of enabled t token db])
  fix q
  assume q: "q \<in> set (dd_queue (sweep_spent t db))" "claimable t (sweep_spent t db) q"
    and r: "claimEmployeeDispatch enabled t token db = (Some (lease token (dd_now db) q),
        (sweep_spent t db)\<lparr>dd_jobs := lease token (dd_now db) q # dd_jobs db,
          dd_queue := update_where (\<lambda>r. qr_id r = qr_id q) (\<lambda>_. lease token (dd_now db) q) (dd_queue (sweep_spent t db))\<rparr>)"
  have one: "r = q" if "r \<in> set (dd_queue (sweep_spent t db))" "qr_id r = qr_id q" for r
    using row_by_id[OF inv_sweep_spent[OF assms] that(1) q(1) that(2)] .
  have "row_later q (lease token (dd_now db) q)"
    using q(2) by (auto simp: row_later_def terminal_def claimable_def)
  then have "queue_later (sweep_spent t db) (snd (claimEmployeeDispatch enabled t token db))"
    unfolding r by (intro queue_later_update[where p = "\<lambda>r. qr_id r = qr_id q"]) (auto dest: one)
  then show "queue_later db (snd (claimEmployeeDispatch enabled t token db))"
    using later_sweep queue_later_trans by blast
qed (use later_sweep in \<open>simp_all add: queue_later_same\<close>)

lemma later_commit: "queue_later db (snd (commit_batch job guard task db))"
proof (cases "commit_allowed job guard db")
  case True
  then show ?thesis
    by (intro queue_later_update[where p = "held_by job (dd_now db)" and f = "finish_row task"])
      (auto simp: commit_batch_def row_later_def binding_def terminal_def held_by_def finish_row_def)
qed (simp add: commit_batch_def queue_later_same)

lemma later_process: "queue_later db (snd (processEmployeeDispatch enabled job e db))"
proof -
  have ex: "queue_later db (snd (execute_job job e db))"
    using execute_db[of job e db] later_commit[of db job "xe_guard e" "xe_task e"] by (auto simp: queue_later_same)
  have "queue_later (snd (execute_job job e db)) ((snd (execute_job job e db))\<lparr>dd_queue :=
      update_where (held_by job n) (release job tr n) (dd_queue (snd (execute_job job e db)))\<rparr>)" for tr n
    by (rule queue_later_update[where p = "held_by job n" and f = "release job tr n"])
      (auto simp: row_later_def binding_def terminal_def held_by_def release_def)
  then show ?thesis using process_db[of enabled job e db] ex queue_later_trans by (metis queue_later_same)
qed

lemma later_enqueue: "queue_later db (snd (enqueueEmployeeDispatch enabled auth r p k source authority new_id db))"
proof -
  have "queue_later db (admit_row row authority db)" for row
    by (rule queue_later_more) (auto simp: admit_row_def)
  then show ?thesis
    using enqueue_db[of enabled auth r p k source authority new_id db] by (metis queue_later_same)
qed

lemma later_step: "dispatch_step db db' \<Longrightarrow> dispatch_inv db \<Longrightarrow> queue_later db db'"
  by (induction rule: dispatch_step.induct)
    (auto simp: later_claim later_process later_enqueue stopEmployeeDispatch_def Let_def intro: queue_later_same)

lemma later_steps: "dispatch_step\<^sup>*\<^sup>* db db' \<Longrightarrow> dispatch_inv db \<Longrightarrow> queue_later db db' \<and> dispatch_inv db'"
proof (induction rule: rtranclp_induct)
  case base
  then show ?case by (simp add: queue_later_same)
next
  case (step y z)
  then show ?case using later_step[of y z] inv_dispatch_step[of y z] queue_later_trans[of db y z] by blast
qed


section \<open>Properties\<close>

lemma reach_rows: "dispatch_reach db \<Longrightarrow> q \<in> set (dd_queue db) \<Longrightarrow> row_inv (set (task_keys db)) (set (dd_jobs db)) q"
  using inv_rows inv_dispatch_reach by blast

text \<open>C1: In every reachable state each row satisfies the table's checks, ids and requests are unique,
  no request is executed twice, and a row is completed exactly when its request was executed.\<close>

theorem queue_consistent:
  assumes "dispatch_reach db"
  shows "list_all qrow_ok (dd_queue db) \<and> distinct (map qr_id (dd_queue db)) \<and> distinct (map request_of (dd_queue db)) \<and>
    distinct (task_keys db) \<and>
    list_all (\<lambda>q. (qr_state q = Completed) = executed db (qr_tenant q) (qr_request q)) (dd_queue db)"
  using inv_dispatch_reach[OF assms]
  by (auto simp: dispatch_inv_def list_all_iff row_inv_def executed_keys request_of_def)

definition demo_start :: dispatch_db where
  "demo_start = \<lparr>dd_queue = [], dd_controls = [\<lparr>ctl_tenant = ''t'', ctl_enabled = True, ctl_stopped = False, ctl_revision = 1\<rparr>],
     dd_tasks = [], dd_now = 100, dd_jobs = []\<rparr>"

definition demo_queued :: dispatch_db where
  "demo_queued = snd (enqueueEmployeeDispatch True \<lparr>da_tenant = ''t'', da_user = ''u'', da_session = ''s'', da_owner = True\<rparr>
     (JStr ''r'') (JStr ''p'') (JStr ''k'') True True ''q1'' demo_start)"

definition demo_claimed :: dispatch_db where
  "demo_claimed = snd (claimEmployeeDispatch True None ''tok'' demo_queued)"

definition demo_env :: exec_env where
  "demo_env = \<lparr>xe_session = True, xe_denied = None, xe_guard = True, xe_task = ''task'', xe_consumed = False, xe_verified = True\<rparr>"

definition demo_done :: dispatch_db where
  "demo_done = snd (processEmployeeDispatch True (hd (dd_jobs demo_claimed)) demo_env demo_claimed)"

lemma demo_queued_reach: "dispatch_reach demo_queued"
proof -
  have "dispatch_reach demo_start" by (rule dispatch_reach.Start) (simp add: empty_dispatch_def demo_start_def)
  then show ?thesis unfolding demo_queued_def
    by (rule dispatch_reach.Step) (rule dispatch_step.Enqueue, simp add: demo_start_def)
qed

lemma demo_claimed_step: "dispatch_step demo_queued demo_claimed"
  unfolding demo_claimed_def by (rule dispatch_step.Claim) code_simp

lemma demo_done_step: "dispatch_step demo_claimed demo_done"
  unfolding demo_done_def by (rule dispatch_step.Process) code_simp

lemma demo_claimed_reach: "dispatch_reach demo_claimed"
  by (rule dispatch_reach.Step[OF demo_queued_reach demo_claimed_step])

lemma demo_done_reach: "dispatch_reach demo_done"
  by (rule dispatch_reach.Step[OF demo_claimed_reach demo_done_step])

theorem queue_consistent_witness:
  "map qr_state (dd_queue demo_done) = [Completed] \<and> list_all qrow_ok (dd_queue demo_done) \<and> distinct (task_keys demo_done)"
proof -
  have "map qr_state (dd_queue demo_done) = [Completed]" by code_simp
  then show ?thesis using queue_consistent[OF demo_done_reach] by simp
qed

text \<open>C9: A completed or dead row never changes again, whatever workers, owners and the clock do, and a row
  never loses its binding to its request, permit, owner and session, nor regains an attempt.\<close>

theorem terminal_row_final:
  assumes "dispatch_reach db" "dispatch_step\<^sup>*\<^sup>* db db'" "q \<in> set (dd_queue db)"
  shows "(if terminal q then q \<in> set (dd_queue db')
    else list_ex (\<lambda>q'. binding q' = binding q \<and> qr_attempts q \<le> qr_attempts q') (dd_queue db'))"
  using later_steps[OF assms(2) inv_dispatch_reach[OF assms(1)]] assms(3)
  by (fastforce simp: queue_later_def row_later_def list_ex_iff)

theorem terminal_row_final_witness:
  "terminal (hd (dd_queue demo_done)) \<and> hd (dd_queue demo_done) \<in> set (dd_queue (demo_done\<lparr>dd_now := dd_now demo_done + 500\<rparr>))"
proof -
  have t: "terminal (hd (dd_queue demo_done))" by code_simp
  have m: "hd (dd_queue demo_done) \<in> set (dd_queue demo_done)" by code_simp
  have "dispatch_step\<^sup>*\<^sup>* demo_done (demo_done\<lparr>dd_now := dd_now demo_done + 500\<rparr>)"
    by (intro r_into_rtranclp dispatch_step.Clock) simp
  from terminal_row_final[OF demo_done_reach this m] t show ?thesis by simp
qed

text \<open>C8: A worker whose lease ran out, was released or was taken over changes nothing, whatever it does
  with its job, and no row is held by two jobs at once.\<close>

lemma unheld_commit: "\<not> list_ex (held_by job (dd_now db)) (dd_queue db) \<Longrightarrow> commit_batch job g k db = (False, db)"
  unfolding commit_batch_def commit_allowed_def by (auto simp: list_ex_iff)

lemma unheld_update: "\<not> list_ex p qs \<Longrightarrow> update_where p f qs = qs"
  by (simp add: update_where_def list_ex_iff map_idI)

theorem stale_worker_fenced:
  assumes "dispatch_reach db" "job \<in> set (dd_jobs db)"
  shows "if list_ex (held_by job (dd_now db)) (dd_queue db)
    then list_all (\<lambda>other. other = job \<or> \<not> list_ex (\<lambda>q. held_by job (dd_now db) q \<and> held_by other (dd_now db) q) (dd_queue db)) (dd_jobs db)
    else snd (processEmployeeDispatch enabled job e db) = db"
proof (cases "list_ex (held_by job (dd_now db)) (dd_queue db)")
  case True
  have "other = job" if "other \<in> set (dd_jobs db)" "held_by job (dd_now db) q" "held_by other (dd_now db) q" for other q
    using inv_dispatch_reach[OF assms(1)] assms(2) that
    by (intro distinct_key_unique[of qr_token "dd_jobs db"]) (simp_all add: dispatch_inv_def held_by_def)
  then show ?thesis using True by (auto simp: list_all_iff list_ex_iff)
next
  case False
  have "snd (execute_job job e db) = db"
    using execute_db[of job e db] unheld_commit[OF False] by auto
  then show ?thesis using False process_db[of enabled job e db] unheld_update[OF False] by auto
qed

theorem stale_worker_fenced_witness:
  "snd (processEmployeeDispatch True (hd (dd_jobs demo_done)) demo_env demo_done) = demo_done"
proof -
  have m: "hd (dd_jobs demo_done) \<in> set (dd_jobs demo_done)" by code_simp
  have "\<not> list_ex (held_by (hd (dd_jobs demo_done)) (dd_now demo_done)) (dd_queue demo_done)" by code_simp
  with stale_worker_fenced[OF demo_done_reach m, of True demo_env] show ?thesis by (simp only: if_False)
qed

text \<open>C10: Once the owner's stop is accepted the tenant is not running, and for a tenant that is not running
  nothing is admitted, leased or executed.\<close>

definition tasks_of :: "string \<Rightarrow> dispatch_db \<Rightarrow> (string \<times> string \<times> string) list" where
  "tasks_of t db = filter (\<lambda>x. fst x = t) (dd_tasks db)"

lemma stop_stops:
  assumes "distinct (map ctl_tenant (dd_controls db))" "fst (stopEmployeeDispatch t n authority db)"
  shows "\<not> running (dd_controls (snd (stopEmployeeDispatch t n authority db))) t"
proof -
  have one: "c = d" if "c \<in> set (dd_controls db)" "d \<in> set (dd_controls db)" "ctl_tenant c = t" "ctl_tenant d = t" for c d
    using assms(1) that by (intro distinct_key_unique[of ctl_tenant "dd_controls db"]) simp_all
  show ?thesis using assms(2)
    by (auto simp: stopEmployeeDispatch_def Let_def running_def list_ex_iff update_where_def split: if_splits dest: one)
qed

lemma stopped_commit: "\<not> running (dd_controls db) t \<Longrightarrow> tasks_of t (snd (commit_batch job g k db)) = tasks_of t db"
  by (auto simp: commit_batch_def commit_allowed_def tasks_of_def)

lemma stopped_process: "\<not> running (dd_controls db) t \<Longrightarrow> tasks_of t (snd (processEmployeeDispatch enabled job e db)) = tasks_of t db"
  using process_db[of enabled job e db] execute_db[of job e db] stopped_commit[of db t job "xe_guard e" "xe_task e"]
  by (auto simp: tasks_of_def)

theorem stopped_tenant_idle:
  assumes "distinct (map ctl_tenant (dd_controls db))" "fst (stopEmployeeDispatch t n authority db)"
  defines "stopped \<equiv> snd (stopEmployeeDispatch t n authority db)"
  shows "\<not> running (dd_controls stopped) t \<and>
    map_option (\<lambda>j. qr_tenant j = t) (fst (claimEmployeeDispatch enabled tn token stopped)) \<noteq> Some True \<and>
    tasks_of t (snd (processEmployeeDispatch enabled job e stopped)) = tasks_of t stopped \<and>
    (da_tenant auth \<noteq> t \<or> snd (enqueueEmployeeDispatch enabled auth r p k source authority2 new_id stopped) = stopped)"
proof -
  have off: "\<not> running (dd_controls stopped) t" unfolding stopped_def using assms(1,2) by (rule stop_stops)
  have "dd_controls (sweep_spent tn stopped) = dd_controls stopped" by (simp add: sweep_spent_def)
  then have "\<not> claimable tn (sweep_spent tn stopped) q" if "qr_tenant q = t" for q
    using off that by (simp add: claimable_def)
  then have "map_option (\<lambda>j. qr_tenant j = t) (fst (claimEmployeeDispatch enabled tn token stopped)) \<noteq> Some True"
    by (cases rule: claim_cases[of enabled tn token stopped]) (auto simp: lease_def)
  moreover have "snd (enqueueEmployeeDispatch enabled auth r p k source authority2 new_id stopped) = stopped" if "da_tenant auth = t"
    using enqueue_db[of enabled auth r p k source authority2 new_id stopped] off that by (auto simp: admit_row_def new_row_def)
  ultimately show ?thesis using off stopped_process[OF off] by blast
qed

theorem stopped_tenant_idle_witness:
  "tasks_of ''t'' (snd (processEmployeeDispatch True (hd (dd_jobs demo_claimed)) demo_env
     (snd (stopEmployeeDispatch ''t'' 1 True demo_claimed)))) = []"
proof -
  have d: "distinct (map ctl_tenant (dd_controls demo_claimed))" by code_simp
  have s: "fst (stopEmployeeDispatch ''t'' 1 True demo_claimed)" by code_simp
  have "tasks_of ''t'' (snd (stopEmployeeDispatch ''t'' 1 True demo_claimed)) = []" by code_simp
  with stopped_tenant_idle[OF d s, of True None "''x''" "hd (dd_jobs demo_claimed)" demo_env] show ?thesis by simp
qed

text \<open>C11: While a row of a running tenant is due, a claim finds a job; the job is due no later than that
  row, and processing it before its lease ends, when the platform admits it, completes its row and
  executes its request.\<close>

lemma claimable_sweep: "claimable t db q \<Longrightarrow> q \<in> set (dd_queue db) \<Longrightarrow> q \<in> set (dd_queue (sweep_spent t db)) \<and> claimable t (sweep_spent t db) q"
  by (auto simp: claimable_def sweep_spent_def update_where_def retry_spent_def image_iff)

lemma claim_least:
  assumes "claimable t db q" "q \<in> set (dd_queue db)"
  obtains h where "h \<in> set (dd_queue (sweep_spent t db))" "claimable t (sweep_spent t db) h" "due_le h q"
    "claimEmployeeDispatch True t token db = (Some (lease token (dd_now db) h), (sweep_spent t db)\<lparr>dd_jobs := lease token (dd_now db) h # dd_jobs db,
          dd_queue := update_where (\<lambda>r. qr_id r = qr_id h) (\<lambda>_. lease token (dd_now db) h) (dd_queue (sweep_spent t db))\<rparr>)"
proof -
  let ?xs = "filter (claimable t (sweep_spent t db)) (dd_queue (sweep_spent t db))"
  have q: "q \<in> set ?xs" using claimable_sweep[OF assms] by simp
  have "js_sort due_le ?xs \<noteq> []" using q set_js_sort[of due_le ?xs] by force
  with q obtain h hs where h: "js_sort due_le ?xs = h # hs" by (meson neq_Nil_conv)
  have "due_le h q" using due_order.head_least[OF _ h q] by (simp add: list_all_iff)
  moreover have "h \<in> set ?xs" using h by (metis list.set_intros(1) set_js_sort)
  ultimately show thesis using that[of h] h by (simp add: claimEmployeeDispatch_def Let_def sweep_spent_def)
qed

theorem due_job_completes:
  assumes "dispatch_reach db" "claimable t db q" "q \<in> set (dd_queue db)"
    and "xe_session e" "xe_denied e = None" "xe_guard e" "xe_verified e"
  shows "case claimEmployeeDispatch True t token db of
      (None, _) \<Rightarrow> False
    | (Some job, claimed) \<Rightarrow>
        list_ex (\<lambda>h. job = lease token (dd_now db) h \<and> due_le h q) (dd_queue (sweep_spent t db)) \<and>
        (case processEmployeeDispatch True job e claimed of (answer, finished) \<Rightarrow>
           answer = (True, []) \<and> finish_row (xe_task e) job \<in> set (dd_queue finished) \<and>
           dd_tasks finished = dd_tasks db @ [(qr_tenant job, qr_request job, xe_task e)])"
proof -
  obtain h where h: "h \<in> set (dd_queue (sweep_spent t db))" "claimable t (sweep_spent t db) h" "due_le h q"
    "claimEmployeeDispatch True t token db = (Some (lease token (dd_now db) h), (sweep_spent t db)\<lparr>dd_jobs := lease token (dd_now db) h # dd_jobs db,
          dd_queue := update_where (\<lambda>r. qr_id r = qr_id h) (\<lambda>_. lease token (dd_now db) h) (dd_queue (sweep_spent t db))\<rparr>)"
    using assms(2,3) by (rule claim_least)
  define job where "job = lease token (dd_now db) h"
  define claimed where "claimed = snd (claimEmployeeDispatch True t token db)"
  have same: "dd_now claimed = dd_now db" "dd_tasks claimed = dd_tasks db" "dd_controls claimed = dd_controls db"
    "task_keys claimed = task_keys db"
    by (simp_all add: claimed_def h(4) sweep_spent_def task_keys_def)
  have "row_inv (set (task_keys (sweep_spent t db))) (set (dd_jobs (sweep_spent t db))) h"
    using h(1) by (rule inv_rows[OF inv_sweep_spent[OF inv_dispatch_reach[OF assms(1)]]])
  then have fresh: "\<not> executed claimed (qr_tenant job) (qr_request job)"
    using h(2) same by (auto simp: row_inv_def claimable_def executed_keys request_of_def job_def lease_def sweep_spent_def)
  have inq: "job \<in> set (dd_queue claimed)" using h(1) by (auto simp: claimed_def h(4) job_def update_where_def)
  have held: "held_by job (dd_now claimed) job" by (simp add: held_by_def job_def same)
  have "running (dd_controls claimed) (qr_tenant job)"
    using h(2) by (simp add: same claimable_def job_def lease_def sweep_spent_def)
  with inq held fresh assms(6) have "commit_allowed job (xe_guard e) claimed"
    by (auto simp: commit_allowed_def list_ex_iff)
  then have p: "processEmployeeDispatch True job e claimed = ((True, []), claimed\<lparr>
      dd_queue := update_where (held_by job (dd_now claimed)) (finish_row (xe_task e)) (dd_queue claimed),
      dd_tasks := dd_tasks claimed @ [(qr_tenant job, qr_request job, xe_task e)]\<rparr>)"
    using assms(4,5,7) by (simp add: processEmployeeDispatch_def execute_job_def commit_batch_def)
  have "finish_row (xe_task e) job \<in> set (update_where (held_by job (dd_now claimed)) (finish_row (xe_task e)) (dd_queue claimed))"
    using inq held unfolding update_where_def by force
  moreover have "claimEmployeeDispatch True t token db = (Some job, claimed)" by (simp add: claimed_def h(4) job_def)
  ultimately show ?thesis using p h(1,3) by (auto simp: job_def list_ex_iff same)
qed

theorem due_job_completes_witness:
  "fst (processEmployeeDispatch True (hd (dd_jobs demo_claimed)) demo_env demo_claimed) = (True, [])"
proof -
  have q: "hd (dd_queue demo_queued) \<in> set (dd_queue demo_queued)" "claimable None demo_queued (hd (dd_queue demo_queued))"
    by code_simp+
  have e: "xe_session demo_env" "xe_denied demo_env = None" "xe_guard demo_env" "xe_verified demo_env"
    by (simp_all add: demo_env_def)
  have c: "claimEmployeeDispatch True None ''tok'' demo_queued = (Some (hd (dd_jobs demo_claimed)), demo_claimed)" by code_simp
  show ?thesis using due_job_completes[OF demo_queued_reach q(2,1) e, of "''tok''"] unfolding c by (auto split: prod.splits)
qed

text \<open>A sweep handles at most ten jobs, completes no more than it handles, and none when disabled or
  when its limit is not a whole number.\<close>

lemma sweep_loop_bound: "sweep_loop t feed n (p, c) db = ((p', c'), db') \<Longrightarrow> c \<le> p \<Longrightarrow> c' \<le> p' \<and> p' \<le> p + n"
proof (induction t feed n "(p, c)" db arbitrary: p c rule: sweep_loop.induct)
  case (3 t token e rest n p c db)
  show ?case
  proof (cases "claimEmployeeDispatch True t token db")
    case (Pair jo db1)
    then show ?thesis using 3 by (cases jo) (fastforce split: prod.splits if_splits)+
  qed
qed auto

lemma sweep_bounded:
  "case runEmployeeDispatchSweep enabled t limit feed db of ((processed, completed), _) \<Rightarrow>
     completed \<le> processed \<and> processed \<le> 10 \<and> (enabled \<and> sweep_limit limit \<noteq> 0 \<or> processed = 0)"
proof -
  have "sweep_limit limit \<le> 10"
    by (cases limit) (auto simp: sweep_limit_def min_def split: jsnum.splits)
  then show ?thesis
    using sweep_loop_bound[of t feed "sweep_limit limit" 0 0 db]
    by (cases "sweep_loop t feed (sweep_limit limit) (0, 0) db"; cases "fst (sweep_loop t feed (sweep_limit limit) (0, 0) db)")
      (auto simp: runEmployeeDispatchSweep_def split: if_splits)
qed

end
