(* ===== verification/Allocations.thy ===== *)
theory Allocations imports Interfaces "HOL-Library.List_Lexorder" begin

text \<open>
  What the two settlement ledgers of the platform share: the customer invoices of
  \<^verbatim>\<open>049_v108_finance_receivables.sql\<close> and the supplier payables of
  \<^verbatim>\<open>058_v161_finance_suppliers_payables.sql\<close>. A bill is settled by allocations of
  recorded transactions, positive ones for invoices and negative ones for payables; allocations are
  appended, never changed, and taken back by a reversing entry. The triggers and constraints of the
  tables are the guards here; the books may be written by any number of requests, one statement at a time.
\<close>

section \<open>The tables\<close>

record fin_tx =
  tx_id :: string
  tx_tenant :: string
  tx_account :: string
  tx_batch :: string
  tx_posted :: string
  tx_description :: string
  tx_reference :: string
  tx_amount :: int
  tx_source :: string
  tx_fingerprint :: string

record bill =
  bl_id :: string
  bl_tenant :: string
  bl_party :: string
  bl_number :: string
  bl_issued :: string
  bl_due :: string
  bl_description :: string
  bl_total :: int
  bl_open :: bool

text \<open>\<open>Reverse_Of r\<close> is the entry type \<^verbatim>\<open>reverse\<close> with \<open>r\<close> as the reversed allocation; the check of the
  table ties the two columns together.\<close>

datatype entry = Apply | Reverse_Of string

record alloc =
  al_id :: string
  al_tenant :: string
  al_bill :: string
  al_tx :: string
  al_amount :: int
  al_entry :: entry

definition signed :: "alloc \<Rightarrow> int" where
  "signed a = (case al_entry a of Apply \<Rightarrow> al_amount a | Reverse_Of _ \<Rightarrow> - al_amount a)"

definition net :: "(alloc \<Rightarrow> bool) \<Rightarrow> alloc list \<Rightarrow> int" where
  "net p als = col_sum signed (filter p als)"

definition on_bill :: "string \<Rightarrow> string \<Rightarrow> alloc \<Rightarrow> bool" where
  "on_bill t b a \<longleftrightarrow> al_tenant a = t \<and> al_bill a = b"

definition on_tx :: "string \<Rightarrow> string \<Rightarrow> alloc \<Rightarrow> bool" where
  "on_tx t x a \<longleftrightarrow> al_tenant a = t \<and> al_tx a = x"

text \<open>Invoices are settled by inflows, payables by outflows.\<close>

datatype side = Inflow | Outflow

fun fits :: "side \<Rightarrow> int \<Rightarrow> bool" where
  "fits Inflow m = (0 < m)"
| "fits Outflow m = (m < 0)"

fun room :: "side \<Rightarrow> int \<Rightarrow> int" where
  "room Inflow m = m"
| "room Outflow m = \<bar>m\<bar>"

section \<open>The guarded insert\<close>

datatype fault = Bill_Closed | Tx_Refused | Bill_Exceeded | Tx_Exceeded | Reversal_Mismatch | Constraint

definition bill_of :: "'a bill_scheme list \<Rightarrow> string \<Rightarrow> string \<Rightarrow> 'a bill_scheme option" where
  "bill_of bills t b = find (\<lambda>x. bl_id x = b \<and> bl_tenant x = t) bills"

definition tx_of :: "fin_tx list \<Rightarrow> string \<Rightarrow> string \<Rightarrow> fin_tx option" where
  "tx_of txs t x = find (\<lambda>y. tx_id y = x \<and> tx_tenant y = t) txs"

definition apply_guard :: "side \<Rightarrow> 'a bill_scheme list \<Rightarrow> fin_tx list \<Rightarrow> alloc list \<Rightarrow> alloc \<Rightarrow> fault option" where
  "apply_guard sd bills txs als a =
    (let b = bill_of bills (al_tenant a) (al_bill a); x = tx_of txs (al_tenant a) (al_tx a)
     in first_fail [
       (case b of None \<Rightarrow> True | Some c \<Rightarrow> \<not> bl_open c, Bill_Closed),
       (case x of None \<Rightarrow> True | Some y \<Rightarrow> \<not> fits sd (tx_amount y), Tx_Refused),
       (case b of None \<Rightarrow> False | Some c \<Rightarrow> net (on_bill (al_tenant a) (al_bill a)) als + al_amount a > bl_total c, Bill_Exceeded),
       (case x of None \<Rightarrow> False | Some y \<Rightarrow> net (on_tx (al_tenant a) (al_tx a)) als + al_amount a > room sd (tx_amount y), Tx_Exceeded)])"

definition reverse_guard :: "string \<Rightarrow> alloc list \<Rightarrow> alloc \<Rightarrow> fault option" where
  "reverse_guard r als a =
    (if list_ex (\<lambda>b. al_id b = r \<and> al_tenant b = al_tenant a \<and> al_bill b = al_bill a \<and> al_tx b = al_tx a \<and>
          al_amount b = al_amount a \<and> al_entry b = Apply) als
     then None else Some Reversal_Mismatch)"

definition reversed_in :: "alloc list \<Rightarrow> string \<Rightarrow> bool" where
  "reversed_in als r \<longleftrightarrow> list_ex (\<lambda>b. al_entry b = Reverse_Of r) als"

text \<open>The checks and unique keys of the table, looked at after the triggers.\<close>

definition breaks_constraint :: "alloc list \<Rightarrow> alloc \<Rightarrow> bool" where
  "breaks_constraint als a \<longleftrightarrow> al_amount a \<le> 0 \<or> al_id a \<in> al_id ` set als \<or>
     (case al_entry a of Apply \<Rightarrow> False
      | Reverse_Of r \<Rightarrow> list_ex (\<lambda>b. al_tenant b = al_tenant a \<and> al_entry b = Reverse_Of r) als)"

definition insert_alloc ::
    "side \<Rightarrow> 'a bill_scheme list \<Rightarrow> fin_tx list \<Rightarrow> alloc \<Rightarrow> alloc list \<Rightarrow> fault option \<times> alloc list" where
  "insert_alloc sd bills txs a als =
    (case (case al_entry a of Apply \<Rightarrow> apply_guard sd bills txs als a | Reverse_Of r \<Rightarrow> reverse_guard r als a) of
       Some f \<Rightarrow> (Some f, als)
     | None \<Rightarrow> (if breaks_constraint als a then (Some Constraint, als) else (None, als @ [a])))"

section \<open>Histories of allocations\<close>

text \<open>The lists a guarded table can hold.\<close>

inductive history :: "alloc list \<Rightarrow> bool" where
  Empty: "history []"
| Applied: "history als \<Longrightarrow> al_id a \<notin> al_id ` set als \<Longrightarrow> 0 < al_amount a \<Longrightarrow> al_entry a = Apply \<Longrightarrow> history (als @ [a])"
| Reversed: "history als \<Longrightarrow> al_id a \<notin> al_id ` set als \<Longrightarrow> 0 < al_amount a \<Longrightarrow> al_entry a = Reverse_Of (al_id b) \<Longrightarrow>
    b \<in> set als \<Longrightarrow> al_entry b = Apply \<Longrightarrow> al_tenant b = al_tenant a \<Longrightarrow> al_bill b = al_bill a \<Longrightarrow> al_tx b = al_tx a \<Longrightarrow>
    al_amount b = al_amount a \<Longrightarrow> \<not> reversed_in als (al_id b) \<Longrightarrow> history (als @ [a])"

inductive_cases history_snoc: "history (als @ [a])"

definition live :: "alloc list \<Rightarrow> alloc \<Rightarrow> bool" where
  "live als a \<longleftrightarrow> al_entry a = Apply \<and> \<not> reversed_in als (al_id a)"

lemma reversed_in_simps [simp]:
  "\<not> reversed_in [] r" "reversed_in (als @ [a]) r \<longleftrightarrow> reversed_in als r \<or> al_entry a = Reverse_Of r"
  by (simp_all add: reversed_in_def)

lemma col_sum_append [simp]: "col_sum f (xs @ ys) = col_sum f xs + col_sum f ys"
  by (induction xs) auto

lemma net_simps [simp]: "net p [] = 0" "net p (als @ [a]) = net p als + (if p a then signed a else 0)"
  by (simp_all add: net_def)

lemma history_ids: "history als \<Longrightarrow> distinct (map al_id als)"
  by (induction rule: history.induct) auto

lemma history_targets: "history als \<Longrightarrow> reversed_in als r \<Longrightarrow> r \<in> al_id ` set als"
  by (induction rule: history.induct) (auto simp: image_iff)

lemma history_same_tenant:
  "history als \<Longrightarrow> c \<in> set als \<Longrightarrow> al_entry c = Reverse_Of r \<Longrightarrow> \<exists>b \<in> set als. al_id b = r \<and> al_entry b = Apply \<and> al_tenant b = al_tenant c"
  by (induction rule: history.induct) auto

lemma col_sum_without:
  "distinct (map k xs) \<Longrightarrow> b \<in> set xs \<Longrightarrow> Q b \<Longrightarrow> col_sum f (filter (\<lambda>x. Q x \<and> k x \<noteq> k b) xs) = col_sum f (filter Q xs) - f b"
proof (induction xs)
  case (Cons x xs)
  show ?case
  proof (cases "x = b")
    case True
    then have "filter (\<lambda>x. Q x \<and> k x \<noteq> k b) xs = filter Q xs"
      using Cons.prems by (intro filter_cong) (auto simp: image_iff)
    then show ?thesis using True Cons.prems by simp
  next
    case False
    then have "k x \<noteq> k b" "b \<in> set xs" using Cons.prems by (auto simp: image_iff)
    then show ?thesis using Cons by simp
  qed
qed simp

text \<open>A predicate on allocations is a scope when it looks at the tenant, the bill and the transaction only.\<close>

definition scope :: "(alloc \<Rightarrow> bool) \<Rightarrow> bool" where
  "scope p \<longleftrightarrow> (\<forall>a b. al_tenant a = al_tenant b \<longrightarrow> al_bill a = al_bill b \<longrightarrow> al_tx a = al_tx b \<longrightarrow> p a = p b)"

lemma scope_on [simp]: "scope (on_bill t b)" "scope (on_tx t x)"
  by (simp_all add: scope_def on_bill_def on_tx_def)

text \<open>What is allocated is the sum of the applied entries that were not reversed.\<close>

lemma net_live:
  assumes "history als" "scope p"
  shows "net p als = col_sum al_amount (filter (\<lambda>a. p a \<and> live als a) als)"
  using assms
proof (induction rule: history.induct)
  case (Applied als a)
  have "\<not> reversed_in als (al_id a)" using history_targets Applied.hyps(1,2) by blast
  moreover have "filter (\<lambda>c. p c \<and> live (als @ [a]) c) als = filter (\<lambda>c. p c \<and> live als c) als"
    using Applied.hyps by (simp add: live_def)
  ultimately show ?case using Applied by (simp add: live_def signed_def)
next
  case (Reversed als a b)
  have pb: "p b = p a" using \<open>scope p\<close> Reversed.hyps unfolding scope_def by blast
  have eq: "filter (\<lambda>c. p c \<and> live (als @ [a]) c) als = filter (\<lambda>c. (p c \<and> live als c) \<and> al_id c \<noteq> al_id b) als"
    using Reversed.hyps by (intro filter_cong) (auto simp: live_def)
  have live_b: "live als b" using Reversed.hyps by (simp add: live_def)
  have dist: "distinct (map al_id als)" using history_ids[OF Reversed.hyps(1)] .
  have "col_sum al_amount (filter (\<lambda>c. (p c \<and> live als c) \<and> al_id c \<noteq> al_id b) als) =
      col_sum al_amount (filter (\<lambda>c. p c \<and> live als c) als) - (if p a then al_amount a else 0)"
  proof (cases "p a")
    case True
    then show ?thesis using col_sum_without[OF dist Reversed.hyps(5), of "\<lambda>c. p c \<and> live als c" al_amount] pb live_b Reversed.hyps
      by simp
  next
    case False
    then have "filter (\<lambda>c. (p c \<and> live als c) \<and> al_id c \<noteq> al_id b) als = filter (\<lambda>c. p c \<and> live als c) als"
      using pb dist Reversed.hyps(5) by (intro filter_cong) (auto dest: distinct_key_unique[of al_id als])
    then show ?thesis using False by simp
  qed
  moreover have "\<not> live (als @ [a]) a" using Reversed.hyps by (simp add: live_def)
  ultimately show ?case using Reversed eq by (simp add: signed_def)
qed simp

lemma history_pos: "history als \<Longrightarrow> a \<in> set als \<Longrightarrow> 0 < al_amount a"
  by (induction rule: history.induct) auto

lemma net_nonneg: "history als \<Longrightarrow> scope p \<Longrightarrow> 0 \<le> net p als"
  unfolding net_live by (rule col_sum_nonneg) (auto dest: history_pos)


section \<open>The insert keeps the table a history\<close>

lemma bill_of_SomeD: "bill_of bills t b = Some c \<Longrightarrow> c \<in> set bills \<and> bl_id c = b \<and> bl_tenant c = t"
  unfolding bill_of_def by (drule find_SomeD) simp

lemma tx_of_SomeD: "tx_of txs t x = Some y \<Longrightarrow> y \<in> set txs \<and> tx_id y = x \<and> tx_tenant y = t"
  unfolding tx_of_def by (drule find_SomeD) simp

lemma bill_of_eq: "distinct (map bl_id bills) \<Longrightarrow> c \<in> set bills \<Longrightarrow> bill_of bills (bl_tenant c) (bl_id c) = Some c"
proof -
  assume d: "distinct (map bl_id bills)" and c: "c \<in> set bills"
  then obtain e where e: "bill_of bills (bl_tenant c) (bl_id c) = Some e"
    unfolding bill_of_def by (cases "find (\<lambda>x. bl_id x = bl_id c \<and> bl_tenant x = bl_tenant c) bills") (auto dest: find_NoneD)
  then have "e = c" using d c by (intro distinct_key_unique[of bl_id bills]) (auto dest: bill_of_SomeD)
  with e show ?thesis by simp
qed

lemma tx_of_eq: "distinct (map tx_id txs) \<Longrightarrow> y \<in> set txs \<Longrightarrow> tx_of txs (tx_tenant y) (tx_id y) = Some y"
proof -
  assume d: "distinct (map tx_id txs)" and y: "y \<in> set txs"
  then obtain e where e: "tx_of txs (tx_tenant y) (tx_id y) = Some e"
    unfolding tx_of_def by (cases "find (\<lambda>x. tx_id x = tx_id y \<and> tx_tenant x = tx_tenant y) txs") (auto dest: find_NoneD)
  then have "e = y" using d y by (intro distinct_key_unique[of tx_id txs]) (auto dest: tx_of_SomeD)
  with e show ?thesis by simp
qed

lemma apply_guard_None:
  assumes "apply_guard sd bills txs als a = None"
  obtains c y where "bill_of bills (al_tenant a) (al_bill a) = Some c" "bl_open c"
    "tx_of txs (al_tenant a) (al_tx a) = Some y" "fits sd (tx_amount y)"
    "net (on_bill (al_tenant a) (al_bill a)) als + al_amount a \<le> bl_total c"
    "net (on_tx (al_tenant a) (al_tx a)) als + al_amount a \<le> room sd (tx_amount y)"
  using assms by (auto simp: apply_guard_def Let_def split: option.splits if_splits)

text \<open>The two ways an insert succeeds.\<close>

lemma insert_alloc_cases:
  obtains f where "insert_alloc sd bills txs a als = (Some f, als)"
  | "insert_alloc sd bills txs a als = (None, als @ [a])" "al_entry a = Apply" "apply_guard sd bills txs als a = None"
      "0 < al_amount a" "al_id a \<notin> al_id ` set als"
  | b where "insert_alloc sd bills txs a als = (None, als @ [a])" "al_entry a = Reverse_Of (al_id b)" "b \<in> set als"
      "al_entry b = Apply" "al_tenant b = al_tenant a" "al_bill b = al_bill a" "al_tx b = al_tx a" "al_amount b = al_amount a"
      "0 < al_amount a" "al_id a \<notin> al_id ` set als"
      "\<not> list_ex (\<lambda>c. al_tenant c = al_tenant a \<and> al_entry c = al_entry a) als"
proof (cases "fst (insert_alloc sd bills txs a als)")
  case None
  then have r: "insert_alloc sd bills txs a als = (None, als @ [a])" "\<not> breaks_constraint als a"
    by (auto simp: insert_alloc_def split: option.splits if_splits)
  show ?thesis
  proof (cases "al_entry a")
    case Apply
    then have "apply_guard sd bills txs als a = None" using None by (auto simp: insert_alloc_def split: option.splits)
    with Apply r that(2) show ?thesis by (simp add: breaks_constraint_def)
  next
    case (Reverse_Of q)
    then have "reverse_guard q als a = None" using None by (auto simp: insert_alloc_def split: option.splits)
    then obtain b where "b \<in> set als" "al_id b = q" "al_tenant b = al_tenant a" "al_bill b = al_bill a" "al_tx b = al_tx a"
        "al_amount b = al_amount a" "al_entry b = Apply"
      by (auto simp: reverse_guard_def list_ex_iff split: if_splits)
    with Reverse_Of r that(3)[of b] show ?thesis by (simp add: breaks_constraint_def)
  qed
next
  case (Some f)
  then have "insert_alloc sd bills txs a als = (Some f, als)"
    by (auto simp: insert_alloc_def split: option.splits if_splits)
  then show ?thesis by (rule that(1))
qed

lemma history_insert: "history als \<Longrightarrow> history (snd (insert_alloc sd bills txs a als))"
proof (cases rule: insert_alloc_cases[of sd bills txs a als])
  case (3 b)
  assume h: "history als"
  have "\<not> reversed_in als (al_id b)"
  proof
    assume "reversed_in als (al_id b)"
    then obtain c where c: "c \<in> set als" "al_entry c = Reverse_Of (al_id b)" by (auto simp: reversed_in_def list_ex_iff)
    obtain d where "d \<in> set als" "al_id d = al_id b" "al_tenant d = al_tenant c"
      using history_same_tenant[OF h c] by blast
    then have "d = b" using history_ids[OF h] 3(3) by (intro distinct_key_unique[of al_id als]) simp_all
    then show False using c 3(2,5,11) \<open>al_tenant d = al_tenant c\<close> by (auto simp: list_ex_iff)
  qed
  with 3 h show ?thesis by (auto intro: history.Reversed)
qed (auto intro: history.Applied)

section \<open>The books\<close>

record 'a books =
  bk_bills :: "'a bill_scheme list"
  bk_txs :: "fin_tx list"
  bk_allocs :: "alloc list"

text \<open>No bill is settled beyond its total, no transaction spent beyond its amount.\<close>

definition within_bounds :: "side \<Rightarrow> 'a books \<Rightarrow> bool" where
  "within_bounds sd bk \<longleftrightarrow>
     list_all (\<lambda>b. net (on_bill (bl_tenant b) (bl_id b)) (bk_allocs bk) \<le> bl_total b) (bk_bills bk) \<and>
     list_all (\<lambda>x. net (on_tx (tx_tenant x) (tx_id x)) (bk_allocs bk) \<le> (if fits sd (tx_amount x) then room sd (tx_amount x) else 0)) (bk_txs bk)"

definition closed_bill :: "string \<Rightarrow> string \<Rightarrow> 'a bill_scheme list \<Rightarrow> 'a bill_scheme list" where
  "closed_bill t b = update_where (\<lambda>x. bl_id x = b \<and> bl_tenant x = t \<and> bl_open x) (\<lambda>x. x\<lparr>bl_open := False\<rparr>)"

text \<open>Each statement that writes the tables is a step: a request that made its checks earlier and meets a
  changed database is covered.\<close>

inductive books_step :: "side \<Rightarrow> 'a books \<Rightarrow> 'a books \<Rightarrow> bool" for sd where
  Issue: "bl_id b \<notin> bl_id ` set (bk_bills bk) \<Longrightarrow> 0 < bl_total b \<Longrightarrow> bl_open b \<Longrightarrow>
    books_step sd bk (bk\<lparr>bk_bills := bk_bills bk @ [b]\<rparr>)"
| Post: "tx_id x \<notin> tx_id ` set (bk_txs bk) \<Longrightarrow> books_step sd bk (bk\<lparr>bk_txs := bk_txs bk @ [x]\<rparr>)"
| Insert: "books_step sd bk (bk\<lparr>bk_allocs := snd (insert_alloc sd (bk_bills bk) (bk_txs bk) a (bk_allocs bk))\<rparr>)"
| Close: "books_step sd bk (bk\<lparr>bk_bills := closed_bill t b (bk_bills bk)\<rparr>)"

definition no_books :: "'a books" where
  "no_books = \<lparr>bk_bills = [], bk_txs = [], bk_allocs = []\<rparr>"

definition books_reach :: "side \<Rightarrow> 'a books \<Rightarrow> bool" where
  "books_reach sd bk \<longleftrightarrow> (books_step sd)\<^sup>*\<^sup>* no_books bk"

text \<open>Allocations name a bill and a transaction of their tenant.\<close>

definition refers :: "'a books \<Rightarrow> bool" where
  "refers bk \<longleftrightarrow> (\<forall>a \<in> set (bk_allocs bk). bill_of (bk_bills bk) (al_tenant a) (al_bill a) \<noteq> None \<and> tx_of (bk_txs bk) (al_tenant a) (al_tx a) \<noteq> None)"

definition books_inv :: "side \<Rightarrow> 'a books \<Rightarrow> bool" where
  "books_inv sd bk \<longleftrightarrow> distinct (map bl_id (bk_bills bk)) \<and> distinct (map tx_id (bk_txs bk)) \<and>
     history (bk_allocs bk) \<and> refers bk \<and> within_bounds sd bk"

lemma net_zero: "(\<And>a. a \<in> set als \<Longrightarrow> \<not> p a) \<Longrightarrow> net p als = 0"
  by (simp add: net_def filter_False)

lemma find_append: "find p (xs @ ys) = (case find p xs of None \<Rightarrow> find p ys | Some x \<Rightarrow> Some x)"
  by (induction xs) auto

lemma find_append_Some: "find p xs = Some x \<Longrightarrow> find p (xs @ ys) = Some x"
  by (induction xs) (auto split: if_splits)

lemma find_snoc_not_None: "find p xs \<noteq> None \<Longrightarrow> find p (xs @ ys) \<noteq> None"
  by (induction xs) auto

lemma unreferred_bill:
  "refers bk \<Longrightarrow> bl_id b \<notin> bl_id ` set (bk_bills bk) \<Longrightarrow> net (on_bill (bl_tenant b) (bl_id b)) (bk_allocs bk) = 0"
  by (rule net_zero) (force simp: refers_def on_bill_def dest!: bspec bill_of_SomeD)

lemma unreferred_tx:
  "refers bk \<Longrightarrow> tx_id x \<notin> tx_id ` set (bk_txs bk) \<Longrightarrow> net (on_tx (tx_tenant x) (tx_id x)) (bk_allocs bk) = 0"
  by (rule net_zero) (force simp: refers_def on_tx_def dest!: bspec tx_of_SomeD)

lemma room_nonneg: "fits sd m \<Longrightarrow> 0 \<le> room sd m"
  by (cases sd) auto

lemma closed_bill_keys [simp]:
  "map bl_id (closed_bill t b bs) = map bl_id bs"
  unfolding closed_bill_def by (rule map_update_where) simp

lemma closed_bill_all:
  "(\<And>x. P (x\<lparr>bl_open := False\<rparr>) = P x) \<Longrightarrow> list_all P (closed_bill t b bs) = list_all P bs"
  by (induction bs) (auto simp: closed_bill_def)

lemma closed_bill_of: "bill_of (closed_bill t b bs) t' b' \<noteq> None \<longleftrightarrow> bill_of bs t' b' \<noteq> None"
  by (induction bs) (auto simp: closed_bill_def bill_of_def)

lemma refers_more:
  "refers bk \<Longrightarrow> refers (bk\<lparr>bk_bills := bk_bills bk @ bs\<rparr>)" "refers bk \<Longrightarrow> refers (bk\<lparr>bk_txs := bk_txs bk @ xs\<rparr>)"
  by (simp_all add: refers_def bill_of_def tx_of_def find_snoc_not_None del: not_None_eq)

lemma inv_issue:
  assumes "books_inv sd bk" "bl_id b \<notin> bl_id ` set (bk_bills bk)" "0 < bl_total b"
  shows "books_inv sd (bk\<lparr>bk_bills := bk_bills bk @ [b]\<rparr>)"
proof -
  have "within_bounds sd (bk\<lparr>bk_bills := bk_bills bk @ [b]\<rparr>)"
    using assms unreferred_bill[of bk b] by (simp add: books_inv_def within_bounds_def)
  then show ?thesis using assms by (simp add: books_inv_def refers_more)
qed

lemma inv_post:
  assumes "books_inv sd bk" "tx_id x \<notin> tx_id ` set (bk_txs bk)"
  shows "books_inv sd (bk\<lparr>bk_txs := bk_txs bk @ [x]\<rparr>)"
proof -
  have "within_bounds sd (bk\<lparr>bk_txs := bk_txs bk @ [x]\<rparr>)"
    using assms unreferred_tx[of bk x] by (simp add: books_inv_def within_bounds_def room_nonneg)
  then show ?thesis using assms by (simp add: books_inv_def refers_more)
qed

lemma inv_close: "books_inv sd bk \<Longrightarrow> books_inv sd (bk\<lparr>bk_bills := closed_bill t b (bk_bills bk)\<rparr>)"
  by (simp add: books_inv_def within_bounds_def refers_def closed_bill_all closed_bill_of del: not_None_eq)

text \<open>A bound on the allocations of a scope survives an insert that respects it.\<close>

lemma within_bounds_less:
  assumes "within_bounds sd bk" "\<And>p. net p als \<le> net p (bk_allocs bk)"
  shows "within_bounds sd (bk\<lparr>bk_allocs := als\<rparr>)"
proof -
  have "net p als \<le> k" if "net p (bk_allocs bk) \<le> k" for p k using assms(2)[of p] that by linarith
  then show ?thesis using assms(1) by (simp add: within_bounds_def list_all_iff)
qed

lemma inv_insert:
  assumes inv: "books_inv sd bk"
  shows "books_inv sd (bk\<lparr>bk_allocs := snd (insert_alloc sd (bk_bills bk) (bk_txs bk) a (bk_allocs bk))\<rparr>)"
proof (cases rule: insert_alloc_cases[of sd "bk_bills bk" "bk_txs bk" a "bk_allocs bk"])
  case 2
  obtain c y where g: "bill_of (bk_bills bk) (al_tenant a) (al_bill a) = Some c"
      "tx_of (bk_txs bk) (al_tenant a) (al_tx a) = Some y" "fits sd (tx_amount y)"
      "net (on_bill (al_tenant a) (al_bill a)) (bk_allocs bk) + al_amount a \<le> bl_total c"
      "net (on_tx (al_tenant a) (al_tx a)) (bk_allocs bk) + al_amount a \<le> room sd (tx_amount y)"
    using 2(3) by (rule apply_guard_None)
  have "net (on_bill (bl_tenant b) (bl_id b)) (bk_allocs bk @ [a]) \<le> bl_total b" if "b \<in> set (bk_bills bk)" for b
    using that inv g 2(2) bill_of_eq[of "bk_bills bk" b]
    by (auto simp: books_inv_def within_bounds_def list_all_iff signed_def on_bill_def)
  moreover have "net (on_tx (tx_tenant x) (tx_id x)) (bk_allocs bk @ [a]) \<le> (if fits sd (tx_amount x) then room sd (tx_amount x) else 0)"
    if "x \<in> set (bk_txs bk)" for x
    using that inv g 2(2) tx_of_eq[of "bk_txs bk" x]
    by (auto simp: books_inv_def within_bounds_def list_all_iff signed_def on_tx_def split: if_splits)
  ultimately have "within_bounds sd (bk\<lparr>bk_allocs := bk_allocs bk @ [a]\<rparr>)"
    unfolding within_bounds_def list_all_iff by (simp del: net_simps)
  moreover have "history (bk_allocs bk @ [a])"
    using history_insert[of "bk_allocs bk" sd "bk_bills bk" "bk_txs bk" a] inv 2(1) by (simp add: books_inv_def)
  ultimately show ?thesis using inv g 2(1) by (auto simp: books_inv_def refers_def)
next
  case (3 b)
  have "net p (bk_allocs bk @ [a]) \<le> net p (bk_allocs bk)" for p
    using 3(2,9) by (simp add: signed_def)
  then have "within_bounds sd (bk\<lparr>bk_allocs := bk_allocs bk @ [a]\<rparr>)"
    using inv by (intro within_bounds_less) (simp_all add: books_inv_def)
  moreover have "history (bk_allocs bk @ [a])"
    using history_insert[of "bk_allocs bk" sd "bk_bills bk" "bk_txs bk" a] inv 3(1) by (simp add: books_inv_def)
  moreover have "refers (bk\<lparr>bk_allocs := bk_allocs bk @ [a]\<rparr>)"
    using inv 3(3,5,6,7) by (fastforce simp: books_inv_def refers_def)
  ultimately show ?thesis using inv 3(1) by (simp add: books_inv_def)
qed (simp add: inv)

lemma inv_books_step: "books_step sd bk bk' \<Longrightarrow> books_inv sd bk \<Longrightarrow> books_inv sd bk'"
  by (induction rule: books_step.induct) (auto intro: inv_issue inv_post inv_close inv_insert)

lemma inv_books_steps: "(books_step sd)\<^sup>*\<^sup>* bk bk' \<Longrightarrow> books_inv sd bk \<Longrightarrow> books_inv sd bk'"
  by (induction rule: rtranclp_induct) (auto intro: inv_books_step)

lemma inv_books_reach: "books_reach sd bk \<Longrightarrow> books_inv sd bk"
  unfolding books_reach_def
  by (rule inv_books_steps) (auto simp: books_inv_def no_books_def history.Empty within_bounds_def refers_def)

end
