(* ===== verification/FinanceReceivables.thy ===== *)
theory FinanceReceivables imports Allocations begin

text \<open>
  The customer invoices of \<^verbatim>\<open>finance-receivables.js\<close>: creating customers and invoices, settling an
  invoice with a recorded inflow, taking a settlement back, voiding, and the summaries other parts of
  the platform read. A handler answers with a status and a body, or throws. New ids, the hash function,
  the reading of dates, the business date and the date arithmetic of the database are supplied.
\<close>

section \<open>Requests, answers and state\<close>

definition integer :: "jsval \<Rightarrow> int option" where
  "integer v = (case to_num v of Fin q \<Rightarrow> if is_safe_integer (Fin q) then Some \<lfloor>q\<rfloor> else None | _ \<Rightarrow> None)"

definition validDate :: "date_parse \<Rightarrow> string \<Rightarrow> bool" where
  "validDate dp value = (let v = take 10 (trim value) in date_shape v \<and>
     (case dp (v @ ''T00:00:00Z'') of None \<Rightarrow> False | Some t \<Rightarrow> take 10 (iso_text t) = v))"

datatype reply = Reply nat jsval | Throws

definition fail :: "string \<Rightarrow> nat \<Rightarrow> reply" where
  "fail e status = Reply status (JObj [(''error'', JStr e)])"

fun status_of :: "reply \<Rightarrow> nat option" where
  "status_of (Reply n _) = Some n"
| "status_of Throws = None"

record customer =
  cu_id :: string
  cu_tenant :: string
  cu_code :: "string option"
  cu_name :: string
  cu_active :: bool

text \<open>The lineage entries and audit events a handler writes, as tenant, event, entity and payload.\<close>

record ledger_event =
  ev_tenant :: string
  ev_type :: string
  ev_entity :: string
  ev_payload :: jsval

record ar_db =
  fd_customers :: "customer list"
  fd_invoices :: "bill list"
  fd_allocs :: "alloc list"
  fd_txs :: "fin_tx list"
  fd_events :: "ledger_event list"

definition record_event :: "string \<Rightarrow> string \<Rightarrow> string \<Rightarrow> jsval \<Rightarrow> 'a ar_db_scheme \<Rightarrow> 'a ar_db_scheme" where
  "record_event t ty e p db = db\<lparr>fd_events := fd_events db @ [\<lparr>ev_tenant = t, ev_type = ty, ev_entity = e, ev_payload = p\<rparr>]\<rparr>"

definition customer_of :: "customer list \<Rightarrow> string \<Rightarrow> string \<Rightarrow> customer option" where
  "customer_of cs t c = find (\<lambda>x. cu_id x = c \<and> cu_tenant x = t) cs"

section \<open>Customers and invoices\<close>

definition createCustomer :: "string \<Rightarrow> jsval \<Rightarrow> string \<Rightarrow> 'a ar_db_scheme \<Rightarrow> reply \<times> 'a ar_db_scheme" where
  "createCustomer t body new_id db =
    (let name = text_of (fld body ''name'') 160; code = text_of (fld body ''customerCode'') 80;
         row = \<lparr>cu_id = new_id, cu_tenant = t, cu_code = (if code = [] then None else Some code), cu_name = name, cu_active = True\<rparr>
     in if length name < 2 then (fail ''customer_name_required'' 400, db)
        else if list_ex (\<lambda>c. cu_id c = new_id \<or> (cu_tenant c = t \<and> cu_code c \<noteq> None \<and> cu_code c = cu_code row)) (fd_customers db)
        then (fail ''finance_customer_code_exists'' 409, db)
        else (Reply 201 (JObj [(''ok'', JBool True), (''id'', JStr new_id), (''customerCode'', or_null code), (''name'', JStr name),
                (''status'', JStr ''active'')]),
              record_event t ''CUSTOMER_CREATED'' new_id (JObj [(''customerCode'', or_null code), (''name'', JStr name), (''status'', JStr ''active'')])
                (db\<lparr>fd_customers := fd_customers db @ [row]\<rparr>)))"

text \<open>The constraints of the table and the trigger on the customer, at the insert of an invoice.\<close>

definition invoice_conflict :: "'a ar_db_scheme \<Rightarrow> bill \<Rightarrow> bool" where
  "invoice_conflict db b \<longleftrightarrow>
     list_ex (\<lambda>c. bl_id c = bl_id b \<or> (bl_tenant c = bl_tenant b \<and> bl_number c = bl_number b)) (fd_invoices db)"

definition createInvoice :: "date_parse \<Rightarrow> string \<Rightarrow> jsval \<Rightarrow> string \<Rightarrow> 'a ar_db_scheme \<Rightarrow> reply \<times> 'a ar_db_scheme" where
  "createInvoice dp t body new_id db =
    (let customerId = text_of (fld body ''customerId'') 64; invoiceNumber = text_of (fld body ''invoiceNumber'') 80;
         issuedOn = text_of (fld body ''issuedOn'') 10; dueOn = text_of (fld body ''dueOn'') 10;
         description = text_of (fld body ''description'') 500; totalMinor = integer (fld body ''totalMinor'')
     in if invoiceNumber = [] then (fail ''invoice_number_required'' 400, db)
        else if \<not> validDate dp issuedOn \<or> \<not> validDate dp dueOn \<or> dueOn < issuedOn then (fail ''invalid_invoice_dates'' 400, db)
        else (case totalMinor of None \<Rightarrow> (fail ''invalid_invoice_total_minor'' 400, db)
          | Some amount \<Rightarrow>
              if amount \<le> 0 then (fail ''invalid_invoice_total_minor'' 400, db)
              else (case find (\<lambda>c. cu_id c = customerId \<and> cu_tenant c = t \<and> cu_active c) (fd_customers db) of
                  None \<Rightarrow> (fail ''finance_customer_not_found'' 404, db)
                | Some c \<Rightarrow>
                    (let b = \<lparr>bl_id = new_id, bl_tenant = t, bl_party = customerId, bl_number = invoiceNumber, bl_issued = issuedOn,
                               bl_due = dueOn, bl_description = description, bl_total = amount, bl_open = True\<rparr>
                     in if invoice_conflict db b then (fail ''finance_invoice_exists_or_invalid'' 409, db)
                        else (Reply 201 (JObj [(''ok'', JBool True), (''id'', JStr new_id), (''customerId'', JStr customerId),
                                (''customerName'', JStr (cu_name c)), (''invoiceNumber'', JStr invoiceNumber), (''issuedOn'', JStr issuedOn),
                                (''dueOn'', JStr dueOn), (''totalMinor'', JInt amount), (''outstandingMinor'', JInt amount),
                                (''currency'', JStr ''BWP''), (''status'', JStr ''issued'')]),
                              record_event t ''INVOICE_ISSUED'' new_id (JObj [(''customerId'', JStr customerId), (''invoiceNumber'', JStr invoiceNumber),
                                  (''issuedOn'', JStr issuedOn), (''dueOn'', JStr dueOn), (''totalMinor'', JInt amount), (''currency'', JStr ''BWP'')])
                                (db\<lparr>fd_invoices := fd_invoices db @ [b]\<rparr>))))))"

section \<open>Settling, reversing, voiding\<close>

definition invoiceDetail :: "'a ar_db_scheme \<Rightarrow> string \<Rightarrow> string \<Rightarrow> (bill \<times> int) option" where
  "invoiceDetail db t invoiceId =
    (case bill_of (fd_invoices db) t invoiceId of None \<Rightarrow> None
     | Some b \<Rightarrow> if customer_of (fd_customers db) t (bl_party b) = None then None
                 else Some (b, net (on_bill t invoiceId) (fd_allocs db)))"

definition allocation_id :: "(string \<Rightarrow> string) \<Rightarrow> string list \<Rightarrow> string" where
  "allocation_id sha parts = take 64 (sha (json (JArr (map JStr parts))))"

definition alloc_at :: "alloc list \<Rightarrow> string \<Rightarrow> string \<Rightarrow> alloc option" where
  "alloc_at als t a = find (\<lambda>x. al_id x = a \<and> al_tenant x = t) als"

definition reversal_at :: "alloc list \<Rightarrow> string \<Rightarrow> string \<Rightarrow> alloc option" where
  "reversal_at als t r = find (\<lambda>x. al_tenant x = t \<and> al_entry x = Reverse_Of r) als"

definition outstanding_after :: "(bill \<times> int) option \<Rightarrow> int" where
  "outstanding_after d = (case d of None \<Rightarrow> 0 | Some (b, k) \<Rightarrow> max 0 (bl_total b - k))"

text \<open>The part of the handler after its checks: the replay of a known key, else the guarded insert.\<close>

definition settle_invoice :: "fin_tx \<Rightarrow> alloc \<Rightarrow> 'a ar_db_scheme \<Rightarrow> reply \<times> 'a ar_db_scheme" where
  "settle_invoice tx a db =
    (let body = [(''ok'', JBool True), (''id'', JStr (al_id a)), (''invoiceId'', JStr (al_bill a)), (''transactionId'', JStr (al_tx a)),
           (''amountMinor'', JInt (al_amount a)), (''currency'', JStr ''BWP'')]
     in case alloc_at (fd_allocs db) (al_tenant a) (al_id a) of
       Some e \<Rightarrow>
         (if al_bill e \<noteq> al_bill a \<or> al_tx e \<noteq> al_tx a \<or> al_amount e \<noteq> al_amount a \<or> al_entry e \<noteq> Apply
          then (fail ''idempotency_key_conflict'' 409, db)
          else (Reply 200 (JObj (body @ [(''replayed'', JBool True)])), db))
     | None \<Rightarrow>
         (case insert_alloc Inflow (fd_invoices db) (fd_txs db) a (fd_allocs db) of
            (Some Bill_Exceeded, _) \<Rightarrow> (fail ''finance_invoice_overallocation'' 409, db)
          | (Some Tx_Exceeded, _) \<Rightarrow> (fail ''finance_transaction_overallocation'' 409, db)
          | (Some Bill_Closed, _) \<Rightarrow> (fail ''finance_allocation_scope_invalid'' 409, db)
          | (Some Tx_Refused, _) \<Rightarrow> (fail ''finance_allocation_scope_invalid'' 409, db)
          | (Some _, _) \<Rightarrow> (Throws, db)
          | (None, als) \<Rightarrow>
              (let db1 = record_event (al_tenant a) ''INVOICE_PAYMENT_ALLOCATED'' (al_id a) (JObj [(''invoiceId'', JStr (al_bill a)),
                     (''transactionId'', JStr (al_tx a)), (''amountMinor'', JInt (al_amount a)),
                     (''transactionPostedOn'', JStr (tx_posted tx)), (''currency'', JStr ''BWP'')]) (db\<lparr>fd_allocs := als\<rparr>)
               in (Reply 201 (JObj (body @ [(''invoiceOutstandingMinor'',
                     JInt (outstanding_after (invoiceDetail db1 (al_tenant a) (al_bill a))))])), db1))))"

text \<open>\<open>header\<close> is the request's idempotency header, null when it is absent.\<close>

definition allocateInvoice ::
    "(string \<Rightarrow> string) \<Rightarrow> string \<Rightarrow> string \<Rightarrow> jsval \<Rightarrow> jsval \<Rightarrow> 'a ar_db_scheme \<Rightarrow> reply \<times> 'a ar_db_scheme" where
  "allocateInvoice sha t invoiceId header body db =
    (let transactionId = text_of (fld body ''transactionId'') 64; amountMinor = integer (fld body ''amountMinor'');
         key = text_of (jor header (fld body ''idempotencyKey'')) 120
     in if transactionId = [] then (fail ''finance_transaction_id_required'' 400, db)
        else (case amountMinor of None \<Rightarrow> (fail ''invalid_allocation_amount_minor'' 400, db)
          | Some amount \<Rightarrow>
              if amount \<le> 0 then (fail ''invalid_allocation_amount_minor'' 400, db)
              else if length key < 8 then (fail ''idempotency_key_required'' 400, db)
              else (case invoiceDetail db t invoiceId of None \<Rightarrow> (fail ''finance_invoice_not_allocatable'' 404, db)
                | Some (invoice, _) \<Rightarrow>
                    if \<not> bl_open invoice then (fail ''finance_invoice_not_allocatable'' 404, db)
                    else (case find (\<lambda>x. tx_id x = transactionId \<and> tx_tenant x = t \<and> 0 < tx_amount x) (fd_txs db) of
                        None \<Rightarrow> (fail ''finance_transaction_not_allocatable'' 404, db)
                      | Some tx \<Rightarrow> settle_invoice tx \<lparr>al_id = allocation_id sha [t, invoiceId, transactionId, key], al_tenant = t,
                          al_bill = invoiceId, al_tx = transactionId, al_amount = amount, al_entry = Apply\<rparr> db))))"

definition reverseAllocation ::
    "(string \<Rightarrow> string) \<Rightarrow> string \<Rightarrow> string \<Rightarrow> string \<Rightarrow> 'a ar_db_scheme \<Rightarrow> reply \<times> 'a ar_db_scheme" where
  "reverseAllocation sha t invoiceId allocationId db =
    (let replay = (\<lambda>r. Reply 200 (JObj [(''ok'', JBool True), (''id'', JStr (al_id r)), (''reversesAllocationId'', JStr allocationId),
                          (''replayed'', JBool True)]))
     in case find (\<lambda>x. al_id x = allocationId \<and> al_tenant x = t \<and> al_bill x = invoiceId) (fd_allocs db) of
       None \<Rightarrow> (fail ''finance_allocation_not_found'' 404, db)
     | Some original \<Rightarrow>
         if al_entry original \<noteq> Apply then (fail ''finance_allocation_not_found'' 404, db)
         else (case reversal_at (fd_allocs db) t allocationId of
             Some r \<Rightarrow> (replay r, db)
           | None \<Rightarrow>
               (let reversalId = allocation_id sha [t, allocationId, ''reverse''];
                    a = \<lparr>al_id = reversalId, al_tenant = t, al_bill = invoiceId, al_tx = al_tx original, al_amount = al_amount original,
                          al_entry = Reverse_Of allocationId\<rparr>
                in case insert_alloc Inflow (fd_invoices db) (fd_txs db) a (fd_allocs db) of
                     (Some _, _) \<Rightarrow>
                       (case reversal_at (fd_allocs db) t allocationId of
                          Some r \<Rightarrow> (replay r, db) | None \<Rightarrow> (Throws, db))
                   | (None, als) \<Rightarrow>
                       (Reply 201 (JObj [(''ok'', JBool True), (''id'', JStr reversalId), (''reversesAllocationId'', JStr allocationId),
                          (''currency'', JStr ''BWP'')]),
                        record_event t ''INVOICE_PAYMENT_ALLOCATION_REVERSED'' reversalId (JObj [(''invoiceId'', JStr invoiceId),
                          (''transactionId'', JStr (al_tx original)), (''amountMinor'', JInt (al_amount original)),
                          (''reversesAllocationId'', JStr allocationId), (''currency'', JStr ''BWP'')]) (db\<lparr>fd_allocs := als\<rparr>)))))"

text \<open>A void reads first and writes later; the write looks at the status alone.\<close>

definition void_check :: "string \<Rightarrow> string \<Rightarrow> 'a ar_db_scheme \<Rightarrow> reply option" where
  "void_check t invoiceId db =
    (case invoiceDetail db t invoiceId of None \<Rightarrow> Some (fail ''finance_invoice_not_found'' 404)
     | Some (b, k) \<Rightarrow>
         if \<not> bl_open b then Some (Reply 200 (JObj [(''ok'', JBool True), (''id'', JStr invoiceId), (''status'', JStr ''void''), (''replayed'', JBool True)]))
         else if k \<noteq> 0 then Some (fail ''finance_invoice_has_active_allocations'' 409)
         else None)"

definition void_update :: "string \<Rightarrow> string \<Rightarrow> 'a ar_db_scheme \<Rightarrow> reply \<times> 'a ar_db_scheme" where
  "void_update t invoiceId db =
    (case find (\<lambda>b. bl_id b = invoiceId \<and> bl_tenant b = t \<and> bl_open b) (fd_invoices db) of
       None \<Rightarrow> (fail ''finance_invoice_state_conflict'' 409, db)
     | Some b \<Rightarrow> (Reply 200 (JObj [(''ok'', JBool True), (''id'', JStr invoiceId), (''status'', JStr ''void'')]),
         record_event t ''INVOICE_VOIDED'' invoiceId (JObj [(''invoiceNumber'', JStr (bl_number b)), (''totalMinor'', JInt (bl_total b)),
             (''currency'', JStr ''BWP'')])
           (db\<lparr>fd_invoices := closed_bill t invoiceId (fd_invoices db)\<rparr>)))"

definition voidInvoice :: "string \<Rightarrow> string \<Rightarrow> 'a ar_db_scheme \<Rightarrow> reply \<times> 'a ar_db_scheme" where
  "voidInvoice t invoiceId db = (case void_check t invoiceId db of Some r \<Rightarrow> (r, db) | None \<Rightarrow> void_update t invoiceId db)"

section \<open>Open balances\<close>

text \<open>The common table expression of both ledgers: the open bills of a tenant whose party is known and
  which are not settled in full, with what is allocated to them.\<close>

record 'a open_row =
  or_bill :: "'a bill_scheme"
  or_name :: string
  or_allocated :: int

definition outstanding :: "'a open_row \<Rightarrow> int" where
  "outstanding r = bl_total (or_bill r) - or_allocated r"

definition due_on :: "'a open_row \<Rightarrow> string" where
  "due_on r = bl_due (or_bill r)"

definition open_rows :: "string \<Rightarrow> (string \<Rightarrow> string option) \<Rightarrow> 'a bill_scheme list \<Rightarrow> alloc list \<Rightarrow> 'a open_row list" where
  "open_rows t party bills als =
    List.map_filter (\<lambda>b. case party (bl_party b) of
        None \<Rightarrow> None
      | Some name \<Rightarrow> (let k = net (on_bill t (bl_id b)) als in
          if bl_tenant b = t \<and> bl_open b \<and> k < bl_total b then Some \<lparr>or_bill = b, or_name = name, or_allocated = k\<rparr> else None)) bills"

definition row_sum :: "('a open_row \<Rightarrow> bool) \<Rightarrow> 'a open_row list \<Rightarrow> int" where
  "row_sum p rows = col_sum outstanding (filter p rows)"

definition row_count :: "('a open_row \<Rightarrow> bool) \<Rightarrow> 'a open_row list \<Rightarrow> nat" where
  "row_count p rows = length (filter p rows)"

text \<open>\<open>after d k\<close> is the database's \<^verbatim>\<open>date(d,'+k days')\<close>.\<close>

type_synonym date_plus = "string \<Rightarrow> nat \<Rightarrow> string"

definition due_within :: "date_plus \<Rightarrow> string \<Rightarrow> nat \<Rightarrow> 'a open_row \<Rightarrow> bool" where
  "due_within after date k r \<longleftrightarrow> date \<le> due_on r \<and> due_on r \<le> after date k"

definition overdue_at :: "string \<Rightarrow> 'a open_row \<Rightarrow> bool" where
  "overdue_at date r \<longleftrightarrow> due_on r < date"

record balance_totals =
  bt_count :: nat
  bt_outstanding :: int
  bt_overdue_count :: nat
  bt_overdue :: int
  bt_due7 :: int
  bt_due14 :: int
  bt_due30 :: int
  bt_parties :: nat
  bt_overdue_parties :: nat

definition balance_totals_of :: "date_plus \<Rightarrow> string \<Rightarrow> 'a open_row list \<Rightarrow> balance_totals" where
  "balance_totals_of after date rows =
    \<lparr>bt_count = length rows, bt_outstanding = row_sum (\<lambda>_. True) rows,
     bt_overdue_count = row_count (overdue_at date) rows, bt_overdue = row_sum (overdue_at date) rows,
     bt_due7 = row_sum (due_within after date 7) rows, bt_due14 = row_sum (due_within after date 14) rows,
     bt_due30 = row_sum (due_within after date 30) rows,
     bt_parties = length (dedup (map (\<lambda>r. bl_party (or_bill r)) rows)),
     bt_overdue_parties = length (dedup (map (\<lambda>r. bl_party (or_bill r)) (filter (overdue_at date) rows)))\<rparr>"

record party_row =
  pr_id :: string
  pr_name :: string
  pr_count :: nat
  pr_outstanding :: int
  pr_overdue_count :: nat
  pr_overdue :: int
  pr_earliest :: "string option"

fun least_text :: "string list \<Rightarrow> string option" where
  "least_text [] = None"
| "least_text (x # xs) = (case least_text xs of None \<Rightarrow> Some x | Some y \<Rightarrow> Some (min x y))"

definition row_key :: "'a open_row \<Rightarrow> string \<times> string" where
  "row_key r = (bl_party (or_bill r), or_name r)"

definition party_row_of :: "string \<Rightarrow> 'a open_row list \<Rightarrow> string \<times> string \<Rightarrow> party_row" where
  "party_row_of date rows k =
    (let mine = filter (\<lambda>r. row_key r = k) rows
     in \<lparr>pr_id = fst k, pr_name = take 160 (trim (snd k)), pr_count = length mine, pr_outstanding = row_sum (\<lambda>_. True) mine,
         pr_overdue_count = row_count (overdue_at date) mine, pr_overdue = row_sum (overdue_at date) mine,
         pr_earliest = least_text (map due_on mine)\<rparr>)"

text \<open>\<^verbatim>\<open>ORDER BY outstanding_minor DESC, name ASC\<close> over the groups.\<close>

definition group_le :: "'a open_row list \<Rightarrow> string \<times> string \<Rightarrow> string \<times> string \<Rightarrow> bool" where
  "group_le rows a b \<longleftrightarrow>
    (let u = row_sum (\<lambda>r. row_key r = a) rows; v = row_sum (\<lambda>r. row_key r = b) rows in v < u \<or> (v = u \<and> snd a \<le> snd b))"

definition party_groups :: "'a open_row list \<Rightarrow> (string \<times> string) list" where
  "party_groups rows = js_sort (group_le rows) (dedup (map row_key rows))"

text \<open>\<^verbatim>\<open>Math.min(m,Math.max(1,Number(limit)||d))\<close>, the limit absent or a whole number.\<close>

definition capped :: "nat \<Rightarrow> nat \<Rightarrow> int option \<Rightarrow> nat" where
  "capped m d limit = nat (min (int m) (max 1 (case limit of None \<Rightarrow> int d | Some n \<Rightarrow> if n = 0 then int d else n)))"

text \<open>\<^verbatim>\<open>ORDER BY overdue DESC, due_on ASC, outstanding_minor DESC\<close>; ties keep the order of the table.\<close>

definition invoice_le :: "string \<Rightarrow> 'a open_row \<Rightarrow> 'a open_row \<Rightarrow> bool" where
  "invoice_le date a b \<longleftrightarrow>
    (if overdue_at date a \<noteq> overdue_at date b then overdue_at date a
     else due_on a < due_on b \<or> (due_on a = due_on b \<and> outstanding b \<le> outstanding a))"

section \<open>The receivables summary\<close>

record invoice_row =
  iv_id :: string
  iv_customer :: string
  iv_customer_name :: string
  iv_number :: string
  iv_issued :: string
  iv_due :: string
  iv_total :: int
  iv_allocated :: int
  iv_outstanding :: int
  iv_overdue :: bool

definition invoice_row_of :: "string \<Rightarrow> 'a open_row \<Rightarrow> invoice_row" where
  "invoice_row_of date r = (let b = or_bill r in
     \<lparr>iv_id = bl_id b, iv_customer = bl_party b, iv_customer_name = take 160 (trim (or_name r)), iv_number = take 80 (trim (bl_number b)),
      iv_issued = bl_issued b, iv_due = bl_due b, iv_total = bl_total b, iv_allocated = or_allocated r,
      iv_outstanding = outstanding r, iv_overdue = overdue_at date r\<rparr>)"

record receivables_summary =
  rs_date :: string
  rs_totals :: balance_totals
  rs_customers :: "party_row list"
  rs_invoices :: "invoice_row list"

definition open_invoices :: "'a ar_db_scheme \<Rightarrow> string \<Rightarrow> unit open_row list" where
  "open_invoices db t = open_rows t (\<lambda>c. map_option cu_name (customer_of (fd_customers db) t c)) (fd_invoices db) (fd_allocs db)"

definition financeReceivablesSummary ::
    "date_plus \<Rightarrow> string \<Rightarrow> string \<Rightarrow> int option \<Rightarrow> int option \<Rightarrow> 'a ar_db_scheme \<Rightarrow> receivables_summary" where
  "financeReceivablesSummary after businessDate t customerLimit invoiceLimit db =
    (let rows = open_invoices db t
     in \<lparr>rs_date = businessDate, rs_totals = balance_totals_of after businessDate rows,
         rs_customers = map (party_row_of businessDate rows) (take (capped 25 10 customerLimit) (party_groups rows)),
         rs_invoices = map (invoice_row_of businessDate) (take (capped 50 20 invoiceLimit) (js_sort (invoice_le businessDate) rows))\<rparr>)"

section \<open>Daily collections\<close>

record collections =
  dc_date :: string
  dc_inflow :: int
  dc_inflow_count :: nat
  dc_outflow :: int
  dc_outflow_count :: nat
  dc_collected :: int
  dc_collected_count :: nat
  dc_unclassified :: int

definition financeDailyCollections :: "string \<Rightarrow> string \<Rightarrow> 'a ar_db_scheme \<Rightarrow> collections" where
  "financeDailyCollections businessDate t db =
    (let txs = filter (\<lambda>x. tx_tenant x = t \<and> tx_posted x = businessDate) (fd_txs db);
         ins = filter (\<lambda>x. 0 < tx_amount x) txs; outs = filter (\<lambda>x. tx_amount x < 0) txs;
         allocated = (\<lambda>x. net (on_tx t (tx_id x)) (fd_allocs db)); paid = filter (\<lambda>x. 0 < allocated x) txs;
         inflow = col_sum tx_amount ins; collected = col_sum allocated paid
     in \<lparr>dc_date = businessDate, dc_inflow = inflow, dc_inflow_count = length ins, dc_outflow = col_sum (\<lambda>x. \<bar>tx_amount x\<bar>) outs,
         dc_outflow_count = length outs, dc_collected = collected, dc_collected_count = length paid,
         dc_unclassified = max 0 (inflow - collected)\<rparr>)"

section \<open>Looking a customer up\<close>

text \<open>The database's \<^verbatim>\<open>lower\<close> knows the ASCII letters only.\<close>

definition ascii_lower :: "string \<Rightarrow> string" where
  "ascii_lower = map (\<lambda>c. let n = of_char c :: nat in if 65 \<le> n \<and> n \<le> 90 then char_of (n + 32) else c)"

record customer_balance =
  cb_id :: string
  cb_code :: "string option"
  cb_name :: string
  cb_count :: nat
  cb_outstanding :: int
  cb_overdue_count :: nat
  cb_overdue :: int
  cb_earliest :: "string option"
  cb_invoices :: "invoice_row list"

datatype lookup_result =
    Invalid
  | Not_Found string
  | Ambiguous string "(string \<times> string option \<times> string) list"
  | Resolved customer_balance

definition name_id_le :: "customer \<Rightarrow> customer \<Rightarrow> bool" where
  "name_id_le a b \<longleftrightarrow> cu_name a < cu_name b \<or> (cu_name a = cu_name b \<and> cu_id a \<le> cu_id b)"

definition code_text :: "customer \<Rightarrow> string option" where
  "code_text c = (case cu_code c of None \<Rightarrow> None | Some k \<Rightarrow> let s = take 80 (trim k) in if s = [] then None else Some s)"

definition matches_query :: "string \<Rightarrow> string \<Rightarrow> customer \<Rightarrow> bool" where
  "matches_query t query c \<longleftrightarrow> cu_tenant c = t \<and> cu_active c \<and>
     (ascii_lower (cu_name c) = query \<or> ascii_lower (case cu_code c of None \<Rightarrow> [] | Some k \<Rightarrow> k) = query)"

definition financeReceivableCustomerLookup ::
    "string \<Rightarrow> string \<Rightarrow> jsval \<Rightarrow> int option \<Rightarrow> 'a ar_db_scheme \<Rightarrow> lookup_result" where
  "financeReceivableCustomerLookup businessDate t customerQuery invoiceLimit db =
    (let query = lower (text_of customerQuery 160)
     in if length query < 2 then Invalid
        else (case take 3 (js_sort name_id_le (filter (matches_query t query) (fd_customers db))) of
            [] \<Rightarrow> Not_Found query
          | [c] \<Rightarrow>
              (let rows = filter (\<lambda>r. bl_party (or_bill r) = cu_id c) (open_invoices db t)
               in Resolved \<lparr>cb_id = cu_id c, cb_code = code_text c, cb_name = take 160 (trim (cu_name c)), cb_count = length rows,
                    cb_outstanding = row_sum (\<lambda>_. True) rows, cb_overdue_count = row_count (overdue_at businessDate) rows,
                    cb_overdue = row_sum (overdue_at businessDate) rows, cb_earliest = least_text (map due_on rows),
                    cb_invoices = map (invoice_row_of businessDate) (take (capped 50 20 invoiceLimit) (js_sort (invoice_le businessDate) rows))\<rparr>)
          | many \<Rightarrow> Ambiguous query (map (\<lambda>c. (cu_id c, code_text c, take 160 (trim (cu_name c)))) many)))"

section \<open>Routing\<close>

text \<open>The one segment a path has between two fixed parts.\<close>

definition path_arg :: "string list \<Rightarrow> string list \<Rightarrow> string \<Rightarrow> string option" where
  "path_arg pre post p = (let s = split_on (CHR ''/'') p; n = length pre in
     if length s = n + 1 + length post \<and> take n s = pre \<and> drop (n + 1) s = post \<and> s ! n \<noteq> []
     then Some (take 64 (trim (s ! n))) else None)"

definition path_args :: "string list \<Rightarrow> string \<Rightarrow> string \<Rightarrow> string \<Rightarrow> (string \<times> string) option" where
  "path_args pre mid final p = (let s = split_on (CHR ''/'') p; n = length pre in
     if length s = n + 4 \<and> take n s = pre \<and> s ! (n + 1) = mid \<and> s ! (n + 3) = final \<and> s ! n \<noteq> [] \<and> s ! (n + 2) \<noteq> []
     then Some (take 64 (trim (s ! n)), take 64 (trim (s ! (n + 2)))) else None)"

definition invoice_root :: "string list" where
  "invoice_root = [[], ''api'', ''finance'', ''invoices'']"

definition invoiceAllocationPath :: "string \<Rightarrow> string option" where
  "invoiceAllocationPath = path_arg invoice_root [''allocations'']"

definition invoiceAllocationReversePath :: "string \<Rightarrow> (string \<times> string) option" where
  "invoiceAllocationReversePath = path_args invoice_root ''allocations'' ''reverse''"

definition invoiceVoidPath :: "string \<Rightarrow> string option" where
  "invoiceVoidPath = path_arg invoice_root [''void'']"

text \<open>The invoice list, newest first; of rows issued on one day the later insert comes first.\<close>

record invoice_item =
  ii_bill :: bill
  ii_customer_name :: string
  ii_allocated :: int
  ii_outstanding :: int
  ii_overdue :: bool

definition invoice_items :: "string \<Rightarrow> string \<Rightarrow> 'a ar_db_scheme \<Rightarrow> invoice_item list" where
  "invoice_items businessDate t db = List.map_filter (\<lambda>b.
     if bl_tenant b \<noteq> t then None
     else (case customer_of (fd_customers db) t (bl_party b) of None \<Rightarrow> None
       | Some c \<Rightarrow> (let k = net (on_bill t (bl_id b)) (fd_allocs db) in
           Some \<lparr>ii_bill = b, ii_customer_name = cu_name c, ii_allocated = k,
             ii_outstanding = (if bl_open b then max 0 (bl_total b - k) else 0),
             ii_overdue = (bl_open b \<and> bl_due b < businessDate \<and> k < bl_total b)\<rparr>)))
   (js_sort (\<lambda>a b. bl_issued b \<le> bl_issued a) (rev (fd_invoices db)))"

text \<open>A \<^verbatim>\<open>LIMIT\<close> bound to a number that is not whole is an error of the database.\<close>

definition sql_limit :: "jsnum \<Rightarrow> nat option" where
  "sql_limit n = (case n of Fin q \<Rightarrow> if integral q then Some (nat \<lfloor>q\<rfloor>) else None | _ \<Rightarrow> None)"

record fin_request =
  rq_method :: string
  rq_path :: string
  rq_body :: jsval
  rq_key :: jsval
  rq_limit :: jsval

datatype response =
    Answer reply
  | Summary receivables_summary
  | Collections collections
  | Customers "customer list"
  | Invoices "invoice_item list"

definition status_name_le :: "customer \<Rightarrow> customer \<Rightarrow> bool" where
  "status_name_le a b \<longleftrightarrow> (cu_active a \<and> \<not> cu_active b) \<or> (cu_active a = cu_active b \<and> cu_name a \<le> cu_name b)"

text \<open>What the request meets outside this module: date reading, hashing, a new id, the business date, and
  the routes of the customer relationship module, tried first.\<close>

record 'd fin_world =
  fw_dates :: date_parse
  fw_after :: date_plus
  fw_sha :: "string \<Rightarrow> string"
  fw_id :: string
  fw_today :: string
  fw_relations :: "fin_request \<Rightarrow> 'd \<Rightarrow> (response \<times> 'd) option"

definition handleFinanceReceivablesRequest ::
    "'a ar_db_scheme fin_world \<Rightarrow> string \<Rightarrow> fin_request \<Rightarrow> 'a ar_db_scheme \<Rightarrow> (response \<times> 'a ar_db_scheme) option" where
  "handleFinanceReceivablesRequest w t rq db =
    (let path = rq_path rq; get = (rq_method rq = ''GET''); post = (rq_method rq = ''POST''); act = (\<lambda>(r, d). Some (Answer r, d))
     in if take 13 path \<noteq> ''/api/finance/'' then None
        else (case fw_relations w rq db of Some r \<Rightarrow> Some r
        | None \<Rightarrow>
          if path = ''/api/finance/receivables/summary'' \<and> get
          then Some (Summary (financeReceivablesSummary (fw_after w) (fw_today w) t None None db), db)
          else if path = ''/api/finance/collections/today'' \<and> get then Some (Collections (financeDailyCollections (fw_today w) t db), db)
          else if path = ''/api/finance/customers'' \<and> get
          then Some (Customers (take 100 (js_sort status_name_le (filter (\<lambda>c. cu_tenant c = t) (fd_customers db)))), db)
          else if path = ''/api/finance/customers'' \<and> post then act (createCustomer t (rq_body rq) (fw_id w) db)
          else if path = ''/api/finance/invoices'' \<and> get
          then (case sql_limit (num_min (Fin 100) (num_max (Fin 1) (to_num (jor (rq_limit rq) (JInt 100))))) of
                  None \<Rightarrow> Some (Answer Throws, db) | Some n \<Rightarrow> Some (Invoices (take n (invoice_items (fw_today w) t db)), db))
          else if path = ''/api/finance/invoices'' \<and> post then act (createInvoice (fw_dates w) t (rq_body rq) (fw_id w) db)
          else (case (invoiceAllocationPath path, invoiceAllocationReversePath path, invoiceVoidPath path) of
              (Some i, _, _) \<Rightarrow> if post then act (allocateInvoice (fw_sha w) t i (rq_key rq) (rq_body rq) db) else None
            | (_, Some (i, a), _) \<Rightarrow> if post then act (reverseAllocation (fw_sha w) t i a db) else None
            | (_, _, Some i) \<Rightarrow> if post then act (voidInvoice t i db) else None
            | _ \<Rightarrow> None)))"

section \<open>The invoice books\<close>

definition invoice_books :: "'a ar_db_scheme \<Rightarrow> unit books" where
  "invoice_books db = \<lparr>bk_bills = fd_invoices db, bk_txs = fd_txs db, bk_allocs = fd_allocs db\<rparr>"

abbreviation invoice_step :: "'a ar_db_scheme \<Rightarrow> 'a ar_db_scheme \<Rightarrow> bool" where
  "invoice_step db db' \<equiv> (books_step Inflow)\<^sup>=\<^sup>= (invoice_books db) (invoice_books db')"

lemma record_event_keeps_ar [simp]:
  "fd_customers (record_event t ty e p db) = fd_customers db" "fd_invoices (record_event t ty e p db) = fd_invoices db"
  "fd_allocs (record_event t ty e p db) = fd_allocs db" "fd_txs (record_event t ty e p db) = fd_txs db"
  by (simp_all add: record_event_def)

lemma invoice_books_event [simp]: "invoice_books (record_event t ty e p db) = invoice_books db"
  by (simp add: invoice_books_def record_event_def)

lemma invoice_books_simps [simp]:
  "invoice_books (db\<lparr>fd_customers := cs\<rparr>) = invoice_books db"
  "invoice_books (db\<lparr>fd_invoices := bs\<rparr>) = (invoice_books db)\<lparr>bk_bills := bs\<rparr>"
  "invoice_books (db\<lparr>fd_allocs := als\<rparr>) = (invoice_books db)\<lparr>bk_allocs := als\<rparr>"
  "invoice_books (db\<lparr>fd_txs := xs\<rparr>) = (invoice_books db)\<lparr>bk_txs := xs\<rparr>"
  "bk_bills (invoice_books db) = fd_invoices db" "bk_txs (invoice_books db) = fd_txs db" "bk_allocs (invoice_books db) = fd_allocs db"
  by (simp_all add: invoice_books_def)

lemma insert_step: "insert_alloc Inflow (fd_invoices db) (fd_txs db) a (fd_allocs db) = (f, als) \<Longrightarrow>
    books_step Inflow (invoice_books db) ((invoice_books db)\<lparr>bk_allocs := als\<rparr>)"
  using books_step.Insert[of Inflow "invoice_books db" a] by simp

lemma createCustomer_books [simp]: "invoice_books (snd (createCustomer t body i db)) = invoice_books db"
  by (simp add: createCustomer_def Let_def)

lemma createInvoice_step: "invoice_step db (snd (createInvoice dp t body i db))"
proof -
  have issue: "books_step Inflow (invoice_books db) ((invoice_books db)\<lparr>bk_bills := fd_invoices db @ [b]\<rparr>)"
    if "\<not> invoice_conflict db b" "0 < bl_total b" "bl_open b" for b
  proof -
    have "bl_id b \<notin> bl_id ` set (fd_invoices db)" using that(1) by (auto simp: invoice_conflict_def list_ex_iff)
    then show ?thesis using books_step.Issue[of b "invoice_books db" Inflow] that(2,3) by simp
  qed
  show ?thesis
    by (auto simp: createInvoice_def Let_def not_le intro!: issue split: option.splits)
qed

lemma settle_invoice_step: "invoice_step db (snd (settle_invoice tx a db))"
  by (auto simp: settle_invoice_def Let_def split: option.splits prod.splits fault.splits intro: insert_step)

lemma allocateInvoice_step: "invoice_step db (snd (allocateInvoice sha t i h body db))"
  unfolding allocateInvoice_def Let_def using settle_invoice_step by (auto split: option.splits prod.splits)

lemma reverseAllocation_step: "invoice_step db (snd (reverseAllocation sha t i a db))"
  by (auto simp: reverseAllocation_def Let_def split: option.splits prod.splits intro: insert_step)

lemma void_update_step: "invoice_step db (snd (void_update t i db))"
  using books_step.Close[of Inflow "invoice_books db" t i]
  by (auto simp: void_update_def split: option.splits)

end
