(* ===== verification/FinancePayables.thy ===== *)
theory FinancePayables imports FinanceReceivables begin

text \<open>
  The supplier payables of \<^verbatim>\<open>finance-payables.js\<close>: suppliers and the aliases an owner confirmed for
  them, payables and their settlement by recorded outflows, and the summary the money intelligence reads.
  The state extends the one of the receivables with the tables of this module; both share the recorded
  transactions. Unlike the receivables module, an unexpected failure of the database is answered.
\<close>

section \<open>Suppliers and payables\<close>

definition EXPENSE_CATEGORIES :: "string list" where
  "EXPENSE_CATEGORIES = [''inventory'', ''materials'', ''rent'', ''utilities'', ''payroll'', ''transport'', ''marketing'', ''tax'', ''loan'',
     ''equipment'', ''professional_services'', ''other'']"

text \<open>The compatibility normalization of Unicode is supplied.\<close>

definition plain_char :: "char \<Rightarrow> bool" where
  "plain_char c \<longleftrightarrow> is_digit c \<or> (let n = of_char c :: nat in 97 \<le> n \<and> n \<le> 122)"

definition normalizeSupplierIdentity :: "(string \<Rightarrow> string) \<Rightarrow> string \<Rightarrow> string" where
  "normalizeSupplierIdentity nfkc value =
     take 160 (trim (collapse_ws (map (\<lambda>c. if plain_char c then c else CHR '' '') (nfkc (lower (take 200 (trim value)))))))"

definition normalizeExpenseCategory :: "jsval \<Rightarrow> string option" where
  "normalizeExpenseCategory v = (let key = lower (text_of v 40) in if key \<in> set EXPENSE_CATEGORIES then Some key else None)"

record supplier =
  su_id :: string
  su_tenant :: string
  su_code :: "string option"
  su_name :: string
  su_norm :: string
  su_category :: string
  su_active :: bool

record supplier_alias =
  sa_id :: string
  sa_tenant :: string
  sa_supplier :: string
  sa_text :: string
  sa_norm :: string

record payable = bill +
  py_category :: string

record ap_db = ar_db +
  fd_suppliers :: "supplier list"
  fd_aliases :: "supplier_alias list"
  fd_payables :: "payable list"
  fd_pallocs :: "alloc list"

definition supplier_of :: "supplier list \<Rightarrow> string \<Rightarrow> string \<Rightarrow> supplier option" where
  "supplier_of ss t s = find (\<lambda>x. su_id x = s \<and> su_tenant x = t) ss"

definition active_supplier :: "supplier list \<Rightarrow> string \<Rightarrow> string \<Rightarrow> supplier option" where
  "active_supplier ss t s = find (\<lambda>x. su_id x = s \<and> su_tenant x = t \<and> su_active x) ss"

text \<open>The insert of a supplier: the trigger against a confirmed alias, then the unique keys.\<close>

definition insert_supplier :: "supplier \<Rightarrow> 'a ap_db_scheme \<Rightarrow> string option \<times> 'a ap_db_scheme" where
  "insert_supplier s db =
    (if list_ex (\<lambda>a. sa_tenant a = su_tenant s \<and> sa_norm a = su_norm s) (fd_aliases db)
     then (Some ''finance_supplier_name_alias_collision'', db)
     else if list_ex (\<lambda>x. su_id x = su_id s \<or> (su_tenant x = su_tenant s \<and> (su_norm x = su_norm s \<or> (su_code s \<noteq> None \<and> su_code x = su_code s))))
       (fd_suppliers db)
     then (Some ''finance_supplier_exists'', db)
     else (None, db\<lparr>fd_suppliers := fd_suppliers db @ [s]\<rparr>))"

definition createSupplier :: "(string \<Rightarrow> string) \<Rightarrow> string \<Rightarrow> jsval \<Rightarrow> string \<Rightarrow> 'a ap_db_scheme \<Rightarrow> reply \<times> 'a ap_db_scheme" where
  "createSupplier nfkc t body new_id db =
    (let name = text_of (fld body ''name'') 160; code = text_of (fld body ''supplierCode'') 80; norm = normalizeSupplierIdentity nfkc name
     in if length name < 2 \<or> length norm < 2 then (fail ''supplier_name_required'' 400, db)
        else (case normalizeExpenseCategory (jor (fld body ''defaultExpenseCategory'') (JStr ''other'')) of
            None \<Rightarrow> (fail ''invalid_expense_category'' 400, db)
          | Some category \<Rightarrow>
              (case insert_supplier \<lparr>su_id = new_id, su_tenant = t, su_code = (if code = [] then None else Some code), su_name = name,
                      su_norm = norm, su_category = category, su_active = True\<rparr> db of
                 (Some e, _) \<Rightarrow> (fail e 409, db)
               | (None, db1) \<Rightarrow>
                   (Reply 201 (JObj [(''ok'', JBool True), (''id'', JStr new_id), (''supplierCode'', or_null code), (''name'', JStr name),
                      (''defaultExpenseCategory'', JStr category), (''status'', JStr ''active'')]),
                    record_event t ''SUPPLIER_CREATED'' new_id (JObj [(''supplierCode'', or_null code), (''name'', JStr name),
                      (''defaultExpenseCategory'', JStr category)]) db1))))"

text \<open>The insert of an alias: its two triggers, then the unique keys. The request has just made the checks of
  the triggers, so their failure is met by a request that raced with another alone. The database reports an aborting trigger
  as a constraint error too, so the handler answers every refused insert in the same way.\<close>

definition insert_alias :: "supplier_alias \<Rightarrow> 'a ap_db_scheme \<Rightarrow> (string \<times> nat) option \<times> 'a ap_db_scheme" where
  "insert_alias a db =
    (if list_ex (\<lambda>s. su_tenant s = sa_tenant a \<and> su_norm s = sa_norm a \<and> su_id s \<noteq> sa_supplier a) (fd_suppliers db) \<or>
        active_supplier (fd_suppliers db) (sa_tenant a) (sa_supplier a) = None
     then (Some (''finance_supplier_alias_exists'', 409), db)
     else if list_ex (\<lambda>x. sa_id x = sa_id a \<or> (sa_tenant x = sa_tenant a \<and> sa_norm x = sa_norm a)) (fd_aliases db)
     then (Some (''finance_supplier_alias_exists'', 409), db)
     else (None, db\<lparr>fd_aliases := fd_aliases db @ [a]\<rparr>))"

definition confirmAlias ::
    "(string \<Rightarrow> string) \<Rightarrow> (string \<Rightarrow> string) \<Rightarrow> string \<Rightarrow> bool \<Rightarrow> string \<Rightarrow> jsval \<Rightarrow> string \<Rightarrow> 'a ap_db_scheme \<Rightarrow> reply \<times> 'a ap_db_scheme" where
  "confirmAlias nfkc sha t owner supplierId body new_id db =
    (let aliasText = text_of (fld body ''alias'') 160; norm = normalizeSupplierIdentity nfkc aliasText
     in if \<not> owner then (fail ''owner_required'' 403, db)
        else if length norm < 2 then (fail ''supplier_alias_required'' 400, db)
        else if active_supplier (fd_suppliers db) t supplierId = None then (fail ''finance_supplier_not_found'' 404, db)
        else if list_ex (\<lambda>s. su_tenant s = t \<and> su_norm s = norm \<and> su_id s \<noteq> supplierId) (fd_suppliers db)
        then (fail ''finance_supplier_alias_canonical_collision'' 409, db)
        else (case insert_alias \<lparr>sa_id = new_id, sa_tenant = t, sa_supplier = supplierId, sa_text = aliasText, sa_norm = norm\<rparr> db of
            (Some (e, status), _) \<Rightarrow> (fail e status, db)
          | (None, db1) \<Rightarrow>
              (Reply 201 (JObj [(''ok'', JBool True), (''id'', JStr new_id), (''supplierId'', JStr supplierId), (''alias'', JStr aliasText),
                 (''sourceKind'', JStr ''owner_confirmed'')]),
               record_event t ''SUPPLIER_ALIAS_CONFIRMED'' new_id (JObj [(''supplierId'', JStr supplierId), (''aliasHash'', JStr (sha norm)), (''sourceKind'', JStr ''owner_confirmed'')]) db1)))"

definition payable_conflict :: "'a ap_db_scheme \<Rightarrow> payable \<Rightarrow> bool" where
  "payable_conflict db p \<longleftrightarrow> list_ex (\<lambda>c. bl_id c = bl_id p \<or>
     (bl_tenant c = bl_tenant p \<and> bl_party c = bl_party p \<and> bl_number c = bl_number p)) (fd_payables db)"

definition createPayable :: "date_parse \<Rightarrow> string \<Rightarrow> jsval \<Rightarrow> string \<Rightarrow> 'a ap_db_scheme \<Rightarrow> reply \<times> 'a ap_db_scheme" where
  "createPayable dp t body new_id db =
    (let supplierId = text_of (fld body ''supplierId'') 64; payableNumber = text_of (fld body ''payableNumber'') 80;
         issuedOn = text_of (fld body ''issuedOn'') 10; dueOn = text_of (fld body ''dueOn'') 10;
         description = text_of (fld body ''description'') 500; totalMinor = integer (fld body ''totalMinor'')
     in if payableNumber = [] then (fail ''payable_number_required'' 400, db)
        else if \<not> validDate dp issuedOn \<or> \<not> validDate dp dueOn \<or> dueOn < issuedOn then (fail ''invalid_payable_dates'' 400, db)
        else (case totalMinor of None \<Rightarrow> (fail ''invalid_payable_total_minor'' 400, db)
          | Some amount \<Rightarrow>
              if amount \<le> 0 then (fail ''invalid_payable_total_minor'' 400, db)
              else (case active_supplier (fd_suppliers db) t supplierId of
                  None \<Rightarrow> (fail ''finance_supplier_not_found'' 404, db)
                | Some s \<Rightarrow>
                    (case normalizeExpenseCategory (jor (fld body ''expenseCategory'') (jor (JStr (su_category s)) (JStr ''other''))) of
                       None \<Rightarrow> (fail ''invalid_expense_category'' 400, db)
                     | Some category \<Rightarrow>
                         (let p = \<lparr>bl_id = new_id, bl_tenant = t, bl_party = supplierId, bl_number = payableNumber, bl_issued = issuedOn,
                                    bl_due = dueOn, bl_description = description, bl_total = amount, bl_open = True, py_category = category\<rparr>
                          in if payable_conflict db p then (fail ''finance_payable_exists_or_invalid'' 409, db)
                             else (Reply 201 (JObj [(''ok'', JBool True), (''id'', JStr new_id), (''supplierId'', JStr supplierId),
                                     (''supplierName'', JStr (su_name s)), (''payableNumber'', JStr payableNumber), (''issuedOn'', JStr issuedOn),
                                     (''dueOn'', JStr dueOn), (''totalMinor'', JInt amount), (''outstandingMinor'', JInt amount),
                                     (''currency'', JStr ''BWP''), (''status'', JStr ''open''), (''expenseCategory'', JStr category)]),
                                   record_event t ''PAYABLE_RECORDED'' new_id (JObj [(''supplierId'', JStr supplierId), (''payableNumber'', JStr payableNumber),
                                     (''issuedOn'', JStr issuedOn), (''dueOn'', JStr dueOn), (''totalMinor'', JInt amount), (''currency'', JStr ''BWP''),
                                     (''expenseCategory'', JStr category)]) (db\<lparr>fd_payables := fd_payables db @ [p]\<rparr>)))))))"

section \<open>Settling, reversing, voiding\<close>

definition payableDetail :: "'a ap_db_scheme \<Rightarrow> string \<Rightarrow> string \<Rightarrow> (payable \<times> int) option" where
  "payableDetail db t payableId =
    (case bill_of (fd_payables db) t payableId of None \<Rightarrow> None
     | Some p \<Rightarrow> if supplier_of (fd_suppliers db) t (bl_party p) = None then None
                 else Some (p, net (on_bill t payableId) (fd_pallocs db)))"

definition payable_left :: "(payable \<times> int) option \<Rightarrow> int" where
  "payable_left d = (case d of None \<Rightarrow> 0 | Some (p, k) \<Rightarrow> max 0 (bl_total p - k))"

text \<open>The part of the handler after its checks: the replay of a known key, else the guarded insert.\<close>

definition settle_payable :: "fin_tx \<Rightarrow> alloc \<Rightarrow> 'a ap_db_scheme \<Rightarrow> reply \<times> 'a ap_db_scheme" where
  "settle_payable tx a db =
    (let body = [(''ok'', JBool True), (''id'', JStr (al_id a)), (''payableId'', JStr (al_bill a)), (''transactionId'', JStr (al_tx a)),
           (''amountMinor'', JInt (al_amount a)), (''currency'', JStr ''BWP'')]
     in case alloc_at (fd_pallocs db) (al_tenant a) (al_id a) of
       Some e \<Rightarrow>
         (if al_bill e \<noteq> al_bill a \<or> al_tx e \<noteq> al_tx a \<or> al_amount e \<noteq> al_amount a \<or> al_entry e \<noteq> Apply
          then (fail ''idempotency_key_conflict'' 409, db)
          else (Reply 200 (JObj (body @ [(''replayed'', JBool True)])), db))
     | None \<Rightarrow>
         (case insert_alloc Outflow (fd_payables db) (fd_txs db) a (fd_pallocs db) of
            (Some Bill_Exceeded, _) \<Rightarrow> (fail ''finance_payable_overallocation'' 409, db)
          | (Some Tx_Exceeded, _) \<Rightarrow> (fail ''finance_transaction_overallocation'' 409, db)
          | (Some Bill_Closed, _) \<Rightarrow> (fail ''finance_allocation_scope_invalid'' 409, db)
          | (Some Tx_Refused, _) \<Rightarrow> (fail ''finance_allocation_scope_invalid'' 409, db)
          | (Some _, _) \<Rightarrow> (fail ''finance_payable_allocation_failed'' 503, db)
          | (None, als) \<Rightarrow>
              (let db1 = record_event (al_tenant a) ''PAYABLE_PAYMENT_ALLOCATED'' (al_id a) (JObj [(''payableId'', JStr (al_bill a)),
                     (''transactionId'', JStr (al_tx a)), (''amountMinor'', JInt (al_amount a)),
                     (''transactionPostedOn'', JStr (tx_posted tx)), (''currency'', JStr ''BWP'')]) (db\<lparr>fd_pallocs := als\<rparr>)
               in (Reply 201 (JObj (body @ [(''payableOutstandingMinor'',
                     JInt (payable_left (payableDetail db1 (al_tenant a) (al_bill a))))])), db1))))"

definition allocatePayable ::
    "(string \<Rightarrow> string) \<Rightarrow> string \<Rightarrow> string \<Rightarrow> jsval \<Rightarrow> jsval \<Rightarrow> 'a ap_db_scheme \<Rightarrow> reply \<times> 'a ap_db_scheme" where
  "allocatePayable sha t payableId header body db =
    (let transactionId = text_of (fld body ''transactionId'') 64; amountMinor = integer (fld body ''amountMinor'');
         key = text_of (jor header (fld body ''idempotencyKey'')) 120
     in if transactionId = [] then (fail ''finance_transaction_id_required'' 400, db)
        else (case amountMinor of None \<Rightarrow> (fail ''invalid_allocation_amount_minor'' 400, db)
          | Some amount \<Rightarrow>
              if amount \<le> 0 then (fail ''invalid_allocation_amount_minor'' 400, db)
              else if length key < 8 then (fail ''idempotency_key_required'' 400, db)
              else (case payableDetail db t payableId of None \<Rightarrow> (fail ''finance_payable_not_allocatable'' 404, db)
                | Some (payable, _) \<Rightarrow>
                    if \<not> bl_open payable then (fail ''finance_payable_not_allocatable'' 404, db)
                    else (case find (\<lambda>x. tx_id x = transactionId \<and> tx_tenant x = t \<and> tx_amount x < 0) (fd_txs db) of
                        None \<Rightarrow> (fail ''finance_transaction_not_allocatable'' 404, db)
                      | Some tx \<Rightarrow> settle_payable tx \<lparr>al_id = allocation_id sha [t, payableId, transactionId, key], al_tenant = t,
                          al_bill = payableId, al_tx = transactionId, al_amount = amount, al_entry = Apply\<rparr> db))))"

definition reversePayable ::
    "(string \<Rightarrow> string) \<Rightarrow> string \<Rightarrow> string \<Rightarrow> string \<Rightarrow> 'a ap_db_scheme \<Rightarrow> reply \<times> 'a ap_db_scheme" where
  "reversePayable sha t payableId allocationId db =
    (let replay = (\<lambda>r. Reply 200 (JObj [(''ok'', JBool True), (''id'', JStr (al_id r)), (''reversesAllocationId'', JStr allocationId),
                          (''replayed'', JBool True)]))
     in case find (\<lambda>x. al_id x = allocationId \<and> al_tenant x = t \<and> al_bill x = payableId) (fd_pallocs db) of
       None \<Rightarrow> (fail ''finance_payable_allocation_not_found'' 404, db)
     | Some original \<Rightarrow>
         if al_entry original \<noteq> Apply then (fail ''finance_payable_allocation_not_found'' 404, db)
         else (case reversal_at (fd_pallocs db) t allocationId of
             Some r \<Rightarrow> (replay r, db)
           | None \<Rightarrow>
               (let reversalId = allocation_id sha [t, allocationId, ''reverse''];
                    a = \<lparr>al_id = reversalId, al_tenant = t, al_bill = payableId, al_tx = al_tx original, al_amount = al_amount original,
                          al_entry = Reverse_Of allocationId\<rparr>
                in case insert_alloc Outflow (fd_payables db) (fd_txs db) a (fd_pallocs db) of
                     (Some _, _) \<Rightarrow>
                       (case reversal_at (fd_pallocs db) t allocationId of
                          Some r \<Rightarrow> (replay r, db) | None \<Rightarrow> (fail ''finance_payable_allocation_reverse_failed'' 503, db))
                   | (None, als) \<Rightarrow>
                       (Reply 201 (JObj [(''ok'', JBool True), (''id'', JStr reversalId), (''reversesAllocationId'', JStr allocationId),
                          (''currency'', JStr ''BWP'')]),
                        record_event t ''PAYABLE_PAYMENT_ALLOCATION_REVERSED'' reversalId (JObj [(''payableId'', JStr payableId),
                          (''transactionId'', JStr (al_tx original)), (''amountMinor'', JInt (al_amount original)),
                          (''reversesAllocationId'', JStr allocationId), (''currency'', JStr ''BWP'')]) (db\<lparr>fd_pallocs := als\<rparr>)))))"

definition payable_void_check :: "string \<Rightarrow> string \<Rightarrow> 'a ap_db_scheme \<Rightarrow> reply option" where
  "payable_void_check t payableId db =
    (case payableDetail db t payableId of None \<Rightarrow> Some (fail ''finance_payable_not_found'' 404)
     | Some (p, k) \<Rightarrow>
         if \<not> bl_open p then Some (Reply 200 (JObj [(''ok'', JBool True), (''id'', JStr payableId), (''status'', JStr ''void''), (''replayed'', JBool True)]))
         else if k \<noteq> 0 then Some (fail ''finance_payable_has_active_allocations'' 409)
         else None)"

definition payable_void_update :: "string \<Rightarrow> string \<Rightarrow> 'a ap_db_scheme \<Rightarrow> reply \<times> 'a ap_db_scheme" where
  "payable_void_update t payableId db =
    (case find (\<lambda>b. bl_id b = payableId \<and> bl_tenant b = t \<and> bl_open b) (fd_payables db) of
       None \<Rightarrow> (fail ''finance_payable_state_conflict'' 409, db)
     | Some b \<Rightarrow> (Reply 200 (JObj [(''ok'', JBool True), (''id'', JStr payableId), (''status'', JStr ''void'')]),
         record_event t ''PAYABLE_VOIDED'' payableId (JObj [(''payableNumber'', JStr (bl_number b)), (''totalMinor'', JInt (bl_total b)),
             (''currency'', JStr ''BWP'')])
           (db\<lparr>fd_payables := closed_bill t payableId (fd_payables db)\<rparr>)))"

definition voidPayable :: "string \<Rightarrow> string \<Rightarrow> 'a ap_db_scheme \<Rightarrow> reply \<times> 'a ap_db_scheme" where
  "voidPayable t payableId db = (case payable_void_check t payableId db of Some r \<Rightarrow> (r, db) | None \<Rightarrow> payable_void_update t payableId db)"

section \<open>The payables summary\<close>

record payable_row =
  pw_id :: string
  pw_supplier :: string
  pw_supplier_name :: string
  pw_number :: string
  pw_issued :: string
  pw_due :: string
  pw_description :: string
  pw_category :: string
  pw_total :: int
  pw_allocated :: int
  pw_outstanding :: int
  pw_overdue :: bool

definition payable_row_of :: "string \<Rightarrow> \<lparr>py_category :: string\<rparr> open_row \<Rightarrow> payable_row" where
  "payable_row_of date r = (let p = or_bill r in
     \<lparr>pw_id = bl_id p, pw_supplier = bl_party p, pw_supplier_name = take 160 (trim (or_name r)), pw_number = take 80 (trim (bl_number p)),
      pw_issued = bl_issued p, pw_due = bl_due p, pw_description = take 500 (trim (bl_description p)),
      pw_category = take 40 (trim (py_category p)), pw_total = bl_total p, pw_allocated = or_allocated r, pw_outstanding = outstanding r,
      pw_overdue = overdue_at date r\<rparr>)"

text \<open>\<^verbatim>\<open>ORDER BY due_on ASC, outstanding_minor DESC\<close>.\<close>

definition payable_le :: "'a open_row \<Rightarrow> 'a open_row \<Rightarrow> bool" where
  "payable_le a b \<longleftrightarrow> due_on a < due_on b \<or> (due_on a = due_on b \<and> outstanding b \<le> outstanding a)"

record payables_summary =
  ps_date :: string
  ps_totals :: balance_totals
  ps_suppliers :: "party_row list"
  ps_payables :: "payable_row list"

definition open_payables :: "'a ap_db_scheme \<Rightarrow> string \<Rightarrow> \<lparr>py_category :: string\<rparr> open_row list" where
  "open_payables db t = open_rows t (\<lambda>c. map_option su_name (supplier_of (fd_suppliers db) t c)) (fd_payables db) (fd_pallocs db)"

text \<open>\<open>up\<close>: the three queries succeed; otherwise the summary says it is unavailable (\<open>None\<close>).\<close>

definition financePayablesSummary ::
    "bool \<Rightarrow> date_plus \<Rightarrow> string \<Rightarrow> string \<Rightarrow> int option \<Rightarrow> int option \<Rightarrow> 'a ap_db_scheme \<Rightarrow> payables_summary option" where
  "financePayablesSummary up after date t supplierLimit payableLimit db =
    (let rows = open_payables db t
     in if \<not> up then None
        else Some \<lparr>ps_date = date, ps_totals = balance_totals_of after date rows,
          ps_suppliers = map (party_row_of date rows) (take (capped 25 10 supplierLimit) (party_groups rows)),
          ps_payables = map (payable_row_of date) (take (capped 50 30 payableLimit) (js_sort payable_le rows))\<rparr>)"

section \<open>Routing\<close>

definition payable_root :: "string list" where
  "payable_root = [[], ''api'', ''finance'', ''payables'']"

definition payableAllocationPath :: "string \<Rightarrow> string option" where
  "payableAllocationPath = path_arg payable_root [''allocations'']"

definition payableAllocationReversePath :: "string \<Rightarrow> (string \<times> string) option" where
  "payableAllocationReversePath = path_args payable_root ''allocations'' ''reverse''"

definition payableVoidPath :: "string \<Rightarrow> string option" where
  "payableVoidPath = path_arg payable_root [''void'']"

definition supplierAliasesPath :: "string \<Rightarrow> string option" where
  "supplierAliasesPath = path_arg [[], ''api'', ''finance'', ''suppliers''] [''aliases'']"

datatype payables_response =
    Payable_Answer reply
  | Payables payables_summary
  | Payable_List "payable_row list"
  | Suppliers "supplier list"

definition supplier_le :: "supplier \<Rightarrow> supplier \<Rightarrow> bool" where
  "supplier_le a b \<longleftrightarrow> (su_active a \<and> \<not> su_active b) \<or> (su_active a = su_active b \<and> su_name a \<le> su_name b)"

definition summary_answer :: "string \<Rightarrow> payables_summary option \<Rightarrow> payables_response" where
  "summary_answer date s = (case s of
     None \<Rightarrow> Payable_Answer (Reply 200 (JObj [(''available'', JBool False), (''currency'', JStr ''BWP''), (''businessDate'', JStr date),
       (''error'', JStr ''finance_payables_unavailable''), (''authority'', JObj [(''canonical'', JBool False), (''moneyMovement'', JBool False)])]))
   | Some x \<Rightarrow> Payables x)"

definition handleFinancePayablesRequest ::
    "(string \<Rightarrow> string) \<Rightarrow> bool \<Rightarrow> bool \<Rightarrow> 'a ap_db_scheme fin_world \<Rightarrow> string \<Rightarrow> fin_request \<Rightarrow> 'a ap_db_scheme \<Rightarrow>
       (payables_response \<times> 'a ap_db_scheme) option" where
  "handleFinancePayablesRequest nfkc up owner w t rq db =
    (let path = rq_path rq; get = (rq_method rq = ''GET''); post = (rq_method rq = ''POST''); act = (\<lambda>(r, d). Some (Payable_Answer r, d))
     in if take 13 path \<noteq> ''/api/finance/'' then None
        else if path = ''/api/finance/payables/summary'' \<and> get
        then Some (summary_answer (fw_today w) (financePayablesSummary up (fw_after w) (fw_today w) t None None db), db)
        else if path = ''/api/finance/suppliers'' \<and> get
        then Some (if up then Suppliers (take 100 (js_sort supplier_le (filter (\<lambda>s. su_tenant s = t) (fd_suppliers db))))
                   else Payable_Answer (fail ''finance_suppliers_unavailable'' 503), db)
        else if path = ''/api/finance/suppliers'' \<and> post then act (createSupplier nfkc t (rq_body rq) (fw_id w) db)
        else (case supplierAliasesPath path of
            Some s \<Rightarrow> if post then act (confirmAlias nfkc (fw_sha w) t owner s (rq_body rq) (fw_id w) db) else None
          | None \<Rightarrow>
              if path = ''/api/finance/payables'' \<and> get
              then Some (case financePayablesSummary up (fw_after w) (fw_today w) t (Some 25) (Some 100) db of
                  None \<Rightarrow> Payable_Answer (fail ''finance_payables_unavailable'' 503) | Some s \<Rightarrow> Payable_List (ps_payables s), db)
              else if path = ''/api/finance/payables'' \<and> post then act (createPayable (fw_dates w) t (rq_body rq) (fw_id w) db)
              else (case (payableAllocationPath path, payableAllocationReversePath path, payableVoidPath path) of
                  (Some i, _, _) \<Rightarrow> if post then act (allocatePayable (fw_sha w) t i (rq_key rq) (rq_body rq) db) else None
                | (_, Some (i, a), _) \<Rightarrow> if post then act (reversePayable (fw_sha w) t i a db) else None
                | (_, _, Some i) \<Rightarrow> if post then act (voidPayable t i db) else None
                | _ \<Rightarrow> None)))"

end
