(* ===== verification/FinanceBooks.thy ===== *)
theory FinanceBooks imports FinancePayables begin

text \<open>
  The two settlement ledgers as one system: customers, suppliers, invoices, payables and the recorded
  transactions both settle against, changed by the handlers of the two modules in any order. A void is
  split into its check and its write, so that another request may run in between.
\<close>

section \<open>The payable books\<close>

definition payable_books :: "'a ap_db_scheme \<Rightarrow> \<lparr>py_category :: string\<rparr> books" where
  "payable_books db = \<lparr>bk_bills = fd_payables db, bk_txs = fd_txs db, bk_allocs = fd_pallocs db\<rparr>"

abbreviation payable_step :: "'a ap_db_scheme \<Rightarrow> 'a ap_db_scheme \<Rightarrow> bool" where
  "payable_step db db' \<equiv> (books_step Outflow)\<^sup>=\<^sup>= (payable_books db) (payable_books db')"

lemma record_event_keeps [simp]:
  "fd_suppliers (record_event t ty e p db) = fd_suppliers db" "fd_aliases (record_event t ty e p db) = fd_aliases db"
  "fd_payables (record_event t ty e p db) = fd_payables db" "fd_pallocs (record_event t ty e p db) = fd_pallocs db"
  by (simp_all add: record_event_def)

lemma payable_books_simps [simp]:
  "payable_books (record_event t ty e p db) = payable_books db"
  "payable_books (db\<lparr>fd_customers := cs\<rparr>) = payable_books db"
  "payable_books (db\<lparr>fd_invoices := bs\<rparr>) = payable_books db"
  "payable_books (db\<lparr>fd_allocs := als\<rparr>) = payable_books db"
  "payable_books (db\<lparr>fd_suppliers := ss\<rparr>) = payable_books db"
  "payable_books (db\<lparr>fd_aliases := as\<rparr>) = payable_books db"
  "payable_books (db\<lparr>fd_txs := xs\<rparr>) = (payable_books db)\<lparr>bk_txs := xs\<rparr>"
  "payable_books (db\<lparr>fd_payables := ps\<rparr>) = (payable_books db)\<lparr>bk_bills := ps\<rparr>"
  "payable_books (db\<lparr>fd_pallocs := als\<rparr>) = (payable_books db)\<lparr>bk_allocs := als\<rparr>"
  "bk_bills (payable_books db) = fd_payables db" "bk_txs (payable_books db) = fd_txs db" "bk_allocs (payable_books db) = fd_pallocs db"
  by (simp_all add: payable_books_def)

lemma invoice_books_ap [simp]:
  "invoice_books (db\<lparr>fd_suppliers := ss\<rparr>) = invoice_books db" "invoice_books (db\<lparr>fd_aliases := as\<rparr>) = invoice_books db"
  "invoice_books (db\<lparr>fd_payables := ps\<rparr>) = invoice_books db" "invoice_books (db\<lparr>fd_pallocs := als\<rparr>) = invoice_books db"
  by (simp_all add: invoice_books_def)

lemma insert_payable_step: "insert_alloc Outflow (fd_payables db) (fd_txs db) a (fd_pallocs db) = (f, als) \<Longrightarrow>
    books_step Outflow (payable_books db) ((payable_books db)\<lparr>bk_allocs := als\<rparr>)"
  using books_step.Insert[of Outflow "payable_books db" a] by simp

text \<open>What the receivables handlers leave alone of the payables, and the other way round.\<close>

lemma settle_keeps [simp]:
  "payable_books (snd (settle_invoice tx a db)) = payable_books db" "invoice_books (snd (settle_payable tx a db)) = invoice_books db"
  "fd_suppliers (snd (settle_invoice tx a db)) = fd_suppliers db" "fd_aliases (snd (settle_invoice tx a db)) = fd_aliases db"
  "fd_suppliers (snd (settle_payable tx a db)) = fd_suppliers db" "fd_aliases (snd (settle_payable tx a db)) = fd_aliases db"
  "fd_customers (snd (settle_invoice tx a db)) = fd_customers db" "fd_invoices (snd (settle_invoice tx a db)) = fd_invoices db"
  "fd_customers (snd (settle_payable tx a db)) = fd_customers db" "fd_invoices (snd (settle_payable tx a db)) = fd_invoices db"
  by (simp_all add: settle_invoice_def settle_payable_def Let_def split: option.splits prod.splits fault.splits)

lemma receivables_keep_payables [simp]:
  "payable_books (snd (createCustomer t body i db)) = payable_books db"
  "payable_books (snd (createInvoice dp t body i db)) = payable_books db"
  "payable_books (snd (allocateInvoice sha t i h body db)) = payable_books db"
  "payable_books (snd (reverseAllocation sha t i a db)) = payable_books db"
  "payable_books (snd (void_update t i db)) = payable_books db"
  by (simp_all add: createCustomer_def createInvoice_def allocateInvoice_def reverseAllocation_def void_update_def Let_def
      split: option.splits prod.splits)

lemma supplier_insert_keeps:
  "insert_supplier s db = (r, db') \<Longrightarrow> invoice_books db' = invoice_books db \<and> payable_books db' = payable_books db"
  "insert_alias a db = (q, db'') \<Longrightarrow> invoice_books db'' = invoice_books db \<and> payable_books db'' = payable_books db"
  by (auto simp: insert_supplier_def insert_alias_def split: if_splits)

lemma suppliers_keep_books [simp]:
  "invoice_books (snd (createSupplier nf t body i db)) = invoice_books db" "payable_books (snd (createSupplier nf t body i db)) = payable_books db"
  "invoice_books (snd (confirmAlias nf sha t ow s body i db)) = invoice_books db"
  "payable_books (snd (confirmAlias nf sha t ow s body i db)) = payable_books db"
  unfolding createSupplier_def confirmAlias_def Let_def
  by (auto split: option.splits prod.splits dest: supplier_insert_keeps)

lemma payables_keep_invoices [simp]:
  "invoice_books (snd (createPayable dp t body i db)) = invoice_books db"
  "invoice_books (snd (allocatePayable sha t i h body db)) = invoice_books db"
  "invoice_books (snd (reversePayable sha t i a db)) = invoice_books db"
  "invoice_books (snd (payable_void_update t i db)) = invoice_books db"
  by (simp_all add: createPayable_def allocatePayable_def reversePayable_def payable_void_update_def Let_def split: option.splits prod.splits)

lemma createPayable_step: "payable_step db (snd (createPayable dp t body i db))"
proof -
  have issue: "books_step Outflow (payable_books db) ((payable_books db)\<lparr>bk_bills := fd_payables db @ [b]\<rparr>)"
    if "\<not> payable_conflict db b" "0 < bl_total b" "bl_open b" for b
  proof -
    have "bl_id b \<notin> bl_id ` set (fd_payables db)" using that(1) by (auto simp: payable_conflict_def list_ex_iff)
    then show ?thesis using books_step.Issue[of b "payable_books db" Outflow] that(2,3) by simp
  qed
  show ?thesis
    by (auto simp: createPayable_def Let_def not_le intro!: issue split: option.splits)
qed

lemma settle_payable_step: "payable_step db (snd (settle_payable tx a db))"
  by (auto simp: settle_payable_def Let_def split: option.splits prod.splits fault.splits intro: insert_payable_step)

lemma allocatePayable_step: "payable_step db (snd (allocatePayable sha t i h body db))"
  unfolding allocatePayable_def Let_def using settle_payable_step by (auto split: option.splits prod.splits)

lemma reversePayable_step: "payable_step db (snd (reversePayable sha t i a db))"
  by (auto simp: reversePayable_def Let_def split: option.splits prod.splits intro: insert_payable_step)

lemma payable_void_step: "payable_step db (snd (payable_void_update t i db))"
  using books_step.Close[of Outflow "payable_books db" t i]
  by (auto simp: payable_void_update_def split: option.splits)

section \<open>The system\<close>

inductive finance_step :: "ap_db \<Rightarrow> ap_db \<Rightarrow> bool" where
  Customer: "finance_step db (snd (createCustomer t body i db))"
| Invoice: "finance_step db (snd (createInvoice dp t body i db))"
| Allocate_Invoice: "finance_step db (snd (allocateInvoice sha t i h body db))"
| Reverse_Invoice: "finance_step db (snd (reverseAllocation sha t i a db))"
| Void_Invoice: "finance_step db (snd (void_update t i db))"
| Supplier: "finance_step db (snd (createSupplier nf t body i db))"
| Alias: "finance_step db (snd (confirmAlias nf sha t ow s body i db))"
| Payable: "finance_step db (snd (createPayable dp t body i db))"
| Allocate_Payable: "finance_step db (snd (allocatePayable sha t i h body db))"
| Reverse_Payable: "finance_step db (snd (reversePayable sha t i a db))"
| Void_Payable: "finance_step db (snd (payable_void_update t i db))"
| Transaction: "tx_id x \<notin> tx_id ` set (fd_txs db) \<Longrightarrow> tx_amount x \<noteq> 0 \<Longrightarrow> finance_step db (db\<lparr>fd_txs := fd_txs db @ [x]\<rparr>)"

definition no_finance :: ap_db where
  "no_finance = \<lparr>fd_customers = [], fd_invoices = [], fd_allocs = [], fd_txs = [], fd_events = [],
     fd_suppliers = [], fd_aliases = [], fd_payables = [], fd_pallocs = []\<rparr>"

definition finance_reach :: "ap_db \<Rightarrow> bool" where
  "finance_reach db \<longleftrightarrow> finance_step\<^sup>*\<^sup>* no_finance db"

section \<open>Settlement, once for both ledgers\<close>

text \<open>A system whose steps write a set of books through the guarded statements only.\<close>

locale settlement =
  fixes side :: side and books :: "'d \<Rightarrow> 'a books" and step :: "'d \<Rightarrow> 'd \<Rightarrow> bool" and start :: 'd
  assumes start_books: "books start = no_books"
    and step_books: "step d d' \<Longrightarrow> (books_step side)\<^sup>=\<^sup>= (books d) (books d')"
begin

lemma reach_books: "step\<^sup>*\<^sup>* start d \<Longrightarrow> books_reach side (books d)"
  unfolding books_reach_def
proof (induction rule: rtranclp_induct)
  case base
  then show ?case by (simp add: start_books)
next
  case (step y z)
  from step_books[OF step.hyps(2)] step.IH show ?case by (auto intro: rtranclp.rtrancl_into_rtrancl)
qed

lemma reach_inv: "step\<^sup>*\<^sup>* start d \<Longrightarrow> books_inv side (books d)"
  by (rule inv_books_reach[OF reach_books])

lemma settled_live: "step\<^sup>*\<^sup>* start d \<Longrightarrow> scope p \<Longrightarrow>
    net p (bk_allocs (books d)) = col_sum al_amount (filter (\<lambda>a. p a \<and> live (bk_allocs (books d)) a) (bk_allocs (books d)))"
  using reach_inv by (intro net_live) (auto simp: books_inv_def)

lemma bill_bounds: "step\<^sup>*\<^sup>* start d \<Longrightarrow> b \<in> set (bk_bills (books d)) \<Longrightarrow>
    0 \<le> net (on_bill (bl_tenant b) (bl_id b)) (bk_allocs (books d)) \<and> net (on_bill (bl_tenant b) (bl_id b)) (bk_allocs (books d)) \<le> bl_total b"
  using reach_inv[of d] by (auto simp: books_inv_def within_bounds_def list_all_iff intro: net_nonneg)

lemma tx_bounds: "step\<^sup>*\<^sup>* start d \<Longrightarrow> x \<in> set (bk_txs (books d)) \<Longrightarrow>
    0 \<le> net (on_tx (tx_tenant x) (tx_id x)) (bk_allocs (books d)) \<and>
    net (on_tx (tx_tenant x) (tx_id x)) (bk_allocs (books d)) \<le> (if fits side (tx_amount x) then room side (tx_amount x) else 0)"
  using reach_inv[of d] by (auto simp: books_inv_def within_bounds_def list_all_iff intro: net_nonneg split: if_splits)

end

lemma finance_step_invoices: "finance_step db db' \<Longrightarrow> (books_step Inflow)\<^sup>=\<^sup>= (invoice_books db) (invoice_books db')"
proof (induction rule: finance_step.induct)
  case (Transaction x db)
  then show ?case using books_step.Post[of x "invoice_books db" Inflow] by simp
next
  case (Invoice db dp t body i) show ?case by (rule createInvoice_step)
next
  case (Allocate_Invoice db sha t i h body) show ?case by (rule allocateInvoice_step)
next
  case (Reverse_Invoice db sha t i a) show ?case by (rule reverseAllocation_step)
next
  case (Void_Invoice db t i) show ?case by (rule void_update_step)
qed simp_all

lemma finance_step_payables: "finance_step db db' \<Longrightarrow> (books_step Outflow)\<^sup>=\<^sup>= (payable_books db) (payable_books db')"
proof (induction rule: finance_step.induct)
  case (Transaction x db)
  then show ?case using books_step.Post[of x "payable_books db" Outflow] by simp
next
  case (Payable db dp t body i) show ?case by (rule createPayable_step)
next
  case (Allocate_Payable db sha t i h body) show ?case by (rule allocatePayable_step)
next
  case (Reverse_Payable db sha t i a) show ?case by (rule reversePayable_step)
next
  case (Void_Payable db t i) show ?case by (rule payable_void_step)
qed simp_all

interpretation invoices: settlement Inflow invoice_books finance_step no_finance
  by unfold_locales (simp add: invoice_books_def no_finance_def no_books_def, rule finance_step_invoices)

interpretation payables: settlement Outflow payable_books finance_step no_finance
  by unfold_locales (simp add: payable_books_def no_finance_def no_books_def, rule finance_step_payables)


section \<open>Parties and identities\<close>

definition parties_known :: "'a ap_db_scheme \<Rightarrow> bool" where
  "parties_known db \<longleftrightarrow> (\<forall>b \<in> set (fd_invoices db). customer_of (fd_customers db) (bl_tenant b) (bl_party b) \<noteq> None)"

lemma customer_of_more: "customer_of cs t c \<noteq> None \<Longrightarrow> customer_of (cs @ ds) t c \<noteq> None"
  unfolding customer_of_def by (rule find_snoc_not_None)

lemma closed_bill_parties: "(\<forall>b \<in> set (closed_bill t i bs). P (bl_tenant b) (bl_party b)) = (\<forall>b \<in> set bs. P (bl_tenant b) (bl_party b))"
  by (auto simp: closed_bill_def ball_update_where)

lemma parties_createInvoice: "parties_known db \<Longrightarrow> parties_known (snd (createInvoice dp t body i db))"
proof -
  have "customer_of (fd_customers db) t k \<noteq> None"
    if "find (\<lambda>c. cu_id c = k \<and> cu_tenant c = t \<and> cu_active c) (fd_customers db) = Some c" for k c
    using find_SomeD[OF that] unfolding customer_of_def
    by (cases "find (\<lambda>x. cu_id x = k \<and> cu_tenant x = t) (fd_customers db)") (auto dest: find_NoneD)
  then show "parties_known db \<Longrightarrow> parties_known (snd (createInvoice dp t body i db))"
    by (auto simp: parties_known_def createInvoice_def Let_def split: option.splits)
qed

lemma parties_step: "finance_step db db' \<Longrightarrow> parties_known db \<Longrightarrow> parties_known db'"
proof (induction rule: finance_step.induct)
  case (Customer db t body i)
  then show ?case using customer_of_more unfolding parties_known_def createCustomer_def Let_def by simp
next
  case (Invoice db dp t body i)
  then show ?case by (rule parties_createInvoice)
next
  case (Void_Invoice db t i)
  then show ?case
    using closed_bill_parties[of t i "fd_invoices db" "\<lambda>u p. customer_of (fd_customers db) u p \<noteq> None"]
    by (simp add: parties_known_def void_update_def split: option.splits)
qed (auto simp: parties_known_def allocateInvoice_def reverseAllocation_def createSupplier_def confirmAlias_def insert_supplier_def insert_alias_def
    createPayable_def allocatePayable_def reversePayable_def payable_void_update_def Let_def split: option.splits prod.splits fault.splits if_splits)

lemma parties_reach: "finance_reach db \<Longrightarrow> parties_known db"
  unfolding finance_reach_def
proof (induction rule: rtranclp_induct)
  case (step y z)
  then show ?case using parties_step by blast
qed (simp add: parties_known_def no_finance_def)

definition norm_keys :: "'a ap_db_scheme \<Rightarrow> (string \<times> string) list" where
  "norm_keys db = map (\<lambda>s. (su_tenant s, su_norm s)) (fd_suppliers db)"

definition alias_keys :: "'a ap_db_scheme \<Rightarrow> (string \<times> string) list" where
  "alias_keys db = map (\<lambda>a. (sa_tenant a, sa_norm a)) (fd_aliases db)"

definition identity_inv :: "'a ap_db_scheme \<Rightarrow> bool" where
  "identity_inv db \<longleftrightarrow> distinct (norm_keys db) \<and> distinct (alias_keys db) \<and>
     (\<forall>a \<in> set (fd_aliases db). \<forall>s \<in> set (fd_suppliers db). su_tenant s = sa_tenant a \<longrightarrow> su_norm s = sa_norm a \<longrightarrow> su_id s = sa_supplier a)"

lemma identity_insert_supplier: "insert_supplier s db = (r, db') \<Longrightarrow> identity_inv db \<Longrightarrow> identity_inv db'"
  by (force simp: identity_inv_def norm_keys_def alias_keys_def insert_supplier_def list_ex_iff split: if_splits)

lemma identity_insert_alias: "insert_alias a db = (r, db') \<Longrightarrow> identity_inv db \<Longrightarrow> identity_inv db'"
  by (force simp: identity_inv_def norm_keys_def alias_keys_def insert_alias_def list_ex_iff split: if_splits)

lemma identity_event [simp]: "identity_inv (record_event t ty e p db) = identity_inv db"
  by (simp add: identity_inv_def norm_keys_def alias_keys_def)

lemma identity_same: "fd_suppliers db' = fd_suppliers db \<Longrightarrow> fd_aliases db' = fd_aliases db \<Longrightarrow> identity_inv db \<Longrightarrow> identity_inv db'"
  by (simp add: identity_inv_def norm_keys_def alias_keys_def)

lemma identity_createSupplier: "identity_inv db \<Longrightarrow> identity_inv (snd (createSupplier nf t body i db))"
  unfolding createSupplier_def Let_def by (auto split: option.splits prod.splits dest: identity_insert_supplier)

lemma identity_confirmAlias: "identity_inv db \<Longrightarrow> identity_inv (snd (confirmAlias nf sha t ow s body i db))"
  unfolding confirmAlias_def Let_def by (auto split: option.splits prod.splits dest: identity_insert_alias)

lemma others_keep_suppliers:
  "fd_suppliers (snd (createCustomer t body i db)) = fd_suppliers db" "fd_aliases (snd (createCustomer t body i db)) = fd_aliases db"
  "fd_suppliers (snd (createInvoice dp t body i db)) = fd_suppliers db" "fd_aliases (snd (createInvoice dp t body i db)) = fd_aliases db"
  "fd_suppliers (snd (allocateInvoice sha t i h body db)) = fd_suppliers db" "fd_aliases (snd (allocateInvoice sha t i h body db)) = fd_aliases db"
  "fd_suppliers (snd (reverseAllocation sha t i a db)) = fd_suppliers db" "fd_aliases (snd (reverseAllocation sha t i a db)) = fd_aliases db"
  "fd_suppliers (snd (void_update t i db)) = fd_suppliers db" "fd_aliases (snd (void_update t i db)) = fd_aliases db"
  by (simp_all add: createCustomer_def createInvoice_def allocateInvoice_def reverseAllocation_def void_update_def Let_def
      split: option.splits prod.splits fault.splits)

lemma payables_keep_suppliers:
  "fd_suppliers (snd (createPayable dp t body i db)) = fd_suppliers db" "fd_aliases (snd (createPayable dp t body i db)) = fd_aliases db"
  "fd_suppliers (snd (allocatePayable sha t i h body db)) = fd_suppliers db" "fd_aliases (snd (allocatePayable sha t i h body db)) = fd_aliases db"
  "fd_suppliers (snd (reversePayable sha t i a db)) = fd_suppliers db" "fd_aliases (snd (reversePayable sha t i a db)) = fd_aliases db"
  "fd_suppliers (snd (payable_void_update t i db)) = fd_suppliers db" "fd_aliases (snd (payable_void_update t i db)) = fd_aliases db"
  by (simp_all add: createPayable_def allocatePayable_def reversePayable_def payable_void_update_def Let_def
      split: option.splits prod.splits fault.splits)

lemma identity_step: "finance_step db db' \<Longrightarrow> identity_inv db \<Longrightarrow> identity_inv db'"
proof (induction rule: finance_step.induct)
  case (Supplier db nf t body i)
  then show ?case by (rule identity_createSupplier)
next
  case (Alias db nf sha t ow s body i)
  then show ?case by (rule identity_confirmAlias)
qed (erule identity_same[rotated 2], simp_all add: others_keep_suppliers payables_keep_suppliers)+

lemma identity_reach: "finance_reach db \<Longrightarrow> identity_inv db"
  unfolding finance_reach_def
proof (induction rule: rtranclp_induct)
  case (step y z)
  then show ?case using identity_step by blast
qed (simp add: identity_inv_def norm_keys_def alias_keys_def no_finance_def)


section \<open>Properties\<close>

definition settled :: "alloc list \<Rightarrow> 'a bill_scheme \<Rightarrow> int" where
  "settled als b = net (on_bill (bl_tenant b) (bl_id b)) als"

definition spent :: "alloc list \<Rightarrow> fin_tx \<Rightarrow> int" where
  "spent als x = net (on_tx (tx_tenant x) (tx_id x)) als"

definition live_sum :: "(alloc \<Rightarrow> bool) \<Rightarrow> alloc list \<Rightarrow> int" where
  "live_sum p als = col_sum al_amount (filter (\<lambda>a. p a \<and> live als a) als)"

text \<open>C2: Whatever the requests and however their statements interleave, an invoice or payable is never
  settled below zero or beyond its total, a recorded transaction is never spent beyond its amount nor by
  the ledger of the other direction, and what is settled is the sum of the allocations not taken back.\<close>

theorem settlements_bounded:
  assumes "finance_reach db"
  shows "list_all (\<lambda>b. 0 \<le> settled (fd_allocs db) b \<and> settled (fd_allocs db) b \<le> bl_total b \<and>
      settled (fd_allocs db) b = live_sum (on_bill (bl_tenant b) (bl_id b)) (fd_allocs db)) (fd_invoices db) \<and>
    list_all (\<lambda>b. 0 \<le> settled (fd_pallocs db) b \<and> settled (fd_pallocs db) b \<le> bl_total b \<and>
      settled (fd_pallocs db) b = live_sum (on_bill (bl_tenant b) (bl_id b)) (fd_pallocs db)) (fd_payables db) \<and>
    list_all (\<lambda>x. 0 \<le> spent (fd_allocs db) x \<and> spent (fd_allocs db) x \<le> max 0 (tx_amount x) \<and>
      0 \<le> spent (fd_pallocs db) x \<and> spent (fd_pallocs db) x \<le> max 0 (- tx_amount x)) (fd_txs db)"
proof -
  have r: "finance_step\<^sup>*\<^sup>* no_finance db" using assms by (simp add: finance_reach_def)
  have "spent (fd_allocs db) x \<le> max 0 (tx_amount x)" "spent (fd_pallocs db) x \<le> max 0 (- tx_amount x)" if "x \<in> set (fd_txs db)" for x
    using invoices.tx_bounds[OF r, of x] payables.tx_bounds[OF r, of x] that by (auto simp: spent_def split: if_splits)
  then show ?thesis
    using invoices.bill_bounds[OF r] payables.bill_bounds[OF r] invoices.tx_bounds[OF r] payables.tx_bounds[OF r]
      invoices.settled_live[OF r] payables.settled_live[OF r]
    by (simp add: list_all_iff settled_def spent_def live_sum_def)
qed


section \<open>A sample ledger\<close>

definition demo_dates :: date_parse where
  "demo_dates s = (if s = ''2026-01-01T00:00:00Z'' then Some 1767225600000 else if s = ''2026-01-31T00:00:00Z'' then Some 1769817600000 else None)"

definition demo_customer :: ap_db where
  "demo_customer = snd (createCustomer ''t'' (JObj [(''name'', JStr ''Acme'')]) ''c1'' no_finance)"

definition demo_invoice :: ap_db where
  "demo_invoice = snd (createInvoice demo_dates ''t'' (JObj [(''customerId'', JStr ''c1''), (''invoiceNumber'', JStr ''INV-1''),
     (''issuedOn'', JStr ''2026-01-01''), (''dueOn'', JStr ''2026-01-31''), (''totalMinor'', JInt 100)]) ''i1'' demo_customer)"

definition demo_tx :: fin_tx where
  "demo_tx = \<lparr>tx_id = ''x1'', tx_tenant = ''t'', tx_account = ''a'', tx_batch = ''b'', tx_posted = ''2026-01-02'', tx_description = ''pay'',
     tx_reference = [], tx_amount = 70, tx_source = ''csv'', tx_fingerprint = ''f''\<rparr>"

definition demo_ready :: ap_db where
  "demo_ready = demo_invoice\<lparr>fd_txs := fd_txs demo_invoice @ [demo_tx]\<rparr>"

definition demo_body :: jsval where
  "demo_body = JObj [(''transactionId'', JStr ''x1''), (''amountMinor'', JInt 60)]"

definition demo_paid :: ap_db where
  "demo_paid = snd (allocateInvoice id ''t'' ''i1'' (JStr ''key-0001'') demo_body demo_ready)"

lemma demo_texts:
  "text_of (JStr ''Acme'') 160 = ''Acme''" "text_of (JStr ''c1'') 64 = ''c1''" "text_of (JStr ''INV-1'') 80 = ''INV-1''"
  "text_of (JStr ''2026-01-01'') 10 = ''2026-01-01''" "text_of (JStr ''2026-01-31'') 10 = ''2026-01-31''"
  "text_of Undef 500 = []" "text_of Undef 80 = []" "text_of (JStr ''x1'') 64 = ''x1''" "text_of (JStr ''key-0001'') 120 = ''key-0001''"
  "integer (JInt 100) = Some 100" "integer (JInt 60) = Some 60"
  "validDate demo_dates ''2026-01-01''" "validDate demo_dates ''2026-01-31''" "\<not> ''2026-01-31'' < ''2026-01-01''"
  by code_simp+

lemma demo_customer_rows:
  "fd_customers demo_customer = [\<lparr>cu_id = ''c1'', cu_tenant = ''t'', cu_code = None, cu_name = ''Acme'', cu_active = True\<rparr>]"
  "fd_invoices demo_customer = []" "fd_allocs demo_customer = []" "fd_txs demo_customer = []"
  by (simp_all add: demo_customer_def createCustomer_def Let_def no_finance_def record_event_def demo_texts)

lemma demo_invoice_rows:
  "fd_customers demo_invoice = fd_customers demo_customer" "fd_allocs demo_invoice = []" "fd_txs demo_invoice = []"
  "fd_invoices demo_invoice = [\<lparr>bl_id = ''i1'', bl_tenant = ''t'', bl_party = ''c1'', bl_number = ''INV-1'', bl_issued = ''2026-01-01'',
     bl_due = ''2026-01-31'', bl_description = [], bl_total = 100, bl_open = True\<rparr>]"
  using demo_texts(10)
  by (simp_all add: demo_invoice_def createInvoice_def Let_def demo_texts demo_customer_rows invoice_conflict_def)

lemma demo_paid_rows:
  "fd_invoices demo_paid = fd_invoices demo_invoice" "fd_txs demo_paid = [demo_tx]"
  "map (\<lambda>a. (al_tenant a, al_bill a, al_tx a, al_amount a, al_entry a)) (fd_allocs demo_paid) = [(''t'', ''i1'', ''x1'', 60, Apply)]"
  "status_of (fst (allocateInvoice id ''t'' ''i1'' (JStr ''key-0001'') demo_body demo_ready)) = Some 201"
  using demo_texts(11)
  by (simp_all add: demo_paid_def demo_body_def demo_ready_def demo_tx_def allocateInvoice_def settle_invoice_def Let_def demo_texts jor_def
      invoiceDetail_def bill_of_def tx_of_def customer_of_def demo_customer_rows demo_invoice_rows alloc_at_def insert_alloc_def apply_guard_def
      breaks_constraint_def net_def)

lemma demo_ready_reach: "finance_reach demo_ready"
proof -
  have a: "finance_step no_finance demo_customer" unfolding demo_customer_def by (rule finance_step.Customer)
  have b: "finance_step demo_customer demo_invoice" unfolding demo_invoice_def by (rule finance_step.Invoice)
  have c: "finance_step demo_invoice demo_ready"
    unfolding demo_ready_def by (intro finance_step.Transaction) (simp_all add: demo_tx_def demo_invoice_rows)
  show ?thesis unfolding finance_reach_def
    by (rule converse_rtranclp_into_rtranclp, rule a, rule converse_rtranclp_into_rtranclp, rule b, rule r_into_rtranclp, rule c)
qed

lemma demo_paid_reach: "finance_reach demo_paid"
proof -
  have "finance_step demo_ready demo_paid" unfolding demo_paid_def by (rule finance_step.Allocate_Invoice)
  then show ?thesis using demo_ready_reach unfolding finance_reach_def by (rule rtranclp.rtrancl_into_rtrancl[rotated])
qed

theorem settlements_bounded_witness:
  "map (settled (fd_allocs demo_paid)) (fd_invoices demo_paid) = [60] \<and>
   list_all (\<lambda>x. spent (fd_allocs demo_paid) x \<le> max 0 (tx_amount x)) (fd_txs demo_paid)"
proof -
  obtain a where "fd_allocs demo_paid = [a]" "al_tenant a = ''t''" "al_bill a = ''i1''" "al_amount a = 60" "al_entry a = Apply"
    using demo_paid_rows(3) by auto
  then have "map (settled (fd_allocs demo_paid)) (fd_invoices demo_paid) = [60]"
    by (simp add: demo_paid_rows(1) demo_invoice_rows settled_def net_def on_bill_def signed_def)
  then show ?thesis using settlements_bounded[OF demo_paid_reach] by (simp add: list_all_iff)
qed

text \<open>The shape of an accepted settlement.\<close>

definition settlement_of :: "(string \<Rightarrow> string) \<Rightarrow> string \<Rightarrow> string \<Rightarrow> jsval \<Rightarrow> jsval \<Rightarrow> int \<Rightarrow> alloc" where
  "settlement_of sha t i h body amount =
    (let x = text_of (fld body ''transactionId'') 64; key = text_of (jor h (fld body ''idempotencyKey'')) 120
     in \<lparr>al_id = allocation_id sha [t, i, x, key], al_tenant = t, al_bill = i, al_tx = x, al_amount = amount, al_entry = Apply\<rparr>)"

lemma settlement_simps [simp]:
  "al_tenant (settlement_of sha t i h body m) = t" "al_bill (settlement_of sha t i h body m) = i"
  "al_amount (settlement_of sha t i h body m) = m" "al_entry (settlement_of sha t i h body m) = Apply"
  "al_tx (settlement_of sha t i h body m) = text_of (fld body ''transactionId'') 64"
  by (simp_all add: settlement_of_def Let_def)

lemma allocate_accepted:
  assumes "status_of (fst (allocateInvoice sha t i h body db)) = Some 201"
  obtains amount tx invoice k where "integer (fld body ''amountMinor'') = Some amount" "0 < amount"
    "text_of (fld body ''transactionId'') 64 \<noteq> []" "8 \<le> length (text_of (jor h (fld body ''idempotencyKey'')) 120)"
    "invoiceDetail db t i = Some (invoice, k)" "bl_open invoice"
    "find (\<lambda>x. tx_id x = text_of (fld body ''transactionId'') 64 \<and> tx_tenant x = t \<and> 0 < tx_amount x) (fd_txs db) = Some tx"
    "alloc_at (fd_allocs db) t (al_id (settlement_of sha t i h body amount)) = None"
    "insert_alloc Inflow (fd_invoices db) (fd_txs db) (settlement_of sha t i h body amount) (fd_allocs db) =
       (None, fd_allocs db @ [settlement_of sha t i h body amount])"
    "snd (allocateInvoice sha t i h body db) = record_event t ''INVOICE_PAYMENT_ALLOCATED'' (al_id (settlement_of sha t i h body amount))
       (JObj [(''invoiceId'', JStr i), (''transactionId'', JStr (text_of (fld body ''transactionId'') 64)), (''amountMinor'', JInt amount),
         (''transactionPostedOn'', JStr (tx_posted tx)), (''currency'', JStr ''BWP'')])
       (db\<lparr>fd_allocs := fd_allocs db @ [settlement_of sha t i h body amount]\<rparr>)"
proof -
  let ?x = "text_of (fld body ''transactionId'') 64" and ?k = "text_of (jor h (fld body ''idempotencyKey'')) 120"
  note un = allocateInvoice_def Let_def fail_def
  have x: "?x \<noteq> []" using assms by (rule contrapos_pn) (simp add: un)
  obtain amount where am: "integer (fld body ''amountMinor'') = Some amount"
    using assms x by (cases "integer (fld body ''amountMinor'')") (simp_all add: un)
  have pos: "0 < amount" using assms x am by (rule_tac ccontr) (simp add: un)
  have key: "8 \<le> length ?k" using assms x am pos by (rule_tac ccontr) (simp add: un)
  obtain invoice k where inv: "invoiceDetail db t i = Some (invoice, k)"
    using assms x am pos key by (cases "invoiceDetail db t i") (auto simp: un)
  have op: "bl_open invoice" using assms x am pos key inv by (rule_tac ccontr) (simp add: un)
  obtain tx where tx: "find (\<lambda>y. tx_id y = ?x \<and> tx_tenant y = t \<and> 0 < tx_amount y) (fd_txs db) = Some tx"
    using assms x am pos key inv op
    by (cases "find (\<lambda>y. tx_id y = ?x \<and> tx_tenant y = t \<and> 0 < tx_amount y) (fd_txs db)") (simp_all add: un)
  let ?a = "settlement_of sha t i h body amount"
  have rest: "allocateInvoice sha t i h body db = settle_invoice tx ?a db"
    using x am pos key inv op tx by (simp add: allocateInvoice_def settlement_of_def Let_def)
  have fresh: "alloc_at (fd_allocs db) t (al_id ?a) = None"
    using assms unfolding rest settle_invoice_def Let_def
    by (cases "alloc_at (fd_allocs db) t (al_id ?a)") (auto simp: fail_def split: if_splits)
  have ins: "insert_alloc Inflow (fd_invoices db) (fd_txs db) ?a (fd_allocs db) = (None, fd_allocs db @ [?a])"
    using assms fresh unfolding rest settle_invoice_def Let_def
    by (cases rule: insert_alloc_cases[of Inflow "fd_invoices db" "fd_txs db" ?a "fd_allocs db"]) (auto simp: fail_def split: fault.splits)
  show thesis
    by (rule that[OF am pos x key inv op tx fresh ins]) (simp add: rest fresh ins settle_invoice_def Let_def)
qed


lemma settle_replays: "alloc_at (fd_allocs db) (al_tenant a) (al_id a) = Some a \<Longrightarrow> al_entry a = Apply \<Longrightarrow>
    snd (settle_invoice tx a db) = db \<and> status_of (fst (settle_invoice tx a db)) = Some 200"
  by (simp add: settle_invoice_def Let_def)

lemma invoiceDetail_open: "invoiceDetail db t i = Some (b, k) \<Longrightarrow> fd_invoices db' = fd_invoices db \<Longrightarrow> fd_customers db' = fd_customers db \<Longrightarrow>
    invoiceDetail db' t i = Some (b, net (on_bill t i) (fd_allocs db'))"
  by (auto simp: invoiceDetail_def split: option.splits if_splits)

lemma history_tail_unreversed: "history (als @ [a]) \<Longrightarrow> al_entry a = Apply \<Longrightarrow> \<not> reversed_in (als @ [a]) (al_id a)"
  using history_targets[of als "al_id a"] by (auto elim: history_snoc)

lemma unreversed_at: "\<not> reversed_in als r \<Longrightarrow> reversal_at als t r = None"
  by (auto simp: reversal_at_def reversed_in_def find_None_iff list_ex_iff)

definition reversal_of :: "(string \<Rightarrow> string) \<Rightarrow> alloc \<Rightarrow> alloc" where
  "reversal_of sha a = a\<lparr>al_id := allocation_id sha [al_tenant a, al_id a, ''reverse''], al_entry := Reverse_Of (al_id a)\<rparr>"

text \<open>What taking an allocation back does: the trigger finds the allocation, so the insert can fail on one
  thing alone, an id of the table that the reversal's id equals.\<close>

lemma reversal_simps [simp]:
  "al_tenant (reversal_of sha a) = al_tenant a" "al_bill (reversal_of sha a) = al_bill a" "al_tx (reversal_of sha a) = al_tx a"
  "al_amount (reversal_of sha a) = al_amount a" "al_entry (reversal_of sha a) = Reverse_Of (al_id a)"
  "al_id (reversal_of sha a) = allocation_id sha [al_tenant a, al_id a, ''reverse'']"
  by (simp_all add: reversal_of_def)

lemma reversal_inserted:
  assumes "a \<in> set als" "al_entry a = Apply" "0 < al_amount a" "reversal_at als (al_tenant a) (al_id a) = None"
  shows "insert_alloc sd bills txs (reversal_of sha a) als =
    (if al_id (reversal_of sha a) \<in> al_id ` set als then (Some Constraint, als) else (None, als @ [reversal_of sha a]))"
proof -
  have "reverse_guard (al_id a) als (reversal_of sha a) = None"
    using assms(1,2) by (auto simp: reverse_guard_def list_ex_iff)
  moreover have "\<not> list_ex (\<lambda>b. al_tenant b = al_tenant a \<and> al_entry b = Reverse_Of (al_id a)) als"
    using assms(4) by (auto simp: reversal_at_def find_None_iff list_ex_iff)
  ultimately show ?thesis using assms(3) by (simp add: insert_alloc_def breaks_constraint_def)
qed

lemma reverse_outcome:
  fixes sha :: "string \<Rightarrow> string"
  assumes "find (\<lambda>x. al_id x = al_id a \<and> al_tenant x = al_tenant a \<and> al_bill x = al_bill a) (fd_allocs db) = Some a"
    "al_entry a = Apply" "0 < al_amount a" "reversal_at (fd_allocs db) (al_tenant a) (al_id a) = None"
  defines "r \<equiv> reverseAllocation sha (al_tenant a) (al_bill a) (al_id a) db"
  shows "if al_id (reversal_of sha a) \<in> al_id ` set (fd_allocs db) then r = (Throws, db)
    else fd_allocs (snd r) = fd_allocs db @ [reversal_of sha a] \<and> fd_invoices (snd r) = fd_invoices db \<and> status_of (fst r) = Some 201"
proof -
  have same: "\<lparr>al_id = allocation_id sha [al_tenant a, al_id a, ''reverse''], al_tenant = al_tenant a, al_bill = al_bill a,
      al_tx = al_tx a, al_amount = al_amount a, al_entry = Reverse_Of (al_id a)\<rparr> = reversal_of sha a"
    by (simp add: reversal_of_def)
  have mem: "a \<in> set (fd_allocs db)" using find_SomeD[OF assms(1)] by simp
  show ?thesis
    unfolding r_def reverseAllocation_def Let_def assms(1,4) same option.case
      reversal_inserted[OF mem assms(2,3,4)] using assms(2) by simp
qed

lemma net_append: "net p (xs @ ys) = net p xs + net p ys"
  by (simp add: net_def)

lemma net_reversal: "net (on_bill t b) [a, reversal_of sha a] = 0" "net (on_tx t x) [a, reversal_of sha a] = 0"
  if "al_entry a = Apply"
  using that by (simp_all add: net_def on_bill_def on_tx_def signed_def)

text \<open>C24: A settlement repeated with its idempotency key changes nothing and says so. Taking the
  settlement back succeeds and restores what was settled before it, on every bill and on every
  transaction; it fails, without a change, only when the id of the reversal (a shortened digest) is
  already the id of another entry of the table.\<close>

theorem settlement_replays_and_reverses:
  assumes reach: "finance_reach db" and ok: "status_of (fst (allocateInvoice sha t i h body db)) = Some 201"
  defines "paid \<equiv> snd (allocateInvoice sha t i h body db)"
  shows "length (fd_allocs paid) = length (fd_allocs db) + 1 \<and>
    status_of (fst (allocateInvoice sha t i h body paid)) = Some 200 \<and> snd (allocateInvoice sha t i h body paid) = paid \<and>
    (case reverseAllocation sha t i (al_id (last (fd_allocs paid))) paid of (answer, back) \<Rightarrow>
       if allocation_id sha [t, al_id (last (fd_allocs paid)), ''reverse''] \<in> al_id ` set (fd_allocs paid)
       then answer = Throws \<and> back = paid
       else status_of answer = Some 201 \<and> fd_invoices back = fd_invoices db \<and>
         net (on_bill t b) (fd_allocs back) = net (on_bill t b) (fd_allocs db) \<and>
         net (on_tx t x) (fd_allocs back) = net (on_tx t x) (fd_allocs db))"
proof -
  obtain m tx inv k where f: "integer (fld body ''amountMinor'') = Some m" "0 < m" "text_of (fld body ''transactionId'') 64 \<noteq> []"
    "8 \<le> length (text_of (jor h (fld body ''idempotencyKey'')) 120)" "invoiceDetail db t i = Some (inv, k)" "bl_open inv"
    "find (\<lambda>x. tx_id x = text_of (fld body ''transactionId'') 64 \<and> tx_tenant x = t \<and> 0 < tx_amount x) (fd_txs db) = Some tx"
    "alloc_at (fd_allocs db) t (al_id (settlement_of sha t i h body m)) = None"
    "insert_alloc Inflow (fd_invoices db) (fd_txs db) (settlement_of sha t i h body m) (fd_allocs db) =
       (None, fd_allocs db @ [settlement_of sha t i h body m])"
    and paid: "paid = record_event t ''INVOICE_PAYMENT_ALLOCATED'' (al_id (settlement_of sha t i h body m))
       (JObj [(''invoiceId'', JStr i), (''transactionId'', JStr (text_of (fld body ''transactionId'') 64)), (''amountMinor'', JInt m),
         (''transactionPostedOn'', JStr (tx_posted tx)), (''currency'', JStr ''BWP'')])
       (db\<lparr>fd_allocs := fd_allocs db @ [settlement_of sha t i h body m]\<rparr>)"
    unfolding paid_def using ok by (rule allocate_accepted)
  define a where "a = settlement_of sha t i h body m"
  have allocs: "fd_allocs paid = fd_allocs db @ [a]" and rest: "fd_invoices paid = fd_invoices db" "fd_txs paid = fd_txs db" "fd_customers paid = fd_customers db"
    by (simp_all add: paid a_def)
  have at: "alloc_at (fd_allocs paid) t (al_id a) = Some a"
    using f(8) by (simp add: alloc_at_def allocs find_append a_def)
  have "allocateInvoice sha t i h body paid = settle_invoice tx a paid"
    using f(1-7) invoiceDetail_open[OF f(5) rest(1,3)] by (simp add: allocateInvoice_def Let_def a_def settlement_of_def rest)
  then have replay: "status_of (fst (allocateInvoice sha t i h body paid)) = Some 200" "snd (allocateInvoice sha t i h body paid) = paid"
    using settle_replays[of paid a tx] at by (simp_all add: a_def)
  have hist: "history (fd_allocs paid)"
    using history_insert[of "fd_allocs db" Inflow "fd_invoices db" "fd_txs db" a] f(9) invoices.reach_inv[of db] reach
    by (simp add: allocs a_def books_inv_def finance_reach_def)
  have unrev: "reversal_at (fd_allocs paid) t (al_id a) = None"
    unfolding allocs by (rule unreversed_at, rule history_tail_unreversed) (use hist in \<open>simp_all add: allocs a_def\<close>)
  have "find (\<lambda>x. al_id x = al_id a \<and> al_tenant x = t \<and> al_bill x = i) (fd_allocs db) = None"
    using f(8) unfolding alloc_at_def find_None_iff a_def by blast
  then have found: "find (\<lambda>x. al_id x = al_id a \<and> al_tenant x = t \<and> al_bill x = i) (fd_allocs paid) = Some a"
    by (simp add: allocs find_append a_def)
  have a: "al_entry a = Apply" "al_tenant a = t" "al_bill a = i" "0 < al_amount a" using f(2) by (simp_all add: a_def)
  have "case reverseAllocation sha t i (al_id a) paid of (answer, back) \<Rightarrow>
       if allocation_id sha [t, al_id a, ''reverse''] \<in> al_id ` set (fd_allocs paid)
       then answer = Throws \<and> back = paid
       else status_of answer = Some 201 \<and> fd_invoices back = fd_invoices db \<and>
         net (on_bill t b) (fd_allocs back) = net (on_bill t b) (fd_allocs db) \<and>
         net (on_tx t x) (fd_allocs back) = net (on_tx t x) (fd_allocs db)"
    using reverse_outcome[of a paid sha] found a unrev net_reversal[OF a(1), of t _ sha]
    by (cases "reverseAllocation sha t i (al_id a) paid") (simp add: allocs rest net_append split: if_splits)
  then show ?thesis using replay by (simp add: allocs)
qed

lemma demo_paid_id: "map al_id (fd_allocs demo_paid) = [allocation_id id [''t'', ''i1'', ''x1'', ''key-0001'']]"
proof -
  obtain m where "fd_allocs demo_paid = fd_allocs demo_ready @ [settlement_of id ''t'' ''i1'' (JStr ''key-0001'') demo_body m]"
    unfolding demo_paid_def using demo_paid_rows(4) by (rule allocate_accepted) simp
  then show ?thesis
    by (simp add: settlement_of_def Let_def demo_ready_def demo_invoice_rows demo_body_def demo_texts jor_def)
qed

lemma demo_reversal_fresh:
  "allocation_id id [''t'', allocation_id id [''t'', ''i1'', ''x1'', ''key-0001''], ''reverse''] \<noteq> allocation_id id [''t'', ''i1'', ''x1'', ''key-0001'']"
  by code_simp

text \<open>The sample payment can be taken back: the reversal is accepted and nothing is settled any more.\<close>

theorem settlement_replays_and_reverses_witness:
  "length (fd_allocs demo_paid) = 1 \<and> snd (allocateInvoice id ''t'' ''i1'' (JStr ''key-0001'') demo_body demo_paid) = demo_paid \<and>
   (case reverseAllocation id ''t'' ''i1'' (al_id (last (fd_allocs demo_paid))) demo_paid of (answer, back) \<Rightarrow>
      status_of answer = Some 201 \<and> net (on_bill ''t'' ''i1'') (fd_allocs demo_paid) = 60 \<and> net (on_bill ''t'' ''i1'') (fd_allocs back) = 0)"
proof -
  note c24 = settlement_replays_and_reverses[OF demo_ready_reach demo_paid_rows(4), folded demo_paid_def, of "''i1''" "''x1''"]
  obtain a where a: "fd_allocs demo_paid = [a]" "al_tenant a = ''t''" "al_bill a = ''i1''" "al_amount a = 60" "al_entry a = Apply"
    using demo_paid_rows(3) by auto
  have z: "fd_allocs demo_ready = []" by (simp add: demo_ready_def demo_invoice_rows)
  have "allocation_id id [''t'', al_id (last (fd_allocs demo_paid)), ''reverse''] \<notin> al_id ` set (fd_allocs demo_paid)"
    using demo_paid_id demo_reversal_fresh by (simp add: a(1))
  moreover have "net (on_bill ''t'' ''i1'') (fd_allocs demo_paid) = 60"
    using a by (simp add: net_def on_bill_def signed_def)
  ultimately show ?thesis using c24 by (auto simp: z net_def split: prod.splits)
qed

text \<open>C27: A void that runs without interference closes an invoice with nothing settled on it only; but its
  check and its write are two statements, and a settlement that runs between them leaves a void invoice
  with money on it, counted as collected and as outstanding nowhere.\<close>

theorem void_and_settlement_race:
  shows "(fd_invoices (snd (voidInvoice t i db)) = fd_invoices db \<or> net (on_bill t i) (fd_allocs db) = 0) \<and>
    void_check ''t'' ''i1'' demo_ready = None \<and>
    (case void_update ''t'' ''i1'' (snd (allocateInvoice id ''t'' ''i1'' (JStr ''key-0001'') demo_body demo_ready)) of (answer, raced) \<Rightarrow>
       status_of answer = Some 200 \<and> map bl_open (fd_invoices raced) = [False] \<and>
       map (settled (fd_allocs raced)) (fd_invoices raced) = [60] \<and>
       dc_collected (financeDailyCollections ''2026-01-02'' ''t'' raced) = 60 \<and>
       rs_invoices (financeReceivablesSummary after ''2026-01-03'' ''t'' None None raced) = [])"
proof -
  have a: "fd_invoices (snd (voidInvoice t i db)) = fd_invoices db \<or> net (on_bill t i) (fd_allocs db) = 0"
    by (auto simp: voidInvoice_def void_check_def invoiceDetail_def split: option.splits if_splits)
  have b: "void_check ''t'' ''i1'' demo_ready = None"
    by (simp add: void_check_def invoiceDetail_def bill_of_def customer_of_def demo_ready_def demo_invoice_rows demo_customer_rows net_def)
  obtain x where x: "fd_allocs demo_paid = [x]" "al_tenant x = ''t''" "al_bill x = ''i1''" "al_tx x = ''x1''" "al_amount x = 60" "al_entry x = Apply"
    using demo_paid_rows(3) by auto
  have "case void_update ''t'' ''i1'' demo_paid of (answer, raced) \<Rightarrow>
       status_of answer = Some 200 \<and> map bl_open (fd_invoices raced) = [False] \<and>
       map (settled (fd_allocs raced)) (fd_invoices raced) = [60] \<and>
       dc_collected (financeDailyCollections ''2026-01-02'' ''t'' raced) = 60 \<and>
       rs_invoices (financeReceivablesSummary after ''2026-01-03'' ''t'' None None raced) = []"
    by (simp add: void_update_def demo_paid_rows(1,2) demo_invoice_rows closed_bill_def settled_def net_def on_bill_def on_tx_def signed_def x
        financeDailyCollections_def demo_tx_def financeReceivablesSummary_def open_invoices_def open_rows_def Let_def map_filter_simps
        js_sort_def split: option.split)
  with a b show ?thesis unfolding demo_paid_def by blast
qed

definition known_as :: "'a ap_db_scheme \<Rightarrow> string \<Rightarrow> string \<Rightarrow> string \<Rightarrow> bool" where
  "known_as db t key s \<longleftrightarrow> list_ex (\<lambda>x. su_id x = s \<and> su_tenant x = t \<and> su_norm x = key) (fd_suppliers db) \<or>
     list_ex (\<lambda>a. sa_supplier a = s \<and> sa_tenant a = t \<and> sa_norm a = key) (fd_aliases db)"

text \<open>C25: A normalized name or alias stands for one supplier of a tenant at most.\<close>

theorem supplier_identity_unambiguous:
  assumes "finance_reach db" "known_as db t key s" "known_as db t key s'"
  shows "s = s'"
proof -
  have i: "identity_inv db" using identity_reach assms(1) .
  have n: "x = y" if "x \<in> set (fd_suppliers db)" "y \<in> set (fd_suppliers db)" "su_tenant x = su_tenant y" "su_norm x = su_norm y" for x y
    using i that by (intro distinct_key_unique[of "\<lambda>s. (su_tenant s, su_norm s)" "fd_suppliers db"]) (simp_all add: identity_inv_def norm_keys_def)
  have a: "x = y" if "x \<in> set (fd_aliases db)" "y \<in> set (fd_aliases db)" "sa_tenant x = sa_tenant y" "sa_norm x = sa_norm y" for x y
    using i that by (intro distinct_key_unique[of "\<lambda>s. (sa_tenant s, sa_norm s)" "fd_aliases db"]) (simp_all add: identity_inv_def alias_keys_def)
  show ?thesis
    using assms(2,3) i n a unfolding known_as_def identity_inv_def list_ex_iff by metis
qed

definition demo_supplier :: ap_db where
  "demo_supplier = snd (createSupplier id ''t'' (JObj [(''name'', JStr ''Acme'')]) ''s1'' no_finance)"

lemma demo_supplier_rows: "map (\<lambda>s. (su_id s, su_tenant s, su_norm s)) (fd_suppliers demo_supplier) = [(''s1'', ''t'', ''acme'')]"
proof -
  have "normalizeSupplierIdentity id ''Acme'' = ''acme''" "normalizeExpenseCategory (JStr ''other'') = Some ''other''" by code_simp+
  then show ?thesis
    by (simp add: demo_supplier_def createSupplier_def insert_supplier_def Let_def no_finance_def demo_texts jor_def)
qed

theorem supplier_identity_unambiguous_witness: "known_as demo_supplier ''t'' ''acme'' ''s1'' \<and> \<not> known_as demo_supplier ''t'' ''acme'' ''s2''"
proof -
  have r: "finance_reach demo_supplier"
    unfolding finance_reach_def demo_supplier_def by (intro r_into_rtranclp finance_step.Supplier)
  have k: "known_as demo_supplier ''t'' ''acme'' ''s1''"
    using demo_supplier_rows by (auto simp: known_as_def)
  show ?thesis using supplier_identity_unambiguous[OF r k, of "''s2''"] k by auto
qed


section \<open>The summary against the books\<close>

lemma open_rows_member: "r \<in> set (open_rows t party bills als) \<Longrightarrow> or_bill r \<in> set bills \<and> 0 < outstanding r"
  by (induction bills) (auto simp: open_rows_def map_filter_simps Let_def outstanding_def split: option.splits if_splits)

lemma row_sum_open:
  assumes "\<forall>b \<in> set bills. bl_tenant b = t \<longrightarrow> party (bl_party b) \<noteq> None \<and> net (on_bill t (bl_id b)) als \<le> bl_total b"
  shows "row_sum (\<lambda>_. True) (open_rows t party bills als) =
    col_sum (\<lambda>b. bl_total b - net (on_bill t (bl_id b)) als) (filter (\<lambda>b. bl_tenant b = t \<and> bl_open b) bills)"
  using assms
proof (induction bills)
  case (Cons b bills)
  then have ih: "row_sum (\<lambda>_. True) (open_rows t party bills als) =
    col_sum (\<lambda>b. bl_total b - net (on_bill t (bl_id b)) als) (filter (\<lambda>b. bl_tenant b = t \<and> bl_open b) bills)"
    by simp
  show ?case
  proof (cases "bl_tenant b = t \<and> bl_open b")
    case True
    then obtain n where "party (bl_party b) = Some n" "net (on_bill t (bl_id b)) als \<le> bl_total b" using Cons.prems by auto
    then show ?thesis using True ih by (simp add: open_rows_def map_filter_simps Let_def row_sum_def outstanding_def)
  next
    case False
    then have "open_rows t party (b # bills) als = open_rows t party bills als"
      by (auto simp: open_rows_def map_filter_simps Let_def split: option.split)
    then show ?thesis using False ih by auto
  qed
qed (simp add: open_rows_def map_filter_simps row_sum_def)

lemma row_sum_mono:
  "(\<And>r. r \<in> set rows \<Longrightarrow> 0 \<le> outstanding r) \<Longrightarrow> (\<And>r. r \<in> set rows \<Longrightarrow> p r \<Longrightarrow> q r) \<Longrightarrow> row_sum p rows \<le> row_sum q rows"
proof (induction rows)
  case (Cons r rows)
  then have "row_sum p rows \<le> row_sum q rows" "0 \<le> outstanding r" "p r \<Longrightarrow> q r" by simp_all
  then show ?case by (auto simp: row_sum_def)
qed (simp add: row_sum_def)

lemma row_sum_disjoint: "(\<And>r. r \<in> set rows \<Longrightarrow> \<not> (p r \<and> q r)) \<Longrightarrow> row_sum p rows + row_sum q rows = row_sum (\<lambda>r. p r \<or> q r) rows"
  by (induction rows) (auto simp: row_sum_def)

lemma col_sum_perm: "mset xs = mset ys \<Longrightarrow> col_sum f xs = col_sum f ys"
proof -
  have "col_sum f zs = sum_mset (image_mset f (mset zs))" for zs by (induction zs) auto
  then show "mset xs = mset ys \<Longrightarrow> ?thesis" by simp
qed

lemma col_sum_map: "col_sum f (map g xs) = col_sum (\<lambda>x. f (g x)) xs"
  by (induction xs) auto

lemma col_sum_add: "col_sum (\<lambda>k. f k + g k) ks = col_sum f ks + col_sum g ks"
  by (induction ks) auto

lemma col_sum_one: "distinct ks \<Longrightarrow> k \<in> set ks \<Longrightarrow> col_sum (\<lambda>j. if k = j then v else 0) ks = v"
proof (induction ks)
  case (Cons j ks)
  have "col_sum (\<lambda>i. if k = i then v else 0) ks = 0" if "k \<notin> set ks" using that by (induction ks) auto
  then show ?case using Cons by auto
qed simp

text \<open>The groups of a list add up to the whole.\<close>

lemma group_sums: "distinct ks \<Longrightarrow> key ` set rows \<subseteq> set ks \<Longrightarrow> col_sum (\<lambda>k. col_sum f (filter (\<lambda>r. key r = k) rows)) ks = col_sum f rows"
proof (induction rows)
  case Nil
  have "col_sum (\<lambda>k. 0) ks = 0" by (induction ks) auto
  then show ?case by simp
next
  case (Cons r rows)
  have "col_sum (\<lambda>k. col_sum f (filter (\<lambda>x. key x = k) (r # rows))) ks =
      col_sum (\<lambda>k. (if key r = k then f r else 0) + col_sum f (filter (\<lambda>x. key x = k) rows)) ks"
    by (rule col_sum_cong) simp
  then show ?case using Cons by (simp add: col_sum_add col_sum_one)
qed

lemma party_groups_sum: "col_sum (\<lambda>k. row_sum (\<lambda>r. row_key r = k) rows) (party_groups rows) = row_sum (\<lambda>_. True) rows"
proof -
  have "col_sum (\<lambda>k. row_sum (\<lambda>r. row_key r = k) rows) (party_groups rows) =
      col_sum (\<lambda>k. col_sum outstanding (filter (\<lambda>r. row_key r = k) rows)) (dedup (map row_key rows))"
    unfolding party_groups_def row_sum_def by (rule col_sum_perm) simp
  also have "\<dots> = col_sum outstanding rows" by (rule group_sums) simp_all
  finally show ?thesis by (simp add: row_sum_def)
qed

lemma pr_outstanding_of: "pr_outstanding (party_row_of date rows k) = row_sum (\<lambda>r. row_key r = k) rows"
  by (simp add: party_row_of_def Let_def row_sum_def)

interpretation groups: comparator "\<lambda>_. True" "group_le rows" for rows :: "'a open_row list"
  by unfold_locales (auto simp: group_le_def Let_def)

lemma take_sum_le: "(\<And>x. x \<in> set xs \<Longrightarrow> 0 \<le> f x) \<Longrightarrow> col_sum f (take n xs) \<le> col_sum f xs"
proof -
  assume nonneg: "\<And>x. x \<in> set xs \<Longrightarrow> 0 \<le> f x"
  have "0 \<le> col_sum f (drop n xs)" by (rule col_sum_nonneg) (use nonneg in \<open>auto dest: in_set_dropD\<close>)
  moreover have "col_sum f xs = col_sum f (take n xs) + col_sum f (drop n xs)" by (metis append_take_drop_id col_sum_append)
  ultimately show ?thesis by simp
qed

text \<open>C7: The receivables summary agrees with the books: the outstanding amount is what the open invoices are
  short of; the due windows are nested and, with the overdue part, stay within it; the customers are listed
  by falling balance and add up to it as far as the list goes.\<close>

theorem receivables_reconcile:
  fixes t :: string and cl il :: "int option"
  assumes reach: "finance_reach db" and order: "after d 7 \<le> after d 14" "after d 14 \<le> after d 30"
  defines "s \<equiv> financeReceivablesSummary after d t cl il db"
  shows "bt_outstanding (rs_totals s) =
      col_sum (\<lambda>b. bl_total b - settled (fd_allocs db) b) (filter (\<lambda>b. bl_tenant b = t \<and> bl_open b) (fd_invoices db)) \<and>
    bt_due7 (rs_totals s) \<le> bt_due14 (rs_totals s) \<and> bt_due14 (rs_totals s) \<le> bt_due30 (rs_totals s) \<and>
    bt_overdue (rs_totals s) + bt_due30 (rs_totals s) \<le> bt_outstanding (rs_totals s) \<and>
    (if length (party_groups (open_invoices db t)) \<le> capped 25 10 cl
     then col_sum pr_outstanding (rs_customers s) = bt_outstanding (rs_totals s)
     else col_sum pr_outstanding (rs_customers s) \<le> bt_outstanding (rs_totals s)) \<and>
    sorted_wrt (\<lambda>a b. pr_outstanding b \<le> pr_outstanding a) (rs_customers s)"
proof -
  let ?rows = "open_invoices db t"
  have pos: "0 \<le> outstanding r" if "r \<in> set ?rows" for r
    using open_rows_member[of r] that by (force simp: open_invoices_def)
  have tot: "bt_outstanding (rs_totals s) = row_sum (\<lambda>_. True) ?rows" "bt_due7 (rs_totals s) = row_sum (due_within after d 7) ?rows"
    "bt_due14 (rs_totals s) = row_sum (due_within after d 14) ?rows" "bt_due30 (rs_totals s) = row_sum (due_within after d 30) ?rows"
    "bt_overdue (rs_totals s) = row_sum (overdue_at d) ?rows"
    "rs_customers s = map (party_row_of d ?rows) (take (capped 25 10 cl) (party_groups ?rows))"
    by (simp_all add: s_def financeReceivablesSummary_def balance_totals_of_def Let_def)
  have "row_sum (\<lambda>_. True) ?rows = col_sum (\<lambda>b. bl_total b - net (on_bill t (bl_id b)) (fd_allocs db)) (filter (\<lambda>b. bl_tenant b = t \<and> bl_open b) (fd_invoices db))"
    unfolding open_invoices_def
    using parties_reach[OF reach] invoices.bill_bounds[of db] reach
    by (intro row_sum_open) (auto simp: parties_known_def finance_reach_def)
  also have "\<dots> = col_sum (\<lambda>b. bl_total b - settled (fd_allocs db) b) (filter (\<lambda>b. bl_tenant b = t \<and> bl_open b) (fd_invoices db))"
    by (rule col_sum_cong) (simp add: settled_def)
  finally have a: "row_sum (\<lambda>_. True) ?rows = \<dots>" .
  have w: "row_sum (due_within after d 7) ?rows \<le> row_sum (due_within after d 14) ?rows"
      "row_sum (due_within after d 14) ?rows \<le> row_sum (due_within after d 30) ?rows"
    using pos order by (auto intro!: row_sum_mono simp: due_within_def)
  have "row_sum (overdue_at d) ?rows + row_sum (due_within after d 30) ?rows = row_sum (\<lambda>r. overdue_at d r \<or> due_within after d 30 r) ?rows"
    by (rule row_sum_disjoint) (auto simp: overdue_at_def due_within_def)
  also have "\<dots> \<le> row_sum (\<lambda>_. True) ?rows" using pos by (rule row_sum_mono) simp_all
  finally have o: "row_sum (overdue_at d) ?rows + row_sum (due_within after d 30) ?rows \<le> row_sum (\<lambda>_. True) ?rows" .
  let ?g = "\<lambda>k. row_sum (\<lambda>r. row_key r = k) ?rows"
  have cs: "col_sum pr_outstanding (rs_customers s) = col_sum ?g (take (capped 25 10 cl) (party_groups ?rows))"
    by (simp add: tot(6) pr_outstanding_of col_sum_map)
  have "0 \<le> ?g k" for k unfolding row_sum_def using pos by (intro col_sum_nonneg) auto
  then have "col_sum ?g (take (capped 25 10 cl) (party_groups ?rows)) \<le> row_sum (\<lambda>_. True) ?rows"
    using take_sum_le[of "party_groups ?rows" ?g] party_groups_sum[of ?rows] by simp
  moreover have "sorted_wrt (group_le ?rows) (party_groups ?rows)"
    unfolding party_groups_def by (rule groups.sorted_sort) (simp add: list_all_iff)
  then have "sorted_wrt (\<lambda>a b. ?g b \<le> ?g a) (party_groups ?rows)"
    by (rule sorted_wrt_mono_rel[rotated]) (auto simp: group_le_def Let_def)
  ultimately show ?thesis
    using a w o cs party_groups_sum[of ?rows] unfolding tot
    by (simp add: pr_outstanding_of col_sum_map sorted_wrt_map sorted_wrt_take)
qed


theorem receivables_reconcile_witness:
  "bt_outstanding (rs_totals (financeReceivablesSummary (\<lambda>d k. ''2026-02-10'') ''2026-01-03'' ''t'' None None demo_paid)) = 40"
proof -
  obtain x where x: "fd_allocs demo_paid = [x]" "al_tenant x = ''t''" "al_bill x = ''i1''" "al_amount x = 60" "al_entry x = Apply"
    using demo_paid_rows(3) by auto
  show ?thesis
    using receivables_reconcile[OF demo_paid_reach, of "\<lambda>d k. ''2026-02-10''" "''2026-01-03''" "''t''" None None]
    by (simp add: demo_paid_rows(1) demo_invoice_rows settled_def net_def on_bill_def signed_def x)
qed

end
