(* ===== verification/FinanceLineage.thy ===== *)
theory FinanceLineage imports FinanceReceivables begin

text \<open>
  The lineage of \<^verbatim>\<open>finance-core.js\<close>: the tenant's append-only chain of hashed events, written by
  requests that read the head first and retry when another request was faster, and the connections to
  external providers, which exist in it alone: a connection is what its events say. A payload stands for
  the JSON text the table stores of it.
\<close>

section \<open>The chain\<close>

record lineage_event =
  le_tenant :: string
  le_type :: string
  le_entity_type :: string
  le_entity :: string
  le_payload :: jsval

record lineage_row = lineage_event +
  ln_seq :: nat
  ln_prev :: string
  ln_hash :: string
  ln_at :: jsval

definition latest_first :: "'a lineage_row_scheme \<Rightarrow> 'a lineage_row_scheme \<Rightarrow> bool" where
  "latest_first a b \<longleftrightarrow> ln_seq b \<le> ln_seq a"

definition head_of :: "string \<Rightarrow> lineage_row list \<Rightarrow> lineage_row option" where
  "head_of t rows = (case js_sort latest_first (filter (\<lambda>r. le_tenant r = t) rows) of [] \<Rightarrow> None | r # _ \<Rightarrow> Some r)"

definition canonical_of :: "lineage_event \<Rightarrow> nat \<Rightarrow> string \<Rightarrow> string" where
  "canonical_of e sequence prev = json (JObj [(''tenantId'', JStr (le_tenant e)), (''sequence'', JInt (int sequence)), (''eventType'', JStr (le_type e)),
     (''entityType'', JStr (le_entity_type e)), (''entityId'', JStr (le_entity e)), (''payload'', le_payload e), (''previousHash'', JStr prev)])"

text \<open>The row an attempt builds from the rows it has seen, at the time \<open>now\<close>.\<close>

definition next_row :: "(string \<Rightarrow> string) \<Rightarrow> lineage_event \<Rightarrow> jsval \<Rightarrow> lineage_row list \<Rightarrow> lineage_row" where
  "next_row sha e now seen =
    (let prior = head_of (le_tenant e) seen;
         sequence = (case prior of None \<Rightarrow> 0 | Some r \<Rightarrow> ln_seq r) + 1;
         prev = (case prior of None \<Rightarrow> ''GENESIS'' | Some r \<Rightarrow> ln_hash r)
     in \<lparr>le_tenant = le_tenant e, le_type = le_type e, le_entity_type = le_entity_type e, le_entity = le_entity e, le_payload = le_payload e,
         ln_seq = sequence, ln_prev = prev, ln_hash = sha (canonical_of e sequence prev), ln_at = now\<rparr>)"

text \<open>The unique keys (tenant, sequence) and (tenant, event hash).\<close>

definition clashes :: "lineage_row \<Rightarrow> lineage_row list \<Rightarrow> bool" where
  "clashes r rows \<longleftrightarrow> list_ex (\<lambda>q. le_tenant q = le_tenant r \<and> (ln_seq q = ln_seq r \<or> ln_hash q = ln_hash r)) rows"

text \<open>An attempt is given by the rows at its read and the rows at its write; the third clash gives up.\<close>

fun append_attempts :: "(string \<Rightarrow> string) \<Rightarrow> lineage_event \<Rightarrow> jsval \<Rightarrow> (lineage_row list \<times> lineage_row list) list \<Rightarrow> lineage_row list option" where
  "append_attempts sha e now [] = None"
| "append_attempts sha e now ((seen, rows) # rest) =
     (let r = next_row sha e now seen in if clashes r rows then append_attempts sha e now rest else Some (rows @ [r]))"

definition appendLineage :: "(string \<Rightarrow> string) \<Rightarrow> lineage_event \<Rightarrow> jsval \<Rightarrow> (lineage_row list \<times> lineage_row list) list \<Rightarrow> lineage_row list option" where
  "appendLineage sha e now tries = append_attempts sha e now (take 3 tries)"

definition connection_events :: "string list" where
  "connection_events = [''CONNECTION_REGISTERED'', ''CONNECTION_STATUS_CHANGED'', ''CONNECTION_SYNC_COMPLETED'']"

text \<open>\<^verbatim>\<open>COALESCE((SELECT MAX(sequence) ...),0)\<close> over the entity's events.\<close>

definition entity_sequence :: "string \<Rightarrow> string \<Rightarrow> string \<Rightarrow> lineage_row list \<Rightarrow> nat" where
  "entity_sequence t ety ent rows = foldr (\<lambda>r m. max (ln_seq r) m)
     (filter (\<lambda>r. le_tenant r = t \<and> le_entity_type r = ety \<and> le_entity r = ent \<and> le_type r \<in> set connection_events) rows) 0"

datatype conditional = Appended "lineage_row list" | Unchanged | Contention

fun conditional_attempts ::
    "(string \<Rightarrow> string) \<Rightarrow> lineage_event \<Rightarrow> nat \<Rightarrow> jsval \<Rightarrow> (lineage_row list \<times> lineage_row list) list \<Rightarrow> conditional" where
  "conditional_attempts sha e expected now [] = Contention"
| "conditional_attempts sha e expected now ((seen, rows) # rest) =
     (let r = next_row sha e now seen
      in if entity_sequence (le_tenant e) (le_entity_type e) (le_entity e) rows \<noteq> expected then Unchanged
         else if clashes r rows then conditional_attempts sha e expected now rest
         else Appended (rows @ [r]))"

definition appendLineageIfEntityUnchanged ::
    "(string \<Rightarrow> string) \<Rightarrow> lineage_event \<Rightarrow> nat \<Rightarrow> jsval \<Rightarrow> (lineage_row list \<times> lineage_row list) list \<Rightarrow> conditional" where
  "appendLineageIfEntityUnchanged sha e expected now tries = conditional_attempts sha e expected now (take 3 tries)"

section \<open>Connections\<close>

record provider =
  pv_key :: string
  pv_label :: string
  pv_type :: string
  pv_activation :: string

definition PROVIDER_DEFINITIONS :: "provider list" where
  "PROVIDER_DEFINITIONS = [
    \<lparr>pv_key = ''fnb_bw_business'', pv_label = ''FNB Botswana Business'', pv_type = ''bank_feed'', pv_activation = ''provider_onboarding_required''\<rparr>,
    \<lparr>pv_key = ''xero'', pv_label = ''Xero'', pv_type = ''accounting_feed'', pv_activation = ''provider_onboarding_required''\<rparr>,
    \<lparr>pv_key = ''generic_adapter'', pv_label = ''Approved read-only adapter'', pv_type = ''generic_adapter'', pv_activation = ''owner_attested_read_only''\<rparr>]"

definition provider_at :: "string \<Rightarrow> provider option" where
  "provider_at k = find (\<lambda>p. pv_key p = k) PROVIDER_DEFINITIONS"

definition CONNECTION_STATUSES :: "string list" where
  "CONNECTION_STATUSES = [''not_configured'', ''active'', ''paused'', ''error'', ''revoked'']"

definition secret_words :: "string list" where
  "secret_words = [''access_token'', ''accesstoken'', ''refresh_token'', ''refreshtoken'', ''token'', ''secret'', ''password'', ''api_key'',
     ''apikey'', ''client_secret'', ''clientsecret'', ''credentials'', ''credential'']"

text \<open>\<^verbatim>\<open>SECRET_FIELD\<close>: one of the words between underscores or the ends of the key.\<close>

definition secret_at :: "string \<Rightarrow> nat \<Rightarrow> bool" where
  "secret_at s i \<longleftrightarrow> (i = 0 \<or> s ! (i - 1) = CHR ''_'') \<and>
     list_ex (\<lambda>w. take (length w) (drop i s) = w \<and> (drop (i + length w) s = [] \<or> s ! (i + length w) = CHR ''_'')) secret_words"

definition snake_key :: "string \<Rightarrow> string" where
  "snake_key k = concat (map (\<lambda>c. let n = of_char c :: nat in if 65 \<le> n \<and> n \<le> 90 then [CHR ''_'', char_of (n + 32)] else [c]) k)"

definition secret_key :: "string \<Rightarrow> bool" where
  "secret_key k = (let s = snake_key k in s \<noteq> ''credential_storage'' \<and> list_ex (secret_at s) [0..<length s])"

text \<open>The fuel is what is left of the depth; the code starts at 0 and looks no deeper than 4.\<close>

fun secret_within :: "nat \<Rightarrow> jsval \<Rightarrow> bool" where
  "secret_within 0 v = False"
| "secret_within (Suc n) v = (case v of
     JArr xs \<Rightarrow> list_ex (secret_within n) xs
   | JObj kvs \<Rightarrow> list_ex (\<lambda>kv. secret_key (fst kv) \<or> secret_within n (snd kv)) kvs
   | _ \<Rightarrow> False)"

definition containsSecretMaterial :: "jsval \<Rightarrow> bool" where
  "containsSecretMaterial v = secret_within 5 v"

record connection =
  cn_id :: string
  cn_account :: string
  cn_provider :: string
  cn_type :: string
  cn_name :: string
  cn_status :: string
  cn_readonly :: bool
  cn_storage :: string
  cn_secret :: bool
  cn_created :: jsval
  cn_updated :: jsval
  cn_synced :: jsval
  cn_sync_status :: "string option"
  cn_error :: "string option"
  cn_seq :: nat

definition at_or_null :: "lineage_row \<Rightarrow> jsval" where
  "at_or_null r = jor (ln_at r) Null"

definition registered :: "lineage_row \<Rightarrow> connection" where
  "registered r = (let p = le_payload r in
     \<lparr>cn_id = take 64 (trim (le_entity r)), cn_account = text_of (fld p ''accountId'') 64, cn_provider = text_of (fld p ''providerKey'') 60,
      cn_type = text_of (fld p ''connectionType'') 40, cn_name = text_of (fld p ''displayName'') 120, cn_status = ''not_configured'',
      cn_readonly = is_true (fld p ''readOnly''), cn_storage = text_of (fld p ''credentialStorage'') 20,
      cn_secret = (\<not> is_false (fld p ''secretMaterialStored'')), cn_created = at_or_null r, cn_updated = at_or_null r,
      cn_synced = Null, cn_sync_status = None, cn_error = None, cn_seq = ln_seq r\<rparr>)"

definition text_or :: "string \<Rightarrow> string \<Rightarrow> string" where
  "text_or s d = (if s = [] then d else s)"

text \<open>One event of the connection, in the order of the chain.\<close>

definition connection_event :: "lineage_row \<Rightarrow> connection option \<Rightarrow> connection option" where
  "connection_event r state =
    (if le_type r = ''CONNECTION_REGISTERED'' then (case state of Some c \<Rightarrow> Some c | None \<Rightarrow> Some (registered r))
     else (case state of None \<Rightarrow> None
       | Some c0 \<Rightarrow>
           if le_type r \<noteq> ''CONNECTION_STATUS_CHANGED'' then Some c0
           else (let next = text_of (fld (le_payload r) ''status'') 30; previous = text_of (fld (le_payload r) ''previousStatus'') 30;
                     c = c0\<lparr>cn_seq := max (cn_seq c0) (ln_seq r)\<rparr>;
                     updated = (if truthy (ln_at r) then ln_at r else cn_updated c)
             in if cn_status c = ''revoked'' then Some c
                else if next = ''revoked'' then Some (c\<lparr>cn_status := ''revoked'', cn_updated := updated\<rparr>)
                else if next \<in> set CONNECTION_STATUSES \<and> cn_status c = previous
                then Some (c\<lparr>cn_status := next, cn_updated := updated,
                  cn_error := (if next = ''error'' then Some (text_or (text_of (fld (le_payload r) ''errorCode'') 120) ''connection_error'') else None)\<rparr>)
                else Some c)))"

definition with_sync :: "lineage_row \<Rightarrow> connection \<Rightarrow> connection" where
  "with_sync r c = (let p = le_payload r; code = text_of (fld p ''errorCode'') 120 in
     c\<lparr>cn_synced := at_or_null r, cn_sync_status := Some (text_or (text_of (fld p ''status'') 40) ''completed''),
       cn_error := (if code = [] then cn_error c else Some code), cn_seq := max (cn_seq c) (ln_seq r)\<rparr>)"

definition connectionFromLineage :: "lineage_row list \<Rightarrow> lineage_row option \<Rightarrow> connection option" where
  "connectionFromLineage rows latestSync =
    (case fold connection_event rows None of None \<Rightarrow> None
     | Some c \<Rightarrow> Some (case latestSync of None \<Rightarrow> c | Some r \<Rightarrow> with_sync r c))"

text \<open>The queries: the first 500 state events in the order of the chain, and the last completed sync.\<close>

definition of_connection :: "string \<Rightarrow> string \<Rightarrow> lineage_row \<Rightarrow> bool" where
  "of_connection t c r \<longleftrightarrow> le_tenant r = t \<and> le_entity_type r = ''finance_connection'' \<and> le_entity r = c"

definition state_events :: "string \<Rightarrow> string \<Rightarrow> lineage_row list \<Rightarrow> lineage_row list" where
  "state_events t c rows = js_sort (\<lambda>a b. ln_seq a \<le> ln_seq b)
     (filter (\<lambda>r. of_connection t c r \<and> (le_type r = ''CONNECTION_REGISTERED'' \<or> le_type r = ''CONNECTION_STATUS_CHANGED'')) rows)"

definition sync_events :: "string \<Rightarrow> string \<Rightarrow> lineage_row list \<Rightarrow> lineage_row list" where
  "sync_events t c rows = js_sort latest_first (filter (\<lambda>r. of_connection t c r \<and> le_type r = ''CONNECTION_SYNC_COMPLETED'') rows)"

definition first_row :: "lineage_row list \<Rightarrow> lineage_row option" where
  "first_row rs = (case rs of [] \<Rightarrow> None | r # _ \<Rightarrow> Some r)"

definition getFinanceConnection :: "string \<Rightarrow> string \<Rightarrow> lineage_row list \<Rightarrow> connection option" where
  "getFinanceConnection t c rows = connectionFromLineage (take 500 (state_events t c rows)) (first_row (sync_events t c rows))"

definition adapterConnectionForImport :: "string \<Rightarrow> string \<Rightarrow> string \<Rightarrow> string \<Rightarrow> lineage_row list \<Rightarrow> (string \<times> nat) + connection" where
  "adapterConnectionForImport t connectionId accountId provider rows =
    (if connectionId = [] then Inl (''finance_connection_id_required'', 400)
     else (case getFinanceConnection t connectionId rows of None \<Rightarrow> Inl (''finance_connection_not_found'', 404)
       | Some c \<Rightarrow>
           if cn_status c \<noteq> ''active'' then Inl (''finance_connection_not_active'', 409)
           else if \<not> cn_readonly c \<or> cn_secret c \<or> cn_storage c \<noteq> ''external'' then Inl (''finance_connection_policy_violation'', 409)
           else if cn_account c \<noteq> accountId then Inl (''finance_connection_account_mismatch'', 409)
           else if cn_provider c \<noteq> provider then Inl (''finance_connection_provider_mismatch'', 409)
           else Inr c))"

section \<open>The requests on connections\<close>

definition registration :: "string \<Rightarrow> string \<Rightarrow> string \<Rightarrow> provider \<Rightarrow> string \<Rightarrow> lineage_event" where
  "registration t connectionId accountId p displayName =
    \<lparr>le_tenant = t, le_type = ''CONNECTION_REGISTERED'', le_entity_type = ''finance_connection'', le_entity = connectionId,
     le_payload = JObj [(''accountId'', JStr accountId), (''providerKey'', JStr (pv_key p)), (''connectionType'', JStr (pv_type p)),
       (''displayName'', JStr displayName), (''status'', JStr ''not_configured''), (''readOnly'', JBool True),
       (''credentialStorage'', JStr ''external''), (''secretMaterialStored'', JBool False)]\<rparr>"

definition has_own :: "jsval \<Rightarrow> string \<Rightarrow> bool" where
  "has_own v k = (case v of JObj kvs \<Rightarrow> k \<in> set (map fst kvs) | _ \<Rightarrow> False)"

definition registered_count :: "string \<Rightarrow> lineage_row list \<Rightarrow> nat" where
  "registered_count t rows = length (dedup (map le_entity
     (filter (\<lambda>r. le_tenant r = t \<and> le_entity_type r = ''finance_connection'' \<and> le_type r = ''CONNECTION_REGISTERED'') rows)))"

text \<open>\<open>accounts\<close>: the tenant's active accounts.\<close>

definition registerConnection ::
    "(string \<Rightarrow> string) \<Rightarrow> string \<Rightarrow> bool \<Rightarrow> string list \<Rightarrow> jsval \<Rightarrow> jsval \<Rightarrow> lineage_row list \<Rightarrow> reply \<times> lineage_row list" where
  "registerConnection sha t owner accounts body now rows =
    (if \<not> owner then (fail ''owner_required'' 403, rows)
     else if containsSecretMaterial body then (fail ''finance_connection_secret_material_forbidden'' 400, rows)
     else if has_own body ''externalAccountRef'' \<or> has_own body ''external_account_ref''
     then (fail ''external_account_reference_not_accepted'' 400, rows)
     else (let accountId = text_of (fld body ''accountId'') 64; displayName = text_of (fld body ''displayName'') 120
       in case provider_at (text_of (jor (fld body ''providerKey'') (fld body ''provider'')) 60) of
         None \<Rightarrow> (Reply 400 (JObj [(''error'', JStr ''unsupported_finance_provider''), (''providers'', JArr (map (\<lambda>p. JStr (pv_key p)) PROVIDER_DEFINITIONS))]), rows)
       | Some p \<Rightarrow>
           if length displayName < 2 then (fail ''connection_display_name_required'' 400, rows)
           else if accountId \<notin> set accounts then (fail ''finance_account_not_found'' 404, rows)
           else (let connectionId = allocation_id sha [t, accountId, pv_key p]
             in case getFinanceConnection t connectionId rows of
               Some c \<Rightarrow> (Reply 409 (JObj [(''error'', JStr ''finance_connection_exists''), (''id'', JStr connectionId), (''status'', JStr (cn_status c))]), rows)
             | None \<Rightarrow>
                 if 100 \<le> registered_count t rows
                 then (Reply 409 (JObj [(''error'', JStr ''finance_connection_limit_reached''), (''maxConnections'', JInt 100)]), rows)
                 else (case appendLineage sha (registration t connectionId accountId p displayName) now (replicate 3 (rows, rows)) of
                     None \<Rightarrow> (Throws, rows)
                   | Some rows' \<Rightarrow>
                       (Reply 201 (JObj [(''ok'', JBool True), (''id'', JStr connectionId), (''status'', JStr ''not_configured''),
                          (''provider'', JObj [(''key'', JStr (pv_key p)), (''label'', JStr (pv_label p)), (''connectionType'', JStr (pv_type p)),
                            (''activationMode'', JStr (pv_activation p))]),
                          (''policy'', JObj [(''readOnly'', JBool True), (''credentialStorage'', JStr ''external''), (''secretMaterialStored'', JBool False),
                            (''registry'', JStr ''finance_lineage'')])]), rows')))))"

text \<open>Where an action leads: an answer at once, or the next status.\<close>

definition action_target :: "string \<Rightarrow> jsval \<Rightarrow> connection \<Rightarrow> reply + string" where
  "action_target act body c =
    (let replay = (\<lambda>s. Reply 200 (JObj [(''ok'', JBool True), (''id'', JStr (cn_id c)), (''status'', JStr s), (''replayed'', JBool True)]))
     in if act = ''activate'' then
          (if cn_status c = ''revoked'' then Inl (fail ''finance_connection_revoked'' 409)
           else if cn_status c = ''active'' then Inl (replay ''active'')
           else if cn_provider c \<noteq> ''generic_adapter''
           then Inl (Reply 409 (JObj [(''error'', JStr ''provider_onboarding_required''), (''providerKey'', JStr (cn_provider c)),
                  (''activationMode'', JStr (case provider_at (cn_provider c) of None \<Rightarrow> ''provider_onboarding_required'' | Some p \<Rightarrow> pv_activation p))]))
           else if cn_status c \<noteq> ''not_configured'' \<and> cn_status c \<noteq> ''error''
           then Inl (Reply 409 (JObj [(''error'', JStr ''finance_connection_not_activatable''), (''status'', JStr (cn_status c))]))
           else if \<not> is_true (fld body ''confirmReadOnly'') \<or> text_of (fld body ''credentialStorage'') 20 \<noteq> ''external''
           then Inl (fail ''read_only_external_credential_attestation_required'' 400)
           else Inr ''active'')
        else if act = ''pause'' then (if cn_status c \<noteq> ''active'' then Inl (fail ''finance_connection_not_active'' 409) else Inr ''paused'')
        else if act = ''resume'' then (if cn_status c \<noteq> ''paused'' then Inl (fail ''finance_connection_not_paused'' 409) else Inr ''active'')
        else if act = ''revoke'' then (if cn_status c = ''revoked'' then Inl (replay ''revoked'') else Inr ''revoked'')
        else Inl (fail ''invalid_finance_connection_status'' 400))"

definition status_change :: "string \<Rightarrow> connection \<Rightarrow> string \<Rightarrow> lineage_event" where
  "status_change t c next = \<lparr>le_tenant = t, le_type = ''CONNECTION_STATUS_CHANGED'', le_entity_type = ''finance_connection'', le_entity = cn_id c,
     le_payload = JObj [(''providerKey'', JStr (cn_provider c)), (''previousStatus'', JStr (cn_status c)), (''status'', JStr next), (''readOnly'', JBool True)]\<rparr>"

text \<open>\<open>others\<close>: the rows other requests appended between the read of the connection and the write.\<close>

definition connectionAction ::
    "(string \<Rightarrow> string) \<Rightarrow> string \<Rightarrow> bool \<Rightarrow> string \<Rightarrow> string \<Rightarrow> jsval \<Rightarrow> jsval \<Rightarrow> lineage_row list \<Rightarrow> lineage_row list \<Rightarrow> reply \<times> lineage_row list" where
  "connectionAction sha t owner connectionId act body now others rows0 =
    (let rows = rows0 @ others;
         conflict = (\<lambda>found c. Reply 409 (JObj [(''error'', JStr ''finance_connection_state_conflict''),
            (''status'', JStr (case found of None \<Rightarrow> cn_status c | Some f \<Rightarrow> cn_status f))]))
     in if \<not> owner then (fail ''owner_required'' 403, rows)
        else if containsSecretMaterial body then (fail ''finance_connection_secret_material_forbidden'' 400, rows)
        else (case getFinanceConnection t connectionId rows0 of None \<Rightarrow> (fail ''finance_connection_not_found'' 404, rows)
          | Some c \<Rightarrow>
              (case action_target act body c of Inl r \<Rightarrow> (r, rows)
               | Inr next \<Rightarrow>
                   (let changed = (\<lambda>replayed. Reply 200 (JObj ([(''ok'', JBool True), (''id'', JStr (cn_id c)), (''status'', JStr next),
                          (''providerKey'', JStr (cn_provider c)), (''readOnly'', JBool True)] @ (if replayed then [(''replayed'', JBool True)] else []))))
                    in case appendLineageIfEntityUnchanged sha (status_change t c next) (cn_seq c) now (replicate 3 (rows, rows)) of
                      Contention \<Rightarrow> (Throws, rows)
                    | Unchanged \<Rightarrow>
                        (let found = getFinanceConnection t (cn_id c) rows
                         in (if map_option cn_status found = Some next then changed True else conflict found c, rows))
                    | Appended rows' \<Rightarrow>
                        (let found = getFinanceConnection t (cn_id c) rows'
                         in (if map_option cn_status found = Some next then changed False else conflict found c, rows'))))))"

section \<open>The chain under concurrent requests\<close>

text \<open>An attempt reads some prefix of the rows, the rows of a moment ago, and writes now.\<close>

inductive lineage_step :: "(string \<Rightarrow> string) \<Rightarrow> lineage_row list \<Rightarrow> lineage_row list \<Rightarrow> bool" for sha where
  Append: "append_attempts sha e now [(take k rows, rows)] = Some rows' \<Longrightarrow> lineage_step sha rows rows'"
| Conditional: "conditional_attempts sha e expected now [(take k rows, rows)] = Appended rows' \<Longrightarrow> lineage_step sha rows rows'"

definition lineage_reach :: "(string \<Rightarrow> string) \<Rightarrow> lineage_row list \<Rightarrow> bool" where
  "lineage_reach sha rows \<longleftrightarrow> (lineage_step sha)\<^sup>*\<^sup>* [] rows"

definition of_tenant_rows :: "string \<Rightarrow> lineage_row list \<Rightarrow> lineage_row list" where
  "of_tenant_rows t rows = filter (\<lambda>r. le_tenant r = t) rows"

text \<open>A tenant's rows are numbered from 1 and each names the hash of the one before it.\<close>

definition chained :: "(string \<Rightarrow> string) \<Rightarrow> lineage_row list \<Rightarrow> bool" where
  "chained sha rs \<longleftrightarrow> map ln_seq rs = [1..<length rs + 1] \<and> map ln_prev rs = take (length rs) (''GENESIS'' # map ln_hash rs) \<and>
     list_all (\<lambda>r. ln_hash r = sha (canonical_of (lineage_event.truncate r) (ln_seq r) (ln_prev r))) rs"

lemma next_row_simps [simp]: "le_tenant (next_row sha e now seen) = le_tenant e"
  by (simp add: next_row_def Let_def)

lemma step_shape:
  assumes "lineage_step sha rows rows'"
  obtains e now k where "rows' = rows @ [next_row sha e now (take k rows)]" "\<not> clashes (next_row sha e now (take k rows)) rows"
  using assms by cases (auto simp: Let_def split: if_splits)

interpretation latest: comparator "\<lambda>_. True" "latest_first :: lineage_row \<Rightarrow> lineage_row \<Rightarrow> bool"
  by unfold_locales (auto simp: latest_first_def)

lemma chained_seq: "chained sha rs \<Longrightarrow> i < length rs \<Longrightarrow> ln_seq (rs ! i) = i + 1"
proof -
  assume c: "chained sha rs" and i: "i < length rs"
  have "map ln_seq rs ! i = [1..<length rs + 1] ! i" using c by (simp only: chained_def)
  then show ?thesis using i by (simp del: upt_Suc)
qed

lemma head_of_chain:
  assumes "chained sha rs" "of_tenant_rows t seen = take j rs" "j \<le> length rs"
  shows "head_of t seen = (if j = 0 then None else Some (rs ! (j - 1)))"
proof (cases "j = 0")
  case True
  then show ?thesis using assms(2) by (simp add: head_of_def of_tenant_rows_def js_sort_def)
next
  case False
  note seq = chained_seq[OF assms(1)]
  let ?ts = "take j rs"
  have ne: "?ts \<noteq> []" using False assms(3) by auto
  then obtain h hs where h: "js_sort latest_first ?ts = h # hs"
    by (metis length_0_conv length_js_sort list.exhaust)
  have "?ts ! (j - 1) \<in> set ?ts" using False assms(3) by (intro nth_mem) simp
  then have "rs ! (j - 1) \<in> set ?ts" using False by simp
  then have "latest_first h (rs ! (j - 1))"
    using latest.head_least[OF _ h] by (simp add: list_all_iff)
  then have ge: "j \<le> ln_seq h" using seq[of "j - 1"] False assms(3) by (simp add: latest_first_def)
  have "h \<in> set ?ts" using h by (metis list.set_intros(1) set_js_sort)
  then obtain i where "i < j" "h = rs ! i" using assms(3) by (auto simp: in_set_conv_nth)
  with ge seq[of i] assms(3) have "h = rs ! (j - 1)" by (cases "i = j - 1") auto
  with h False assms(2) show ?thesis by (simp add: head_of_def of_tenant_rows_def)
qed

lemma prefix_rows: "\<exists>j \<le> length (of_tenant_rows t rows). of_tenant_rows t (take k rows) = take j (of_tenant_rows t rows)"
proof -
  have "of_tenant_rows t rows = of_tenant_rows t (take k rows) @ of_tenant_rows t (drop k rows)"
    unfolding of_tenant_rows_def by (metis append_take_drop_id filter_append)
  then show ?thesis by (intro exI[of _ "length (of_tenant_rows t (take k rows))"]) simp
qed

lemma chained_step:
  assumes "lineage_step sha rows rows'" "chained sha (of_tenant_rows t rows)"
  shows "chained sha (of_tenant_rows t rows')"
proof -
  obtain e now k where r: "rows' = rows @ [next_row sha e now (take k rows)]" "\<not> clashes (next_row sha e now (take k rows)) rows"
    using assms(1) by (rule step_shape)
  let ?r = "next_row sha e now (take k rows)" and ?rs = "of_tenant_rows t rows"
  show ?thesis
  proof (cases "le_tenant e = t")
    case True
    obtain j where j: "j \<le> length ?rs" "of_tenant_rows t (take k rows) = take j ?rs" using prefix_rows by blast
    have head: "head_of t (take k rows) = (if j = 0 then None else Some (?rs ! (j - 1)))"
      by (rule head_of_chain[OF assms(2) j(2,1)])
    note seq = chained_seq[OF assms(2)]
    have num: "ln_seq ?r = j + 1" using head seq[of "j - 1"] j(1) True by (cases j) (auto simp: next_row_def Let_def)
    have "j = length ?rs"
    proof (rule ccontr)
      assume "j \<noteq> length ?rs"
      then have "?rs ! j \<in> set ?rs" "ln_seq (?rs ! j) = j + 1" using j(1) seq[of j] by auto
      then have "clashes ?r rows" using num True by (auto simp: clashes_def list_ex_iff of_tenant_rows_def)
      with r(2) show False ..
    qed
    then have prev: "ln_prev ?r = last (''GENESIS'' # map ln_hash ?rs)"
      using head True by (cases "?rs = []") (auto simp: next_row_def Let_def last_conv_nth)
    have hash: "ln_hash ?r = sha (canonical_of (lineage_event.truncate ?r) (ln_seq ?r) (ln_prev ?r))"
      by (simp add: next_row_def Let_def canonical_of_def lineage_event.defs)
    have "of_tenant_rows t rows' = ?rs @ [?r]" using r(1) True by (simp add: of_tenant_rows_def)
    moreover have "take (length ?rs + 1) (''GENESIS'' # map ln_hash (?rs @ [?r])) = take (length ?rs) (''GENESIS'' # map ln_hash ?rs) @ [last (''GENESIS'' # map ln_hash ?rs)]"
      by (cases ?rs rule: rev_cases) simp_all
    ultimately show ?thesis
      using assms(2) num prev hash \<open>j = length ?rs\<close> by (simp add: chained_def)
  next
    case False
    then show ?thesis using assms(2) r(1) by (simp add: of_tenant_rows_def)
  qed
qed

lemma chained_reach: "lineage_reach sha rows \<Longrightarrow> chained sha (of_tenant_rows t rows)"
  unfolding lineage_reach_def
proof (induction rule: rtranclp_induct)
  case (step y z)
  from step.hyps(2) step.IH show ?case by (rule chained_step)
qed (simp add: chained_def of_tenant_rows_def)


section \<open>What the chain says of a connection\<close>

lemma js_sort_sorted: "sorted_wrt le xs \<Longrightarrow> js_sort le xs = xs"
proof (induction xs)
  case (Cons x xs)
  then show ?case by (cases xs) (simp_all add: js_sort_def)
qed (simp add: js_sort_def)

lemma chained_sorted: "chained sha rs \<Longrightarrow> sorted_wrt (\<lambda>a b. ln_seq a \<le> ln_seq b) rs"
  by (auto simp: sorted_wrt_iff_nth_less chained_seq)

definition state_event :: "string \<Rightarrow> string \<Rightarrow> lineage_row \<Rightarrow> bool" where
  "state_event t c r \<longleftrightarrow> of_connection t c r \<and> (le_type r = ''CONNECTION_REGISTERED'' \<or> le_type r = ''CONNECTION_STATUS_CHANGED'')"

lemma state_events_filter: "lineage_reach sha rows \<Longrightarrow> state_events t c rows = filter (state_event t c) rows"
proof -
  assume r: "lineage_reach sha rows"
  have "filter (state_event t c) rows = filter (state_event t c) (of_tenant_rows t rows)"
    unfolding of_tenant_rows_def filter_filter by (rule filter_cong) (auto simp: state_event_def of_connection_def)
  then have "sorted_wrt (\<lambda>a b. ln_seq a \<le> ln_seq b) (filter (state_event t c) rows)"
    using sorted_wrt_filter[OF chained_sorted[OF chained_reach[OF r]], of "state_event t c" t] by simp
  then show ?thesis unfolding state_events_def state_event_def[symmetric] by (rule js_sort_sorted)
qed

lemma steps_extend: "(lineage_step sha)\<^sup>*\<^sup>* rows rows' \<Longrightarrow> \<exists>more. rows' = rows @ more"
proof (induction rule: rtranclp_induct)
  case (step y z)
  then show ?case by (metis append.assoc step_shape)
qed simp

lemma connection_event_revoked: "cn_status c = ''revoked'' \<Longrightarrow> \<exists>d. connection_event r (Some c) = Some d \<and> cn_status d = ''revoked''"
  by (cases "le_type r = ''CONNECTION_REGISTERED''"; cases "le_type r = ''CONNECTION_STATUS_CHANGED''") (simp_all add: connection_event_def Let_def)

lemma connection_event_id:
  "connection_event r s = Some k \<Longrightarrow> cn_id k = (case s of None \<Rightarrow> take 64 (trim (le_entity r)) | Some c \<Rightarrow> cn_id c)"
  unfolding connection_event_def Let_def
  by (cases s; elim if_chain_cases) (simp_all add: registered_def Let_def split: if_split_asm, auto)

lemma revoked_stays: "map_option cn_status (fold connection_event rs (Some c)) = Some ''revoked''" if "cn_status c = ''revoked''"
  using that
proof (induction rs arbitrary: c)
  case (Cons r rs)
  then obtain d where "connection_event r (Some c) = Some d" "cn_status d = ''revoked''"
    using connection_event_revoked by blast
  then show ?case using Cons.IH by simp
qed simp

lemma status_of_lineage: "map_option cn_status (connectionFromLineage rows sync) = map_option cn_status (fold connection_event rows None)"
  by (auto simp: connectionFromLineage_def with_sync_def Let_def split: option.splits)

lemma status_frozen:
  assumes "lineage_reach sha rows" "(lineage_step sha)\<^sup>*\<^sup>* rows rows'"
    and "map_option cn_status (getFinanceConnection t c rows) = Some ''revoked'' \<or> 500 \<le> length (state_events t c rows)"
  shows "map_option cn_status (getFinanceConnection t c rows') = map_option cn_status (getFinanceConnection t c rows)"
    and "length (state_events t c rows) \<le> length (state_events t c rows')"
proof -
  obtain more where m: "rows' = rows @ more" using steps_extend[OF assms(2)] by blast
  have r': "lineage_reach sha rows'" using assms(1,2) unfolding lineage_reach_def by (rule rtranclp_trans)
  have ev: "state_events t c rows' = state_events t c rows @ filter (state_event t c) more"
    using state_events_filter[OF assms(1)] state_events_filter[OF r'] m by simp
  then show "length (state_events t c rows) \<le> length (state_events t c rows')" by simp
  show "map_option cn_status (getFinanceConnection t c rows') = map_option cn_status (getFinanceConnection t c rows)"
  proof (cases "500 \<le> length (state_events t c rows)")
    case True
    then have "take 500 (state_events t c rows') = take 500 (state_events t c rows)" by (simp add: ev)
    then show ?thesis by (simp only: getFinanceConnection_def status_of_lineage)
  next
    case False
    with assms(3) obtain k where "fold connection_event (take 500 (state_events t c rows)) None = Some k" "cn_status k = ''revoked''"
      by (auto simp: getFinanceConnection_def status_of_lineage)
    moreover have "take 500 (state_events t c rows') = take 500 (state_events t c rows) @ take (500 - length (state_events t c rows)) (filter (state_event t c) more)"
      using ev by simp
    ultimately show ?thesis using revoked_stays[of k]
      by (simp only: getFinanceConnection_def status_of_lineage fold_append comp_def option.map)
  qed
qed

lemma fold_connection_id:
  "\<forall>r \<in> set rs. le_entity r = c \<Longrightarrow> (\<forall>k. s = Some k \<longrightarrow> cn_id k = take 64 (trim c)) \<Longrightarrow> fold connection_event rs s = Some k' \<Longrightarrow>
     cn_id k' = take 64 (trim c)"
proof (induction rs arbitrary: s)
  case (Cons r rs)
  have "\<forall>k. connection_event r s = Some k \<longrightarrow> cn_id k = take 64 (trim c)"
    using Cons.prems(1,2) connection_event_id[of r s] by (cases s) auto
  then show ?case using Cons.IH[of "connection_event r s"] Cons.prems(1,3) by simp
qed simp

lemma connection_id: "getFinanceConnection t c rows = Some k \<Longrightarrow> cn_id k = take 64 (trim c)"
proof -
  assume g: "getFinanceConnection t c rows = Some k"
  then obtain d where d: "fold connection_event (take 500 (state_events t c rows)) None = Some d" "cn_id k = cn_id d"
    by (auto simp: getFinanceConnection_def connectionFromLineage_def with_sync_def Let_def split: option.splits)
  have "\<forall>r \<in> set (take 500 (state_events t c rows)). le_entity r = c"
    by (auto simp: state_events_def of_connection_def dest!: in_set_takeD)
  from fold_connection_id[OF this _ d(1)] d(2) show ?thesis by simp
qed

lemma no_secret_empty: "\<not> containsSecretMaterial (JObj [])"
  by (simp add: containsSecretMaterial_def eval_nat_numeral)

lemma replicate3: "replicate 3 x = [x, x, x]"
  by (simp add: eval_nat_numeral)

text \<open>A revocation that meets a full history is not carried out.\<close>

lemma full_history_keeps:
  assumes "lineage_reach sha rows" "500 \<le> length (state_events t c rows)" "take 64 (trim c) = c"
    and "map_option cn_status (getFinanceConnection t c rows) \<noteq> Some ''revoked''"
  shows "status_of (fst (connectionAction sha t True c ''revoke'' (JObj []) now [] rows)) \<noteq> Some 200"
proof (cases "getFinanceConnection t c rows")
  case None
  then show ?thesis using no_secret_empty by (simp add: connectionAction_def Let_def fail_def)
next
  case (Some k)
  have id: "cn_id k = c" using connection_id[OF Some] assms(3) by simp
  have target: "action_target ''revoke'' (JObj []) k = Inr ''revoked''" using Some assms(4) by (simp add: action_target_def Let_def)
  let ?out = "appendLineageIfEntityUnchanged sha (status_change t k ''revoked'') (cn_seq k) now (replicate 3 (rows, rows))"
  have grown: "map_option cn_status (getFinanceConnection t c rows') \<noteq> Some ''revoked''" if "?out = Appended rows'" for rows'
  proof -
    have "lineage_step sha rows rows'"
      using that lineage_step.Conditional[of sha "status_change t k ''revoked''" "cn_seq k" now "length rows" rows rows']
      by (simp add: appendLineageIfEntityUnchanged_def replicate3 Let_def split: if_splits)
    then have "(lineage_step sha)\<^sup>*\<^sup>* rows rows'" by blast
    from status_frozen(1)[OF assms(1) this disjI2[OF assms(2)]] assms(4) show ?thesis by simp
  qed
  show ?thesis
  proof (cases ?out)
    case (Appended rows')
    then show ?thesis using Some target no_secret_empty grown[of rows'] by (simp add: connectionAction_def Let_def id)
  next
    case Unchanged
    then show ?thesis using Some target no_secret_empty assms(4) by (simp add: connectionAction_def Let_def id)
  next
    case Contention
    then show ?thesis using Some target no_secret_empty by (simp add: connectionAction_def Let_def)
  qed
qed

text \<open>C6: However many requests append at once, each of a tenant's lineage rows has the next number, names
  the hash of the row before it and carries the hash of its own content.\<close>

theorem lineage_chained:
  assumes "lineage_reach sha rows"
  shows "(let rs = of_tenant_rows t rows in
    map ln_seq rs = [1..<length rs + 1] \<and> map ln_prev rs = take (length rs) (''GENESIS'' # map ln_hash rs) \<and>
    list_all (\<lambda>r. ln_hash r = sha (canonical_of (lineage_event.truncate r) (ln_seq r) (ln_prev r))) rs)"
  using chained_reach[OF assms, of t] by (simp add: chained_def Let_def)

text \<open>C26: A revoked connection stays revoked and feeds no import, whatever is appended after it; and a
  connection with 500 state events keeps its status for ever: no revocation of it succeeds any more.\<close>

theorem connection_status_fixed:
  assumes "lineage_reach sha rows" "(lineage_step sha)\<^sup>*\<^sup>* rows rows'" "take 64 (trim c) = c"
    and "map_option cn_status (getFinanceConnection t c rows) = Some ''revoked'' \<or> 500 \<le> length (state_events t c rows)"
  shows "map_option cn_status (getFinanceConnection t c rows') = map_option cn_status (getFinanceConnection t c rows) \<and>
    (if map_option cn_status (getFinanceConnection t c rows) = Some ''revoked'' then isl (adapterConnectionForImport t c account p rows')
     else status_of (fst (connectionAction sha t True c ''revoke'' (JObj []) now [] rows')) \<noteq> Some 200)"
proof -
  have r': "lineage_reach sha rows'" using assms(1,2) unfolding lineage_reach_def by (rule rtranclp_trans)
  note frozen = status_frozen[OF assms(1,2,4)]
  have "isl (adapterConnectionForImport t c account p rows')" if "map_option cn_status (getFinanceConnection t c rows') = Some ''revoked''"
    using that by (auto simp: adapterConnectionForImport_def)
  then show ?thesis using frozen full_history_keeps[OF r' _ assms(3), of t now] assms(4) by auto
qed


definition demo_registration :: lineage_event where
  "demo_registration = \<lparr>le_tenant = ''t'', le_type = ''CONNECTION_REGISTERED'', le_entity_type = ''finance_connection'', le_entity = ''c'',
     le_payload = JObj [(''accountId'', JStr ''a'')]\<rparr>"

definition demo_revocation :: lineage_event where
  "demo_revocation = \<lparr>le_tenant = ''t'', le_type = ''CONNECTION_STATUS_CHANGED'', le_entity_type = ''finance_connection'', le_entity = ''c'',
     le_payload = JObj [(''status'', JStr ''revoked'')]\<rparr>"

definition demo_one :: "lineage_row list" where
  "demo_one = [next_row id demo_registration Null []]"

definition demo_two :: "lineage_row list" where
  "demo_two = demo_one @ [next_row id demo_revocation Null demo_one]"

lemma demo_two_reach: "lineage_reach id demo_two"
proof -
  have "append_attempts id demo_registration Null [(take 0 [], [])] = Some demo_one"
    by (simp add: demo_one_def clashes_def)
  then have a: "lineage_step id [] demo_one" by (rule lineage_step.Append)
  have "\<not> clashes (next_row id demo_revocation Null demo_one) demo_one" by code_simp
  then have "append_attempts id demo_revocation Null [(take 1 demo_one, demo_one)] = Some demo_two"
    by (simp add: demo_two_def Let_def) (simp add: demo_one_def)
  then have b: "lineage_step id demo_one demo_two" by (rule lineage_step.Append)
  show ?thesis unfolding lineage_reach_def by (rule converse_rtranclp_into_rtranclp, rule a, rule r_into_rtranclp, rule b)
qed

theorem lineage_chained_witness: "length demo_two = 2 \<and> map ln_seq (of_tenant_rows ''t'' demo_two) = [1, 2]"
proof -
  have l: "length demo_two = 2" "length (of_tenant_rows ''t'' demo_two) = 2"
    by (simp_all add: demo_two_def demo_one_def of_tenant_rows_def demo_registration_def demo_revocation_def)
  have "map ln_seq (of_tenant_rows ''t'' demo_two) = [1..<length (of_tenant_rows ''t'' demo_two) + 1]"
    using lineage_chained[OF demo_two_reach, of "''t''"] unfolding Let_def by blast
  then show ?thesis unfolding l by (simp add: upt_rec l)
qed

lemma demo_two_status: "map_option cn_status (getFinanceConnection ''t'' ''c'' demo_two) = Some ''revoked''"
proof -
  have "state_events ''t'' ''c'' demo_two = demo_two" unfolding state_events_filter[OF demo_two_reach]
    by (simp add: demo_two_def demo_one_def state_event_def of_connection_def next_row_def Let_def demo_registration_def demo_revocation_def)
  moreover have "text_of (JStr ''revoked'') 30 = ''revoked''" by code_simp
  ultimately show ?thesis
    by (simp add: getFinanceConnection_def status_of_lineage demo_two_def demo_one_def connection_event_def next_row_def Let_def registered_def
        demo_registration_def demo_revocation_def)
qed

theorem connection_status_fixed_witness:
  "isl (adapterConnectionForImport ''t'' ''c'' ''a'' ''generic_adapter'' (demo_two @ []))"
proof -
  have c: "take 64 (trim ''c'') = ''c''" by code_simp
  have "(lineage_step id)\<^sup>*\<^sup>* demo_two demo_two" by simp
  from connection_status_fixed[OF demo_two_reach this c disjI1[OF demo_two_status], of "''a''" "''generic_adapter''"] demo_two_status
  show ?thesis by simp
qed

end
