(* ===== verification/FinanceImports.thy ===== *)
theory FinanceImports imports FinanceLineage begin

text \<open>
  The recording of transactions in \<^verbatim>\<open>finance-core.js\<close>: the normalization of imported rows, the
  fingerprints of rows, contents and requests, the locks that keep a content from being imported twice and a
  request key from being used for another request, and the batch that writes the rows. Locks are rows of the
  batch table with reserved keys. The check of an adapter's connection is a parameter here; its lineage is
  modelled beside this theory.
\<close>

section \<open>Rows and fingerprints\<close>

record ledger_row =
  lr_posted :: string
  lr_description :: string
  lr_reference :: string
  lr_amount :: int
  lr_source :: string

definition SOURCE_TYPES :: "string list" where
  "SOURCE_TYPES = [''manual'', ''csv'', ''adapter'']"

definition normalizeFinanceRow :: "date_parse \<Rightarrow> jsval \<Rightarrow> string + ledger_row" where
  "normalizeFinanceRow dp row =
    (let postedOn = text_of (jor (fld row ''postedOn'') (fld row ''date'')) 10; description = text_of (fld row ''description'') 500;
         reference = text_of (fld row ''reference'') 160;
         sourceId = text_of (jor (jor (fld row ''sourceId'') (fld row ''externalId'')) (fld row ''transactionId'')) 160
     in if \<not> validDate dp postedOn then Inl ''invalid_posted_on''
        else if description = [] then Inl ''description_required''
        else (case integer (fld row ''amountMinor'') of None \<Rightarrow> Inl ''invalid_amount_minor''
          | Some m \<Rightarrow> if m = 0 then Inl ''invalid_amount_minor''
              else Inr \<lparr>lr_posted = postedOn, lr_description = description, lr_reference = reference, lr_amount = m, lr_source = sourceId\<rparr>))"

text \<open>The first row that does not normalize, with its index, or all of them.\<close>

fun normalize_rows :: "date_parse \<Rightarrow> nat \<Rightarrow> jsval list \<Rightarrow> (string \<times> nat) + ledger_row list" where
  "normalize_rows dp i [] = Inr []"
| "normalize_rows dp i (v # vs) =
     (case normalizeFinanceRow dp v of Inl e \<Rightarrow> Inl (e, i)
      | Inr r \<Rightarrow> (case normalize_rows dp (i + 1) vs of Inl e \<Rightarrow> Inl e | Inr rs \<Rightarrow> Inr (r # rs)))"

definition ledgerRowBasis :: "ledger_row \<Rightarrow> jsval list" where
  "ledgerRowBasis r = [JStr (take 10 (trim (lr_posted r))), JInt (lr_amount r), JStr (take 160 (trim (lr_reference r))), JStr (take 500 (trim (lr_description r)))]"

definition row_text :: "ledger_row \<Rightarrow> string" where
  "row_text r = json (JArr (ledgerRowBasis r))"

definition sameLedgerRow :: "ledger_row \<Rightarrow> ledger_row \<Rightarrow> bool" where
  "sameLedgerRow a b \<longleftrightarrow> row_text a = row_text b"

definition sourceFingerprintBasis :: "string \<Rightarrow> string \<Rightarrow> string \<Rightarrow> string \<Rightarrow> string \<Rightarrow> ledger_row \<Rightarrow> nat \<Rightarrow> jsval" where
  "sourceFingerprintBasis t account sourceType provider key r i =
    (if lr_source r \<noteq> []
     then JArr (map JStr [t, account, ''source'', sourceType, provider, lr_source r])
     else JArr [JStr t, JStr account, JStr ''batch'', JStr key, JInt (int i), JStr (lr_posted r), JInt (lr_amount r), JStr (lr_reference r), JStr (lr_description r)])"

definition importContentFingerprintBasis :: "string \<Rightarrow> string \<Rightarrow> ledger_row list \<Rightarrow> jsval" where
  "importContentFingerprintBasis t account rows =
     JArr [JStr t, JStr account, JStr ''user_import'', JArr (map JStr (sort (map row_text rows)))]"

definition importRequestFingerprintBasis :: "string \<Rightarrow> string \<Rightarrow> string \<Rightarrow> string \<Rightarrow> string \<Rightarrow> ledger_row list \<Rightarrow> jsval" where
  "importRequestFingerprintBasis t account sourceType provider connectionId rows =
     JArr [JStr t, JStr account, JStr sourceType, JStr provider, JStr connectionId,
       JArr (map JStr (sort (map (\<lambda>r. json (JArr (JStr (take 160 (trim (lr_source r))) # ledgerRowBasis r))) rows)))]"

text \<open>Two rows of one request that claim the same source with different contents.\<close>

fun source_conflict :: "(string \<times> ledger_row) list \<Rightarrow> (ledger_row \<times> string) list \<Rightarrow> (string \<times> string) option" where
  "source_conflict seen [] = None"
| "source_conflict seen ((r, fp) # rest) =
     (if lr_source r = [] then source_conflict seen rest
      else (case map_of seen fp of
          None \<Rightarrow> source_conflict (seen @ [(fp, r)]) rest
        | Some q \<Rightarrow> if sameLedgerRow q r then source_conflict seen rest else Some (fp, take 160 (trim (lr_source r)))))"

definition adapterBatchSourceIdentityConflict :: "ledger_row list \<Rightarrow> string list \<Rightarrow> (string \<times> string) option" where
  "adapterBatchSourceIdentityConflict rows fps = source_conflict [] (zip rows fps)"

section \<open>Batches and locks\<close>

record account =
  ac_id :: string
  ac_tenant :: string
  ac_name :: string
  ac_type :: string
  ac_opening :: int
  ac_active :: bool

record import_batch =
  ib_id :: string
  ib_tenant :: string
  ib_account :: string
  ib_source :: string
  ib_provider :: string
  ib_key :: string
  ib_status :: string
  ib_rows :: nat
  ib_imported :: nat
  ib_duplicates :: int

record import_db =
  im_accounts :: "account list"
  im_batches :: "import_batch list"
  im_txs :: "fin_tx list"

definition importContentLockKey :: "string \<Rightarrow> string" where
  "importContentLockKey fp = ''__thebe_finance_content_v1:'' @ fp"

definition importContentLockId :: "string \<Rightarrow> string" where
  "importContentLockId b = ''finance-content-lock:'' @ b"

definition batchIdFromContentLock :: "string \<Rightarrow> string option" where
  "batchIdFromContentLock v = (let p = ''finance-content-lock:'' in if take (length p) v = p then Some (drop (length p) v) else None)"

definition importRequestLockKey :: "string \<Rightarrow> string" where
  "importRequestLockKey fp = ''__thebe_finance_request_v1:'' @ fp"

definition importRequestLockId :: "string \<Rightarrow> string" where
  "importRequestLockId b = ''finance-request-lock:'' @ b"

definition starts_with :: "string \<Rightarrow> string \<Rightarrow> bool" where
  "starts_with p s \<longleftrightarrow> take (length p) s = p"

definition reservedImportIdempotencyKey :: "string \<Rightarrow> bool" where
  "reservedImportIdempotencyKey k \<longleftrightarrow> starts_with ''__thebe_finance_content_v1:'' k \<or> starts_with ''__thebe_finance_request_v1:'' k"

definition batch_at :: "string \<Rightarrow> string \<Rightarrow> import_batch list \<Rightarrow> import_batch option" where
  "batch_at t key bs = find (\<lambda>b. ib_tenant b = t \<and> ib_key b = key) bs"

definition insert_batch :: "import_batch \<Rightarrow> import_batch list \<Rightarrow> import_batch list option" where
  "insert_batch b bs =
     (if list_ex (\<lambda>c. ib_id c = ib_id b \<or> (ib_tenant c = ib_tenant b \<and> ib_key c = ib_key b)) bs then None else Some (bs @ [b]))"

definition lock_row :: "string \<Rightarrow> string \<Rightarrow> string \<Rightarrow> string \<Rightarrow> string \<Rightarrow> string \<Rightarrow> import_batch" where
  "lock_row bid key t account sourceType provider =
    \<lparr>ib_id = bid, ib_tenant = t, ib_account = account, ib_source = sourceType, ib_provider = provider, ib_key = key,
     ib_status = ''failed'', ib_rows = 0, ib_imported = 0, ib_duplicates = 0\<rparr>"

definition registeredDuplicateImportContent :: "string \<Rightarrow> string \<Rightarrow> import_db \<Rightarrow> string option option" where
  "registeredDuplicateImportContent t fp db = map_option (\<lambda>b. batchIdFromContentLock (ib_id b)) (batch_at t (importContentLockKey fp) (im_batches db))"

definition recorded_row :: "fin_tx \<Rightarrow> ledger_row" where
  "recorded_row x = \<lparr>lr_posted = tx_posted x, lr_description = tx_description x, lr_reference = tx_reference x, lr_amount = tx_amount x, lr_source = []\<rparr>"

definition rows_of_batch :: "string \<Rightarrow> string \<Rightarrow> import_db \<Rightarrow> ledger_row list" where
  "rows_of_batch t b db = map recorded_row (filter (\<lambda>x. tx_tenant x = t \<and> tx_batch x = b) (im_txs db))"

text \<open>Completed imports of people, of the same size, that no lock stands for yet; the latest first.\<close>

definition legacy_candidates :: "string \<Rightarrow> string \<Rightarrow> nat \<Rightarrow> import_db \<Rightarrow> import_batch list" where
  "legacy_candidates t account n db = rev (filter (\<lambda>b. ib_tenant b = t \<and> ib_account b = account \<and>
     (ib_source b = ''manual'' \<or> ib_source b = ''csv'') \<and> ib_rows b = n \<and> ib_status b = ''completed'' \<and> ib_imported b = ib_rows b \<and>
     \<not> list_ex (\<lambda>l. ib_tenant l = t \<and> ib_id l = importContentLockId (ib_id b)) (im_batches db)) (im_batches db))"

datatype duplicate = Fresh | Review_Required | Duplicate_Of "string option" bool

text \<open>The content of an older import is locked when it is found.\<close>

definition findDuplicateImportContent ::
    "(string \<Rightarrow> string) \<Rightarrow> string \<Rightarrow> string \<Rightarrow> string \<Rightarrow> string \<Rightarrow> nat \<Rightarrow> string \<Rightarrow> import_db \<Rightarrow> duplicate \<times> import_db" where
  "findDuplicateImportContent sha t account sourceType provider n fp db =
    (case registeredDuplicateImportContent t fp db of
       Some b \<Rightarrow> (Duplicate_Of b False, db)
     | None \<Rightarrow>
         (let items = take 101 (legacy_candidates t account n db)
          in if length items > 100 then (Review_Required, db)
             else (case find (\<lambda>c. length (rows_of_batch t (ib_id c) db) = n \<and>
                     sha (json (importContentFingerprintBasis t account (rows_of_batch t (ib_id c) db))) = fp) items of
                 None \<Rightarrow> (Fresh, db)
               | Some c \<Rightarrow>
                   (let db1 = (case insert_batch (lock_row (importContentLockId (ib_id c)) (importContentLockKey fp) t account sourceType provider) (im_batches db) of
                        None \<Rightarrow> db | Some bs \<Rightarrow> db\<lparr>im_batches := bs\<rparr>)
                    in (case registeredDuplicateImportContent t fp db1 of
                          Some b \<Rightarrow> (Duplicate_Of b True, db1)
                        | None \<Rightarrow> (Duplicate_Of (Some (ib_id c)) True, db1))))))"

text \<open>A stored row of the same source with another content.\<close>

definition stored_conflict :: "string \<Rightarrow> string \<Rightarrow> ledger_row list \<Rightarrow> string list \<Rightarrow> import_db \<Rightarrow> (string \<times> string) option" where
  "stored_conflict t account rows fps db =
    (let wanted = filter (\<lambda>(r, fp). lr_source r \<noteq> []) (zip rows fps)
     in case find (\<lambda>x. tx_tenant x = t \<and> tx_account x = account \<and>
            (case find (\<lambda>(r, fp). fp = tx_fingerprint x) wanted of None \<Rightarrow> False | Some (r, _) \<Rightarrow> \<not> sameLedgerRow (recorded_row x) r)) (im_txs db) of
          None \<Rightarrow> None
        | Some x \<Rightarrow> (case find (\<lambda>(r, fp). fp = tx_fingerprint x) wanted of None \<Rightarrow> None | Some (r, _) \<Rightarrow> Some (tx_fingerprint x, take 160 (trim (lr_source r)))))"

definition findAdapterSourceIdentityConflict :: "string \<Rightarrow> string \<Rightarrow> ledger_row list \<Rightarrow> string list \<Rightarrow> import_db \<Rightarrow> (string \<times> string) option" where
  "findAdapterSourceIdentityConflict t account rows fps db =
    (case adapterBatchSourceIdentityConflict rows fps of Some c \<Rightarrow> Some c | None \<Rightarrow> stored_conflict t account rows fps db)"

definition sameTransactionEntries :: "fin_tx list \<Rightarrow> string list \<Rightarrow> ledger_row list \<Rightarrow> bool" where
  "sameTransactionEntries txs fps rows \<longleftrightarrow>
     sort (map (\<lambda>x. json (JArr (JStr (tx_fingerprint x) # ledgerRowBasis (recorded_row x)))) txs) =
     sort (map (\<lambda>(r, fp). json (JArr (JStr fp # ledgerRowBasis r))) (zip rows fps))"

text \<open>What one request asks for, after its checks.\<close>

record import_plan =
  ip_tenant :: string
  ip_account :: string
  ip_source :: string
  ip_provider :: string
  ip_connection :: "string option"
  ip_key :: string
  ip_rows :: "ledger_row list"
  ip_fps :: "string list"
  ip_lock :: string
  ip_content :: "string option"
  ip_guarded :: bool

definition verifyExistingImportRequest :: "import_plan \<Rightarrow> import_batch \<Rightarrow> import_db \<Rightarrow> bool" where
  "verifyExistingImportRequest p e db =
    (if ib_account e \<noteq> ip_account p \<or> ib_source e \<noteq> ip_source p \<or> ib_provider e \<noteq> ip_provider p \<or> ib_rows e \<noteq> length (ip_rows p) then False
     else (case find (\<lambda>b. ib_tenant b = ip_tenant p \<and> ib_id b = importRequestLockId (ib_id e)) (im_batches db) of
         Some b \<Rightarrow> ib_key b = ip_lock p
       | None \<Rightarrow> ib_imported e = length (ip_rows p) \<and>
           sameTransactionEntries (filter (\<lambda>x. tx_tenant x = ip_tenant p \<and> tx_batch x = ib_id e) (im_txs db)) (ip_fps p) (ip_rows p)))"

section \<open>The batch\<close>

definition tx_row :: "import_plan \<Rightarrow> string \<Rightarrow> string \<Rightarrow> ledger_row \<Rightarrow> string \<Rightarrow> fin_tx" where
  "tx_row p bid i r fp = \<lparr>tx_id = i, tx_tenant = ip_tenant p, tx_account = ip_account p, tx_batch = bid, tx_posted = lr_posted r,
     tx_description = lr_description r, tx_reference = lr_reference r, tx_amount = lr_amount r, tx_source = ip_source p, tx_fingerprint = fp\<rparr>"

definition same_source :: "fin_tx \<Rightarrow> fin_tx \<Rightarrow> bool" where
  "same_source x y \<longleftrightarrow> tx_tenant x = tx_tenant y \<and> tx_account x = tx_account y \<and> tx_fingerprint x = tx_fingerprint y"

definition same_content :: "fin_tx \<Rightarrow> fin_tx \<Rightarrow> bool" where
  "same_content x y \<longleftrightarrow> tx_posted x = tx_posted y \<and> tx_description x = tx_description y \<and> tx_reference x = tx_reference y \<and>
     tx_amount x = tx_amount y \<and> tx_source x = tx_source y"

text \<open>\<^verbatim>\<open>INSERT OR IGNORE\<close> for the imports of people; for an adapter a known source with another content breaks
  the batch, since its description is set to null.\<close>

fun insert_txs :: "bool \<Rightarrow> fin_tx list \<Rightarrow> fin_tx list \<Rightarrow> fin_tx list option" where
  "insert_txs adapter [] txs = Some txs"
| "insert_txs adapter (x # xs) txs =
     (case find (same_source x) txs of
        Some y \<Rightarrow> if \<not> adapter \<or> same_content x y then insert_txs adapter xs txs else None
      | None \<Rightarrow>
          if tx_id x \<in> tx_id ` set txs then (if adapter then None else insert_txs adapter xs txs)
          else insert_txs adapter xs (txs @ [x]))"

definition complete_batch :: "string \<Rightarrow> string \<Rightarrow> fin_tx list \<Rightarrow> import_batch list \<Rightarrow> import_batch list" where
  "complete_batch t bid txs = (let k = length (filter (\<lambda>x. tx_batch x = bid) txs) in
     update_where (\<lambda>b. ib_id b = bid \<and> ib_tenant b = t \<and> ib_status b = ''processing'')
       (\<lambda>b. b\<lparr>ib_status := ''completed'', ib_imported := k, ib_duplicates := int (ib_rows b) - int k\<rparr>))"

definition batch_head :: "import_plan \<Rightarrow> string \<Rightarrow> import_batch" where
  "batch_head p bid = \<lparr>ib_id = bid, ib_tenant = ip_tenant p, ib_account = ip_account p, ib_source = ip_source p, ib_provider = ip_provider p,
     ib_key = ip_key p, ib_status = ''processing'', ib_rows = length (ip_rows p), ib_imported = 0, ib_duplicates = 0\<rparr>"

definition lock_of :: "import_plan \<Rightarrow> string \<Rightarrow> string \<Rightarrow> import_batch" where
  "lock_of p i k = lock_row i k (ip_tenant p) (ip_account p) (ip_source p) (ip_provider p)"

definition content_lock :: "import_plan \<Rightarrow> string \<Rightarrow> import_batch list \<Rightarrow> import_batch list option" where
  "content_lock p bid bs =
    (case ip_content p of
       Some fp \<Rightarrow> if ip_guarded p then insert_batch (lock_of p (importContentLockId bid) (importContentLockKey fp)) bs else Some bs
     | None \<Rightarrow> Some bs)"

definition packed :: "import_plan \<Rightarrow> string \<Rightarrow> string list \<Rightarrow> fin_tx list" where
  "packed p bid ids = map (\<lambda>(i, r, fp). tx_row p bid i r fp) (zip ids (zip (ip_rows p) (ip_fps p)))"

definition run_batch :: "import_plan \<Rightarrow> string \<Rightarrow> string list \<Rightarrow> import_db \<Rightarrow> import_db option" where
  "run_batch p bid ids db =
    (case insert_batch (batch_head p bid) (im_batches db) of None \<Rightarrow> None
      | Some b1 \<Rightarrow> (case insert_batch (lock_of p (importRequestLockId bid) (ip_lock p)) b1 of None \<Rightarrow> None
      | Some b2 \<Rightarrow> (case content_lock p bid b2 of None \<Rightarrow> None
      | Some b3 \<Rightarrow> (case insert_txs (ip_source p = ''adapter'') (packed p bid ids) (im_txs db) of None \<Rightarrow> None
      | Some txs \<Rightarrow> Some (db\<lparr>im_batches := complete_batch (ip_tenant p) bid txs b3, im_txs := txs\<rparr>)))))"

section \<open>The import request\<close>

definition opt_field :: "string \<Rightarrow> string option \<Rightarrow> (string \<times> jsval) list" where
  "opt_field k v = (case v of None \<Rightarrow> [] | Some x \<Rightarrow> if x = [] then [] else [(k, JStr x)])"

definition replayed :: "import_plan \<Rightarrow> import_batch \<Rightarrow> reply" where
  "replayed p e = Reply 200 (JObj ([(''ok'', JBool True), (''id'', JStr (ib_id e)), (''importedCount'', JInt (int (ib_imported e))),
     (''duplicateCount'', JInt (ib_duplicates e)), (''status'', JStr (ib_status e)), (''replayed'', JBool True)] @
     opt_field ''connectionId'' (ip_connection p)))"

definition duplicate_answer :: "string option \<Rightarrow> string \<Rightarrow> bool \<Rightarrow> reply" where
  "duplicate_answer b flag v = Reply 409 (JObj ((''error'', JStr ''duplicate_import_content'') #
     opt_field ''existingImportBatchId'' b @ [(flag, JBool v)]))"

text \<open>After the batch broke on a constraint: a request that was faster, or a conflict of sources or contents.\<close>

definition after_conflict :: "import_plan \<Rightarrow> import_db \<Rightarrow> reply" where
  "after_conflict p db =
    (case batch_at (ip_tenant p) (ip_key p) (im_batches db) of
       Some e \<Rightarrow> if verifyExistingImportRequest p e db then replayed p e else fail ''idempotency_key_conflict'' 409
     | None \<Rightarrow>
         (case (if ip_source p = ''adapter'' then findAdapterSourceIdentityConflict (ip_tenant p) (ip_account p) (ip_rows p) (ip_fps p) db else None) of
            Some (_, s) \<Rightarrow> Reply 409 (JObj ((''error'', JStr ''finance_source_identity_conflict'') # opt_field ''sourceId'' (Some s) @ [(''raceDetected'', JBool True)]))
          | None \<Rightarrow>
              (case (case ip_content p of Some fp \<Rightarrow> if ip_guarded p then registeredDuplicateImportContent (ip_tenant p) fp db else None | None \<Rightarrow> None) of
                 Some b \<Rightarrow> duplicate_answer b ''raceDetected'' True
               | None \<Rightarrow> Throws)))"

text \<open>The part of the handler after the key was found unused.\<close>

definition write_batch :: "import_plan \<Rightarrow> string \<Rightarrow> string list \<Rightarrow> import_db \<Rightarrow> reply \<times> import_db" where
  "write_batch p bid ids db =
    (case run_batch p bid ids db of
        None \<Rightarrow> (after_conflict p db, db)
      | Some db2 \<Rightarrow> (case find (\<lambda>b. ib_id b = bid \<and> ib_tenant b = ip_tenant p) (im_batches db2) of
            None \<Rightarrow> (Throws, db2)
          | Some b \<Rightarrow> (Reply 201 (JObj ([(''ok'', JBool True), (''id'', JStr bid), (''importedCount'', JInt (int (ib_imported b))),
                (''duplicateCount'', JInt (ib_duplicates b)), (''currency'', JStr ''BWP'')] @ opt_field ''connectionId'' (ip_connection p))), db2)))"

definition import_fresh :: "(string \<Rightarrow> string) \<Rightarrow> import_plan \<Rightarrow> string \<Rightarrow> string list \<Rightarrow> import_db \<Rightarrow> reply \<times> import_db" where
  "import_fresh sha p bid ids db =
    (case (if ip_source p = ''adapter'' then findAdapterSourceIdentityConflict (ip_tenant p) (ip_account p) (ip_rows p) (ip_fps p) db else None) of
       Some (_, s) \<Rightarrow> (Reply 409 (JObj ((''error'', JStr ''finance_source_identity_conflict'') # opt_field ''sourceId'' (Some s))), db)
     | None \<Rightarrow>
         (case (if ip_guarded p then ip_content p else None) of
            Some fp \<Rightarrow>
              (case findDuplicateImportContent sha (ip_tenant p) (ip_account p) (ip_source p) (ip_provider p) (length (ip_rows p)) fp db of
                 (Fresh, db1) \<Rightarrow> write_batch p bid ids db1
               | (Review_Required, db1) \<Rightarrow> (fail ''finance_import_content_review_required'' 409, db1)
               | (Duplicate_Of b legacy, db1) \<Rightarrow> (duplicate_answer b ''legacyDetected'' legacy, db1))
          | None \<Rightarrow> write_batch p bid ids db))"

definition import_planned :: "(string \<Rightarrow> string) \<Rightarrow> import_plan \<Rightarrow> string \<Rightarrow> string list \<Rightarrow> import_db \<Rightarrow> reply \<times> import_db" where
  "import_planned sha p bid ids db =
    (case batch_at (ip_tenant p) (ip_key p) (im_batches db) of
       Some e \<Rightarrow> (if verifyExistingImportRequest p e db then replayed p e else fail ''idempotency_key_conflict'' 409, db)
     | None \<Rightarrow> import_fresh sha p bid ids db)"

definition plan_of :: "(string \<Rightarrow> string) \<Rightarrow> string \<Rightarrow> string \<Rightarrow> string \<Rightarrow> string \<Rightarrow> string \<Rightarrow> string \<Rightarrow> bool \<Rightarrow> ledger_row list \<Rightarrow> import_plan" where
  "plan_of sha t account sourceType provider connectionId key allow rows =
    (let from = (if sourceType = ''adapter'' then provider @ '':'' @ connectionId else provider);
         request = sha (json (importRequestFingerprintBasis t account sourceType provider connectionId rows))
     in \<lparr>ip_tenant = t, ip_account = account, ip_source = sourceType, ip_provider = provider, ip_connection = (if sourceType = ''adapter'' then Some connectionId else None), ip_key = key, ip_rows = rows,
         ip_fps = map (\<lambda>(i, r). sha (json (sourceFingerprintBasis t account sourceType from key r i))) (enumerate 0 rows),
         ip_lock = importRequestLockKey (sha (json (JArr [JStr key, JStr request]))),
         ip_content = (if sourceType = ''adapter'' then None else Some (sha (json (importContentFingerprintBasis t account rows)))),
         ip_guarded = (\<not> allow)\<rparr>)"

text \<open>\<open>linked\<close>: the check of an adapter's connection, with the connection's id when it may import.\<close>

definition request_key :: "jsval \<Rightarrow> jsval \<Rightarrow> string" where
  "request_key header body = text_of (jor header (fld body ''idempotencyKey'')) 120"

definition source_of :: "jsval \<Rightarrow> string" where
  "source_of body = text_of (jor (fld body ''sourceType'') (JStr ''manual'')) 20"

definition import_refusal :: "string \<Rightarrow> bool \<Rightarrow> jsval \<Rightarrow> jsval \<Rightarrow> account list \<Rightarrow> reply option" where
  "import_refusal t owner header body accounts =
    (let rows = elems (fld body ''rows''); key = request_key header body; provider = text_of (fld body ''provider'') 60;
         allow = is_true (fld body ''allowDuplicateContent'');
         reason = text_of (jor (fld body ''duplicateOverrideReason'') (fld body ''duplicateReason'')) 240; adapter = (source_of body = ''adapter'')
     in if source_of body \<notin> set SOURCE_TYPES \<or> (adapter \<and> provider = []) then Some (fail ''invalid_source_type'' 400)
        else if adapter \<and> containsSecretMaterial body then Some (fail ''finance_connection_secret_material_forbidden'' 400)
        else if key = [] then Some (fail ''idempotency_key_required'' 400)
        else if reservedImportIdempotencyKey key then Some (fail ''reserved_idempotency_key'' 400)
        else if allow \<and> \<not> owner then Some (fail ''duplicate_content_override_forbidden'' 403)
        else if allow \<and> length reason < 8 then Some (fail ''duplicate_override_reason_required'' 400)
        else if rows = [] \<or> length rows > 1000
        then Some (Reply 400 (JObj [(''error'', JStr ''invalid_import_rows''), (''maxRows'', JInt 1000)]))
        else if \<not> list_ex (\<lambda>a. ac_id a = text_of (fld body ''accountId'') 64 \<and> ac_tenant a = t \<and> ac_active a) accounts
        then Some (fail ''finance_account_not_found'' 404)
        else if adapter \<and> provider_at provider = None then Some (fail ''unsupported_finance_provider'' 400)
        else None)"

text \<open>The connection of an adapter's request, or the connection id as it was sent.\<close>

definition import_connection :: "string \<Rightarrow> jsval \<Rightarrow> lineage_row list \<Rightarrow> (string \<times> nat) + string" where
  "import_connection t body lineage =
    (if source_of body = ''adapter''
     then (case adapterConnectionForImport t (text_of (fld body ''connectionId'') 64) (text_of (fld body ''accountId'') 64) (text_of (fld body ''provider'') 60) lineage of
         Inl e \<Rightarrow> Inl e | Inr c \<Rightarrow> Inr (cn_id c))
     else Inr (text_of (fld body ''connectionId'') 64))"

definition import_request ::
    "(string \<Rightarrow> string) \<Rightarrow> date_parse \<Rightarrow> lineage_row list \<Rightarrow> string \<Rightarrow> bool \<Rightarrow> jsval \<Rightarrow> jsval \<Rightarrow> account list \<Rightarrow> reply + import_plan" where
  "import_request sha dp lineage t owner header body accounts =
    (case import_refusal t owner header body accounts of Some r \<Rightarrow> Inl r
     | None \<Rightarrow>
         (case import_connection t body lineage of Inl (e, status) \<Rightarrow> Inl (fail e status)
          | Inr cid \<Rightarrow>
              (case normalize_rows dp 0 (elems (fld body ''rows'')) of
                 Inl (e, i) \<Rightarrow> Inl (Reply 400 (JObj [(''error'', JStr e), (''row'', JInt (int i))]))
               | Inr rs \<Rightarrow> Inr (plan_of sha t (text_of (fld body ''accountId'') 64) (source_of body) (text_of (fld body ''provider'') 60) cid
                   (request_key header body) (is_true (fld body ''allowDuplicateContent'')) rs))))"

definition importTransactions ::
    "(string \<Rightarrow> string) \<Rightarrow> date_parse \<Rightarrow> lineage_row list \<Rightarrow> string \<Rightarrow> bool \<Rightarrow> jsval \<Rightarrow> jsval \<Rightarrow> string \<Rightarrow> string list \<Rightarrow> import_db \<Rightarrow> reply \<times> import_db" where
  "importTransactions sha dp lineage t owner header body bid ids db =
    (case import_request sha dp lineage t owner header body (im_accounts db) of
       Inl r \<Rightarrow> (r, db)
     | Inr p \<Rightarrow> import_planned sha p bid ids db)"

section \<open>What a batch leaves\<close>

lemma find_update_where:
  assumes "\<And>x. P (f x) = P x"
  shows "find P (update_where Q f xs) = map_option (\<lambda>x. if Q x then f x else x) (find P xs)"
  using assms by (induction xs) (auto simp: update_where_def)

lemma insert_batch_Some:
  "insert_batch b bs = Some bs' \<longleftrightarrow> bs' = bs @ [b] \<and> (\<forall>c\<in>set bs. ib_id c \<noteq> ib_id b \<and> \<not> (ib_tenant c = ib_tenant b \<and> ib_key c = ib_key b))"
  by (auto simp: insert_batch_def list_ex_iff)

lemma batch_at_append_new:
  assumes "\<forall>c\<in>set bs. \<not> (ib_tenant c = t \<and> ib_key c = k)"
  shows "batch_at t k (bs @ cs) = batch_at t k cs"
proof -
  have "find (\<lambda>b. ib_tenant b = t \<and> ib_key b = k) bs = None" using assms by (auto simp: find_None_iff)
  then show ?thesis by (simp add: batch_at_def find_append)
qed

lemma batch_at_complete:
  "batch_at t k (complete_batch t' bid txs bs) = map_option (\<lambda>b. if ib_id b = bid \<and> ib_tenant b = t' \<and> ib_status b = ''processing''
     then b\<lparr>ib_status := ''completed'', ib_imported := length (filter (\<lambda>x. tx_batch x = bid) txs),
       ib_duplicates := int (ib_rows b) - int (length (filter (\<lambda>x. tx_batch x = bid) txs))\<rparr> else b) (batch_at t k bs)"
  unfolding batch_at_def complete_batch_def Let_def by (rule find_update_where) simp

definition completed_head :: "import_plan \<Rightarrow> string \<Rightarrow> fin_tx list \<Rightarrow> import_batch" where
  "completed_head p bid txs = (let k = length (filter (\<lambda>x. tx_batch x = bid) txs) in
     (batch_head p bid)\<lparr>ib_status := ''completed'', ib_imported := k, ib_duplicates := int (length (ip_rows p)) - int k\<rparr>)"

lemma request_lock_other: "importRequestLockId b \<noteq> b" "importContentLockId b \<noteq> b" "importRequestLockId b \<noteq> importContentLockId c"
  by (auto simp: importRequestLockId_def importContentLockId_def dest: arg_cong [where f = length])

definition extra_locks :: "import_plan \<Rightarrow> string \<Rightarrow> import_batch list" where
  "extra_locks p bid = (case ip_content p of
     Some fp \<Rightarrow> if ip_guarded p then [lock_of p (importContentLockId bid) (importContentLockKey fp)] else [] | None \<Rightarrow> [])"

lemma content_lock_Some:
  "content_lock p bid bs = Some bs' \<Longrightarrow> bs' = bs @ extra_locks p bid \<and>
     (\<forall>c\<in>set bs. \<forall>l\<in>set (extra_locks p bid). ib_id c \<noteq> ib_id l \<and> \<not> (ib_tenant c = ib_tenant l \<and> ib_key c = ib_key l))"
  by (auto simp: content_lock_def extra_locks_def insert_batch_Some split: option.splits if_splits)

lemma complete_batch_new:
  assumes "\<forall>c\<in>set bs. ib_id c \<noteq> bid"
  shows "complete_batch (ip_tenant p) bid txs (bs @ batch_head p bid # lock_of p (importRequestLockId bid) k # extra_locks p bid) =
    bs @ completed_head p bid txs # lock_of p (importRequestLockId bid) k # extra_locks p bid"
proof -
  have "map (\<lambda>b. if ib_id b = bid \<and> ib_tenant b = ip_tenant p \<and> ib_status b = ''processing'' then f b else b) bs = bs" for f
    using assms by (auto intro: map_idI)
  then show ?thesis
    by (auto simp: complete_batch_def update_where_def completed_head_def Let_def batch_head_def lock_of_def lock_row_def
      extra_locks_def request_lock_other split: option.splits)
qed

lemma run_batch_Some:
  assumes "run_batch p bid ids db = Some db2"
  shows "\<exists>txs. insert_txs (ip_source p = ''adapter'') (packed p bid ids) (im_txs db) = Some txs \<and>
    db2 = db\<lparr>im_batches := im_batches db @ completed_head p bid txs # lock_of p (importRequestLockId bid) (ip_lock p) # extra_locks p bid, im_txs := txs\<rparr> \<and>
    (\<forall>c\<in>set (im_batches db). ib_id c \<noteq> bid \<and> ib_id c \<noteq> importRequestLockId bid \<and> \<not> (ib_tenant c = ip_tenant p \<and> ib_key c = ip_key p) \<and>
      \<not> (ib_tenant c = ip_tenant p \<and> ib_key c = ip_lock p)) \<and> ip_key p \<noteq> ip_lock p \<and>
    (\<forall>c\<in>set (im_batches db). \<forall>l\<in>set (extra_locks p bid). ib_id c \<noteq> ib_id l \<and> \<not> (ib_tenant c = ib_tenant l \<and> ib_key c = ib_key l)) \<and>
    (\<forall>l\<in>set (extra_locks p bid). ib_key l \<noteq> ip_key p \<and> ib_key l \<noteq> ip_lock p)"
proof -
  from assms obtain b1 b2 b3 txs where b: "insert_batch (batch_head p bid) (im_batches db) = Some b1"
      "insert_batch (lock_of p (importRequestLockId bid) (ip_lock p)) b1 = Some b2" "content_lock p bid b2 = Some b3"
      "insert_txs (ip_source p = ''adapter'') (packed p bid ids) (im_txs db) = Some txs"
      "db2 = db\<lparr>im_batches := complete_batch (ip_tenant p) bid txs b3, im_txs := txs\<rparr>"
    by (auto simp: run_batch_def split: option.splits)
  have old: "b1 = im_batches db @ [batch_head p bid]" "\<forall>c\<in>set (im_batches db). ib_id c \<noteq> bid \<and> \<not> (ib_tenant c = ip_tenant p \<and> ib_key c = ip_key p)"
    using b(1) by (simp_all add: insert_batch_Some batch_head_def)
  have lock: "b2 = b1 @ [lock_of p (importRequestLockId bid) (ip_lock p)]"
      "\<forall>c\<in>set b1. ib_id c \<noteq> importRequestLockId bid \<and> \<not> (ib_tenant c = ip_tenant p \<and> ib_key c = ip_lock p)"
    using b(2) by (simp_all add: insert_batch_Some lock_of_def lock_row_def)
  have extra: "b3 = b2 @ extra_locks p bid"
      "\<forall>c\<in>set b2. \<forall>l\<in>set (extra_locks p bid). ib_id c \<noteq> ib_id l \<and> \<not> (ib_tenant c = ib_tenant l \<and> ib_key c = ib_key l)"
    using content_lock_Some[OF b(3)] by auto
  have same: "\<forall>l\<in>set (extra_locks p bid). ib_tenant l = ip_tenant p"
    by (auto simp: extra_locks_def lock_of_def lock_row_def split: option.splits if_splits)
  have done': "complete_batch (ip_tenant p) bid txs b3 = im_batches db @ completed_head p bid txs # lock_of p (importRequestLockId bid) (ip_lock p) # extra_locks p bid"
    using complete_batch_new[of "im_batches db" bid p txs "ip_lock p"] old extra lock by simp
  have "ip_key p \<noteq> ip_lock p" using lock(2) old(1) by (auto simp: batch_head_def)
  moreover have "\<forall>l\<in>set (extra_locks p bid). ib_key l \<noteq> ip_key p \<and> ib_key l \<noteq> ip_lock p"
    using extra(2) lock(1) old(1) same by (auto simp: batch_head_def lock_of_def lock_row_def)
  moreover have "\<forall>c\<in>set (im_batches db). \<forall>l\<in>set (extra_locks p bid). ib_id c \<noteq> ib_id l \<and> \<not> (ib_tenant c = ib_tenant l \<and> ib_key c = ib_key l)"
    using extra(2) lock(1) old(1) by simp
  moreover have "\<forall>c\<in>set (im_batches db). ib_id c \<noteq> bid \<and> ib_id c \<noteq> importRequestLockId bid \<and> \<not> (ib_tenant c = ip_tenant p \<and> ib_key c = ip_key p) \<and>
      \<not> (ib_tenant c = ip_tenant p \<and> ib_key c = ip_lock p)"
    using old lock(2) by simp
  ultimately show ?thesis using b(4) b(5) done' by simp
qed

lemma batchIdFromContentLock_lock [simp]: "batchIdFromContentLock (importContentLockId b) = Some b"
  by (simp add: batchIdFromContentLock_def importContentLockId_def Let_def)

lemma batch_at_Cons:
  "batch_at t k (b # bs) = (if ib_tenant b = t \<and> ib_key b = k then Some b else batch_at t k bs)"
  by (simp add: batch_at_def)

lemma completed_head_sel [simp]:
  "ib_id (completed_head p bid txs) = bid" "ib_tenant (completed_head p bid txs) = ip_tenant p" "ib_key (completed_head p bid txs) = ip_key p"
  "ib_account (completed_head p bid txs) = ip_account p" "ib_source (completed_head p bid txs) = ip_source p"
  "ib_provider (completed_head p bid txs) = ip_provider p" "ib_rows (completed_head p bid txs) = length (ip_rows p)"
  "ib_status (completed_head p bid txs) = ''completed''"
  by (simp_all add: completed_head_def batch_head_def Let_def)

lemma lock_of_sel [simp]:
  "ib_id (lock_of p i k) = i" "ib_tenant (lock_of p i k) = ip_tenant p" "ib_key (lock_of p i k) = k" "ib_status (lock_of p i k) = ''failed''"
  by (simp_all add: lock_of_def lock_row_def)

lemma after_run_batch:
  assumes "run_batch p bid ids db = Some db2"
  shows "\<exists>txs. batch_at (ip_tenant p) (ip_key p) (im_batches db2) = Some (completed_head p bid txs) \<and>
      verifyExistingImportRequest p (completed_head p bid txs) db2 \<and> im_accounts db2 = im_accounts db \<and>
      (\<forall>fp. ip_content p = Some fp \<and> ip_guarded p \<longrightarrow> registeredDuplicateImportContent (ip_tenant p) fp db2 = Some (Some bid))"
proof -
  obtain txs where R: "db2 = db\<lparr>im_batches := im_batches db @ completed_head p bid txs # lock_of p (importRequestLockId bid) (ip_lock p) # extra_locks p bid, im_txs := txs\<rparr>"
    and old: "\<forall>c\<in>set (im_batches db). ib_id c \<noteq> bid \<and> ib_id c \<noteq> importRequestLockId bid \<and> \<not> (ib_tenant c = ip_tenant p \<and> ib_key c = ip_key p) \<and>
      \<not> (ib_tenant c = ip_tenant p \<and> ib_key c = ip_lock p)"
    and "ip_key p \<noteq> ip_lock p"
    and oldx: "\<forall>c\<in>set (im_batches db). \<forall>l\<in>set (extra_locks p bid). ib_id c \<noteq> ib_id l \<and> \<not> (ib_tenant c = ib_tenant l \<and> ib_key c = ib_key l)"
    and newx: "\<forall>l\<in>set (extra_locks p bid). ib_key l \<noteq> ip_key p \<and> ib_key l \<noteq> ip_lock p"
    using run_batch_Some[OF assms] by blast
  have r: "im_accounts db2 = im_accounts db"
      "im_batches db2 = im_batches db @ completed_head p bid txs # lock_of p (importRequestLockId bid) (ip_lock p) # extra_locks p bid"
    by (simp_all add: R)
  have at: "batch_at (ip_tenant p) (ip_key p) (im_batches db2) = Some (completed_head p bid txs)"
    using old by (simp add: r(2) batch_at_append_new batch_at_Cons)
  have "find (\<lambda>b. ib_tenant b = ip_tenant p \<and> ib_id b = importRequestLockId bid) (im_batches db) = None"
    using old by (auto simp: find_None_iff)
  then have ok: "verifyExistingImportRequest p (completed_head p bid txs) db2"
    using request_lock_other(1)[of bid] by (auto simp: verifyExistingImportRequest_def r(2) find_append)
  have "registeredDuplicateImportContent (ip_tenant p) fp db2 = Some (Some bid)" if "ip_content p = Some fp" "ip_guarded p" for fp
  proof -
    have x: "extra_locks p bid = [lock_of p (importContentLockId bid) (importContentLockKey fp)]" using that by (simp add: extra_locks_def)
    have "\<forall>c\<in>set (im_batches db). \<not> (ib_tenant c = ip_tenant p \<and> ib_key c = importContentLockKey fp)" using oldx x by simp
    then show ?thesis using newx x
      by (auto simp: registeredDuplicateImportContent_def r(2) batch_at_append_new batch_at_Cons)
  qed
  then show ?thesis using at ok r(1) by auto
qed

lemma after_conflict_not_created: "after_conflict p db \<noteq> Reply 201 r"
  by (auto simp: after_conflict_def replayed_def duplicate_answer_def fail_def split: option.split)

lemma write_batch_created:
  "write_batch p bid ids db = (Reply 201 r, db1) \<Longrightarrow> run_batch p bid ids db = Some db1"
  using after_conflict_not_created[of p db r] by (auto simp: write_batch_def split: option.splits)

lemma findDuplicate_accounts: "im_accounts (snd (findDuplicateImportContent sha t account sourceType provider n fp db)) = im_accounts db"
  by (auto simp: findDuplicateImportContent_def Let_def split: option.split)

lemma import_planned_created:
  assumes "import_planned sha p bid ids db = (Reply 201 r, db1)"
  shows "\<exists>db'. im_accounts db' = im_accounts db \<and> run_batch p bid ids db' = Some db1"
proof -
  have new: "import_fresh sha p bid ids db = (Reply 201 r, db1)"
    using assms by (auto simp: import_planned_def replayed_def fail_def split: option.splits if_splits)
  have free: "(if ip_source p = ''adapter'' then findAdapterSourceIdentityConflict (ip_tenant p) (ip_account p) (ip_rows p) (ip_fps p) db else None) = None"
    using new by (rule_tac ccontr) (auto simp: import_fresh_def)
  show ?thesis
  proof (cases "if ip_guarded p then ip_content p else None")
    case None
    have "write_batch p bid ids db = (Reply 201 r, db1)" using new unfolding import_fresh_def free None by simp
    then show ?thesis using write_batch_created by blast
  next
    case (Some fp)
    obtain d db' where f: "findDuplicateImportContent sha (ip_tenant p) (ip_account p) (ip_source p) (ip_provider p) (length (ip_rows p)) fp db = (d, db')"
      by fastforce
    have acc: "im_accounts db' = im_accounts db"
      using findDuplicate_accounts[of sha "ip_tenant p" "ip_account p" "ip_source p" "ip_provider p" "length (ip_rows p)" fp db] f by simp
    have "write_batch p bid ids db' = (Reply 201 r, db1)"
      using new unfolding import_fresh_def free Some
      by (cases d) (simp_all add: f fail_def duplicate_answer_def)
    then show ?thesis using write_batch_created acc by blast
  qed
qed

lemma import_planned_again:
  assumes "import_planned sha p bid ids db = (Reply 201 r, db1)"
  shows "\<exists>e. import_planned sha p bid' ids' db1 = (replayed p e, db1) \<and> ib_id e = bid \<and> ib_status e = ''completed''"
proof -
  obtain db' where "run_batch p bid ids db' = Some db1" using import_planned_created[OF assms] by auto
  then obtain txs where "batch_at (ip_tenant p) (ip_key p) (im_batches db1) = Some (completed_head p bid txs)"
    "verifyExistingImportRequest p (completed_head p bid txs) db1" using after_run_batch by blast
  then show ?thesis by (auto simp: import_planned_def)
qed

lemma import_planned_other_key:
  assumes "import_planned sha p bid ids db = (Reply 201 r, db1)" and "ip_content p = Some fp" "ip_guarded p"
    and "batch_at (ip_tenant p) k (im_batches db1) = None"
    and q: "ip_tenant q = ip_tenant p" "ip_content q = Some fp" "ip_guarded q" "ip_source q \<noteq> ''adapter''" "ip_key q = k"
  shows "import_planned sha q bid' ids' db1 = (duplicate_answer (Some bid) ''legacyDetected'' False, db1)"
proof -
  obtain db' where "run_batch p bid ids db' = Some db1" using import_planned_created[OF assms(1)] by auto
  then have "registeredDuplicateImportContent (ip_tenant p) fp db1 = Some (Some bid)" using after_run_batch assms by blast
  then show ?thesis using assms by (simp add: import_planned_def import_fresh_def findDuplicateImportContent_def)
qed

section \<open>Requests\<close>

lemma import_request_Inr:
  "import_request sha dp lineage t owner header body accounts = Inr p \<longleftrightarrow>
    import_refusal t owner header body accounts = None \<and>
    (\<exists>cid rs. import_connection t body lineage = Inr cid \<and> normalize_rows dp 0 (elems (fld body ''rows'')) = Inr rs \<and>
      p = plan_of sha t (text_of (fld body ''accountId'') 64) (source_of body) (text_of (fld body ''provider'') 60) cid
        (request_key header body) (is_true (fld body ''allowDuplicateContent'')) rs)"
  by (auto simp: import_request_def split: option.splits sum.splits)

lemma import_refusal_status: "import_refusal t owner header body accounts \<noteq> Some (Reply 201 r)"
  by (simp add: import_refusal_def Let_def fail_def)

lemma import_connection_status: "import_connection t body lineage \<noteq> Inl (e, 201)"
  by (auto simp: import_connection_def adapterConnectionForImport_def split: sum.split option.splits if_splits)

lemma import_request_refuses: "import_request sha dp lineage t owner header body accounts \<noteq> Inl (Reply 201 r)"
  using import_refusal_status[of t owner header body accounts r] import_connection_status[of t body lineage]
  by (auto simp: import_request_def fail_def split: option.splits sum.splits)

lemma import_created:
  assumes "importTransactions sha dp lineage t owner header body bid ids db = (Reply 201 r, db1)"
  shows "\<exists>p. import_request sha dp lineage t owner header body (im_accounts db) = Inr p \<and> im_accounts db1 = im_accounts db \<and>
    import_planned sha p bid ids db = (Reply 201 r, db1)"
proof (cases "import_request sha dp lineage t owner header body (im_accounts db)")
  case (Inl e)
  then show ?thesis using assms import_request_refuses by (auto simp: importTransactions_def)
next
  case (Inr p)
  then have p: "import_planned sha p bid ids db = (Reply 201 r, db1)" using assms by (simp add: importTransactions_def)
  have "im_accounts db1 = im_accounts db" using import_planned_created[OF p] after_run_batch by metis
  then show ?thesis using Inr p by simp
qed

section \<open>The ledger the imports build\<close>

definition source_key :: "fin_tx \<Rightarrow> string \<times> string \<times> string" where
  "source_key x = (tx_tenant x, tx_account x, tx_fingerprint x)"

definition batch_size :: "import_batch \<Rightarrow> fin_tx list \<Rightarrow> nat" where
  "batch_size b txs = length (filter (\<lambda>x. tx_batch x = ib_id b) txs)"

text \<open>Batch ids, transaction ids and sources are unique, every transaction belongs to a completed batch, and the counts
  of a completed batch are those of the ledger.\<close>

definition ledger_ok :: "import_batch list \<Rightarrow> fin_tx list \<Rightarrow> bool" where
  "ledger_ok bs txs \<longleftrightarrow> distinct (map ib_id bs) \<and> distinct (map tx_id txs) \<and> distinct (map source_key txs) \<and>
     (\<forall>x\<in>set txs. \<exists>b\<in>set bs. ib_id b = tx_batch x \<and> ib_tenant b = tx_tenant x \<and> ib_account b = tx_account x \<and> ib_status b = ''completed'') \<and>
     (\<forall>b\<in>set bs. ib_status b = ''completed'' \<longrightarrow> ib_imported b = batch_size b txs \<and> int (ib_imported b) + ib_duplicates b = int (ib_rows b) \<and> 0 \<le> ib_duplicates b)"

lemma same_source_key: "same_source x y \<longleftrightarrow> source_key x = source_key y"
  by (simp add: same_source_def source_key_def)

lemma insert_txs_appends:
  assumes "insert_txs adapter xs txs = Some txs'" "distinct (map tx_id txs)" "distinct (map source_key txs)"
  shows "\<exists>new. txs' = txs @ new \<and> set new \<subseteq> set xs \<and> length new \<le> length xs \<and> distinct (map tx_id txs') \<and> distinct (map source_key txs')"
  using assms
proof (induction adapter xs txs rule: insert_txs.induct)
  case (1 adapter txs)
  then show ?case by auto
next
  case (2 adapter x xs txs)
  show ?case
  proof (cases "find (same_source x) txs")
    case None
    then have fresh: "source_key x \<notin> source_key ` set txs" by (auto simp: find_None_iff same_source_key)
    show ?thesis
    proof (cases "tx_id x \<in> tx_id ` set txs")
      case True
      then have "\<not> adapter" "insert_txs adapter xs txs = Some txs'" using "2.prems"(1) None by (auto split: if_splits)
      with "2.IH"(1)[OF None True] "2.prems"(2,3) show ?thesis by fastforce
    next
      case False
      then have run: "insert_txs adapter xs (txs @ [x]) = Some txs'" using "2.prems"(1) None by simp
      have "distinct (map tx_id (txs @ [x]))" "distinct (map source_key (txs @ [x]))" using "2.prems"(2,3) False fresh by auto
      with "2.IH"(2)[OF None False run] show ?thesis by fastforce
    qed
  next
    case (Some y)
    then have ok: "\<not> adapter \<or> same_content x y" "insert_txs adapter xs txs = Some txs'" using "2.prems"(1) by (auto split: if_splits)
    with "2.IH"(3)[OF Some] "2.prems"(2,3) show ?thesis by fastforce
  qed
qed

lemma packed_of_plan: "x \<in> set (packed p bid ids) \<Longrightarrow> tx_batch x = bid \<and> tx_tenant x = ip_tenant p \<and> tx_account x = ip_account p"
  by (auto simp: packed_def tx_row_def)

lemma length_packed: "length (packed p bid ids) \<le> length (ip_rows p)"
  by (simp add: packed_def)

lemma completed_head_counts:
  "ib_imported (completed_head p bid txs) = length (filter (\<lambda>x. tx_batch x = bid) txs)"
  "ib_duplicates (completed_head p bid txs) = int (length (ip_rows p)) - int (length (filter (\<lambda>x. tx_batch x = bid) txs))"
  by (simp_all add: completed_head_def batch_head_def Let_def)

lemma failed_rows_ok:
  assumes "ledger_ok bs txs" "ib_id l \<notin> ib_id ` set bs" "ib_status l = ''failed''"
  shows "ledger_ok (bs @ [l]) txs"
  using assms unfolding ledger_ok_def by auto

lemma insert_failed_ok:
  "insert_batch l bs = Some bs' \<Longrightarrow> ib_status l = ''failed'' \<Longrightarrow> ledger_ok bs txs \<Longrightarrow> ledger_ok bs' txs"
  by (auto simp: insert_batch_Some intro!: failed_rows_ok)

lemma ledger_ok_completed:
  assumes ok: "ledger_ok bs txs" and fresh: "bid \<notin> ib_id ` set bs" and txs': "txs' = txs @ new" "set new \<subseteq> set (packed p bid ids)"
    "length new \<le> length (ip_rows p)" "distinct (map tx_id txs')" "distinct (map source_key txs')"
  shows "ledger_ok (bs @ [completed_head p bid txs']) txs'"
proof -
  have none: "filter (\<lambda>x. tx_batch x = bid) txs = []" using ok fresh by (force simp: ledger_ok_def filter_empty_conv)
  have new: "\<forall>x\<in>set new. tx_batch x = bid \<and> tx_tenant x = ip_tenant p \<and> tx_account x = ip_account p" using txs'(2) packed_of_plan by blast
  then have all: "filter (\<lambda>x. tx_batch x = bid) new = new" by (simp add: filter_id_conv)
  have size: "length (filter (\<lambda>x. tx_batch x = bid) txs') = length new" using none all txs'(1) by simp
  have old: "batch_size b txs' = batch_size b txs" if "b \<in> set bs" for b
  proof -
    have "ib_id b \<noteq> bid" using that fresh by auto
    then have "filter (\<lambda>x. tx_batch x = ib_id b) new = []" using new by (auto simp: filter_empty_conv)
    then show ?thesis by (simp add: batch_size_def txs'(1))
  qed
  have "\<forall>x\<in>set txs'. \<exists>b\<in>set (bs @ [completed_head p bid txs']). ib_id b = tx_batch x \<and> ib_tenant b = tx_tenant x \<and> ib_account b = tx_account x \<and> ib_status b = ''completed''"
    using ok new by (auto simp: ledger_ok_def txs'(1))
  moreover have "\<forall>b\<in>set (bs @ [completed_head p bid txs']). ib_status b = ''completed'' \<longrightarrow>
      ib_imported b = batch_size b txs' \<and> int (ib_imported b) + ib_duplicates b = int (ib_rows b) \<and> 0 \<le> ib_duplicates b"
    using ok old txs'(3) by (auto simp: ledger_ok_def completed_head_counts batch_size_def size)
  moreover have "distinct (map ib_id (bs @ [completed_head p bid txs']))" using ok fresh by (auto simp: ledger_ok_def)
  ultimately show ?thesis using txs'(4,5) unfolding ledger_ok_def by blast
qed

lemma run_batch_ledger:
  assumes "run_batch p bid ids db = Some db2" "ledger_ok (im_batches db) (im_txs db)"
  shows "ledger_ok (im_batches db2) (im_txs db2) \<and> (\<exists>new. im_txs db2 = im_txs db @ new)"
proof -
  obtain txs where txs: "insert_txs (ip_source p = ''adapter'') (packed p bid ids) (im_txs db) = Some txs"
    and R: "db2 = db\<lparr>im_batches := im_batches db @ completed_head p bid txs # lock_of p (importRequestLockId bid) (ip_lock p) # extra_locks p bid, im_txs := txs\<rparr>"
    and old: "\<forall>c\<in>set (im_batches db). ib_id c \<noteq> bid \<and> ib_id c \<noteq> importRequestLockId bid \<and> \<not> (ib_tenant c = ip_tenant p \<and> ib_key c = ip_key p) \<and>
      \<not> (ib_tenant c = ip_tenant p \<and> ib_key c = ip_lock p)"
    and oldx: "\<forall>c\<in>set (im_batches db). \<forall>l\<in>set (extra_locks p bid). ib_id c \<noteq> ib_id l \<and> \<not> (ib_tenant c = ib_tenant l \<and> ib_key c = ib_key l)"
    using run_batch_Some[OF assms(1)] by blast
  obtain new where new: "txs = im_txs db @ new" "set new \<subseteq> set (packed p bid ids)" "length new \<le> length (packed p bid ids)"
      "distinct (map tx_id txs)" "distinct (map source_key txs)"
    using insert_txs_appends[OF txs] assms(2) by (auto simp: ledger_ok_def)
  have len: "length new \<le> length (ip_rows p)" using new(3) length_packed[of p bid ids] by simp
  have "bid \<notin> ib_id ` set (im_batches db)" using old by auto
  then have a: "ledger_ok (im_batches db @ [completed_head p bid txs]) txs"
    by (rule ledger_ok_completed[OF assms(2) _ new(1,2) len new(4,5)])
  have b: "ledger_ok ((im_batches db @ [completed_head p bid txs]) @ [lock_of p (importRequestLockId bid) (ip_lock p)]) txs"
    using old request_lock_other(1)[of bid] by (intro failed_rows_ok[OF a]) auto
  have "ledger_ok (((im_batches db @ [completed_head p bid txs]) @ [lock_of p (importRequestLockId bid) (ip_lock p)]) @ extra_locks p bid) txs"
  proof (cases "extra_locks p bid = []")
    case True
    then show ?thesis using b by simp
  next
    case False
    then obtain k where k: "extra_locks p bid = [lock_of p (importContentLockId bid) k]"
      by (auto simp: extra_locks_def split: option.splits if_splits)
    show ?thesis unfolding k
      using oldx k request_lock_other(2)[of bid] request_lock_other(3)[of bid bid] by (intro failed_rows_ok[OF b]) (auto simp: eq_commute)
  qed
  then show ?thesis using R new(1) by simp
qed

lemma findDuplicate_ledger:
  assumes "findDuplicateImportContent sha t account sourceType provider n fp db = (d, db1)" "ledger_ok (im_batches db) (im_txs db)"
  shows "ledger_ok (im_batches db1) (im_txs db1) \<and> im_txs db1 = im_txs db"
  using assms
  by (auto simp: findDuplicateImportContent_def Let_def lock_row_def intro: insert_failed_ok split: option.splits if_splits)

lemma write_batch_ledger:
  assumes "ledger_ok (im_batches db) (im_txs db)"
  shows "ledger_ok (im_batches (snd (write_batch p bid ids db))) (im_txs (snd (write_batch p bid ids db))) \<and>
    (\<exists>new. im_txs (snd (write_batch p bid ids db)) = im_txs db @ new)"
  using assms run_batch_ledger[of p bid ids db] by (auto simp: write_batch_def split: option.splits)

lemma import_fresh_ledger:
  assumes "ledger_ok (im_batches db) (im_txs db)"
  shows "ledger_ok (im_batches (snd (import_fresh sha p bid ids db))) (im_txs (snd (import_fresh sha p bid ids db))) \<and>
    (\<exists>new. im_txs (snd (import_fresh sha p bid ids db)) = im_txs db @ new)"
proof (cases "if ip_guarded p then ip_content p else None")
  case None
  then show ?thesis using assms write_batch_ledger[OF assms] unfolding import_fresh_def None by (auto split: option.split)
next
  case (Some fp)
  obtain d db' where f: "findDuplicateImportContent sha (ip_tenant p) (ip_account p) (ip_source p) (ip_provider p) (length (ip_rows p)) fp db = (d, db')"
    by fastforce
  have ok: "ledger_ok (im_batches db') (im_txs db')" "im_txs db' = im_txs db" using findDuplicate_ledger[OF f assms] by auto
  then show ?thesis using assms write_batch_ledger[OF ok(1)] unfolding import_fresh_def Some option.case f prod.case
    by (cases d) (simp_all split: option.split)
qed

lemma importTransactions_ledger:
  assumes "ledger_ok (im_batches db) (im_txs db)"
  shows "ledger_ok (im_batches (snd (importTransactions sha dp lineage t owner header body bid ids db)))
      (im_txs (snd (importTransactions sha dp lineage t owner header body bid ids db))) \<and>
    (\<exists>new. im_txs (snd (importTransactions sha dp lineage t owner header body bid ids db)) = im_txs db @ new)"
  using assms import_fresh_ledger[OF assms]
  by (auto simp: importTransactions_def import_planned_def split: sum.split option.split)

definition import_run ::
    "(string \<Rightarrow> string) \<Rightarrow> date_parse \<Rightarrow> (lineage_row list \<times> string \<times> bool \<times> jsval \<times> jsval \<times> string \<times> string list) list \<Rightarrow> import_db \<Rightarrow> import_db" where
  "import_run sha dp rs db = fold (\<lambda>(lineage, t, owner, header, body, bid, ids) db.
     snd (importTransactions sha dp lineage t owner header body bid ids db)) rs db"

definition import_books :: "(string \<Rightarrow> string) \<Rightarrow> date_parse \<Rightarrow> (lineage_row list \<times> string \<times> bool \<times> jsval \<times> jsval \<times> string \<times> string list) list \<Rightarrow>
    account list \<Rightarrow> import_db" where
  "import_books sha dp rs accounts = import_run sha dp rs \<lparr>im_accounts = accounts, im_batches = [], im_txs = []\<rparr>"

lemma ledger_ok_run:
  "ledger_ok (im_batches db) (im_txs db) \<Longrightarrow> ledger_ok (im_batches (import_run sha dp rs db)) (im_txs (import_run sha dp rs db))"
proof (induction rs arbitrary: db)
  case Nil
  then show ?case by (simp add: import_run_def)
next
  case (Cons r rs)
  then show ?case using importTransactions_ledger by (cases r) (simp add: import_run_def)
qed

lemma content_permuted:
  assumes "mset (map row_text rs) = mset (map row_text rs')"
  shows "importContentFingerprintBasis t account rs = importContentFingerprintBasis t account rs'"
proof -
  have "sort (map row_text rs) = sort (map row_text rs')" by (rule properties_for_sort) (use assms in simp_all)
  then show ?thesis by (simp add: importContentFingerprintBasis_def)
qed

lemma plan_of_sel [simp]:
  "ip_tenant (plan_of sha t account src pr cid key allow rs) = t" "ip_source (plan_of sha t account src pr cid key allow rs) = src"
  "ip_key (plan_of sha t account src pr cid key allow rs) = key" "ip_guarded (plan_of sha t account src pr cid key allow rs) = (\<not> allow)"
  "ip_content (plan_of sha t account src pr cid key allow rs) =
     (if src = ''adapter'' then None else Some (sha (json (importContentFingerprintBasis t account rs))))"
  by (simp_all add: plan_of_def Let_def)

text \<open>C5: The ledger of an import history is consistent: starting from an empty ledger, after any requests in any order no two
  transactions of a tenant's account carry the same source, every transaction belongs to a completed batch of its tenant and account,
  and the imported and duplicate counts of a completed batch are those of the ledger and add up to the rows of the request; a request
  only ever adds transactions.\<close>

theorem import_books_consistent:
  "ledger_ok (im_batches (import_books sha dp rs accounts)) (im_txs (import_books sha dp rs accounts)) \<and>
    (\<exists>new. im_txs (snd (importTransactions sha dp lineage t owner header body bid ids (import_books sha dp rs accounts))) = im_txs (import_books sha dp rs accounts) @ new)"
proof -
  have "ledger_ok (im_batches (import_books sha dp rs accounts)) (im_txs (import_books sha dp rs accounts))"
    unfolding import_books_def by (rule ledger_ok_run) (simp add: ledger_ok_def)
  then show ?thesis using importTransactions_ledger by blast
qed

text \<open>C3: An import happens once: repeating an accepted request, with the same key, answers with the recorded batch and changes nothing;
  and while the accepted rows came from a person (not an adapter), any request of a person that would record the same rows for the account,
  in any order and under any unused key, is refused as a duplicate of that batch unless it overrides the check, and changes nothing.\<close>

theorem import_once:
  assumes "importTransactions sha dp lineage t owner header body bid ids db = (Reply 201 r, db1)"
  shows "(\<exists>p e. importTransactions sha dp lineage t owner header body bid' ids' db1 = (replayed p e, db1) \<and> ib_id e = bid \<and> ib_status e = ''completed'') \<and>
    (source_of body \<noteq> ''adapter'' \<and> \<not> is_true (fld body ''allowDuplicateContent'') \<and>
     import_refusal t owner' header' body' (im_accounts db1) = None \<and>
     source_of body' \<noteq> ''adapter'' \<and> \<not> is_true (fld body' ''allowDuplicateContent'') \<and>
     text_of (fld body' ''accountId'') 64 = text_of (fld body ''accountId'') 64 \<and>
     normalize_rows dp 0 (elems (fld body ''rows'')) = Inr rs \<and> normalize_rows dp 0 (elems (fld body' ''rows'')) = Inr rs' \<and>
     mset (map row_text rs') = mset (map row_text rs) \<and>
     batch_at t (request_key header' body') (im_batches db1) = None
     \<longrightarrow> importTransactions sha dp lineage' t owner' header' body' bid' ids' db1 = (duplicate_answer (Some bid) ''legacyDetected'' False, db1))"
proof (intro conjI impI)
  obtain p where p: "import_request sha dp lineage t owner header body (im_accounts db) = Inr p" "im_accounts db1 = im_accounts db"
      "import_planned sha p bid ids db = (Reply 201 r, db1)"
    using import_created[OF assms] by blast
  show "\<exists>p e. importTransactions sha dp lineage t owner header body bid' ids' db1 = (replayed p e, db1) \<and> ib_id e = bid \<and> ib_status e = ''completed''"
    using import_planned_again[OF p(3), of bid' ids'] p(1,2) by (auto simp: importTransactions_def)
  assume h: "source_of body \<noteq> ''adapter'' \<and> \<not> is_true (fld body ''allowDuplicateContent'') \<and>
     import_refusal t owner' header' body' (im_accounts db1) = None \<and>
     source_of body' \<noteq> ''adapter'' \<and> \<not> is_true (fld body' ''allowDuplicateContent'') \<and>
     text_of (fld body' ''accountId'') 64 = text_of (fld body ''accountId'') 64 \<and>
     normalize_rows dp 0 (elems (fld body ''rows'')) = Inr rs \<and> normalize_rows dp 0 (elems (fld body' ''rows'')) = Inr rs' \<and>
     mset (map row_text rs') = mset (map row_text rs) \<and>
     batch_at t (request_key header' body') (im_batches db1) = None"
  have q: "import_request sha dp lineage' t owner' header' body' (im_accounts db1) =
      Inr (plan_of sha t (text_of (fld body' ''accountId'') 64) (source_of body') (text_of (fld body' ''provider'') 60)
        (text_of (fld body' ''connectionId'') 64) (request_key header' body') False rs')"
    using h by (auto simp: import_request_Inr import_connection_def)
  have "ip_content p = Some (sha (json (importContentFingerprintBasis t (text_of (fld body ''accountId'') 64) rs)))" "ip_guarded p" "ip_source p \<noteq> ''adapter''" "ip_tenant p = t"
    using p(1) h by (auto simp: import_request_Inr)
  then have "import_planned sha (plan_of sha t (text_of (fld body' ''accountId'') 64) (source_of body') (text_of (fld body' ''provider'') 60)
        (text_of (fld body' ''connectionId'') 64) (request_key header' body') False rs') bid' ids' db1 = (duplicate_answer (Some bid) ''legacyDetected'' False, db1)"
    using p(3) h content_permuted[of rs' rs] by (intro import_planned_other_key) auto
  then show "importTransactions sha dp lineage' t owner' header' body' bid' ids' db1 = (duplicate_answer (Some bid) ''legacyDetected'' False, db1)"
    by (simp add: importTransactions_def q)
qed

definition import_dates :: date_parse where
  "import_dates s = (if s = ''2026-01-31T00:00:00Z'' then Some 1769817600000 else None)"

definition demo_row :: "int \<Rightarrow> jsval" where
  "demo_row a = JObj [(''postedOn'', JStr ''2026-01-31''), (''description'', JStr ''Sale''), (''amountMinor'', JInt a)]"

definition demo_import :: "jsval list \<Rightarrow> jsval" where
  "demo_import rows = JObj [(''accountId'', JStr ''a''), (''rows'', JArr rows)]"

definition demo_ledger :: import_db where
  "demo_ledger = \<lparr>im_accounts = [\<lparr>ac_id = ''a'', ac_tenant = ''t'', ac_name = ''Bank'', ac_type = ''bank'', ac_opening = 0, ac_active = True\<rparr>],
     im_batches = [], im_txs = []\<rparr>"

definition demo_after :: import_db where
  "demo_after = snd (importTransactions id import_dates [] ''t'' True (JStr ''k'') (demo_import [demo_row 500, demo_row 700]) ''b'' [''x'', ''y''] demo_ledger)"

definition demo_ledger_row :: "int \<Rightarrow> ledger_row" where
  "demo_ledger_row a = \<lparr>lr_posted = ''2026-01-31'', lr_description = ''Sale'', lr_reference = [], lr_amount = a, lr_source = []\<rparr>"

lemma demo_import_accepted:
  "\<exists>r. importTransactions id import_dates [] ''t'' True (JStr ''k'') (demo_import [demo_row 500, demo_row 700]) ''b'' [''x'', ''y''] demo_ledger = (Reply 201 r, demo_after)"
proof -
  have "status_of (fst (importTransactions id import_dates [] ''t'' True (JStr ''k'') (demo_import [demo_row 500, demo_row 700]) ''b'' [''x'', ''y''] demo_ledger)) = Some 201"
    by code_simp
  then show ?thesis
    unfolding demo_after_def
    by (cases "importTransactions id import_dates [] ''t'' True (JStr ''k'') (demo_import [demo_row 500, demo_row 700]) ''b'' [''x'', ''y''] demo_ledger")
       (auto elim!: status_of.elims)
qed

lemma demo_second_request:
  "import_refusal ''t'' False (JStr ''k2'') (demo_import [demo_row 700, demo_row 500]) (im_accounts demo_after) = None"
  "batch_at ''t'' (request_key (JStr ''k2'') (demo_import [demo_row 700, demo_row 500])) (im_batches demo_after) = None"
  by code_simp+

lemma demo_requests_read:
  "source_of (demo_import vs) = ''manual''" "\<not> is_true (fld (demo_import vs) ''allowDuplicateContent'')"
  "text_of (fld (demo_import vs) ''accountId'') 64 = text_of (fld (demo_import ws) ''accountId'') 64"
  "normalize_rows import_dates 0 (elems (fld (demo_import [demo_row 500, demo_row 700]) ''rows'')) = Inr [demo_ledger_row 500, demo_ledger_row 700]"
  "normalize_rows import_dates 0 (elems (fld (demo_import [demo_row 700, demo_row 500]) ''rows'')) = Inr [demo_ledger_row 700, demo_ledger_row 500]"
  by code_simp+

theorem import_once_witness:
  "(\<exists>p e. importTransactions id import_dates [] ''t'' True (JStr ''k'') (demo_import [demo_row 500, demo_row 700]) ''b2'' [''x2'', ''y2''] demo_after =
      (replayed p e, demo_after) \<and> ib_id e = ''b'') \<and>
   importTransactions id import_dates [] ''t'' False (JStr ''k2'') (demo_import [demo_row 700, demo_row 500]) ''b2'' [''x2'', ''y2''] demo_after =
      (duplicate_answer (Some ''b'') ''legacyDetected'' False, demo_after)"
proof -
  obtain r where r: "importTransactions id import_dates [] ''t'' True (JStr ''k'') (demo_import [demo_row 500, demo_row 700]) ''b'' [''x'', ''y''] demo_ledger = (Reply 201 r, demo_after)"
    using demo_import_accepted by blast
  have m: "mset (map row_text [demo_ledger_row 700, demo_ledger_row 500]) = mset (map row_text [demo_ledger_row 500, demo_ledger_row 700])"
    by (simp add: add_mset_commute)
  note once = import_once[OF r, where bid' = "''b2''" and ids' = "[''x2'', ''y2'']" and owner' = False and header' = "JStr ''k2''"
    and body' = "demo_import [demo_row 700, demo_row 500]" and lineage' = "[]"
    and rs = "[demo_ledger_row 500, demo_ledger_row 700]" and rs' = "[demo_ledger_row 700, demo_ledger_row 500]"]
  show ?thesis using once m demo_second_request demo_requests_read by auto
qed

end
