(* ===== verification/DispatchRefinement.thy ===== *)
theory DispatchRefinement imports EmployeeDispatch begin

text \<open>
  What the dispatch queue promises to those who use it, without leases, tokens and clocks: a request is submitted
  once and is then either done or given up, for good. The queue of \<^verbatim>\<open>employee-dispatch.js\<close> is shown to
  implement this ledger, and the work it causes is shown to be bounded.
\<close>

section \<open>The ledger of requests\<close>

datatype phase = Pending | Done | Given_Up

type_synonym ledger = "string \<times> string \<Rightarrow> phase option"

text \<open>A request that was never queued may be done by another route.\<close>

inductive ledger_step :: "ledger \<Rightarrow> ledger \<Rightarrow> bool" where
  Submit: "m r = None \<Longrightarrow> ledger_step m (m(r \<mapsto> Pending))"
| Finish: "m r = None \<or> m r = Some Pending \<Longrightarrow> ledger_step m (m(r \<mapsto> Done))"
| Give_Up: "m r = Some Pending \<Longrightarrow> ledger_step m (m(r \<mapsto> Given_Up))"

inductive_cases ledger_stepE: "ledger_step m m'"

definition request_row :: "dispatch_db \<Rightarrow> string \<times> string \<Rightarrow> qrow option" where
  "request_row db r = find (\<lambda>q. request_of q = r) (dd_queue db)"

text \<open>The phase a request has in a state of the queue.\<close>

definition request_phase :: "dispatch_db \<Rightarrow> ledger" where
  "request_phase db r =
    (if executed db (fst r) (snd r) then Some Done
     else (case request_row db r of None \<Rightarrow> None
       | Some q \<Rightarrow> Some (if qr_state q = Dead_Letter then Given_Up else Pending)))"

section \<open>Steps that change several requests\<close>

text \<open>Where a phase may lead.\<close>

fun leads :: "phase option \<Rightarrow> phase option \<Rightarrow> bool" where
  "leads None _ = True"
| "leads (Some Pending) p = (p \<noteq> None)"
| "leads (Some p) q = (q = Some p)"

lemma leads_refl [simp]: "leads p p"
  by (cases p; cases "the p") auto

lemma one_request:
  assumes "leads (m r) p"
  shows "ledger_step\<^sup>*\<^sup>* m (m(r := p))"
proof (cases "m r = p")
  case True
  then have "m(r := p) = m" by auto
  then show ?thesis by simp
next
  case False
  then obtain x where p: "p = Some x" using assms by (cases p; cases "m r"; cases "the (m r)") auto
  show ?thesis
  proof (cases "m r")
    case None
    have s: "ledger_step m (m(r \<mapsto> Pending))" using None by (rule ledger_step.Submit)
    have "ledger_step (m(r \<mapsto> Pending)) (m(r \<mapsto> Pending, r \<mapsto> x))" if "x \<noteq> Pending"
      using that ledger_step.Finish[of "m(r \<mapsto> Pending)" r] ledger_step.Give_Up[of "m(r \<mapsto> Pending)" r] by (cases x) simp_all
    with s show ?thesis unfolding p by (cases "x = Pending") (auto intro: converse_rtranclp_into_rtranclp)
  next
    case (Some y)
    then have "y = Pending" "x \<noteq> Pending" using assms False p by (cases y; auto)+
    then show ?thesis using Some unfolding p by (cases x) (auto intro: ledger_step.Finish ledger_step.Give_Up)
  qed
qed

lemma many_requests:
  assumes "finite D" "\<And>r. leads (m r) (m' r)" "\<And>r. r \<notin> D \<Longrightarrow> m' r = m r"
  shows "ledger_step\<^sup>*\<^sup>* m m'"
  using assms
proof (induction D arbitrary: m' rule: finite_induct)
  case empty
  then have "m' = m" by auto
  then show ?case by simp
next
  case (insert d D)
  define n where "n = m'(d := m d)"
  have "ledger_step\<^sup>*\<^sup>* m n" by (rule insert.IH) (use insert.prems in \<open>auto simp: n_def\<close>)
  moreover have "ledger_step\<^sup>*\<^sup>* n (n(d := m' d))" by (rule one_request) (use insert.prems(1) in \<open>simp add: n_def\<close>)
  moreover have "n(d := m' d) = m'" by (auto simp: n_def)
  ultimately show ?case by simp
qed

section \<open>The simulation\<close>

lemma executed_later: "dispatch_step db db' \<Longrightarrow> executed db t r \<Longrightarrow> executed db' t r"
proof (induction rule: dispatch_step.induct)
  case (Enqueue new_id db enabled auth r p k source authority)
  have "dd_tasks (snd (enqueueEmployeeDispatch enabled auth r p k source authority new_id db)) = dd_tasks db"
    using enqueue_db[of enabled auth r p k source authority new_id db] by (auto simp: admit_row_def)
  with Enqueue show ?case by (simp add: executed_def)
next
  case (Claim token db enabled t')
  then show ?case by (cases rule: claim_cases[of enabled t' token db]) (auto simp: executed_def sweep_spent_def)
next
  case (Process job db enabled e)
  have "set (dd_tasks db) \<subseteq> set (dd_tasks (snd (execute_job job e db)))"
    using execute_db[of job e db] by (auto simp: commit_batch_def)
  then have "executed (snd (execute_job job e db)) t r" using Process unfolding executed_def by blast
  then show ?case using process_db[of enabled job e db] Process
    by (elim disjE exE) (simp_all add: executed_def)
qed (auto simp: executed_def stopEmployeeDispatch_def Let_def)

lemma request_row_Some:
  assumes "dispatch_inv db"
  shows "request_row db r = Some q \<longleftrightarrow> q \<in> set (dd_queue db) \<and> request_of q = r"
proof
  assume "request_row db r = Some q"
  then show "q \<in> set (dd_queue db) \<and> request_of q = r" by (auto simp: request_row_def find_Some_iff)
next
  assume q: "q \<in> set (dd_queue db) \<and> request_of q = r"
  then obtain c where c: "request_row db r = Some c" by (cases "request_row db r") (auto simp: request_row_def find_None_iff)
  then have "c \<in> set (dd_queue db)" "request_of c = request_of q" using q by (auto simp: request_row_def find_Some_iff)
  then have "c = q" using assms q by (intro distinct_key_unique[of request_of "dd_queue db"]) (simp_all add: dispatch_inv_def)
  with c show "request_row db r = Some q" by simp
qed

lemma binding_request: "binding q' = binding q \<Longrightarrow> request_of q' = request_of q"
  by (simp add: binding_def request_of_def)

lemma dead_not_executed:
  assumes "dispatch_inv db" "q \<in> set (dd_queue db)" "qr_state q \<noteq> Completed"
  shows "\<not> executed db (fst (request_of q)) (snd (request_of q))"
  using inv_rows[OF assms(1,2)] assms(3) by (simp add: row_inv_def executed_keys)

lemma phase_leads:
  assumes inv: "dispatch_inv db" "dispatch_inv db'" and later: "queue_later db db'"
    and kept: "\<And>t r. executed db t r \<Longrightarrow> executed db' t r"
  shows "leads (request_phase db r) (request_phase db' r)"
proof (cases "executed db (fst r) (snd r)")
  case True
  then show ?thesis using kept by (simp add: request_phase_def)
next
  case False
  show ?thesis
  proof (cases "request_row db r")
    case None
    then show ?thesis using False by (simp add: request_phase_def)
  next
    case (Some q)
    then have q: "q \<in> set (dd_queue db)" "request_of q = r" using request_row_Some[OF inv(1)] by auto
    then obtain q' where q': "q' \<in> set (dd_queue db')" "row_later q q'" using later by (auto simp: queue_later_def)
    then have "request_of q' = r" using binding_request[of q' q] q(2) by (simp add: row_later_def)
    then have row': "request_row db' r = Some q'" using request_row_Some[OF inv(2)] q'(1) by blast
    show ?thesis
    proof (cases "qr_state q = Dead_Letter")
      case True
      then have "q' = q" using q'(2) by (simp add: row_later_def terminal_def)
      moreover have "\<not> executed db' (fst r) (snd r)"
        using dead_not_executed[OF inv(2) q'(1)] \<open>q' = q\<close> True q(2) by simp
      ultimately show ?thesis using False Some row' True by (simp add: request_phase_def)
    next
      case False
      then show ?thesis using Some row' kept by (simp add: request_phase_def)
    qed
  qed
qed

lemma phase_finite: "finite {r. request_phase db r \<noteq> None}"
proof (rule finite_subset)
  show "{r. request_phase db r \<noteq> None} \<subseteq> set (task_keys db) \<union> request_of ` set (dd_queue db)"
  proof
    fix r assume "r \<in> {r. request_phase db r \<noteq> None}"
    then have "executed db (fst r) (snd r) \<or> request_row db r \<noteq> None" by (auto simp: request_phase_def split: if_splits option.splits)
    then show "r \<in> set (task_keys db) \<union> request_of ` set (dd_queue db)"
      by (auto simp: executed_keys request_row_def find_Some_iff)
  qed
qed simp

lemma step_simulated:
  assumes "dispatch_inv db" "dispatch_step db db'"
  shows "ledger_step\<^sup>*\<^sup>* (request_phase db) (request_phase db')"
proof (rule many_requests)
  show "finite ({r. request_phase db r \<noteq> None} \<union> {r. request_phase db' r \<noteq> None})" by (rule finite_UnI; rule phase_finite)
  show "leads (request_phase db r) (request_phase db' r)" for r
    using phase_leads inv_dispatch_step[OF assms(2,1)] later_step[OF assms(2,1)] executed_later[OF assms(2)] assms(1) by blast
qed auto

section \<open>The work left\<close>

text \<open>The attempts the rows of the queue have left.\<close>

definition attempts_left :: "dispatch_db \<Rightarrow> nat" where
  "attempts_left db = sum_list (map (\<lambda>q. 3 - qr_attempts q) (dd_queue db))"

text \<open>A step that queues nothing new.\<close>

definition work_step :: "dispatch_db \<Rightarrow> dispatch_db \<Rightarrow> bool" where
  "work_step db db' \<longleftrightarrow> dispatch_step db db' \<and> map binding (dd_queue db') = map binding (dd_queue db)"

lemma sum_update_same:
  "(\<And>q. q \<in> set qs \<Longrightarrow> p q \<Longrightarrow> qr_attempts (f q) = qr_attempts q) \<Longrightarrow>
     sum_list (map (\<lambda>q. 3 - qr_attempts q) (update_where p f qs)) = sum_list (map (\<lambda>q. 3 - qr_attempts q) qs)"
  unfolding update_where_def by (intro arg_cong[where f = sum_list]) auto

lemma sum_update_one:
  assumes "distinct (map qr_id qs)" "q \<in> set qs" "qr_attempts q < 3"
  shows "Suc (sum_list (map (\<lambda>r. 3 - qr_attempts r) (update_where (\<lambda>r. qr_id r = qr_id q) (\<lambda>_. lease token now q) qs))) =
    sum_list (map (\<lambda>r. 3 - qr_attempts r) qs)"
  using assms
proof (induction qs)
  case Nil
  then show ?case by simp
next
  case (Cons c cs)
  show ?case
  proof (cases "c = q")
    case True
    then have "update_where (\<lambda>r. qr_id r = qr_id q) (\<lambda>_. lease token now q) cs = cs"
      using Cons.prems(1) unfolding update_where_def by (intro map_idI) (auto simp: image_iff)
    with True Cons.prems(3) show ?thesis by (simp add: update_where_def)
  next
    case False
    then have "q \<in> set cs" "qr_id c \<noteq> qr_id q" using Cons.prems(1,2) by (auto simp: image_iff)
    with Cons.IH Cons.prems show ?thesis by (simp add: update_where_def)
  qed
qed

lemma left_sweep [simp]: "attempts_left (sweep_spent t db) = attempts_left db"
  unfolding attempts_left_def sweep_spent_def by (simp add: sum_update_same bury_def)

lemma claim_spends:
  assumes "dispatch_inv db"
  shows "length (dd_jobs (snd (claimEmployeeDispatch enabled t token db))) + attempts_left (snd (claimEmployeeDispatch enabled t token db)) =
    length (dd_jobs db) + attempts_left db"
proof (cases rule: claim_cases[of enabled t token db])
  case (3 q)
  have "distinct (map qr_id (dd_queue (sweep_spent t db)))" using inv_sweep_spent[OF assms] by (simp add: dispatch_inv_def)
  then have "Suc (attempts_left (snd (claimEmployeeDispatch enabled t token db))) = attempts_left (sweep_spent t db)"
    using 3 sum_update_one[of "dd_queue (sweep_spent t db)" q token "dd_now db"] by (simp add: attempts_left_def claimable_def)
  with 3(4) show ?thesis by simp
qed (simp_all add: sweep_spent_def attempts_left_def sum_update_same bury_def)

lemma left_execute: "attempts_left (snd (execute_job job e db)) = attempts_left db"
  using execute_db[of job e db] by (auto simp: commit_batch_def attempts_left_def sum_update_same finish_row_def)

lemma process_spends_nothing:
  "length (dd_jobs (snd (processEmployeeDispatch enabled job e db))) + attempts_left (snd (processEmployeeDispatch enabled job e db)) =
    length (dd_jobs db) + attempts_left db"
proof -
  have "attempts_left (d\<lparr>dd_queue := update_where p (release job tr n) (dd_queue d)\<rparr>) = attempts_left d" for d p tr n
    by (simp add: attempts_left_def sum_update_same release_def)
  then show ?thesis using process_db[of enabled job e db] left_execute[of job e db] execute_jobs(1)[of job e db] by auto
qed

lemma work_spends:
  assumes "work_step db db'" "dispatch_inv db"
  shows "length (dd_jobs db') + attempts_left db' = length (dd_jobs db) + attempts_left db"
proof -
  have same: "length (dd_queue db') = length (dd_queue db)" using assms(1) unfolding work_step_def by (metis length_map)
  have "dispatch_step db db'" using assms(1) by (simp add: work_step_def)
  then show ?thesis using same assms(2)
  proof (induction rule: dispatch_step.induct)
    case (Enqueue new_id db enabled auth r p k source authority)
    then have "snd (enqueueEmployeeDispatch enabled auth r p k source authority new_id db) = db"
      using enqueue_db[of enabled auth r p k source authority new_id db] by (auto simp: admit_row_def split: if_splits)
    then show ?case by simp
  next
    case (Claim token db enabled t)
    then show ?case using claim_spends by simp
  next
    case (Process job db enabled e)
    then show ?case using process_spends_nothing by simp
  qed (simp_all add: attempts_left_def stopEmployeeDispatch_def Let_def)
qed

lemma attempts_left_bound: "attempts_left db \<le> 3 * length (dd_queue db)"
proof -
  have "sum_list (map (\<lambda>q. 3 - qr_attempts q) qs) \<le> 3 * length qs" for qs :: "qrow list" by (induction qs) auto
  then show ?thesis by (simp add: attempts_left_def)
qed

section \<open>Properties\<close>

text \<open>C12: The queue implements the ledger of requests: whatever owners, workers and the clock do from a reachable state, the
  phases of the requests change only as the ledger allows, so a request that is done or given up stays so and no request is done twice;
  and a queue that has seen nothing stands for the empty ledger.\<close>

theorem queue_refines_ledger:
  assumes "dispatch_reach db" "dispatch_step\<^sup>*\<^sup>* db db'"
  shows "ledger_step\<^sup>*\<^sup>* (request_phase db) (request_phase db') \<and>
    list_all (\<lambda>q. request_phase db' (request_of q) = Some (case qr_state q of Completed \<Rightarrow> Done | Dead_Letter \<Rightarrow> Given_Up | _ \<Rightarrow> Pending)) (dd_queue db') \<and>
    (if empty_dispatch db' then request_phase db' = (\<lambda>_. None) else True)"
proof -
  have inv: "dispatch_inv db'" using later_steps[OF assms(2) inv_dispatch_reach[OF assms(1)]] by simp
  have sim: "ledger_step\<^sup>*\<^sup>* (request_phase db) (request_phase db')"
    using assms(2) inv_dispatch_reach[OF assms(1)]
  proof (induction rule: rtranclp_induct)
    case (step y z)
    have "dispatch_inv y" using later_steps[OF step.hyps(1) step.prems] by simp
    with step step_simulated[of y z] show ?case by (meson rtranclp_trans)
  qed simp
  have "request_phase db' (request_of q) = Some (case qr_state q of Completed \<Rightarrow> Done | Dead_Letter \<Rightarrow> Given_Up | _ \<Rightarrow> Pending)"
    if q: "q \<in> set (dd_queue db')" for q
    using inv_rows[OF inv q] request_row_Some[OF inv, of "request_of q" q] q
    by (cases "qr_state q") (auto simp: request_phase_def row_inv_def executed_keys)
  then show ?thesis using sim
    by (auto simp: list_all_iff empty_dispatch_def request_phase_def executed_def request_row_def)
qed

text \<open>C13: The work ends: from a reachable state, until something new is queued, each job handed out uses up one of the attempts the
  rows have left, and there are at most three for each row; no order of claims, answers, retries and lapsed leases hands out more.\<close>

theorem work_terminates:
  assumes "dispatch_reach db" "work_step\<^sup>*\<^sup>* db db'"
  shows "length (dd_jobs db') + attempts_left db' = length (dd_jobs db) + attempts_left db \<and>
    length (dd_jobs db') - length (dd_jobs db) \<le> 3 * length (dd_queue db) \<and>
    (if attempts_left db' = 0 then fst (claimEmployeeDispatch True t token db') = None else True)"
proof -
  have run: "length (dd_jobs db') + attempts_left db' = length (dd_jobs db) + attempts_left db \<and> dispatch_inv db'"
    using assms(2) inv_dispatch_reach[OF assms(1)]
  proof (induction rule: rtranclp_induct)
    case (step y z)
    then show ?case using work_spends[of y z] inv_dispatch_step[of y z] by (simp add: work_step_def)
  qed simp
  have "fst (claimEmployeeDispatch True t token db') = None" if z: "attempts_left db' = 0"
  proof (cases rule: claim_cases[of True t token db'])
    case (3 q)
    have "attempts_left (sweep_spent t db') = 0" using z by simp
    then have "3 - qr_attempts q = 0" using 3(2) unfolding attempts_left_def by simp
    then show ?thesis using 3(3) by (simp add: claimable_def)
  qed simp_all
  moreover have "length (dd_jobs db') - length (dd_jobs db) \<le> 3 * length (dd_queue db)"
    using run attempts_left_bound[of db] by linarith
  ultimately show ?thesis using run by simp
qed

theorem queue_refines_ledger_witness:
  "request_phase demo_queued (''t'', ''r'') = Some Pending \<and> request_phase demo_done (''t'', ''r'') = Some Done \<and>
   ledger_step\<^sup>*\<^sup>* (request_phase demo_done) (request_phase (demo_done\<lparr>dd_now := dd_now demo_done + 500\<rparr>))"
proof -
  have p: "request_phase demo_queued (''t'', ''r'') = Some Pending" "request_phase demo_done (''t'', ''r'') = Some Done" by code_simp+
  have "dispatch_step\<^sup>*\<^sup>* demo_done (demo_done\<lparr>dd_now := dd_now demo_done + 500\<rparr>)"
    by (intro r_into_rtranclp dispatch_step.Clock) simp
  from queue_refines_ledger[OF demo_done_reach this] p show ?thesis by simp
qed

theorem work_terminates_witness:
  "attempts_left demo_queued = 3 \<and> length (dd_jobs demo_queued) = 0 \<and>
   length (dd_jobs demo_claimed) + attempts_left demo_claimed = 3"
proof -
  have n: "attempts_left demo_queued = 3" "length (dd_jobs demo_queued) = 0" by code_simp+
  have "map binding (dd_queue demo_claimed) = map binding (dd_queue demo_queued)" by code_simp
  moreover have "dispatch_step demo_queued demo_claimed"
    unfolding demo_claimed_def by (rule dispatch_step.Claim) (use n(2) in simp)
  ultimately have "work_step\<^sup>*\<^sup>* demo_queued demo_claimed" by (intro r_into_rtranclp) (simp add: work_step_def)
  from work_terminates[OF demo_queued_reach this, of None "''x''"] n show ?thesis by simp
qed

end
