(* ===== verification/ControlPlane.thy ===== *)
theory ControlPlane imports Interfaces begin

text \<open>
  The control plane of the machine identities: \<^verbatim>\<open>agent-control-plane.js\<close> with the tables of
  \<^verbatim>\<open>056_v154_agent_control_plane.sql\<close>. An identity's authority changes by a read and a later guarded batch, so
  other writers may come in between; each change leaves an event. A drift check compares the registered identities with
  the expected ones. The hash, the ids of new rows and whether the registry can be read are parameters.
\<close>

section \<open>The registry\<close>

record agent_row =
  ag_id :: string
  ag_name :: string
  ag_type :: string
  ag_purpose :: string
  ag_risk :: string
  ag_state :: string
  ag_exec :: nat
  ag_scope :: string

record authority_event =
  ae_id :: string
  ae_agent :: string
  ae_prev :: string
  ae_new :: string
  ae_reason :: string
  ae_actor :: string
  ae_principal :: "string option"
  ae_evidence :: string

record drift_finding =
  df_id :: string
  df_agent :: string
  df_expected :: string
  df_effective :: string
  df_open :: bool

record registry_db =
  rg_agents :: "agent_row list"
  rg_events :: "authority_event list"
  rg_findings :: "drift_finding list"
  rg_audit :: "(string \<times> string) list"

definition THEBE_AGENT_ID :: string where "THEBE_AGENT_ID = ''THEBE-001''"
definition FINANCE_OBSERVER_AGENT_ID :: string where "FINANCE_OBSERVER_AGENT_ID = ''SYS-FIN-OBS-001''"
definition BUSINESS_GOAL_OBSERVER_AGENT_ID :: string where "BUSINESS_GOAL_OBSERVER_AGENT_ID = ''SYS-BIZ-OBS-001''"

definition VALID_STATES :: "string list" where
  "VALID_STATES = [''active'', ''restricted'', ''suspended'', ''revoked'']"

definition VALID_ACTORS :: "string list" where
  "VALID_ACTORS = [''platform_admin'', ''system'']"

record descriptor =
  ds_name :: string
  ds_type :: string
  ds_purpose :: string
  ds_risk :: string
  ds_scope :: string

record identity =
  id_agent :: string
  id_descr :: descriptor
  id_exec :: bool

definition EXPECTED :: "identity list" where
  "EXPECTED = [
    \<lparr>id_agent = THEBE_AGENT_ID, id_descr = \<lparr>ds_name = ''thebe'', ds_type = ''agent'', ds_purpose = ''Canonical Thebe Super Agent'',
       ds_risk = ''high'', ds_scope = ''platform''\<rparr>, id_exec = True\<rparr>,
    \<lparr>id_agent = FINANCE_OBSERVER_AGENT_ID, id_descr = \<lparr>ds_name = ''system_observer'', ds_type = ''system_observer'',
       ds_purpose = ''Governed read-only Finance observation'', ds_risk = ''low'', ds_scope = ''platform''\<rparr>, id_exec = False\<rparr>,
    \<lparr>id_agent = BUSINESS_GOAL_OBSERVER_AGENT_ID, id_descr = \<lparr>ds_name = ''business_goal_observer'', ds_type = ''system_observer'',
       ds_purpose = ''Governed read-only business goal observation'', ds_risk = ''low'', ds_scope = ''platform''\<rparr>, id_exec = False\<rparr>]"

text \<open>What the platform sees of an identity; a missing or unreadable one has no descriptor.\<close>

record authority =
  au_ready :: bool
  au_agent :: string
  au_descr :: "descriptor option"
  au_state :: string
  au_exec :: bool
  au_reason :: string

definition restricted_authority :: "string \<Rightarrow> string \<Rightarrow> authority" where
  "restricted_authority agent reason =
    \<lparr>au_ready = False, au_agent = agent, au_descr = None, au_state = ''restricted'', au_exec = False, au_reason = reason\<rparr>"

definition publicAuthority :: "agent_row option \<Rightarrow> string \<Rightarrow> authority" where
  "publicAuthority row agentId =
    (case row of None \<Rightarrow> restricted_authority agentId ''agent_identity_missing''
     | Some r \<Rightarrow>
         (let state = lower (clean_str 24 (ag_state r)) in
          \<lparr>au_ready = True, au_agent = clean_str 120 (ag_id r),
           au_descr = Some \<lparr>ds_name = clean_str 120 (ag_name r), ds_type = clean_str 40 (ag_type r), ds_purpose = clean_str 240 (ag_purpose r),
             ds_risk = clean_str 24 (ag_risk r), ds_scope = clean_str 40 (ag_scope r)\<rparr>,
           au_state = (if state \<in> set VALID_STATES then state else ''restricted''),
           au_exec = (ag_exec r = 1),
           au_reason = (if state \<in> set VALID_STATES then ''agent_authority_'' @ state else ''agent_authority_invalid'')\<rparr>))"

definition agent_at :: "string \<Rightarrow> agent_row list \<Rightarrow> agent_row option" where
  "agent_at a rows = find (\<lambda>r. ag_id r = a) rows"

definition loadCanonicalAgentAuthority :: "bool \<Rightarrow> jsval \<Rightarrow> registry_db \<Rightarrow> authority" where
  "loadCanonicalAgentAuthority up agentId db =
    (let normalized = clean agentId 120
     in if \<not> up \<or> normalized = []
        then restricted_authority (if normalized = [] then THEBE_AGENT_ID else normalized) ''agent_registry_unavailable''
        else publicAuthority (agent_at normalized (rg_agents db)) normalized)"

definition authorityPermitsExecution :: "authority \<Rightarrow> bool" where
  "authorityPermitsExecution a \<longleftrightarrow> au_ready a \<and> au_agent a = THEBE_AGENT_ID \<and> map_option ds_type (au_descr a) = Some ''agent'' \<and>
     au_state a = ''active'' \<and> au_exec a"

section \<open>Drift\<close>

definition descriptor_json :: "string \<Rightarrow> descriptor \<Rightarrow> bool \<Rightarrow> jsval" where
  "descriptor_json agent d ex = JObj [(''agentId'', JStr agent), (''canonicalName'', JStr (ds_name d)), (''actorType'', JStr (ds_type d)),
     (''purpose'', JStr (ds_purpose d)), (''riskTier'', JStr (ds_risk d)), (''ownerScope'', JStr (ds_scope d)), (''executionCapable'', JBool ex)]"

definition expectedDescriptor :: "identity \<Rightarrow> jsval" where
  "expectedDescriptor i = descriptor_json (id_agent i) (id_descr i) (id_exec i)"

definition effectiveDescriptor :: "authority \<Rightarrow> jsval" where
  "effectiveDescriptor a = (case (au_ready a, au_descr a) of
       (True, Some d) \<Rightarrow> descriptor_json (au_agent a) d (au_exec a)
     | _ \<Rightarrow> JObj [(''missing'', JBool True), (''agentId'', or_null (au_agent a))])"

definition drift_hashes :: "(string \<Rightarrow> string) \<Rightarrow> identity \<Rightarrow> authority \<Rightarrow> string \<times> string" where
  "drift_hashes sha i a = (sha (json (expectedDescriptor i)), sha (json (effectiveDescriptor a)))"

definition open_finding :: "string \<Rightarrow> drift_finding list \<Rightarrow> drift_finding option" where
  "open_finding a fs = find (\<lambda>f. df_agent f = a \<and> df_open f) fs"

text \<open>What a persisted check does to the findings of one identity; \<open>new_id\<close> is a fresh id.\<close>

definition record_drift :: "string \<Rightarrow> string \<Rightarrow> string \<Rightarrow> string \<Rightarrow> drift_finding list \<Rightarrow> drift_finding list" where
  "record_drift agent expected effective new_id fs =
    (case open_finding agent fs of
       Some f \<Rightarrow> update_where (\<lambda>x. df_id x = df_id f \<and> df_open x) (\<lambda>x. x\<lparr>df_effective := effective\<rparr>) fs
     | None \<Rightarrow> if list_ex (\<lambda>x. df_id x = new_id) fs then fs
         else fs @ [\<lparr>df_id = new_id, df_agent = agent, df_expected = expected, df_effective = effective, df_open = True\<rparr>])"

definition resolve_drift :: "string \<Rightarrow> drift_finding list \<Rightarrow> drift_finding list" where
  "resolve_drift agent fs = update_where (\<lambda>x. df_agent x = agent \<and> df_open x) (\<lambda>x. x\<lparr>df_open := False\<rparr>) fs"

definition drift_one :: "(string \<Rightarrow> string) \<Rightarrow> bool \<Rightarrow> bool \<Rightarrow> identity \<times> string \<Rightarrow> (string \<times> string \<times> string) list \<times> registry_db \<Rightarrow>
    (string \<times> string \<times> string) list \<times> registry_db" where
  "drift_one sha up persist ei st =
    (case (ei, st) of ((i, new_id), (found, db)) \<Rightarrow>
      (let a = loadCanonicalAgentAuthority up (JStr (id_agent i)) db; (x, y) = drift_hashes sha i a
       in if x \<noteq> y
          then (found @ [(id_agent i, x, y)],
                if persist \<and> au_ready a then db\<lparr>rg_findings := record_drift (id_agent i) x y new_id (rg_findings db)\<rparr> else db)
          else (found, if persist then db\<lparr>rg_findings := resolve_drift (id_agent i) (rg_findings db)\<rparr> else db)))"

text \<open>The findings, as agent, expected and effective hash; \<open>None\<close> without a registry.\<close>

definition evaluateCanonicalAgentDrift ::
    "(string \<Rightarrow> string) \<Rightarrow> bool \<Rightarrow> bool \<Rightarrow> bool \<Rightarrow> string list \<Rightarrow> registry_db \<Rightarrow> (string \<times> string \<times> string) list option \<times> registry_db" where
  "evaluateCanonicalAgentDrift sha has_db up persist ids db =
    (if \<not> has_db then (None, db)
     else (case fold (drift_one sha up persist) (zip EXPECTED ids) ([], db) of (found, db1) \<Rightarrow> (Some found, db1)))"

section \<open>Transitions\<close>

record transition =
  tr_target :: string
  tr_state :: string
  tr_reason :: string
  tr_actor :: string
  tr_principal :: "string option"
  tr_previous :: string
  tr_evidence :: string
  tr_tenant :: string

datatype transition_answer =
    Denied string
  | Replayed authority
  | Changed authority string

definition transition_evidence :: "string \<Rightarrow> string \<Rightarrow> string \<Rightarrow> string \<Rightarrow> string \<Rightarrow> string option \<Rightarrow> jsval" where
  "transition_evidence target prev state reason actor who =
    JObj [(''agentId'', JStr target), (''previousState'', JStr prev), (''newState'', JStr state), (''reasonCode'', JStr reason),
      (''actorType'', JStr actor), (''actorId'', (case who of None \<Rightarrow> Null | Some p \<Rightarrow> JStr p))]"

text \<open>The checks, on the registry as it is read.\<close>

definition transition_check ::
    "(string \<Rightarrow> string) \<Rightarrow> bool \<Rightarrow> bool \<Rightarrow> jsval \<Rightarrow> jsval \<Rightarrow> jsval \<Rightarrow> jsval \<Rightarrow> jsval \<Rightarrow> jsval \<Rightarrow> registry_db \<Rightarrow> transition_answer + transition" where
  "transition_check sha has_db up agentId newState reasonCode actorType actorId auditTenantId db =
    (let target = clean agentId 120; state = lower (clean newState 24); reason = clean reasonCode 120; actor = clean actorType 40;
         who = (let p = clean actorId 160 in if p = [] then None else Some p);
         current = loadCanonicalAgentAuthority up (JStr target) db
     in if \<not> has_db then Inl (Denied ''agent_registry_unavailable'')
        else if target = [] \<or> state \<notin> set VALID_STATES then Inl (Denied ''invalid_authority_state'')
        else if reason = [] then Inl (Denied ''authority_reason_required'')
        else if actor \<notin> set VALID_ACTORS then Inl (Denied ''invalid_authority_actor'')
        else if \<not> au_ready current then Inl (Denied (au_reason current))
        else if au_state current = state then Inl (Replayed current)
        else if au_state current = ''revoked'' then Inl (Denied ''agent_authority_revoked_terminal'')
        else Inr \<lparr>tr_target = target, tr_state = state, tr_reason = reason, tr_actor = actor, tr_principal = who,
               tr_previous = au_state current,
               tr_evidence = sha (json (transition_evidence target (au_state current) state reason actor who)),
               tr_tenant = clean auditTenantId 120\<rparr>)"

definition movable :: "transition \<Rightarrow> agent_row \<Rightarrow> bool" where
  "movable p r \<longleftrightarrow> ag_id r = tr_target p \<and> ag_state r = tr_previous p \<and> ag_state r \<noteq> ''revoked''"

text \<open>The batch, on the registry as it is written: a row changes when its state is still the one that was read, and
  then the event and the audit record are written.\<close>

definition transition_write :: "transition \<Rightarrow> string \<Rightarrow> registry_db \<Rightarrow> nat \<times> registry_db" where
  "transition_write p eventId db =
    (let k = length (filter (movable p) (rg_agents db))
     in (k, db\<lparr>rg_agents := update_where (movable p) (\<lambda>r. r\<lparr>ag_state := tr_state p\<rparr>) (rg_agents db),
          rg_events := rg_events db @ (if k = 1 then [\<lparr>ae_id = eventId, ae_agent = tr_target p, ae_prev = tr_previous p, ae_new = tr_state p,
             ae_reason = tr_reason p, ae_actor = tr_actor p, ae_principal = tr_principal p, ae_evidence = tr_evidence p\<rparr>] else []),
          rg_audit := rg_audit db @ (if k = 1 \<and> tr_tenant p \<noteq> [] then [(tr_tenant p, tr_target p)] else [])\<rparr>))"

definition transition_finish :: "bool \<Rightarrow> transition \<Rightarrow> string \<Rightarrow> registry_db \<Rightarrow> transition_answer \<times> registry_db" where
  "transition_finish up p eventId db =
    (if list_ex (\<lambda>e. ae_id e = eventId) (rg_events db) \<and> length (filter (movable p) (rg_agents db)) = 1
     then (Denied ''agent_authority_transition_failed'', db)
     else (case transition_write p eventId db of (k, db1) \<Rightarrow>
        (if k \<noteq> 1 then Denied ''agent_authority_transition_conflict'' else Changed (loadCanonicalAgentAuthority up (JStr (tr_target p)) db1) eventId, db1)))"

text \<open>The request, with the registry at its read and at its write.\<close>

definition transitionCanonicalAgentAuthority ::
    "(string \<Rightarrow> string) \<Rightarrow> bool \<Rightarrow> bool \<Rightarrow> jsval \<Rightarrow> jsval \<Rightarrow> jsval \<Rightarrow> jsval \<Rightarrow> jsval \<Rightarrow> jsval \<Rightarrow> string \<Rightarrow> registry_db \<Rightarrow> registry_db \<Rightarrow>
       transition_answer \<times> registry_db" where
  "transitionCanonicalAgentAuthority sha has_db up agentId newState reasonCode actorType actorId auditTenantId eventId db0 db =
    (case transition_check sha has_db up agentId newState reasonCode actorType actorId auditTenantId db0 of
       Inl a \<Rightarrow> (a, db)
     | Inr p \<Rightarrow> transition_finish up p eventId db)"

section \<open>The system\<close>

text \<open>A request read some earlier state \<open>db0\<close>, any one; checks for drift run at any time.\<close>

inductive registry_step :: "(string \<Rightarrow> string) \<Rightarrow> registry_db \<Rightarrow> registry_db \<Rightarrow> bool" for sha where
  Transition: "registry_step sha db
     (snd (transitionCanonicalAgentAuthority sha has_db up agentId newState reasonCode actorType actorId auditTenantId eventId db0 db))"
| Drift: "registry_step sha db (snd (evaluateCanonicalAgentDrift sha has_db up persist ids db))"

text \<open>Events that lead from one state to another, one after the other, and never out of \<open>revoked\<close>.\<close>

fun leads_from :: "string \<Rightarrow> authority_event list \<Rightarrow> string \<Rightarrow> bool" where
  "leads_from s [] s' = (s = s')"
| "leads_from s (e # es) s' = (ae_prev e = s \<and> ae_new e \<noteq> s \<and> s \<noteq> ''revoked'' \<and> leads_from (ae_new e) es s')"

definition events_of :: "string \<Rightarrow> registry_db \<Rightarrow> authority_event list" where
  "events_of a db = filter (\<lambda>e. ae_agent e = a) (rg_events db)"

section \<open>Histories\<close>

lemma leads_from_append: "leads_from s (es @ fs) u \<longleftrightarrow> (\<exists>t. leads_from s es t \<and> leads_from t fs u)"
  by (induction es arbitrary: s) auto

lemma leads_from_revoked: "leads_from ''revoked'' es s \<Longrightarrow> es = [] \<and> s = ''revoked''"
  by (cases es) auto

text \<open>How the history of one identity grows: the row keeps all but its state, and the new events lead to its new state.\<close>

definition grows :: "string \<Rightarrow> registry_db \<Rightarrow> registry_db \<Rightarrow> bool" where
  "grows a db db' \<longleftrightarrow> map ag_id (rg_agents db') = map ag_id (rg_agents db) \<and>
     (\<forall>r\<in>set (rg_agents db). ag_id r = a \<longrightarrow>
        (\<exists>s es. r\<lparr>ag_state := s\<rparr> \<in> set (rg_agents db') \<and> events_of a db' = events_of a db @ es \<and> leads_from (ag_state r) es s))"

lemma grows_same:
  assumes "rg_agents db' = rg_agents db" "rg_events db' = rg_events db"
  shows "grows a db db'"
proof -
  have "r\<lparr>ag_state := ag_state r\<rparr> = r" for r :: agent_row by simp
  then show ?thesis using assms unfolding grows_def events_of_def by (metis append_Nil2 leads_from.simps(1))
qed

lemma grows_trans:
  assumes "grows a db db'" "grows a db' db''"
  shows "grows a db db''"
  unfolding grows_def
proof (intro conjI ballI impI)
  show "map ag_id (rg_agents db'') = map ag_id (rg_agents db)" using assms by (simp add: grows_def)
next
  fix r assume r: "r \<in> set (rg_agents db)" "ag_id r = a"
  obtain s es where s: "r\<lparr>ag_state := s\<rparr> \<in> set (rg_agents db')" "events_of a db' = events_of a db @ es" "leads_from (ag_state r) es s"
    using assms(1) r unfolding grows_def by blast
  obtain u fs where u: "r\<lparr>ag_state := s\<rparr>\<lparr>ag_state := u\<rparr> \<in> set (rg_agents db'')" "events_of a db'' = events_of a db' @ fs"
      "leads_from (ag_state (r\<lparr>ag_state := s\<rparr>)) fs u"
    using assms(2) s(1) r(2) unfolding grows_def by fastforce
  have "leads_from (ag_state r) (es @ fs) u" using s(3) u(3) by (auto simp: leads_from_append)
  with s u show "\<exists>s es. r\<lparr>ag_state := s\<rparr> \<in> set (rg_agents db'') \<and> events_of a db'' = events_of a db @ es \<and> leads_from (ag_state r) es s"
    by (intro exI[of _ u] exI[of _ "es @ fs"]) simp
qed

lemma movable_count:
  assumes "distinct (map ag_id rows)"
  shows "length (filter (movable p) rows) = (if list_ex (movable p) rows then 1 else 0)"
  using assms
proof (induction rows)
  case Nil
  then show ?case by simp
next
  case (Cons c cs)
  have "\<not> list_ex (movable p) cs" if "movable p c" using that Cons.prems by (force simp: movable_def list_ex_iff)
  with Cons show ?case by auto
qed

lemma write_grows:
  assumes "distinct (map ag_id (rg_agents db))" "tr_state p \<noteq> tr_previous p"
  shows "grows a db (snd (transition_write p eventId db))"
  unfolding grows_def
proof (intro conjI ballI impI)
  show "map ag_id (rg_agents (snd (transition_write p eventId db))) = map ag_id (rg_agents db)"
    by (simp add: transition_write_def Let_def map_update_where)
next
  fix r assume r: "r \<in> set (rg_agents db)" "ag_id r = a"
  have count: "length (filter (movable p) (rg_agents db)) = (if list_ex (movable p) (rg_agents db) then 1 else 0)"
    by (rule movable_count[OF assms(1)])
  have same: "(if movable p r then r\<lparr>ag_state := tr_state p\<rparr> else r) \<in> set (rg_agents (snd (transition_write p eventId db)))"
    using r(1) by (auto simp: transition_write_def Let_def update_where_def)
  have mine: "events_of a (snd (transition_write p eventId db)) = events_of a db @
      (if list_ex (movable p) (rg_agents db) \<and> tr_target p = a then [\<lparr>ae_id = eventId, ae_agent = tr_target p, ae_prev = tr_previous p, ae_new = tr_state p,
             ae_reason = tr_reason p, ae_actor = tr_actor p, ae_principal = tr_principal p, ae_evidence = tr_evidence p\<rparr>] else [])"
    by (simp add: events_of_def transition_write_def Let_def count)
  have hit: "movable p r" if "list_ex (movable p) (rg_agents db)" "tr_target p = a"
  proof -
    obtain c where c: "c \<in> set (rg_agents db)" "movable p c" using \<open>list_ex (movable p) (rg_agents db)\<close> by (auto simp: list_ex_iff)
    then have "c = r" using r that(2) assms(1) by (intro distinct_key_unique[of ag_id "rg_agents db"]) (simp_all add: movable_def)
    with c show ?thesis by simp
  qed
  show "\<exists>s es. r\<lparr>ag_state := s\<rparr> \<in> set (rg_agents (snd (transition_write p eventId db))) \<and>
      events_of a (snd (transition_write p eventId db)) = events_of a db @ es \<and> leads_from (ag_state r) es s"
  proof (cases "movable p r")
    case True
    then have "list_ex (movable p) (rg_agents db)" "tr_target p = a" using r by (auto simp: list_ex_iff movable_def)
    then show ?thesis using True same mine assms(2)
      by (intro exI[of _ "tr_state p"] exI[of _ "[\<lparr>ae_id = eventId, ae_agent = tr_target p, ae_prev = tr_previous p, ae_new = tr_state p,
             ae_reason = tr_reason p, ae_actor = tr_actor p, ae_principal = tr_principal p, ae_evidence = tr_evidence p\<rparr>]"])
        (auto simp: movable_def)
  next
    case False
    then show ?thesis using same mine hit
      by (intro exI[of _ "ag_state r"] exI[of _ "[]"]) auto
  qed
qed

lemma transition_check_moves:
  "transition_check sha has_db up agentId newState reasonCode actorType actorId auditTenantId db = Inr p \<Longrightarrow>
     tr_state p \<noteq> tr_previous p \<and> tr_state p \<in> set VALID_STATES"
  by (auto simp: transition_check_def Let_def split: if_splits)

lemma drift_one_agents:
  "rg_agents (snd (drift_one sha up persist ei st)) = rg_agents (snd st) \<and> rg_events (snd (drift_one sha up persist ei st)) = rg_events (snd st)"
  by (cases ei; cases st) (simp add: drift_one_def Let_def split: prod.split)

lemma drift_fold_agents:
  "rg_agents (snd (fold (drift_one sha up persist) eis st)) = rg_agents (snd st) \<and>
   rg_events (snd (fold (drift_one sha up persist) eis st)) = rg_events (snd st)"
  by (induction eis arbitrary: st) (simp_all add: drift_one_agents)

lemma step_grows:
  assumes "registry_step sha db db'" "distinct (map ag_id (rg_agents db))"
  shows "grows a db db'"
  using assms
proof (induction rule: registry_step.induct)
  case (Transition db has_db up agentId newState reasonCode actorType actorId auditTenantId eventId db0)
  show ?case
  proof (cases "transition_check sha has_db up agentId newState reasonCode actorType actorId auditTenantId db0")
    case (Inl x)
    then show ?thesis by (simp add: transitionCanonicalAgentAuthority_def grows_same)
  next
    case (Inr p)
    have "grows a db (snd (transition_finish up p eventId db))"
      using write_grows[OF Transition.prems, of p a eventId] transition_check_moves[OF Inr]
      by (cases "transition_write p eventId db") (simp add: transition_finish_def grows_same)
    then show ?thesis by (simp add: transitionCanonicalAgentAuthority_def Inr)
  qed
next
  case (Drift db has_db up persist ids)
  have "rg_agents (snd (evaluateCanonicalAgentDrift sha has_db up persist ids db)) = rg_agents db \<and>
      rg_events (snd (evaluateCanonicalAgentDrift sha has_db up persist ids db)) = rg_events db"
    using drift_fold_agents[of sha up persist "zip EXPECTED ids" "([], db)"]
    by (cases "fold (drift_one sha up persist) (zip EXPECTED ids) ([], db)") (simp add: evaluateCanonicalAgentDrift_def)
  then show ?case by (intro grows_same) auto
qed

lemma steps_grow:
  assumes "(registry_step sha)\<^sup>*\<^sup>* db db'" "distinct (map ag_id (rg_agents db))"
  shows "grows a db db' \<and> distinct (map ag_id (rg_agents db'))"
  using assms
proof (induction rule: rtranclp_induct)
  case base
  then show ?case by (simp add: grows_same)
next
  case (step y z)
  then have y: "grows a db y" "distinct (map ag_id (rg_agents y))" by auto
  have "grows a y z" using step_grows[OF step.hyps(2) y(2)] .
  then show ?case using grows_trans[OF y(1)] y(2) by (auto simp: grows_def)
qed

section \<open>Findings\<close>

definition open_of :: "string \<Rightarrow> drift_finding list \<Rightarrow> drift_finding list" where
  "open_of a fs = filter (\<lambda>f. df_agent f = a \<and> df_open f) fs"

text \<open>Ids are unique and an agent has at most one open finding.\<close>

definition findings_ok :: "drift_finding list \<Rightarrow> bool" where
  "findings_ok fs \<longleftrightarrow> distinct (map df_id fs) \<and> distinct (map df_agent (filter df_open fs))"

lemma open_finding_None: "open_finding a fs = None \<longleftrightarrow> open_of a fs = []"
  by (auto simp: open_finding_def open_of_def find_None_iff filter_empty_conv)

lemma open_of_single:
  assumes "findings_ok fs"
  shows "open_finding a fs = Some f \<longleftrightarrow> open_of a fs = [f]"
proof -
  have F: "open_of a fs = filter (\<lambda>f. df_agent f = a) (filter df_open fs)" by (simp add: open_of_def conj_commute)
  have L: "length (filter (\<lambda>f. df_agent f = a) xs) \<le> 1" if "distinct (map df_agent xs)" for xs
    using that
  proof (induction xs)
    case (Cons c cs)
    have "df_agent x \<noteq> a" if "df_agent c = a" "x \<in> set cs" for x
    proof -
      have "df_agent x \<in> set (map df_agent cs)" using that(2) by simp
      then show ?thesis using Cons.prems that(1) unfolding list.map distinct.simps by metis
    qed
    then have "filter (\<lambda>f. df_agent f = a) cs = []" if "df_agent c = a" using that by (simp add: filter_empty_conv)
    then show ?case using Cons by (cases "df_agent c = a") auto
  qed simp
  have "length (open_of a fs) \<le> 1" unfolding F by (rule L) (use assms in \<open>simp add: findings_ok_def\<close>)
  moreover have "open_finding a fs = (case open_of a fs of [] \<Rightarrow> None | x # _ \<Rightarrow> Some x)"
    unfolding open_finding_def open_of_def by (induction fs) auto
  ultimately show ?thesis by (cases "open_of a fs"; cases "tl (open_of a fs)") auto
qed

lemma image_update_where: "(\<And>r. p r \<Longrightarrow> k (f r) = k r) \<Longrightarrow> k ` set (update_where p f rs) = k ` set rs"
  by (metis list.set_map map_update_where)

lemma filter_update_where:
  "(\<And>x. x \<in> set xs \<Longrightarrow> p x \<Longrightarrow> \<not> q x \<and> \<not> q (f x)) \<Longrightarrow> filter q (update_where p f xs) = filter q xs"
  by (induction xs) auto

lemma record_drift_open:
  assumes "findings_ok fs" "new_id \<notin> df_id ` set fs"
  shows "map df_effective (open_of a (record_drift a x y new_id fs)) = [y]"
    and "b \<noteq> a \<Longrightarrow> open_of b (record_drift a x y new_id fs) = open_of b fs"
    and "findings_ok (record_drift a x y new_id fs)"
    and "df_id ` set (record_drift a x y new_id fs) \<subseteq> insert new_id (df_id ` set fs)"
proof -
  show "map df_effective (open_of a (record_drift a x y new_id fs)) = [y]"
  proof (cases "open_finding a fs")
    case None
    then have "open_of a fs = []" by (simp add: open_finding_None)
    moreover have "record_drift a x y new_id fs = fs @ [\<lparr>df_id = new_id, df_agent = a, df_expected = x, df_effective = y, df_open = True\<rparr>]"
      using None assms(2) by (auto simp: record_drift_def list_ex_iff)
    ultimately show ?thesis by (simp add: open_of_def)
  next
    case (Some f)
    then have f: "open_of a fs = [f]" using open_of_single[OF assms(1)] by simp
    have "open_of a (update_where (\<lambda>x. df_id x = df_id f \<and> df_open x) (\<lambda>x. x\<lparr>df_effective := y\<rparr>) fs) =
        map (\<lambda>x. if df_id x = df_id f \<and> df_open x then x\<lparr>df_effective := y\<rparr> else x) (open_of a fs)"
      unfolding open_of_def by (induction fs) auto
    moreover have "df_open f" proof -
      have "f \<in> set (open_of a fs)" using f by simp
      then show ?thesis by (simp add: open_of_def)
    qed
    ultimately show ?thesis using f Some by (simp add: record_drift_def)
  qed
  show "open_of b (record_drift a x y new_id fs) = open_of b fs" if "b \<noteq> a"
  proof (cases "open_finding a fs")
    case None
    then show ?thesis using that by (auto simp: record_drift_def open_of_def)
  next
    case (Some f)
    have f: "f \<in> set fs" "df_agent f = a" using Some by (auto simp: open_finding_def find_Some_iff)
    have "df_agent x = a" if "x \<in> set fs" "df_id x = df_id f" for x
      using that f assms(1) distinct_key_unique[of df_id fs x f] by (simp add: findings_ok_def)
    then have "open_of b (update_where (\<lambda>x. df_id x = df_id f \<and> df_open x) (\<lambda>x. x\<lparr>df_effective := y\<rparr>) fs) = open_of b fs"
      unfolding open_of_def using that by (intro filter_update_where) auto
    then show ?thesis using Some by (simp add: record_drift_def)
  qed
  show "findings_ok (record_drift a x y new_id fs)"
  proof (cases "open_finding a fs")
    case None
    then have "a \<notin> df_agent ` set (filter df_open fs)" by (auto simp: open_finding_None open_of_def filter_empty_conv)
    then show ?thesis using None assms by (auto simp: record_drift_def findings_ok_def)
  next
    case (Some f)
    have "filter df_open (update_where p (\<lambda>x. x\<lparr>df_effective := y\<rparr>) fs) = map (\<lambda>x. if p x then x\<lparr>df_effective := y\<rparr> else x) (filter df_open fs)" for p
      by (induction fs) auto
    then have "map df_agent (filter df_open (update_where p (\<lambda>x. x\<lparr>df_effective := y\<rparr>) fs)) = map df_agent (filter df_open fs)" for p
      by (simp add: comp_def if_distrib[of df_agent])
    then show ?thesis using Some assms(1) by (simp add: record_drift_def findings_ok_def map_update_where)
  qed
  show "df_id ` set (record_drift a x y new_id fs) \<subseteq> insert new_id (df_id ` set fs)"
    by (auto simp: record_drift_def image_update_where split: option.split)
qed

lemma resolve_drift_open:
  "open_of a (resolve_drift a fs) = []" "b \<noteq> a \<Longrightarrow> open_of b (resolve_drift a fs) = open_of b fs"
  "findings_ok fs \<Longrightarrow> findings_ok (resolve_drift a fs)" "df_id ` set (resolve_drift a fs) = df_id ` set fs"
proof -
  show "open_of a (resolve_drift a fs) = []"
    unfolding open_of_def resolve_drift_def by (induction fs) auto
  show "open_of b (resolve_drift a fs) = open_of b fs" if "b \<noteq> a"
    unfolding open_of_def resolve_drift_def using that by (intro filter_update_where) auto
  have F: "filter df_open (resolve_drift a fs) = filter (\<lambda>f. df_agent f \<noteq> a) (filter df_open fs)"
    by (induction fs) (auto simp: resolve_drift_def)
  have D: "distinct (map df_agent (filter p xs))" if "distinct (map df_agent xs)" for p xs
    using that by (induction xs) auto
  show "findings_ok fs \<Longrightarrow> findings_ok (resolve_drift a fs)"
    unfolding findings_ok_def F by (auto simp: resolve_drift_def map_update_where simp del: filter_filter intro: D)
  show "df_id ` set (resolve_drift a fs) = df_id ` set fs"
    by (simp add: resolve_drift_def image_update_where)
qed

lemma drift_one_findings:
  assumes "findings_ok (rg_findings db)" "new_id \<notin> df_id ` set (rg_findings db)"
    and "drift_one sha True True (i, new_id) (found, db) = (found', db')"
  defines "a \<equiv> loadCanonicalAgentAuthority True (JStr (id_agent i)) db"
  shows "findings_ok (rg_findings db')" "df_id ` set (rg_findings db') \<subseteq> insert new_id (df_id ` set (rg_findings db))"
    "b \<noteq> id_agent i \<Longrightarrow> open_of b (rg_findings db') = open_of b (rg_findings db)"
    "fst (drift_hashes sha i a) = snd (drift_hashes sha i a) \<Longrightarrow> open_of (id_agent i) (rg_findings db') = []"
    "fst (drift_hashes sha i a) \<noteq> snd (drift_hashes sha i a) \<Longrightarrow> au_ready a \<Longrightarrow>
       map df_effective (open_of (id_agent i) (rg_findings db')) = [snd (drift_hashes sha i a)]"
    "rg_agents db' = rg_agents db"
proof -
  obtain x y where h: "drift_hashes sha i a = (x, y)" by fastforce
  have d: "db' = (if x \<noteq> y then (if au_ready a then db\<lparr>rg_findings := record_drift (id_agent i) x y new_id (rg_findings db)\<rparr> else db)
      else db\<lparr>rg_findings := resolve_drift (id_agent i) (rg_findings db)\<rparr>)"
    using assms(3) h by (auto simp: drift_one_def a_def Let_def split: if_splits)
  note rec = record_drift_open[OF assms(1,2), where a = "id_agent i" and x = x and y = y]
  show "findings_ok (rg_findings db')" using d assms(1) rec(3) resolve_drift_open(3) by simp
  show "df_id ` set (rg_findings db') \<subseteq> insert new_id (df_id ` set (rg_findings db))"
    using d rec(4) resolve_drift_open(4)[of "id_agent i" "rg_findings db"] by auto
  show "open_of b (rg_findings db') = open_of b (rg_findings db)" if "b \<noteq> id_agent i"
    using d rec(2)[OF that] resolve_drift_open(2)[OF that] by simp
  show "open_of (id_agent i) (rg_findings db') = []" if "fst (drift_hashes sha i a) = snd (drift_hashes sha i a)"
    using d h that resolve_drift_open(1) by simp
  show "map df_effective (open_of (id_agent i) (rg_findings db')) = [snd (drift_hashes sha i a)]"
    if "fst (drift_hashes sha i a) \<noteq> snd (drift_hashes sha i a)" "au_ready a"
    using d h that rec(1) by simp
  show "rg_agents db' = rg_agents db" using d by simp
qed

lemma load_same_agents:
  "rg_agents db' = rg_agents db \<Longrightarrow> loadCanonicalAgentAuthority up a db' = loadCanonicalAgentAuthority up a db"
  by (simp add: loadCanonicalAgentAuthority_def Let_def)

text \<open>What a check leaves open for an identity.\<close>

definition finding_current :: "(string \<Rightarrow> string) \<Rightarrow> registry_db \<Rightarrow> identity \<Rightarrow> drift_finding list \<Rightarrow> bool" where
  "finding_current sha db i fs =
    (let a = loadCanonicalAgentAuthority True (JStr (id_agent i)) db; h = drift_hashes sha i a
     in if fst h = snd h then open_of (id_agent i) fs = []
        else if au_ready a then map df_effective (open_of (id_agent i) fs) = [snd h] else True)"

lemma drift_fold_current:
  assumes "distinct (map id_agent is)" "length ids = length is" "findings_ok (rg_findings db)" "distinct ids" "set ids \<inter> df_id ` set (rg_findings db) = {}"
  shows "findings_ok (rg_findings (snd (fold (drift_one sha True True) (zip is ids) (found, db)))) \<and>
    list_all (\<lambda>i. finding_current sha db i (rg_findings (snd (fold (drift_one sha True True) (zip is ids) (found, db))))) is \<and>
    (\<forall>b. b \<notin> id_agent ` set is \<longrightarrow> open_of b (rg_findings (snd (fold (drift_one sha True True) (zip is ids) (found, db)))) = open_of b (rg_findings db))"
  using assms
proof (induction "is" arbitrary: ids found db)
  case Nil
  then show ?case by simp
next
  case (Cons i js)
  obtain n ns where ids: "ids = n # ns" using Cons.prems(2) by (cases ids) auto
  obtain found1 db1 where one: "drift_one sha True True (i, n) (found, db) = (found1, db1)" by fastforce
  have n: "n \<notin> df_id ` set (rg_findings db)" using Cons.prems(5) ids by auto
  note f = drift_one_findings[OF Cons.prems(3) n one]
  let ?fin = "rg_findings (snd (fold (drift_one sha True True) (zip js ns) (found1, db1)))"
  have "set ns \<inter> insert n (df_id ` set (rg_findings db)) = {}" using Cons.prems(4,5) ids by auto
  then have free: "set ns \<inter> df_id ` set (rg_findings db1) = {}" using f(2) by blast
  have IH: "findings_ok ?fin \<and> list_all (\<lambda>i. finding_current sha db1 i ?fin) js \<and> (\<forall>b. b \<notin> id_agent ` set js \<longrightarrow> open_of b ?fin = open_of b (rg_findings db1))"
    by (rule Cons.IH) (use Cons.prems f(1) free ids in auto)
  have same: "finding_current sha db1 j fs = finding_current sha db j fs" for j fs
    using load_same_agents[OF f(6)] by (simp add: finding_current_def)
  have "id_agent i \<notin> id_agent ` set js" using Cons.prems(1) by simp
  then have keep: "open_of (id_agent i) ?fin = open_of (id_agent i) (rg_findings db1)" using IH by blast
  have "finding_current sha db i ?fin"
    using f(4,5) by (simp add: finding_current_def Let_def keep)
  moreover have "open_of b ?fin = open_of b (rg_findings db)" if "b \<notin> id_agent ` set (i # js)" for b
    using that IH f(3)[of b] by auto
  ultimately show ?case using IH same ids one by simp
qed

section \<open>Properties\<close>

text \<open>C19: The authority of a machine identity has a complete history: however requests and drift checks interleave, and however old the
  state is that a request was decided on, an identity keeps its name, type and capability, its new events lead one after the other from its
  old state to its new one, and a revoked identity stays revoked, with no further event.\<close>

theorem authority_history:
  assumes "(registry_step sha)\<^sup>*\<^sup>* db db'" "distinct (map ag_id (rg_agents db))" "r \<in> set (rg_agents db)"
  shows "\<exists>s es. agent_at (ag_id r) (rg_agents db') = Some (r\<lparr>ag_state := s\<rparr>) \<and> events_of (ag_id r) db' = events_of (ag_id r) db @ es \<and>
    leads_from (ag_state r) es s \<and> (if ag_state r = ''revoked'' then s = ''revoked'' \<and> es = [] else True)"
proof -
  have g: "grows (ag_id r) db db'" "distinct (map ag_id (rg_agents db'))" using steps_grow[OF assms(1,2)] by auto
  obtain s es where s: "r\<lparr>ag_state := s\<rparr> \<in> set (rg_agents db')" "events_of (ag_id r) db' = events_of (ag_id r) db @ es" "leads_from (ag_state r) es s"
    using g(1) assms(3) unfolding grows_def by blast
  obtain c where c: "agent_at (ag_id r) (rg_agents db') = Some c"
    using s(1) by (cases "agent_at (ag_id r) (rg_agents db')") (force simp: agent_at_def find_None_iff)+
  then have "c \<in> set (rg_agents db')" "ag_id c = ag_id r" by (auto simp: agent_at_def find_Some_iff)
  then have "c = r\<lparr>ag_state := s\<rparr>" using s(1) g(2) by (intro distinct_key_unique[of ag_id "rg_agents db'"]) simp_all
  then show ?thesis using c s leads_from_revoked by metis
qed

text \<open>A persisted drift check leaves an honest record: for each canonical identity there is no open finding when the registered
  identity has the expected fingerprint, and exactly one, with the fingerprint it has now, when it is registered and differs.\<close>

lemma drift_recorded:
  assumes "findings_ok (rg_findings db)" "length ids = 3" "distinct ids" "set ids \<inter> df_id ` set (rg_findings db) = {}"
  shows "list_all (\<lambda>i. finding_current sha db i (rg_findings (snd (evaluateCanonicalAgentDrift sha True True True ids db)))) EXPECTED \<and>
    findings_ok (rg_findings (snd (evaluateCanonicalAgentDrift sha True True True ids db)))"
proof -
  have e: "distinct (map id_agent EXPECTED)" "length ids = length EXPECTED"
    using assms(2) by (simp_all add: EXPECTED_def THEBE_AGENT_ID_def FINANCE_OBSERVER_AGENT_ID_def BUSINESS_GOAL_OBSERVER_AGENT_ID_def)
  show ?thesis
    using drift_fold_current[OF e assms(1,3,4), of sha "[]"]
    by (cases "fold (drift_one sha True True) (zip EXPECTED ids) ([], db)") (simp add: evaluateCanonicalAgentDrift_def)
qed

definition seeded_registry :: registry_db where
  "seeded_registry = \<lparr>rg_agents = [
      \<lparr>ag_id = ''THEBE-001'', ag_name = ''thebe'', ag_type = ''agent'', ag_purpose = ''Canonical Thebe Super Agent'', ag_risk = ''high'',
         ag_state = ''active'', ag_exec = 1, ag_scope = ''platform''\<rparr>],
     rg_events = [], rg_findings = [], rg_audit = []\<rparr>"

definition suspended_registry :: registry_db where
  "suspended_registry = snd (transitionCanonicalAgentAuthority id True True (JStr ''THEBE-001'') (JStr ''Revoked'') (JStr ''incident'')
     (JStr ''system'') Undef Undef ''e1'' seeded_registry seeded_registry)"

theorem authority_history_witness:
  "\<exists>s es. agent_at ''THEBE-001'' (rg_agents suspended_registry) = Some ((hd (rg_agents seeded_registry))\<lparr>ag_state := s\<rparr>) \<and>
    leads_from ''active'' es s \<and> s = ''revoked'' \<and> length es = 1"
proof -
  have step: "(registry_step id)\<^sup>*\<^sup>* seeded_registry suspended_registry"
    unfolding suspended_registry_def by (intro r_into_rtranclp registry_step.Transition)
  have v: "distinct (map ag_id (rg_agents seeded_registry))" "hd (rg_agents seeded_registry) \<in> set (rg_agents seeded_registry)"
    "ag_id (hd (rg_agents seeded_registry)) = ''THEBE-001''" "ag_state (hd (rg_agents seeded_registry)) = ''active''"
    by (simp_all add: seeded_registry_def)
  have w: "map ag_state (rg_agents suspended_registry) = [''revoked'']" "length (events_of ''THEBE-001'' suspended_registry) = 1"
    "events_of ''THEBE-001'' seeded_registry = []" by code_simp+
  obtain s es where s: "agent_at ''THEBE-001'' (rg_agents suspended_registry) = Some ((hd (rg_agents seeded_registry))\<lparr>ag_state := s\<rparr>)"
      "events_of ''THEBE-001'' suspended_registry = events_of ''THEBE-001'' seeded_registry @ es" "leads_from ''active'' es s"
    using authority_history[OF step v(1,2)] v(3,4) by metis
  have "s = ag_state ((hd (rg_agents seeded_registry))\<lparr>ag_state := s\<rparr>)" by simp
  moreover have "(hd (rg_agents seeded_registry))\<lparr>ag_state := s\<rparr> \<in> set (rg_agents suspended_registry)"
    using s(1) by (auto simp: agent_at_def find_Some_iff)
  ultimately have "s \<in> set (map ag_state (rg_agents suspended_registry))" by (metis image_eqI list.set_map)
  then have "s = ''revoked''" using w(1) by simp
  then show ?thesis using s w(2,3) by (intro exI[of _ s] exI[of _ es]) simp
qed

lemma drift_recorded_example:
  "list_all (\<lambda>i. finding_current id seeded_registry i (rg_findings (snd (evaluateCanonicalAgentDrift id True True True [''f1'', ''f2'', ''f3''] seeded_registry)))) EXPECTED"
  using drift_recorded[of seeded_registry "[''f1'', ''f2'', ''f3'']" id] by (simp add: seeded_registry_def findings_ok_def)

end
