(* ===== verification/ToolTrust.thy ===== *)
theory ToolTrust imports AgentPolicy ControlPlane begin

text \<open>
  The trusted tools and the containment of a tenant: the pinned registry of \<^verbatim>\<open>agent-tool-trust-registry.js\<close>,
  the data boundary of \<^verbatim>\<open>agent-capability-security.js\<close> that every tool call crosses, and the checks of
  \<^verbatim>\<open>agent-runtime-containment.js\<close> that stop a tenant's agent before anything else is asked. The size of a
  payload and the lists of tenants come from outside and are JavaScript values.
\<close>

section \<open>The registry\<close>

definition TOOL_TRUST_REGISTRY_VERSION :: string where "TOOL_TRUST_REGISTRY_VERSION = ''2026-09-27.v2''"

record registry_entry =
  re_key :: string
  re_toolId :: string
  re_owner :: string
  re_transport :: string
  re_dataClass :: string

definition entry_of :: "string \<Rightarrow> string \<Rightarrow> string \<Rightarrow> registry_entry" where
  "entry_of k i c = \<lparr>re_key = k, re_toolId = i, re_owner = ''thebe'', re_transport = ''internal'', re_dataClass = c\<rparr>"

definition TRUSTED_READ_TOOLS :: "registry_entry list" where
  "TRUSTED_READ_TOOLS = [
    entry_of ''business_health.read'' ''thebe.business_health'' ''business_aggregate'',
    entry_of ''financial_position.read'' ''thebe.financial_position'' ''finance'',
    entry_of ''finance_data_quality.read'' ''thebe.finance_data_quality'' ''finance'',
    entry_of ''finance_daily_inflows.read'' ''thebe.finance_daily_inflows'' ''finance'',
    entry_of ''receivables_summary.read'' ''thebe.receivables_summary'' ''finance'',
    entry_of ''receivables_customer.read'' ''thebe.receivables_customer'' ''finance'',
    entry_of ''compliance_status.read'' ''thebe.compliance_status'' ''compliance'',
    entry_of ''daily_operations_summary.read'' ''thebe.daily_operations_summary'' ''workforce_aggregate'']"

definition registry_at :: "string \<Rightarrow> registry_entry option" where
  "registry_at k = find (\<lambda>e. re_key e = k) TRUSTED_READ_TOOLS"

definition tool_value :: "registry_entry \<Rightarrow> action_def \<Rightarrow> jsval" where
  "tool_value e a = JObj [
    (''actionKey'', JStr (re_key e)), (''toolId'', JStr (re_toolId e)), (''owner'', JStr (re_owner e)), (''transport'', JStr (re_transport e)),
    (''dataClass'', JStr (re_dataClass e)), (''capability'', JStr (a_capability a)), (''level'', JInt (int (a_level a))),
    (''externalSideEffect'', JBool (a_externalSideEffect a)), (''phase1Enabled'', JBool (a_phase1Enabled a)),
    (''trustState'', JStr ''trusted''), (''discoveryAuthority'', JStr ''none''), (''executionAuthority'', JStr ''none''), (''networkDestinations'', JArr []),
    (''egressPolicy'', JObj [(''networkMode'', JStr ''deny_by_default''), (''allowedDestinations'', JArr [JStr ''internal'']),
       (''allowedDataClasses'', JArr [JStr (re_dataClass e)]), (''maxPayloadBytes'', JInt 262144), (''credentialRequired'', JBool True)]),
    (''credentialPolicy'', JObj [(''kind'', JStr ''short_lived_capability''), (''maxTtlSeconds'', JInt 300), (''inheritable'', JBool False),
       (''reusable'', JBool False), (''bindTenant'', JBool True), (''bindTool'', JBool True), (''bindExecutionEnvironment'', JBool True)]),
    (''executionIsolation'', JObj [(''persistence'', JStr ''ephemeral''), (''inheritProcessEnvironment'', JBool False),
       (''inheritCredentials'', JBool False), (''inheritBrowserSession'', JBool False), (''recoverySource'', JStr ''verified_checkpoint_only'')]),
    (''pinned'', JBool True), (''version'', JStr TOOL_TRUST_REGISTRY_VERSION)]"

definition trustedToolDefinition :: "jsval \<Rightarrow> (registry_entry \<times> action_def) option" where
  "trustedToolDefinition actionKey =
    (let key = text_of actionKey 120
     in case AGENT_ACTION_CATALOG key of None \<Rightarrow> None
      | Some a \<Rightarrow> (case registry_at key of None \<Rightarrow> None | Some e \<Rightarrow> Some (e, a)))"

section \<open>The data boundary\<close>

record boundary =
  bd_allowed :: bool
  bd_code :: string
  bd_destination :: string
  bd_dataClasses :: "string list"
  bd_credentialRequired :: bool
  bd_networkMode :: jsval

definition boundary_deny :: "string \<Rightarrow> boundary" where
  "boundary_deny code = \<lparr>bd_allowed = False, bd_code = code, bd_destination = [], bd_dataClasses = [], bd_credentialRequired = False, bd_networkMode = Undef\<rparr>"

definition requested_classes :: "jsval \<Rightarrow> string list" where
  "requested_classes v = dedup (filter (\<lambda>s. s \<noteq> []) (map (\<lambda>x. clean x 80) (elems v)))"

definition evaluateToolDataBoundary :: "jsval \<Rightarrow> jsval \<Rightarrow> jsval \<Rightarrow> jsval \<Rightarrow> boundary" where
  "evaluateToolDataBoundary tool destination payloadDataClasses payloadBytes =
    (let policy = fld tool ''egressPolicy''; d = clean (dflt destination (JStr ''internal'')) 240;
         target = (if d = [] then ''internal'' else d); requested = requested_classes payloadDataClasses;
         size = num_or0 payloadBytes
     in if \<not> truthy tool \<or> fld tool ''trustState'' \<noteq> JStr ''trusted'' then boundary_deny ''tool_not_trusted''
        else if \<not> truthy policy then boundary_deny ''egress_policy_missing''
        else if JStr target \<notin> set (elems (fld policy ''allowedDestinations'')) then boundary_deny ''egress_destination_forbidden''
        else if list_ex (\<lambda>c. JStr c \<notin> set (elems (fld policy ''allowedDataClasses''))) requested then boundary_deny ''egress_data_class_forbidden''
        else if \<not> is_finite size \<or> num_lt size (Fin 0) \<or> num_lt (num_or0 (fld policy ''maxPayloadBytes'')) size
        then boundary_deny ''egress_payload_too_large''
        else \<lparr>bd_allowed = True, bd_code = ''egress_policy_pass'', bd_destination = target, bd_dataClasses = requested,
               bd_credentialRequired = is_true (fld policy ''credentialRequired''),
               bd_networkMode = jor (fld policy ''networkMode'') (JStr ''deny_by_default'')\<rparr>)"

record trust_decision =
  td_allowed :: bool
  td_executionAllowed :: bool
  td_code :: string
  td_reason :: string
  td_version :: string
  td_tool :: "(registry_entry \<times> action_def) option"
  td_boundary :: "boundary option"

definition trust_deny :: "string \<Rightarrow> string \<Rightarrow> trust_decision" where
  "trust_deny code reason = \<lparr>td_allowed = False, td_executionAllowed = False, td_code = code, td_reason = reason,
     td_version = TOOL_TRUST_REGISTRY_VERSION, td_tool = None, td_boundary = None\<rparr>"

definition evaluateToolTrust :: "jsval \<Rightarrow> jsval \<Rightarrow> jsval \<Rightarrow> jsval \<Rightarrow> jsval \<Rightarrow> jsval \<Rightarrow> trust_decision" where
  "evaluateToolTrust actionKey requestedToolId requestedTransport destination payloadDataClasses payloadBytes =
    (case trustedToolDefinition actionKey of
       None \<Rightarrow> trust_deny ''tool_not_trusted'' ''The requested capability is not in the pinned Tool Trust Registry.''
     | Some (e, a) \<Rightarrow>
         if truthy requestedToolId \<and> text_of requestedToolId 160 \<noteq> re_toolId e
         then trust_deny ''tool_identity_mismatch'' ''The requested tool identity does not match the trusted registry entry.''
         else if truthy requestedTransport \<and> text_of requestedTransport 160 \<noteq> re_transport e
         then trust_deny ''tool_transport_mismatch'' ''The requested transport does not match the trusted registry entry.''
         else if a_externalSideEffect a
         then trust_deny ''side_effect_tool_not_read_trusted'' ''The read-only registry cannot authorize a side-effecting tool.''
         else (let b = evaluateToolDataBoundary (tool_value e a) destination
                   (if is_array payloadDataClasses then payloadDataClasses else JArr [JStr (re_dataClass e)]) payloadBytes
           in if \<not> bd_allowed b then trust_deny (bd_code b) ''The requested tool call violates the pinned data-egress policy.''
              else \<lparr>td_allowed = True, td_executionAllowed = False, td_code = ''trusted_read_tool'',
                     td_reason = ''Pinned internal read capability is trusted for governed observation only.'',
                     td_version = TOOL_TRUST_REGISTRY_VERSION, td_tool = Some (e, a), td_boundary = Some b\<rparr>))"

text \<open>The tools of a persistent task: the refusal, or the trusted keys.\<close>

fun trusted_keys :: "jsval list \<Rightarrow> string list option" where
  "trusted_keys [] = Some []"
| "trusted_keys (v # vs) = (case trustedToolDefinition v of None \<Rightarrow> None
     | Some (e, a) \<Rightarrow> (case trusted_keys vs of None \<Rightarrow> None | Some ks \<Rightarrow> Some (re_key e # ks)))"

definition validatePersistentTaskAllowedTools :: "jsval \<Rightarrow> string + string list" where
  "validatePersistentTaskAllowedTools values =
    (let v = dflt values (JArr []) in
     if \<not> is_array v then Inl ''invalid_allowed_tools''
     else (case trusted_keys (elems v) of None \<Rightarrow> Inl ''untrusted_allowed_tool'' | Some ks \<Rightarrow> Inr (dedup ks)))"

section \<open>Containment\<close>

definition AGENT_RUNTIME_CONTAINMENT_VERSION :: string where "AGENT_RUNTIME_CONTAINMENT_VERSION = ''2026-10-09.v1''"

definition envTrue :: "jsval \<Rightarrow> bool" where
  "envTrue v \<longleftrightarrow> lower (trim (str_nn v)) \<in> {''1'', ''true'', ''on'', ''yes''}"

definition tenantIdValid :: "string \<Rightarrow> bool" where
  "tenantIdValid s = (let t = trim s in t \<noteq> [] \<and> length t \<le> 120 \<and> \<not> list_ex (\<lambda>c. is_ws c \<or> c = CHR '','' \<or> is_ctl c) t)"

definition parseTenantControlList :: "jsval \<Rightarrow> string list option" where
  "parseTenantControlList raw =
    (let source = trim (str_nn raw); parts = map trim (split_on (CHR '','') source)
     in if source = [] then Some []
        else if length parts > 500 \<or> \<not> list_all tenantIdValid parts then None
        else Some (dedup parts))"

record containment =
  ct_allowed :: bool
  ct_executionAllowed :: bool
  ct_code :: string
  ct_tenantId :: "string option"
  ct_authorityState :: "string option"

definition containment_decision :: "bool \<Rightarrow> string \<Rightarrow> string option \<Rightarrow> string option \<Rightarrow> containment" where
  "containment_decision ok code tenant state = \<lparr>ct_allowed = ok, ct_executionAllowed = ok, ct_code = code, ct_tenantId = tenant, ct_authorityState = state\<rparr>"

definition evaluateAgentRuntimeContainment :: "jsval \<Rightarrow> authority option \<Rightarrow> bool \<Rightarrow> bool \<Rightarrow> jsval \<Rightarrow> jsval \<Rightarrow> containment" where
  "evaluateAgentRuntimeContainment tenantId agentAuthority runtimeEnabled globalKillSwitch suspendedRaw quarantinedRaw =
    (let tenant = trim (str_nn tenantId);
         known = (case agentAuthority of None \<Rightarrow> [] | Some a \<Rightarrow> au_state a);
         ready = (case agentAuthority of None \<Rightarrow> False | Some a \<Rightarrow> au_ready a);
         capable = (case agentAuthority of None \<Rightarrow> False | Some a \<Rightarrow> au_exec a);
         authorityState = lower (trim known);
         suspended = parseTenantControlList suspendedRaw; quarantined = parseTenantControlList quarantinedRaw
     in if \<not> tenantIdValid tenant then containment_decision False ''tenant_scope_required'' None None
        else if \<not> runtimeEnabled then containment_decision False ''agent_runtime_disabled'' (Some tenant) None
        else if globalKillSwitch then containment_decision False ''runtime_kill_switch_active'' (Some tenant) None
        else if \<not> ready then containment_decision False ''agent_authority_unavailable'' (Some tenant) (Some (if known = [] then ''restricted'' else known))
        else if authorityState \<noteq> ''active'' \<or> \<not> capable
        then containment_decision False (if authorityState \<in> {''restricted'', ''suspended'', ''revoked''} then ''agent_authority_'' @ authorityState
               else ''agent_authority_invalid'') (Some tenant) (Some (if authorityState = [] then ''invalid'' else authorityState))
        else if suspended = None \<or> quarantined = None then containment_decision False ''tenant_control_config_invalid'' (Some tenant) (Some authorityState)
        else if tenant \<in> set (the quarantined) then containment_decision False ''tenant_quarantined'' (Some tenant) (Some authorityState)
        else if tenant \<in> set (the suspended) then containment_decision False ''tenant_suspended'' (Some tenant) (Some authorityState)
        else containment_decision True ''runtime_containment_clear'' (Some tenant) (Some authorityState))"

definition tenantContainmentFromEnv :: "jsval \<Rightarrow> jsval \<Rightarrow> authority option \<Rightarrow> containment" where
  "tenantContainmentFromEnv env tenantId agentAuthority =
    evaluateAgentRuntimeContainment tenantId agentAuthority
      (trim (js_string (coalesce (fld env ''AGENT_RUNTIME_ENABLED'') (JStr ''1''))) \<noteq> ''0'')
      (envTrue (fld env ''AGENT_RUNTIME_KILL_SWITCH''))
      (coalesce (fld env ''AGENT_RUNTIME_SUSPENDED_TENANTS'') (JStr []))
      (coalesce (fld env ''AGENT_RUNTIME_QUARANTINED_TENANTS'') (JStr []))"

section \<open>Facts about the registry\<close>

lemma registry_at_Some: "registry_at k = Some e \<Longrightarrow> e \<in> set TRUSTED_READ_TOOLS \<and> re_key e = k"
  by (auto simp: registry_at_def find_Some_iff)

lemma trustedToolDefinition_Some:
  "trustedToolDefinition v = Some (e, a) \<longleftrightarrow> AGENT_ACTION_CATALOG (text_of v 120) = Some a \<and> registry_at (text_of v 120) = Some e"
  by (auto simp: trustedToolDefinition_def Let_def split: option.splits)

text \<open>Every registered tool is a read of the catalogue without side effects, and it is trusted by its own name.\<close>

definition entry_read :: "registry_entry \<Rightarrow> bool" where
  "entry_read e = (case AGENT_ACTION_CATALOG (re_key e) of None \<Rightarrow> False
     | Some a \<Rightarrow> a_level a = level_read \<and> \<not> a_externalSideEffect a)"

lemma registry_reads: "list_all entry_read TRUSTED_READ_TOOLS"
  by code_simp

lemma registry_trusts: "list_all (\<lambda>e. td_allowed (evaluateToolTrust (JStr (re_key e)) Undef Undef Undef Undef Undef)) TRUSTED_READ_TOOLS"
  by code_simp

lemma boundary_allowed:
  assumes "bd_allowed (evaluateToolDataBoundary tool d c b)"
  shows "JStr (bd_destination (evaluateToolDataBoundary tool d c b)) \<in> set (elems (fld (fld tool ''egressPolicy'') ''allowedDestinations'')) \<and>
    list_all (\<lambda>x. JStr x \<in> set (elems (fld (fld tool ''egressPolicy'') ''allowedDataClasses''))) (bd_dataClasses (evaluateToolDataBoundary tool d c b)) \<and>
    bd_dataClasses (evaluateToolDataBoundary tool d c b) = requested_classes c \<and>
    is_finite (num_or0 b) \<and> \<not> num_lt (num_or0 b) (Fin 0) \<and> \<not> num_lt (num_or0 (fld (fld tool ''egressPolicy'') ''maxPayloadBytes'')) (num_or0 b)"
  using assms unfolding evaluateToolDataBoundary_def Let_def
  by (simp add: boundary_deny_def list_ex_iff list_all_iff split: if_splits)

lemma tool_policy:
  "elems (fld (fld (tool_value e a) ''egressPolicy'') ''allowedDestinations'') = [JStr ''internal'']"
  "elems (fld (fld (tool_value e a) ''egressPolicy'') ''allowedDataClasses'') = [JStr (re_dataClass e)]"
  "num_or0 (fld (fld (tool_value e a) ''egressPolicy'') ''maxPayloadBytes'') = Fin 262144"
  by (simp_all add: tool_value_def num_or0_def)

lemma trust_cases:
  assumes "td_allowed (evaluateToolTrust k i t d c b)"
  obtains e a where "trustedToolDefinition k = Some (e, a)"
    "bd_allowed (evaluateToolDataBoundary (tool_value e a) d (if is_array c then c else JArr [JStr (re_dataClass e)]) b)"
    "evaluateToolTrust k i t d c b = \<lparr>td_allowed = True, td_executionAllowed = False, td_code = ''trusted_read_tool'',
       td_reason = ''Pinned internal read capability is trusted for governed observation only.'', td_version = TOOL_TRUST_REGISTRY_VERSION,
       td_tool = Some (e, a), td_boundary = Some (evaluateToolDataBoundary (tool_value e a) d (if is_array c then c else JArr [JStr (re_dataClass e)]) b)\<rparr>"
proof (cases "trustedToolDefinition k")
  case None
  then show ?thesis using assms by (simp add: evaluateToolTrust_def trust_deny_def)
next
  case (Some p)
  obtain e a where p: "p = (e, a)" by fastforce
  show ?thesis
    using that[of e a] assms unfolding evaluateToolTrust_def Some p option.case prod.case Let_def
    by (simp add: trust_deny_def split: if_splits)
qed

lemma trusted_keys_member: "trusted_keys vs = Some ks \<Longrightarrow> k \<in> set ks \<Longrightarrow> \<exists>e\<in>set TRUSTED_READ_TOOLS. re_key e = k"
proof (induction vs arbitrary: ks)
  case (Cons v vs)
  then show ?case by (fastforce simp: trustedToolDefinition_Some dest: registry_at_Some split: option.splits)
qed simp

lemma dedup_from_facts: "set (dedup_from seen xs) = set xs - set seen" "distinct (dedup_from seen xs)"
  by (induction seen xs rule: dedup_from.induct) auto

section \<open>Properties\<close>

text \<open>C34: A trusted tool call stays inside: it names a registered read of the catalogue that has no side effect, it goes to the internal
  destination, it carries no data class but the tool's own and at most 256 KiB, and it never gains the right to execute. The tools a
  persistent task may hold are, one by one, tools this check trusts.\<close>

theorem trusted_call_confined:
  assumes "td_allowed (evaluateToolTrust k i t d c b)"
  shows "(\<exists>e a bd. td_tool (evaluateToolTrust k i t d c b) = Some (e, a) \<and> td_boundary (evaluateToolTrust k i t d c b) = Some bd \<and>
      e \<in> set TRUSTED_READ_TOOLS \<and> AGENT_ACTION_CATALOG (re_key e) = Some a \<and> re_key e = text_of k 120 \<and>
      a_level a = level_read \<and> \<not> a_externalSideEffect a \<and> bd_destination bd = ''internal'' \<and> set (bd_dataClasses bd) \<subseteq> {re_dataClass e} \<and>
      num_le (Fin 0) (num_or0 b) \<and> num_le (num_or0 b) (Fin 262144)) \<and>
    \<not> td_executionAllowed (evaluateToolTrust k i t d c b)"
proof (rule trust_cases[OF assms])
  fix e a
  let ?b = "evaluateToolDataBoundary (tool_value e a) d (if is_array c then c else JArr [JStr (re_dataClass e)]) b"
  assume r: "trustedToolDefinition k = Some (e, a)" "bd_allowed ?b"
    "evaluateToolTrust k i t d c b = \<lparr>td_allowed = True, td_executionAllowed = False, td_code = ''trusted_read_tool'',
       td_reason = ''Pinned internal read capability is trusted for governed observation only.'', td_version = TOOL_TRUST_REGISTRY_VERSION,
       td_tool = Some (e, a), td_boundary = Some ?b\<rparr>"
  have e: "e \<in> set TRUSTED_READ_TOOLS" "re_key e = text_of k 120" "AGENT_ACTION_CATALOG (re_key e) = Some a"
    using r(1) registry_at_Some[of "text_of k 120" e] by (auto simp: trustedToolDefinition_Some)
  have "entry_read e" using registry_reads e(1) by (simp add: list_all_iff)
  then have a: "a_level a = level_read" "\<not> a_externalSideEffect a" using e(3) by (simp_all add: entry_read_def)
  have "num_le (Fin 0) (num_or0 b) \<and> num_le (num_or0 b) (Fin 262144)"
    using boundary_allowed[OF r(2)] unfolding tool_policy by (cases "num_or0 b") auto
  moreover have "bd_destination ?b = ''internal''" "set (bd_dataClasses ?b) \<subseteq> {re_dataClass e}"
    using boundary_allowed[OF r(2)] unfolding tool_policy by (auto simp: list_all_iff)
  ultimately show ?thesis using e a unfolding r(3) by auto
qed

lemma persistent_tools_trusted:
  assumes "validatePersistentTaskAllowedTools v = Inr ks"
  shows "distinct ks \<and> list_all (\<lambda>k. td_allowed (evaluateToolTrust (JStr k) Undef Undef Undef Undef Undef)) ks"
proof -
  obtain js where js: "trusted_keys (elems (dflt v (JArr []))) = Some js" "ks = dedup js"
    using assms by (auto simp: validatePersistentTaskAllowedTools_def Let_def split: if_splits option.splits)
  have "td_allowed (evaluateToolTrust (JStr k) Undef Undef Undef Undef Undef)" if "k \<in> set ks" for k
    using trusted_keys_member[OF js(1), of k] registry_trusts that js(2) by (auto simp: dedup_def dedup_from_facts list_all_iff)
  then show ?thesis using js(2) by (simp add: dedup_def dedup_from_facts list_all_iff)
qed

text \<open>Containment fails closed: the agent of a tenant may run exactly when the tenant id is well formed, the runtime is on and the
  kill switch is off, the canonical identity is registered, active and may execute, both control lists can be read, and the tenant is in
  neither.\<close>

lemma containment_clear_iff:
  "ct_allowed (evaluateAgentRuntimeContainment tenantId au enabled kill susp quar) \<longleftrightarrow>
    tenantIdValid (trim (str_nn tenantId)) \<and> enabled \<and> \<not> kill \<and>
    (\<exists>a s q. au = Some a \<and> au_ready a \<and> lower (trim (au_state a)) = ''active'' \<and> au_exec a \<and>
      parseTenantControlList susp = Some s \<and> parseTenantControlList quar = Some q \<and>
      trim (str_nn tenantId) \<notin> set s \<and> trim (str_nn tenantId) \<notin> set q)"
  unfolding evaluateAgentRuntimeContainment_def Let_def
  by (cases au) (auto simp: containment_decision_def)

theorem trusted_call_confined_witness:
  "td_allowed (evaluateToolTrust (JStr ''financial_position.read'') Undef Undef Undef Undef (JInt 4096)) \<and>
   \<not> td_executionAllowed (evaluateToolTrust (JStr ''financial_position.read'') Undef Undef Undef Undef (JInt 4096))"
proof -
  have a: "td_allowed (evaluateToolTrust (JStr ''financial_position.read'') Undef Undef Undef Undef (JInt 4096))" by code_simp
  from trusted_call_confined[OF a] a show ?thesis by blast
qed

end
