(* ===== verification/BusinessGoals.thy ===== *)
theory BusinessGoals imports ToolTrust "HOL-Library.List_Lexorder" begin

text \<open>
  The goals an owner gives the platform to watch: the templates and the payload of a new goal
  (\<^verbatim>\<open>business-goals.js\<close>), and the pure part of \<^verbatim>\<open>business-goal-durable-loop.js\<close>: the check of a
  stored goal, its next occurrence and the signal read off a snapshot of the sources. A column that holds JSON text
  is \<^typ>\<open>jsval option\<close>: the value it parses to, or none.
\<close>

section \<open>Templates\<close>

record goal_template =
  gt_key :: string
  gt_label :: string
  gt_objective :: string
  gt_tools :: "string list"

definition template_of :: "string \<Rightarrow> string \<Rightarrow> string \<Rightarrow> string list \<Rightarrow> goal_template" where
  "template_of k l ob ts = \<lparr>gt_key = k, gt_label = l, gt_objective = ob, gt_tools = ts\<rparr>"

definition BUSINESS_GOAL_TEMPLATES :: "goal_template list" where
  "BUSINESS_GOAL_TEMPLATES = [
    template_of ''protect_cash'' ''Protect cash'' ''Protect the minimum cash buffer and surface material cash-flow pressure.''
      [''financial_position.read'', ''finance_data_quality.read'', ''receivables_summary.read''],
    template_of ''grow_sales'' ''Grow sales''
      ''Watch recorded receivables and aggregate operating signals and surface measurable follow-up opportunities.''
      [''receivables_summary.read'', ''daily_operations_summary.read''],
    template_of ''stay_compliant'' ''Stay compliant''
      ''Watch recorded compliance status and surface material obligations that need owner attention.''
      [''compliance_status.read''],
    template_of ''watch_operations'' ''Watch operations''
      ''Watch daily operating signals and surface material exceptions without inferring employee intent or performance.''
      [''daily_operations_summary.read''],
    template_of ''protect_property'' ''Protect property''
      ''Watch business-health and financial-position pressure relevant to property decisions; asset and valuation records remain in Property.''
      [''business_health.read'', ''financial_position.read''],
    template_of ''morning_brief'' ''Morning brief''
      ''Prepare a concise owner brief containing only material business exceptions and useful next steps.''
      [''business_health.read'', ''financial_position.read'', ''finance_data_quality.read'', ''receivables_summary.read'',
       ''compliance_status.read'', ''daily_operations_summary.read'']]"

datatype template_ref = No_Template | Inherited | Template goal_template

definition businessGoalTemplate :: "string \<Rightarrow> template_ref" where
  "businessGoalTemplate key =
    (case find (\<lambda>t. gt_key t = key) BUSINESS_GOAL_TEMPLATES of
       Some t \<Rightarrow> Template t
     | None \<Rightarrow> if key \<in> set object_members then Inherited else No_Template)"

section \<open>A new goal\<close>

fun math_round :: "jsnum \<Rightarrow> jsnum" where
  "math_round (Fin q) = Fin (of_int \<lfloor>q + 1 / 2\<rfloor>)"
| "math_round n = n"

definition nonzero_or :: "jsnum \<Rightarrow> jsnum \<Rightarrow> jsnum" where
  "nonzero_or n d = (if n = NaN \<or> n = Fin 0 then d else n)"

definition str_default :: "string \<Rightarrow> string \<Rightarrow> string" where
  "str_default s d = (if s = [] then d else s)"

definition cadences :: "string list" where "cadences = [''daily'', ''weekly'']"

record goal_payload =
  gp_templateKey :: string
  gp_label :: string
  gp_objective :: string
  gp_triggerKind :: string
  gp_cadence :: string
  gp_allowedTools :: "string list"
  gp_riskPolicy :: jsval
  gp_approvalPolicy :: jsval
  gp_maxToolCalls :: jsnum
  gp_executionAllowed :: bool

datatype build_result = Build_Throws | Build_Error string | Built goal_payload

definition explicit_budget :: "jsval \<Rightarrow> bool" where
  "explicit_budget body = (case body of JObj kvs \<Rightarrow> map_of kvs ''maxToolCallsPerRun'' \<noteq> None | _ \<Rightarrow> False)"

definition goal_tool_calls :: "jsval \<Rightarrow> nat \<Rightarrow> jsnum" where
  "goal_tool_calls body required =
    num_min (Fin 8) (num_max (Fin 1)
      (if explicit_budget body then math_round (nonzero_or (to_num (fld body ''maxToolCallsPerRun'')) (Fin 4)) else Fin (of_nat required)))"

definition buildBusinessGoalTask :: "jsval \<Rightarrow> build_result" where
  "buildBusinessGoalTask body0 =
    (let body = dflt body0 (JObj []); templateKey = clean (fld body ''templateKey'') 40
     in if body = Null then Build_Throws
        else case businessGoalTemplate templateKey of
          No_Template \<Rightarrow> Build_Error ''invalid_business_goal_template''
        | Inherited \<Rightarrow> Build_Throws
        | Template t \<Rightarrow>
            (case validatePersistentTaskAllowedTools (JArr (map JStr (gt_tools t))) of
               Inl code \<Rightarrow> Build_Error code
             | Inr tools \<Rightarrow>
                 (let objective = str_default (clean (fld body ''objective'') 500) (gt_objective t);
                      cadence = str_default (clean (fld body ''cadence'') 40) ''daily''
                  in if cadence \<notin> set cadences then Build_Error ''invalid_business_goal_cadence''
                     else Built \<lparr>gp_templateKey = templateKey, gp_label = gt_label t, gp_objective = objective,
                       gp_triggerKind = ''scheduled'', gp_cadence = cadence, gp_allowedTools = tools,
                       gp_riskPolicy = JObj [(''mode'', JStr ''observe_recommend''), (''externalActions'', JBool False), (''highImpactActions'', JStr ''human_only'')],
                       gp_approvalPolicy = JObj [(''consequentialActions'', JStr ''owner_required'')],
                       gp_maxToolCalls = goal_tool_calls body (length tools), gp_executionAllowed = False\<rparr>)))"

text \<open>The columns that are stored for it.\<close>

definition budget_value :: "jsnum \<Rightarrow> jsval" where
  "budget_value n = JObj [(''maxToolCallsPerRun'', JNum n), (''maxExternalActions'', JInt 0)]"

definition goal_trigger :: "goal_payload \<Rightarrow> jsval" where
  "goal_trigger p = JObj [(''cadence'', JStr (gp_cadence p)), (''templateKey'', JStr (gp_templateKey p)), (''label'', JStr (gp_label p))]"

section \<open>The check of a stored goal\<close>

definition parse_col :: "jsval option \<Rightarrow> jsval \<Rightarrow> jsval" where
  "parse_col c fallback = (case c of None \<Rightarrow> fallback | Some v \<Rightarrow> v)"

definition sameToolSet :: "string list \<Rightarrow> string list \<Rightarrow> bool" where
  "sameToolSet l r \<longleftrightarrow> length l = length r \<and> js_sort (\<le>) l = js_sort (\<le>) r"

record goal_check =
  vg_template :: goal_template
  vg_cadence :: string
  vg_tools :: "string list"
  vg_maxToolCalls :: jsnum
  vg_budgetAdjusted :: bool

datatype validation = Val_Throws | Invalid string | Valid goal_check

definition plain_budget :: "jsval \<Rightarrow> jsval" where
  "plain_budget v = (case v of JObj kvs \<Rightarrow> v | _ \<Rightarrow> JObj [])"

definition external_actions :: "jsval \<Rightarrow> jsnum" where
  "external_actions budget = (if nullish (fld budget ''maxExternalActions'') then Fin 0 else to_num (fld budget ''maxExternalActions''))"

definition allowed_calls :: "nat \<Rightarrow> jsnum \<Rightarrow> jsnum" where
  "allowed_calls k requested =
    num_min (Fin 8) (num_max (Fin (of_nat k)) (if is_finite requested then math_round requested else Fin (of_nat k)))"

definition validateBusinessGoalTask :: "jsval option \<Rightarrow> jsval option \<Rightarrow> jsval option \<Rightarrow> validation" where
  "validateBusinessGoalTask trigger tools budget =
    (let spec = parse_col trigger (JObj []); templateKey = clean (fld spec ''templateKey'') 40; r = businessGoalTemplate templateKey
     in if r = No_Template then Invalid ''invalid_business_goal_template''
        else case validatePersistentTaskAllowedTools (parse_col tools (JArr [])) of
          Inl code \<Rightarrow> Invalid code
        | Inr trusted \<Rightarrow>
            (case r of Template t \<Rightarrow>
               (let cadence = str_default (clean (fld spec ''cadence'') 40) ''daily'';
                    b = plain_budget (parse_col budget (JObj [])); requested = to_num (fld b ''maxToolCallsPerRun'');
                    calls = allowed_calls (length trusted) requested
                in if \<not> sameToolSet trusted (gt_tools t) then Invalid ''business_goal_tool_contract_mismatch''
                   else if cadence \<notin> set cadences then Invalid ''invalid_business_goal_cadence''
                   else if external_actions b \<noteq> Fin 0 then Invalid ''business_goal_external_action_budget_forbidden''
                   else Valid \<lparr>vg_template = t, vg_cadence = cadence, vg_tools = trusted, vg_maxToolCalls = calls,
                          vg_budgetAdjusted = (\<not> num_eq calls requested)\<rparr>)
             | _ \<Rightarrow> Val_Throws))"

section \<open>The next occurrence\<close>

record schedule =
  sc_at :: string
  sc_skipped :: int
  sc_cadence :: string

datatype next_run = Next_Throws | No_Next | Next schedule

definition cadence_ms :: "string \<Rightarrow> int" where
  "cadence_ms c = (if c = ''weekly'' then 604800000 else 86400000)"

text \<open>The first multiple of the interval after both the anchor and the present.\<close>

definition next_after :: "int \<Rightarrow> int \<Rightarrow> int \<Rightarrow> int \<times> int" where
  "next_after interval anchor now =
    (let elapsed = max 0 (now - anchor); intervals = max 1 (elapsed div interval + 1)
     in (anchor + intervals * interval, max 0 (intervals - 1)))"

definition nextBusinessGoalRunAt :: "date_parse \<Rightarrow> validation \<Rightarrow> string \<Rightarrow> int \<Rightarrow> next_run" where
  "nextBusinessGoalRunAt dp checked scheduledFor now =
    (case checked of Val_Throws \<Rightarrow> Next_Throws | Invalid code \<Rightarrow> No_Next
     | Valid v \<Rightarrow> (case dp scheduledFor of None \<Rightarrow> No_Next
         | Some anchor \<Rightarrow> (case next_after (cadence_ms (vg_cadence v)) anchor now of (t, skipped) \<Rightarrow>
             if \<bar>t\<bar> \<le> 8640000000000000 then Next \<lparr>sc_at = iso_text t, sc_skipped = skipped, sc_cadence = vg_cadence v\<rparr> else Next_Throws)))"

section \<open>The signal of a snapshot\<close>

definition metric :: "jsval \<Rightarrow> string \<Rightarrow> rat" where
  "metric v k = (case to_num (fld v k) of Fin q \<Rightarrow> q | _ \<Rightarrow> 0)"

text \<open>\<^verbatim>\<open>a||b\<close> on numbers.\<close>

definition or_rat :: "rat \<Rightarrow> rat \<Rightarrow> rat" where
  "or_rat a b = (if a = 0 then b else a)"

abbreviation JRat :: "rat \<Rightarrow> jsval" where
  "JRat q \<equiv> JNum (Fin q)"

record goal_signal =
  gs_code :: string
  gs_tone :: string
  gs_metrics :: jsval

text \<open>What the six sources say; a missing source is an empty object.\<close>

record sources =
  so_financial :: jsval
  so_quality :: jsval
  so_receivables :: jsval
  so_compliance :: jsval
  so_operations :: jsval
  so_health :: jsval

definition sources_of :: "jsval \<Rightarrow> sources" where
  "sources_of snapshot =
    \<lparr>so_financial = jor (fld snapshot ''financial_position.read'') (JObj []), so_quality = jor (fld snapshot ''finance_data_quality.read'') (JObj []),
     so_receivables = jor (fld snapshot ''receivables_summary.read'') (JObj []), so_compliance = jor (fld snapshot ''compliance_status.read'') (JObj []),
     so_operations = jor (fld snapshot ''daily_operations_summary.read'') (JObj []), so_health = jor (fld snapshot ''business_health.read'') (JObj [])\<rparr>"

definition ops_metrics :: "sources \<Rightarrow> jsval" where
  "ops_metrics s = (let m = fld (so_operations s) ''metrics'' in if is_object m then m else JObj [])"

definition ops_available :: "sources \<Rightarrow> bool" where
  "ops_available s = is_true (fld (so_operations s) ''available'')"

definition overdue_minor :: "sources \<Rightarrow> rat" where
  "overdue_minor s = or_rat (metric (so_receivables s) ''overdueMinor'') (metric (so_financial s) ''receivablesOverdueMinor'')"

definition outstanding_minor :: "sources \<Rightarrow> rat" where
  "outstanding_minor s = or_rat (metric (so_receivables s) ''outstandingMinor'') (metric (so_financial s) ''receivablesOutstandingMinor'')"

definition recon_exceptions :: "sources \<Rightarrow> rat" where
  "recon_exceptions s = max (metric (so_financial s) ''reconciliationExceptionCount'') (metric (so_quality s) ''reconciliationExceptionCount'')"

definition data_issues :: "sources \<Rightarrow> rat" where
  "data_issues s = metric (so_quality s) ''failedImportBatchCount'' + metric (so_quality s) ''missingSourceFingerprintCount''"

definition risk_if :: "bool \<Rightarrow> string" where
  "risk_if b = (if b then ''risk'' else ''neutral'')"

definition signal_protect_cash :: "sources \<Rightarrow> goal_signal" where
  "signal_protect_cash s =
    \<lparr>gs_code = (if overdue_minor s > 0 then ''overdue_receivables''
        else if recon_exceptions s > 0 \<or> data_issues s > 0 then ''finance_evidence_review'' else ''cash_watch_recorded''),
     gs_tone = risk_if (overdue_minor s > 0 \<or> recon_exceptions s > 0 \<or> data_issues s > 0),
     gs_metrics = JObj [(''cashPositionMinor'', JRat (metric (so_financial s) ''cashPositionMinor'')), (''outstandingMinor'', JRat (outstanding_minor s)),
       (''overdueMinor'', JRat (overdue_minor s)),
       (''overdueInvoiceCount'', JRat (or_rat (metric (so_receivables s) ''overdueInvoiceCount'') (metric (so_financial s) ''overdueInvoiceCount''))),
       (''reconciliationExceptionCount'', JRat (recon_exceptions s)), (''dataIssueCount'', JRat (data_issues s))]\<rparr>"

definition signal_grow_sales :: "sources \<Rightarrow> goal_signal" where
  "signal_grow_sales s =
    \<lparr>gs_code = (if overdue_minor s > 0 then ''receivables_follow_up'' else if outstanding_minor s > 0 then ''receivables_open'' else ''operating_watch''),
     gs_tone = risk_if (overdue_minor s > 0),
     gs_metrics = JObj [(''outstandingMinor'', JRat (outstanding_minor s)), (''overdueMinor'', JRat (overdue_minor s)),
       (''outstandingInvoiceCount'', JRat (metric (so_receivables s) ''outstandingInvoiceCount'')),
       (''overdueInvoiceCount'', JRat (metric (so_receivables s) ''overdueInvoiceCount'')),
       (''operationsAvailable'', JBool (ops_available s)),
       (''reportedRevenue'', JRat (or_rat (metric (ops_metrics s) ''reportedRevenue'') (metric (ops_metrics s) ''revenue''))),
       (''orders'', JRat (metric (ops_metrics s) ''orders'')), (''customers'', JRat (metric (ops_metrics s) ''customers''))]\<rparr>"

definition signal_stay_compliant :: "sources \<Rightarrow> goal_signal" where
  "signal_stay_compliant s =
    \<lparr>gs_code = (if metric (so_compliance s) ''overdueObligationCount'' > 0 then ''compliance_overdue''
        else if metric (so_compliance s) ''dueWithin14Days'' > 0 then ''compliance_due_soon'' else ''compliance_watch_recorded''),
     gs_tone = risk_if (metric (so_compliance s) ''overdueObligationCount'' > 0),
     gs_metrics = JObj [(''openObligationCount'', JRat (metric (so_compliance s) ''openObligationCount'')),
       (''overdueObligationCount'', JRat (metric (so_compliance s) ''overdueObligationCount'')),
       (''dueWithin14Days'', JRat (metric (so_compliance s) ''dueWithin14Days'')), (''nextDueAt'', jor (fld (so_compliance s) ''nextDueAt'') Null)]\<rparr>"

definition signal_watch_operations :: "sources \<Rightarrow> goal_signal" where
  "signal_watch_operations s =
    \<lparr>gs_code = (if ops_available s
        then (if metric (ops_metrics s) ''exceptions'' > 0 \<or> metric (ops_metrics s) ''jobsPending'' > 0 then ''operations_attention'' else ''operations_recorded'')
        else ''operations_not_reported''),
     gs_tone = risk_if (metric (ops_metrics s) ''exceptions'' > 0),
     gs_metrics = JObj [(''available'', JBool (ops_available s)), (''summaryDate'', jor (fld (so_operations s) ''summaryDate'') Null),
       (''exceptions'', JRat (metric (ops_metrics s) ''exceptions'')), (''jobsPending'', JRat (metric (ops_metrics s) ''jobsPending'')),
       (''jobsCompleted'', JRat (metric (ops_metrics s) ''jobsCompleted'')), (''locationsReporting'', JRat (metric (ops_metrics s) ''locationsReporting''))]\<rparr>"

definition signal_protect_property :: "sources \<Rightarrow> goal_signal" where
  "signal_protect_property s =
    (let pressure = metric (so_health s) ''criticalPerformanceSignals'' > 0 \<or> metric (so_health s) ''failedWorkflowCount'' > 0 \<or>
           metric (so_health s) ''overdueComplianceCount'' > 0
     in \<lparr>gs_code = (if pressure then ''business_pressure'' else ''business_watch_recorded''), gs_tone = risk_if pressure,
      gs_metrics = JObj [(''cashPositionMinor'', JRat (metric (so_financial s) ''cashPositionMinor'')),
       (''overdueReceivablesMinor'', JRat (metric (so_financial s) ''receivablesOverdueMinor'')),
       (''criticalPerformanceSignals'', JRat (metric (so_health s) ''criticalPerformanceSignals'')),
       (''failedWorkflowCount'', JRat (metric (so_health s) ''failedWorkflowCount'')),
       (''overdueComplianceCount'', JRat (metric (so_health s) ''overdueComplianceCount''))]\<rparr>)"

definition signal_morning_brief :: "sources \<Rightarrow> goal_signal" where
  "signal_morning_brief s =
    (let attention = overdue_minor s > 0 \<or> metric (so_compliance s) ''overdueObligationCount'' > 0 \<or> metric (so_health s) ''criticalPerformanceSignals'' > 0 \<or>
           metric (so_health s) ''failedWorkflowCount'' > 0 \<or> recon_exceptions s > 0 \<or> data_issues s > 0 \<or> metric (ops_metrics s) ''exceptions'' > 0
     in \<lparr>gs_code = (if attention then ''owner_attention'' else ''brief_recorded''), gs_tone = risk_if attention,
      gs_metrics = JObj [(''cashPositionMinor'', JRat (metric (so_financial s) ''cashPositionMinor'')), (''overdueReceivablesMinor'', JRat (overdue_minor s)),
       (''overdueObligationCount'', JRat (metric (so_compliance s) ''overdueObligationCount'')), (''dueWithin14Days'', JRat (metric (so_compliance s) ''dueWithin14Days'')),
       (''criticalPerformanceSignals'', JRat (metric (so_health s) ''criticalPerformanceSignals'')),
       (''failedWorkflowCount'', JRat (metric (so_health s) ''failedWorkflowCount'')), (''reconciliationExceptionCount'', JRat (recon_exceptions s)),
       (''dataIssueCount'', JRat (data_issues s)), (''operationsAvailable'', JBool (ops_available s)),
       (''operationExceptions'', JRat (metric (ops_metrics s) ''exceptions''))]\<rparr>)"

definition summarizeBusinessGoalSnapshot :: "jsval \<Rightarrow> jsval \<Rightarrow> goal_signal" where
  "summarizeBusinessGoalSnapshot templateKey snapshot =
    (let key = clean templateKey 40; s = sources_of snapshot
     in if key = ''protect_cash'' then signal_protect_cash s
        else if key = ''grow_sales'' then signal_grow_sales s
        else if key = ''stay_compliant'' then signal_stay_compliant s
        else if key = ''watch_operations'' then signal_watch_operations s
        else if key = ''protect_property'' then signal_protect_property s
        else if key = ''morning_brief'' then signal_morning_brief s
        else \<lparr>gs_code = ''goal_snapshot_recorded'', gs_tone = ''neutral'', gs_metrics = JObj []\<rparr>)"

section \<open>Facts about templates\<close>

lemma template_Some: "businessGoalTemplate k = Template t \<Longrightarrow> t \<in> set BUSINESS_GOAL_TEMPLATES \<and> gt_key t = k"
  by (auto simp: businessGoalTemplate_def find_Some_iff split: option.splits if_splits)

text \<open>Every template asks for tools the registry trusts, each once, and for at most eight.\<close>

definition template_sound :: "goal_template \<Rightarrow> bool" where
  "template_sound t \<longleftrightarrow> validatePersistentTaskAllowedTools (JArr (map JStr (gt_tools t))) = Inr (gt_tools t) \<and>
     distinct (gt_tools t) \<and> 1 \<le> length (gt_tools t) \<and> length (gt_tools t) \<le> 6 \<and> gt_objective t \<noteq> [] \<and> length (gt_objective t) \<le> 500 \<and>
     clean_str 40 (gt_key t) = gt_key t \<and> businessGoalTemplate (gt_key t) = Template t"

lemma templates_sound: "list_all template_sound BUSINESS_GOAL_TEMPLATES"
  by code_simp

lemma template_is_sound: "businessGoalTemplate k = Template t \<Longrightarrow> template_sound t \<and> gt_key t = k"
  using template_Some templates_sound by (auto simp: list_all_iff)

lemma cadence_clean: "c \<in> set cadences \<Longrightarrow> clean_str 40 c = c \<and> c \<noteq> []"
proof -
  have "list_all (\<lambda>c. clean_str 40 c = c \<and> c \<noteq> []) cadences" by code_simp
  then show "c \<in> set cadences \<Longrightarrow> clean_str 40 c = c \<and> c \<noteq> []" by (simp add: list_all_iff)
qed

lemma sameToolSet_refl [simp]: "sameToolSet l l"
  by (simp add: sameToolSet_def)

lemma clean_JStr [simp]: "clean (JStr s) k = clean_str k s"
  by (simp add: clean_def)

lemma Built_cases:
  assumes "buildBusinessGoalTask body = Built p"
  obtains t where "businessGoalTemplate (gp_templateKey p) = Template t" "gp_allowedTools p = gt_tools t" "gp_label p = gt_label t"
    "gp_objective p = str_default (clean (fld (dflt body (JObj [])) ''objective'') 500) (gt_objective t)" "gp_cadence p \<in> set cadences"
    "gp_maxToolCalls p = goal_tool_calls (dflt body (JObj [])) (length (gt_tools t))" "gp_triggerKind p = ''scheduled''" "\<not> gp_executionAllowed p"
proof (cases "businessGoalTemplate (clean (fld (dflt body (JObj [])) ''templateKey'') 40)")
  case (Template t)
  then have v: "validatePersistentTaskAllowedTools (JArr (map JStr (gt_tools t))) = Inr (gt_tools t)"
    using template_is_sound[of _ t] by (auto simp: template_sound_def)
  show ?thesis using that[of t] assms Template v by (auto simp: buildBusinessGoalTask_def Let_def split: if_splits)
qed (use assms in \<open>auto simp: buildBusinessGoalTask_def Let_def split: if_splits\<close>)

text \<open>Rounding and bounding keep whole numbers from 1 to 8 as they are.\<close>

lemma math_round_int [simp]: "math_round (Fin (of_int i)) = Fin (of_int i)"
proof -
  have "\<lfloor>(of_int i :: rat) + 1 / 2\<rfloor> = i" by linarith
  then show ?thesis by simp
qed

declare math_round.simps(1) [simp del]

lemma goal_tool_calls_range:
  assumes "1 \<le> k" "k \<le> 8"
  shows "\<exists>i. goal_tool_calls body k = Fin (of_int i) \<and> 1 \<le> i \<and> i \<le> 8"
proof -
  have bound: "\<exists>i. num_min (Fin 8) (num_max (Fin 1) n) = Fin (of_int i) \<and> 1 \<le> i \<and> i \<le> 8"
    if ok: "n \<noteq> NaN" "is_finite n \<longrightarrow> (\<exists>j. n = Fin (of_int j))" for n
  proof (cases n)
    case (Fin q)
    then obtain j where j: "q = of_int j" using ok(2) by auto
    show ?thesis unfolding Fin j
      by (rule exI[of _ "min 8 (max 1 j)"]) (auto simp: num_min_def num_max_def min_def max_def)
  next
    case PosInf
    then show ?thesis by (intro exI[of _ 8]) (simp add: num_min_def num_max_def)
  next
    case NegInf
    then show ?thesis by (intro exI[of _ 1]) (simp add: num_min_def num_max_def)
  qed (use ok in simp)
  have r: "math_round n \<noteq> NaN \<longleftrightarrow> n \<noteq> NaN" "is_finite (math_round n) \<longrightarrow> (\<exists>j. math_round n = Fin (of_int j))" for n
    by (cases n; force simp: math_round.simps(1))+
  have "nonzero_or n (Fin 4) \<noteq> NaN" for n by (simp add: nonzero_or_def)
  then show ?thesis unfolding goal_tool_calls_def
    using r by (intro bound) (auto intro: exI[of _ "int k"])
qed

text \<open>C22: A goal that was accepted passes the check of its later runs, with the same template, cadence and tools, and it may call each of
  its tools in a run: the columns that are stored hold a well-formed goal.\<close>

theorem accepted_goal_runs:
  assumes "buildBusinessGoalTask body = Built p"
  shows "\<exists>v. validateBusinessGoalTask (Some (goal_trigger p)) (Some (JArr (map JStr (gp_allowedTools p)))) (Some (budget_value (gp_maxToolCalls p))) = Valid v \<and>
    gt_key (vg_template v) = gp_templateKey p \<and> vg_cadence v = gp_cadence p \<and> vg_tools v = gp_allowedTools p \<and>
    (\<exists>i. vg_maxToolCalls v = Fin (of_int i) \<and> int (length (vg_tools v)) \<le> i \<and> i \<le> 8) \<and>
    vg_budgetAdjusted v = num_lt (gp_maxToolCalls p) (Fin (of_nat (length (gp_allowedTools p)))) \<and>
    gp_objective p \<noteq> [] \<and> length (gp_objective p) \<le> 500 \<and> gp_cadence p \<in> set cadences \<and> \<not> gp_executionAllowed p"
proof (rule Built_cases[OF assms])
  fix t
  assume r: "businessGoalTemplate (gp_templateKey p) = Template t" "gp_allowedTools p = gt_tools t"
    "gp_objective p = str_default (clean (fld (dflt body (JObj [])) ''objective'') 500) (gt_objective t)" "gp_cadence p \<in> set cadences"
    "gp_maxToolCalls p = goal_tool_calls (dflt body (JObj [])) (length (gt_tools t))" "\<not> gp_executionAllowed p"
  let ?k = "length (gt_tools t)"
  have t: "template_sound t" "gt_key t = gp_templateKey p" using template_is_sound[OF r(1)] by auto
  obtain i where i: "gp_maxToolCalls p = Fin (of_int i)" "1 \<le> i" "i \<le> 8"
    using goal_tool_calls_range[of ?k "dflt body (JObj [])"] t(1) r(5) by (auto simp: template_sound_def)
  have k: "?k \<le> 6" using t(1) by (simp add: template_sound_def)
  have calls: "allowed_calls ?k (Fin (of_int i)) = Fin (of_int (max (int ?k) i))"
  proof -
    have "num_max (Fin (of_nat ?k)) (Fin (of_int i)) = Fin (of_int (max (int ?k) i))"
    proof -
      have "num_max (Fin (of_int a)) (Fin (of_int b)) = Fin (of_int (max a b))" for a b :: int by (simp add: num_max_def max_def)
      from this[of "int ?k" i] show ?thesis by simp
    qed
    moreover have "num_min (Fin 8) (Fin (of_int j)) = Fin (of_int j)" if "j \<le> 8" for j
      using that by (auto simp: num_min_def)
    ultimately show ?thesis using k i(3) by (simp add: allowed_calls_def)
  qed
  have objective: "gp_objective p \<noteq> []" "length (gp_objective p) \<le> 500"
    using t(1) r(3) length_clean by (auto simp: str_default_def template_sound_def)
  have "validateBusinessGoalTask (Some (goal_trigger p)) (Some (JArr (map JStr (gp_allowedTools p)))) (Some (budget_value (gp_maxToolCalls p))) =
      Valid \<lparr>vg_template = t, vg_cadence = gp_cadence p, vg_tools = gt_tools t, vg_maxToolCalls = Fin (of_int (max (int ?k) i)),
        vg_budgetAdjusted = (i < int ?k)\<rparr>"
    using t r(1,2,4) i(1) calls cadence_clean[OF r(4)]
    by (auto simp: validateBusinessGoalTask_def parse_col_def goal_trigger_def budget_value_def plain_budget_def external_actions_def
        template_sound_def str_default_def num_eq_def)
  then show ?thesis using t r(2,4,6) i objective by (auto simp: template_sound_def)
qed

lemma next_after_first:
  assumes "0 < interval" "next_after interval anchor now = (t, skipped)"
  shows "now < t" "anchor < t" "t = anchor + (skipped + 1) * interval" "0 \<le> skipped" "t - interval \<le> max now anchor"
proof -
  let ?e = "max 0 (now - anchor)"
  have e: "0 \<le> ?e div interval" using assms(1) by (simp add: pos_imp_zdiv_nonneg_iff)
  then have d: "t = anchor + (?e div interval + 1) * interval" "skipped = ?e div interval"
    using assms(2) by (auto simp: next_after_def Let_def)
  have m: "?e div interval * interval = ?e - ?e mod interval" by (rule minus_mod_eq_div_mult [symmetric])
  have r: "0 \<le> ?e mod interval" "?e mod interval < interval" using assms(1) by simp_all
  have t: "t = anchor + ?e - ?e mod interval + interval" using d(1) m by (simp add: algebra_simps)
  show "now < t" "anchor < t" "t - interval \<le> max now anchor" using t r by (auto split: if_splits simp: max_def)
  show "t = anchor + (skipped + 1) * interval" "0 \<le> skipped" using d e by simp_all
qed

lemma cadence_ms_pos: "0 < cadence_ms c"
  by (simp add: cadence_ms_def)

text \<open>The next occurrence lies in the future, on the grid of the cadence that starts at the last one, and it is the first such; the
  occurrences in between are counted as skipped.\<close>

theorem next_occurrence:
  assumes "nextBusinessGoalRunAt dp (Valid v) scheduledFor now = Next s" "dp scheduledFor = Some anchor"
  shows "\<exists>t. sc_at s = iso_text t \<and> now < t \<and> anchor < t \<and> t = anchor + (sc_skipped s + 1) * cadence_ms (vg_cadence v) \<and>
    t - cadence_ms (vg_cadence v) \<le> max now anchor \<and> 0 \<le> sc_skipped s"
proof -
  obtain t k where n: "next_after (cadence_ms (vg_cadence v)) anchor now = (t, k)" by fastforce
  then have "sc_at s = iso_text t" "sc_skipped s = k"
    using assms by (auto simp: nextBusinessGoalRunAt_def split: if_splits)
  then show ?thesis using next_after_first[OF cadence_ms_pos n] by auto
qed

theorem accepted_goal_runs_witness:
  "\<exists>p v. buildBusinessGoalTask (JObj [(''templateKey'', JStr ''grow_sales''), (''cadence'', JStr '' weekly '')]) = Built p \<and>
    validateBusinessGoalTask (Some (goal_trigger p)) (Some (JArr (map JStr (gp_allowedTools p)))) (Some (budget_value (gp_maxToolCalls p))) = Valid v \<and>
    vg_cadence v = ''weekly''"
proof -
  have "(case buildBusinessGoalTask (JObj [(''templateKey'', JStr ''grow_sales''), (''cadence'', JStr '' weekly '')]) of
      Built p \<Rightarrow> gp_cadence p = ''weekly'' | _ \<Rightarrow> False)" by code_simp
  then obtain p where p: "buildBusinessGoalTask (JObj [(''templateKey'', JStr ''grow_sales''), (''cadence'', JStr '' weekly '')]) = Built p" "gp_cadence p = ''weekly''"
    by (auto split: build_result.splits)
  show ?thesis using accepted_goal_runs[OF p(1)] p by auto
qed

end
