(* ===== verification/AuthorityStore.thy ===== *)
theory AuthorityStore imports DelegatedAuthority "HOL-Library.List_Lexorder" begin

text \<open>
  The delegations a tenant's owner grants and the intents that are evaluated against them in shadow mode:
  \<^verbatim>\<open>agentic-authority-core.js\<close> on the tables of \<^verbatim>\<open>047_v81_delegated_authority.sql\<close>. A request
  reads the tables (the state \<open>db0\<close>) before it writes them (the state \<open>db\<close>), so other requests may come in
  between. The session, the hash, fresh ids and whether a read answers are parameters. A stored time is text: an ISO
  text from a request, while \<^verbatim>\<open>CURRENT_TIMESTAMP\<close> has a blank where the ISO text has a \<^verbatim>\<open>T\<close>.
\<close>

section \<open>Sessions and requests\<close>

record session =
  se_tenant :: string
  se_user :: string
  se_role :: string

definition roleAllowed :: "session \<Rightarrow> string list \<Rightarrow> bool" where
  "roleAllowed s roles \<longleftrightarrow> lower (se_role s) \<in> set roles"

text \<open>A body that could not be read is its status and its error.\<close>

type_synonym request_body = "(nat \<times> string) + jsval"

definition requestBodyErrorStatus :: "string \<Rightarrow> nat" where
  "requestBodyErrorStatus e = (if e = ''request_too_large'' then 413 else if e = ''unsupported_content_encoding'' then 415 else 400)"

text \<open>\<^verbatim>\<open>undefined\<close>, \<^verbatim>\<open>null\<close> or a number.\<close>

datatype bounded = Out_Of_Range | No_Limit | Limit int

definition boundedInt :: "int \<Rightarrow> int \<Rightarrow> bool \<Rightarrow> jsval \<Rightarrow> bounded" where
  "boundedInt lo hi nullable v =
    (if nullable \<and> (nullish v \<or> v = JStr []) then No_Limit
     else (case to_num v of Fin q \<Rightarrow> if integral q \<and> of_int lo \<le> q \<and> q \<le> of_int hi then Limit \<lfloor>q\<rfloor> else Out_Of_Range | _ \<Rightarrow> Out_Of_Range))"

fun limit_value :: "bounded \<Rightarrow> int option" where
  "limit_value (Limit i) = Some i"
| "limit_value _ = None"

definition authority_validIso :: "date_parse \<Rightarrow> jsval \<Rightarrow> string option" where
  "authority_validIso dp v = (if nullish v \<or> v = JStr [] then None
     else (case date_ms dp v of Fin t \<Rightarrow> Some (iso_text \<lfloor>t\<rfloor>) | _ \<Rightarrow> None))"

definition actionStatus :: "string \<Rightarrow> string" where
  "actionStatus d = (if d = ''shadow_allow'' \<or> d = ''policy_allow'' then ''ready'' else if d = ''review_required'' then ''review_required'' else ''blocked'')"

text \<open>No server-attested strong authentication exists yet.\<close>

definition strongAuthPresent :: jsval where "strongAuthPresent = JStr ''none''"

section \<open>The tables\<close>

text \<open>\<open>dr_user\<close> stands for \<^verbatim>\<open>created_by_user_id\<close> and \<^verbatim>\<open>approved_by_user_id\<close>: the one insert of the code
  writes the same user into both, and no statement changes them.\<close>

record delegation_row =
  dr_id :: string
  dr_tenant :: string
  dr_agent :: string
  dr_action :: string
  dr_status :: string
  dr_level :: int
  dr_external :: bool
  dr_strong :: bool
  dr_human :: bool
  dr_daily :: "int option"
  dr_amount :: "int option"
  dr_shadow :: bool
  dr_from :: "string option"
  dr_until :: "string option"
  dr_user :: string

record intent_row =
  in_id :: string
  in_tenant :: string
  in_run :: "string option"
  in_proposal :: "string option"
  in_action :: string
  in_user :: string
  in_delegation :: "string option"
  in_decision :: string
  in_code :: string
  in_level :: int
  in_amount :: int
  in_hash :: string
  in_key :: string
  in_status :: string
  in_at :: int

record delegation_event =
  de_id :: string
  de_tenant :: string
  de_delegation :: string
  de_type :: string
  de_user :: string

text \<open>Runs and proposals are owned elsewhere; the tables hold their tenants and ids. The clock is in milliseconds.\<close>

record authority_db =
  ad_delegations :: "delegation_row list"
  ad_intents :: "intent_row list"
  ad_events :: "delegation_event list"
  ad_runs :: "(string \<times> string) list"
  ad_proposals :: "(string \<times> string) list"
  ad_now :: int

definition bit_value :: "bool \<Rightarrow> jsval" where
  "bit_value b = JInt (if b then 1 else 0)"

definition opt_int :: "int option \<Rightarrow> jsval" where
  "opt_int v = (case v of None \<Rightarrow> Null | Some i \<Rightarrow> JInt i)"

definition opt_str :: "string option \<Rightarrow> jsval" where
  "opt_str v = (case v of None \<Rightarrow> Null | Some s \<Rightarrow> JStr s)"

text \<open>A row as the object a query returns.\<close>

definition row_value :: "delegation_row \<Rightarrow> jsval" where
  "row_value r = JObj [(''id'', JStr (dr_id r)), (''tenant_id'', JStr (dr_tenant r)), (''agent_key'', JStr (dr_agent r)), (''action_key'', JStr (dr_action r)),
     (''status'', JStr (dr_status r)), (''max_autonomy_level'', JInt (dr_level r)), (''external_side_effects'', bit_value (dr_external r)),
     (''strong_auth_required'', bit_value (dr_strong r)), (''human_confirmation_required'', bit_value (dr_human r)), (''max_daily_actions'', opt_int (dr_daily r)),
     (''max_amount_minor'', opt_int (dr_amount r)), (''shadow_only'', bit_value (dr_shadow r)), (''valid_from'', opt_str (dr_from r)),
     (''expires_at'', opt_str (dr_until r))]"

section \<open>Delegations\<close>

text \<open>A delegation as the list shows it: the grant, the legacy agent key and the capability of its action.\<close>

definition delegationForApi :: "delegation_row \<Rightarrow> (grant \<times> string option \<times> string) option" where
  "delegationForApi r = map_option (\<lambda>g. (g\<lparr>g_agentKey := ''thebe''\<rparr>,
      if g_agentKey g \<noteq> [] \<and> g_agentKey g \<noteq> ''thebe'' then Some (g_agentKey g) else None,
      case AGENT_ACTION_CATALOG (g_actionKey g) of None \<Rightarrow> ''core'' | Some d \<Rightarrow> str_or (jor (JStr (a_capability d)) (JStr ''core''))))
    (normalizeDelegation (row_value r))"

definition listDelegations :: "session \<Rightarrow> bool \<Rightarrow> authority_db \<Rightarrow> (grant \<times> string option \<times> string) option list option" where
  "listDelegations auth up db = (if \<not> up then None
     else Some (map delegationForApi (take 100 (filter (\<lambda>r. dr_tenant r = se_tenant auth) (rev (ad_delegations db))))))"

definition active_for :: "string \<Rightarrow> string \<Rightarrow> string \<Rightarrow> delegation_row \<Rightarrow> bool" where
  "active_for tenant agent action r \<longleftrightarrow> dr_tenant r = tenant \<and> dr_agent r = agent \<and> dr_action r = action \<and> dr_status r = ''active''"

datatype authority_reply =
    Auth_Throws
  | Auth_Error nat string
  | Delegation_Created delegation_row
  | Delegation_Moved string string

definition insert_delegation :: "delegation_row \<Rightarrow> string \<Rightarrow> authority_db \<Rightarrow> authority_db option" where
  "insert_delegation r eid db =
    (if list_ex (\<lambda>x. dr_id x = dr_id r \<or> (dr_status r = ''active'' \<and> active_for (dr_tenant r) (dr_agent r) (dr_action r) x)) (ad_delegations db)
        \<or> list_ex (\<lambda>e. de_id e = eid) (ad_events db) then None
     else Some (db\<lparr>ad_delegations := ad_delegations db @ [r],
       ad_events := ad_events db @ [\<lparr>de_id = eid, de_tenant = dr_tenant r, de_delegation = dr_id r, de_type = ''CREATED'', de_user = dr_user r\<rparr>]\<rparr>))"

text \<open>The action a delegation may be about: the refusal, or its definition.\<close>

definition delegable_action :: "jsval \<Rightarrow> authority_reply + action_def" where
  "delegable_action body =
    (let requested = JStr (text_of (fld body ''agentKey'') 80); actionKey = text_of (fld body ''actionKey'') 120
     in if resolveAgentKey requested = None then Inl (Auth_Error 400 ''unknown_agent'')
        else case AGENT_ACTION_CATALOG actionKey of
          None \<Rightarrow> Inl (Auth_Error 400 ''unknown_action'')
        | Some d \<Rightarrow>
            if \<not> agentCanRouteAction requested (Some d) then Inl (Auth_Error 400 ''agent_action_mismatch'')
            else if ''owner'' \<notin> set (a_roles d) then Inl (Auth_Error 400 ''owner_not_authorized_for_action'')
            else if isNeverAutonomousAction (JStr actionKey) \<or> requiredAutonomyLevel (Some d) \<ge> level_human_only then Inl (Auth_Error 409 ''human_only_action'')
            else if requiredAutonomyLevel (Some d) < level_bounded_execute then Inl (Auth_Error 409 ''delegation_not_required'')
            else Inr d)"

text \<open>The row a request asks for, once its action is known.\<close>

definition requested_delegation :: "date_parse \<Rightarrow> session \<Rightarrow> jsval \<Rightarrow> action_def \<Rightarrow> string \<Rightarrow> string + delegation_row" where
  "requested_delegation dp auth body d did =
    (let level = boundedInt (requiredAutonomyLevel (Some d)) level_bounded_execute False (fld body ''maxAutonomyLevel'');
         daily = boundedInt 1 1000 True (fld body ''maxDailyActions''); amount = boundedInt 0 max_safe True (fld body ''maxAmountMinor'');
         from_at = authority_validIso dp (fld body ''validFrom''); until = authority_validIso dp (fld body ''expiresAt'');
         external = a_externalSideEffect d \<and> is_true (fld body ''externalSideEffects'')
     in case level of
          Limit l \<Rightarrow>
            if daily = Out_Of_Range then Inl ''invalid_daily_action_limit''
            else if amount = Out_Of_Range then Inl ''invalid_amount_limit''
            else if truthy (fld body ''validFrom'') \<and> from_at = None then Inl ''invalid_valid_from''
            else if truthy (fld body ''expiresAt'') \<and> until = None then Inl ''invalid_expires_at''
            else if from_at \<noteq> None \<and> until \<noteq> None \<and> num_le (date_ms dp (opt_str until)) (date_ms dp (opt_str from_at)) then Inl ''invalid_delegation_window''
            else Inr \<lparr>dr_id = did, dr_tenant = se_tenant auth, dr_agent = ''thebe'', dr_action = text_of (fld body ''actionKey'') 120, dr_status = ''active'', dr_level = l,
              dr_external = external, dr_strong = (external \<or> is_true (fld body ''strongAuthRequired'')), dr_human = True, dr_daily = limit_value daily,
              dr_amount = limit_value amount, dr_shadow = True, dr_from = from_at, dr_until = until, dr_user = se_user auth\<rparr>
        | _ \<Rightarrow> Inl ''invalid_autonomy_level'')"

definition find_active :: "bool \<Rightarrow> string \<Rightarrow> string \<Rightarrow> authority_db \<Rightarrow> delegation_row option" where
  "find_active up tenant action db = (if up then find (active_for tenant ''thebe'' action) (ad_delegations db) else None)"

definition createDelegation :: "date_parse \<Rightarrow> session \<Rightarrow> bool \<Rightarrow> bool \<Rightarrow> request_body \<Rightarrow> string \<Rightarrow> string \<Rightarrow> authority_db \<Rightarrow> authority_db \<Rightarrow> authority_reply \<times> authority_db" where
  "createDelegation dp auth ready up body did eid db0 db =
    (if \<not> roleAllowed auth [''owner''] then (Auth_Error 403 ''owner_required'', db)
     else if \<not> ready then (Auth_Error 503 ''authority_schema_not_ready'', db)
     else case body of Inl (code, e) \<Rightarrow> (Auth_Error code e, db)
     | Inr b \<Rightarrow> (case delegable_action b of Inl a \<Rightarrow> (a, db)
         | Inr d \<Rightarrow>
             (if find_active up (se_tenant auth) (text_of (fld b ''actionKey'') 120) db0 \<noteq> None then (Auth_Error 409 ''active_delegation_exists'', db)
              else case requested_delegation dp auth b d did of Inl e \<Rightarrow> (Auth_Error 400 e, db)
              | Inr r \<Rightarrow> (case insert_delegation r eid db of
                    Some db1 \<Rightarrow> (Delegation_Created r, db1)
                  | None \<Rightarrow> (if find_active up (se_tenant auth) (dr_action r) db \<noteq> None then Auth_Error 409 ''active_delegation_exists''
                      else Auth_Error 500 ''delegation_create_failed'', db)))))"

datatype command = Pause_It | Revoke_It

fun command_status :: "command \<Rightarrow> string" where
  "command_status Pause_It = ''paused''"
| "command_status Revoke_It = ''revoked''"

fun allowed_current :: "command \<Rightarrow> string list" where
  "allowed_current Pause_It = [''active'']"
| "allowed_current Revoke_It = [''active'', ''paused'']"

definition delegation_at :: "string \<Rightarrow> string \<Rightarrow> authority_db \<Rightarrow> delegation_row option" where
  "delegation_at tenant did db = find (\<lambda>r. dr_id r = did \<and> dr_tenant r = tenant) (ad_delegations db)"

definition state_error :: "delegation_row \<Rightarrow> authority_reply" where
  "state_error r = Auth_Error 409 (if dr_status r = ''revoked'' then ''delegation_already_revoked'' else ''delegation_state_conflict'')"

definition delegation_movable :: "string \<Rightarrow> string \<Rightarrow> command \<Rightarrow> delegation_row \<Rightarrow> bool" where
  "delegation_movable tenant did c r \<longleftrightarrow> dr_id r = did \<and> dr_tenant r = tenant \<and> dr_status r \<in> set (allowed_current c)"

definition mutateDelegation :: "session \<Rightarrow> bool \<Rightarrow> string \<Rightarrow> command \<Rightarrow> string \<Rightarrow> authority_db \<Rightarrow> authority_db \<Rightarrow> authority_reply \<times> authority_db" where
  "mutateDelegation auth ready did c eid db0 db =
    (let p = delegation_movable (se_tenant auth) did c; k = length (filter p (ad_delegations db))
     in if \<not> roleAllowed auth [''owner''] then (Auth_Error 403 ''owner_required'', db)
        else if \<not> ready then (Auth_Error 503 ''authority_schema_not_ready'', db)
        else case delegation_at (se_tenant auth) did db0 of
          None \<Rightarrow> (Auth_Error 404 ''delegation_not_found'', db)
        | Some r \<Rightarrow>
            (if dr_status r \<notin> set (allowed_current c) then (state_error r, db)
             else if k = 1 \<and> list_ex (\<lambda>e. de_id e = eid) (ad_events db) then (Auth_Throws, db)
             else let db1 = db\<lparr>ad_delegations := update_where p (\<lambda>r. r\<lparr>dr_status := command_status c\<rparr>) (ad_delegations db),
                    ad_events := ad_events db @ (if k = 1 then [\<lparr>de_id = eid, de_tenant = se_tenant auth, de_delegation = did,
                      de_type = (case c of Pause_It \<Rightarrow> ''PAUSED'' | Revoke_It \<Rightarrow> ''REVOKED''), de_user = se_user auth\<rparr>] else [])\<rparr>
               in (if k = 1 then Delegation_Moved did (command_status c)
                   else (case delegation_at (se_tenant auth) did db1 of None \<Rightarrow> Auth_Error 404 ''delegation_not_found'' | Some x \<Rightarrow> state_error x), db1)))"

section \<open>The delegation of an action\<close>

text \<open>\<^verbatim>\<open>CURRENT_TIMESTAMP\<close>, and the comparison of the stored times with it, as texts.\<close>

definition sql_stamp :: "int \<Rightarrow> string" where
  "sql_stamp t = (let ms = t mod 86400000 in
     date_text (t div 86400000) @ '' '' @ pad_int 2 (ms div 3600000) @ '':'' @ pad_int 2 (ms div 60000 mod 60) @ '':'' @ pad_int 2 (ms div 1000 mod 60))"

definition in_validity :: "int \<Rightarrow> delegation_row \<Rightarrow> bool" where
  "in_validity now r \<longleftrightarrow> (case dr_from r of None \<Rightarrow> True | Some f \<Rightarrow> f \<le> sql_stamp now) \<and> (case dr_until r of None \<Rightarrow> True | Some u \<Rightarrow> sql_stamp now < u)"

definition live_delegation :: "int \<Rightarrow> delegation_row \<Rightarrow> bool" where
  "live_delegation now r \<longleftrightarrow> dr_status r = ''active'' \<and> in_validity now r"

text \<open>The newest row is the last; a row of Thebe comes before one of a legacy agent.\<close>

definition activeDelegation :: "string \<Rightarrow> string \<Rightarrow> string \<Rightarrow> authority_db \<Rightarrow> delegation_row option" where
  "activeDelegation tenant requestedAgentKey action db =
    (let requested = lower (trim requestedAgentKey);
         rows = filter (\<lambda>r. dr_tenant r = tenant \<and> dr_action r = action \<and> live_delegation (ad_now db) r) (rev (ad_delegations db));
         thebe = find (\<lambda>r. dr_agent r = ''thebe'') rows
     in if requested = ''thebe'' then thebe
        else case thebe of Some r \<Rightarrow> Some r | None \<Rightarrow> find (\<lambda>r. dr_agent r = requested) rows)"

section \<open>Shadow evaluation\<close>

definition intent_at :: "string \<Rightarrow> string \<Rightarrow> authority_db \<Rightarrow> intent_row option" where
  "intent_at tenant key db = find (\<lambda>i. in_tenant i = tenant \<and> in_key i = key) (ad_intents db)"

record shadow_request =
  sr_agent :: string
  sr_action :: string
  sr_definition :: action_def
  sr_amount :: int
  sr_confirmed :: bool
  sr_run :: "string option"
  sr_proposal :: "string option"
  sr_metadata :: jsval

datatype shadow_reply =
    Shadow_Error nat string
  | Shadow_Replay intent_row
  | Shadow_New intent_row authority_result

definition opt_field :: "jsval \<Rightarrow> string option" where
  "opt_field v = (if truthy v then Some (text_of v 120) else None)"

definition read_shadow_fields :: "session \<Rightarrow> jsval \<Rightarrow> shadow_reply + shadow_request" where
  "read_shadow_fields auth body =
    (let agent = text_of (fld body ''agentKey'') 80; actionKey = text_of (fld body ''actionKey'') 120; role = lower (se_role auth)
     in if resolveAgentKey (JStr agent) = None then Inl (Shadow_Error 400 ''unknown_agent'')
        else case AGENT_ACTION_CATALOG actionKey of
          None \<Rightarrow> Inl (Shadow_Error 400 ''unknown_action'')
        | Some d \<Rightarrow>
            if \<not> agentCanRouteAction (JStr agent) (Some d) then Inl (Shadow_Error 403 ''agent_action_mismatch'')
            else if role \<notin> set thebe_allowed_roles \<or> role \<notin> set (a_roles d) then Inl (Shadow_Error 403 ''role_forbidden'')
            else (case boundedInt 0 max_safe False (fld body ''amountMinor'') of
                Limit amount \<Rightarrow> Inr \<lparr>sr_agent = agent, sr_action = actionKey, sr_definition = d, sr_amount = amount,
                  sr_confirmed = is_true (fld body ''humanConfirmed''), sr_run = opt_field (fld body ''runId''), sr_proposal = opt_field (fld body ''proposalId''),
                  sr_metadata = (case fld body ''metadata'' of JObj kvs \<Rightarrow> JObj kvs | _ \<Rightarrow> JObj [])\<rparr>
              | _ \<Rightarrow> Inl (Shadow_Error 400 ''invalid_amount_minor'')))"

definition link_found :: "bool \<Rightarrow> string option \<Rightarrow> string \<Rightarrow> (string \<times> string) list \<Rightarrow> bool" where
  "link_found up v tenant rows = (case v of None \<Rightarrow> True | Some i \<Rightarrow> i = [] \<or> (up \<and> (tenant, i) \<in> set rows))"

definition read_shadow_request :: "session \<Rightarrow> bool \<Rightarrow> jsval \<Rightarrow> authority_db \<Rightarrow> shadow_reply + shadow_request" where
  "read_shadow_request auth up body db = (case read_shadow_fields auth body of Inl a \<Rightarrow> Inl a
    | Inr q \<Rightarrow> if \<not> link_found up (sr_run q) (se_tenant auth) (ad_runs db) then Inl (Shadow_Error 404 ''run_not_found'')
        else if \<not> link_found up (sr_proposal q) (se_tenant auth) (ad_proposals db) then Inl (Shadow_Error 404 ''proposal_not_found'')
        else Inr q)"

definition payload_text :: "shadow_request \<Rightarrow> string" where
  "payload_text q = json (JObj [(''agentKey'', JStr ''thebe''), (''actionKey'', JStr (sr_action q)), (''amountMinor'', JInt (sr_amount q)),
     (''humanConfirmed'', JBool (sr_confirmed q)), (''runId'', opt_str (sr_run q)), (''proposalId'', opt_str (sr_proposal q)), (''metadata'', sr_metadata q)])"

definition used_today :: "string \<Rightarrow> string \<Rightarrow> authority_db \<Rightarrow> nat" where
  "used_today tenant did db =
    length (filter (\<lambda>i. in_tenant i = tenant \<and> in_delegation i = Some did \<and> in_at i div 86400000 \<ge> ad_now db div 86400000 \<and> in_decision i = ''shadow_allow'') (ad_intents db))"

definition shadow_decision :: "date_parse \<Rightarrow> shadow_request \<Rightarrow> delegation_row option \<Rightarrow> nat \<Rightarrow> int \<Rightarrow> authority_result" where
  "shadow_decision dp q r used now =
    evaluateDelegatedAuthority dp \<lparr>h_agentKey = JStr ''thebe'', h_actionKey = JStr (sr_action q), h_actionDefinition = Some (sr_definition q), h_tenantId = Undef,
      h_delegation = (case r of None \<Rightarrow> Null | Some x \<Rightarrow> row_value (x\<lparr>dr_agent := ''thebe''\<rparr>)), h_mode = JStr ''shadow'', h_globalExecutionEnabled = JBool False,
      h_amountMinor = JInt (sr_amount q), h_dailyActionCount = JInt (int used), h_strongAuth = strongAuthPresent,
      h_approvalState = JStr (if sr_confirmed q then ''approved'' else ''none''), h_now = Fin (of_int now)\<rparr>"

definition decided_intent :: "session \<Rightarrow> shadow_request \<Rightarrow> string \<Rightarrow> string \<Rightarrow> delegation_row option \<Rightarrow> authority_result \<Rightarrow> string \<Rightarrow> int \<Rightarrow> intent_row" where
  "decided_intent auth q key hash r d iid now =
    \<lparr>in_id = iid, in_tenant = se_tenant auth, in_run = sr_run q, in_proposal = sr_proposal q, in_action = sr_action q, in_user = se_user auth,
     in_delegation = map_option dr_id r, in_decision = r_decision d, in_code = r_code d, in_level = r_requiredAutonomyLevel d, in_amount = sr_amount q,
     in_hash = hash, in_key = key, in_status = actionStatus (r_decision d), in_at = now\<rparr>"

text \<open>The unique keys and the tenant triggers of the intents, and the batch.\<close>

definition intent_refused :: "intent_row \<Rightarrow> authority_db \<Rightarrow> bool" where
  "intent_refused i db \<longleftrightarrow>
    list_ex (\<lambda>x. in_id x = in_id i \<or> (in_tenant x = in_tenant i \<and> in_key x = in_key i)) (ad_intents db) \<or>
    (case in_run i of None \<Rightarrow> False | Some x \<Rightarrow> (in_tenant i, x) \<notin> set (ad_runs db)) \<or>
    (case in_proposal i of None \<Rightarrow> False | Some x \<Rightarrow> (in_tenant i, x) \<notin> set (ad_proposals db)) \<or>
    (case in_delegation i of None \<Rightarrow> False | Some x \<Rightarrow> delegation_at (in_tenant i) x db = None)"

definition insert_intent :: "intent_row \<Rightarrow> string \<Rightarrow> authority_db \<Rightarrow> authority_db option" where
  "insert_intent i eid db =
    (if intent_refused i db \<or> (in_delegation i \<noteq> None \<and> list_ex (\<lambda>e. de_id e = eid) (ad_events db)) then None
     else Some (db\<lparr>ad_intents := ad_intents db @ [i],
       ad_events := ad_events db @ (case in_delegation i of None \<Rightarrow> []
         | Some x \<Rightarrow> [\<lparr>de_id = eid, de_tenant = in_tenant i, de_delegation = x, de_type = ''SHADOW_EVALUATED'', de_user = in_user i\<rparr>])\<rparr>))"

definition replay_or_conflict :: "intent_row \<Rightarrow> string \<Rightarrow> shadow_reply" where
  "replay_or_conflict i hash = (if in_hash i \<noteq> hash then Shadow_Error 409 ''idempotency_key_conflict'' else Shadow_Replay i)"

text \<open>The evaluation on what is read, and the batch that records it; a batch that fails is read again.\<close>

definition shadow_grant :: "session \<Rightarrow> bool \<Rightarrow> shadow_request \<Rightarrow> authority_db \<Rightarrow> delegation_row option" where
  "shadow_grant auth up q db = (if up then activeDelegation (se_tenant auth) (sr_agent q) (sr_action q) db else None)"

definition shadow_outcome :: "date_parse \<Rightarrow> session \<Rightarrow> bool \<Rightarrow> shadow_request \<Rightarrow> authority_db \<Rightarrow> authority_result" where
  "shadow_outcome dp auth up q db =
    (let r = shadow_grant auth up q db
     in shadow_decision dp q r (case r of None \<Rightarrow> 0 | Some x \<Rightarrow> used_today (se_tenant auth) (dr_id x) db) (ad_now db))"

definition record_shadow :: "intent_row \<Rightarrow> authority_result \<Rightarrow> string \<Rightarrow> bool \<Rightarrow> authority_db \<Rightarrow> shadow_reply \<times> authority_db" where
  "record_shadow i d eid up db = (case insert_intent i eid db of
      Some db1 \<Rightarrow> (Shadow_New i d, db1)
    | None \<Rightarrow> (case (if up then intent_at (in_tenant i) (in_key i) db else None) of
          Some x \<Rightarrow> (replay_or_conflict x (in_hash i), db)
        | None \<Rightarrow> (Shadow_Error 500 ''shadow_intent_create_failed'', db)))"

definition shadowEvaluate ::
    "date_parse \<Rightarrow> (string \<Rightarrow> string) \<Rightarrow> session \<Rightarrow> bool \<Rightarrow> bool \<Rightarrow> jsval \<Rightarrow> request_body \<Rightarrow> string \<Rightarrow> string \<Rightarrow> authority_db \<Rightarrow> authority_db \<Rightarrow> shadow_reply \<times> authority_db" where
  "shadowEvaluate dp sha auth ready up header body iid eid db0 db =
    (let key = text_of header 200
     in if \<not> roleAllowed auth [''owner'', ''manager''] then (Shadow_Error 403 ''forbidden'', db)
        else if \<not> ready then (Shadow_Error 503 ''authority_schema_not_ready'', db)
        else if length key < 8 then (Shadow_Error 400 ''idempotency_key_required'', db)
        else case body of Inl (code, e) \<Rightarrow> (Shadow_Error code e, db)
        | Inr b \<Rightarrow> (case read_shadow_request auth up b db0 of Inl a \<Rightarrow> (a, db)
            | Inr q \<Rightarrow> (case (if up then intent_at (se_tenant auth) key db0 else None) of
                  Some i \<Rightarrow> (replay_or_conflict i (sha (payload_text q)), db)
                | None \<Rightarrow> (let d = shadow_outcome dp auth up q db0
                    in record_shadow (decided_intent auth q key (sha (payload_text q)) (shadow_grant auth up q db0) d iid (ad_now db)) d eid up db))))"

end
