(* ===== verification/PersistentTasks.thy ===== *)
theory PersistentTasks imports BusinessGoals AuthorityStore begin

text \<open>
  The persistent tasks of a tenant (\<^verbatim>\<open>agentic-persistent-tasks.js\<close>), with the preflight of their tools
  (\<^verbatim>\<open>agent-security-gate.js\<close>) and the tables and triggers of
  \<^verbatim>\<open>051_v117_persistent_agent_tasks.sql\<close> and \<^verbatim>\<open>065_v243_business_goal_observer.sql\<close>: what a task may be,
  the creation of a task and of a business goal, and the owner's transitions. A request that changes a status reads
  the row and later writes it under a guard, so other writers may come in between. The read-only list and the
  model preflight are left out.
\<close>

section \<open>The preflight of a tool\<close>

definition AGENT_SECURITY_GATE_VERSION :: string where "AGENT_SECURITY_GATE_VERSION = ''2026-10-09.v3''"

record gate_decision =
  ga_allowed :: bool
  ga_executionAllowed :: bool
  ga_reason :: string

definition gate_deny :: "string \<Rightarrow> gate_decision" where
  "gate_deny reason = \<lparr>ga_allowed = False, ga_executionAllowed = False, ga_reason = reason\<rparr>"

text \<open>A string without blanks around it.\<close>

definition tidy :: "jsval \<Rightarrow> bool" where
  "tidy v = (case v of JStr s \<Rightarrow> trim s \<noteq> [] \<and> s = trim s | _ \<Rightarrow> False)"

definition gate_evaluateAgentAction :: "jsval \<Rightarrow> jsval \<Rightarrow> jsval \<Rightarrow> jsval \<Rightarrow> jsval \<Rightarrow> jsval \<Rightarrow> jsval \<Rightarrow> jsval \<Rightarrow> gate_decision" where
  "gate_evaluateAgentAction tool allowedTools tenantId taskTenantId taskStatus suspended externalDestination policyViolation =
    (if \<not> tidy tenantId \<or> \<not> tidy taskTenantId \<or> tenantId \<noteq> taskTenantId then gate_deny ''tenant_boundary''
     else if dflt suspended (JBool False) \<noteq> JBool False \<or> dflt taskStatus (JStr ''active'') \<noteq> JStr ''active'' then gate_deny ''responsibility_inactive''
     else if dflt policyViolation (JBool False) \<noteq> JBool False then gate_deny ''policy_violation''
     else if \<not> tidy tool \<or> length (js_string tool) > 120 \<or> tool \<notin> set (elems allowedTools) then gate_deny ''tool_not_authorized''
     else if dflt externalDestination (JBool False) \<noteq> JBool False then gate_deny ''external_destination_denied''
     else (let trust = evaluateToolTrust tool Undef Undef (JStr ''internal'') Undef Undef
       in if \<not> td_allowed trust \<or> td_executionAllowed trust then gate_deny (str_default (td_code trust) ''trust_evaluation_failed'')
          else \<lparr>ga_allowed = True, ga_executionAllowed = False, ga_reason = ''preflight_eligible''\<rparr>))"

section \<open>What a task may be\<close>

definition allowedTrigger :: "string list" where "allowedTrigger = [''scheduled'', ''event'', ''manual'']"

definition allowedStatus :: "string list" where "allowedStatus = [''active'', ''paused'', ''completed'', ''cancelled'']"

fun clean_strings :: "jsval list \<Rightarrow> string list option" where
  "clean_strings [] = Some []"
| "clean_strings (v # vs) = (case v of
     JStr s \<Rightarrow> (if clean v 120 = [] then None else map_option ((#) (clean v 120)) (clean_strings vs))
   | _ \<Rightarrow> None)"

definition arrayOfStrings :: "jsval \<Rightarrow> nat \<Rightarrow> string list option" where
  "arrayOfStrings v k = (if \<not> is_array v \<or> length (elems v) > k then None else map_option dedup (clean_strings (elems v)))"

definition plainObject :: "jsval \<Rightarrow> jsval" where
  "plainObject v = (case v of JObj kvs \<Rightarrow> v | _ \<Rightarrow> JObj [])"

definition optionalObject :: "jsval \<Rightarrow> bool" where
  "optionalObject v \<longleftrightarrow> nullish v \<or> (case v of JObj kvs \<Rightarrow> True | _ \<Rightarrow> False)"

text \<open>The stored text of a date, none for no date; an unreadable date is \<open>Inl\<close>.\<close>

definition validIso :: "date_parse \<Rightarrow> jsval \<Rightarrow> unit + string option" where
  "validIso dp v = (if nullish v \<or> v = JStr [] then Inr None
     else (case date_ms dp v of Fin t \<Rightarrow> Inr (Some (iso_text \<lfloor>t\<rfloor>)) | _ \<Rightarrow> Inl ()))"

record task_payload =
  tp_objective :: string
  tp_triggerKind :: string
  tp_triggerSpec :: jsval
  tp_allowedTools :: "string list"
  tp_riskPolicy :: jsval
  tp_approvalPolicy :: jsval
  tp_budget :: jsval
  tp_nextRunAt :: "string option"

definition definition_gate :: "string list \<Rightarrow> string \<Rightarrow> gate_decision" where
  "definition_gate tools t = gate_evaluateAgentAction (JStr t) (JArr (map JStr tools)) (JStr ''task_definition'') (JStr ''task_definition'') Undef Undef Undef Undef"

definition first_denied :: "string list \<Rightarrow> string option" where
  "first_denied tools = (case find (\<lambda>t. \<not> ga_allowed (definition_gate tools t) \<or> ga_executionAllowed (definition_gate tools t)) tools of
     None \<Rightarrow> None | Some t \<Rightarrow> Some (str_default (ga_reason (definition_gate tools t)) ''agent_security_gate_rejected''))"

definition bad_field :: "jsval \<Rightarrow> string option" where
  "bad_field body = find (\<lambda>f. \<not> optionalObject (fld body f)) [''riskPolicy'', ''approvalPolicy'', ''budget'', ''triggerSpec'']"

definition normalizePersistentTask :: "date_parse \<Rightarrow> jsval \<Rightarrow> string + task_payload" where
  "normalizePersistentTask dp body0 =
    (let body = dflt body0 (JObj []); objective = clean (fld body ''objective'') 500; kind = fld body ''triggerKind'';
         triggerKind = str_default (clean kind 20) ''manual''; due = fld body ''nextRunAt''
     in if (case body of JObj kvs \<Rightarrow> False | _ \<Rightarrow> True) then Inl ''invalid_task_payload''
        else if \<not> is_jstr (fld body ''objective'') \<or> objective = [] then Inl ''objective_required''
        else if \<not> nullish kind \<and> \<not> is_jstr kind \<or> triggerKind \<notin> set allowedTrigger then Inl ''invalid_trigger_kind''
        else case arrayOfStrings (coalesce (fld body ''allowedTools'') (JArr [])) 20 of
          None \<Rightarrow> Inl ''invalid_allowed_tools''
        | Some requested \<Rightarrow>
            (case validatePersistentTaskAllowedTools (JArr (map JStr requested)) of
               Inl code \<Rightarrow> Inl code
             | Inr tools \<Rightarrow>
                 (case first_denied tools of Some reason \<Rightarrow> Inl reason
                  | None \<Rightarrow>
                      (if \<not> nullish due \<and> \<not> is_jstr due then Inl ''invalid_next_run_at''
                       else case validIso dp due of Inl _ \<Rightarrow> Inl ''invalid_next_run_at''
                         | Inr next_at \<Rightarrow>
                             (case bad_field body of Some f \<Rightarrow> Inl (''invalid_'' @ f)
                              | None \<Rightarrow> Inr \<lparr>tp_objective = objective, tp_triggerKind = triggerKind, tp_triggerSpec = plainObject (fld body ''triggerSpec''),
                                  tp_allowedTools = tools, tp_riskPolicy = plainObject (fld body ''riskPolicy''),
                                  tp_approvalPolicy = plainObject (fld body ''approvalPolicy''), tp_budget = plainObject (fld body ''budget''),
                                  tp_nextRunAt = next_at\<rparr>)))))"

section \<open>The tables\<close>

record task_row =
  pt_id :: string
  pt_tenant :: string
  pt_owner :: string
  pt_objective :: string
  pt_status :: string
  pt_kind :: string
  pt_trigger :: "jsval option"
  pt_tools :: "jsval option"
  pt_risk :: "jsval option"
  pt_approval :: "jsval option"
  pt_budget :: "jsval option"
  pt_checkpoint :: "jsval option"
  pt_next :: "string option"
  pt_ran :: bool

record task_event =
  te_id :: string
  te_tenant :: string
  te_task :: string
  te_type :: string
  te_data :: jsval

record claim_row =
  cl_id :: string
  cl_tenant :: string
  cl_task :: string
  cl_for :: string
  cl_status :: string
  cl_attempts :: nat
  cl_started :: int
  cl_checkpoint :: "string option"
  cl_error :: "string option"

record checkpoint_row =
  cp_id :: string
  cp_tenant :: string
  cp_task :: string
  cp_hash :: string
  cp_snapshot :: jsval
  cp_for :: "string option"
  cp_observed :: int

text \<open>The clock is in milliseconds; an audit record is its tenant, type and entity.\<close>

record goals_db =
  gd_tasks :: "task_row list"
  gd_events :: "task_event list"
  gd_claims :: "claim_row list"
  gd_checkpoints :: "checkpoint_row list"
  gd_audit :: "(string \<times> string \<times> string) list"
  gd_now :: int

definition BUSINESS_GOAL_KEYS :: "string list" where
  "BUSINESS_GOAL_KEYS = [''protect_cash'', ''grow_sales'', ''stay_compliant'', ''watch_operations'', ''protect_property'', ''morning_brief'']"

text \<open>\<^verbatim>\<open>json_extract(..., '$.templateKey')\<close>, when it is text.\<close>

definition stored_key :: "task_row \<Rightarrow> string option" where
  "stored_key r = (case pt_trigger r of None \<Rightarrow> None | Some v \<Rightarrow> (case fld v ''templateKey'' of JStr k \<Rightarrow> Some k | _ \<Rightarrow> None))"

definition open_status :: "string \<Rightarrow> bool" where
  "open_status s \<longleftrightarrow> s \<in> {''active'', ''paused''}"

text \<open>A goal that is watched, for the triggers against duplicates.\<close>

definition watched :: "task_row \<Rightarrow> bool" where
  "watched r \<longleftrightarrow> open_status (pt_status r) \<and> pt_kind r = ''scheduled'' \<and> (case stored_key r of None \<Rightarrow> False | Some k \<Rightarrow> k \<in> set BUSINESS_GOAL_KEYS)"

definition duplicates :: "task_row \<Rightarrow> task_row \<Rightarrow> bool" where
  "duplicates new r \<longleftrightarrow> pt_tenant r = pt_tenant new \<and> open_status (pt_status r) \<and> pt_kind r = ''scheduled'' \<and> stored_key r = stored_key new"

datatype insert_fault = Taken | Duplicate_Goal

definition insert_task :: "task_row \<Rightarrow> task_row list \<Rightarrow> insert_fault + task_row list" where
  "insert_task new rows =
    (if watched new \<and> list_ex (duplicates new) rows then Inl Duplicate_Goal
     else if list_ex (\<lambda>r. pt_id r = pt_id new) rows then Inl Taken
     else Inr (rows @ [new]))"

text \<open>An update of the status of the rows selected by \<open>p\<close>, with the trigger; \<open>None\<close> when it aborts.\<close>

definition update_status :: "(task_row \<Rightarrow> bool) \<Rightarrow> (task_row \<Rightarrow> task_row) \<Rightarrow> task_row list \<Rightarrow> task_row list option" where
  "update_status p f rows =
    (if list_ex (\<lambda>r. p r \<and> watched (f r) \<and> list_ex (\<lambda>x. pt_id x \<noteq> pt_id r \<and> duplicates (f r) x) rows) rows then None
     else Some (update_where p f rows))"

section \<open>Creation\<close>

datatype task_reply = Task_Throws | Task_Error nat string | Task_Ok nat string string bool

definition new_row :: "string \<Rightarrow> string \<Rightarrow> string \<Rightarrow> string \<Rightarrow> string \<Rightarrow> jsval \<Rightarrow> string list \<Rightarrow> jsval \<Rightarrow> jsval \<Rightarrow> jsval \<Rightarrow> string option \<Rightarrow> task_row" where
  "new_row rid tenant owner objective kind trigger tools risk approval budget due =
    \<lparr>pt_id = rid, pt_tenant = tenant, pt_owner = owner, pt_objective = objective, pt_status = ''active'', pt_kind = kind, pt_trigger = Some trigger,
     pt_tools = Some (JArr (map JStr tools)), pt_risk = Some risk, pt_approval = Some approval, pt_budget = Some budget, pt_checkpoint = None,
     pt_next = due, pt_ran = False\<rparr>"

text \<open>A body that could not be read is its status and error. The ids of the new rows are fresh texts.\<close>

definition create_task :: "date_parse \<Rightarrow> session \<Rightarrow> bool \<Rightarrow> (nat \<times> string) + jsval \<Rightarrow> string \<Rightarrow> string \<Rightarrow> goals_db \<Rightarrow> task_reply \<times> goals_db" where
  "create_task dp auth ready body rid eid db =
    (if \<not> roleAllowed auth [''owner''] then (Task_Error 403 ''owner_required'', db)
     else if \<not> ready then (Task_Error 503 ''persistent_task_schema_not_ready'', db)
     else case body of Inl (code, e) \<Rightarrow> (Task_Error code e, db)
     | Inr b \<Rightarrow>
         (case normalizePersistentTask dp b of Inl e \<Rightarrow> (Task_Error 400 e, db)
          | Inr p \<Rightarrow>
              (case insert_task (new_row rid (se_tenant auth) (se_user auth) (tp_objective p) (tp_triggerKind p) (tp_triggerSpec p) (tp_allowedTools p)
                      (tp_riskPolicy p) (tp_approvalPolicy p) (tp_budget p) (tp_nextRunAt p)) (gd_tasks db) of
                 Inl _ \<Rightarrow> (Task_Throws, db)
               | Inr rows \<Rightarrow>
                   (if list_ex (\<lambda>e. te_id e = eid) (gd_events db) then (Task_Throws, db)
                    else (Task_Ok 201 rid ''active'' False,
                      db\<lparr>gd_tasks := rows,
                         gd_events := gd_events db @ [\<lparr>te_id = eid, te_tenant = se_tenant auth, te_task = rid, te_type = ''CREATED'',
                            te_data = JObj [(''ownerUserId'', JStr (se_user auth))]\<rparr>],
                         gd_audit := gd_audit db @ [(se_tenant auth, ''AGENT_PERSISTENT_TASK_CREATED'', rid)]\<rparr>)))))"

definition goal_row :: "session \<Rightarrow> goal_payload \<Rightarrow> string \<Rightarrow> int \<Rightarrow> task_row" where
  "goal_row auth p rid now = new_row rid (se_tenant auth) (se_user auth) (gp_objective p) (gp_triggerKind p) (goal_trigger p) (gp_allowedTools p)
     (gp_riskPolicy p) (gp_approvalPolicy p) (budget_value (gp_maxToolCalls p)) (Some (iso_text now))"

definition same_goal :: "string \<Rightarrow> string \<Rightarrow> task_row \<Rightarrow> bool" where
  "same_goal tenant key r \<longleftrightarrow> pt_tenant r = tenant \<and> open_status (pt_status r) \<and> stored_key r = Some key"

text \<open>The last row in the list is the last that was created; \<open>up\<close> is whether the second read answers.\<close>

definition createBusinessGoal :: "session \<Rightarrow> bool \<Rightarrow> bool \<Rightarrow> (nat \<times> string) + jsval \<Rightarrow> string \<Rightarrow> string \<Rightarrow> goals_db \<Rightarrow> task_reply \<times> goals_db" where
  "createBusinessGoal auth ready up body rid eid db =
    (if \<not> roleAllowed auth [''owner''] then (Task_Error 403 ''owner_required'', db)
     else if \<not> ready then (Task_Error 503 ''persistent_task_schema_not_ready'', db)
     else case body of Inl (code, e) \<Rightarrow> (Task_Error code e, db)
     | Inr b \<Rightarrow>
         (case buildBusinessGoalTask b of Build_Throws \<Rightarrow> (Task_Throws, db) | Build_Error e \<Rightarrow> (Task_Error 400 e, db)
          | Built p \<Rightarrow>
              (if explicit_budget b \<and> num_lt (gp_maxToolCalls p) (Fin (of_nat (length (gp_allowedTools p))))
               then (Task_Error 400 ''business_goal_tool_budget_too_small'', db)
               else (let row = goal_row auth p rid (gd_now db);
                         inserted = (if list_ex (same_goal (se_tenant auth) (gp_templateKey p)) (gd_tasks db) then Inl Duplicate_Goal
                           else insert_task row (gd_tasks db))
                 in case inserted of
                      Inl Taken \<Rightarrow> (Task_Throws, db)
                    | Inl Duplicate_Goal \<Rightarrow>
                        (case (if up then find (same_goal (se_tenant auth) (gp_templateKey p)) (rev (gd_tasks db)) else None) of
                           Some r \<Rightarrow> (Task_Ok 200 (pt_id r) (pt_status r) True, db)
                         | None \<Rightarrow> (Task_Error 409 ''business_goal_create_conflict'', db))
                    | Inr rows \<Rightarrow>
                        (if list_ex (\<lambda>e. te_id e = eid) (gd_events db) then (Task_Throws, db\<lparr>gd_tasks := rows\<rparr>)
                         else (Task_Ok 201 rid ''active'' False,
                           db\<lparr>gd_tasks := rows,
                              gd_events := gd_events db @ [\<lparr>te_id = eid, te_tenant = se_tenant auth, te_task = rid, te_type = ''BUSINESS_GOAL_CREATED'',
                                te_data = JObj [(''templateKey'', JStr (gp_templateKey p)), (''nextRunAt'', JStr (iso_text (gd_now db))),
                                  (''executionAllowed'', JBool False), (''externalActions'', JInt 0)]\<rparr>],
                              gd_audit := gd_audit db @ [(se_tenant auth, ''AGENT_BUSINESS_GOAL_CREATED'', rid)]\<rparr>))))))"

section \<open>Transitions\<close>

definition terminal_status :: "string \<Rightarrow> bool" where
  "terminal_status s \<longleftrightarrow> s \<in> {''completed'', ''cancelled''}"

definition task_at :: "string \<Rightarrow> string \<Rightarrow> task_row list \<Rightarrow> task_row option" where
  "task_at tenant rid rows = find (\<lambda>r. pt_id r = rid \<and> pt_tenant r = tenant) rows"

text \<open>The checks, on the row as it is read: a refusal or the status that was read.\<close>

definition task_transition_check :: "session \<Rightarrow> bool \<Rightarrow> string \<Rightarrow> string \<Rightarrow> goals_db \<Rightarrow> task_reply + string" where
  "task_transition_check auth up rid status db =
    (if \<not> roleAllowed auth [''owner''] then Inl (Task_Error 403 ''owner_required'')
     else if status \<notin> set allowedStatus then Inl (Task_Error 400 ''invalid_status'')
     else case (if up then task_at (se_tenant auth) rid (gd_tasks db) else None) of
       None \<Rightarrow> Inl (Task_Error 404 ''persistent_task_not_found'')
     | Some r \<Rightarrow> if terminal_status (pt_status r) then Inl (Task_Error 409 ''terminal_task'') else Inr (pt_status r))"

definition task_movable :: "string \<Rightarrow> string \<Rightarrow> string \<Rightarrow> task_row \<Rightarrow> bool" where
  "task_movable tenant rid from_status r \<longleftrightarrow>
     pt_id r = rid \<and> pt_tenant r = tenant \<and> pt_status r = from_status \<and> \<not> terminal_status (pt_status r)"

definition moved_task :: "string \<Rightarrow> int \<Rightarrow> task_row \<Rightarrow> task_row" where
  "moved_task status now r = r\<lparr>pt_status := status,
     pt_next := (if status = ''active'' \<and> pt_next r = None then Some (iso_text now) else pt_next r)\<rparr>"

definition task_transition_write :: "session \<Rightarrow> string \<Rightarrow> string \<Rightarrow> string \<Rightarrow> string \<Rightarrow> goals_db \<Rightarrow> task_reply \<times> goals_db" where
  "task_transition_write auth rid from_status status eid db =
    (let p = task_movable (se_tenant auth) rid from_status; k = length (filter p (gd_tasks db))
     in case update_status p (moved_task status (gd_now db)) (gd_tasks db) of
          None \<Rightarrow> (Task_Error 409 ''business_goal_duplicate_active'', db)
        | Some rows \<Rightarrow>
            (if k = 1 \<and> list_ex (\<lambda>e. te_id e = eid) (gd_events db) then (Task_Throws, db)
             else (if k \<noteq> 1 then Task_Error 409 ''persistent_task_transition_conflict'' else Task_Ok 200 rid status False,
               db\<lparr>gd_tasks := rows,
                  gd_events := gd_events db @ (if k = 1 then [\<lparr>te_id = eid, te_tenant = se_tenant auth, te_task = rid, te_type = ''STATUS_CHANGED'',
                    te_data = JObj [(''from'', JStr from_status), (''to'', JStr status)]\<rparr>] else []),
                  gd_audit := gd_audit db @ (if k = 1 then [(se_tenant auth, ''AGENT_PERSISTENT_TASK_STATUS_CHANGED'', rid)] else [])\<rparr>)))"

text \<open>The request, with the tables at its read and at its write.\<close>

definition task_transition :: "session \<Rightarrow> bool \<Rightarrow> string \<Rightarrow> string \<Rightarrow> string \<Rightarrow> goals_db \<Rightarrow> goals_db \<Rightarrow> task_reply \<times> goals_db" where
  "task_transition auth up rid status eid db0 db =
    (case task_transition_check auth up rid status db0 of
       Inl a \<Rightarrow> (a, db)
     | Inr from_status \<Rightarrow> task_transition_write auth rid from_status status eid db)"

text \<open>The path of a transition: the id and the status its last word stands for.\<close>

definition verb_status :: "string \<Rightarrow> string option" where
  "verb_status v = map_of [(''pause'', ''paused''), (''resume'', ''active''), (''complete'', ''completed''), (''cancel'', ''cancelled'')] v"

definition transition_path :: "string \<Rightarrow> (string \<times> string) option" where
  "transition_path path = (case split_on (CHR ''/'') path of
     [r, a, b, c, i, v] \<Rightarrow> (if r = [] \<and> a = ''api'' \<and> b = ''agentic'' \<and> c = ''persistent-tasks'' \<and> i \<noteq> []
       then map_option (Pair (clean_str 120 i)) (verb_status v) else None)
   | _ \<Rightarrow> None)"

end
