(* ===== verification/DurableGoals.thy ===== *)
theory DurableGoals imports PersistentTasks begin

text \<open>
  The scheduler of the business goals (\<^verbatim>\<open>business-goal-durable-loop.js\<close>) on the tables of
  \<^verbatim>\<open>052_v122_agent_observation_checkpoints.sql\<close> to \<^verbatim>\<open>054_v134_agent_observation_identity.sql\<close>: a due
  occurrence is claimed, observed, and then finished, failed, or handed to the owner. Several schedulers may run at
  once: every statement or batch is a step of its own, applied to whatever the tables hold by then. What the tools
  answer, the hash and fresh ids are parameters.
\<close>

section \<open>Claims\<close>

record claim_handle =
  ch_id :: string
  ch_for :: string
  ch_attempts :: nat
  ch_recovered :: bool

datatype claim_result = Claim_Throws | Claim_Refused string | Claimed claim_handle

definition now_seconds :: "goals_db \<Rightarrow> int" where
  "now_seconds db = gd_now db div 1000"

definition claim_key :: "claim_row \<Rightarrow> string \<times> string \<times> string" where
  "claim_key c = (cl_tenant c, cl_task c, cl_for c)"

definition has_task :: "string \<Rightarrow> string \<Rightarrow> goals_db \<Rightarrow> bool" where
  "has_task tenant task db = list_ex (\<lambda>r. pt_id r = task \<and> pt_tenant r = tenant) (gd_tasks db)"

text \<open>The insertion of a claim: the new tables, or \<open>Inl\<close> whether the occurrence has a claim already.\<close>

definition insert_claim :: "string \<Rightarrow> string \<Rightarrow> string \<Rightarrow> string \<Rightarrow> goals_db \<Rightarrow> bool + goals_db" where
  "insert_claim cid tenant task due db =
    (if \<not> has_task tenant task db then Inl False
     else if list_ex (\<lambda>c. cl_id c = cid \<or> claim_key c = (tenant, task, due)) (gd_claims db) then Inl True
     else Inr (db\<lparr>gd_claims := gd_claims db @ [\<lparr>cl_id = cid, cl_tenant = tenant, cl_task = task, cl_for = due, cl_status = ''running'', cl_attempts = 1,
        cl_started = now_seconds db, cl_checkpoint = None, cl_error = None\<rparr>]\<rparr>))"

definition existing_claim :: "string \<Rightarrow> string \<Rightarrow> string \<Rightarrow> goals_db \<Rightarrow> claim_row option" where
  "existing_claim tenant task due db = find (\<lambda>c. claim_key c = (tenant, task, due)) (gd_claims db)"

definition stale :: "goals_db \<Rightarrow> claim_row \<Rightarrow> bool" where
  "stale db c \<longleftrightarrow> cl_status c = ''failed'' \<or> (cl_status c = ''running'' \<and> cl_started c < now_seconds db - 1800)"

definition reopen :: "int \<Rightarrow> claim_row \<Rightarrow> claim_row" where
  "reopen now c = c\<lparr>cl_status := ''running'', cl_attempts := cl_attempts c + 1, cl_started := now, cl_checkpoint := None, cl_error := None\<rparr>"

definition retakeable :: "goals_db \<Rightarrow> string \<Rightarrow> string \<Rightarrow> string \<Rightarrow> claim_row \<Rightarrow> bool" where
  "retakeable db cid tenant task c \<longleftrightarrow> cl_id c = cid \<and> cl_tenant c = tenant \<and> cl_task c = task \<and> stale db c"

text \<open>The retry of an occurrence whose claim was read as \<open>seen\<close>.\<close>

definition retake_claim :: "claim_row \<Rightarrow> string \<Rightarrow> string \<Rightarrow> string \<Rightarrow> goals_db \<Rightarrow> claim_result \<times> goals_db" where
  "retake_claim seen tenant task due db =
    (let p = retakeable db (cl_id seen) tenant task
     in if cl_status seen \<in> {''failed'', ''running''}
        then (if length (filter p (gd_claims db)) = 1
              then Claimed \<lparr>ch_id = cl_id seen, ch_for = due, ch_attempts = (if cl_attempts seen = 0 then 1 else cl_attempts seen) + 1, ch_recovered = True\<rparr>
              else Claim_Refused ''business_goal_already_claimed'',
              db\<lparr>gd_claims := update_where p (reopen (now_seconds db)) (gd_claims db)\<rparr>)
        else (Claim_Refused ''business_goal_already_claimed'', db))"

definition claimObservation :: "string \<Rightarrow> task_row \<Rightarrow> goals_db \<Rightarrow> claim_result \<times> goals_db" where
  "claimObservation cid row db =
    (let tenant = clean_str 120 (pt_tenant row); task = clean_str 120 (pt_id row);
         due = (case pt_next row of None \<Rightarrow> [] | Some n \<Rightarrow> clean_str 80 n)
     in if tenant = [] \<or> task = [] \<or> due = [] then (Claim_Refused ''invalid_business_goal_claim'', db)
        else case insert_claim cid tenant task due db of
          Inr db1 \<Rightarrow> (Claimed \<lparr>ch_id = cid, ch_for = due, ch_attempts = 1, ch_recovered = False\<rparr>, db1)
        | Inl False \<Rightarrow> (Claim_Throws, db)
        | Inl True \<Rightarrow> (case existing_claim tenant task due db of
              None \<Rightarrow> (Claim_Refused ''business_goal_claim_conflict'', db)
            | Some seen \<Rightarrow> retake_claim seen tenant task due db))"

section \<open>The end of a claim\<close>

definition held :: "string \<Rightarrow> string \<Rightarrow> string \<Rightarrow> string \<Rightarrow> claim_row \<Rightarrow> bool" where
  "held cid tenant task due c \<longleftrightarrow> cl_id c = cid \<and> claim_key c = (tenant, task, due) \<and> cl_status c = ''running''"

definition due_task :: "string \<Rightarrow> string \<Rightarrow> string \<Rightarrow> task_row \<Rightarrow> bool" where
  "due_task tenant task due r \<longleftrightarrow> pt_id r = task \<and> pt_tenant r = tenant \<and> pt_status r = ''active'' \<and> pt_next r = Some due"

text \<open>The first statement of the closing batches: it fails unless the claim is running and the occurrence is still due.\<close>

definition closing_guard :: "string \<Rightarrow> string \<Rightarrow> string \<Rightarrow> string \<Rightarrow> goals_db \<Rightarrow> bool" where
  "closing_guard cid tenant task due db \<longleftrightarrow>
     list_ex (held cid tenant task due) (gd_claims db) \<and> list_ex (due_task tenant task due) (gd_tasks db)"

definition fail_row :: "string \<Rightarrow> claim_row \<Rightarrow> claim_row" where
  "fail_row code c = c\<lparr>cl_status := ''failed'', cl_checkpoint := None, cl_error := Some code\<rparr>"

definition failure_code :: "string \<Rightarrow> string" where
  "failure_code code = str_default (clean_str 120 code) ''business_goal_observation_failed''"

definition failClaim :: "task_row \<Rightarrow> claim_handle \<Rightarrow> string \<Rightarrow> goals_db \<Rightarrow> goals_db" where
  "failClaim row ch code db =
    db\<lparr>gd_claims := update_where (held (ch_id ch) (pt_tenant row) (pt_id row) (ch_for ch)) (fail_row (failure_code code)) (gd_claims db)\<rparr>"

definition attention_state :: "claim_handle \<Rightarrow> string \<Rightarrow> int \<Rightarrow> (string \<times> jsval) list" where
  "attention_state ch code now = [(''ownerAttention'', JBool True), (''errorCode'', JStr code), (''attempts'', JInt (int (ch_attempts ch))),
     (''scheduledFor'', JStr (ch_for ch)), (''lastCheckedAt'', JStr (iso_text now)), (''executionAllowed'', JBool False), (''externalActions'', JInt 0)]"

text \<open>\<open>Inl\<close> when the batch fails, or when it ran and changed other than one claim and one task.\<close>

definition pauseForOwnerAttention :: "task_row \<Rightarrow> claim_handle \<Rightarrow> string \<Rightarrow> string \<Rightarrow> goals_db \<Rightarrow> bool \<times> goals_db" where
  "pauseForOwnerAttention row ch code eid db =
    (let tenant = pt_tenant row; task = pt_id row; due = ch_for ch; e = failure_code code; st = attention_state ch e (gd_now db);
         p = held (ch_id ch) tenant task due; q = due_task tenant task due
     in if \<not> closing_guard (ch_id ch) tenant task due db \<or> list_ex (\<lambda>x. te_id x = eid) (gd_events db) then (False, db)
        else case update_status q (\<lambda>r. r\<lparr>pt_status := ''paused'', pt_checkpoint := Some (JObj st)\<rparr>) (gd_tasks db) of
          None \<Rightarrow> (False, db)
        | Some rows \<Rightarrow> (length (filter p (gd_claims db)) = 1 \<and> length (filter q (gd_tasks db)) = 1,
            db\<lparr>gd_claims := update_where p (fail_row e) (gd_claims db), gd_tasks := rows,
               gd_events := gd_events db @ [\<lparr>te_id = eid, te_tenant = tenant, te_task = task, te_type = ''OWNER_ATTENTION_REQUIRED'',
                 te_data = JObj ((''claimId'', JStr (ch_id ch)) # st)\<rparr>],
               gd_audit := gd_audit db @ [(tenant, ''AGENT_BUSINESS_GOAL_OWNER_ATTENTION'', task)]\<rparr>))"

section \<open>One observation\<close>

record persisted =
  ps_checkpoint :: string
  ps_template :: string
  ps_baseline :: bool
  ps_changed :: bool
  ps_signal :: goal_signal
  ps_next :: string
  ps_skipped :: int
  ps_tools :: nat

datatype run_outcome = Run_Throws | Not_Persisted string | Persisted persisted

text \<open>The identity that observes may do nothing but observe.\<close>

definition observer_contained :: "authority \<Rightarrow> bool" where
  "observer_contained a \<longleftrightarrow> \<not> (au_ready a \<and> au_agent a = BUSINESS_GOAL_OBSERVER_AGENT_ID \<and> map_option ds_type (au_descr a) = Some ''system_observer'' \<and>
     au_state a = ''active'' \<and> \<not> au_exec a)"

definition active_task :: "string \<Rightarrow> string \<Rightarrow> task_row \<Rightarrow> bool" where
  "active_task tenant task r \<longleftrightarrow> pt_id r = task \<and> pt_tenant r = tenant \<and> pt_status r = ''active''"

text \<open>A budget below the tools of the goal is repaired; the flag is whether one row changed.\<close>

definition repair_budget :: "string \<Rightarrow> string \<Rightarrow> goal_check \<Rightarrow> goals_db \<Rightarrow> bool \<times> goals_db" where
  "repair_budget tenant task v db =
    (if \<not> vg_budgetAdjusted v then (True, db)
     else (length (filter (active_task tenant task) (gd_tasks db)) = 1,
       db\<lparr>gd_tasks := update_where (active_task tenant task) (\<lambda>r. r\<lparr>pt_budget := Some (budget_value (vg_maxToolCalls v))\<rparr>) (gd_tasks db)\<rparr>))"

definition read_failed :: "jsval \<Rightarrow> bool" where
  "read_failed r \<longleftrightarrow> \<not> is_true (fld r ''allowed'') \<or> \<not> is_true (fld r ''available'')"

definition goal_snapshot :: "(string \<Rightarrow> jsval) \<Rightarrow> string list \<Rightarrow> jsval" where
  "goal_snapshot results tools = JObj (map (\<lambda>t. (t, fld (results t) ''data'')) tools)"

definition later_first :: "checkpoint_row \<Rightarrow> checkpoint_row \<Rightarrow> bool" where
  "later_first a b \<longleftrightarrow> cp_observed b < cp_observed a \<or> (cp_observed b = cp_observed a \<and> cp_id b \<le> cp_id a)"

definition previous_checkpoint :: "string \<Rightarrow> string \<Rightarrow> goals_db \<Rightarrow> checkpoint_row option" where
  "previous_checkpoint tenant task db =
    (case js_sort later_first (filter (\<lambda>c. cp_tenant c = tenant \<and> cp_task c = task) (gd_checkpoints db)) of [] \<Rightarrow> None | c # _ \<Rightarrow> Some c)"

definition signal_value :: "goal_signal \<Rightarrow> jsval" where
  "signal_value s = JObj [(''code'', JStr (gs_code s)), (''tone'', JStr (gs_tone s)), (''metrics'', gs_metrics s)]"

definition checkpoint_state :: "goal_check \<Rightarrow> string \<Rightarrow> bool \<Rightarrow> bool \<Rightarrow> goal_signal \<Rightarrow> int \<Rightarrow> schedule \<Rightarrow> jsval" where
  "checkpoint_state v hash baseline changed signal now s =
    JObj [(''templateKey'', JStr (gt_key (vg_template v))), (''snapshotHash'', JStr hash), (''baselineEstablished'', JBool baseline), (''changed'', JBool changed),
      (''signal'', signal_value signal), (''ownerAttention'', JBool False), (''errorCode'', Null), (''lastCheckedAt'', JStr (iso_text now)),
      (''nextRunAt'', JStr (sc_at s)), (''toolCount'', JInt (int (length (vg_tools v)))), (''executionAllowed'', JBool False), (''externalActions'', JInt 0)]"

definition observation_event :: "goal_check \<Rightarrow> string \<Rightarrow> string \<Rightarrow> bool \<Rightarrow> bool \<Rightarrow> goal_signal \<Rightarrow> string \<Rightarrow> schedule \<Rightarrow> jsval" where
  "observation_event v cpid hash baseline changed signal due s =
    JObj [(''checkpointId'', JStr cpid), (''templateKey'', JStr (gt_key (vg_template v))), (''snapshotHash'', JStr hash), (''baselineEstablished'', JBool baseline),
      (''changed'', JBool changed), (''signalCode'', JStr (gs_code signal)), (''signalTone'', JStr (gs_tone signal)), (''scheduledFor'', JStr due),
      (''nextRunAt'', JStr (sc_at s)), (''skippedOccurrences'', JInt (sc_skipped s)), (''cadence'', JStr (sc_cadence s)),
      (''toolCount'', JInt (int (length (vg_tools v)))), (''executionAllowed'', JBool False), (''externalActions'', JInt 0)]"

definition complete_row :: "string \<Rightarrow> claim_row \<Rightarrow> claim_row" where
  "complete_row cpid c = c\<lparr>cl_status := ''completed'', cl_checkpoint := Some cpid, cl_error := None\<rparr>"

text \<open>The closing batch of an observation; none when a statement fails.\<close>

definition finish_batch :: "string \<Rightarrow> string \<Rightarrow> claim_handle \<Rightarrow> string \<Rightarrow> string \<Rightarrow> jsval \<Rightarrow> string \<Rightarrow> jsval \<Rightarrow> jsval \<Rightarrow> string \<Rightarrow> goals_db \<Rightarrow> goals_db option" where
  "finish_batch tenant task ch cpid hash snapshot next_at state event eid db =
    (let due = ch_for ch
     in if \<not> closing_guard (ch_id ch) tenant task due db
          \<or> list_ex (\<lambda>c. cp_id c = cpid \<or> (cp_tenant c, cp_task c, cp_for c) = (tenant, task, Some due)) (gd_checkpoints db)
          \<or> list_ex (\<lambda>x. te_id x = eid) (gd_events db) then None
        else Some (db\<lparr>
          gd_checkpoints := gd_checkpoints db @ [\<lparr>cp_id = cpid, cp_tenant = tenant, cp_task = task, cp_hash = hash, cp_snapshot = snapshot,
            cp_for = Some due, cp_observed = now_seconds db\<rparr>],
          gd_claims := update_where (held (ch_id ch) tenant task due) (complete_row cpid) (gd_claims db),
          gd_tasks := update_where (due_task tenant task due) (\<lambda>r. r\<lparr>pt_ran := True, pt_next := Some next_at, pt_checkpoint := Some state\<rparr>) (gd_tasks db),
          gd_events := gd_events db @ [\<lparr>te_id = eid, te_tenant = tenant, te_task = task, te_type = ''BUSINESS_GOAL_OBSERVATION_VERIFIED'', te_data = event\<rparr>],
          gd_audit := gd_audit db @ [(tenant, ''AGENT_BUSINESS_GOAL_OBSERVATION_VERIFIED'', cpid)]\<rparr>))"

definition finish_observation :: "date_parse \<Rightarrow> (string \<Rightarrow> string) \<Rightarrow> goal_check \<Rightarrow> string \<Rightarrow> string \<Rightarrow> claim_handle \<Rightarrow> (string \<Rightarrow> jsval) \<Rightarrow> string \<Rightarrow> string \<Rightarrow>
    goals_db \<Rightarrow> run_outcome \<times> goals_db" where
  "finish_observation dp sha v tenant task ch results cpid eid db =
    (let snapshot = goal_snapshot results (vg_tools v); hash = sha (json snapshot); previous = previous_checkpoint tenant task db;
         baseline = (previous = None); changed = (case previous of None \<Rightarrow> False | Some c \<Rightarrow> cp_hash c \<noteq> hash);
         signal = summarizeBusinessGoalSnapshot (JStr (gt_key (vg_template v))) snapshot
     in case nextBusinessGoalRunAt dp (Valid v) (ch_for ch) (gd_now db) of
          Next_Throws \<Rightarrow> (Run_Throws, db)
        | No_Next \<Rightarrow> (Not_Persisted ''invalid_business_goal_schedule'', db)
        | Next s \<Rightarrow>
            (if ch_id ch = [] \<or> ch_for ch = [] then (Not_Persisted ''invalid_business_goal_schedule'', db)
             else case finish_batch tenant task ch cpid hash snapshot (sc_at s) (checkpoint_state v hash baseline changed signal (gd_now db) s)
                 (observation_event v cpid hash baseline changed signal (ch_for ch) s) eid db of
               None \<Rightarrow> (Run_Throws, db)
             | Some db1 \<Rightarrow>
                 (if length (filter (held (ch_id ch) tenant task (ch_for ch)) (gd_claims db)) \<noteq> 1
                     \<or> length (filter (due_task tenant task (ch_for ch)) (gd_tasks db)) \<noteq> 1 then Run_Throws
                  else Persisted \<lparr>ps_checkpoint = cpid, ps_template = gt_key (vg_template v), ps_baseline = baseline, ps_changed = changed, ps_signal = signal,
                    ps_next = sc_at s, ps_skipped = sc_skipped s, ps_tools = length (vg_tools v)\<rparr>, db1)))"

text \<open>What the tools answer: a value, or none when a call throws.\<close>

definition runBusinessGoalTask ::
    "date_parse \<Rightarrow> (string \<Rightarrow> string) \<Rightarrow> authority \<Rightarrow> (string \<Rightarrow> jsval option) \<Rightarrow> task_row \<Rightarrow> claim_handle \<Rightarrow> string \<Rightarrow> string \<Rightarrow> goals_db \<Rightarrow> run_outcome \<times> goals_db" where
  "runBusinessGoalTask dp sha observer tool row ch cpid eid db =
    (let tenant = clean_str 120 (pt_tenant row); task = clean_str 120 (pt_id row)
     in if tenant = [] \<or> task = [] then (Not_Persisted ''invalid_business_goal_context'', db)
        else case validateBusinessGoalTask (pt_trigger row) (pt_tools row) (pt_budget row) of
          Val_Throws \<Rightarrow> (Run_Throws, db)
        | Invalid code \<Rightarrow> (Not_Persisted code, db)
        | Valid v \<Rightarrow>
            (if observer_contained observer then (Not_Persisted ''business_goal_observer_identity_contained'', db)
             else if num_lt (vg_maxToolCalls v) (Fin (of_nat (length (vg_tools v)))) then (Not_Persisted ''business_goal_tool_budget_exceeded'', db)
             else case repair_budget tenant task v db of (ok, db1) \<Rightarrow>
               (if \<not> ok then (Not_Persisted ''business_goal_budget_repair_conflict'', db1)
                else if list_ex (\<lambda>t. tool t = None) (vg_tools v) then (Run_Throws, db1)
                else if list_ex (\<lambda>t. read_failed (the (tool t))) (vg_tools v) then (Not_Persisted ''business_goal_source_unavailable'', db1)
                else finish_observation dp sha v tenant task ch (\<lambda>t. the (tool t)) cpid eid db1)))"

section \<open>The due list\<close>

definition goal_due :: "goals_db \<Rightarrow> task_row \<Rightarrow> bool" where
  "goal_due db r \<longleftrightarrow> pt_status r = ''active'' \<and> pt_kind r = ''scheduled'' \<and>
     (case pt_next r of None \<Rightarrow> False | Some n \<Rightarrow> n \<le> iso_text (gd_now db)) \<and>
     (case stored_key r of None \<Rightarrow> False | Some k \<Rightarrow> k \<in> set BUSINESS_GOAL_KEYS)"

definition due_cap :: "int \<Rightarrow> nat" where
  "due_cap limit = nat (max 1 (min 50 (if limit = 0 then 25 else limit)))"

definition due_order :: "task_row \<Rightarrow> task_row \<Rightarrow> bool" where
  "due_order a b \<longleftrightarrow> (case (pt_next a, pt_next b) of (Some x, Some y) \<Rightarrow> x < y \<or> (x = y \<and> pt_id a \<le> pt_id b) | _ \<Rightarrow> pt_id a \<le> pt_id b)"

definition due_goals :: "int \<Rightarrow> goals_db \<Rightarrow> task_row list" where
  "due_goals limit db = take (due_cap limit) (js_sort due_order (filter (goal_due db) (gd_tasks db)))"

definition unscheduled_goal :: "task_row \<Rightarrow> bool" where
  "unscheduled_goal r \<longleftrightarrow> pt_status r = ''active'' \<and> pt_kind r = ''scheduled'' \<and> pt_next r = None \<and>
     (case stored_key r of None \<Rightarrow> False | Some k \<Rightarrow> k \<in> set BUSINESS_GOAL_KEYS)"

definition schedule_missing :: "goals_db \<Rightarrow> goals_db" where
  "schedule_missing db = db\<lparr>gd_tasks := update_where unscheduled_goal (\<lambda>r. r\<lparr>pt_next := Some (iso_text (gd_now db))\<rparr>) (gd_tasks db)\<rparr>"

text \<open>What a pass over one row needs from outside: fresh ids and the tools.\<close>

record ticket =
  tk_claim :: string
  tk_checkpoint :: string
  tk_event :: string
  tk_pause_event :: string
  tk_tool :: "string \<Rightarrow> jsval option"

datatype row_outcome = Skipped string | Ran run_outcome bool

definition outcome_code :: "run_outcome \<Rightarrow> string" where
  "outcome_code r = (case r of Not_Persisted c \<Rightarrow> c | _ \<Rightarrow> ''business_goal_observation_failed'')"

text \<open>The end of a row whose observation was not kept: a third attempt goes to the owner, and if that fails too the claim fails.
  The flag is whether the owner was asked.\<close>

definition settle_failure :: "task_row \<Rightarrow> claim_handle \<Rightarrow> string \<Rightarrow> string \<Rightarrow> goals_db \<Rightarrow> bool \<times> goals_db" where
  "settle_failure row ch code eid db =
    (if ch_attempts ch \<ge> 3
     then (case pauseForOwnerAttention row ch code eid db of (ok, db1) \<Rightarrow> if ok then (True, db1) else (False, failClaim row ch code db1))
     else (False, failClaim row ch code db))"

definition run_row ::
    "date_parse \<Rightarrow> (string \<Rightarrow> string) \<Rightarrow> authority \<Rightarrow> task_row \<Rightarrow> ticket \<Rightarrow> goals_db \<Rightarrow> row_outcome option \<times> goals_db" where
  "run_row dp sha observer row tk db =
    (case claimObservation (tk_claim tk) row db of
       (Claim_Throws, db1) \<Rightarrow> (None, db1)
     | (Claim_Refused code, db1) \<Rightarrow> (Some (Skipped code), db1)
     | (Claimed ch, db1) \<Rightarrow>
         (case runBusinessGoalTask dp sha observer (tk_tool tk) row ch (tk_checkpoint tk) (tk_event tk) db1 of
            (Persisted p, db2) \<Rightarrow> (Some (Ran (Persisted p) False), db2)
          | (r, db2) \<Rightarrow> (case settle_failure row ch (outcome_code r) (tk_pause_event tk) db2 of (asked, db3) \<Rightarrow> (Some (Ran r asked), db3))))"

text \<open>An error of the claim ends the whole pass.\<close>

fun run_rows :: "date_parse \<Rightarrow> (string \<Rightarrow> string) \<Rightarrow> authority \<Rightarrow> (task_row \<times> ticket) list \<Rightarrow> goals_db \<Rightarrow> row_outcome list option \<times> goals_db" where
  "run_rows dp sha observer [] db = (Some [], db)"
| "run_rows dp sha observer ((row, tk) # rest) db =
    (case run_row dp sha observer row tk db of
       (None, db1) \<Rightarrow> (None, db1)
     | (Some out, db1) \<Rightarrow> (case run_rows dp sha observer rest db1 of (outs, db2) \<Rightarrow> (map_option ((#) out) outs, db2)))"

definition runDueBusinessGoalTasks ::
    "date_parse \<Rightarrow> (string \<Rightarrow> string) \<Rightarrow> authority \<Rightarrow> int \<Rightarrow> (nat \<Rightarrow> ticket) \<Rightarrow> goals_db \<Rightarrow> row_outcome list option \<times> goals_db" where
  "runDueBusinessGoalTasks dp sha observer limit tickets db =
    (let db1 = schedule_missing db; rows = due_goals limit db1
     in run_rows dp sha observer (zip rows (map tickets [0..<length rows])) db1)"

end
