(* ===== verification/IsoDates.thy ===== *)
theory IsoDates imports JsValue begin

text \<open>
  A reader for the ISO texts that \<^verbatim>\<open>toISOString\<close> writes. The modules take the reading of dates as a parameter;
  this reader shows that a parameter with the property they rely on exists: it reads back every instant of a date.
\<close>

section \<open>Digits\<close>

lemma foldl_digits: "foldl (\<lambda>n c. 10 * n + digit_val c) a s = a * 10 ^ length s + digits_val s"
proof (induction s arbitrary: a)
  case (Cons c s)
  show ?case
    using Cons[of "10 * a + digit_val c"] Cons[of "digit_val c"] by (simp add: digits_val_def algebra_simps)
qed (simp add: digits_val_def)

lemma digits_val_append: "digits_val (s @ t) = digits_val s * 10 ^ length t + digits_val t"
  using foldl_digits[of "digits_val s" t] by (simp add: digits_val_def)

lemma digit_char_val: "d < 10 \<Longrightarrow> digit_val (digit_char d) = d \<and> is_digit (digit_char d)"
  by (simp add: digit_val_def digit_char_def is_digit_def)

lemma dec_digits_val: "0 \<le> i \<Longrightarrow> digits_val (map digit_char (dec_digits i)) = nat i"
proof (induction i rule: dec_digits.induct)
  case (1 i)
  show ?case
  proof (cases "i < 10")
    case True
    then show ?thesis using 1(2) digit_char_val[of "nat i"] by (subst dec_digits.simps) (simp add: digits_val_def)
  next
    case False
    have m: "nat (i mod 10) < 10" by simp
    have "nat (i div 10) * 10 + nat (i mod 10) = nat i"
    proof -
      have "int (nat (i div 10) * 10 + nat (i mod 10)) = int (nat i)" using 1(2) by (simp add: pos_imp_zdiv_nonneg_iff)
      then show ?thesis by (rule of_nat_eq_iff[THEN iffD1])
    qed
    then show ?thesis
      using False 1 digit_char_val[OF m] by (subst dec_digits.simps) (simp add: digits_val_append digits_val_def[of "[_]"])
  qed
qed

lemma dec_digits_length: "0 \<le> i \<Longrightarrow> i < 10 ^ k \<Longrightarrow> 0 < k \<Longrightarrow> length (dec_digits i) \<le> k"
proof (induction i arbitrary: k rule: dec_digits.induct)
  case (1 i)
  show ?case
  proof (cases "i < 10")
    case True
    then show ?thesis using 1(4) by (subst dec_digits.simps) simp
  next
    case False
    then obtain j where k: "k = Suc j" "0 < j" using 1(3,4) by (cases k; cases "k - 1") auto
    have "i div 10 < 10 ^ j" using 1(3) k(1) by (simp add: div_less_iff_less_mult algebra_simps)
    then have "length (dec_digits (i div 10)) \<le> j" using 1(1)[OF False _ _ k(2)] 1(2) by simp
    then show ?thesis using False k(1) by (subst dec_digits.simps) simp
  qed
qed

lemma pad_int_facts:
  assumes "0 \<le> i" "i < 10 ^ k" "0 < k"
  shows "length (pad_int k i) = k" "digits_val (pad_int k i) = nat i"
proof -
  have l: "length (int_str i) \<le> k" using dec_digits_length[OF assms] assms(1) by (simp add: int_str_def)
  then show "length (pad_int k i) = k" by (simp add: pad_int_def pad_def)
  have "digits_val (replicate m (CHR ''0'')) = 0" for m
    by (induction m) (simp_all add: digits_val_def digit_val_def)
  then show "digits_val (pad_int k i) = nat i"
    using dec_digits_val[OF assms(1)] assms(1) by (simp add: pad_int_def pad_def digits_val_append int_str_def)
qed

lemma two_digits: "0 \<le> i \<Longrightarrow> i < 100 \<Longrightarrow> length (pad_int 2 i) = 2 \<and> digits_val (pad_int 2 i) = nat i"
  using pad_int_facts[of i 2] by simp

lemma three_digits: "0 \<le> i \<Longrightarrow> i < 1000 \<Longrightarrow> length (pad_int 3 i) = 3 \<and> digits_val (pad_int 3 i) = nat i"
  using pad_int_facts[of i 3] by simp

section \<open>Days\<close>

definition year_start :: "int \<Rightarrow> int" where
  "year_start y = 365 * y + y div 4 - y div 100"

definition year_of :: "int \<Rightarrow> int" where
  "year_of doe = (doe - doe div 1460 + doe div 36524 - doe div 146096) div 365"

text \<open>The first and the last day of each of the 400 years of an era are in that year.\<close>

lemma era_years: "list_all (\<lambda>y. year_of (year_start y) = y \<and>
    year_of (if y = 399 then 146096 else year_start (y + 1) - 1) = y \<and>
    (if y = 399 then 146097 else year_start (y + 1)) - year_start y \<le> 366) [0..399]"
  by code_simp

lemma year_step:
  assumes "0 \<le> x" "x + 1 < 146097"
  shows "year_of x \<le> year_of (x + 1)"
proof -
  have "(x + 1) div 1460 \<le> x div 1460 + 1" "x div 36524 \<le> (x + 1) div 36524" by (simp_all add: zdiv_mono1)
  moreover have "x div 146096 = (x + 1) div 146096 \<or> x = 146095"
    using assms by (cases "x = 146095") simp_all
  ultimately have "x - x div 1460 + x div 36524 - x div 146096 \<le> x + 1 - (x + 1) div 1460 + (x + 1) div 36524 - (x + 1) div 146096"
    by (elim disjE) (simp_all)
  then show ?thesis unfolding year_of_def by (rule zdiv_mono1) simp
qed

lemma year_mono:
  assumes "0 \<le> a" "a \<le> b" "b < 146097"
  shows "year_of a \<le> year_of b"
  using assms(2,3)
proof (induction rule: int_ge_induct)
  case (step i)
  then show ?case using year_step[of i] assms(1) by simp
qed simp

definition year_end :: "int \<Rightarrow> int" where
  "year_end y = (if y = 399 then 146097 else year_start (y + 1))"

lemma year_of_days:
  assumes "0 \<le> doe" "doe < 146097"
  shows "0 \<le> year_of doe" "year_of doe \<le> 399" "0 \<le> doe - year_start (year_of doe)" "doe - year_start (year_of doe) < 366"
proof -
  have "\<exists>y. 0 \<le> y \<and> y \<le> 399 \<and> year_start y \<le> doe \<and> doe < year_end y"
  proof (rule ccontr)
    assume no: "\<nexists>y. 0 \<le> y \<and> y \<le> 399 \<and> year_start y \<le> doe \<and> doe < year_end y"
    have "year_start (int n) \<le> doe" if "n \<le> 399" for n :: nat
      using that
    proof (induction n)
      case 0
      then show ?case using assms(1) by (simp add: year_start_def)
    next
      case (Suc n)
      then have "year_end (int n) \<le> doe" using no by (metis Suc_leD not_le of_nat_0_le_iff of_nat_le_numeral_iff)
      moreover have "year_end (int n) = year_start (int (Suc n))" using Suc.prems by (simp add: year_end_def add.commute)
      ultimately show ?case by simp
    qed
    from this[of 399] have "year_start 399 \<le> doe" by simp
    then show False using no assms(2) by (auto simp: year_end_def dest!: spec[of _ 399])
  qed
  then obtain y where y: "0 \<le> y" "y \<le> 399" "year_start y \<le> doe" "doe < year_end y" by blast
  have K: "year_of (year_start y) = y \<and> year_of (year_end y - 1) = y \<and> year_end y - year_start y \<le> 366"
    using era_years[unfolded list_all_iff, THEN bspec, of y] y(1,2) by (cases "y = 399") (simp_all add: year_end_def)
  note e = K[THEN conjunct1] K[THEN conjunct2, THEN conjunct1] K[THEN conjunct2, THEN conjunct2]
  have s: "0 \<le> year_start y" using y(1) by (simp add: year_start_def)
  have b: "year_end y \<le> 146097"
  proof -
    have "list_all (\<lambda>y. year_end y \<le> 146097) [0..399]" by code_simp
    then show ?thesis using y(1,2) by (simp add: list_all_iff)
  qed
  have "year_of doe = y"
    using year_mono[OF s y(3) assms(2)] year_mono[of doe "year_end y - 1"] assms(1) y(4) b e(1,2) by simp
  then show "0 \<le> year_of doe" "year_of doe \<le> 399" "0 \<le> doe - year_start (year_of doe)" "doe - year_start (year_of doe) < 366"
    using y e(3) by simp_all
qed

text \<open>The days of a date: the inverse of \<^const>\<open>civil\<close>.\<close>

definition days_of :: "int \<Rightarrow> int \<Rightarrow> int \<Rightarrow> int" where
  "days_of y m d =
    (let y' = (if m \<le> 2 then y - 1 else y); yoe = y' mod 400; mp = (if m > 2 then m - 3 else m + 9)
     in y' div 400 * 146097 + yoe * 365 + yoe div 4 - yoe div 100 + (153 * mp + 2) div 5 + d - 1 - 719468)"

definition month_index :: "int \<Rightarrow> int" where
  "month_index doy = (5 * doy + 2) div 153"

lemma month_days:
  assumes "0 \<le> doy" "doy < 366"
  shows "0 \<le> month_index doy" "month_index doy \<le> 11" "0 \<le> doy - (153 * month_index doy + 2) div 5" "doy - (153 * month_index doy + 2) div 5 < 31"
proof -
  have "list_all (\<lambda>doy. 0 \<le> month_index doy \<and> month_index doy \<le> 11 \<and> 0 \<le> doy - (153 * month_index doy + 2) div 5 \<and>
      doy - (153 * month_index doy + 2) div 5 < 31) [0..365]" by code_simp
  then show "0 \<le> month_index doy" "month_index doy \<le> 11" "0 \<le> doy - (153 * month_index doy + 2) div 5" "doy - (153 * month_index doy + 2) div 5 < 31"
    using assms by (auto simp: list_all_iff)
qed

lemma civil_parts:
  assumes "civil days = (y, m, d)"
  obtains era doy yoe where "days + 719468 = era * 146097 + year_start yoe + doy" "0 \<le> yoe" "yoe \<le> 399" "0 \<le> doy" "doy < 366"
    "m = (if month_index doy < 10 then month_index doy + 3 else month_index doy - 9)" "d = doy - (153 * month_index doy + 2) div 5 + 1"
    "y = yoe + era * 400 + (if m \<le> 2 then 1 else 0)" "era = (days + 719468) div 146097"
proof -
  let ?z = "days + 719468"
  let ?doe = "?z mod 146097"
  let ?doy = "?doe - year_start (year_of ?doe)"
  have doe: "0 \<le> ?doe" "?doe < 146097" by simp_all
  have "civil days = (year_of ?doe + ?z div 146097 * 400 + (if (if month_index ?doy < 10 then month_index ?doy + 3 else month_index ?doy - 9) \<le> 2 then 1 else 0),
      if month_index ?doy < 10 then month_index ?doy + 3 else month_index ?doy - 9, ?doy - (153 * month_index ?doy + 2) div 5 + 1)"
    unfolding civil_def Let_def year_of_def year_start_def month_index_def by (rule refl)
  then have c: "y = year_of ?doe + ?z div 146097 * 400 + (if (if month_index ?doy < 10 then month_index ?doy + 3 else month_index ?doy - 9) \<le> 2 then 1 else 0) \<and>
      m = (if month_index ?doy < 10 then month_index ?doy + 3 else month_index ?doy - 9) \<and> d = ?doy - (153 * month_index ?doy + 2) div 5 + 1"
    unfolding assms prod.inject .
  note m = conjunct1[OF conjunct2[OF c]]
  note civ = conjunct1[OF c, folded m] m conjunct2[OF conjunct2[OF c]]
  show ?thesis
  proof (rule that[of "?z div 146097" "year_of ?doe" ?doy])
    show "?z = ?z div 146097 * 146097 + year_start (year_of ?doe) + ?doy" by simp
    show "0 \<le> year_of ?doe" "year_of ?doe \<le> 399" "0 \<le> ?doy" "?doy < 366" using year_of_days[OF doe] by auto
    show "m = (if month_index ?doy < 10 then month_index ?doy + 3 else month_index ?doy - 9)" by (rule civ)
    show "d = ?doy - (153 * month_index ?doy + 2) div 5 + 1" by (rule civ)
    show "y = year_of ?doe + ?z div 146097 * 400 + (if m \<le> 2 then 1 else 0)" by (rule civ)
  qed simp
qed

lemma days_of_civil:
  assumes "civil days = (y, m, d)"
  shows "days_of y m d = days"
proof (rule civil_parts[OF assms])
  fix era doy yoe
  assume p: "days + 719468 = era * 146097 + year_start yoe + doy" "0 \<le> yoe" "yoe \<le> 399" "0 \<le> doy" "doy < 366"
    "m = (if month_index doy < 10 then month_index doy + 3 else month_index doy - 9)" "d = doy - (153 * month_index doy + 2) div 5 + 1"
    "y = yoe + era * 400 + (if m \<le> 2 then 1 else 0)"
  have mi: "0 \<le> month_index doy" "month_index doy \<le> 11" using month_days[OF p(4,5)] by auto
  have mp: "(if m > 2 then m - 3 else m + 9) = month_index doy" using p(6) mi by auto
  have y: "(if m \<le> 2 then y - 1 else y) = yoe + era * 400" using p(8) by simp
  have "(yoe + era * 400) div 400 = era" "(yoe + era * 400) mod 400 = yoe" using p(2,3) by auto
  then show ?thesis unfolding days_of_def Let_def mp y using p(1,7) by (simp add: year_start_def)
qed


section \<open>The reader\<close>

text \<open>The sign and six digits of a far year, or four digits.\<close>

definition read_year :: "string \<Rightarrow> int" where
  "read_year s = (if length s = 4 then int (digits_val s)
     else (if s \<noteq> [] \<and> hd s = CHR ''-'' then - int (digits_val (tl s)) else int (digits_val (tl s))))"

text \<open>The text from its end: the fields have fixed widths, and the year is what is left.\<close>

definition iso_read :: "date_parse" where
  "iso_read s =
    (let k = length s - 20; r = drop k s; two = (\<lambda>i. int (digits_val (take 2 (drop i r))));
         day = days_of (read_year (take k s)) (two 1) (two 4)
     in if length s < 24 then None
        else Some (day * 86400000 + two 7 * 3600000 + two 10 * 60000 + two 13 * 1000 + int (digits_val (take 3 (drop 16 r)))))"

lemma year_bounds:
  assumes "civil days = (y, m, d)" "\<bar>days\<bar> \<le> 100000001"
  shows "\<bar>y\<bar> < 10 ^ 6" "1 \<le> m" "m \<le> 12" "1 \<le> d" "d \<le> 31"
proof -
  show "\<bar>y\<bar> < 10 ^ 6" "1 \<le> m" "m \<le> 12" "1 \<le> d" "d \<le> 31"
  proof (rule_tac [!] civil_parts[OF assms(1)])
    fix era doy yoe
    assume p: "0 \<le> yoe" "yoe \<le> 399" "0 \<le> doy" "doy < 366" "m = (if month_index doy < 10 then month_index doy + 3 else month_index doy - 9)"
      "d = doy - (153 * month_index doy + 2) div 5 + 1" "y = yoe + era * 400 + (if m \<le> 2 then 1 else 0)" "era = (days + 719468) div 146097"
    have "era * 146097 + (days + 719468) mod 146097 = days + 719468" unfolding p(8) by (rule div_mult_mod_eq)
    moreover have "0 \<le> (days + 719468) mod 146097" "(days + 719468) mod 146097 < 146097" by simp_all
    ultimately have "- 700 \<le> era" "era \<le> 700" using assms(2) by linarith+
    then show "\<bar>y\<bar> < 10 ^ 6" using p(1,2,7) by (auto split: if_splits)
    show "1 \<le> m" "m \<le> 12" "1 \<le> d" "d \<le> 31" using month_days[OF p(3,4)] p(5,6) by auto
  qed
qed

lemma read_year_text: "\<bar>y\<bar> < 10 ^ 6 \<Longrightarrow> read_year (year_text y) = y \<and> (length (year_text y) = 4 \<or> length (year_text y) = 7)"
proof -
  assume y: "\<bar>y\<bar> < 10 ^ 6"
  show ?thesis
  proof (cases "0 \<le> y \<and> y \<le> 9999")
    case True
    then show ?thesis using pad_int_facts[of y 4] by (simp add: year_text_def read_year_def)
  next
    case False
    let ?a = "if y < 0 then - y else y"
    have "length (pad_int 6 ?a) = 6" "digits_val (pad_int 6 ?a) = nat ?a" using pad_int_facts[of ?a 6] y by auto
    then show ?thesis using False by (auto simp: year_text_def read_year_def)
  qed
qed

lemma iso_read_text: "\<bar>t\<bar> \<le> 8640000000000000 \<Longrightarrow> iso_read (iso_text t) = Some t"
proof -
  assume t: "\<bar>t\<bar> \<le> 8640000000000000"
  define day ms where "day = t div 86400000" and "ms = t mod 86400000"
  have ms: "0 \<le> ms" "ms < 86400000" "t = day * 86400000 + ms" by (simp_all add: day_def ms_def)
  obtain y m d where c: "civil day = (y, m, d)" by (cases "civil day")
  have "\<bar>day\<bar> \<le> 100000001" using t ms by linarith
  note b = year_bounds[OF c this]
  note yt = read_year_text[OF b(1)]
  have f: "length (pad_int 2 m) = 2" "digits_val (pad_int 2 m) = nat m" "length (pad_int 2 d) = 2" "digits_val (pad_int 2 d) = nat d"
    using pad_int_facts[of m 2] pad_int_facts[of d 2] b by auto
  have h: "0 \<le> ms div 3600000" "ms div 3600000 < 24" "0 \<le> ms div 60000 mod 60" "ms div 60000 mod 60 < 60" "0 \<le> ms div 1000 mod 60" "ms div 1000 mod 60 < 60"
    "0 \<le> ms mod 1000" "ms mod 1000 < 1000"
    using ms(1,2) by (auto simp: pos_imp_zdiv_nonneg_iff div_less_iff_less_mult)
  have g: "length (pad_int 2 (ms div 3600000)) = 2" "digits_val (pad_int 2 (ms div 3600000)) = nat (ms div 3600000)"
    "length (pad_int 2 (ms div 60000 mod 60)) = 2" "digits_val (pad_int 2 (ms div 60000 mod 60)) = nat (ms div 60000 mod 60)"
    "length (pad_int 2 (ms div 1000 mod 60)) = 2" "digits_val (pad_int 2 (ms div 1000 mod 60)) = nat (ms div 1000 mod 60)"
    "length (pad_int 3 (ms mod 1000)) = 3" "digits_val (pad_int 3 (ms mod 1000)) = nat (ms mod 1000)"
  proof -
    have w: "ms div 3600000 < 100" "ms div 60000 mod 60 < 100" "ms div 1000 mod 60 < 100" using h by linarith+
    show "length (pad_int 2 (ms div 3600000)) = 2" "digits_val (pad_int 2 (ms div 3600000)) = nat (ms div 3600000)" using two_digits[OF h(1) w(1)] by blast+
    show "length (pad_int 2 (ms div 60000 mod 60)) = 2" "digits_val (pad_int 2 (ms div 60000 mod 60)) = nat (ms div 60000 mod 60)" using two_digits[OF h(3) w(2)] by blast+
    show "length (pad_int 2 (ms div 1000 mod 60)) = 2" "digits_val (pad_int 2 (ms div 1000 mod 60)) = nat (ms div 1000 mod 60)" using two_digits[OF h(5) w(3)] by blast+
    show "length (pad_int 3 (ms mod 1000)) = 3" "digits_val (pad_int 3 (ms mod 1000)) = nat (ms mod 1000)" using three_digits[OF h(7,8)] by blast+
  qed
  have two: "\<exists>a b. s = [a, b]" if "length s = 2" for s :: string
    using that by (cases s; cases "tl s") auto
  have three: "\<exists>a b c. s = [a, b, c]" if "length s = 3" for s :: string
    using that by (cases s; cases "tl s"; cases "tl (tl s)") auto
  obtain m1 m2 d1 d2 h1 h2 n1 n2 s1 s2 z1 z2 z3 where e: "pad_int 2 m = [m1, m2]" "pad_int 2 d = [d1, d2]" "pad_int 2 (ms div 3600000) = [h1, h2]"
    "pad_int 2 (ms div 60000 mod 60) = [n1, n2]" "pad_int 2 (ms div 1000 mod 60) = [s1, s2]" "pad_int 3 (ms mod 1000) = [z1, z2, z3]"
    using two[OF f(1)] two[OF f(3)] two[OF g(1)] two[OF g(3)] two[OF g(5)] three[OF g(7)] by metis
  have tx: "iso_text t = year_text y @ CHR ''-'' # m1 # m2 # CHR ''-'' # d1 # d2 # CHR ''T'' # h1 # h2 # CHR '':'' # n1 # n2 # CHR '':'' # s1 # s2 # CHR ''.'' # z1 # z2 # z3 # ''Z''"
    by (simp add: iso_text_def Let_def day_def[symmetric] ms_def[symmetric] date_text_def c e)
  have "ms = ms div 3600000 * 3600000 + ms div 60000 mod 60 * 60000 + ms div 1000 mod 60 * 1000 + ms mod 1000"
  proof -
    have "ms div 60000 = ms div 1000 div 60" "ms div 3600000 = ms div 60000 div 60" by (simp_all add: zdiv_zmult2_eq[symmetric])
    then show ?thesis
      using div_mult_mod_eq[of ms 1000] div_mult_mod_eq[of "ms div 1000" 60] div_mult_mod_eq[of "ms div 60000" 60] by linarith
  qed
  then have sum: "day * 86400000 + ms div 3600000 * 3600000 + ms div 60000 mod 60 * 60000 + ms div 1000 mod 60 * 1000 + ms mod 1000 = t"
    using ms(3) by simp
  have v: "int (digits_val [m1, m2]) = m" "int (digits_val [d1, d2]) = d" "int (digits_val [h1, h2]) = ms div 3600000"
    "int (digits_val [n1, n2]) = ms div 60000 mod 60" "int (digits_val [s1, s2]) = ms div 1000 mod 60" "int (digits_val [z1, z2, z3]) = ms mod 1000"
  proof -
    have n: "int a = i" if "a = nat i" "0 \<le> i" for a i using that by simp
    have b': "0 \<le> m" "0 \<le> d" using b by linarith+
    show "int (digits_val [m1, m2]) = m" by (rule n[OF f(2)[unfolded e] b'(1)])
    show "int (digits_val [d1, d2]) = d" by (rule n[OF f(4)[unfolded e] b'(2)])
    show "int (digits_val [h1, h2]) = ms div 3600000" by (rule n[OF g(2)[unfolded e] h(1)])
    show "int (digits_val [n1, n2]) = ms div 60000 mod 60" by (rule n[OF g(4)[unfolded e] h(3)])
    show "int (digits_val [s1, s2]) = ms div 1000 mod 60" by (rule n[OF g(6)[unfolded e] h(5)])
    show "int (digits_val [z1, z2, z3]) = ms mod 1000" by (rule n[OF g(8)[unfolded e] h(7)])
  qed
  define r where "r = CHR ''-'' # m1 # m2 # CHR ''-'' # d1 # d2 # CHR ''T'' # h1 # h2 # CHR '':'' # n1 # n2 # CHR '':'' # s1 # s2 # CHR ''.'' # z1 # z2 # z3 # ''Z''"
  have tr: "iso_text t = year_text y @ r" unfolding tx r_def by (rule refl)
  have lr: "length r = 20" by (simp add: r_def)
  have parts: "take 2 (drop 1 r) = [m1, m2]" "take 2 (drop 4 r) = [d1, d2]" "take 2 (drop 7 r) = [h1, h2]" "take 2 (drop 10 r) = [n1, n2]"
    "take 2 (drop 13 r) = [s1, s2]" "take 3 (drop 16 r) = [z1, z2, z3]" by (simp_all add: r_def)
  have l: "length (iso_text t) - 20 = length (year_text y)" "\<not> length (iso_text t) < 24" using yt by (auto simp: tr lr)
  have k: "take (length (iso_text t) - 20) (iso_text t) = year_text y" "drop (length (iso_text t) - 20) (iso_text t) = r"
    unfolding l by (simp_all add: tr)
  have "iso_read (iso_text t) = Some (days_of (read_year (year_text y)) m d * 86400000 + ms div 3600000 * 3600000 + ms div 60000 mod 60 * 60000 +
      ms div 1000 mod 60 * 1000 + ms mod 1000)"
    unfolding iso_read_def Let_def k if_not_P[OF l(2)] parts v by (rule refl)
  then show ?thesis unfolding conjunct1[OF yt] days_of_civil[OF c] sum .
qed

end
