(* ===== verification/GoalLoop.thy ===== *)
theory GoalLoop imports DurableGoals IsoDates begin

text \<open>
  The persistent tasks and the goal scheduler as one system: the requests of the owner, the claims and the ends of the
  observations, in any order and by any number of schedulers, each step with arguments that may be out of date.
\<close>

section \<open>The system\<close>

inductive goal_step :: "date_parse \<Rightarrow> (string \<Rightarrow> string) \<Rightarrow> goals_db \<Rightarrow> goals_db \<Rightarrow> bool" for dp sha where
  Create: "goal_step dp sha db (snd (create_task dp auth ready body rid eid db))"
| Create_Goal: "goal_step dp sha db (snd (createBusinessGoal auth ready up body rid eid db))"
| Transition: "goal_step dp sha db (snd (task_transition auth up rid status eid db0 db))"
| Schedule: "goal_step dp sha db (schedule_missing db)"
| Claim: "insert_claim cid tenant task due db = Inr db' \<Longrightarrow> goal_step dp sha db db'"
| Retake: "goal_step dp sha db (snd (retake_claim seen tenant task due db))"
| Repair: "goal_step dp sha db (snd (repair_budget tenant task v db))"
| Finish: "goal_step dp sha db (snd (finish_observation dp sha v tenant task ch results cpid eid db))"
| Fail: "goal_step dp sha db (failClaim row ch code db)"
| Pause: "goal_step dp sha db (snd (pauseForOwnerAttention row ch code eid db))"
| Tick: "gd_now db \<le> t \<Longrightarrow> goal_step dp sha db (db\<lparr>gd_now := t\<rparr>)"

section \<open>What every state keeps\<close>

text \<open>No goal of a tenant is watched twice.\<close>

definition one_watch :: "task_row list \<Rightarrow> bool" where
  "one_watch rows \<longleftrightarrow> (\<forall>r\<in>set rows. \<forall>x\<in>set rows. watched r \<and> watched x \<and> pt_tenant r = pt_tenant x \<and> stored_key r = stored_key x \<longrightarrow> pt_id r = pt_id x)"

definition tasks_ok :: "task_row list \<Rightarrow> bool" where
  "tasks_ok rows \<longleftrightarrow> distinct (map pt_id rows) \<and> one_watch rows"

definition claims_ok :: "claim_row list \<Rightarrow> bool" where
  "claims_ok cs \<longleftrightarrow> distinct (map cl_id cs) \<and> distinct (map claim_key cs)"

definition completed :: "claim_row \<Rightarrow> bool" where
  "completed c \<longleftrightarrow> cl_status c = ''completed''"

definition scheduled_checkpoints :: "checkpoint_row list \<Rightarrow> checkpoint_row list" where
  "scheduled_checkpoints ps = filter (\<lambda>p. cp_for p \<noteq> None) ps"

definition completed_keys :: "claim_row list \<Rightarrow> (string \<times> string \<times> string option \<times> string option) list" where
  "completed_keys cs = map (\<lambda>c. (cl_tenant c, cl_task c, Some (cl_for c), cl_checkpoint c)) (filter completed cs)"

definition checkpoint_keys :: "checkpoint_row list \<Rightarrow> (string \<times> string \<times> string option \<times> string option) list" where
  "checkpoint_keys ps = map (\<lambda>p. (cp_tenant p, cp_task p, cp_for p, Some (cp_id p))) (scheduled_checkpoints ps)"

text \<open>The checkpoints are those of the completed claims, one for each occurrence.\<close>

definition observed_once :: "claim_row list \<Rightarrow> checkpoint_row list \<Rightarrow> bool" where
  "observed_once cs ps \<longleftrightarrow> set (completed_keys cs) = set (checkpoint_keys ps) \<and> distinct (map cp_id ps) \<and>
     distinct (map (\<lambda>p. (cp_tenant p, cp_task p, cp_for p)) (scheduled_checkpoints ps))"

definition earlier :: "date_parse \<Rightarrow> string \<Rightarrow> string \<Rightarrow> bool" where
  "earlier dp f n = (case (dp f, dp n) of (Some a, Some b) \<Rightarrow> a < b | _ \<Rightarrow> False)"

text \<open>The next occurrence of a task lies after those it has observed.\<close>

definition reached :: "date_parse \<Rightarrow> task_row list \<Rightarrow> checkpoint_row \<Rightarrow> bool" where
  "reached dp rows p = (case cp_for p of None \<Rightarrow> True | Some f \<Rightarrow>
     list_ex (\<lambda>r. pt_id r = cp_task p \<and> pt_tenant r = cp_tenant p \<and> (case pt_next r of None \<Rightarrow> False | Some n \<Rightarrow> earlier dp f n)) rows)"

definition goals_ok :: "date_parse \<Rightarrow> goals_db \<Rightarrow> bool" where
  "goals_ok dp db \<longleftrightarrow> tasks_ok (gd_tasks db) \<and> claims_ok (gd_claims db) \<and> observed_once (gd_claims db) (gd_checkpoints db) \<and>
     list_all (reached dp (gd_tasks db)) (gd_checkpoints db)"

section \<open>How the tables change\<close>

definition keeps :: "task_row \<Rightarrow> task_row \<Rightarrow> bool" where
  "keeps r r' \<longleftrightarrow> pt_id r' = pt_id r \<and> pt_tenant r' = pt_tenant r \<and> (\<forall>n. pt_next r = Some n \<longrightarrow> pt_next r' = Some n) \<and>
     (terminal_status (pt_status r) \<longrightarrow> r' = r)"

definition tasks_evolve :: "task_row list \<Rightarrow> task_row list \<Rightarrow> bool" where
  "tasks_evolve rows rows' \<longleftrightarrow> (tasks_ok rows \<longrightarrow> tasks_ok rows') \<and> (\<forall>r\<in>set rows. \<exists>r'\<in>set rows'. keeps r r')"

definition claims_evolve :: "claim_row list \<Rightarrow> claim_row list \<Rightarrow> bool" where
  "claims_evolve cs cs' \<longleftrightarrow> (claims_ok cs \<longrightarrow> claims_ok cs') \<and> filter completed cs' = filter completed cs"

lemma keeps_refl [simp]: "keeps r r"
  by (simp add: keeps_def)

lemma tasks_evolve_refl [simp]: "tasks_evolve rows rows"
  unfolding tasks_evolve_def using keeps_refl by blast

lemma claims_evolve_refl [simp]: "claims_evolve cs cs"
  by (simp add: claims_evolve_def)

lemma insert_task_evolves: "insert_task new rows = Inr rows' \<Longrightarrow> tasks_evolve rows rows'"
proof -
  assume i: "insert_task new rows = Inr rows'"
  then have n: "rows' = rows @ [new]" "\<not> (watched new \<and> list_ex (duplicates new) rows)" "new \<notin> set rows" "pt_id new \<notin> pt_id ` set rows"
    by (auto simp: insert_task_def list_ex_iff split: if_splits)
  have "one_watch (rows @ [new])" if "one_watch rows"
    unfolding one_watch_def
  proof (intro ballI impI)
    fix r x
    assume rx: "r \<in> set (rows @ [new])" "x \<in> set (rows @ [new])"
      and w: "watched r \<and> watched x \<and> pt_tenant r = pt_tenant x \<and> stored_key r = stored_key x"
    have dup: "duplicates new y" if "y \<in> set rows" "watched y" "pt_tenant new = pt_tenant y" "stored_key new = stored_key y" for y
    proof -
      have "open_status (pt_status y)" "pt_kind y = ''scheduled''" using that(2) unfolding watched_def by auto
      then show ?thesis unfolding duplicates_def using that(3,4) by simp
    qed
    have no: "\<not> duplicates new y" if "watched new" "y \<in> set rows" for y using n(2) that by (auto simp: list_ex_iff)
    consider "r \<in> set rows" "x \<in> set rows" | "r = new" "x \<in> set rows" | "x = new" "r \<in> set rows" | "r = new" "x = new" using rx by auto
    then show "pt_id r = pt_id x"
    proof cases
      case 1
      then show ?thesis using \<open>one_watch rows\<close> w unfolding one_watch_def by blast
    next
      case 2
      then show ?thesis using dup[of x] no[of x] w by simp
    next
      case 3
      then show ?thesis using dup[of r] no[of r] w by simp
    qed simp
  qed
  moreover have "\<exists>r'\<in>set (rows @ [new]). keeps r r'" if "r \<in> set rows" for r
    using that by (intro bexI[of _ r]) simp_all
  ultimately show ?thesis using n unfolding tasks_evolve_def tasks_ok_def by simp
qed

lemma update_keeps:
  assumes "\<And>r. p r \<Longrightarrow> keeps r (f r)" "r \<in> set rows"
  shows "\<exists>r'\<in>set (update_where p f rows). keeps r r'"
  using assms(2)
proof (induction rows)
  case (Cons a rows)
  have "keeps a (if p a then f a else a)" using assms(1) by simp
  then show ?case using Cons by auto
qed simp

text \<open>The fields the triggers look at.\<close>

definition same_watch :: "task_row \<Rightarrow> task_row \<Rightarrow> bool" where
  "same_watch r r' \<longleftrightarrow> pt_id r' = pt_id r \<and> pt_tenant r' = pt_tenant r \<and> pt_kind r' = pt_kind r \<and> pt_trigger r' = pt_trigger r"

lemma same_watchD: "same_watch r r' \<Longrightarrow> stored_key r' = stored_key r \<and> pt_id r' = pt_id r \<and> pt_tenant r' = pt_tenant r"
  by (simp add: same_watch_def stored_key_def)

lemma same_status_watched: "same_watch r r' \<Longrightarrow> pt_status r' = pt_status r \<Longrightarrow> watched r' = watched r"
  by (simp add: same_watch_def watched_def stored_key_def)

lemma update_where_mem: "x \<in> set (update_where p f rows) \<longleftrightarrow> (\<exists>r\<in>set rows. x = (if p r then f r else r))"
  by (auto simp: update_where_def)

lemma touch_evolves:
  assumes "\<And>r. p r \<Longrightarrow> keeps r (f r) \<and> same_watch r (f r) \<and> pt_status (f r) = pt_status r"
  shows "tasks_evolve rows (update_where p f rows)"
proof -
  have "map pt_id (update_where p f rows) = map pt_id rows" using assms by (intro map_update_where) (simp add: keeps_def)
  moreover have "one_watch (update_where p f rows)" if "one_watch rows"
    unfolding one_watch_def
  proof (intro ballI impI)
    fix r' x'
    let ?g = "\<lambda>r. if p r then f r else r"
    assume m: "r' \<in> set (update_where p f rows)" "x' \<in> set (update_where p f rows)"
      and w': "watched r' \<and> watched x' \<and> pt_tenant r' = pt_tenant x' \<and> stored_key r' = stored_key x'"
    obtain r x where rx: "r \<in> set rows" "x \<in> set rows" and e: "r' = ?g r" "x' = ?g x" using m unfolding update_where_mem by blast
    note w = w'[unfolded e]
    have g: "pt_id (?g y) = pt_id y" "pt_tenant (?g y) = pt_tenant y" "stored_key (?g y) = stored_key y" "watched (?g y) = watched y" for y
      using assms[of y] same_watchD[of y "f y"] same_status_watched[of y "f y"] by auto
    have "pt_id r = pt_id x" using \<open>one_watch rows\<close> rx w unfolding one_watch_def g by blast
    then show "pt_id r' = pt_id x'" unfolding e g .
  qed
  moreover have "\<exists>r'\<in>set (update_where p f rows). keeps r r'" if "r \<in> set rows" for r
    using assms that by (intro update_keeps) auto
  ultimately show ?thesis unfolding tasks_evolve_def tasks_ok_def by simp
qed

lemma status_evolves:
  assumes "update_status p f rows = Some rows'" "\<And>r. p r \<Longrightarrow> pt_id r = rid \<and> keeps r (f r) \<and> same_watch r (f r)"
  shows "tasks_evolve rows rows'"
proof -
  have u: "rows' = update_where p f rows"
    and t: "\<And>r x. r \<in> set rows \<Longrightarrow> x \<in> set rows \<Longrightarrow> p r \<Longrightarrow> watched (f r) \<Longrightarrow> duplicates (f r) x \<Longrightarrow> pt_id x = pt_id r"
    using assms(1) by (auto simp: update_status_def list_ex_iff split: if_splits)
  have "map pt_id rows' = map pt_id rows" unfolding u using assms(2) by (intro map_update_where) (simp add: keeps_def)
  moreover have "one_watch rows'" if "one_watch rows"
    unfolding one_watch_def u
  proof (intro ballI impI)
    fix r' x'
    let ?g = "\<lambda>r. if p r then f r else r"
    assume m: "r' \<in> set (update_where p f rows)" "x' \<in> set (update_where p f rows)"
      and w': "watched r' \<and> watched x' \<and> pt_tenant r' = pt_tenant x' \<and> stored_key r' = stored_key x'"
    obtain r x where rx: "r \<in> set rows" "x \<in> set rows" and e: "r' = ?g r" "x' = ?g x" using m unfolding update_where_mem by blast
    note w = w'[unfolded e]
    have i: "pt_id (?g y) = pt_id y" for y using assms(2)[of y] by (simp add: keeps_def)
    have d: "duplicates a b" if "watched b" "pt_tenant a = pt_tenant b" "stored_key a = stored_key b" for a b
    proof -
      have "open_status (pt_status b)" "pt_kind b = ''scheduled''" using that(1) unfolding watched_def by auto
      then show ?thesis unfolding duplicates_def using that(2,3) by simp
    qed
    consider "p r" "p x" | "p r" "\<not> p x" | "\<not> p r" "p x" | "\<not> p r" "\<not> p x" by blast
    then have "pt_id r = pt_id x"
    proof cases
      case 1
      then show ?thesis using assms(2) by metis
    next
      case 2
      then have "duplicates (f r) x" using w by (intro d) simp_all
      then show ?thesis using t[OF rx(1,2) 2(1)] w 2(1) by simp
    next
      case 3
      then have "duplicates (f x) r" using w by (intro d) simp_all
      then show ?thesis using t[OF rx(2,1) 3(2)] w 3(2) by simp
    next
      case 4
      have "watched r \<and> watched x \<and> pt_tenant r = pt_tenant x \<and> stored_key r = stored_key x"
        using w unfolding if_not_P[OF 4(1)] if_not_P[OF 4(2)] .
      then show ?thesis using \<open>one_watch rows\<close> rx unfolding one_watch_def by blast
    qed
    then show "pt_id r' = pt_id x'" unfolding e i .
  qed
  moreover have "\<exists>r'\<in>set rows'. keeps r r'" if "r \<in> set rows" for r
    unfolding u using assms(2) that by (intro update_keeps) auto
  ultimately show ?thesis unfolding tasks_evolve_def tasks_ok_def by simp
qed

lemma claims_update_evolves:
  assumes "\<And>c. p c \<Longrightarrow> \<not> completed c \<and> \<not> completed (f c) \<and> cl_id (f c) = cl_id c \<and> claim_key (f c) = claim_key c"
  shows "claims_evolve cs (update_where p f cs)"
proof -
  have "map cl_id (update_where p f cs) = map cl_id cs" "map claim_key (update_where p f cs) = map claim_key cs"
    using assms by (auto intro: map_update_where)
  moreover have "filter completed (update_where p f cs) = filter completed cs"
    using assms by (intro filter_update_where) auto
  ultimately show ?thesis by (simp add: claims_evolve_def claims_ok_def)
qed

section \<open>Steps without an observation\<close>

definition quiet :: "goals_db \<Rightarrow> goals_db \<Rightarrow> bool" where
  "quiet db db' \<longleftrightarrow> tasks_evolve (gd_tasks db) (gd_tasks db') \<and> claims_evolve (gd_claims db) (gd_claims db') \<and> gd_checkpoints db' = gd_checkpoints db"

lemma quiet_refl [simp]: "quiet db db"
  by (simp add: quiet_def)

lemma create_task_quiet: "quiet db (snd (create_task dp auth ready body rid eid db))"
  unfolding create_task_def by (auto simp: quiet_def dest: insert_task_evolves split: sum.splits prod.splits)

lemma createBusinessGoal_quiet: "quiet db (snd (createBusinessGoal auth ready up body rid eid db))"
proof (cases body)
  case (Inl a)
  then show ?thesis by (cases a) (simp add: createBusinessGoal_def)
next
  case (Inr b)
  show ?thesis
  proof (cases "buildBusinessGoalTask b")
    case (Built p)
    define ins where "ins = (if list_ex (same_goal (se_tenant auth) (gp_templateKey p)) (gd_tasks db) then Inl Duplicate_Goal
      else insert_task (goal_row auth p rid (gd_now db)) (gd_tasks db))"
    have e: "tasks_evolve (gd_tasks db) rows" if "ins = Inr rows" for rows
      using that insert_task_evolves by (auto simp: ins_def split: if_splits)
    have d: "snd (createBusinessGoal auth ready up body rid eid db) = db \<or> (\<exists>rows. ins = Inr rows \<and>
        gd_tasks (snd (createBusinessGoal auth ready up body rid eid db)) = rows \<and>
        gd_claims (snd (createBusinessGoal auth ready up body rid eid db)) = gd_claims db \<and>
        gd_checkpoints (snd (createBusinessGoal auth ready up body rid eid db)) = gd_checkpoints db)"
      unfolding createBusinessGoal_def Inr sum.case Built build_result.case Let_def ins_def[symmetric]
      by (cases ins) (auto split: insert_fault.split option.split)
    then show ?thesis using e by (auto simp: quiet_def)
  qed (simp_all add: createBusinessGoal_def Inr)
qed

lemma task_transition_quiet: "quiet db (snd (task_transition auth up rid status eid db0 db))"
proof -
  have m: "keeps r (moved_task status now r) \<and> same_watch r (moved_task status now r) \<and> pt_id r = rid" if "task_movable t rid s r" for t s r now
    using that by (auto simp: keeps_def moved_task_def same_watch_def task_movable_def)
  have "quiet db (snd (task_transition_write auth rid s status eid db))" for s
  proof (cases "update_status (task_movable (se_tenant auth) rid s) (moved_task status (gd_now db)) (gd_tasks db)")
    case (Some rows)
    have "tasks_evolve (gd_tasks db) rows" by (rule status_evolves[OF Some]) (use m in blast)
    then show ?thesis by (simp add: task_transition_write_def Let_def Some quiet_def)
  qed (simp add: task_transition_write_def Let_def)
  then show ?thesis by (simp add: task_transition_def split: sum.split)
qed

lemma schedule_missing_quiet: "quiet db (schedule_missing db)"
  unfolding quiet_def schedule_missing_def
  by (simp, rule touch_evolves) (auto simp: unscheduled_goal_def keeps_def same_watch_def terminal_status_def)

lemma insert_claim_quiet: "insert_claim cid tenant task due db = Inr db' \<Longrightarrow> quiet db db'"
  by (auto simp: insert_claim_def quiet_def claims_evolve_def claims_ok_def claim_key_def completed_def list_ex_iff split: if_splits)

lemma retake_claim_quiet: "quiet db (snd (retake_claim seen tenant task due db))"
proof -
  have "claims_evolve (gd_claims db) (update_where (retakeable db c t k) (reopen (now_seconds db)) (gd_claims db))" for c t k
    by (rule claims_update_evolves) (auto simp: retakeable_def stale_def reopen_def completed_def claim_key_def)
  then show ?thesis by (simp add: retake_claim_def Let_def quiet_def)
qed

lemma repair_budget_quiet: "quiet db (snd (repair_budget tenant task v db))"
proof -
  have "tasks_evolve (gd_tasks db) (update_where (active_task tenant task) (\<lambda>r. r\<lparr>pt_budget := b\<rparr>) (gd_tasks db))" for b
    by (rule touch_evolves) (auto simp: active_task_def keeps_def same_watch_def terminal_status_def)
  then show ?thesis by (simp add: repair_budget_def quiet_def)
qed

lemma fail_evolves: "claims_evolve cs (update_where (held i t k d) (fail_row e) cs)"
  by (rule claims_update_evolves) (auto simp: held_def fail_row_def completed_def claim_key_def)

lemma failClaim_quiet: "quiet db (failClaim row ch code db)"
  by (simp add: failClaim_def quiet_def fail_evolves)

lemma pause_quiet: "quiet db (snd (pauseForOwnerAttention row ch code eid db))"
proof -
  let ?q = "due_task (pt_tenant row) (pt_id row) (ch_for ch)"
  have e: "tasks_evolve (gd_tasks db) rows" if "update_status ?q (\<lambda>r. r\<lparr>pt_status := ''paused'', pt_checkpoint := c\<rparr>) (gd_tasks db) = Some rows" for c rows
    by (rule status_evolves[OF that, of "pt_id row"]) (auto simp: due_task_def keeps_def same_watch_def terminal_status_def)
  show ?thesis
    by (auto simp: pauseForOwnerAttention_def Let_def quiet_def fail_evolves dest: e split: option.split)
qed

section \<open>An observation\<close>

lemma finish_observation_cases:
  assumes "finish_observation dp sha v tenant task ch results cpid eid db = (out, db')"
  obtains "db' = db"
  | s hash snapshot state event where "nextBusinessGoalRunAt dp (Valid v) (ch_for ch) (gd_now db) = Next s"
      "finish_batch tenant task ch cpid hash snapshot (sc_at s) state event eid db = Some db'"
  using assms unfolding finish_observation_def Let_def
  by (auto split: next_run.splits if_splits option.splits)

lemma finish_batch_Some:
  assumes "finish_batch tenant task ch cpid hash snapshot next_at state event eid db = Some db'"
  defines "p \<equiv> \<lparr>cp_id = cpid, cp_tenant = tenant, cp_task = task, cp_hash = hash, cp_snapshot = snapshot, cp_for = Some (ch_for ch), cp_observed = now_seconds db\<rparr>"
  shows "list_ex (held (ch_id ch) tenant task (ch_for ch)) (gd_claims db)" "list_ex (due_task tenant task (ch_for ch)) (gd_tasks db)"
    "cpid \<notin> cp_id ` set (gd_checkpoints db)" "(tenant, task, Some (ch_for ch)) \<notin> (\<lambda>p. (cp_tenant p, cp_task p, cp_for p)) ` set (gd_checkpoints db)"
    "gd_checkpoints db' = gd_checkpoints db @ [p]"
    "gd_claims db' = update_where (held (ch_id ch) tenant task (ch_for ch)) (complete_row cpid) (gd_claims db)"
    "gd_tasks db' = update_where (due_task tenant task (ch_for ch)) (\<lambda>r. r\<lparr>pt_ran := True, pt_next := Some next_at, pt_checkpoint := Some state\<rparr>) (gd_tasks db)"
  using assms(1) unfolding finish_batch_def Let_def p_def
  by (auto simp: closing_guard_def list_ex_iff split: if_splits)

lemma completed_update:
  assumes "claims_ok cs" "list_ex (held cid tenant task due) cs"
  shows "set (completed_keys (update_where (held cid tenant task due) (complete_row cpid) cs)) = insert (tenant, task, Some due, Some cpid) (set (completed_keys cs))"
proof -
  have k: "set (completed_keys cs) = (\<lambda>c. (cl_tenant c, cl_task c, Some (cl_for c), cl_checkpoint c)) ` {c \<in> set cs. completed c}" for cs
    by (auto simp: completed_keys_def)
  have h: "(cl_tenant c, cl_task c, cl_for c) = (tenant, task, due)" "\<not> completed c" if "held cid tenant task due c" for c
    using that by (auto simp: held_def claim_key_def completed_def)
  obtain c where c: "c \<in> set cs" "held cid tenant task due c" using assms(2) by (auto simp: list_ex_iff)
  show ?thesis
  proof (intro equalityI subsetI)
    fix x
    assume "x \<in> set (completed_keys (update_where (held cid tenant task due) (complete_row cpid) cs))"
    then show "x \<in> insert (tenant, task, Some due, Some cpid) (set (completed_keys cs))"
      unfolding k set_update_where by (auto simp: complete_row_def dest: h(1))
  next
    fix x
    assume "x \<in> insert (tenant, task, Some due, Some cpid) (set (completed_keys cs))"
    then consider "x = (tenant, task, Some due, Some cpid)" | "x \<in> set (completed_keys cs)" by blast
    then show "x \<in> set (completed_keys (update_where (held cid tenant task due) (complete_row cpid) cs))"
    proof cases
      case 1
      have "complete_row cpid c \<in> {c \<in> set (update_where (held cid tenant task due) (complete_row cpid) cs). completed c}"
        using c unfolding set_update_where by (auto simp: completed_def complete_row_def)
      moreover have "x = (\<lambda>c. (cl_tenant c, cl_task c, Some (cl_for c), cl_checkpoint c)) (complete_row cpid c)"
        using 1 h(1)[OF c(2)] by (simp add: complete_row_def)
      ultimately show ?thesis unfolding k by blast
    next
      case 2
      then obtain d where d: "d \<in> set cs" "completed d" "x = (cl_tenant d, cl_task d, Some (cl_for d), cl_checkpoint d)" unfolding k by blast
      then have "\<not> held cid tenant task due d" using h(2) by blast
      then have "d \<in> {c \<in> set (update_where (held cid tenant task due) (complete_row cpid) cs). completed c}"
        using d unfolding set_update_where by blast
      then show ?thesis unfolding k using d(3) by blast
    qed
  qed
qed

definition iso_reader :: "date_parse \<Rightarrow> bool" where
  "iso_reader dp \<longleftrightarrow> (\<forall>t. \<bar>t\<bar> \<le> 8640000000000000 \<longrightarrow> dp (iso_text t) = Some t)"

lemma earlier_trans: "earlier dp a b \<Longrightarrow> earlier dp b c \<Longrightarrow> earlier dp a c"
  by (auto simp: earlier_def split: option.splits)

lemma next_earlier:
  assumes "iso_reader dp" "nextBusinessGoalRunAt dp (Valid v) due now = Next s"
  shows "earlier dp due (sc_at s)"
proof -
  obtain anchor where a: "dp due = Some anchor" using assms(2) by (auto simp: nextBusinessGoalRunAt_def split: option.splits)
  obtain t k where n: "next_after (cadence_ms (vg_cadence v)) anchor now = (t, k)" by fastforce
  then have "sc_at s = iso_text t" "\<bar>t\<bar> \<le> 8640000000000000"
    using assms(2) a by (auto simp: nextBusinessGoalRunAt_def split: if_splits)
  moreover have "anchor < t" using next_after_first(2)[OF cadence_ms_pos n] .
  ultimately show ?thesis using a assms(1) by (simp add: earlier_def iso_reader_def)
qed

lemma finish_goals_ok:
  assumes "finish_batch tenant task ch cpid hash snapshot (sc_at s) state event eid db = Some db'" "goals_ok dp db"
    "earlier dp (ch_for ch) (sc_at s)"
  shows "goals_ok dp db'"
proof -
  let ?due = "ch_for ch"
  let ?f = "\<lambda>r. r\<lparr>pt_ran := True, pt_next := Some (sc_at s), pt_checkpoint := Some state\<rparr>"
  note b = finish_batch_Some[OF assms(1)]
  have ok: "tasks_ok (gd_tasks db)" "claims_ok (gd_claims db)" "observed_once (gd_claims db) (gd_checkpoints db)" "list_all (reached dp (gd_tasks db)) (gd_checkpoints db)"
    using assms(2) by (simp_all add: goals_ok_def)
  have tasks: "tasks_ok (gd_tasks db')"
  proof -
    have ids: "map pt_id (gd_tasks db') = map pt_id (gd_tasks db)" unfolding b(7) by (intro map_update_where) simp
    have fields: "pt_id (?f r) = pt_id r" "pt_tenant (?f r) = pt_tenant r" "stored_key (?f r) = stored_key r" "watched (?f r) = watched r" for r
      by (simp_all add: stored_key_def watched_def)
    have "one_watch (gd_tasks db')"
      unfolding one_watch_def
    proof (intro ballI impI)
      fix r' x'
      assume m: "r' \<in> set (gd_tasks db')" "x' \<in> set (gd_tasks db')" and w: "watched r' \<and> watched x' \<and> pt_tenant r' = pt_tenant x' \<and> stored_key r' = stored_key x'"
      have before: "\<exists>y\<in>set (gd_tasks db). pt_id y' = pt_id y \<and> pt_tenant y' = pt_tenant y \<and> stored_key y' = stored_key y \<and> watched y' = watched y"
        if "y' \<in> set (gd_tasks db')" for y'
        using that unfolding b(7) update_where_mem using fields by metis
      obtain r x where r: "r \<in> set (gd_tasks db)" "pt_id r' = pt_id r" "pt_tenant r' = pt_tenant r" "stored_key r' = stored_key r" "watched r' = watched r"
        and x: "x \<in> set (gd_tasks db)" "pt_id x' = pt_id x" "pt_tenant x' = pt_tenant x" "stored_key x' = stored_key x" "watched x' = watched x"
        using before[OF m(1)] before[OF m(2)] by blast
      then show "pt_id r' = pt_id x'" using ok(1) w unfolding tasks_ok_def one_watch_def by metis
    qed
    then show ?thesis using ok(1) ids by (simp add: tasks_ok_def)
  qed
  have claims: "claims_ok (gd_claims db')"
  proof -
    have "map cl_id (gd_claims db') = map cl_id (gd_claims db)" "map claim_key (gd_claims db') = map claim_key (gd_claims db)"
      unfolding b(6) by (auto intro!: map_update_where simp: complete_row_def claim_key_def)
    then show ?thesis using ok(2) by (simp add: claims_ok_def)
  qed
  have "set (checkpoint_keys (gd_checkpoints db')) = insert (tenant, task, Some ?due, Some cpid) (set (checkpoint_keys (gd_checkpoints db)))"
    unfolding b(5) by (auto simp: checkpoint_keys_def scheduled_checkpoints_def)
  moreover have "set (completed_keys (gd_claims db')) = insert (tenant, task, Some ?due, Some cpid) (set (completed_keys (gd_claims db)))"
    unfolding b(6) by (rule completed_update[OF ok(2) b(1)])
  moreover have "(tenant, task, Some ?due) \<notin> (\<lambda>p. (cp_tenant p, cp_task p, cp_for p)) ` set (scheduled_checkpoints (gd_checkpoints db))"
    using b(4) by (auto simp: scheduled_checkpoints_def)
  ultimately have obs: "observed_once (gd_claims db') (gd_checkpoints db')"
    using ok(3) b(3) unfolding observed_once_def by (auto simp: b(5) scheduled_checkpoints_def)
  obtain r0 where r0: "r0 \<in> set (gd_tasks db)" "due_task tenant task ?due r0" using b(2) by (auto simp: list_ex_iff)
  have r0': "?f r0 \<in> set (gd_tasks db')" using r0 unfolding b(7) update_where_mem by auto
  have old: "reached dp (gd_tasks db') p" if p: "reached dp (gd_tasks db) p" for p
  proof (cases "cp_for p")
    case (Some f)
    then obtain r n where r: "r \<in> set (gd_tasks db)" "pt_id r = cp_task p" "pt_tenant r = cp_tenant p" "pt_next r = Some n" "earlier dp f n"
      using p by (auto simp: reached_def list_ex_iff split: option.splits)
    show ?thesis
    proof (cases "due_task tenant task ?due r")
      case True
      then have "n = ?due" using r(4) by (simp add: due_task_def)
      then have "earlier dp f (sc_at s)" using r(5) assms(3) by (auto intro: earlier_trans)
      moreover have "?f r \<in> set (gd_tasks db')" using r(1) True unfolding b(7) update_where_mem by auto
      ultimately show ?thesis using r(2,3) Some by (auto simp: reached_def list_ex_iff intro!: bexI[of _ "?f r"])
    next
      case False
      then have "r \<in> set (gd_tasks db')" using r(1) unfolding b(7) update_where_mem by auto
      then show ?thesis using r Some by (auto simp: reached_def list_ex_iff intro!: bexI[of _ r])
    qed
  qed (simp add: reached_def)
  have new: "reached dp (gd_tasks db') p" if "cp_task p = task" "cp_tenant p = tenant" "cp_for p = Some ?due" for p
    using that r0(2) assms(3) by (auto simp: reached_def list_ex_iff due_task_def intro!: bexI[OF _ r0'])
  have "list_all (reached dp (gd_tasks db')) (gd_checkpoints db')"
    using ok(4) old new unfolding b(5) by (auto simp: list_all_iff)
  then show ?thesis using tasks claims obs by (simp add: goals_ok_def)
qed

lemma quiet_goals_ok:
  assumes "quiet db db'" "goals_ok dp db"
  shows "goals_ok dp db'"
proof -
  have q: "tasks_ok (gd_tasks db')" "claims_ok (gd_claims db')" "gd_checkpoints db' = gd_checkpoints db" "filter completed (gd_claims db') = filter completed (gd_claims db)"
    using assms by (auto simp: quiet_def tasks_evolve_def claims_evolve_def goals_ok_def)
  have r: "reached dp (gd_tasks db') p" if p: "reached dp (gd_tasks db) p" for p
  proof (cases "cp_for p")
    case (Some f)
    then obtain r n where r: "r \<in> set (gd_tasks db)" "pt_id r = cp_task p" "pt_tenant r = cp_tenant p" "pt_next r = Some n" "earlier dp f n"
      using p by (auto simp: reached_def list_ex_iff split: option.splits)
    obtain r' where r': "r' \<in> set (gd_tasks db')" "keeps r r'" using assms(1) r(1) by (auto simp: quiet_def tasks_evolve_def)
    then show ?thesis using r Some by (auto simp: reached_def list_ex_iff keeps_def intro!: bexI[of _ r'])
  qed (simp add: reached_def)
  show ?thesis
    using assms(2) q r by (auto simp: goals_ok_def observed_once_def completed_keys_def list_all_iff)
qed

lemma goal_step_cases:
  assumes "goal_step dp sha db db'"
  obtains "quiet db db'"
  | tenant task ch cpid hash snapshot s v state event eid where
      "nextBusinessGoalRunAt dp (Valid v) (ch_for ch) (gd_now db) = Next s"
      "finish_batch tenant task ch cpid hash snapshot (sc_at s) state event eid db = Some db'"
  using assms
proof cases
  case (Finish v tenant task ch results cpid eid)
  then have "finish_observation dp sha v tenant task ch results cpid eid db = (fst (finish_observation dp sha v tenant task ch results cpid eid db), db')"
    by (simp add: prod_eq_iff)
  then show ?thesis using that by (rule finish_observation_cases) auto
qed (auto intro: that(1) create_task_quiet createBusinessGoal_quiet task_transition_quiet schedule_missing_quiet insert_claim_quiet retake_claim_quiet
    repair_budget_quiet failClaim_quiet pause_quiet simp: quiet_def)

lemma goal_step_ok: "goal_step dp sha db db' \<Longrightarrow> iso_reader dp \<Longrightarrow> goals_ok dp db \<Longrightarrow> goals_ok dp db'"
  by (elim goal_step_cases) (auto intro: quiet_goals_ok finish_goals_ok next_earlier)

lemma goal_steps_ok: "(goal_step dp sha)\<^sup>*\<^sup>* db db' \<Longrightarrow> iso_reader dp \<Longrightarrow> goals_ok dp db \<Longrightarrow> goals_ok dp db'"
  by (induction rule: rtranclp_induct) (auto intro: goal_step_ok)

section \<open>What is final\<close>

definition observations :: "task_row \<Rightarrow> goals_db \<Rightarrow> checkpoint_row list" where
  "observations r db = filter (\<lambda>p. cp_tenant p = pt_tenant r \<and> cp_task p = pt_id r) (gd_checkpoints db)"

definition closed_task :: "task_row \<Rightarrow> checkpoint_row list \<Rightarrow> goals_db \<Rightarrow> bool" where
  "closed_task r ps db \<longleftrightarrow> r \<in> set (gd_tasks db) \<and> observations r db = ps"

lemma closed_task_step:
  assumes "goal_step dp sha db db'" "goals_ok dp db" "closed_task r ps db" "terminal_status (pt_status r)"
  shows "closed_task r ps db'"
  using assms(1)
proof (cases rule: goal_step_cases)
  case 1
  obtain r' where "r' \<in> set (gd_tasks db')" "keeps r r'" using 1 assms(3) by (auto simp: quiet_def tasks_evolve_def closed_task_def)
  then have "r \<in> set (gd_tasks db')" using assms(4) by (auto simp: keeps_def)
  then show ?thesis using 1 assms(3) by (simp add: closed_task_def observations_def quiet_def)
next
  case (2 tenant task ch cpid hash snapshot s v state event eid)
  note b = finish_batch_Some[OF 2(2)]
  have r: "r \<in> set (gd_tasks db)" "\<not> due_task tenant task (ch_for ch) r"
    using assms(3,4) by (auto simp: closed_task_def due_task_def terminal_status_def)
  obtain r0 where r0: "r0 \<in> set (gd_tasks db)" "due_task tenant task (ch_for ch) r0" using b(2) by (auto simp: list_ex_iff)
  have "pt_id r \<noteq> task"
  proof
    assume "pt_id r = task"
    then have "pt_id r = pt_id r0" using r0(2) by (simp add: due_task_def)
    then have "r = r0" using distinct_key_unique[of pt_id "gd_tasks db" r r0] assms(2) r(1) r0(1) by (simp add: goals_ok_def tasks_ok_def)
    then show False using r(2) r0(2) by simp
  qed
  moreover have "r \<in> set (gd_tasks db')" using r unfolding b(7) update_where_mem by (intro bexI[of _ r]) simp_all
  ultimately show ?thesis using assms(3) b(5) by (simp add: closed_task_def observations_def)
qed

lemma completed_step:
  assumes "goal_step dp sha db db'" "c \<in> set (gd_claims db)" "completed c"
  shows "c \<in> set (gd_claims db')"
  using assms(1)
proof (cases rule: goal_step_cases)
  case 1
  then have "filter completed (gd_claims db') = filter completed (gd_claims db)" by (simp add: quiet_def claims_evolve_def)
  then have "c \<in> set (filter completed (gd_claims db'))" using assms(2,3) by simp
  then show ?thesis by simp
next
  case (2 tenant task ch cpid hash snapshot s v state event eid)
  have "\<not> held (ch_id ch) tenant task (ch_for ch) c" using assms(3) by (auto simp: held_def completed_def)
  then show ?thesis using assms(2) unfolding finish_batch_Some(6)[OF 2(2)] set_update_where by blast
qed

section \<open>A pass of the scheduler\<close>

abbreviation goal_steps :: "date_parse \<Rightarrow> (string \<Rightarrow> string) \<Rightarrow> goals_db \<Rightarrow> goals_db \<Rightarrow> bool" where
  "goal_steps dp sha \<equiv> (goal_step dp sha)\<^sup>*\<^sup>*"

lemma claimObservation_steps: "goal_steps dp sha db (snd (claimObservation cid row db))"
proof -
  have "goal_step dp sha db db1" if "insert_claim cid t k d db = Inr db1" for t k d db1 using that by (rule goal_step.Claim)
  moreover have "goal_step dp sha db (snd (retake_claim seen t k d db))" for seen t k d by (rule goal_step.Retake)
  ultimately show ?thesis
    unfolding claimObservation_def Let_def by (auto split: option.split sum.split bool.split)
qed

lemma runBusinessGoalTask_steps: "goal_steps dp sha db (snd (runBusinessGoalTask dp sha observer tool row ch cpid eid db))"
proof -
  have two: "goal_steps dp sha db (snd (finish_observation dp sha v t k ch res cpid eid db1))" if "repair_budget t k v db = (ok, db1)" for v t k res ok db1
    using goal_step.Repair[of dp sha db t k v] goal_step.Finish[of dp sha db1 v t k ch res cpid eid] that by auto
  have one: "goal_steps dp sha db db1" if "repair_budget t k v db = (ok, db1)" for v t k ok db1
    using goal_step.Repair[of dp sha db t k v] that by auto
  show ?thesis
  proof (cases "validateBusinessGoalTask (pt_trigger row) (pt_tools row) (pt_budget row)")
    case (Valid v)
    show ?thesis
      by (cases "repair_budget (clean_str 120 (pt_tenant row)) (clean_str 120 (pt_id row)) v db")
        (auto simp: runBusinessGoalTask_def Let_def Valid intro: one two)
  qed (simp_all add: runBusinessGoalTask_def Let_def)
qed

lemma settle_failure_steps: "goal_steps dp sha db (snd (settle_failure row ch code eid db))"
proof -
  obtain ok db1 where p: "pauseForOwnerAttention row ch code eid db = (ok, db1)" by fastforce
  have "goal_step dp sha db db1" using goal_step.Pause[of dp sha db row ch code eid] p by simp
  then show ?thesis
    using goal_step.Fail[of dp sha db row ch code] goal_step.Fail[of dp sha db1 row ch code]
    by (auto simp: settle_failure_def p)
qed

lemma run_row_steps: "goal_steps dp sha db (snd (run_row dp sha observer row tk db))"
proof -
  obtain r db1 where c: "claimObservation (tk_claim tk) row db = (r, db1)" by fastforce
  have s1: "goal_steps dp sha db db1" using claimObservation_steps[of dp sha db "tk_claim tk" row] c by simp
  show ?thesis
  proof (cases r)
    case (Claimed ch)
    obtain out db2 where o2: "runBusinessGoalTask dp sha observer (tk_tool tk) row ch (tk_checkpoint tk) (tk_event tk) db1 = (out, db2)" by fastforce
    have s2: "goal_steps dp sha db1 db2" using runBusinessGoalTask_steps[of dp sha db1 observer "tk_tool tk" row ch "tk_checkpoint tk" "tk_event tk"] o2 by simp
    obtain asked db3 where o3: "settle_failure row ch (outcome_code out) (tk_pause_event tk) db2 = (asked, db3)" by fastforce
    have s3: "goal_steps dp sha db2 db3" using settle_failure_steps[of dp sha db2 row ch "outcome_code out" "tk_pause_event tk"] o3 by simp
    show ?thesis using s1 s2 s3 Claimed c o2 o3 by (cases out) (auto simp: run_row_def)
  qed (use s1 c in \<open>simp_all add: run_row_def\<close>)
qed

lemma run_rows_steps: "goal_steps dp sha db (snd (run_rows dp sha observer rows db))"
proof (induction dp sha observer rows db rule: run_rows.induct)
  case (2 dp sha observer row tk rest db)
  obtain out db1 where r: "run_row dp sha observer row tk db = (out, db1)" by fastforce
  have s: "goal_steps dp sha db db1" using run_row_steps[of dp sha db observer row tk] r by simp
  show ?case
  proof (cases out)
    case (Some x)
    have "goal_steps dp sha db1 (snd (run_rows dp sha observer rest db1))" by (rule 2[OF r[symmetric]]) (use Some in simp)
    then show ?thesis using s Some r by (auto split: prod.split)
  qed (use s r in simp)
qed simp

lemma runDue_steps: "goal_steps dp sha db (snd (runDueBusinessGoalTasks dp sha observer limit tickets db))"
  using goal_step.Schedule[of dp sha db] run_rows_steps
  by (auto simp: runDueBusinessGoalTasks_def Let_def intro: converse_rtranclp_into_rtranclp)

section \<open>How a claimed occurrence ends\<close>

lemma filter_key_one:
  assumes "distinct (map k xs)" "x \<in> set xs" "P x" "\<And>y. P y \<Longrightarrow> k y = k x"
  shows "filter P xs = [x]"
proof -
  have "filter P xs = filter (\<lambda>y. y = x) xs"
  proof (rule filter_cong)
    fix y
    assume "y \<in> set xs"
    then show "P y = (y = x)" using assms(3,4) distinct_key_unique[OF assms(1) _ assms(2), of y] by blast
  qed simp
  moreover have "distinct xs" using assms(1) by (auto simp: distinct_map)
  then have "filter (\<lambda>y. y = x) xs = [x]" using assms(2) by (induction xs) (auto simp: filter_empty_conv)
  ultimately show ?thesis by simp
qed

text \<open>An occurrence under way: its claim is held, and its task is due.\<close>

definition under_way :: "claim_handle \<Rightarrow> task_row \<Rightarrow> goals_db \<Rightarrow> bool" where
  "under_way ch r db \<longleftrightarrow> list_ex (held (ch_id ch) (pt_tenant r) (pt_id r) (ch_for ch)) (gd_claims db) \<and>
     list_ex (due_task (pt_tenant r) (pt_id r) (ch_for ch)) (gd_tasks db)"

lemma under_way_guard: "under_way ch r db = closing_guard (ch_id ch) (pt_tenant r) (pt_id r) (ch_for ch) db"
  by (simp add: under_way_def closing_guard_def)

lemma under_way_unique:
  assumes "under_way ch r db" "tasks_ok (gd_tasks db)" "claims_ok (gd_claims db)"
  shows "length (filter (held (ch_id ch) (pt_tenant r) (pt_id r) (ch_for ch)) (gd_claims db)) = 1"
    "length (filter (due_task (pt_tenant r) (pt_id r) (ch_for ch)) (gd_tasks db)) = 1"
proof -
  obtain c where c: "c \<in> set (gd_claims db)" "held (ch_id ch) (pt_tenant r) (pt_id r) (ch_for ch) c"
    using assms(1) by (auto simp: under_way_def list_ex_iff)
  obtain x where x: "x \<in> set (gd_tasks db)" "due_task (pt_tenant r) (pt_id r) (ch_for ch) x"
    using assms(1) by (auto simp: under_way_def list_ex_iff)
  have "filter (held (ch_id ch) (pt_tenant r) (pt_id r) (ch_for ch)) (gd_claims db) = [c]"
    using assms(3) c by (intro filter_key_one[of cl_id]) (auto simp: claims_ok_def held_def)
  then show "length (filter (held (ch_id ch) (pt_tenant r) (pt_id r) (ch_for ch)) (gd_claims db)) = 1" by simp
  have "filter (due_task (pt_tenant r) (pt_id r) (ch_for ch)) (gd_tasks db) = [x]"
    using assms(2) x by (intro filter_key_one[of pt_id]) (auto simp: tasks_ok_def due_task_def)
  then show "length (filter (due_task (pt_tenant r) (pt_id r) (ch_for ch)) (gd_tasks db)) = 1" by simp
qed

text \<open>A row whose tenant and id need no cleaning, as the platform writes them.\<close>

definition clean_row :: "task_row \<Rightarrow> bool" where
  "clean_row r \<longleftrightarrow> clean_str 120 (pt_tenant r) = pt_tenant r \<and> clean_str 120 (pt_id r) = pt_id r \<and> pt_tenant r \<noteq> [] \<and> pt_id r \<noteq> [] \<and>
     (case pt_next r of None \<Rightarrow> False | Some n \<Rightarrow> clean_str 80 n = n)"

lemma claimed_under_way:
  assumes "claimObservation cid r db = (Claimed ch, db1)" "clean_row r" "r \<in> set (gd_tasks db)" "pt_status r = ''active''" "claims_ok (gd_claims db)"
  shows "under_way ch r db1" "pt_next r = Some (ch_for ch)" "ch_for ch \<noteq> []" "gd_tasks db1 = gd_tasks db" "gd_checkpoints db1 = gd_checkpoints db"
    "gd_events db1 = gd_events db" "gd_now db1 = gd_now db" "claims_ok (gd_claims db1)"
proof -
  obtain n where n: "pt_next r = Some n" "clean_str 80 n = n" using assms(2) by (auto simp: clean_row_def split: option.splits)
  have w: "clean_str 120 (pt_tenant r) = pt_tenant r" "clean_str 120 (pt_id r) = pt_id r" "pt_tenant r \<noteq> []" "pt_id r \<noteq> []"
    using assms(2) by (auto simp: clean_row_def)
  note claim = assms(1)[unfolded claimObservation_def Let_def n(1) option.case w(1,2) n(2)]
  have ne: "n \<noteq> []" using claim by (auto split: if_splits)
  have due: "list_ex (due_task (pt_tenant r) (pt_id r) n) (gd_tasks db)"
    using assms(3,4) n(1) by (auto simp: list_ex_iff due_task_def)
  have "ch_for ch = n \<and> list_ex (held (ch_id ch) (pt_tenant r) (pt_id r) n) (gd_claims db1) \<and> gd_tasks db1 = gd_tasks db \<and> gd_checkpoints db1 = gd_checkpoints db \<and>
      gd_events db1 = gd_events db \<and> gd_now db1 = gd_now db \<and> claims_ok (gd_claims db1)"
  proof (cases "insert_claim cid (pt_tenant r) (pt_id r) n db")
    case (Inr db2)
    have "claims_ok (gd_claims db2)" using insert_claim_quiet[OF Inr] assms(5) by (simp add: quiet_def claims_evolve_def)
    then show ?thesis using claim w ne Inr by (auto simp: insert_claim_def held_def claim_key_def split: if_splits)
  next
    case (Inl b)
    then obtain seen where seen: "existing_claim (pt_tenant r) (pt_id r) n db = Some seen" "retake_claim seen (pt_tenant r) (pt_id r) n db = (Claimed ch, db1)"
      using claim w ne by (cases b) (auto split: option.splits)
    have s: "seen \<in> set (gd_claims db)" "claim_key seen = (pt_tenant r, pt_id r, n)" using seen(1) by (auto simp: existing_claim_def find_Some_iff)
    let ?p = "retakeable db (cl_id seen) (pt_tenant r) (pt_id r)"
    have d: "length (filter ?p (gd_claims db)) = 1" "ch_id ch = cl_id seen" "ch_for ch = n"
      "db1 = db\<lparr>gd_claims := update_where ?p (reopen (now_seconds db)) (gd_claims db)\<rparr>"
      using seen(2) by (auto simp: retake_claim_def Let_def split: if_splits)
    have "filter ?p (gd_claims db) \<noteq> []" using d(1) by auto
    then obtain c where c: "c \<in> set (gd_claims db)" "?p c" by (auto simp: filter_empty_conv)
    then have "c = seen" using s(1) assms(5) distinct_key_unique[of cl_id "gd_claims db" c seen] by (simp add: retakeable_def claims_ok_def)
    then have "reopen (now_seconds db) seen \<in> set (gd_claims db1)" using c d(4) by (auto simp: set_update_where)
    moreover have "held (cl_id seen) (pt_tenant r) (pt_id r) n (reopen (now_seconds db) seen)" using s(2) by (simp add: held_def reopen_def claim_key_def)
    moreover have "claims_ok (gd_claims db1)"
      using retake_claim_quiet[of db seen "pt_tenant r" "pt_id r" n] seen(2) assms(5) by (simp add: quiet_def claims_evolve_def)
    ultimately show ?thesis using d by (auto simp: list_ex_iff)
  qed
  then show "under_way ch r db1" "pt_next r = Some (ch_for ch)" "ch_for ch \<noteq> []" "gd_tasks db1 = gd_tasks db" "gd_checkpoints db1 = gd_checkpoints db"
    "gd_events db1 = gd_events db" "gd_now db1 = gd_now db" "claims_ok (gd_claims db1)"
    using due n(1) ne by (auto simp: under_way_def)
qed

text \<open>The repair of a budget changes nothing the rest of the run looks at.\<close>

lemma repair_keeps:
  assumes "repair_budget t k v db = (ok, db1)"
  shows "gd_claims db1 = gd_claims db" "gd_checkpoints db1 = gd_checkpoints db" "gd_events db1 = gd_events db" "gd_now db1 = gd_now db"
    "list_ex (due_task a b d) (gd_tasks db1) = list_ex (due_task a b d) (gd_tasks db)" "tasks_ok (gd_tasks db) \<Longrightarrow> tasks_ok (gd_tasks db1)"
proof -
  show "gd_claims db1 = gd_claims db" "gd_checkpoints db1 = gd_checkpoints db" "gd_events db1 = gd_events db" "gd_now db1 = gd_now db"
    using assms by (auto simp: repair_budget_def split: if_splits)
  have "list_ex (due_task a b d) (update_where p (\<lambda>r. r\<lparr>pt_budget := x\<rparr>) rows) = list_ex (due_task a b d) rows" for p x rows
    by (induction rows) (auto simp: due_task_def)
  then show "list_ex (due_task a b d) (gd_tasks db1) = list_ex (due_task a b d) (gd_tasks db)"
    using assms by (auto simp: repair_budget_def split: if_splits)
  show "tasks_ok (gd_tasks db) \<Longrightarrow> tasks_ok (gd_tasks db1)"
    using repair_budget_quiet[of db t k v] assms by (simp add: quiet_def tasks_evolve_def)
qed

definition is_persisted :: "run_outcome \<Rightarrow> bool" where
  "is_persisted out \<longleftrightarrow> (case out of Persisted p \<Rightarrow> True | _ \<Rightarrow> False)"

text \<open>A run keeps its occurrence under way, or it has observed it.\<close>

lemma run_outcomes:
  assumes "runBusinessGoalTask dp sha observer tool r ch cpid eid db = (out, db')" "clean_row r" "under_way ch r db" "tasks_ok (gd_tasks db)" "claims_ok (gd_claims db)"
  shows "(\<not> is_persisted out \<and> under_way ch r db' \<and> tasks_ok (gd_tasks db') \<and> claims_ok (gd_claims db') \<and> gd_events db' = gd_events db) \<or>
    (\<exists>p x. out = Persisted p \<and> x \<in> set (gd_tasks db') \<and> pt_id x = pt_id r \<and> pt_tenant x = pt_tenant r \<and> pt_status x = ''active'' \<and>
      pt_next x = Some (ps_next p) \<and> ps_checkpoint p = cpid \<and>
      list_ex (\<lambda>q. cp_id q = cpid \<and> cp_tenant q = pt_tenant r \<and> cp_task q = pt_id r \<and> cp_for q = Some (ch_for ch)) (gd_checkpoints db') \<and>
      list_ex (\<lambda>c. cl_id c = ch_id ch \<and> cl_status c = ''completed'' \<and> cl_checkpoint c = Some cpid) (gd_claims db'))"
proof -
  have w: "clean_str 120 (pt_tenant r) = pt_tenant r" "clean_str 120 (pt_id r) = pt_id r" "pt_tenant r \<noteq> []" "pt_id r \<noteq> []"
    using assms(2) by (auto simp: clean_row_def)
  have finish: ?thesis if f: "finish_observation dp sha v (pt_tenant r) (pt_id r) ch res cpid eid db1 = (out, db')" and rp: "repair_budget (pt_tenant r) (pt_id r) v db = (ok, db1)" for v res ok db1
  proof -
    note k = repair_keeps[OF rp]
    have u: "under_way ch r db1" "tasks_ok (gd_tasks db1)" "claims_ok (gd_claims db1)"
      using assms(3-5) k by (simp_all add: under_way_def)
    note one = under_way_unique[OF u]
    show ?thesis
    proof (cases "nextBusinessGoalRunAt dp (Valid v) (ch_for ch) (gd_now db1)")
      case (Next s)
      show ?thesis
      proof (cases "db' = db1 \<and> \<not> is_persisted out")
        case True
        then show ?thesis using u k(3) by simp
      next
        case False
        then obtain hash snapshot state event where b: "finish_batch (pt_tenant r) (pt_id r) ch cpid hash snapshot (sc_at s) state event eid db1 = Some db'"
          and out: "\<exists>p. out = Persisted p \<and> ps_next p = sc_at s \<and> ps_checkpoint p = cpid"
          using f one unfolding finish_observation_def Let_def Next by (auto simp: is_persisted_def split: if_splits option.splits)
        note e = finish_batch_Some[OF b]
        obtain x where x: "x \<in> set (gd_tasks db1)" "due_task (pt_tenant r) (pt_id r) (ch_for ch) x" using e(2) by (auto simp: list_ex_iff)
        obtain c where c: "c \<in> set (gd_claims db1)" "held (ch_id ch) (pt_tenant r) (pt_id r) (ch_for ch) c" using e(1) by (auto simp: list_ex_iff)
        have x': "x\<lparr>pt_ran := True, pt_next := Some (sc_at s), pt_checkpoint := Some state\<rparr> \<in> set (gd_tasks db')"
          unfolding e(7) update_where_mem using x by (intro bexI[of _ x]) simp_all
        have c': "complete_row cpid c \<in> set (gd_claims db')"
          unfolding e(6) update_where_mem using c by (intro bexI[of _ c]) simp_all
        obtain p where p: "out = Persisted p" "ps_next p = sc_at s" "ps_checkpoint p = cpid" using out by blast
        have "list_ex (\<lambda>q. cp_id q = cpid \<and> cp_tenant q = pt_tenant r \<and> cp_task q = pt_id r \<and> cp_for q = Some (ch_for ch)) (gd_checkpoints db')"
          unfolding e(5) by simp
        moreover have "list_ex (\<lambda>c. cl_id c = ch_id ch \<and> cl_status c = ''completed'' \<and> cl_checkpoint c = Some cpid) (gd_claims db')"
          unfolding list_ex_iff using c(2) by (intro bexI[OF _ c']) (simp add: held_def complete_row_def)
        ultimately show ?thesis
          using p x(2) by (intro disjI2 exI[of _ p] exI[of _ "x\<lparr>pt_ran := True, pt_next := Some (sc_at s), pt_checkpoint := Some state\<rparr>"]) (simp add: x' due_task_def)
      qed
    qed (use f u k(3) in \<open>auto simp: finish_observation_def Let_def is_persisted_def\<close>)
  qed
  show ?thesis
  proof (cases "validateBusinessGoalTask (pt_trigger r) (pt_tools r) (pt_budget r)")
    case (Valid v)
    obtain ok db1 where rp: "repair_budget (pt_tenant r) (pt_id r) v db = (ok, db1)" by fastforce
    note k = repair_keeps[OF rp]
    have u: "under_way ch r db1" "tasks_ok (gd_tasks db1)" "claims_ok (gd_claims db1)"
      using assms(3-5) k by (simp_all add: under_way_def)
    have "(\<not> is_persisted out \<and> (db' = db \<or> db' = db1)) \<or> finish_observation dp sha v (pt_tenant r) (pt_id r) ch (\<lambda>t. the (tool t)) cpid eid db1 = (out, db')"
      using assms(1) w unfolding runBusinessGoalTask_def Let_def w(1,2) Valid validation.case rp prod.case by (auto simp: is_persisted_def split: if_splits)
    then show ?thesis using finish rp assms(3-5) u k(3) by blast
  qed (use assms w in \<open>auto simp: runBusinessGoalTask_def Let_def is_persisted_def\<close>)
qed

lemma settle_outcome:
  assumes "under_way ch r db" "tasks_ok (gd_tasks db)" "claims_ok (gd_claims db)" "eid \<notin> te_id ` set (gd_events db)"
    and "settle_failure r ch code eid db = (asked, db')"
  shows "list_ex (\<lambda>c. cl_id c = ch_id ch \<and> cl_status c = ''failed'' \<and> cl_error c = Some (failure_code code)) (gd_claims db') \<and>
    asked = (3 \<le> ch_attempts ch) \<and>
    list_ex (\<lambda>x. pt_id x = pt_id r \<and> pt_tenant x = pt_tenant r \<and> pt_next x = Some (ch_for ch) \<and> pt_status x = (if asked then ''paused'' else ''active'')) (gd_tasks db')"
proof -
  let ?p = "held (ch_id ch) (pt_tenant r) (pt_id r) (ch_for ch)" and ?q = "due_task (pt_tenant r) (pt_id r) (ch_for ch)"
  let ?f = "\<lambda>x. x\<lparr>pt_status := ''paused'', pt_checkpoint := Some (JObj (attention_state ch (failure_code code) (gd_now db)))\<rparr>"
  obtain c where c: "c \<in> set (gd_claims db)" "?p c" using assms(1) by (auto simp: under_way_def list_ex_iff)
  obtain x where x: "x \<in> set (gd_tasks db)" "?q x" using assms(1) by (auto simp: under_way_def list_ex_iff)
  have failed: "list_ex (\<lambda>c. cl_id c = ch_id ch \<and> cl_status c = ''failed'' \<and> cl_error c = Some (failure_code code)) (update_where ?p (fail_row (failure_code code)) (gd_claims db))"
  proof -
    have m: "fail_row (failure_code code) c \<in> set (update_where ?p (fail_row (failure_code code)) (gd_claims db))"
      unfolding update_where_mem using c by (intro bexI[of _ c]) simp_all
    show ?thesis unfolding list_ex_iff using c(2) by (intro bexI[OF _ m]) (simp add: fail_row_def held_def)
  qed
  show ?thesis
  proof (cases "3 \<le> ch_attempts ch")
    case True
    have "\<not> list_ex (\<lambda>y. ?q y \<and> watched (?f y) \<and> list_ex (\<lambda>z. pt_id z \<noteq> pt_id y \<and> duplicates (?f y) z) (gd_tasks db)) (gd_tasks db)"
    proof
      assume "list_ex (\<lambda>y. ?q y \<and> watched (?f y) \<and> list_ex (\<lambda>z. pt_id z \<noteq> pt_id y \<and> duplicates (?f y) z) (gd_tasks db)) (gd_tasks db)"
      then obtain y z where yz: "y \<in> set (gd_tasks db)" "z \<in> set (gd_tasks db)" "?q y" "watched (?f y)" "pt_id z \<noteq> pt_id y" "duplicates (?f y) z"
        by (auto simp: list_ex_iff)
      have "watched y \<and> watched z \<and> pt_tenant y = pt_tenant z \<and> stored_key y = stored_key z"
        using yz(3,4,6) by (auto simp: watched_def duplicates_def due_task_def open_status_def stored_key_def)
      then have "pt_id y = pt_id z" using assms(2) yz(1,2) unfolding tasks_ok_def one_watch_def by blast
      then show False using yz(5) by simp
    qed
    then have u: "update_status ?q ?f (gd_tasks db) = Some (update_where ?q ?f (gd_tasks db))" by (simp add: update_status_def)
    have "\<not> list_ex (\<lambda>x. te_id x = eid) (gd_events db)" using assms(4) by (auto simp: list_ex_iff)
    then have pz: "pauseForOwnerAttention r ch code eid db = (True, db')" "asked"
      using assms(5) True assms(1) under_way_unique[OF assms(1-3)] u
      by (auto simp: settle_failure_def pauseForOwnerAttention_def Let_def under_way_guard)
    then have d: "gd_claims db' = update_where ?p (fail_row (failure_code code)) (gd_claims db)" "gd_tasks db' = update_where ?q ?f (gd_tasks db)"
      using u by (auto simp: pauseForOwnerAttention_def Let_def split: if_splits)
    have m: "?f x \<in> set (gd_tasks db')" unfolding d(2) update_where_mem using x by (intro bexI[of _ x]) simp_all
    have "list_ex (\<lambda>x. pt_id x = pt_id r \<and> pt_tenant x = pt_tenant r \<and> pt_next x = Some (ch_for ch) \<and> pt_status x = ''paused'') (gd_tasks db')"
      unfolding list_ex_iff using x(2) by (intro bexI[OF _ m]) (simp add: due_task_def)
    then show ?thesis using failed True pz(2) unfolding d(1) by simp
  next
    case False
    then have d: "\<not> asked" "db' = failClaim r ch code db" using assms(5) by (simp_all add: settle_failure_def)
    have "list_ex (\<lambda>x. pt_id x = pt_id r \<and> pt_tenant x = pt_tenant r \<and> pt_next x = Some (ch_for ch) \<and> pt_status x = ''active'') (gd_tasks db)"
      using x by (auto simp: list_ex_iff due_task_def)
    then show ?thesis using failed d False by (simp add: failClaim_def)
  qed
qed

section \<open>Properties\<close>

text \<open>C18: Each occurrence of a goal is observed once: in every state that any number of schedulers and the owner's requests reach, the
  scheduled checkpoints are exactly those of the completed claims, an occurrence has at most one claim and one checkpoint, no
  goal of a tenant is watched by two open tasks, and the next occurrence of a task lies after all it has observed.\<close>

theorem goal_observed_once:
  assumes "(goal_step dp sha)\<^sup>*\<^sup>* db db'" "iso_reader dp" "goals_ok dp db"
  shows "set (completed_keys (gd_claims db')) = set (checkpoint_keys (gd_checkpoints db')) \<and> distinct (map claim_key (gd_claims db')) \<and>
    distinct (map (\<lambda>p. (cp_tenant p, cp_task p, cp_for p)) (scheduled_checkpoints (gd_checkpoints db'))) \<and>
    one_watch (gd_tasks db') \<and> list_all (reached dp (gd_tasks db')) (gd_checkpoints db')"
  using goal_steps_ok[OF assms] by (simp add: goals_ok_def observed_once_def claims_ok_def tasks_ok_def)

text \<open>C21: What is over stays over: a completed or cancelled task is never changed, rescheduled or observed again, and a completed claim
  is never reopened, whatever requests and schedulers run, on whatever older state they were decided.\<close>

theorem closed_goal_final:
  assumes "(goal_step dp sha)\<^sup>*\<^sup>* db db'" "iso_reader dp" "goals_ok dp db" "r \<in> set (gd_tasks db)" "terminal_status (pt_status r)"
    "c \<in> set (gd_claims db)" "completed c"
  shows "r \<in> set (gd_tasks db') \<and> observations r db' = observations r db \<and> c \<in> set (gd_claims db')"
  using assms(1)
proof (induction rule: rtranclp_induct)
  case base
  then show ?case using assms(4,6) by simp
next
  case (step db1 db2)
  have "goals_ok dp db1" by (rule goal_steps_ok[OF step(1) assms(2,3)])
  then have "closed_task r (observations r db) db2"
    using closed_task_step[OF step(2)] step(3) assms(5) by (simp add: closed_task_def)
  then show ?case using completed_step[OF step(2)] step(3) assms(7) by (simp add: closed_task_def)
qed

text \<open>C20: A due goal that was claimed does not stay open: the pass observes it and moves it to its next occurrence, with a checkpoint and a
  completed claim, or its claim fails with a code, and after the third attempt the task is paused for the owner.\<close>

theorem claimed_goal_settles:
  assumes "goals_ok dp db" "r \<in> set (gd_tasks db)" "goal_due db r" "clean_row r"
    and "claimObservation (tk_claim tk) r db = (Claimed ch, db1)" "tk_pause_event tk \<notin> te_id ` set (gd_events db)"
    and "run_row dp sha observer r tk db = (out, db')"
  shows "(\<exists>p. out = Some (Ran (Persisted p) False) \<and>
      list_ex (\<lambda>x. pt_id x = pt_id r \<and> pt_tenant x = pt_tenant r \<and> pt_next x = Some (ps_next p)) (gd_tasks db') \<and>
      list_ex (\<lambda>q. cp_id q = tk_checkpoint tk \<and> cp_task q = pt_id r \<and> cp_for q = pt_next r) (gd_checkpoints db') \<and>
      list_ex (\<lambda>c. cl_id c = ch_id ch \<and> cl_status c = ''completed'' \<and> cl_checkpoint c = Some (tk_checkpoint tk)) (gd_claims db')) \<or>
    (\<exists>res asked. out = Some (Ran res asked) \<and> \<not> is_persisted res \<and> asked = (3 \<le> ch_attempts ch) \<and>
      list_ex (\<lambda>c. cl_id c = ch_id ch \<and> cl_status c = ''failed'' \<and> cl_error c \<noteq> None) (gd_claims db') \<and>
      list_ex (\<lambda>x. pt_id x = pt_id r \<and> pt_tenant x = pt_tenant r \<and> pt_next x = pt_next r \<and> pt_status x = (if asked then ''paused'' else ''active'')) (gd_tasks db'))"
proof -
  have ok: "tasks_ok (gd_tasks db)" "claims_ok (gd_claims db)" using assms(1) by (simp_all add: goals_ok_def)
  have a: "pt_status r = ''active''" using assms(3) by (simp add: goal_due_def)
  note cl = claimed_under_way[OF assms(5,4,2) a ok(2)]
  obtain res db2 where rn: "runBusinessGoalTask dp sha observer (tk_tool tk) r ch (tk_checkpoint tk) (tk_event tk) db1 = (res, db2)" by fastforce
  have o1: "tasks_ok (gd_tasks db1)" using cl(4) ok(1) by simp
  note rc = run_outcomes[OF rn assms(4) cl(1) o1 cl(8)]
  show ?thesis
  proof (cases "is_persisted res")
    case True
    then obtain p where p: "res = Persisted p" by (cases res) (auto simp: is_persisted_def)
    then have "out = Some (Ran (Persisted p) False)" "db' = db2" using assms(5,7) rn by (auto simp: run_row_def)
    then show ?thesis using rc True p cl(2) by (intro disjI1 exI[of _ p]) (auto simp: list_ex_iff)
  next
    case False
    then have u: "under_way ch r db2" "tasks_ok (gd_tasks db2)" "claims_ok (gd_claims db2)" "gd_events db2 = gd_events db1"
      using rc by (auto simp: is_persisted_def)
    obtain asked db3 where st: "settle_failure r ch (outcome_code res) (tk_pause_event tk) db2 = (asked, db3)" by fastforce
    have "tk_pause_event tk \<notin> te_id ` set (gd_events db2)" using assms(6) u(4) cl(6) by simp
    note so = settle_outcome[OF u(1-3) this st]
    have "out = Some (Ran res asked)" "db' = db3" using assms(5,7) rn st False by (auto simp: run_row_def is_persisted_def split: run_outcome.splits)
    then show ?thesis using so False cl(2) by (intro disjI2 exI[of _ res] exI[of _ asked]) (auto simp: list_ex_iff)
  qed
qed

section \<open>One goal\<close>

definition demo_owner :: session where "demo_owner = \<lparr>se_tenant = ''t1'', se_user = ''u1'', se_role = ''Owner''\<rparr>"

definition empty_goals :: goals_db where
  "empty_goals = \<lparr>gd_tasks = [], gd_events = [], gd_claims = [], gd_checkpoints = [], gd_audit = [], gd_now = 1790000000000\<rparr>"

definition demo_goals :: goals_db where
  "demo_goals = snd (createBusinessGoal demo_owner True True (Inr (JObj [(''templateKey'', JStr ''stay_compliant'')])) ''g1'' ''e1'' empty_goals)"

definition demo_observer :: authority where
  "demo_observer = \<lparr>au_ready = True, au_agent = BUSINESS_GOAL_OBSERVER_AGENT_ID, au_descr = Some \<lparr>ds_name = ''business_goal_observer'', ds_type = ''system_observer'',
     ds_purpose = [], ds_risk = ''low'', ds_scope = ''platform''\<rparr>, au_state = ''active'', au_exec = False, au_reason = []\<rparr>"

definition demo_ticket :: ticket where
  "demo_ticket = \<lparr>tk_claim = ''c1'', tk_checkpoint = ''k1'', tk_event = ''e2'', tk_pause_event = ''e3'',
     tk_tool = (\<lambda>t. Some (JObj [(''allowed'', JBool True), (''available'', JBool True), (''data'', JObj [(''overdueObligationCount'', JInt 2)])]))\<rparr>"

definition demo_task :: task_row where "demo_task = hd (gd_tasks demo_goals)"

definition demo_done :: goals_db where
  "demo_done = snd (run_row iso_read id demo_observer demo_task demo_ticket demo_goals)"

text \<open>A cancelled task that was observed once, and a request to pause it that was decided earlier.\<close>

definition closed_row :: task_row where
  "closed_row = (new_row ''g1'' ''t1'' ''u1'' ''Watch'' ''manual'' (JObj []) [] (JObj []) (JObj []) (JObj []) (Some ''2026-09-22T14:13:20.000Z''))
     \<lparr>pt_status := ''cancelled'', pt_ran := True\<rparr>"

definition done_claim :: claim_row where
  "done_claim = \<lparr>cl_id = ''c1'', cl_tenant = ''t1'', cl_task = ''g1'', cl_for = ''2026-09-21T14:13:20.000Z'', cl_status = ''completed'', cl_attempts = 1,
     cl_started = 1790000000, cl_checkpoint = Some ''k1'', cl_error = None\<rparr>"

definition closed_goals :: goals_db where
  "closed_goals = \<lparr>gd_tasks = [closed_row], gd_events = [], gd_claims = [done_claim],
     gd_checkpoints = [\<lparr>cp_id = ''k1'', cp_tenant = ''t1'', cp_task = ''g1'', cp_hash = [], cp_snapshot = JObj [], cp_for = Some ''2026-09-21T14:13:20.000Z'',
       cp_observed = 1790000000\<rparr>], gd_audit = [], gd_now = 1790000000000\<rparr>"

definition earlier_goals :: goals_db where
  "earlier_goals = closed_goals\<lparr>gd_tasks := [closed_row\<lparr>pt_status := ''active''\<rparr>]\<rparr>"

definition late_request :: goals_db where
  "late_request = snd (task_transition demo_owner True ''g1'' ''paused'' ''e5'' earlier_goals closed_goals)"

lemma iso_reader_read: "iso_reader iso_read"
  by (simp add: iso_reader_def iso_read_text)

lemma empty_goals_ok: "goals_ok dp empty_goals"
  by (simp add: goals_ok_def empty_goals_def tasks_ok_def one_watch_def claims_ok_def observed_once_def completed_keys_def checkpoint_keys_def scheduled_checkpoints_def)

lemma demo_steps: "goal_steps iso_read id empty_goals demo_goals" "goal_steps iso_read id demo_goals demo_done"
  unfolding demo_goals_def demo_done_def
  by (rule r_into_rtranclp, rule goal_step.Create_Goal) (rule run_row_steps)

lemma demo_goals_ok: "goals_ok iso_read demo_goals"
  by (rule goal_steps_ok[OF demo_steps(1) iso_reader_read empty_goals_ok])

lemma closed_goals_ok: "goals_ok iso_read closed_goals"
proof -
  have "list_all (reached iso_read (gd_tasks closed_goals)) (gd_checkpoints closed_goals)" by code_simp
  then show ?thesis
    by (simp add: goals_ok_def closed_goals_def tasks_ok_def one_watch_def claims_ok_def observed_once_def completed_keys_def checkpoint_keys_def
        scheduled_checkpoints_def completed_def done_claim_def)
qed

theorem goal_observed_once_witness:
  "set (completed_keys (gd_claims demo_done)) = set (checkpoint_keys (gd_checkpoints demo_done)) \<and> map cp_for (gd_checkpoints demo_done) = [Some ''2026-09-21T14:13:20.000Z'']"
proof -
  have "map cp_for (gd_checkpoints demo_done) = [Some ''2026-09-21T14:13:20.000Z'']" by code_simp
  then show ?thesis using goal_observed_once[OF rtranclp_trans[OF demo_steps(1,2)] iso_reader_read empty_goals_ok] by blast
qed

theorem closed_goal_final_witness:
  "closed_row \<in> set (gd_tasks late_request) \<and> observations closed_row late_request = gd_checkpoints closed_goals \<and> done_claim \<in> set (gd_claims late_request)"
proof -
  have s: "goal_steps iso_read id closed_goals late_request" unfolding late_request_def by (intro r_into_rtranclp goal_step.Transition)
  have v: "closed_row \<in> set (gd_tasks closed_goals)" "terminal_status (pt_status closed_row)" "done_claim \<in> set (gd_claims closed_goals)"
    "completed done_claim" "observations closed_row closed_goals = gd_checkpoints closed_goals"
    by (simp_all add: closed_goals_def closed_row_def terminal_status_def completed_def done_claim_def observations_def new_row_def)
  show ?thesis using closed_goal_final[OF s iso_reader_read closed_goals_ok v(1-4)] v(5) by simp
qed

theorem claimed_goal_settles_witness:
  "\<exists>p. fst (run_row iso_read id demo_observer demo_task demo_ticket demo_goals) = Some (Ran (Persisted p) False) \<and>
    list_ex (\<lambda>x. pt_id x = ''g1'' \<and> pt_next x = Some (ps_next p)) (gd_tasks demo_done)"
proof -
  obtain out where o1: "run_row iso_read id demo_observer demo_task demo_ticket demo_goals = (out, demo_done)" unfolding demo_done_def by (metis prod.collapse)
  obtain ch db1 where c: "claimObservation (tk_claim demo_ticket) demo_task demo_goals = (Claimed ch, db1)"
  proof -
    have "(case fst (claimObservation (tk_claim demo_ticket) demo_task demo_goals) of Claimed ch \<Rightarrow> True | _ \<Rightarrow> False)" by code_simp
    then show ?thesis using that by (cases "claimObservation (tk_claim demo_ticket) demo_task demo_goals") (auto split: claim_result.splits)
  qed
  have v: "goal_due demo_goals demo_task" "clean_row demo_task" "map te_id (gd_events demo_goals) = [''e1'']" "tk_pause_event demo_ticket = ''e3''"
    "length (gd_tasks demo_goals) = 1" "pt_id demo_task = ''g1''" by code_simp+
  have m: "demo_task \<in> set (gd_tasks demo_goals)" using hd_in_set[of "gd_tasks demo_goals"] v(5) unfolding demo_task_def by (metis length_0_conv zero_neq_one)
  have f: "tk_pause_event demo_ticket \<notin> te_id ` set (gd_events demo_goals)" unfolding v(4) set_map[symmetric] v(3) by simp
  have kept: "(case fst (run_row iso_read id demo_observer demo_task demo_ticket demo_goals) of Some (Ran r b) \<Rightarrow> is_persisted r | _ \<Rightarrow> False)" by code_simp
  show ?thesis
  proof (rule disjE[OF claimed_goal_settles[OF demo_goals_ok m v(1,2) c f o1]])
    assume "\<exists>p. out = Some (Ran (Persisted p) False) \<and>
      list_ex (\<lambda>x. pt_id x = pt_id demo_task \<and> pt_tenant x = pt_tenant demo_task \<and> pt_next x = Some (ps_next p)) (gd_tasks demo_done) \<and>
      list_ex (\<lambda>q. cp_id q = tk_checkpoint demo_ticket \<and> cp_task q = pt_id demo_task \<and> cp_for q = pt_next demo_task) (gd_checkpoints demo_done) \<and>
      list_ex (\<lambda>c. cl_id c = ch_id ch \<and> cl_status c = ''completed'' \<and> cl_checkpoint c = Some (tk_checkpoint demo_ticket)) (gd_claims demo_done)"
    then obtain p where p: "out = Some (Ran (Persisted p) False)"
      "list_ex (\<lambda>x. pt_id x = pt_id demo_task \<and> pt_tenant x = pt_tenant demo_task \<and> pt_next x = Some (ps_next p)) (gd_tasks demo_done)" by blast
    have "list_ex (\<lambda>x. pt_id x = ''g1'' \<and> pt_next x = Some (ps_next p)) (gd_tasks demo_done)"
      using p(2) unfolding v(6) list_ex_iff by blast
    then show ?thesis unfolding o1 fst_conv p(1) by blast
  next
    assume "\<exists>res asked. out = Some (Ran res asked) \<and> \<not> is_persisted res \<and> asked = (3 \<le> ch_attempts ch) \<and>
      list_ex (\<lambda>c. cl_id c = ch_id ch \<and> cl_status c = ''failed'' \<and> cl_error c \<noteq> None) (gd_claims demo_done) \<and>
      list_ex (\<lambda>x. pt_id x = pt_id demo_task \<and> pt_tenant x = pt_tenant demo_task \<and> pt_next x = pt_next demo_task \<and> pt_status x = (if asked then ''paused'' else ''active'')) (gd_tasks demo_done)"
    then obtain res asked where r: "out = Some (Ran res asked)" "\<not> is_persisted res" by blast
    have False using kept r(2) unfolding o1 fst_conv r(1) option.case row_outcome.case by blast
    then show ?thesis by blast
  qed
qed

end
