(* ===== verification/AuthorityTrail.thy ===== *)
theory AuthorityTrail imports AuthorityStore begin

text \<open>
  What the delegated authority store promises, over every history of requests: a grant is bounded, confirmed by a human
  and in shadow mode only, its status is what its audit events say, an intent is backed by a grant of its own tenant,
  and, when no two requests overlap, the daily limit of a grant is kept. A history is the list of the states, the newest
  first; a request reads one of the earlier states and writes the newest.
\<close>

section \<open>Histories\<close>

definition empty_store :: "authority_db \<Rightarrow> bool" where
  "empty_store db \<longleftrightarrow> ad_delegations db = [] \<and> ad_intents db = [] \<and> ad_events db = []"

definition readable :: "bool \<Rightarrow> authority_db \<Rightarrow> authority_db list \<Rightarrow> authority_db set" where
  "readable overlap db dbs = (if overlap then set (db # dbs) else {db})"

inductive authority_step :: "date_parse \<Rightarrow> (string \<Rightarrow> string) \<Rightarrow> authority_db \<Rightarrow> authority_db \<Rightarrow> authority_db \<Rightarrow> bool" for dp sha db0 db where
  step_create: "authority_step dp sha db0 db (snd (createDelegation dp auth ready up body did eid db0 db))"
| step_mutate: "authority_step dp sha db0 db (snd (mutateDelegation auth ready did c eid db0 db))"
| step_shadow: "authority_step dp sha db0 db (snd (shadowEvaluate dp sha auth ready up header body iid eid db0 db))"
| step_pass: "ad_now db \<le> t \<Longrightarrow> authority_step dp sha db0 db (db\<lparr>ad_now := t, ad_runs := ad_runs db @ rs, ad_proposals := ad_proposals db @ ps\<rparr>)"

inductive authority_run :: "date_parse \<Rightarrow> (string \<Rightarrow> string) \<Rightarrow> bool \<Rightarrow> authority_db list \<Rightarrow> bool" for dp sha overlap where
  run_start: "empty_store db \<Longrightarrow> authority_run dp sha overlap [db]"
| run_step: "authority_run dp sha overlap (db # dbs) \<Longrightarrow> db0 \<in> readable overlap db dbs \<Longrightarrow> authority_step dp sha db0 db db' \<Longrightarrow>
    authority_run dp sha overlap (db' # db # dbs)"

section \<open>What holds of the store\<close>

definition lawful_delegation :: "delegation_row \<Rightarrow> bool" where
  "lawful_delegation r \<longleftrightarrow> dr_agent r = ''thebe'' \<and> dr_level r = level_bounded_execute \<and> dr_human r \<and> dr_shadow r \<and>
     dr_action r \<notin> set NEVER_AUTONOMOUS_ACTIONS \<and>
     (\<exists>d. AGENT_ACTION_CATALOG (dr_action r) = Some d \<and> a_level d = 3 \<and> (dr_external r \<longrightarrow> a_externalSideEffect d \<and> dr_strong r)) \<and>
     (case dr_daily r of None \<Rightarrow> True | Some m \<Rightarrow> 1 \<le> m \<and> m \<le> 1000) \<and>
     (case dr_amount r of None \<Rightarrow> True | Some m \<Rightarrow> 0 \<le> m \<and> m \<le> max_safe)"

text \<open>The events of a delegation, evaluations apart, and the status they leave it in.\<close>

definition delegation_history :: "string \<Rightarrow> authority_db \<Rightarrow> string list" where
  "delegation_history did db = map de_type (filter (\<lambda>e. de_delegation e = did \<and> de_type e \<noteq> ''SHADOW_EVALUATED'') (ad_events db))"

definition lawful_history :: "string \<Rightarrow> string list \<Rightarrow> bool" where
  "lawful_history status ts \<longleftrightarrow>
     (status = ''active'' \<and> ts = [''CREATED'']) \<or> (status = ''paused'' \<and> ts = [''CREATED'', ''PAUSED'']) \<or>
     (status = ''revoked'' \<and> (ts = [''CREATED'', ''REVOKED''] \<or> ts = [''CREATED'', ''PAUSED'', ''REVOKED'']))"

definition one_active :: "authority_db \<Rightarrow> bool" where
  "one_active db \<longleftrightarrow> (\<forall>t a. length (filter (active_for t ''thebe'' a) (ad_delegations db)) \<le> 1)"

definition backed_by :: "authority_db \<Rightarrow> string \<Rightarrow> string \<Rightarrow> delegation_row \<Rightarrow> bool" where
  "backed_by db tenant did r \<longleftrightarrow> r \<in> set (ad_delegations db) \<and> dr_id r = did \<and> dr_tenant r = tenant"

definition lawful_intent :: "authority_db \<Rightarrow> intent_row \<Rightarrow> bool" where
  "lawful_intent db i \<longleftrightarrow> in_decision i \<noteq> ''allow_execute'' \<and> in_status i = actionStatus (in_decision i) \<and>
     (case in_delegation i of None \<Rightarrow> in_decision i = ''shadow_allow'' \<longrightarrow> in_level i < level_bounded_execute
      | Some did \<Rightarrow> (\<exists>r. backed_by db (in_tenant i) did r \<and> dr_action r = in_action i \<and>
          (in_decision i = ''shadow_allow'' \<longrightarrow> (\<forall>m. dr_amount r = Some m \<longrightarrow> in_amount i \<le> m))))"

definition store_lawful :: "authority_db \<Rightarrow> bool" where
  "store_lawful db \<longleftrightarrow> distinct (map dr_id (ad_delegations db)) \<and> one_active db \<and>
     (\<forall>r \<in> set (ad_delegations db). lawful_delegation r \<and> lawful_history (dr_status r) (delegation_history (dr_id r) db)) \<and>
     (\<forall>e \<in> set (ad_events db). \<exists>r. backed_by db (de_tenant e) (de_delegation e) r) \<and>
     distinct (map (\<lambda>i. (in_tenant i, in_key i)) (ad_intents db)) \<and> (\<forall>i \<in> set (ad_intents db). lawful_intent db i)"

text \<open>What a later state keeps of an earlier one: every delegation, but for its status, and every intent.\<close>

definition same_grant :: "delegation_row \<Rightarrow> delegation_row \<Rightarrow> bool" where
  "same_grant r r' \<longleftrightarrow> r\<lparr>dr_status := ''''\<rparr> = r'\<lparr>dr_status := ''''\<rparr>"

definition store_extends :: "authority_db \<Rightarrow> authority_db \<Rightarrow> bool" where
  "store_extends db0 db \<longleftrightarrow> list_all2 same_grant (ad_delegations db0) (take (length (ad_delegations db0)) (ad_delegations db)) \<and>
     (\<exists>is. ad_intents db = ad_intents db0 @ is) \<and> ad_now db0 \<le> ad_now db"

section \<open>What each request may do\<close>

lemma delegable_action_level:
  assumes "delegable_action body = Inr d"
  shows "AGENT_ACTION_CATALOG (text_of (fld body ''actionKey'') 120) = Some d \<and> a_level d = 3 \<and>
    text_of (fld body ''actionKey'') 120 \<notin> set NEVER_AUTONOMOUS_ACTIONS"
proof -
  let ?k = "text_of (fld body ''actionKey'') 120"
  obtain x where x: "AGENT_ACTION_CATALOG ?k = Some x"
    using assms by (cases "AGENT_ACTION_CATALOG ?k") (auto simp: delegable_action_def Let_def split: if_splits)
  have d: "x = d" "\<not> isNeverAutonomousAction (JStr ?k)" "\<not> requiredAutonomyLevel (Some d) \<ge> level_human_only"
    "\<not> requiredAutonomyLevel (Some d) < level_bounded_execute"
    using assms unfolding delegable_action_def Let_def x by (simp_all split: if_splits)
  then have "requiredAutonomyLevel (Some d) = level_bounded_execute" by (simp add: autonomy_defs)
  then have "a_level d = 3" by (simp only: required_level_simps)
  moreover have "?k \<notin> set NEVER_AUTONOMOUS_ACTIONS"
    using d(2) by (cases "?k = []") (simp_all add: isNeverAutonomousAction_def str_or_def NEVER_AUTONOMOUS_ACTIONS_def)
  ultimately show ?thesis using x d(1) by simp
qed

lemma boundedInt_range: "boundedInt lo hi nullable v = Limit i \<Longrightarrow> lo \<le> i \<and> i \<le> hi"
  unfolding boundedInt_def by (auto split: if_splits jsnum.splits simp: le_floor_iff floor_le_iff)

lemma limit_value_range: "limit_value (boundedInt lo hi nullable v) = Some i \<Longrightarrow> lo \<le> i \<and> i \<le> hi"
  by (cases "boundedInt lo hi nullable v") (auto dest: boundedInt_range)

lemma requested_delegation_lawful:
  assumes "delegable_action body = Inr d" "requested_delegation dp auth body d did = Inr r"
  shows "lawful_delegation r" "dr_status r = ''active''" "dr_tenant r = se_tenant auth" "dr_id r = did"
proof -
  note a = delegable_action_level[OF assms(1)]
  have lvl: "requiredAutonomyLevel (Some d) = level_bounded_execute" using a by (simp only: required_level_simps)
  have lm: "(case limit_value (boundedInt lo hi True v) of None \<Rightarrow> True | Some m \<Rightarrow> lo \<le> m \<and> m \<le> hi)" for lo hi v
    by (cases "limit_value (boundedInt lo hi True v)") (auto dest: limit_value_range)
  obtain l where l: "boundedInt (requiredAutonomyLevel (Some d)) level_bounded_execute False (fld body ''maxAutonomyLevel'') = Limit l"
    using assms(2) unfolding requested_delegation_def Let_def by (auto split: bounded.splits)
  then have le: "l = level_bounded_execute" using boundedInt_range lvl by fastforce
  note ex = assms(2)[unfolded requested_delegation_def Let_def l bounded.case]
  have r: "dr_agent r = ''thebe'' \<and> dr_level r = l \<and> dr_human r \<and> dr_shadow r \<and> dr_action r = text_of (fld body ''actionKey'') 120 \<and>
    (dr_external r \<longrightarrow> a_externalSideEffect d \<and> dr_strong r) \<and>
    dr_daily r = limit_value (boundedInt 1 1000 True (fld body ''maxDailyActions'')) \<and>
    dr_amount r = limit_value (boundedInt 0 max_safe True (fld body ''maxAmountMinor'')) \<and>
    dr_status r = ''active'' \<and> dr_tenant r = se_tenant auth \<and> dr_id r = did"
    using ex by (elim if_chain_cases; simp only: sum.distinct sum.inject; hypsubst; simp)
  show "lawful_delegation r" using r a le lm[of 1 1000] lm[of 0 max_safe] unfolding lawful_delegation_def by simp
  show "dr_status r = ''active''" "dr_tenant r = se_tenant auth" "dr_id r = did" using r by simp_all
qed

lemma create_effect:
  assumes "db' = snd (createDelegation dp auth ready up body did eid db0 db)"
  shows "db' = db \<or> (\<exists>r. lawful_delegation r \<and> dr_status r = ''active'' \<and> insert_delegation r eid db = Some db')"
  using assms unfolding createDelegation_def
  by (auto split: if_splits sum.splits option.splits prod.splits dest: requested_delegation_lawful)

lemma key_unique:
  assumes "distinct (map k xs)" "x \<in> set xs" "y \<in> set xs" "k x = k y"
  shows "x = y"
  using assms by (simp add: distinct_map inj_on_def)

lemma filter_key:
  assumes "distinct (map k xs)" "x \<in> set xs" "p x" "\<And>y. p y \<Longrightarrow> k y = k x"
  shows "filter p xs = [x]"
  using assms(1,2)
proof (induction xs)
  case (Cons y ys)
  show ?case
  proof (cases "y = x")
    case True
    then have "\<forall>z \<in> set ys. \<not> p z" using Cons.prems(1) assms(4) by (metis distinct.simps(2) image_eqI list.set_map list.simps(9))
    then show ?thesis using True assms(3) by simp
  next
    case False
    then have x: "x \<in> set ys" using Cons.prems(2) by simp
    then have "k y \<noteq> k x" using Cons.prems(1) by (metis distinct.simps(2) image_eqI list.set_map list.simps(9))
    then have "\<not> p y" using assms(4) by blast
    then show ?thesis using Cons.IH Cons.prems(1) x by simp
  qed
qed simp

lemma mutate_effect:
  assumes "distinct (map dr_id (ad_delegations db))" "db' = snd (mutateDelegation auth ready did c eid db0 db)"
  shows "db' = db \<or> (\<exists>r. backed_by db (se_tenant auth) did r \<and> dr_status r \<in> set (allowed_current c) \<and>
    db' = db\<lparr>ad_delegations := update_where (\<lambda>x. dr_id x = did) (\<lambda>x. x\<lparr>dr_status := command_status c\<rparr>) (ad_delegations db),
      ad_events := ad_events db @ [\<lparr>de_id = eid, de_tenant = se_tenant auth, de_delegation = did,
        de_type = (case c of Pause_It \<Rightarrow> ''PAUSED'' | Revoke_It \<Rightarrow> ''REVOKED''), de_user = se_user auth\<rparr>]\<rparr>)"
proof (cases "\<exists>r \<in> set (ad_delegations db). delegation_movable (se_tenant auth) did c r")
  case True
  then obtain r where r: "r \<in> set (ad_delegations db)" "delegation_movable (se_tenant auth) did c r" by blast
  have one: "filter (delegation_movable (se_tenant auth) did c) (ad_delegations db) = [r]"
    using filter_key[where p = "delegation_movable (se_tenant auth) did c", OF assms(1) r] r(2) unfolding delegation_movable_def by simp
  have iff: "delegation_movable (se_tenant auth) did c x \<longleftrightarrow> dr_id x = did" if "x \<in> set (ad_delegations db)" for x
    using key_unique[OF assms(1) r(1) that] r(2) unfolding delegation_movable_def by metis
  have same: "update_where (delegation_movable (se_tenant auth) did c) g (ad_delegations db) = update_where (\<lambda>x. dr_id x = did) g (ad_delegations db)" for g
    unfolding update_where_def by (rule map_cong) (simp_all add: iff)
  have "db' = db \<or> db' = db\<lparr>ad_delegations := update_where (\<lambda>x. dr_id x = did) (\<lambda>x. x\<lparr>dr_status := command_status c\<rparr>) (ad_delegations db),
      ad_events := ad_events db @ [\<lparr>de_id = eid, de_tenant = se_tenant auth, de_delegation = did,
        de_type = (case c of Pause_It \<Rightarrow> ''PAUSED'' | Revoke_It \<Rightarrow> ''REVOKED''), de_user = se_user auth\<rparr>]\<rparr>"
    unfolding assms(2) mutateDelegation_def Let_def one same by (simp split: option.splits)
  moreover have "backed_by db (se_tenant auth) did r" "dr_status r \<in> set (allowed_current c)"
    using r by (simp_all add: backed_by_def delegation_movable_def)
  ultimately show ?thesis by blast
next
  case False
  then have none: "filter (delegation_movable (se_tenant auth) did c) (ad_delegations db) = []" by (simp add: filter_empty_conv)
  have same: "update_where (delegation_movable (se_tenant auth) did c) g (ad_delegations db) = ad_delegations db" for g
    using False by (intro update_where_none) blast
  show ?thesis unfolding assms(2) mutateDelegation_def Let_def none same by (simp split: option.splits)
qed

definition new_intent :: "date_parse \<Rightarrow> (string \<Rightarrow> string) \<Rightarrow> session \<Rightarrow> bool \<Rightarrow> shadow_request \<Rightarrow> string \<Rightarrow> string \<Rightarrow> authority_db \<Rightarrow> authority_db \<Rightarrow> intent_row" where
  "new_intent dp sha auth up q key iid db0 db =
    decided_intent auth q key (sha (payload_text q)) (shadow_grant auth up q db0) (shadow_outcome dp auth up q db0) iid (ad_now db)"

lemma record_effect: "snd (record_shadow i d eid up db) = db \<or> insert_intent i eid db = Some (snd (record_shadow i d eid up db))"
  unfolding record_shadow_def by (cases "insert_intent i eid db") (simp_all split: option.split)

lemma shadow_effect:
  assumes "db' = snd (shadowEvaluate dp sha auth ready up header body iid eid db0 db)"
  shows "db' = db \<or> (\<exists>b q. read_shadow_request auth up b db0 = Inr q \<and>
    insert_intent (new_intent dp sha auth up q (text_of header 200) iid db0 db) eid db = Some db')"
proof -
  let ?key = "text_of header 200"
  let ?P = "\<lambda>x. snd x = db \<or> (\<exists>b q. read_shadow_request auth up b db0 = Inr q \<and> insert_intent (new_intent dp sha auth up q ?key iid db0 db) eid db = Some (snd x))"
  have "?P (case read_shadow_request auth up b db0 of Inl a \<Rightarrow> (a, db)
    | Inr q \<Rightarrow> (case (if up then intent_at (se_tenant auth) ?key db0 else None) of
          Some i \<Rightarrow> (replay_or_conflict i (sha (payload_text q)), db)
        | None \<Rightarrow> record_shadow (new_intent dp sha auth up q ?key iid db0 db) (shadow_outcome dp auth up q db0) eid up db))" for b
  proof (cases "read_shadow_request auth up b db0")
    case (Inr q)
    then show ?thesis using record_effect[of "new_intent dp sha auth up q ?key iid db0 db"]
      by (cases "if up then intent_at (se_tenant auth) ?key db0 else None") (simp_all only: option.case sum.case snd_conv, blast+)
  qed simp
  then show ?thesis unfolding assms shadowEvaluate_def Let_def new_intent_def
    by (cases body) (simp_all only: sum.case if_distrib[of snd] snd_conv prod.case_eq_if, auto)
qed

lemma read_request_fields: "read_shadow_request auth up b db = Inr q \<Longrightarrow> read_shadow_fields auth b = Inr q"
  by (auto simp: read_shadow_request_def split: sum.splits if_splits)

lemma read_request_action:
  assumes "read_shadow_request auth up b db = Inr q"
  shows "AGENT_ACTION_CATALOG (sr_action q) = Some (sr_definition q)" "0 \<le> sr_amount q"
proof -
  have "AGENT_ACTION_CATALOG (sr_action q) = Some (sr_definition q) \<and> 0 \<le> sr_amount q"
    using read_request_fields[OF assms] unfolding read_shadow_fields_def Let_def
    by (auto split: if_splits option.splits bounded.splits dest: boundedInt_range)
  then show "AGENT_ACTION_CATALOG (sr_action q) = Some (sr_definition q)" "0 \<le> sr_amount q" by simp_all
qed

section \<open>A judgement in shadow mode\<close>

lemma both_branches: "P x \<Longrightarrow> P y \<Longrightarrow> P (if b then x else y)"
  by simp

definition honest_result :: "authority_result \<Rightarrow> bool" where
  "honest_result R \<longleftrightarrow> (r_executionAllowed R \<longleftrightarrow> r_decision R = ''allow_execute'') \<and> (r_decision R = ''shadow_allow'' \<longrightarrow> r_allowed R)"

lemma evaluateGrant_honest: "honest_result (evaluateGrant dp h d g)"
  unfolding evaluateGrant_def Let_def
  by ((rule both_branches[where P = honest_result])+; simp add: honest_result_def)

lemma shadow_grant_never_executes:
  "shadow_mode h \<Longrightarrow> r_decision (evaluateGrant dp h d g) \<noteq> ''allow_execute''"
  using evaluateGrant_honest[of dp h d g] evaluateGrant_executes by (simp add: honest_result_def)

lemma shadow_never_executes:
  assumes "shadow_mode h"
  shows "r_decision (evaluateDelegatedAuthority dp h) \<noteq> ''allow_execute''"
  using shadow_grant_never_executes[OF assms] assms
  unfolding evaluateDelegatedAuthority_def Let_def by (simp split: option.split)

lemma grant_allow_passes:
  "r_decision (evaluateGrant dp h d g) = ''shadow_allow'' \<Longrightarrow> r_allowed (evaluateGrant dp h d g)"
  using evaluateGrant_honest[of dp h d g] by (simp add: honest_result_def)

lemma ungranted_allow_level:
  assumes "h_delegation h = Null" "r_decision (evaluateDelegatedAuthority dp h) = ''shadow_allow''"
  shows "r_requiredAutonomyLevel (evaluateDelegatedAuthority dp h) < level_bounded_execute"
  using assms unfolding evaluateDelegatedAuthority_def Let_def normalizeDelegation_def
  by (auto simp: result_def autonomy_defs split: option.splits if_splits)

lemma row_limits:
  assumes "normalizeDelegation (row_value r) = Some g"
  shows "g_maxDailyActions g = map_option (max 0) (dr_daily r)" "g_maxAmountMinor g = map_option (max 0) (dr_amount r)"
  using assms unfolding normalizeDelegation_def row_value_def
  by (auto simp: opt_limit_def opt_int_def asInt_def coalesce_def integral_def split: option.splits)

lemma granted_allow:
  assumes r: "lawful_delegation r" "dr_action r = sr_action q" and q: "AGENT_ACTION_CATALOG (sr_action q) = Some (sr_definition q)" "0 \<le> sr_amount q"
    and allow: "r_decision (shadow_decision dp q (Some r) used now) = ''shadow_allow''"
  shows "\<forall>m. dr_amount r = Some m \<longrightarrow> sr_amount q \<le> m" "\<forall>m. dr_daily r = Some m \<longrightarrow> int used < m"
proof -
  let ?h = "\<lparr>h_agentKey = JStr ''thebe'', h_actionKey = JStr (sr_action q), h_actionDefinition = Some (sr_definition q), h_tenantId = Undef,
      h_delegation = row_value (r\<lparr>dr_agent := ''thebe''\<rparr>), h_mode = JStr ''shadow'', h_globalExecutionEnabled = JBool False,
      h_amountMinor = JInt (sr_amount q), h_dailyActionCount = JInt (int used), h_strongAuth = strongAuthPresent,
      h_approvalState = JStr (if sr_confirmed q then ''approved'' else ''none''), h_now = Fin (of_int now)\<rparr>"
  obtain g where g: "normalizeDelegation (row_value (r\<lparr>dr_agent := ''thebe''\<rparr>)) = Some g"
    by (simp add: normalizeDelegation_def row_value_def)
  have "a_level (sr_definition q) = 3" using r q by (auto simp: lawful_delegation_def)
  then have lvl: "requiredAutonomyLevel (Some (sr_definition q)) = level_bounded_execute" by (simp only: required_level_simps)
  have "evaluateDelegatedAuthority dp ?h = evaluateGrant dp ?h (sr_definition q) g \<or> r_decision (evaluateDelegatedAuthority dp ?h) = ''human_only''"
    unfolding evaluateDelegatedAuthority_def Let_def authority_request.select_convs option.case g lvl by (simp add: autonomy_defs)
  moreover have d: "r_decision (evaluateDelegatedAuthority dp ?h) = ''shadow_allow''"
    using allow unfolding shadow_decision_def by simp
  ultimately have "r_decision (evaluateGrant dp ?h (sr_definition q) g) = ''shadow_allow''" by auto
  then have "within_limits ?h g" using grant_allow_passes evaluateGrant_allowed by blast
  then have w: "\<And>m. g_maxDailyActions g = Some m \<Longrightarrow> int used < m" "\<And>m. g_maxAmountMinor g = Some m \<Longrightarrow> sr_amount q \<le> m"
    using q(2) by (auto simp: within_limits_def count_of_def amount_of_def num_max_def dflt_def Let_def not_le not_less)
  show "\<forall>m. dr_amount r = Some m \<longrightarrow> sr_amount q \<le> m" "\<forall>m. dr_daily r = Some m \<longrightarrow> int used < m"
    using row_limits[OF g] w r(1) unfolding lawful_delegation_def by (auto simp: max_def)
qed

section \<open>What later states keep\<close>

lemma same_grant_fields:
  assumes "same_grant r r'"
  shows "dr_id r' = dr_id r" "dr_tenant r' = dr_tenant r" "dr_agent r' = dr_agent r" "dr_action r' = dr_action r"
    "dr_daily r' = dr_daily r" "dr_amount r' = dr_amount r" "lawful_delegation r' = lawful_delegation r"
  using assms unfolding same_grant_def lawful_delegation_def by (cases r; cases r'; simp)+

lemma same_grant_refl [simp]: "same_grant r r" "same_grant r (r\<lparr>dr_status := s\<rparr>)"
  by (simp_all add: same_grant_def)

lemma same_grant_trans: "same_grant a b \<Longrightarrow> same_grant b c \<Longrightarrow> same_grant a c"
  by (simp add: same_grant_def)

lemma same_grants_refl [simp]: "list_all2 same_grant rs rs"
  by (rule list.rel_refl) simp

lemma extends_refl [simp]: "store_extends db db"
  by (simp add: store_extends_def)

lemma extends_trans:
  assumes "store_extends a b" "store_extends b c"
  shows "store_extends a c"
proof -
  let ?n = "length (ad_delegations a)"
  have le: "?n \<le> length (ad_delegations b)"
    using assms(1) by (auto simp: store_extends_def dest!: list_all2_lengthD)
  have "list_all2 same_grant (take ?n (ad_delegations b)) (take ?n (ad_delegations c))"
    using assms(2) le list_all2_takeI[of same_grant "ad_delegations b" _ ?n] by (fastforce simp: store_extends_def min_def)
  then have "list_all2 same_grant (ad_delegations a) (take ?n (ad_delegations c))"
    using assms(1) list_all2_trans[of same_grant same_grant same_grant] same_grant_trans unfolding store_extends_def by blast
  then show ?thesis using assms unfolding store_extends_def by auto
qed

lemma extends_row:
  assumes "store_extends a b" "r \<in> set (ad_delegations a)"
  shows "\<exists>r' \<in> set (ad_delegations b). same_grant r r'"
proof -
  obtain i where i: "i < length (ad_delegations a)" "r = ad_delegations a ! i" using assms(2) by (metis in_set_conv_nth)
  have "list_all2 same_grant (ad_delegations a) (take (length (ad_delegations a)) (ad_delegations b))"
    using assms(1) by (simp add: store_extends_def)
  then have "same_grant r (take (length (ad_delegations a)) (ad_delegations b) ! i)" "i < length (ad_delegations b)"
    using i by (auto simp: list_all2_conv_all_nth)
  then show ?thesis using i by (metis nth_mem nth_take)
qed

lemma extends_backed:
  assumes "store_extends a b" "backed_by a t did r"
  obtains r' where "backed_by b t did r'" "same_grant r r'"
  using extends_row[OF assms(1)] assms(2) same_grant_fields unfolding backed_by_def by metis

lemma extends_lawful_intent:
  assumes "store_extends a b" "lawful_intent a i"
  shows "lawful_intent b i"
proof (cases "in_delegation i")
  case (Some did)
  then obtain r where r: "backed_by a (in_tenant i) did r" "dr_action r = in_action i"
      "in_decision i = ''shadow_allow'' \<longrightarrow> (\<forall>m. dr_amount r = Some m \<longrightarrow> in_amount i \<le> m)"
    using assms(2) unfolding lawful_intent_def by auto
  from extends_backed[OF assms(1) r(1)] obtain r' where r': "backed_by b (in_tenant i) did r'" "same_grant r r'" .
  then show ?thesis using r same_grant_fields[OF r'(2)] assms(2) Some unfolding lawful_intent_def by auto
qed (use assms(2) in \<open>simp add: lawful_intent_def\<close>)

section \<open>Preservation\<close>

lemma insert_delegation_effect:
  assumes "insert_delegation r eid db = Some db'"
  shows "\<forall>x \<in> set (ad_delegations db). dr_id x \<noteq> dr_id r \<and> (dr_status r = ''active'' \<longrightarrow> \<not> active_for (dr_tenant r) (dr_agent r) (dr_action r) x)"
    "db' = db\<lparr>ad_delegations := ad_delegations db @ [r],
       ad_events := ad_events db @ [\<lparr>de_id = eid, de_tenant = dr_tenant r, de_delegation = dr_id r, de_type = ''CREATED'', de_user = dr_user r\<rparr>]\<rparr>"
  using assms unfolding insert_delegation_def by (auto simp: list_ex_iff split: if_splits)

lemma insert_extends: "insert_delegation r eid db = Some db' \<Longrightarrow> store_extends db db'"
  by (drule insert_delegation_effect(2)) (simp add: store_extends_def)

lemma backed_mono:
  assumes "store_extends a b" "\<forall>e \<in> set es. \<exists>r. backed_by a (de_tenant e) (de_delegation e) r"
  shows "\<forall>e \<in> set es. \<exists>r. backed_by b (de_tenant e) (de_delegation e) r"
  using assms extends_backed by metis

lemma active_unique: "dr_status r \<noteq> ''active'' \<Longrightarrow> \<not> active_for t a k r"
  by (simp add: active_for_def)

lemma create_lawful:
  assumes "store_lawful db" "lawful_delegation r" "dr_status r = ''active''" "insert_delegation r eid db = Some db'"
  shows "store_lawful db'"
proof -
  note e = insert_delegation_effect[OF assms(4)] and x = insert_extends[OF assms(4)]
  note L = assms(1)[unfolded store_lawful_def]
  have r: "dr_agent r = ''thebe''" using assms(2) by (simp add: lawful_delegation_def)
  have d: "distinct (map dr_id (ad_delegations db'))" using L e by force
  have act: "one_active db'"
    unfolding one_active_def
  proof (intro allI)
    fix t a
    show "length (filter (active_for t ''thebe'' a) (ad_delegations db')) \<le> 1"
    proof (cases "active_for t ''thebe'' a r")
      case True
      then have "filter (active_for t ''thebe'' a) (ad_delegations db) = []"
        using e(1) assms(3) unfolding active_for_def filter_empty_conv by metis
      then show ?thesis using e(2) by simp
    next
      case False
      then show ?thesis using L e(2) by (simp add: one_active_def)
    qed
  qed
  have fresh: "delegation_history (dr_id r) db = []"
  proof -
    have "de_delegation v \<noteq> dr_id r" if "v \<in> set (ad_events db)" for v
      using L that e(1) unfolding backed_by_def by metis
    then show ?thesis by (simp add: delegation_history_def filter_empty_conv)
  qed
  have other: "delegation_history (dr_id y) db' = delegation_history (dr_id y) db" if "y \<in> set (ad_delegations db)" for y
    using that e by (auto simp: delegation_history_def)
  have mine: "delegation_history (dr_id r) db' = [''CREATED'']"
    using fresh e(2) by (simp add: delegation_history_def)
  have rows: "\<forall>y \<in> set (ad_delegations db'). lawful_delegation y \<and> lawful_history (dr_status y) (delegation_history (dr_id y) db')"
    using L other mine assms(2,3) e(2) by (auto simp: lawful_history_def)
  have ev: "\<forall>v \<in> set (ad_events db'). \<exists>r. backed_by db' (de_tenant v) (de_delegation v) r"
  proof -
    have old: "\<forall>v \<in> set (ad_events db). \<exists>r. backed_by db' (de_tenant v) (de_delegation v) r" using backed_mono[OF x] L by blast
    have "backed_by db' (dr_tenant r) (dr_id r) r" using e(2) by (simp add: backed_by_def)
    then show ?thesis using old e(2) by auto
  qed
  have it: "ad_intents db' = ad_intents db" using e(2) by simp
  show ?thesis unfolding store_lawful_def it using d act rows ev L extends_lawful_intent[OF x] by blast
qed

lemma accepted_intent:
  assumes "\<not> intent_refused i db"
  shows "\<forall>x \<in> set (ad_intents db). in_id x \<noteq> in_id i \<and> \<not> (in_tenant x = in_tenant i \<and> in_key x = in_key i)"
    "in_delegation i = Some did \<Longrightarrow> \<exists>r. backed_by db (in_tenant i) did r"
proof -
  show "\<forall>x \<in> set (ad_intents db). in_id x \<noteq> in_id i \<and> \<not> (in_tenant x = in_tenant i \<and> in_key x = in_key i)"
    using assms unfolding intent_refused_def by (auto simp: list_ex_iff)
  show "\<exists>r. backed_by db (in_tenant i) did r" if "in_delegation i = Some did"
    using assms that unfolding intent_refused_def by (auto simp: delegation_at_def backed_by_def find_None_iff)
qed

lemma intent_effect:
  assumes "insert_intent i eid db = Some db'"
  shows "\<not> intent_refused i db"
    "db' = db\<lparr>ad_intents := ad_intents db @ [i],
       ad_events := ad_events db @ (case in_delegation i of None \<Rightarrow> []
         | Some x \<Rightarrow> [\<lparr>de_id = eid, de_tenant = in_tenant i, de_delegation = x, de_type = ''SHADOW_EVALUATED'', de_user = in_user i\<rparr>])\<rparr>"
  using assms unfolding insert_intent_def by (simp_all split: if_splits)

lemma intent_extends: "insert_intent i eid db = Some db' \<Longrightarrow> store_extends db db'"
  by (drule intent_effect(2)) (simp add: store_extends_def)

text \<open>An intent and the event of its evaluation, or an intent alone.\<close>

lemma new_intent_kept:
  assumes "store_lawful db" "lawful_intent db i" "\<not> intent_refused i db"
    and db': "ad_delegations db' = ad_delegations db" "ad_intents db' = ad_intents db @ [i]" "ad_now db' = ad_now db" "ad_events db' = ad_events db @ es"
    and es: "\<forall>e \<in> set es. de_type e = ''SHADOW_EVALUATED'' \<and> in_delegation i = Some (de_delegation e) \<and> de_tenant e = in_tenant i"
  shows "store_lawful db' \<and> store_extends db db'"
proof -
  note e = accepted_intent[OF assms(3)]
  note L = assms(1)[unfolded store_lawful_def]
  have x: "store_extends db db'" using db' by (simp add: store_extends_def)
  have same: "one_active db' = one_active db" using db'(1) by (simp add: one_active_def)
  have hist: "delegation_history did db' = delegation_history did db" for did
    using es db'(4) by (auto simp: delegation_history_def filter_empty_conv)
  have bk: "backed_by db' t d r = backed_by db t d r" for t d r using db'(1) by (simp add: backed_by_def)
  have ev: "\<forall>v \<in> set (ad_events db'). \<exists>r. backed_by db' (de_tenant v) (de_delegation v) r"
    using L es e(2) unfolding db'(4) bk by (metis UnE set_append)
  have keys: "distinct (map (\<lambda>i. (in_tenant i, in_key i)) (ad_intents db'))"
    using L e(1) unfolding db'(2) by auto
  have its: "\<forall>j \<in> set (ad_intents db'). lawful_intent db' j"
    using L assms(2) extends_lawful_intent[OF x] unfolding db'(2) by auto
  have "store_lawful db'" unfolding store_lawful_def same hist db'(1) using L ev keys its by blast
  then show ?thesis using x by simp
qed

lemma intent_lawful:
  assumes "store_lawful db" "lawful_intent db i" "insert_intent i eid db = Some db'"
  shows "store_lawful db'"
  using new_intent_kept[OF assms(1,2) intent_effect(1)[OF assms(3)], of db'] intent_effect(2)[OF assms(3)]
  by (simp split: option.splits)

lemma mutate_extends:
  assumes "distinct (map dr_id (ad_delegations db))" "db' = snd (mutateDelegation auth ready did c eid db0 db)"
  shows "store_extends db db'"
  using mutate_effect[OF assms]
  by (auto simp: store_extends_def update_where_def list_all2_map2 list.rel_refl)

lemma moved_history:
  assumes "lawful_history s ts" "s \<in> set (allowed_current c)"
  shows "lawful_history (command_status c) (ts @ [case c of Pause_It \<Rightarrow> ''PAUSED'' | Revoke_It \<Rightarrow> ''REVOKED''])"
  using assms by (cases c) (auto simp: lawful_history_def)

lemma length_filter_map: "(\<And>x. p (f x) \<Longrightarrow> p x) \<Longrightarrow> length (filter p (map f xs)) \<le> length (filter p xs)"
  by (induction xs) (auto intro: le_SucI)

lemma mutate_lawful:
  assumes "store_lawful db" "db' = snd (mutateDelegation auth ready did c eid db0 db)"
  shows "store_lawful db'"
proof -
  note L = assms(1)[unfolded store_lawful_def]
  have uniq: "distinct (map dr_id (ad_delegations db))" using L by blast
  note x = mutate_extends[OF uniq assms(2)]
  from mutate_effect[OF uniq assms(2)] show ?thesis
  proof (elim disjE exE conjE)
    assume "db' = db"
    then show ?thesis using assms(1) by simp
  next
    fix r
    assume r: "backed_by db (se_tenant auth) did r" "dr_status r \<in> set (allowed_current c)"
      and e: "db' = db\<lparr>ad_delegations := update_where (\<lambda>x. dr_id x = did) (\<lambda>x. x\<lparr>dr_status := command_status c\<rparr>) (ad_delegations db),
        ad_events := ad_events db @ [\<lparr>de_id = eid, de_tenant = se_tenant auth, de_delegation = did,
          de_type = (case c of Pause_It \<Rightarrow> ''PAUSED'' | Revoke_It \<Rightarrow> ''REVOKED''), de_user = se_user auth\<rparr>]\<rparr>"
    let ?f = "\<lambda>x. if dr_id x = did then x\<lparr>dr_status := command_status c\<rparr> else x"
    let ?ev = "case c of Pause_It \<Rightarrow> ''PAUSED'' | Revoke_It \<Rightarrow> ''REVOKED''"
    have rows: "ad_delegations db' = map ?f (ad_delegations db)" using e by (simp add: update_where_def)
    have ids: "map dr_id (ad_delegations db') = map dr_id (ad_delegations db)" unfolding rows by (simp add: comp_def)
    have act: "one_active db'"
    proof -
      have "command_status c \<noteq> ''active''" by (cases c) simp_all
      then have keep: "active_for t a k (?f x) \<Longrightarrow> active_for t a k x" for t a k x by (auto simp: active_for_def split: if_splits)
      have "length (filter (active_for t a k) (map ?f rs)) \<le> length (filter (active_for t a k) rs)" for t a k rs
        by (rule length_filter_map) (rule keep)
      then show ?thesis using L unfolding one_active_def rows by (meson order_trans)
    qed
    have hist: "delegation_history k db' = delegation_history k db @ (if k = did then [?ev] else [])" for k
      using e by (cases c) (simp_all add: delegation_history_def)
    have moved: "lawful_history (command_status c) (delegation_history did db @ [?ev])"
      using L r moved_history unfolding backed_by_def by blast
    have law: "lawful_delegation (?f y) = lawful_delegation y" for y by (simp add: lawful_delegation_def)
    have all: "\<forall>y \<in> set (ad_delegations db'). lawful_delegation y \<and> lawful_history (dr_status y) (delegation_history (dr_id y) db')"
    proof
      fix y assume "y \<in> set (ad_delegations db')"
      then obtain z where z: "z \<in> set (ad_delegations db)" "y = ?f z" unfolding rows by auto
      then have "lawful_delegation y" using L law by blast
      moreover have "lawful_history (dr_status y) (delegation_history (dr_id y) db')"
        using z L moved unfolding hist by (cases "dr_id z = did") auto
      ultimately show "lawful_delegation y \<and> lawful_history (dr_status y) (delegation_history (dr_id y) db')" by blast
    qed
    have old: "\<forall>v \<in> set (ad_events db). \<exists>r. backed_by db' (de_tenant v) (de_delegation v) r"
      using backed_mono[OF x] L by blast
    obtain r' where "backed_by db' (se_tenant auth) did r'" using extends_backed[OF x r(1)] .
    then have ev: "\<forall>v \<in> set (ad_events db'). \<exists>r. backed_by db' (de_tenant v) (de_delegation v) r"
      using old e by auto
    have it: "ad_intents db' = ad_intents db" using e by simp
    show ?thesis unfolding store_lawful_def it ids using uniq act all ev L extends_lawful_intent[OF x] by blast
  qed
qed

lemma find_filterD: "find p (filter P xs) = Some y \<Longrightarrow> y \<in> set xs \<and> P y"
  by (induction xs) (auto split: if_splits)

lemma activeDelegation_row:
  assumes "shadow_grant auth up q db = Some r"
  shows "backed_by db (se_tenant auth) (dr_id r) r" "dr_action r = sr_action q"
proof -
  let ?P = "\<lambda>r. dr_tenant r = se_tenant auth \<and> dr_action r = sr_action q \<and> live_delegation (ad_now db) r"
  have "find (\<lambda>r. dr_agent r = ''thebe'') (filter ?P (rev (ad_delegations db))) = Some r \<or>
    find (\<lambda>r. dr_agent r = lower (trim (sr_agent q))) (filter ?P (rev (ad_delegations db))) = Some r"
    using assms unfolding shadow_grant_def activeDelegation_def Let_def by (simp split: if_splits option.splits)
  then have "r \<in> set (ad_delegations db) \<and> ?P r" by (elim disjE) (drule find_filterD, simp)+
  then show "backed_by db (se_tenant auth) (dr_id r) r" "dr_action r = sr_action q" by (simp_all add: backed_by_def)
qed

lemma decided_fields [simp]:
  "in_tenant (decided_intent auth q key h r d iid t) = se_tenant auth" "in_key (decided_intent auth q key h r d iid t) = key"
  "in_delegation (decided_intent auth q key h r d iid t) = map_option dr_id r" "in_decision (decided_intent auth q key h r d iid t) = r_decision d"
  "in_status (decided_intent auth q key h r d iid t) = actionStatus (r_decision d)" "in_level (decided_intent auth q key h r d iid t) = r_requiredAutonomyLevel d"
  "in_action (decided_intent auth q key h r d iid t) = sr_action q" "in_amount (decided_intent auth q key h r d iid t) = sr_amount q"
  "in_hash (decided_intent auth q key h r d iid t) = h" "in_at (decided_intent auth q key h r d iid t) = t"
  by (simp_all add: decided_intent_def)

lemma shadow_outcome_sound:
  assumes "store_lawful db" "read_shadow_request auth up b db = Inr q"
  shows "r_decision (shadow_outcome dp auth up q db) \<noteq> ''allow_execute''"
    "r_decision (shadow_outcome dp auth up q db) = ''shadow_allow'' \<Longrightarrow> shadow_grant auth up q db = None \<Longrightarrow>
      r_requiredAutonomyLevel (shadow_outcome dp auth up q db) < level_bounded_execute"
    "r_decision (shadow_outcome dp auth up q db) = ''shadow_allow'' \<Longrightarrow> shadow_grant auth up q db = Some r \<Longrightarrow>
      (\<forall>m. dr_amount r = Some m \<longrightarrow> sr_amount q \<le> m) \<and> (\<forall>m. dr_daily r = Some m \<longrightarrow> int (used_today (se_tenant auth) (dr_id r) db) < m)"
proof -
  show "r_decision (shadow_outcome dp auth up q db) \<noteq> ''allow_execute''"
    unfolding shadow_outcome_def shadow_decision_def Let_def
    by (rule shadow_never_executes) (simp add: shadow_mode_def dflt_def)
  show "r_requiredAutonomyLevel (shadow_outcome dp auth up q db) < level_bounded_execute"
    if "r_decision (shadow_outcome dp auth up q db) = ''shadow_allow''" "shadow_grant auth up q db = None"
    using that(1) unfolding shadow_outcome_def shadow_decision_def Let_def that(2)
    by (intro ungranted_allow_level) simp_all
  show "(\<forall>m. dr_amount r = Some m \<longrightarrow> sr_amount q \<le> m) \<and> (\<forall>m. dr_daily r = Some m \<longrightarrow> int (used_today (se_tenant auth) (dr_id r) db) < m)"
    if "r_decision (shadow_outcome dp auth up q db) = ''shadow_allow''" "shadow_grant auth up q db = Some r"
  proof -
    have "lawful_delegation r"
      using activeDelegation_row(1)[OF that(2)] assms(1) by (auto simp: backed_by_def store_lawful_def)
    moreover have "r_decision (shadow_decision dp q (Some r) (used_today (se_tenant auth) (dr_id r) db) (ad_now db)) = ''shadow_allow''"
      using that(1) unfolding shadow_outcome_def Let_def that(2) by simp
    ultimately show ?thesis
      using granted_allow[OF _ activeDelegation_row(2)[OF that(2)] read_request_action[OF assms(2)]] by blast
  qed
qed

lemma new_intent_lawful:
  assumes "store_lawful db0" "store_extends db0 db" "read_shadow_request auth up b db0 = Inr q"
  shows "lawful_intent db (new_intent dp sha auth up q key iid db0 db)"
proof (cases "shadow_grant auth up q db0")
  case None
  then show ?thesis using shadow_outcome_sound(1,2)[OF assms(1,3)] by (simp add: lawful_intent_def new_intent_def)
next
  case (Some r)
  obtain r' where r': "backed_by db (se_tenant auth) (dr_id r) r'" "same_grant r r'"
    using extends_backed[OF assms(2) activeDelegation_row(1)[OF Some]] .
  have "dr_action r' = sr_action q" "dr_amount r' = dr_amount r"
    using same_grant_fields[OF r'(2)] activeDelegation_row(2)[OF Some] by simp_all
  then show ?thesis
    using r'(1) shadow_outcome_sound(1,3)[OF assms(1,3)] Some by (auto simp: lawful_intent_def new_intent_def)
qed

lemma shadow_lawful:
  assumes "store_lawful db0" "store_extends db0 db" "store_lawful db" "db' = snd (shadowEvaluate dp sha auth ready up header body iid eid db0 db)"
  shows "store_lawful db' \<and> store_extends db db'"
  using shadow_effect[OF assms(4)] intent_lawful[OF assms(3) new_intent_lawful[OF assms(1,2)]] intent_extends assms(3)
  by (metis extends_refl)

lemma pass_lawful:
  assumes "store_lawful db" "ad_now db \<le> t"
  shows "store_lawful (db\<lparr>ad_now := t, ad_runs := rs, ad_proposals := ps\<rparr>) \<and> store_extends db (db\<lparr>ad_now := t, ad_runs := rs, ad_proposals := ps\<rparr>)"
proof -
  let ?n = "db\<lparr>ad_now := t, ad_runs := rs, ad_proposals := ps\<rparr>"
  have bk: "backed_by ?n t d r = backed_by db t d r" and hist: "delegation_history d ?n = delegation_history d db" for t d r
    by (simp_all add: backed_by_def delegation_history_def)
  have int: "lawful_intent ?n i = lawful_intent db i" for i unfolding lawful_intent_def bk by (rule refl)
  have "store_lawful ?n = store_lawful db" unfolding store_lawful_def bk hist int by (simp add: one_active_def)
  then show ?thesis using assms by (simp add: store_extends_def)
qed

lemma empty_lawful: "empty_store db \<Longrightarrow> store_lawful db"
  by (simp add: empty_store_def store_lawful_def one_active_def)

lemma create_step:
  assumes "store_lawful db" "db' = snd (createDelegation dp auth ready up body did eid db0 db)"
  shows "store_lawful db' \<and> store_extends db db'"
  using create_effect[OF assms(2)]
proof (elim disjE exE conjE)
  fix r assume "lawful_delegation r" "dr_status r = ''active''" "insert_delegation r eid db = Some db'"
  then show ?thesis using create_lawful[OF assms(1)] insert_extends by blast
qed (use assms(1) in simp)

lemma mutate_step:
  assumes "store_lawful db" "db' = snd (mutateDelegation auth ready did c eid db0 db)"
  shows "store_lawful db' \<and> store_extends db db'"
  using mutate_lawful[OF assms] mutate_extends[OF _ assms(2)] assms(1) by (simp add: store_lawful_def)

lemma extended_run:
  assumes "(\<forall>x \<in> set (db # dbs). store_lawful x) \<and> (\<forall>x \<in> set (db # dbs). store_extends x (hd (db # dbs)))"
    and "store_lawful db' \<and> store_extends db db'"
  shows "(\<forall>x \<in> set (db' # db # dbs). store_lawful x) \<and> (\<forall>x \<in> set (db' # db # dbs). store_extends x (hd (db' # db # dbs)))"
  using assms extends_trans[OF _ conjunct2[OF assms(2)]] by (auto intro: extends_refl)

lemma readable_earlier: "db0 \<in> readable overlap db dbs \<Longrightarrow> db0 \<in> set (db # dbs)"
  by (auto simp: readable_def split: if_splits)

lemma authority_step_lawful:
  assumes "authority_step dp sha db0 db db'" "store_lawful db0" "store_extends db0 db" "store_lawful db"
  shows "store_lawful db' \<and> store_extends db db'"
  using assms(1)
proof cases
  case step_create
  then show ?thesis by (rule create_step[OF assms(4)])
next
  case step_mutate
  then show ?thesis by (rule mutate_step[OF assms(4)])
next
  case step_shadow
  then show ?thesis by (rule shadow_lawful[OF assms(2-4)])
next
  case step_pass
  then show ?thesis using pass_lawful[OF assms(4)] by simp
qed

lemma run_lawful:
  assumes "authority_run dp sha overlap dbs"
  shows "(\<forall>db \<in> set dbs. store_lawful db) \<and> (\<forall>db0 \<in> set dbs. store_extends db0 (hd dbs))"
  using assms
proof (induction rule: authority_run.induct)
  case (run_step db dbs db0 db')
  have "db0 \<in> set (db # dbs)" using run_step.hyps(2) by (rule readable_earlier)
  then have "store_lawful db0" "store_extends db0 db" "store_lawful db" using run_step.IH by auto
  from authority_step_lawful[OF run_step.hyps(3) this] show ?case by (rule extended_run[OF run_step.IH])
qed (simp add: empty_lawful)

section \<open>The daily limit\<close>

definition allowed_on :: "string \<Rightarrow> string \<Rightarrow> int \<Rightarrow> authority_db \<Rightarrow> nat" where
  "allowed_on tenant did day db = length (filter (\<lambda>i. in_tenant i = tenant \<and> in_delegation i = Some did \<and> in_at i div 86400000 = day \<and>
     in_decision i = ''shadow_allow'') (ad_intents db))"

definition daily_kept :: "authority_db \<Rightarrow> bool" where
  "daily_kept db \<longleftrightarrow> (\<forall>i \<in> set (ad_intents db). in_at i \<le> ad_now db) \<and>
     (\<forall>r \<in> set (ad_delegations db). \<forall>m. dr_daily r = Some m \<longrightarrow> (\<forall>day. int (allowed_on (dr_tenant r) (dr_id r) day db) \<le> m))"

lemma used_is_allowed:
  assumes "\<forall>i \<in> set (ad_intents db). in_at i \<le> ad_now db"
  shows "used_today t did db = allowed_on t did (ad_now db div 86400000) db"
proof -
  have "in_at i div 86400000 \<ge> ad_now db div 86400000 \<longleftrightarrow> in_at i div 86400000 = ad_now db div 86400000" if "i \<in> set (ad_intents db)" for i
    using assms that zdiv_mono1[of "in_at i" "ad_now db" 86400000] by force
  then show ?thesis unfolding used_today_def allowed_on_def by (intro arg_cong[where f = length] filter_cong) auto
qed

lemma daily_frame:
  assumes "daily_kept db" "ad_intents db' = ad_intents db" "ad_now db \<le> ad_now db'"
    and "\<forall>r' \<in> set (ad_delegations db'). \<exists>r \<in> set (ad_delegations db). same_grant r r'"
  shows "daily_kept db'"
proof -
  have "allowed_on t d day db' = allowed_on t d day db" for t d day by (simp add: allowed_on_def assms(2))
  moreover have "\<exists>r \<in> set (ad_delegations db). dr_id r' = dr_id r \<and> dr_tenant r' = dr_tenant r \<and> dr_daily r' = dr_daily r" if "r' \<in> set (ad_delegations db')" for r'
    using assms(4) that same_grant_fields by metis
  ultimately show ?thesis using assms(1-3) unfolding daily_kept_def by (metis order_trans)
qed

lemma create_daily:
  assumes "daily_kept db" "store_lawful db" "db' = snd (createDelegation dp auth ready up body did eid db0 db)"
  shows "daily_kept db'"
  using create_effect[OF assms(3)]
proof (elim disjE exE conjE)
  fix r assume r: "lawful_delegation r" "insert_delegation r eid db = Some db'"
  note e = insert_delegation_effect[OF r(2)]
  have "in_delegation i \<noteq> Some (dr_id r)" if "i \<in> set (ad_intents db)" for i
    using assms(2) that e(1) unfolding store_lawful_def lawful_intent_def backed_by_def by force
  then have "allowed_on (dr_tenant r) (dr_id r) day db = 0" for day by (simp add: allowed_on_def filter_empty_conv)
  moreover have "allowed_on t d day db' = allowed_on t d day db" for t d day by (simp add: allowed_on_def e(2))
  moreover have "0 \<le> m" if "dr_daily r = Some m" for m using r(1) that by (simp add: lawful_delegation_def)
  ultimately show ?thesis using assms(1) e(2) by (auto simp: daily_kept_def)
qed (use assms(1) in simp)

lemma mutate_daily:
  assumes "daily_kept db" "store_lawful db" "db' = snd (mutateDelegation auth ready did c eid db0 db)"
  shows "daily_kept db'"
proof (rule daily_frame[OF assms(1)])
  have "distinct (map dr_id (ad_delegations db))" using assms(2) by (simp add: store_lawful_def)
  note e = mutate_effect[OF this assms(3)]
  show "ad_intents db' = ad_intents db" "ad_now db \<le> ad_now db'" using e by auto
  show "\<forall>r' \<in> set (ad_delegations db'). \<exists>r \<in> set (ad_delegations db). same_grant r r'"
    using e
  proof (elim disjE exE conjE)
    fix r assume "db' = db\<lparr>ad_delegations := update_where (\<lambda>x. dr_id x = did) (\<lambda>x. x\<lparr>dr_status := command_status c\<rparr>) (ad_delegations db),
      ad_events := ad_events db @ [\<lparr>de_id = eid, de_tenant = se_tenant auth, de_delegation = did,
        de_type = (case c of Pause_It \<Rightarrow> ''PAUSED'' | Revoke_It \<Rightarrow> ''REVOKED''), de_user = se_user auth\<rparr>]\<rparr>"
    then have "ad_delegations db' = update_where (\<lambda>x. dr_id x = did) (\<lambda>x. x\<lparr>dr_status := command_status c\<rparr>) (ad_delegations db)" by simp
    then show ?thesis by (auto simp: ball_update_where intro: same_grant_refl)
  qed (auto intro: same_grant_refl)
qed

lemma shadow_daily:
  assumes "daily_kept db" "store_lawful db" "db' = snd (shadowEvaluate dp sha auth ready up header body iid eid db db)"
  shows "daily_kept db'"
  using shadow_effect[OF assms(3)]
proof (elim disjE exE conjE)
  fix b q
  let ?i = "new_intent dp sha auth up q (text_of header 200) iid db db" and ?today = "ad_now db div 86400000"
  assume q: "read_shadow_request auth up b db = Inr q" and ins: "insert_intent ?i eid db = Some db'"
  note e = intent_effect(2)[OF ins]
  have i: "in_tenant ?i = se_tenant auth" "in_at ?i = ad_now db" "in_delegation ?i = map_option dr_id (shadow_grant auth up q db)"
    "in_decision ?i = r_decision (shadow_outcome dp auth up q db)" by (simp_all add: new_intent_def)
  have count: "allowed_on t d day db' = allowed_on t d day db + (if t = se_tenant auth \<and> in_delegation ?i = Some d \<and> day = ?today \<and>
      in_decision ?i = ''shadow_allow'' then 1 else 0)" for t d day
    unfolding allowed_on_def e by (auto simp: i(1,2))
  have past: "\<forall>x \<in> set (ad_intents db). in_at x \<le> ad_now db" using assms(1) by (simp add: daily_kept_def)
  have "int (allowed_on (dr_tenant r) (dr_id r) day db') \<le> m" if r: "r \<in> set (ad_delegations db)" "dr_daily r = Some m" for r m day
  proof (cases "dr_tenant r = se_tenant auth \<and> in_delegation ?i = Some (dr_id r) \<and> day = ?today \<and> in_decision ?i = ''shadow_allow''")
    case True
    then obtain g where g: "shadow_grant auth up q db = Some g" "dr_id g = dr_id r" using i(3) by auto
    have "g = r" using key_unique[of dr_id "ad_delegations db" g r] activeDelegation_row(1)[OF g(1)] r(1) g(2) assms(2)
      by (simp add: backed_by_def store_lawful_def)
    have "r_decision (shadow_outcome dp auth up q db) = ''shadow_allow''" using True i(4) by simp
    from shadow_outcome_sound(3)[OF assms(2) q this g(1)] have "int (used_today (se_tenant auth) (dr_id r) db) < m"
      using r(2) \<open>g = r\<close> by simp
    then show ?thesis using used_is_allowed[OF past] count True by simp
  next
    case False
    then have "allowed_on (dr_tenant r) (dr_id r) day db' = allowed_on (dr_tenant r) (dr_id r) day db" unfolding count by auto
    then show ?thesis using assms(1) r by (simp add: daily_kept_def)
  qed
  moreover have "ad_delegations db' = ad_delegations db" "ad_now db' = ad_now db" "ad_intents db' = ad_intents db @ [?i]" using e by simp_all
  ultimately show ?thesis using past i(2) unfolding daily_kept_def by auto
qed (use assms(1) in simp)

lemma step_daily:
  assumes "authority_step dp sha db db db'" "store_lawful db" "daily_kept db"
  shows "daily_kept db'"
  using assms(1)
proof cases
  case step_create
  then show ?thesis by (rule create_daily[OF assms(3,2)])
next
  case step_mutate
  then show ?thesis by (rule mutate_daily[OF assms(3,2)])
next
  case step_shadow
  then show ?thesis by (rule shadow_daily[OF assms(3,2)])
next
  case step_pass
  then show ?thesis by (intro daily_frame[OF assms(3)]) (auto intro: same_grant_refl)
qed

lemma sequential_daily:
  assumes "authority_run dp sha False dbs"
  shows "daily_kept (hd dbs)"
  using assms
proof (induction rule: authority_run.induct)
  case (run_start db)
  then show ?case by (simp add: empty_store_def daily_kept_def)
next
  case (run_step db dbs db0 db')
  then have "db0 = db" "store_lawful db" using run_lawful[OF run_step.hyps(1)] by (simp_all add: readable_def)
  then show ?case using step_daily run_step.hyps(3) run_step.IH by simp
qed

section \<open>Retries\<close>

lemma new_reply:
  assumes "shadowEvaluate dp sha auth True True header (Inr b) iid eid db0 db = (Shadow_New i d, db1)"
  shows "roleAllowed auth [''owner'', ''manager'']" "8 \<le> length (text_of header 200)"
    "\<exists>q. read_shadow_request auth True b db0 = Inr q \<and> i = new_intent dp sha auth True q (text_of header 200) iid db0 db \<and> insert_intent i eid db = Some db1"
proof -
  show guards: "roleAllowed auth [''owner'', ''manager'']" "8 \<le> length (text_of header 200)"
    using assms unfolding shadowEvaluate_def Let_def by (simp_all split: if_splits)
  have "8 > length (text_of header 200) \<longleftrightarrow> False" using guards(2) by simp
  note E = assms[unfolded shadowEvaluate_def Let_def this, simplified guards(1) if_True if_False not_True_eq_False sum.case]
  obtain q where q: "read_shadow_request auth True b db0 = Inr q"
    using E by (cases "read_shadow_request auth True b db0") (auto simp: read_shadow_request_def read_shadow_fields_def Let_def split: if_splits option.splits bounded.splits)
  have none: "intent_at (se_tenant auth) (text_of header 200) db0 = None"
    using E unfolding q by (cases "intent_at (se_tenant auth) (text_of header 200) db0") (simp_all add: replay_or_conflict_def split: if_splits)
  have "record_shadow (new_intent dp sha auth True q (text_of header 200) iid db0 db) (shadow_outcome dp auth True q db0) eid True db = (Shadow_New i d, db1)"
    using E unfolding q new_intent_def by (simp add: none)
  then have "i = new_intent dp sha auth True q (text_of header 200) iid db0 db \<and> insert_intent i eid db = Some db1"
    unfolding record_shadow_def by (auto simp: replay_or_conflict_def split: option.splits if_splits)
  then show "\<exists>q. read_shadow_request auth True b db0 = Inr q \<and> i = new_intent dp sha auth True q (text_of header 200) iid db0 db \<and> insert_intent i eid db = Some db1"
    using q by blast
qed

lemma read_request_later:
  assumes "read_shadow_request auth True b db0 = Inr q" "set (ad_runs db0) \<subseteq> set (ad_runs db)" "set (ad_proposals db0) \<subseteq> set (ad_proposals db)"
  shows "read_shadow_request auth True b db = Inr q"
proof -
  have keep: "link_found True v t rows \<Longrightarrow> set rows \<subseteq> set rows' \<Longrightarrow> link_found True v t rows'" for v t rows rows'
    by (auto simp: link_found_def split: option.splits)
  show ?thesis using assms(1) keep[OF _ assms(2)] keep[OF _ assms(3)] read_request_fields[OF assms(1)]
    unfolding read_shadow_request_def by (simp split: if_splits)
qed

lemma intent_found:
  assumes "insert_intent i eid db = Some db1" "ad_intents db2 = ad_intents db1 @ is"
  shows "intent_at (in_tenant i) (in_key i) db2 = Some i"
proof -
  have "find p xs = None \<Longrightarrow> p y \<Longrightarrow> find p (xs @ y # ys) = Some y" for p and xs ys :: "intent_row list" and y
    by (induction xs) (auto split: if_splits)
  moreover have "find (\<lambda>x. in_tenant x = in_tenant i \<and> in_key x = in_key i) (ad_intents db) = None"
    using accepted_intent(1)[OF intent_effect(1)[OF assms(1)]] by (simp add: find_None_iff)
  ultimately show ?thesis unfolding intent_at_def assms(2) intent_effect(2)[OF assms(1)] by simp
qed

section \<open>Stored times\<close>

lemma prefix_le: "(xs @ ys :: string) \<le> xs @ zs \<longleftrightarrow> ys \<le> zs"
  by (induction xs) simp_all

lemma iso_after_stamp:
  assumes "t div 86400000 = now div 86400000"
  shows "\<not> iso_text t \<le> sql_stamp now"
  unfolding iso_text_def sql_stamp_def Let_def assms append_assoc prefix_le by (simp add: less_eq_char_def)

section \<open>Properties\<close>

text \<open>C28: whatever the requests and however they overlap, in every state a grant has a bounded-execution level and no more, is for an action that
  is not human-only, needs human confirmation, is in shadow mode only and has limits in range; a tenant has one active grant
  per action; the status of a grant is what its audit events say, and a revoked grant stays revoked; each evaluation has its own key,
  never authorises execution, and is allowed at the bounded level only under a grant of the same tenant for the same action whose amount limit covers it; and
  later states keep every grant, but for its status, and every evaluation.\<close>

theorem authority_store_lawful:
  assumes "authority_run dp sha overlap (db # dbs)"
  shows "store_lawful db \<and> (\<forall>db0 \<in> set dbs. store_lawful db0 \<and> store_extends db0 db)"
  using run_lawful[OF assms] by simp

text \<open>C29: when no two requests overlap, the evaluations a grant allows on one day never exceed its daily limit.\<close>

theorem daily_limit_kept:
  assumes "authority_run dp sha False (db # dbs)" "r \<in> set (ad_delegations db)" "dr_daily r = Some m"
  shows "int (allowed_on (dr_tenant r) (dr_id r) day db) \<le> m"
  using sequential_daily[OF assms(1)] assms(2,3) by (simp add: daily_kept_def)

text \<open>C30: a request that is sent again with its idempotency key is answered by the recorded evaluation and changes nothing, whatever
  happened in between.\<close>

theorem shadow_retry_replays:
  assumes "shadowEvaluate dp sha auth True True header (Inr b) iid eid db0 db = (Shadow_New i d, db1)"
    and "store_extends db1 db2" "set (ad_runs db0) \<subseteq> set (ad_runs db2)" "set (ad_proposals db0) \<subseteq> set (ad_proposals db2)"
  shows "shadowEvaluate dp sha auth True True header (Inr b) iid' eid' db2 db3 = (Shadow_Replay i, db3)"
proof -
  note r = new_reply[OF assms(1)]
  obtain q where q: "read_shadow_request auth True b db0 = Inr q" "i = new_intent dp sha auth True q (text_of header 200) iid db0 db"
      "insert_intent i eid db = Some db1" using r(3) by blast
  obtain rest where "ad_intents db2 = ad_intents db1 @ rest" using assms(2) by (auto simp: store_extends_def)
  from intent_found[OF q(3) this] have "intent_at (se_tenant auth) (text_of header 200) db2 = Some i" using q(2) by (simp add: new_intent_def)
  moreover have "read_shadow_request auth True b db2 = Inr q" using read_request_later[OF q(1) assms(3,4)] .
  ultimately show ?thesis using r(1,2) q(2) by (simp add: shadowEvaluate_def Let_def replay_or_conflict_def new_intent_def)
qed

text \<open>C31: a grant whose validity starts on a day is not found before the next day in UTC: the stored ISO time and the database clock are
  compared as texts, where the \<^verbatim>\<open>T\<close> of the one comes after the blank of the other.\<close>

theorem grant_of_today_hidden:
  assumes "dr_from r = Some (iso_text t)" "t div 86400000 = ad_now db div 86400000"
  shows "shadow_grant auth up q db \<noteq> Some r"
proof
  let ?P = "\<lambda>r. dr_tenant r = se_tenant auth \<and> dr_action r = sr_action q \<and> live_delegation (ad_now db) r"
  assume "shadow_grant auth up q db = Some r"
  then have "find (\<lambda>r. dr_agent r = ''thebe'') (filter ?P (rev (ad_delegations db))) = Some r \<or>
    find (\<lambda>r. dr_agent r = lower (trim (sr_agent q))) (filter ?P (rev (ad_delegations db))) = Some r"
    unfolding shadow_grant_def activeDelegation_def Let_def by (simp split: if_splits option.splits)
  then have "live_delegation (ad_now db) r" by (elim disjE) (drule find_filterD, simp)+
  then show False using assms iso_after_stamp by (simp add: live_delegation_def in_validity_def)
qed

section \<open>A grant used up\<close>

text \<open>An owner grants one task a day and evaluates twice: the second evaluation is refused.\<close>

definition sample_owner :: session where
  "sample_owner = \<lparr>se_tenant = ''t1'', se_user = ''u1'', se_role = ''owner''\<rparr>"

definition grant_body :: jsval where
  "grant_body = JObj [(''agentKey'', JStr ''thebe''), (''actionKey'', JStr ''task.create''), (''maxAutonomyLevel'', JInt 3), (''maxDailyActions'', JInt 1)]"

definition shadow_body :: jsval where
  "shadow_body = JObj [(''agentKey'', JStr ''thebe''), (''actionKey'', JStr ''task.create''), (''amountMinor'', JInt 0), (''humanConfirmed'', JBool True)]"

definition store0 :: authority_db where
  "store0 = \<lparr>ad_delegations = [], ad_intents = [], ad_events = [], ad_runs = [], ad_proposals = [], ad_now = 86400000000\<rparr>"

definition no_dates :: date_parse where "no_dates s = None"

definition store1 :: authority_db where
  "store1 = snd (createDelegation no_dates sample_owner True True (Inr grant_body) ''d1'' ''e1'' store0 store0)"

definition evaluate_sample :: "string \<Rightarrow> string \<Rightarrow> string \<Rightarrow> authority_db \<Rightarrow> authority_db \<Rightarrow> shadow_reply \<times> authority_db" where
  "evaluate_sample key iid eid = shadowEvaluate no_dates id sample_owner True True (JStr key) (Inr shadow_body) iid eid"

definition store2 :: authority_db where "store2 = snd (evaluate_sample ''first-key'' ''i1'' ''e2'' store1 store1)"

definition store3 :: authority_db where "store3 = snd (evaluate_sample ''second-key'' ''i2'' ''e3'' store2 store2)"

definition store3_overlapped :: authority_db where "store3_overlapped = snd (evaluate_sample ''second-key'' ''i2'' ''e3'' store1 store2)"

definition sample_grant_row :: delegation_row where
  "sample_grant_row = \<lparr>dr_id = ''d1'', dr_tenant = ''t1'', dr_agent = ''thebe'', dr_action = ''task.create'', dr_status = ''active'', dr_level = 3,
     dr_external = False, dr_strong = False, dr_human = True, dr_daily = Some 1, dr_amount = None, dr_shadow = True, dr_from = None, dr_until = None, dr_user = ''u1''\<rparr>"

lemma store1_row: "ad_delegations store1 = [sample_grant_row]"
  by code_simp

lemma store3_rows: "ad_delegations store3 = [sample_grant_row]"
  by code_simp

lemma sample_decisions: "map in_decision (ad_intents store3) = [''shadow_allow'', ''deny'']"
  by code_simp

lemma used_up_run:
  "authority_run no_dates id overlap [store3, store2, store1, store0]"
  unfolding store3_def store2_def store1_def evaluate_sample_def
  by (rule run_step[OF _ _ step_shadow] run_step[OF _ _ step_create] run_start | simp add: readable_def store0_def empty_store_def)+

theorem authority_store_lawful_witness:
  "store_lawful store3 \<and> store_lawful store1 \<and> store_extends store1 store3"
  using authority_store_lawful[OF used_up_run] by simp

theorem daily_limit_kept_witness: "int (allowed_on ''t1'' ''d1'' 1000 store3) \<le> 1"
  using daily_limit_kept[OF used_up_run, of sample_grant_row 1 1000] store3_rows by (simp add: sample_grant_row_def)

text \<open>When the second evaluation reads the store before the first has written it, the limit of one a day is passed.\<close>

lemma daily_limit_race:
  "authority_run no_dates id True [store3_overlapped, store2, store1, store0] \<and> allowed_on ''t1'' ''d1'' 1000 store3_overlapped = 2"
proof
  show "authority_run no_dates id True [store3_overlapped, store2, store1, store0]"
    unfolding store3_overlapped_def store2_def store1_def evaluate_sample_def
    by (rule run_step[OF _ _ step_shadow] run_step[OF _ _ step_create] run_start | simp add: readable_def store0_def empty_store_def)+
  show "allowed_on ''t1'' ''d1'' 1000 store3_overlapped = 2" by code_simp
qed

lemma first_reply: "\<exists>i d. evaluate_sample ''first-key'' ''i1'' ''e2'' store1 store1 = (Shadow_New i d, store2)"
proof -
  have "(case fst (evaluate_sample ''first-key'' ''i1'' ''e2'' store1 store1) of Shadow_New i d \<Rightarrow> True | _ \<Rightarrow> False)" by code_simp
  then show ?thesis by (cases "evaluate_sample ''first-key'' ''i1'' ''e2'' store1 store1") (auto simp: store2_def split: shadow_reply.splits)
qed

theorem shadow_retry_replays_witness:
  "\<exists>i. shadowEvaluate no_dates id sample_owner True True (JStr ''first-key'') (Inr shadow_body) ''i9'' ''e9'' store2 store3 = (Shadow_Replay i, store3)"
proof -
  obtain i d where "evaluate_sample ''first-key'' ''i1'' ''e2'' store1 store1 = (Shadow_New i d, store2)" using first_reply by blast
  note r = shadow_retry_replays[OF this[unfolded evaluate_sample_def] extends_refl]
  have "ad_runs store1 = [] \<and> ad_proposals store1 = []" by code_simp
  then have "set (ad_runs store1) \<subseteq> set (ad_runs store2)" "set (ad_proposals store1) \<subseteq> set (ad_proposals store2)" by simp_all
  from r[OF this] show ?thesis by blast
qed

theorem grant_of_today_hidden_witness:
  "shadow_grant sample_owner True
     \<lparr>sr_agent = ''thebe'', sr_action = ''task.create'', sr_definition = the (AGENT_ACTION_CATALOG ''task.create''), sr_amount = 0, sr_confirmed = True,
      sr_run = None, sr_proposal = None, sr_metadata = JObj []\<rparr>
     (store1\<lparr>ad_delegations := [sample_grant_row\<lparr>dr_from := Some (iso_text 86400000001)\<rparr>], ad_now := 86403600000\<rparr>)
   \<noteq> Some (sample_grant_row\<lparr>dr_from := Some (iso_text 86400000001)\<rparr>)"
  by (rule grant_of_today_hidden[of _ 86400000001]) simp_all

end
