(* ===== verification/TaskExecution.thy ===== *)
theory TaskExecution imports AuthorityStore RuntimeGuard ToolTrust begin

text \<open>
  The one action the assistant may carry out, the creation of an internal task: \<^verbatim>\<open>agentic-task-execution.js\<close> on the tables and
  triggers of \<^verbatim>\<open>048_v102_bounded_internal_task_execution.sql\<close> and \<^verbatim>\<open>064_v217_jit_execution_permits.sql\<close>. A delegation
  gets an execution grant; a request is prepared under it, approved by an owner, given a permit for one use, and executed. A
  handler reads one state (\<open>s0\<close>) and writes another (\<open>s\<close>), so other requests may come in between. A permit's expiry, an ISO text in its
  column, is kept as its instant.
\<close>

section \<open>The environment\<close>

definition executionMode :: "jsval \<Rightarrow> string" where
  "executionMode env =
    (if envTrue (fld env ''AGENT_BOUNDED_TASK_EXECUTION_ENABLED'') then ''global''
     else let mode = lower (trim (js_string (jor (fld env ''AGENT_BOUNDED_TASK_EXECUTION_MODE'') (JStr ''off''))))
       in if mode \<in> set [''off'', ''platform_admin_canary'', ''owner_bounded'', ''global''] then mode else ''off'')"

definition platformAdminEmails :: "jsval \<Rightarrow> string list" where
  "platformAdminEmails env = filter (\<lambda>s. s \<noteq> []) (map (\<lambda>s. lower (trim s)) (split_on (CHR '','') (str_or (fld env ''PLATFORM_ADMIN_EMAILS''))))"

definition sessionExecutionEnabled :: "jsval \<Rightarrow> session \<Rightarrow> string \<Rightarrow> bool" where
  "sessionExecutionEnabled env auth email =
    (let mode = executionMode env; mail = lower (trim email)
     in if mode = ''owner_bounded'' then roleAllowed auth [''owner''] \<and> trim (se_tenant auth) \<noteq> [] \<and> trim (se_user auth) \<noteq> []
        else if mode = ''global'' then True
        else if mode \<noteq> ''platform_admin_canary'' then False
        else roleAllowed auth [''owner''] \<and> mail \<noteq> [] \<and> mail \<in> set (platformAdminEmails env))"

definition globalExecutionEnabled :: "jsval \<Rightarrow> bool" where
  "globalExecutionEnabled env \<longleftrightarrow> executionMode env = ''global''"

definition runtimeKillSwitch :: "jsval \<Rightarrow> bool" where
  "runtimeKillSwitch env = envTrue (fld env ''AGENT_RUNTIME_KILL_SWITCH'')"

definition runtimeAgentStatus :: "jsval \<Rightarrow> string" where
  "runtimeAgentStatus env = (if js_string (jor (fld env ''AGENT_RUNTIME_ENABLED'') (JStr ''1'')) = ''0'' then ''disabled'' else ''enabled'')"

definition runtimeBudgetStatus :: "jsval \<Rightarrow> string" where
  "runtimeBudgetStatus env = js_string (jor (fld env ''AGENT_RUNTIME_BUDGET_STATUS'') (JStr ''within_limit''))"

section \<open>The payload of a task\<close>

definition ACTION_KEY :: string where "ACTION_KEY = ''task.create''"

record task_content =
  tp_title :: string
  tp_description :: "string option"
  tp_priority :: int
  tp_due :: "string option"

text \<open>\<^verbatim>\<open>null\<close> for no time, \<^verbatim>\<open>undefined\<close> for one that cannot be read.\<close>

definition task_validIso :: "date_parse \<Rightarrow> jsval \<Rightarrow> string option option" where
  "task_validIso dp v = (if nullish v \<or> v = JStr [] then Some None
     else (case date_ms dp v of Fin t \<Rightarrow> Some (Some (iso_text \<lfloor>t\<rfloor>)) | _ \<Rightarrow> None))"

definition task_priority :: "jsval \<Rightarrow> int option" where
  "task_priority v = (if nullish v then Some 2
     else (case to_num v of Fin q \<Rightarrow> if integral q \<and> 1 \<le> q \<and> q \<le> 3 then Some \<lfloor>q\<rfloor> else None | _ \<Rightarrow> None))"

definition none_if_empty :: "string \<Rightarrow> string option" where
  "none_if_empty s = (if s = [] then None else Some s)"

definition normalizeTaskPayload :: "date_parse \<Rightarrow> jsval \<Rightarrow> string + task_content" where
  "normalizeTaskPayload dp body =
    (let title = clean (fld body ''title'') 160 in
     if title = [] then Inl ''task_title_required''
     else case task_priority (fld body ''priority'') of None \<Rightarrow> Inl ''invalid_task_priority''
     | Some p \<Rightarrow> (case task_validIso dp (fld body ''dueAt'') of None \<Rightarrow> Inl ''invalid_task_due_at''
         | Some due \<Rightarrow> Inr \<lparr>tp_title = title, tp_description = none_if_empty (clean (fld body ''description'') 1200), tp_priority = p, tp_due = due\<rparr>))"

definition canonicalIntentPayload :: "task_content \<Rightarrow> string option \<Rightarrow> string option \<Rightarrow> string" where
  "canonicalIntentPayload p run proposal = json (JObj [(''agentKey'', JStr ''thebe''), (''actionKey'', JStr ACTION_KEY), (''amountMinor'', JInt 0),
     (''humanConfirmed'', JBool False), (''runId'', or_null (case run of None \<Rightarrow> [] | Some x \<Rightarrow> x)), (''proposalId'', or_null (case proposal of None \<Rightarrow> [] | Some x \<Rightarrow> x)),
     (''metadata'', JObj [(''title'', JStr (tp_title p)), (''description'', opt_str (tp_description p)), (''priority'', JInt (tp_priority p)), (''dueAt'', opt_str (tp_due p))])])"

section \<open>The tables\<close>

record grant_row =
  xg_id :: string
  xg_tenant :: string
  xg_delegation :: string
  xg_active :: bool
  xg_user :: string

datatype request_status = Prepared | Approved | Executed | Cancelled

record task_request_row =
  xr_id :: string
  xr_tenant :: string
  xr_intent :: string
  xr_delegation :: string
  xr_grant :: string
  xr_user :: string
  xr_payload :: task_content
  xr_hash :: string
  xr_status :: request_status
  xr_approved_hash :: "string option"
  xr_approver :: "string option"
  xr_permit :: "string option"

record permit_row =
  xp_id :: string
  xp_tenant :: string
  xp_human :: string
  xp_request :: string
  xp_grant :: string
  xp_hash :: string
  xp_used :: bool
  xp_expires :: int

record internal_task =
  xt_id :: string
  xt_tenant :: string
  xt_title :: string
  xt_description :: "string option"
  xt_priority :: int
  xt_due :: "string option"
  xt_request :: string
  xt_intent :: string
  xt_grant :: string
  xt_user :: string

record receipt_row =
  xc_id :: string
  xc_tenant :: string
  xc_intent :: string
  xc_grant :: string
  xc_hash :: string
  xc_task :: string
  xc_at :: int

text \<open>An audit entry; the preparation of an employee's proposal names it.\<close>

record exec_audit =
  xa_tenant :: string
  xa_type :: string
  xa_entity :: string
  xa_proposal :: "string option"

text \<open>\<open>xd_owners\<close> are the active owners of each tenant, \<open>xd_members\<close> its active owners and managers.\<close>

record exec_db =
  xd_auth :: authority_db
  xd_registry :: registry_db
  xd_grants :: "grant_row list"
  xd_requests :: "task_request_row list"
  xd_permits :: "permit_row list"
  xd_tasks :: "internal_task list"
  xd_receipts :: "receipt_row list"
  xd_audit :: "exec_audit list"
  xd_owners :: "(string \<times> string) list"
  xd_members :: "(string \<times> string) list"

abbreviation exec_now :: "exec_db \<Rightarrow> int" where "exec_now s \<equiv> ad_now (xd_auth s)"

definition audit_entry :: "string \<Rightarrow> string \<Rightarrow> string \<Rightarrow> string option \<Rightarrow> exec_db \<Rightarrow> exec_db" where
  "audit_entry tenant type entity proposal s =
    s\<lparr>xd_audit := xd_audit s @ [\<lparr>xa_tenant = tenant, xa_type = type, xa_entity = entity, xa_proposal = proposal\<rparr>]\<rparr>"

datatype exec_reply =
    Exec_Error nat string
  | Grant_Created string
  | Grant_Revoked string
  | Task_Prepared string
  | Task_Replayed string request_status
  | Task_Moved string request_status
  | Permit_Issued string int
  | Task_Executed internal_task string

section \<open>Execution grants\<close>

definition eligible_delegation :: "delegation_row \<Rightarrow> bool" where
  "eligible_delegation r \<longleftrightarrow> dr_agent r = ''thebe'' \<and> dr_action r = ACTION_KEY \<and> dr_status r = ''active'' \<and> dr_level r \<ge> 3 \<and> \<not> dr_external r \<and> dr_human r"

definition eligible_now :: "string \<Rightarrow> string \<Rightarrow> exec_db \<Rightarrow> delegation_row option" where
  "eligible_now tenant did s =
    find (\<lambda>r. dr_id r = did \<and> dr_tenant r = tenant \<and> eligible_delegation r \<and> in_validity (exec_now s) r) (ad_delegations (xd_auth s))"

definition loadExecutionGrant :: "string \<Rightarrow> string \<Rightarrow> exec_db \<Rightarrow> (delegation_row \<times> string) option" where
  "loadExecutionGrant tenant did s = (case eligible_now tenant did s of None \<Rightarrow> None
    | Some r \<Rightarrow> map_option (\<lambda>g. (r, xg_id g)) (find (\<lambda>g. xg_delegation g = did \<and> xg_tenant g = tenant \<and> xg_active g) (xd_grants s)))"

definition thebe_authority :: "bool \<Rightarrow> exec_db \<Rightarrow> authority" where
  "thebe_authority up s = loadCanonicalAgentAuthority up (JStr THEBE_AGENT_ID) (xd_registry s)"

definition contained :: "bool \<Rightarrow> exec_db \<Rightarrow> exec_reply" where
  "contained up s = Exec_Error (if au_ready (thebe_authority up s) then 409 else 503) ''agent_authority_contained''"

text \<open>The row with the unique delegation and the trigger on the delegation.\<close>

definition insert_grant :: "grant_row \<Rightarrow> exec_db \<Rightarrow> exec_db option" where
  "insert_grant g s =
    (if list_ex (\<lambda>x. xg_id x = xg_id g \<or> xg_delegation x = xg_delegation g) (xd_grants s) \<or> eligible_now (xg_tenant g) (xg_delegation g) s = None then None
     else Some (audit_entry (xg_tenant g) ''AGENT_EXECUTION_GRANT_CREATED'' (xg_id g) None (s\<lparr>xd_grants := xd_grants s @ [g]\<rparr>)))"

definition createExecutionGrant :: "session \<Rightarrow> bool \<Rightarrow> bool \<Rightarrow> request_body \<Rightarrow> string \<Rightarrow> exec_db \<Rightarrow> exec_db \<Rightarrow> exec_reply \<times> exec_db" where
  "createExecutionGrant auth ready up body gid s0 s =
    (if \<not> roleAllowed auth [''owner''] then (Exec_Error 403 ''owner_required'', s)
     else if \<not> ready then (Exec_Error 503 ''bounded_execution_schema_not_ready'', s)
     else if \<not> authorityPermitsExecution (thebe_authority up s0) then (contained up s0, s)
     else case body of Inl (code, e) \<Rightarrow> (Exec_Error code e, s)
     | Inr b \<Rightarrow>
         (let did = clean (fld b ''delegationId'') 120;
              row = find (\<lambda>r. dr_id r = did \<and> dr_tenant r = se_tenant auth \<and> in_validity (exec_now s0) r) (ad_delegations (xd_auth s0))
          in if did = [] then (Exec_Error 400 ''delegation_id_required'', s)
             else case row of None \<Rightarrow> (Exec_Error 404 ''delegation_not_found'', s)
             | Some r \<Rightarrow>
                 (if \<not> eligible_delegation r then (Exec_Error 409 ''delegation_not_eligible'', s)
                  else case find (\<lambda>g. xg_tenant g = se_tenant auth \<and> xg_delegation g = did) (xd_grants s0) of
                    Some g \<Rightarrow> (Exec_Error 409 (if xg_active g then ''active_execution_grant_exists'' else ''execution_grant_revoked_permanently''), s)
                  | None \<Rightarrow> (case insert_grant \<lparr>xg_id = gid, xg_tenant = se_tenant auth, xg_delegation = did, xg_active = True, xg_user = se_user auth\<rparr> s of
                        None \<Rightarrow> (Exec_Error 500 ''execution_grant_create_failed'', s)
                      | Some s' \<Rightarrow> (Grant_Created gid, s')))))"

definition revokeExecutionGrant :: "session \<Rightarrow> bool \<Rightarrow> string \<Rightarrow> exec_db \<Rightarrow> exec_reply \<times> exec_db" where
  "revokeExecutionGrant auth ready gid s =
    (let p = (\<lambda>g. xg_id g = gid \<and> xg_tenant g = se_tenant auth \<and> xg_active g)
     in if \<not> roleAllowed auth [''owner''] then (Exec_Error 403 ''owner_required'', s)
        else if \<not> ready then (Exec_Error 503 ''bounded_execution_schema_not_ready'', s)
        else if \<not> list_ex p (xd_grants s)
        then (if list_ex (\<lambda>g. xg_id g = gid \<and> xg_tenant g = se_tenant auth) (xd_grants s) then Exec_Error 409 ''execution_grant_already_revoked''
              else Exec_Error 404 ''execution_grant_not_found'', s)
        else (Grant_Revoked gid, audit_entry (se_tenant auth) ''AGENT_EXECUTION_GRANT_REVOKED'' gid None
               (s\<lparr>xd_grants := update_where p (\<lambda>g. g\<lparr>xg_active := False\<rparr>) (xd_grants s)\<rparr>)))"

section \<open>Preparation and approval\<close>

definition request_at :: "string \<Rightarrow> string \<Rightarrow> exec_db \<Rightarrow> task_request_row option" where
  "request_at tenant rid s = find (\<lambda>q. xr_id q = rid \<and> xr_tenant q = tenant) (xd_requests s)"

definition keyed_request :: "string \<Rightarrow> string \<Rightarrow> exec_db \<Rightarrow> (intent_row \<times> task_request_row option) option" where
  "keyed_request tenant key s = map_option (\<lambda>i. (i, find (\<lambda>q. xr_intent q = in_id i \<and> xr_tenant q = tenant) (xd_requests s)))
     (intent_at tenant key (xd_auth s))"

text \<open>An employee's proposal: its key, and whether it is still approved and its preparer a member when the rows are written.\<close>

type_synonym employee_source = "(string \<times> bool) option"

definition employeePreparationMatches :: "string \<Rightarrow> task_request_row \<Rightarrow> employee_source \<Rightarrow> string \<Rightarrow> string \<Rightarrow> exec_db \<Rightarrow> bool" where
  "employeePreparationMatches tenant q source did gid s = (case source of None \<Rightarrow> True
    | Some (key, b) \<Rightarrow> xr_delegation q = did \<and> xr_grant q = gid \<and>
        list_ex (\<lambda>a. xa_tenant a = tenant \<and> xa_type a = ''AGENT_TASK_PREPARED'' \<and> xa_entity a = xr_id q \<and> xa_proposal a = Some key) (xd_audit s))"

definition prepared_intent :: "session \<Rightarrow> string \<Rightarrow> string option \<Rightarrow> string option \<Rightarrow> string \<Rightarrow> string \<Rightarrow> string \<Rightarrow> int \<Rightarrow> intent_row" where
  "prepared_intent auth iid run proposal did hash key t =
    \<lparr>in_id = iid, in_tenant = se_tenant auth, in_run = run, in_proposal = proposal, in_action = ACTION_KEY, in_user = se_user auth, in_delegation = Some did,
     in_decision = ''review_required'', in_code = ''human_confirmation_required'', in_level = 3, in_amount = 0, in_hash = hash, in_key = key,
     in_status = ''review_required'', in_at = t\<rparr>"

text \<open>The batch: the intent and the request, with the trigger that the grant is active and for the delegation.\<close>

definition insert_request :: "intent_row \<Rightarrow> task_request_row \<Rightarrow> string option \<Rightarrow> exec_db \<Rightarrow> exec_db option" where
  "insert_request i q proposal s =
    (if intent_refused i (xd_auth s) \<or> list_ex (\<lambda>x. xr_id x = xr_id q \<or> xr_intent x = xr_intent q) (xd_requests s)
        \<or> \<not> list_ex (\<lambda>g. xg_id g = xr_grant q \<and> xg_tenant g = xr_tenant q \<and> xg_delegation g = xr_delegation q \<and> xg_active g) (xd_grants s)
     then None
     else Some (audit_entry (xr_tenant q) ''AGENT_TASK_PREPARED'' (xr_id q) proposal
       (s\<lparr>xd_auth := (xd_auth s)\<lparr>ad_intents := ad_intents (xd_auth s) @ [i]\<rparr>, xd_requests := xd_requests s @ [q]\<rparr>)))"

text \<open>For an employee's proposal the rows are written only while its source and the authority still hold.\<close>

definition source_holds :: "employee_source \<Rightarrow> string \<Rightarrow> string \<Rightarrow> string \<Rightarrow> string \<Rightarrow> exec_db \<Rightarrow> bool" where
  "source_holds source tenant user did gid s = (case source of None \<Rightarrow> True
    | Some (key, b) \<Rightarrow> b \<and> (tenant, user) \<in> set (xd_members s) \<and> map_option snd (loadExecutionGrant tenant did s) = Some gid)"

definition replayed_request :: "string \<Rightarrow> string \<Rightarrow> string \<Rightarrow> employee_source \<Rightarrow> string \<Rightarrow> string \<Rightarrow> exec_db \<Rightarrow> exec_reply option" where
  "replayed_request tenant key hash source did gid s = (case keyed_request tenant key s of
      Some (i, Some q) \<Rightarrow> if in_hash i = hash \<and> employeePreparationMatches tenant q source did gid s then Some (Task_Replayed (xr_id q) (xr_status q)) else None
    | _ \<Rightarrow> None)"

definition write_request :: "session \<Rightarrow> task_content \<Rightarrow> string option \<Rightarrow> string option \<Rightarrow> string \<Rightarrow> string \<Rightarrow> string \<Rightarrow> string \<Rightarrow> employee_source \<Rightarrow> string \<Rightarrow> string \<Rightarrow> exec_db \<Rightarrow> exec_reply \<times> exec_db" where
  "write_request auth p run proposal did gid key hash source iid rid s =
    (let i = prepared_intent auth iid run proposal did hash key (exec_now s);
         q = \<lparr>xr_id = rid, xr_tenant = se_tenant auth, xr_intent = iid, xr_delegation = did, xr_grant = gid, xr_user = se_user auth, xr_payload = p, xr_hash = hash,
              xr_status = Prepared, xr_approved_hash = None, xr_approver = None, xr_permit = None\<rparr>
     in if \<not> source_holds source (se_tenant auth) (se_user auth) did gid s then (Exec_Error 409 ''employee_proposal_source_changed'', s)
        else case insert_request i q (map_option fst source) s of
          Some s' \<Rightarrow> (Task_Prepared rid, s')
        | None \<Rightarrow> (case replayed_request (se_tenant auth) key hash source did gid s of Some a \<Rightarrow> (a, s)
            | None \<Rightarrow> (Exec_Error 500 ''task_prepare_failed'', s)))"

definition prepareTask ::
    "date_parse \<Rightarrow> (string \<Rightarrow> string) \<Rightarrow> session \<Rightarrow> bool \<Rightarrow> jsval \<Rightarrow> request_body \<Rightarrow> employee_source \<Rightarrow> string \<Rightarrow> string \<Rightarrow> exec_db \<Rightarrow> exec_db \<Rightarrow> exec_reply \<times> exec_db" where
  "prepareTask dp sha auth ready header body source iid rid s0 s =
    (let key = clean header 200; tenant = se_tenant auth
     in if \<not> roleAllowed auth [''owner'', ''manager''] then (Exec_Error 403 ''forbidden'', s)
        else if \<not> ready then (Exec_Error 503 ''bounded_execution_schema_not_ready'', s)
        else if length key < 8 then (Exec_Error 400 ''idempotency_key_required'', s)
        else case body of Inl (code, e) \<Rightarrow> (Exec_Error code e, s)
        | Inr b \<Rightarrow> (case normalizeTaskPayload dp b of Inl e \<Rightarrow> (Exec_Error 400 e, s)
            | Inr p \<Rightarrow>
                (let did = clean (fld b ''delegationId'') 120;
                     run = (if truthy (fld b ''runId'') then Some (clean (fld b ''runId'') 120) else None);
                     proposal = (if truthy (fld b ''proposalId'') then Some (clean (fld b ''proposalId'') 120) else None);
                     hash = sha (canonicalIntentPayload p run proposal)
                 in if did = [] then (Exec_Error 400 ''delegation_id_required'', s)
                    else case loadExecutionGrant tenant did s0 of None \<Rightarrow> (Exec_Error 409 ''active_task_execution_grant_required'', s)
                    | Some (r, gid) \<Rightarrow>
                        (if \<not> link_found True run tenant (ad_runs (xd_auth s0)) then (Exec_Error 404 ''run_not_found'', s)
                         else if \<not> link_found True proposal tenant (ad_proposals (xd_auth s0)) then (Exec_Error 404 ''proposal_not_found'', s)
                         else case keyed_request tenant key s0 of
                           Some iq \<Rightarrow> (case replayed_request tenant key hash source did gid s0 of Some a \<Rightarrow> (a, s)
                               | None \<Rightarrow> (Exec_Error 409 ''idempotency_key_conflict'', s))
                         | None \<Rightarrow> write_request auth p run proposal did gid key hash source iid rid s))))"

text \<open>What an approved proposal of an employee says, and the request made of it.\<close>

record employee_proposal =
  ep_title :: string
  ep_employee :: string
  ep_workflow :: string
  ep_severity :: string
  ep_due :: string

definition employee_body :: "employee_proposal \<Rightarrow> string \<Rightarrow> jsval" where
  "employee_body e did = JObj [(''title'', JStr (ep_title e)),
     (''description'', JStr (''Employee: '' @ ep_employee e @ ''. Workflow: '' @ ep_workflow e @ ''.'')),
     (''priority'', JInt (if ep_severity e = ''high'' then 1 else 2)), (''dueAt'', JStr (ep_due e @ ''T00:00:00.000Z'')), (''delegationId'', JStr did)]"

definition prepareEmployeeProposalTask ::
    "date_parse \<Rightarrow> (string \<Rightarrow> string) \<Rightarrow> jsval \<Rightarrow> session \<Rightarrow> bool \<Rightarrow> string \<Rightarrow> string \<Rightarrow> employee_proposal option \<Rightarrow> bool \<Rightarrow> string \<Rightarrow> string \<Rightarrow> exec_db \<Rightarrow> exec_db \<Rightarrow> exec_reply \<times> exec_db" where
  "prepareEmployeeProposalTask dp sha env auth ready key did source ok iid rid s0 s =
    (if se_tenant auth = [] \<or> se_user auth = [] then (Exec_Error 401 ''unauthenticated'', s)
     else if \<not> roleAllowed auth [''owner'', ''manager''] then (Exec_Error 403 ''forbidden'', s)
     else if fld env ''THEBE_EMPLOYEE_TASK_PREPARATION_ENABLED'' \<noteq> JStr ''true'' then (Exec_Error 409 ''employee_task_preparation_disabled'', s)
     else if key = [] \<or> length key > 2048 \<or> trim did = [] \<or> length did > 120 then (Exec_Error 400 ''invalid_employee_task_request'', s)
     else case source of None \<Rightarrow> (Exec_Error 409 ''approved_employee_provenance_required'', s)
     | Some e \<Rightarrow> prepareTask dp sha auth ready (JStr (''employee-proposal:'' @ sha key)) (Inr (employee_body e did)) (Some (key, ok)) iid rid s0 s)"

definition set_request :: "string \<Rightarrow> string \<Rightarrow> request_status list \<Rightarrow> (task_request_row \<Rightarrow> task_request_row) \<Rightarrow> exec_db \<Rightarrow> (bool \<times> exec_db)" where
  "set_request tenant rid from_status f s =
    (let p = (\<lambda>q. xr_id q = rid \<and> xr_tenant q = tenant \<and> xr_status q \<in> set from_status)
     in (list_ex p (xd_requests s), s\<lparr>xd_requests := update_where p f (xd_requests s)\<rparr>))"

definition approveTask :: "session \<Rightarrow> bool \<Rightarrow> string \<Rightarrow> exec_db \<Rightarrow> exec_db \<Rightarrow> exec_reply \<times> exec_db" where
  "approveTask auth ready rid s0 s =
    (if \<not> roleAllowed auth [''owner''] then (Exec_Error 403 ''owner_approval_required'', s)
     else if \<not> ready then (Exec_Error 503 ''bounded_execution_schema_not_ready'', s)
     else case request_at (se_tenant auth) rid s0 of None \<Rightarrow> (Exec_Error 404 ''task_request_not_found'', s)
     | Some q \<Rightarrow>
         (if xr_status q = Approved \<or> xr_status q = Executed then (Task_Replayed rid (xr_status q), s)
          else if xr_status q \<noteq> Prepared then (Exec_Error 409 ''task_request_not_approvable'', s)
          else case set_request (se_tenant auth) rid [Prepared] (\<lambda>q. q\<lparr>xr_status := Approved, xr_approved_hash := Some (xr_hash q), xr_approver := Some (se_user auth)\<rparr>) s of
            (True, s') \<Rightarrow> (Task_Moved rid Approved, audit_entry (se_tenant auth) ''AGENT_TASK_APPROVED'' rid None s')
          | (False, s') \<Rightarrow> (Exec_Error 409 ''task_request_approval_conflict'', s')))"

definition cancelTask :: "session \<Rightarrow> bool \<Rightarrow> string \<Rightarrow> exec_db \<Rightarrow> exec_db \<Rightarrow> exec_reply \<times> exec_db" where
  "cancelTask auth ready rid s0 s =
    (if \<not> roleAllowed auth [''owner''] then (Exec_Error 403 ''owner_required'', s)
     else if \<not> ready then (Exec_Error 503 ''bounded_execution_schema_not_ready'', s)
     else case request_at (se_tenant auth) rid s0 of None \<Rightarrow> (Exec_Error 404 ''task_request_not_found'', s)
     | Some q \<Rightarrow>
         (if xr_status q = Cancelled then (Task_Replayed rid Cancelled, s)
          else if xr_status q = Executed then (Exec_Error 409 ''task_request_already_executed'', s)
          else case set_request (se_tenant auth) rid [Prepared, Approved] (\<lambda>q. q\<lparr>xr_status := Cancelled\<rparr>) s of
            (True, s') \<Rightarrow> (Task_Moved rid Cancelled, audit_entry (se_tenant auth) ''AGENT_TASK_CANCELLED'' rid None s')
          | (False, s') \<Rightarrow> (Exec_Error 409 ''task_request_cancel_conflict'', s')))"

section \<open>Permits\<close>

definition grant_active :: "string \<Rightarrow> string \<Rightarrow> exec_db \<Rightarrow> bool" where
  "grant_active tenant gid s \<longleftrightarrow> list_ex (\<lambda>g. xg_id g = gid \<and> xg_tenant g = tenant \<and> xg_active g) (xd_grants s)"

definition grant_found :: "string \<Rightarrow> string \<Rightarrow> exec_db \<Rightarrow> bool" where
  "grant_found tenant gid s \<longleftrightarrow> list_ex (\<lambda>g. xg_id g = gid \<and> xg_tenant g = tenant) (xd_grants s)"

text \<open>\<^verbatim>\<open>datetime(expires_at)>CURRENT_TIMESTAMP\<close>, in whole seconds.\<close>

definition unexpired :: "int \<Rightarrow> permit_row \<Rightarrow> bool" where
  "unexpired now p \<longleftrightarrow> xp_expires p div 1000 > now div 1000"

definition approved_for :: "string \<Rightarrow> string \<Rightarrow> task_request_row \<Rightarrow> bool" where
  "approved_for user hash q \<longleftrightarrow> xr_status q = Approved \<and> xr_approver q = Some user \<and> xr_approved_hash q = Some (xr_hash q) \<and> xr_hash q = hash"

text \<open>The unique keys and the checks of the permits, and the trigger on the request.\<close>

definition insert_permit :: "permit_row \<Rightarrow> exec_db \<Rightarrow> exec_db option" where
  "insert_permit p s =
    (if list_ex (\<lambda>x. xp_id x = xp_id p \<or> xp_request x = xp_request p) (xd_permits s)
        \<or> \<not> unexpired (exec_now s) p \<or> xp_expires p div 1000 > exec_now s div 1000 + 300
        \<or> \<not> list_ex (\<lambda>q. xr_id q = xp_request p \<and> xr_tenant q = xp_tenant p \<and> approved_for (xp_human p) (xp_hash p) q \<and> xr_grant q = xp_grant p \<and>
              list_ex (\<lambda>i. in_id i = xr_intent q \<and> in_tenant i = xr_tenant q \<and> in_action i = ACTION_KEY) (ad_intents (xd_auth s))) (xd_requests s)
        \<or> \<not> grant_active (xp_tenant p) (xp_grant p) s
     then None
     else Some (audit_entry (xp_tenant p) ''AGENT_JIT_PERMIT_ISSUED'' (xp_id p) None (s\<lparr>xd_permits := xd_permits s @ [p]\<rparr>)))"

definition issueJitPermit :: "jsval \<Rightarrow> session \<Rightarrow> string \<Rightarrow> bool \<Rightarrow> bool \<Rightarrow> string \<Rightarrow> string \<Rightarrow> exec_db \<Rightarrow> exec_db \<Rightarrow> exec_reply \<times> exec_db" where
  "issueJitPermit env auth email ready up rid pid s0 s =
    (if \<not> roleAllowed auth [''owner''] then (Exec_Error 403 ''owner_required'', s)
     else if \<not> ready then (Exec_Error 503 ''bounded_execution_schema_not_ready'', s)
     else if \<not> authorityPermitsExecution (thebe_authority up s0) then (contained up s0, s)
     else if \<not> sessionExecutionEnabled env auth email then (Exec_Error 409 ''execution_session_disabled'', s)
     else case request_at (se_tenant auth) rid s0 of None \<Rightarrow> (Exec_Error 404 ''task_request_not_found'', s)
     | Some q \<Rightarrow>
         (if \<not> grant_found (se_tenant auth) (xr_grant q) s0 then (Exec_Error 404 ''task_request_not_found'', s)
          else if xr_status q \<noteq> Approved \<or> xr_approved_hash q \<noteq> Some (xr_hash q) then (Exec_Error 409 ''exact_owner_approval_required'', s)
          else if xr_approver q \<noteq> Some (se_user auth) then (Exec_Error 409 ''same_owner_approval_required'', s)
          else if \<not> grant_active (se_tenant auth) (xr_grant q) s0 then (Exec_Error 409 ''execution_grant_inactive'', s)
          else if list_ex (\<lambda>p. xp_tenant p = se_tenant auth \<and> xp_request p = rid) (xd_permits s0) then (Exec_Error 409 ''jit_permit_already_issued'', s)
          else let p = \<lparr>xp_id = pid, xp_tenant = se_tenant auth, xp_human = se_user auth, xp_request = rid, xp_grant = xr_grant q, xp_hash = xr_hash q,
                 xp_used = False, xp_expires = exec_now s0 + 300000\<rparr>
            in (case insert_permit p s of None \<Rightarrow> (Exec_Error 500 ''jit_permit_issue_failed'', s)
                | Some s' \<Rightarrow> (Permit_Issued pid (xp_expires p), s'))))"

section \<open>Execution\<close>

text \<open>A request with the intent, the delegation and the grant it is joined with.\<close>

definition execution_row :: "string \<Rightarrow> string \<Rightarrow> exec_db \<Rightarrow> (task_request_row \<times> delegation_row) option" where
  "execution_row tenant rid s = (case request_at tenant rid s of None \<Rightarrow> None
    | Some q \<Rightarrow> if list_ex (\<lambda>i. in_id i = xr_intent q \<and> in_tenant i = tenant) (ad_intents (xd_auth s)) \<and> grant_found tenant (xr_grant q) s
        then map_option (\<lambda>d. (q, d)) (delegation_at tenant (xr_delegation q) (xd_auth s)) else None)"

definition permit_fits :: "session \<Rightarrow> task_request_row \<Rightarrow> string \<Rightarrow> exec_db \<Rightarrow> bool" where
  "permit_fits auth q pid s = (case find (\<lambda>p. xp_id p = pid \<and> xp_tenant p = se_tenant auth) (xd_permits s) of None \<Rightarrow> False
    | Some p \<Rightarrow> xp_human p = se_user auth \<and> xp_request p = xr_id q \<and> xp_grant p = xr_grant q \<and> xp_hash p = xr_hash q \<and> \<not> xp_used p \<and> xp_expires p > exec_now s)"

definition executions_today :: "string \<Rightarrow> string \<Rightarrow> exec_db \<Rightarrow> nat" where
  "executions_today tenant gid s =
    length (filter (\<lambda>c. xc_tenant c = tenant \<and> xc_grant c = gid \<and> xc_at c div 86400000 \<ge> exec_now s div 86400000) (xd_receipts s))"

text \<open>A normalized grant as the object that is passed on.\<close>

definition grant_value :: "grant \<Rightarrow> jsval" where
  "grant_value g = JObj [(''id'', JStr (g_id g)), (''tenantId'', JStr (g_tenantId g)), (''agentKey'', JStr (g_agentKey g)), (''actionKey'', JStr (g_actionKey g)),
     (''status'', JStr (g_status g)), (''maxAutonomyLevel'', JInt (g_maxAutonomyLevel g)), (''externalSideEffects'', JBool (g_externalSideEffects g)),
     (''strongAuthRequired'', JBool (g_strongAuthRequired g)), (''humanConfirmationRequired'', JBool (g_humanConfirmationRequired g)),
     (''maxDailyActions'', opt_int (g_maxDailyActions g)), (''maxAmountMinor'', opt_int (g_maxAmountMinor g)), (''shadowOnly'', JBool (g_shadowOnly g)),
     (''validFrom'', g_validFrom g), (''expiresAt'', g_expiresAt g)]"

definition execution_authority :: "delegation_row \<Rightarrow> jsval" where
  "execution_authority d = (case normalizeDelegation (row_value d) of None \<Rightarrow> JObj [(''shadowOnly'', JBool False)] | Some g \<Rightarrow> grant_value (g\<lparr>g_shadowOnly := False\<rparr>))"

definition execution_guard :: "date_parse \<Rightarrow> jsval \<Rightarrow> session \<Rightarrow> string \<Rightarrow> bool \<Rightarrow> task_request_row \<Rightarrow> delegation_row \<Rightarrow> exec_db \<Rightarrow> guard_result" where
  "execution_guard dp env auth email permitted q d s = evaluateAgentRuntimeGuard dp
    \<lparr>w_agentKey = JStr ''thebe'', w_actionKey = JStr ACTION_KEY, w_actorRole = JStr (lower (se_role auth)), w_systemActor = Undef, w_tenantScoped = JBool True,
     w_tenantId = JStr (se_tenant auth), w_actorTenantId = JStr (se_tenant auth), w_targetTenantId = JStr (se_tenant auth),
     w_agentStatus = JStr (runtimeAgentStatus env), w_killSwitchActive = JBool (runtimeKillSwitch env), w_budgetStatus = JStr (runtimeBudgetStatus env),
     w_costAdmission = Undef, w_approvalState = JStr ''approved'',
     w_approvalPayloadHash = JStr (case xr_approved_hash q of None \<Rightarrow> [] | Some h \<Rightarrow> h), w_actionPayloadHash = JStr (xr_hash q), w_strongAuth = Undef,
     w_delegation = execution_authority d, w_mode = JStr ''execute'', w_globalExecutionEnabled = JBool (sessionExecutionEnabled env auth email \<and> permitted),
     w_amountMinor = JInt 0, w_dailyActionCount = JInt (int (executions_today (se_tenant auth) (xr_grant q) s)), w_phase = JStr ''bounded_v1'',
     w_now = Fin (of_int (exec_now s))\<rparr>"

text \<open>The registry row of the assistant, as the batch asks for it.\<close>

definition thebe_active :: "exec_db \<Rightarrow> bool" where
  "thebe_active s \<longleftrightarrow> list_ex (\<lambda>r. ag_id r = THEBE_AGENT_ID \<and> ag_state r = ''active'' \<and> ag_type r = ''agent'' \<and> ag_exec r = 1) (rg_agents (xd_registry s))"

text \<open>Whether the update of the request finds its row: the conditions of its \<^verbatim>\<open>WHERE\<close>.\<close>

definition executable :: "session \<Rightarrow> int option \<Rightarrow> string \<Rightarrow> exec_db \<Rightarrow> task_request_row \<Rightarrow> bool" where
  "executable auth daily gid s q \<longleftrightarrow> approved_for (se_user auth) (xr_hash q) q \<and> xr_permit q = None \<and>
     (se_tenant auth, se_user auth) \<in> set (xd_owners s) \<and> thebe_active s \<and>
     (case daily of None \<Rightarrow> True | Some m \<Rightarrow> int (executions_today (se_tenant auth) gid s) < m)"

text \<open>The trigger before the update: the permit that is consumed with it.\<close>

definition permit_good :: "string \<Rightarrow> task_request_row \<Rightarrow> exec_db \<Rightarrow> permit_row \<Rightarrow> bool" where
  "permit_good pid q s p \<longleftrightarrow> xp_id p = pid \<and> xp_tenant p = xr_tenant q \<and> Some (xp_human p) = xr_approver q \<and> xp_request p = xr_id q \<and>
     xp_grant p = xr_grant q \<and> xp_hash p = xr_hash q \<and> \<not> xp_used p \<and> unexpired (exec_now s) p"

text \<open>The trigger on the receipt, and the unique keys of the task and the receipt.\<close>

definition effect_refused :: "internal_task \<Rightarrow> receipt_row \<Rightarrow> exec_db \<Rightarrow> bool" where
  "effect_refused t c s \<longleftrightarrow>
     list_ex (\<lambda>x. xt_id x = xt_id t \<or> xt_request x = xt_request t \<or> xt_intent x = xt_intent t) (xd_tasks s) \<or>
     list_ex (\<lambda>x. xc_id x = xc_id c \<or> xc_intent x = xc_intent c) (xd_receipts s) \<or>
     \<not> list_ex (\<lambda>i. in_id i = xc_intent c \<and> in_tenant i = xc_tenant c \<and> in_action i = ACTION_KEY \<and> in_hash i = xc_hash c) (ad_intents (xd_auth s)) \<or>
     \<not> grant_active (xc_tenant c) (xc_grant c) s"

definition new_task :: "session \<Rightarrow> task_request_row \<Rightarrow> string \<Rightarrow> internal_task" where
  "new_task auth q0 tid = \<lparr>xt_id = tid, xt_tenant = se_tenant auth, xt_title = clean_str 160 (tp_title (xr_payload q0)),
     xt_description = none_if_empty (case tp_description (xr_payload q0) of None \<Rightarrow> [] | Some x \<Rightarrow> clean_str 1200 x),
     xt_priority = tp_priority (xr_payload q0), xt_due = tp_due (xr_payload q0), xt_request = xr_id q0, xt_intent = xr_intent q0,
     xt_grant = xr_grant q0, xt_user = xr_user q0\<rparr>"

definition new_receipt :: "session \<Rightarrow> task_request_row \<Rightarrow> string \<Rightarrow> string \<Rightarrow> int \<Rightarrow> receipt_row" where
  "new_receipt auth q0 tid cid t = \<lparr>xc_id = cid, xc_tenant = se_tenant auth, xc_intent = xr_intent q0, xc_grant = xr_grant q0, xc_hash = xr_hash q0,
     xc_task = tid, xc_at = t\<rparr>"

text \<open>The batch, on the request as it was read (\<open>q0\<close>): nothing when the update finds no row, or the triggers and keys refuse.\<close>

definition commit_execution :: "session \<Rightarrow> task_request_row \<Rightarrow> int option \<Rightarrow> string \<Rightarrow> string \<Rightarrow> string \<Rightarrow> exec_db \<Rightarrow> exec_db option" where
  "commit_execution auth q0 daily pid tid cid s =
    (let t = new_task auth q0 tid; c = new_receipt auth q0 tid cid (exec_now s);
         hit = (\<lambda>q. xr_id q = xr_id q0 \<and> xr_tenant q = se_tenant auth \<and> executable auth daily (xr_grant q0) s q)
     in case find hit (xd_requests s) of None \<Rightarrow> None
      | Some q \<Rightarrow>
          if \<not> list_ex (permit_good pid q s) (xd_permits s) \<or> \<not> grant_active (xr_tenant q) (xr_grant q) s \<or>
             list_ex (\<lambda>x. xr_permit x = Some pid) (xd_requests s) \<or> effect_refused t c s
          then None
          else Some (audit_entry (se_tenant auth) ''AGENT_TASK_EXECUTED'' tid None
            (s\<lparr>xd_requests := update_where hit (\<lambda>q. q\<lparr>xr_status := Executed, xr_permit := Some pid\<rparr>) (xd_requests s),
               xd_permits := update_where (permit_good pid q s) (\<lambda>p. p\<lparr>xp_used := True\<rparr>) (xd_permits s),
               xd_tasks := xd_tasks s @ [t], xd_receipts := xd_receipts s @ [c]\<rparr>)))"

text \<open>The query that reads the request selects its \<^verbatim>\<open>approved_by_user_id\<close> and then every column of the delegation,
  which has a column of the same name. The later column wins in the row object, so the check of the approver at the
  read compares the delegation's (\<open>dr_user\<close>), not the request's. The request's own approver is compared by the
  update of the batch (\<open>executable\<close>) and by the trigger on the permit (\<open>permit_good\<close>).\<close>

definition executeTask ::
    "date_parse \<Rightarrow> jsval \<Rightarrow> session \<Rightarrow> string \<Rightarrow> bool \<Rightarrow> bool \<Rightarrow> string \<Rightarrow> jsval \<Rightarrow> string \<Rightarrow> string \<Rightarrow> exec_db \<Rightarrow> exec_db \<Rightarrow> exec_reply \<times> exec_db" where
  "executeTask dp env auth email ready up rid permitId tid cid s0 s =
    (let tenant = se_tenant auth; pid = clean permitId 120; permitted = authorityPermitsExecution (thebe_authority up s0)
     in if \<not> roleAllowed auth [''owner''] then (Exec_Error 403 ''owner_required'', s)
        else if \<not> ready then (Exec_Error 503 ''bounded_execution_schema_not_ready'', s)
        else if \<not> permitted then (contained up s0, audit_entry tenant ''AGENT_EXECUTION_CONTAINED'' THEBE_AGENT_ID None s)
        else case execution_row tenant rid s0 of None \<Rightarrow> (Exec_Error 404 ''task_request_not_found'', s)
        | Some (q, d) \<Rightarrow>
            (if xr_status q \<noteq> Approved then (Exec_Error 409 ''task_request_not_approved'', s)
             else if xr_approved_hash q \<noteq> Some (xr_hash q) then (Exec_Error 409 ''exact_owner_approval_required'', s)
             else if dr_user d \<noteq> se_user auth then (Exec_Error 409 ''same_owner_execution_required'', s)
             else if \<not> grant_active tenant (xr_grant q) s0 then (Exec_Error 409 ''execution_grant_inactive'', s)
             else if pid = [] then (Exec_Error 409 ''jit_permit_required'', s)
             else if \<not> permit_fits auth q pid s0 then (Exec_Error 409 ''jit_permit_invalid_or_expired'', s)
             else if \<not> v_allowed (execution_guard dp env auth email permitted q d s0) \<or> \<not> v_executionAllowed (execution_guard dp env auth email permitted q d s0)
             then (Exec_Error 409 ''task_execution_denied'', audit_entry tenant ''AGENT_TASK_EXECUTION_DENIED'' rid None s)
             else case commit_execution auth q (dr_daily d) pid tid cid s of
               Some s' \<Rightarrow> (Task_Executed (new_task auth q tid) cid, s')
             | None \<Rightarrow> (Exec_Error (if list_ex (\<lambda>p. xp_id p = pid \<and> xp_tenant p = tenant \<and> xp_used p) (xd_permits s) then 409 else 500)
                 (if list_ex (\<lambda>p. xp_id p = pid \<and> xp_tenant p = tenant \<and> xp_used p) (xd_permits s) then ''jit_permit_already_consumed'' else ''task_execution_failed''), s)))"

section \<open>Lists\<close>

text \<open>The newest requests come first; the open tasks of the highest priority come first. Every task is open, and a task with no time comes before one with.\<close>

definition listTaskRequests :: "session \<Rightarrow> bool \<Rightarrow> exec_db \<Rightarrow> exec_reply + task_request_row list" where
  "listTaskRequests auth ready s =
    (if \<not> roleAllowed auth [''owner'', ''manager''] then Inl (Exec_Error 403 ''forbidden'')
     else if \<not> ready then Inl (Exec_Error 503 ''bounded_execution_schema_not_ready'')
     else Inr (take 50 (filter (\<lambda>q. xr_tenant q = se_tenant auth \<and> list_ex (\<lambda>i. in_id i = xr_intent q \<and> in_tenant i = xr_tenant q) (ad_intents (xd_auth s))) (rev (xd_requests s)))))"

definition listTasks :: "session \<Rightarrow> bool \<Rightarrow> exec_db \<Rightarrow> exec_reply + internal_task list" where
  "listTasks auth ready s =
    (if \<not> roleAllowed auth [''owner'', ''manager''] then Inl (Exec_Error 403 ''forbidden'')
     else if \<not> ready then Inl (Exec_Error 503 ''bounded_execution_schema_not_ready'')
     else Inr (take 100 (sort_key xt_priority (sort_key (\<lambda>t. case xt_due t of None \<Rightarrow> [] | Some d \<Rightarrow> ''d'' @ d) (filter (\<lambda>t. xt_tenant t = se_tenant auth) (rev (xd_tasks s)))))))"

end
