(* ===== verification/TaskTrail.thy ===== *)
theory TaskTrail imports TaskExecution AuthorityTrail begin

text \<open>
  What the execution of tasks promises over every history of requests that may overlap: each task was created once, for a
  request that an owner approved as it is, with a permit for one use and under a grant; the daily limit of a delegation is kept;
  a permit that lapsed is never used. A history is the list of the states, the newest first.
\<close>

section \<open>Histories\<close>

definition no_work :: "exec_db \<Rightarrow> bool" where
  "no_work s \<longleftrightarrow> empty_store (xd_auth s) \<and> xd_grants s = [] \<and> xd_requests s = [] \<and> xd_permits s = [] \<and> xd_tasks s = [] \<and> xd_receipts s = []"

inductive exec_step :: "date_parse \<Rightarrow> (string \<Rightarrow> string) \<Rightarrow> exec_db \<Rightarrow> exec_db \<Rightarrow> exec_db \<Rightarrow> bool" for dp sha s0 s where
  do_authority: "authority_step dp sha (xd_auth s0) (xd_auth s) a \<Longrightarrow> exec_step dp sha s0 s (s\<lparr>xd_auth := a\<rparr>)"
| do_grant: "exec_step dp sha s0 s (snd (createExecutionGrant auth ready up body gid s0 s))"
| do_revoke: "exec_step dp sha s0 s (snd (revokeExecutionGrant auth ready gid s))"
| do_prepare: "exec_step dp sha s0 s (snd (prepareTask dp sha auth ready header body source iid rid s0 s))"
| do_approve: "exec_step dp sha s0 s (snd (approveTask auth ready rid s0 s))"
| do_cancel: "exec_step dp sha s0 s (snd (cancelTask auth ready rid s0 s))"
| do_permit: "exec_step dp sha s0 s (snd (issueJitPermit env auth email ready up rid pid s0 s))"
| do_execute: "exec_step dp sha s0 s (snd (executeTask dp env auth email ready up rid permitId tid cid s0 s))"
| do_outside: "exec_step dp sha s0 s (s\<lparr>xd_registry := r, xd_owners := ow, xd_members := mb\<rparr>)"

inductive exec_run :: "date_parse \<Rightarrow> (string \<Rightarrow> string) \<Rightarrow> exec_db list \<Rightarrow> bool" for dp sha where
  exec_start: "no_work s \<Longrightarrow> exec_run dp sha [s]"
| exec_more: "exec_run dp sha (s # ss) \<Longrightarrow> s0 \<in> set (s # ss) \<Longrightarrow> exec_step dp sha s0 s s' \<Longrightarrow> exec_run dp sha (s' # s # ss)"

section \<open>What later states keep\<close>

definition grant_core :: "grant_row \<Rightarrow> grant_row" where "grant_core g = g\<lparr>xg_active := False\<rparr>"

definition request_core :: "task_request_row \<Rightarrow> task_request_row" where
  "request_core q = q\<lparr>xr_status := Prepared, xr_approved_hash := None, xr_approver := None, xr_permit := None\<rparr>"

definition permit_core :: "permit_row \<Rightarrow> permit_row" where "permit_core p = p\<lparr>xp_used := False\<rparr>"

definition request_closed :: "task_request_row \<Rightarrow> bool" where
  "request_closed q \<longleftrightarrow> xr_status q = Executed \<or> xr_status q = Cancelled"

definition same_execution_grant :: "grant_row \<Rightarrow> grant_row \<Rightarrow> bool" where
  "same_execution_grant g g' \<longleftrightarrow> grant_core g = grant_core g' \<and> (xg_active g' \<longrightarrow> xg_active g)"

definition same_request :: "task_request_row \<Rightarrow> task_request_row \<Rightarrow> bool" where
  "same_request q q' \<longleftrightarrow> request_core q = request_core q' \<and> (request_closed q \<longrightarrow> q' = q)"

definition same_permit :: "permit_row \<Rightarrow> permit_row \<Rightarrow> bool" where
  "same_permit p p' \<longleftrightarrow> permit_core p = permit_core p' \<and> (xp_used p \<longrightarrow> xp_used p')"

definition kept :: "('a \<Rightarrow> 'a \<Rightarrow> bool) \<Rightarrow> 'a list \<Rightarrow> 'a list \<Rightarrow> bool" where
  "kept R xs ys \<longleftrightarrow> (\<forall>x \<in> set xs. \<exists>y \<in> set ys. R x y)"

definition exec_extends :: "exec_db \<Rightarrow> exec_db \<Rightarrow> bool" where
  "exec_extends a b \<longleftrightarrow> store_extends (xd_auth a) (xd_auth b) \<and> kept same_execution_grant (xd_grants a) (xd_grants b) \<and>
     kept same_request (xd_requests a) (xd_requests b) \<and> kept same_permit (xd_permits a) (xd_permits b) \<and>
     (\<exists>ts. xd_tasks b = xd_tasks a @ ts) \<and> (\<exists>cs. xd_receipts b = xd_receipts a @ cs)"

lemma same_refl [simp]: "same_execution_grant g g" "same_request q q" "same_permit p p"
  by (simp_all add: same_execution_grant_def same_request_def same_permit_def)

lemma kept_more: "(\<And>x. R x x) \<Longrightarrow> kept R xs (xs @ ys)"
  by (auto simp: kept_def)

lemma kept_rows [simp]:
  "kept same_execution_grant gs gs" "kept same_request qs qs" "kept same_permit ps ps"
  "kept same_execution_grant gs (gs @ gs')" "kept same_request qs (qs @ qs')" "kept same_permit ps (ps @ ps')"
  using kept_more[of same_execution_grant gs "[]"] kept_more[of same_request qs "[]"] kept_more[of same_permit ps "[]"]
  by (simp_all add: kept_more)

lemma kept_update: "(\<And>x. R x x) \<Longrightarrow> (\<And>x. p x \<Longrightarrow> R x (f x)) \<Longrightarrow> kept R xs (update_where p f xs)"
  unfolding kept_def update_where_def by (intro ballI, rule_tac x = "if p x then f x else x" in bexI) auto

lemma update_row: "y \<in> set (update_where p f xs) \<Longrightarrow> \<exists>x \<in> set xs. y = (if p x then f x else x)"
  by (auto simp: update_where_def)

lemma kept_trans: "(\<And>x y z. R x y \<Longrightarrow> R y z \<Longrightarrow> R x z) \<Longrightarrow> kept R xs ys \<Longrightarrow> kept R ys zs \<Longrightarrow> kept R xs zs"
  unfolding kept_def by metis

lemma same_trans:
  "same_execution_grant g1 g2 \<Longrightarrow> same_execution_grant g2 g3 \<Longrightarrow> same_execution_grant g1 g3"
  "same_request q1 q2 \<Longrightarrow> same_request q2 q3 \<Longrightarrow> same_request q1 q3"
  "same_permit p1 p2 \<Longrightarrow> same_permit p2 p3 \<Longrightarrow> same_permit p1 p3"
  unfolding same_execution_grant_def same_request_def same_permit_def by metis+

lemma same_execution_grant_fields:
  assumes "same_execution_grant g g'"
  shows "xg_id g' = xg_id g" "xg_tenant g' = xg_tenant g" "xg_delegation g' = xg_delegation g"
proof -
  have "grant_core g = grant_core g'" using assms by (simp add: same_execution_grant_def)
  then show "xg_id g' = xg_id g" "xg_tenant g' = xg_tenant g" "xg_delegation g' = xg_delegation g"
    by (cases g; cases g'; simp add: grant_core_def)+
qed

lemma same_request_fields:
  assumes "same_request q q'"
  shows "xr_id q' = xr_id q" "xr_tenant q' = xr_tenant q" "xr_intent q' = xr_intent q" "xr_delegation q' = xr_delegation q" "xr_grant q' = xr_grant q"
    "xr_hash q' = xr_hash q" "xr_payload q' = xr_payload q" "xr_user q' = xr_user q"
proof -
  have "request_core q = request_core q'" using assms by (simp add: same_request_def)
  then show "xr_id q' = xr_id q" "xr_tenant q' = xr_tenant q" "xr_intent q' = xr_intent q" "xr_delegation q' = xr_delegation q" "xr_grant q' = xr_grant q"
    "xr_hash q' = xr_hash q" "xr_payload q' = xr_payload q" "xr_user q' = xr_user q"
    by (cases q; cases q'; simp add: request_core_def)+
qed

lemma same_permit_fields:
  assumes "same_permit p p'"
  shows "xp_id p' = xp_id p" "xp_tenant p' = xp_tenant p" "xp_human p' = xp_human p" "xp_request p' = xp_request p" "xp_grant p' = xp_grant p"
    "xp_hash p' = xp_hash p" "xp_expires p' = xp_expires p" "xp_used p \<Longrightarrow> xp_used p'"
proof -
  have "permit_core p = permit_core p'" using assms by (simp add: same_permit_def)
  then show "xp_id p' = xp_id p" "xp_tenant p' = xp_tenant p" "xp_human p' = xp_human p" "xp_request p' = xp_request p" "xp_grant p' = xp_grant p"
    "xp_hash p' = xp_hash p" "xp_expires p' = xp_expires p"
    by (cases p; cases p'; simp add: permit_core_def)+
  show "xp_used p \<Longrightarrow> xp_used p'" using assms by (simp add: same_permit_def)
qed

lemma exec_extends_refl [simp]: "exec_extends s s"
  by (simp add: exec_extends_def)

lemma exec_extends_trans:
  assumes "exec_extends a b" "exec_extends b c"
  shows "exec_extends a c"
proof -
  note A = assms(1)[unfolded exec_extends_def] and B = assms(2)[unfolded exec_extends_def]
  have "kept same_execution_grant (xd_grants a) (xd_grants c)" by (rule kept_trans[OF same_trans(1)]) (use A B in blast)+
  moreover have "kept same_request (xd_requests a) (xd_requests c)" by (rule kept_trans[OF same_trans(2)]) (use A B in blast)+
  moreover have "kept same_permit (xd_permits a) (xd_permits c)" by (rule kept_trans[OF same_trans(3)]) (use A B in blast)+
  ultimately show ?thesis using A B extends_trans unfolding exec_extends_def by auto
qed

section \<open>What holds of every state\<close>

definition grant_ok :: "exec_db \<Rightarrow> grant_row \<Rightarrow> bool" where
  "grant_ok s g \<longleftrightarrow> (\<exists>r. backed_by (xd_auth s) (xg_tenant g) (xg_delegation g) r)"

definition granted :: "exec_db \<Rightarrow> task_request_row \<Rightarrow> bool" where
  "granted s q \<longleftrightarrow> (\<exists>g \<in> set (xd_grants s). xg_id g = xr_grant q \<and> xg_tenant g = xr_tenant q \<and> xg_delegation g = xr_delegation q) \<and>
     (\<exists>i \<in> set (ad_intents (xd_auth s)). in_id i = xr_intent q \<and> in_tenant i = xr_tenant q \<and> in_hash i = xr_hash q \<and>
        in_action i = ACTION_KEY \<and> in_delegation i = Some (xr_delegation q))"

definition permitted_by :: "exec_db \<Rightarrow> task_request_row \<Rightarrow> bool" where
  "permitted_by s q \<longleftrightarrow> (\<exists>p \<in> set (xd_permits s). xr_permit q = Some (xp_id p) \<and> xp_used p \<and> Some (xp_human p) = xr_approver q \<and> xp_tenant p = xr_tenant q \<and>
     xp_request p = xr_id q \<and> xp_grant p = xr_grant q \<and> xp_hash p = xr_hash q)"

definition task_of :: "task_request_row \<Rightarrow> internal_task \<Rightarrow> bool" where
  "task_of q t \<longleftrightarrow> xt_request t = xr_id q \<and> xt_tenant t = xr_tenant q \<and> xt_intent t = xr_intent q \<and> xt_grant t = xr_grant q"

definition receipted :: "exec_db \<Rightarrow> task_request_row \<Rightarrow> internal_task \<Rightarrow> bool" where
  "receipted s q t \<longleftrightarrow> (\<exists>c \<in> set (xd_receipts s). xc_task c = xt_id t \<and> xc_tenant c = xt_tenant t \<and> xc_intent c = xt_intent t \<and> xc_grant c = xt_grant t \<and> xc_hash c = xr_hash q)"

definition request_ok :: "exec_db \<Rightarrow> task_request_row \<Rightarrow> bool" where
  "request_ok s q \<longleftrightarrow> granted s q \<and> (case xr_status q of
      Prepared \<Rightarrow> xr_permit q = None \<and> xr_approver q = None
    | Cancelled \<Rightarrow> xr_permit q = None
    | Approved \<Rightarrow> xr_permit q = None \<and> xr_approver q \<noteq> None \<and> xr_approved_hash q = Some (xr_hash q)
    | Executed \<Rightarrow> xr_approved_hash q = Some (xr_hash q) \<and> permitted_by s q \<and> (\<exists>t \<in> set (xd_tasks s). task_of q t \<and> receipted s q t))"

definition task_ok :: "exec_db \<Rightarrow> internal_task \<Rightarrow> bool" where
  "task_ok s t \<longleftrightarrow> (\<exists>q \<in> set (xd_requests s). xr_status q = Executed \<and> task_of q t)"

definition permit_ok :: "exec_db \<Rightarrow> permit_row \<Rightarrow> bool" where
  "permit_ok s p \<longleftrightarrow> (xp_used p \<longrightarrow> (\<exists>q \<in> set (xd_requests s). xr_id q = xp_request p \<and> xr_status q = Executed \<and> xr_permit q = Some (xp_id p)))"

definition receipt_ok :: "exec_db \<Rightarrow> receipt_row \<Rightarrow> bool" where
  "receipt_ok s c \<longleftrightarrow> xc_at c \<le> exec_now s \<and> (\<exists>t \<in> set (xd_tasks s). xt_id t = xc_task c \<and> xt_tenant t = xc_tenant c \<and> xt_intent t = xc_intent c \<and> xt_grant t = xc_grant c)"

definition keys_ok :: "exec_db \<Rightarrow> bool" where
  "keys_ok s \<longleftrightarrow> distinct (map xg_id (xd_grants s)) \<and> distinct (map xr_id (xd_requests s)) \<and> distinct (map xr_intent (xd_requests s)) \<and> distinct (map xp_id (xd_permits s)) \<and>
     distinct (map xp_request (xd_permits s)) \<and> distinct (map xt_request (xd_tasks s)) \<and> distinct (map xc_intent (xd_receipts s))"

definition exec_lawful :: "exec_db \<Rightarrow> bool" where
  "exec_lawful s \<longleftrightarrow> store_lawful (xd_auth s) \<and> keys_ok s \<and> (\<forall>g \<in> set (xd_grants s). grant_ok s g) \<and> (\<forall>q \<in> set (xd_requests s). request_ok s q) \<and>
     (\<forall>p \<in> set (xd_permits s). permit_ok s p) \<and> (\<forall>t \<in> set (xd_tasks s). task_ok s t) \<and> (\<forall>c \<in> set (xd_receipts s). receipt_ok s c)"

section \<open>What a step leaves alone stays lawful\<close>

lemma extends_parts:
  assumes "exec_extends a b"
  shows "store_extends (xd_auth a) (xd_auth b)"
    "g \<in> set (xd_grants a) \<Longrightarrow> \<exists>g' \<in> set (xd_grants b). same_execution_grant g g'"
    "q \<in> set (xd_requests a) \<Longrightarrow> \<exists>q' \<in> set (xd_requests b). same_request q q'"
    "p \<in> set (xd_permits a) \<Longrightarrow> \<exists>p' \<in> set (xd_permits b). same_permit p p'"
    "t \<in> set (xd_tasks a) \<Longrightarrow> t \<in> set (xd_tasks b)" "c \<in> set (xd_receipts a) \<Longrightarrow> c \<in> set (xd_receipts b)"
    "i \<in> set (ad_intents (xd_auth a)) \<Longrightarrow> i \<in> set (ad_intents (xd_auth b))" "exec_now a \<le> exec_now b"
  using assms unfolding exec_extends_def store_extends_def kept_def by auto

lemma settled_stays:
  assumes "exec_extends a b" "q \<in> set (xd_requests a)" "request_closed q"
  shows "q \<in> set (xd_requests b)"
  using extends_parts(3)[OF assms(1,2)] assms(3) by (auto simp: same_request_def)

lemma granted_grows:
  assumes "exec_extends a b" "granted a q" "same_request q q'"
  shows "granted b q'"
proof -
  obtain g where g: "g \<in> set (xd_grants a)" "xg_id g = xr_grant q" "xg_tenant g = xr_tenant q" "xg_delegation g = xr_delegation q"
    using assms(2) by (auto simp: granted_def)
  obtain g' where g': "g' \<in> set (xd_grants b)" "same_execution_grant g g'" using extends_parts(2)[OF assms(1) g(1)] by blast
  obtain i where i: "i \<in> set (ad_intents (xd_auth a))" "in_id i = xr_intent q" "in_tenant i = xr_tenant q" "in_hash i = xr_hash q"
      "in_action i = ACTION_KEY" "in_delegation i = Some (xr_delegation q)"
    using assms(2) by (auto simp: granted_def)
  show ?thesis using g g' i same_execution_grant_fields[OF g'(2)] same_request_fields[OF assms(3)] extends_parts(7)[OF assms(1) i(1)]
    unfolding granted_def by metis
qed

lemma permitted_grows:
  assumes "exec_extends a b" "permitted_by a q"
  shows "permitted_by b q"
proof -
  obtain p where p: "p \<in> set (xd_permits a)" "xr_permit q = Some (xp_id p) \<and> xp_used p \<and> Some (xp_human p) = xr_approver q \<and> xp_tenant p = xr_tenant q \<and>
     xp_request p = xr_id q \<and> xp_grant p = xr_grant q \<and> xp_hash p = xr_hash q" using assms(2) by (auto simp: permitted_by_def)
  obtain p' where p': "p' \<in> set (xd_permits b)" "same_permit p p'" using extends_parts(4)[OF assms(1) p(1)] by blast
  show ?thesis unfolding permitted_by_def using p(2) p'(1) same_permit_fields[OF p'(2)] by (intro bexI[of _ p']) simp_all
qed

lemma executed_grows:
  assumes "exec_extends a b" "\<exists>t \<in> set (xd_tasks a). task_of q t \<and> receipted a q t"
  shows "\<exists>t \<in> set (xd_tasks b). task_of q t \<and> receipted b q t"
  using assms(2) extends_parts(5,6)[OF assms(1)] unfolding receipted_def by blast

lemma request_ok_grows:
  assumes "exec_extends a b" "request_ok a q"
  shows "request_ok b q"
  using assms(2) granted_grows[OF assms(1), of q q] permitted_grows[OF assms(1)] executed_grows[OF assms(1)]
  unfolding request_ok_def by (cases "xr_status q") simp_all

lemma task_ok_grows:
  assumes "exec_extends a b" "task_ok a t"
  shows "task_ok b t"
proof -
  obtain q where q: "q \<in> set (xd_requests a)" "xr_status q = Executed" "task_of q t" using assms(2) by (auto simp: task_ok_def)
  then have "q \<in> set (xd_requests b)" using settled_stays[OF assms(1) q(1)] by (simp add: request_closed_def)
  then show ?thesis using q by (auto simp: task_ok_def)
qed

lemma permit_ok_grows:
  assumes "exec_extends a b" "permit_ok a p"
  shows "permit_ok b p"
  unfolding permit_ok_def
proof
  assume "xp_used p"
  then obtain q where q: "q \<in> set (xd_requests a)" "xr_id q = xp_request p" "xr_status q = Executed" "xr_permit q = Some (xp_id p)"
    using assms(2) by (auto simp: permit_ok_def)
  then have "q \<in> set (xd_requests b)" using settled_stays[OF assms(1) q(1)] by (simp add: request_closed_def)
  then show "\<exists>q \<in> set (xd_requests b). xr_id q = xp_request p \<and> xr_status q = Executed \<and> xr_permit q = Some (xp_id p)" using q by blast
qed

lemma receipt_ok_grows: "exec_extends a b \<Longrightarrow> receipt_ok a c \<Longrightarrow> receipt_ok b c"
  using extends_parts(5,8) unfolding receipt_ok_def by (meson order_trans)

lemma grant_ok_grows:
  assumes "exec_extends a b" "grant_ok a g" "same_execution_grant g g'"
  shows "grant_ok b g'"
proof -
  obtain r where "backed_by (xd_auth a) (xg_tenant g) (xg_delegation g) r" using assms(2) by (auto simp: grant_ok_def)
  from extends_backed[OF extends_parts(1)[OF assms(1)] this] show ?thesis
    using same_execution_grant_fields[OF assms(3)] by (metis grant_ok_def)
qed

lemma exec_frame:
  assumes "exec_lawful s" and x: "exec_extends s s'" and "store_lawful (xd_auth s')" "keys_ok s'"
    and g: "\<And>g. g \<in> set (xd_grants s') \<Longrightarrow> g \<in> set (xd_grants s) \<or> (\<exists>g0 \<in> set (xd_grants s). same_execution_grant g0 g) \<or> grant_ok s' g"
    and q: "\<And>q. q \<in> set (xd_requests s') \<Longrightarrow> q \<in> set (xd_requests s) \<or> request_ok s' q"
    and p: "\<And>p. p \<in> set (xd_permits s') \<Longrightarrow> p \<in> set (xd_permits s) \<or> permit_ok s' p"
    and t: "\<And>t. t \<in> set (xd_tasks s') \<Longrightarrow> t \<in> set (xd_tasks s) \<or> task_ok s' t"
    and c: "\<And>c. c \<in> set (xd_receipts s') \<Longrightarrow> c \<in> set (xd_receipts s) \<or> receipt_ok s' c"
  shows "exec_lawful s'"
proof -
  note L = assms(1)[unfolded exec_lawful_def]
  have "\<forall>g \<in> set (xd_grants s'). grant_ok s' g" using L g grant_ok_grows[OF x] same_refl(1) by blast
  moreover have "\<forall>q \<in> set (xd_requests s'). request_ok s' q" using L q request_ok_grows[OF x] by blast
  moreover have "\<forall>p \<in> set (xd_permits s'). permit_ok s' p" using L p permit_ok_grows[OF x] by blast
  moreover have "\<forall>t \<in> set (xd_tasks s'). task_ok s' t" using L t task_ok_grows[OF x] by blast
  moreover have "\<forall>c \<in> set (xd_receipts s'). receipt_ok s' c" using L c receipt_ok_grows[OF x] by blast
  ultimately show ?thesis unfolding exec_lawful_def using assms(3,4) by blast
qed

text \<open>The same tables but for some of them.\<close>

lemma auth_changed:
  assumes "exec_lawful s" "store_lawful a" "store_extends (xd_auth s) a"
  shows "exec_lawful (s\<lparr>xd_auth := a\<rparr>) \<and> exec_extends s (s\<lparr>xd_auth := a\<rparr>)"
proof -
  have x: "exec_extends s (s\<lparr>xd_auth := a\<rparr>)" using assms(3) by (simp add: exec_extends_def)
  have "keys_ok (s\<lparr>xd_auth := a\<rparr>)" using assms(1) by (simp add: exec_lawful_def keys_ok_def)
  then have "exec_lawful (s\<lparr>xd_auth := a\<rparr>)" by (intro exec_frame[OF assms(1) x]) (use assms(2) in auto)
  then show ?thesis using x by simp
qed

text \<open>A row added to a table.\<close>

lemma audit_free [simp]:
  "xd_auth (audit_entry t k e p s) = xd_auth s" "xd_grants (audit_entry t k e p s) = xd_grants s" "xd_requests (audit_entry t k e p s) = xd_requests s"
  "xd_permits (audit_entry t k e p s) = xd_permits s" "xd_tasks (audit_entry t k e p s) = xd_tasks s" "xd_receipts (audit_entry t k e p s) = xd_receipts s"
  "exec_extends a (audit_entry t k e p s) = exec_extends a s" "exec_lawful (audit_entry t k e p s) = exec_lawful s"
  by (simp_all add: audit_entry_def exec_extends_def exec_lawful_def keys_ok_def grant_ok_def request_ok_def granted_def permitted_by_def receipted_def
      task_ok_def permit_ok_def receipt_ok_def cong: request_status.case_cong)

lemma eligible_now_row: "eligible_now t did s = Some r \<Longrightarrow> backed_by (xd_auth s) t did r \<and> eligible_delegation r \<and> in_validity (exec_now s) r"
  unfolding eligible_now_def backed_by_def by (induction "ad_delegations (xd_auth s)") (auto dest!: find_SomeD)

lemma insert_grant_kept:
  assumes "exec_lawful s" "insert_grant g s = Some s'"
  shows "exec_lawful s' \<and> exec_extends s s'"
proof -
  have e: "\<forall>x \<in> set (xd_grants s). xg_id x \<noteq> xg_id g" "eligible_now (xg_tenant g) (xg_delegation g) s \<noteq> None"
    "s' = audit_entry (xg_tenant g) ''AGENT_EXECUTION_GRANT_CREATED'' (xg_id g) None (s\<lparr>xd_grants := xd_grants s @ [g]\<rparr>)"
    using assms(2) unfolding insert_grant_def by (auto simp: list_ex_iff split: if_splits)
  let ?n = "s\<lparr>xd_grants := xd_grants s @ [g]\<rparr>"
  have x: "exec_extends s ?n" by (simp add: exec_extends_def)
  have "keys_ok ?n" using assms(1) e(1) by (auto simp: exec_lawful_def keys_ok_def)
  moreover have "grant_ok ?n g" using e(2) eligible_now_row unfolding grant_ok_def by fastforce
  moreover have "store_lawful (xd_auth ?n)" using assms(1) by (simp add: exec_lawful_def)
  ultimately have "exec_lawful ?n" by (intro exec_frame[OF assms(1) x]) auto
  then show ?thesis using x e(3) by simp
qed

lemma revoke_kept:
  assumes "exec_lawful s"
  shows "exec_lawful (snd (revokeExecutionGrant auth ready gid s)) \<and> exec_extends s (snd (revokeExecutionGrant auth ready gid s))"
proof -
  let ?p = "\<lambda>g. xg_id g = gid \<and> xg_tenant g = se_tenant auth \<and> xg_active g"
  let ?n = "s\<lparr>xd_grants := update_where ?p (\<lambda>g. g\<lparr>xg_active := False\<rparr>) (xd_grants s)\<rparr>"
  have same: "same_execution_grant g (if ?p g then g\<lparr>xg_active := False\<rparr> else g)" for g by (simp add: same_execution_grant_def grant_core_def)
  have x: "exec_extends s ?n" by (simp add: exec_extends_def kept_update same_execution_grant_def grant_core_def)
  have "keys_ok ?n" using assms by (simp add: exec_lawful_def keys_ok_def map_update_where)
  moreover have "store_lawful (xd_auth ?n)" using assms by (simp add: exec_lawful_def)
  moreover have "(\<exists>g0 \<in> set (xd_grants s). same_execution_grant g0 g)" if "g \<in> set (xd_grants ?n)" for g
  proof -
    have "g \<in> set (update_where ?p (\<lambda>g. g\<lparr>xg_active := False\<rparr>) (xd_grants s))" using that by simp
    from update_row[OF this] obtain g0 where "g0 \<in> set (xd_grants s)" "g = (if ?p g0 then g0\<lparr>xg_active := False\<rparr> else g0)" by blast
    then show ?thesis using same by blast
  qed
  ultimately have "exec_lawful ?n" by (intro exec_frame[OF assms x]) auto
  then show ?thesis using x assms unfolding revokeExecutionGrant_def Let_def by simp
qed

lemma insert_request_kept:
  assumes "exec_lawful s" "insert_request i q proposal s = Some s'"
    and i: "lawful_intent (xd_auth s) i" "in_id i = xr_intent q" "in_tenant i = xr_tenant q" "in_hash i = xr_hash q" "in_action i = ACTION_KEY" "in_delegation i = Some (xr_delegation q)"
    and q: "xr_status q = Prepared" "xr_permit q = None" "xr_approver q = None"
  shows "exec_lawful s' \<and> exec_extends s s'"
proof -
  let ?a = "(xd_auth s)\<lparr>ad_intents := ad_intents (xd_auth s) @ [i]\<rparr>"
  let ?n = "s\<lparr>xd_auth := ?a, xd_requests := xd_requests s @ [q]\<rparr>"
  have e: "\<not> intent_refused i (xd_auth s)" "\<forall>x \<in> set (xd_requests s). xr_id x \<noteq> xr_id q \<and> xr_intent x \<noteq> xr_intent q"
    "\<exists>g \<in> set (xd_grants s). xg_id g = xr_grant q \<and> xg_tenant g = xr_tenant q \<and> xg_delegation g = xr_delegation q"
    "s' = audit_entry (xr_tenant q) ''AGENT_TASK_PREPARED'' (xr_id q) proposal ?n"
    using assms(2) unfolding insert_request_def by (auto simp: list_ex_iff split: if_splits)
  have a: "store_lawful ?a \<and> store_extends (xd_auth s) ?a"
    by (rule new_intent_kept[OF _ i(1) e(1), where es = "[]"]) (use assms(1) in \<open>simp_all add: exec_lawful_def\<close>)
  have x: "exec_extends s ?n" using a by (simp add: exec_extends_def)
  have "keys_ok ?n" using assms(1) e(2) by (auto simp: exec_lawful_def keys_ok_def)
  moreover have "request_ok ?n q" using e(3) i(2-6) q by (auto simp: request_ok_def granted_def)
  ultimately have "exec_lawful ?n" by (intro exec_frame[OF assms(1) x]) (use a in auto)
  then show ?thesis using x e(4) by simp
qed

lemma set_request_kept:
  assumes "exec_lawful s" "set_request t rid from_status f s = (b, s')"
    and open_from: "Executed \<notin> set from_status" "Cancelled \<notin> set from_status"
    and f: "\<And>q. request_core (f q) = request_core q" "\<And>q. q \<in> set (xd_requests s) \<Longrightarrow> xr_status q \<in> set from_status \<Longrightarrow> request_ok s q \<Longrightarrow> request_ok s (f q)"
  shows "exec_lawful s' \<and> exec_extends s s'"
proof -
  let ?p = "\<lambda>q. xr_id q = rid \<and> xr_tenant q = t \<and> xr_status q \<in> set from_status"
  have s': "s' = s\<lparr>xd_requests := update_where ?p f (xd_requests s)\<rparr>" using assms(2) by (simp add: set_request_def Let_def)
  have same: "same_request q (f q)" if "?p q" for q
    using that open_from f(1) by (auto simp: same_request_def request_closed_def)
  have x: "exec_extends s s'" unfolding s' exec_extends_def by (simp add: kept_update same)
  have "xr_id (f q) = xr_id q" "xr_intent (f q) = xr_intent q" for q using f(1)[of q] by (cases q; cases "f q"; simp add: request_core_def)+
  then have "keys_ok s'" using assms(1) unfolding s' by (simp add: exec_lawful_def keys_ok_def map_update_where)
  moreover have "q \<in> set (xd_requests s) \<or> request_ok s' q" if "q \<in> set (xd_requests s')" for q
  proof -
    have "q \<in> set (update_where ?p f (xd_requests s))" using that s' by simp
    from update_row[OF this] obtain q0 where q0: "q0 \<in> set (xd_requests s)" "q = (if ?p q0 then f q0 else q0)" by blast
    show ?thesis
    proof (cases "?p q0")
      case True
      then have "request_ok s (f q0)" using f(2)[OF q0(1)] assms(1) q0(1) by (simp add: exec_lawful_def)
      then show ?thesis using request_ok_grows[OF x] q0(2) True by simp
    next
      case False
      then have "q = q0" unfolding q0(2) by (rule if_not_P)
      then show ?thesis using q0(1) by simp
    qed
  qed
  ultimately have "exec_lawful s'" by (intro exec_frame[OF assms(1) x]) (use assms(1) s' in \<open>auto simp: exec_lawful_def\<close>)
  then show ?thesis using x by simp
qed

lemma request_status_changed:
  assumes "request_ok s q" "xr_status q = Prepared \<or> xr_status q = Approved"
  shows "request_ok s (q\<lparr>xr_status := Cancelled\<rparr>)"
    "request_ok s (q\<lparr>xr_status := Approved, xr_approved_hash := Some (xr_hash q), xr_approver := Some u\<rparr>)"
  using assms by (auto simp: request_ok_def granted_def)

lemma approve_kept:
  assumes "exec_lawful s"
  shows "exec_lawful (snd (approveTask auth ready rid s0 s)) \<and> exec_extends s (snd (approveTask auth ready rid s0 s))"
proof -
  let ?f = "\<lambda>q. q\<lparr>xr_status := Approved, xr_approved_hash := Some (xr_hash q), xr_approver := Some (se_user auth)\<rparr>"
  obtain b s' where e: "set_request (se_tenant auth) rid [Prepared] ?f s = (b, s')" by fastforce
  have "exec_lawful s' \<and> exec_extends s s'"
    by (rule set_request_kept[OF assms e]) (use request_status_changed(2) in \<open>auto simp: request_core_def\<close>)
  then show ?thesis using assms unfolding approveTask_def e by (auto split: option.split bool.split)
qed

lemma cancel_kept:
  assumes "exec_lawful s"
  shows "exec_lawful (snd (cancelTask auth ready rid s0 s)) \<and> exec_extends s (snd (cancelTask auth ready rid s0 s))"
proof -
  let ?f = "\<lambda>q. q\<lparr>xr_status := Cancelled\<rparr>"
  obtain b s' where e: "set_request (se_tenant auth) rid [Prepared, Approved] ?f s = (b, s')" by fastforce
  have "exec_lawful s' \<and> exec_extends s s'"
    by (rule set_request_kept[OF assms e]) (use request_status_changed(1) in \<open>auto simp: request_core_def\<close>)
  then show ?thesis using assms unfolding cancelTask_def e by (auto split: option.split bool.split)
qed

lemma insert_permit_kept:
  assumes "exec_lawful s" "insert_permit p s = Some s'" "\<not> xp_used p"
  shows "exec_lawful s' \<and> exec_extends s s'"
proof -
  let ?n = "s\<lparr>xd_permits := xd_permits s @ [p]\<rparr>"
  have e: "\<forall>x \<in> set (xd_permits s). xp_id x \<noteq> xp_id p \<and> xp_request x \<noteq> xp_request p"
    "s' = audit_entry (xp_tenant p) ''AGENT_JIT_PERMIT_ISSUED'' (xp_id p) None ?n"
    using assms(2) unfolding insert_permit_def by (auto simp: list_ex_iff split: if_splits)
  have x: "exec_extends s ?n" by (simp add: exec_extends_def)
  have "keys_ok ?n" using assms(1) e(1) by (auto simp: exec_lawful_def keys_ok_def)
  moreover have "permit_ok ?n p" using assms(3) by (simp add: permit_ok_def)
  ultimately have "exec_lawful ?n" by (intro exec_frame[OF assms(1) x]) (use assms(1) in \<open>auto simp: exec_lawful_def\<close>)
  then show ?thesis using x e(2) by simp
qed

section \<open>Execution\<close>

lemma commit_effect:
  assumes "commit_execution auth q0 daily pid tid cid s = Some s'"
  obtains q p where "q \<in> set (xd_requests s)" "xr_id q = xr_id q0" "xr_tenant q = se_tenant auth" "executable auth daily (xr_grant q0) s q"
    "p \<in> set (xd_permits s)" "permit_good pid q s p" "grant_active (xr_tenant q) (xr_grant q) s"
    "\<not> effect_refused (new_task auth q0 tid) (new_receipt auth q0 tid cid (exec_now s)) s"
    "s' = audit_entry (se_tenant auth) ''AGENT_TASK_EXECUTED'' tid None
       (s\<lparr>xd_requests := update_where (\<lambda>q. xr_id q = xr_id q0 \<and> xr_tenant q = se_tenant auth \<and> executable auth daily (xr_grant q0) s q)
              (\<lambda>q. q\<lparr>xr_status := Executed, xr_permit := Some pid\<rparr>) (xd_requests s),
          xd_permits := update_where (permit_good pid q s) (\<lambda>p. p\<lparr>xp_used := True\<rparr>) (xd_permits s),
          xd_tasks := xd_tasks s @ [new_task auth q0 tid], xd_receipts := xd_receipts s @ [new_receipt auth q0 tid cid (exec_now s)]\<rparr>)"
proof -
  let ?hit = "\<lambda>q. xr_id q = xr_id q0 \<and> xr_tenant q = se_tenant auth \<and> executable auth daily (xr_grant q0) s q"
  obtain q where q: "find ?hit (xd_requests s) = Some q"
    using assms unfolding commit_execution_def Let_def by (cases "find ?hit (xd_requests s)") simp_all
  have c: "list_ex (permit_good pid q s) (xd_permits s)" "grant_active (xr_tenant q) (xr_grant q) s"
    "\<not> effect_refused (new_task auth q0 tid) (new_receipt auth q0 tid cid (exec_now s)) s"
    "s' = audit_entry (se_tenant auth) ''AGENT_TASK_EXECUTED'' tid None
       (s\<lparr>xd_requests := update_where ?hit (\<lambda>q. q\<lparr>xr_status := Executed, xr_permit := Some pid\<rparr>) (xd_requests s),
          xd_permits := update_where (permit_good pid q s) (\<lambda>p. p\<lparr>xp_used := True\<rparr>) (xd_permits s),
          xd_tasks := xd_tasks s @ [new_task auth q0 tid], xd_receipts := xd_receipts s @ [new_receipt auth q0 tid cid (exec_now s)]\<rparr>)"
    using assms unfolding commit_execution_def Let_def q option.case by (simp_all only: if_split_eq1 option.inject option.distinct de_Morgan_disj not_not simp_thms)
  have "q \<in> set (xd_requests s) \<and> ?hit q" using q find_filterD by (metis (mono_tags, lifting) find_Some_iff nth_mem)
  moreover obtain p where "p \<in> set (xd_permits s)" "permit_good pid q s p" using c(1) by (auto simp: list_ex_iff)
  ultimately show ?thesis using that c(2-4) by blast
qed

text \<open>The request that is written is the one that was read.\<close>

lemma same_row:
  assumes "exec_extends s0 s" "exec_lawful s" "q0 \<in> set (xd_requests s0)" "q \<in> set (xd_requests s)" "xr_id q = xr_id q0"
  shows "same_request q0 q"
proof -
  obtain q' where q': "q' \<in> set (xd_requests s)" "same_request q0 q'" using extends_parts(3)[OF assms(1,3)] by blast
  have "distinct (map xr_id (xd_requests s))" using assms(2) by (simp add: exec_lawful_def keys_ok_def)
  from key_unique[OF this q'(1) assms(4)] have "q' = q" using same_request_fields(1)[OF q'(2)] assms(5) by simp
  then show ?thesis using q'(2) by simp
qed

lemma updated_row: "x \<in> set xs \<Longrightarrow> p x \<Longrightarrow> f x \<in> set (update_where p f xs)"
  by (auto simp: update_where_def)

lemma new_task_fields [simp]:
  "xt_id (new_task auth q tid) = tid" "xt_tenant (new_task auth q tid) = se_tenant auth" "xt_request (new_task auth q tid) = xr_id q"
  "xt_intent (new_task auth q tid) = xr_intent q" "xt_grant (new_task auth q tid) = xr_grant q"
  "xc_id (new_receipt auth q tid cid t) = cid" "xc_tenant (new_receipt auth q tid cid t) = se_tenant auth" "xc_intent (new_receipt auth q tid cid t) = xr_intent q"
  "xc_grant (new_receipt auth q tid cid t) = xr_grant q" "xc_hash (new_receipt auth q tid cid t) = xr_hash q" "xc_task (new_receipt auth q tid cid t) = tid"
  "xc_at (new_receipt auth q tid cid t) = t"
  by (simp_all add: new_task_def new_receipt_def)

lemma commit_kept:
  assumes L: "exec_lawful s" and q0: "exec_extends s0 s" "q0 \<in> set (xd_requests s0)" and ex: "commit_execution auth q0 daily pid tid cid s = Some s'"
  shows "exec_lawful s' \<and> exec_extends s s'"
  using ex
proof (rule commit_effect)
  let ?hit = "\<lambda>q. xr_id q = xr_id q0 \<and> xr_tenant q = se_tenant auth \<and> executable auth daily (xr_grant q0) s q"
  let ?f = "\<lambda>q. q\<lparr>xr_status := Executed, xr_permit := Some pid\<rparr>" and ?g = "\<lambda>p. p\<lparr>xp_used := True\<rparr>"
  let ?t = "new_task auth q0 tid" and ?c = "new_receipt auth q0 tid cid (exec_now s)"
  fix q p
  let ?n = "s\<lparr>xd_requests := update_where ?hit ?f (xd_requests s), xd_permits := update_where (permit_good pid q s) ?g (xd_permits s),
    xd_tasks := xd_tasks s @ [?t], xd_receipts := xd_receipts s @ [?c]\<rparr>"
  assume q: "q \<in> set (xd_requests s)" "xr_id q = xr_id q0" "xr_tenant q = se_tenant auth" "executable auth daily (xr_grant q0) s q"
    and p: "p \<in> set (xd_permits s)" "permit_good pid q s p" and free: "\<not> effect_refused ?t ?c s"
    and s': "s' = audit_entry (se_tenant auth) ''AGENT_TASK_EXECUTED'' tid None ?n"
  have hit: "xr_status x = Approved \<and> xr_approved_hash x = Some (xr_hash x)" if "?hit x" for x using that by (simp add: executable_def approved_for_def)
  have same0: "same_request q0 q" by (rule same_row[OF q0(1) L q0(2) q(1,2)])
  have upd: "same_request x (?f x)" if "?hit x" for x using hit[OF that] by (simp add: same_request_def request_core_def request_closed_def)
  have x: "exec_extends s ?n" by (simp add: exec_extends_def kept_update upd same_permit_def permit_core_def)
  have keys: "keys_ok ?n" using L free by (auto simp: exec_lawful_def keys_ok_def map_update_where effect_refused_def list_ex_iff)
  have used: "?g p \<in> set (xd_permits ?n)" using updated_row[OF p(1), of "permit_good pid q s"] p(2) by simp
  have done_q: "?f q \<in> set (xd_requests ?n)" using updated_row[OF q(1), of ?hit] q by simp
  have F: "xr_intent q = xr_intent q0" "xr_grant q = xr_grant q0" "xr_hash q = xr_hash q0" using same_request_fields[OF same0] by simp_all
  have "granted ?n (?f q)" using granted_grows[OF x _ upd] L q by (auto simp: exec_lawful_def request_ok_def)
  moreover have "permitted_by ?n (?f q)"
    unfolding permitted_by_def using used p(2) by (intro bexI[of _ "?g p"]) (simp_all add: permit_good_def)
  moreover have "task_of (?f q) ?t" using q F by (simp add: task_of_def)
  moreover have "receipted ?n (?f q) ?t" using F by (auto simp: receipted_def)
  ultimately have ok: "request_ok ?n (?f q)" using hit[of q] q by (auto simp: request_ok_def)
  have R: "y \<in> set (xd_requests s) \<or> request_ok ?n y" if y: "y \<in> set (xd_requests ?n)" for y
  proof -
    have "y \<in> set (update_where ?hit ?f (xd_requests s))" using y by simp
    from update_row[OF this] obtain z where z: "z \<in> set (xd_requests s)" "y = (if ?hit z then ?f z else z)" by blast
    show ?thesis
    proof (cases "?hit z")
      case True
      have "z = q" using key_unique[OF _ z(1) q(1), of xr_id] L True q(2) by (simp add: exec_lawful_def keys_ok_def)
      moreover have "y = ?f z" unfolding z(2) using True by (rule if_P)
      ultimately show ?thesis using ok by simp
    next
      case False
      then have "y = z" unfolding z(2) by (rule if_not_P)
      then show ?thesis using z(1) by simp
    qed
  qed
  have P: "y \<in> set (xd_permits s) \<or> permit_ok ?n y" if y: "y \<in> set (xd_permits ?n)" for y
  proof -
    have "y \<in> set (update_where (permit_good pid q s) ?g (xd_permits s))" using y by simp
    from update_row[OF this] obtain z where z: "z \<in> set (xd_permits s)" "y = (if permit_good pid q s z then ?g z else z)" by blast
    show ?thesis
    proof (cases "permit_good pid q s z")
      case True
      then have "y = ?g z" unfolding z(2) by (rule if_P)
      then have "permit_ok ?n y" unfolding permit_ok_def using done_q True by (intro impI bexI[of _ "?f q"]) (simp_all add: permit_good_def)
      then show ?thesis by simp
    next
      case False
      then have "y = z" unfolding z(2) by (rule if_not_P)
      then show ?thesis using z(1) by simp
    qed
  qed
  have T: "task_ok ?n ?t" unfolding task_ok_def using done_q q F by (intro bexI[of _ "?f q"]) (simp_all add: task_of_def)
  have C: "receipt_ok ?n ?c" by (simp add: receipt_ok_def)
  have "exec_lawful ?n"
    by (rule exec_frame[OF L x _ keys]) (use L R P T C in \<open>auto simp: exec_lawful_def simp del: update_where_simps\<close>)
  then show ?thesis using x s' by simp
qed

section \<open>The handlers\<close>

definition kept_lawful :: "exec_db \<Rightarrow> exec_db \<Rightarrow> bool" where
  "kept_lawful s s' \<longleftrightarrow> exec_lawful s' \<and> exec_extends s s'"

lemma kept_lawful_same [simp]: "exec_lawful s \<Longrightarrow> kept_lawful s s" "kept_lawful s (audit_entry t k e p s') = kept_lawful s s'"
  by (simp_all add: kept_lawful_def)

lemma grant_request_kept:
  assumes "exec_lawful s"
  shows "kept_lawful s (snd (createExecutionGrant auth ready up body gid s0 s))"
proof -
  have "kept_lawful s s'" if "insert_grant g s = Some s'" for g s' using insert_grant_kept[OF assms that] by (simp add: kept_lawful_def)
  then show ?thesis using assms unfolding createExecutionGrant_def Let_def by (auto split: sum.splits option.splits)
qed

lemma permit_request_kept:
  assumes "exec_lawful s"
  shows "kept_lawful s (snd (issueJitPermit env auth email ready up rid pid s0 s))"
proof -
  have "kept_lawful s s'" if "insert_permit p s = Some s'" "\<not> xp_used p" for p s' using insert_permit_kept[OF assms that] by (simp add: kept_lawful_def)
  then show ?thesis using assms unfolding issueJitPermit_def Let_def by (auto split: option.splits)
qed

lemma execution_row_request: "execution_row t rid s = Some (q, d) \<Longrightarrow> q \<in> set (xd_requests s) \<and> xr_id q = rid \<and> xr_tenant q = t \<and>
    backed_by (xd_auth s) t (xr_delegation q) d"
  unfolding execution_row_def request_at_def delegation_at_def backed_by_def
  by (auto split: option.splits if_splits dest!: find_SomeD)

lemma passed_gate: "P x \<Longrightarrow> (\<not> b \<Longrightarrow> P y) \<Longrightarrow> P (if b then x else y)"
  by simp

text \<open>What an execution has passed by the state it read, and what it may come to.\<close>

definition execution_gates :: "date_parse \<Rightarrow> jsval \<Rightarrow> session \<Rightarrow> string \<Rightarrow> bool \<Rightarrow> bool \<Rightarrow> string \<Rightarrow> task_request_row \<Rightarrow> delegation_row \<Rightarrow> exec_db \<Rightarrow> bool" where
  "execution_gates dp env auth email ready up pid q d s0 \<longleftrightarrow> roleAllowed auth [''owner''] \<and> ready \<and> authorityPermitsExecution (thebe_authority up s0) \<and>
     xr_status q = Approved \<and> xr_approved_hash q = Some (xr_hash q) \<and> dr_user d = se_user auth \<and>
     grant_active (se_tenant auth) (xr_grant q) s0 \<and> permit_fits auth q pid s0 \<and>
     v_allowed (execution_guard dp env auth email True q d s0) \<and> v_executionAllowed (execution_guard dp env auth email True q d s0)"

definition execute_outcome where
  "execute_outcome dp env auth email ready up rid pid tid cid s0 s r \<longleftrightarrow>
     (\<exists>c e. fst r = Exec_Error c e) \<and> (snd r = s \<or> (\<exists>t k e. snd r = audit_entry t k e None s)) \<or>
     (\<exists>q d. execution_row (se_tenant auth) rid s0 = Some (q, d) \<and> execution_gates dp env auth email ready up pid q d s0 \<and>
        commit_execution auth q (dr_daily d) pid tid cid s = Some (snd r) \<and> fst r = Task_Executed (new_task auth q tid) cid)"

lemma refused_outcome:
  "execute_outcome dp env auth email ready up rid pid tid cid s0 s (Exec_Error c e, s)"
  "execute_outcome dp env auth email ready up rid pid tid cid s0 s (Exec_Error c e, audit_entry t k x None s)"
  by (auto simp: execute_outcome_def)

lemma committed_outcome:
  assumes "execution_row (se_tenant auth) rid s0 = Some (q, d)" "execution_gates dp env auth email ready up pid q d s0"
  shows "execute_outcome dp env auth email ready up rid pid tid cid s0 s
    (case commit_execution auth q (dr_daily d) pid tid cid s of Some s' \<Rightarrow> (Task_Executed (new_task auth q tid) cid, s') | None \<Rightarrow> (Exec_Error c e, s))"
  using assms by (cases "commit_execution auth q (dr_daily d) pid tid cid s") (simp_all add: execute_outcome_def)

lemma execute_effect:
  "execute_outcome dp env auth email ready up rid (clean permitId 120) tid cid s0 s (executeTask dp env auth email ready up rid permitId tid cid s0 s)"
  (is "?Q (executeTask dp env auth email ready up rid permitId tid cid s0 s)")
proof (cases "execution_row (se_tenant auth) rid s0")
  case None
  show ?thesis unfolding executeTask_def Let_def None option.case contained_def by (intro both_branches[where P = ?Q] refused_outcome)
next
  case (Some qd)
  obtain q d where qd: "qd = (q, d)" by (cases qd)
  note row = Some[unfolded qd]
  show ?thesis unfolding executeTask_def Let_def row option.case prod.case contained_def
    apply ((rule passed_gate[where P = ?Q], rule refused_outcome)+)
    apply (rule committed_outcome[OF row])
    apply (simp add: execution_gates_def)
    done
qed

lemma execute_state:
  assumes "s' = snd (executeTask dp env auth email ready up rid permitId tid cid s0 s)"
  shows "(s' = s \<or> (\<exists>t k e. s' = audit_entry t k e None s)) \<or>
    (\<exists>q d. execution_row (se_tenant auth) rid s0 = Some (q, d) \<and> commit_execution auth q (dr_daily d) (clean permitId 120) tid cid s = Some s')"
  using execute_effect[of dp env auth email ready up rid permitId tid cid s0 s] unfolding execute_outcome_def assms by blast

lemma execute_kept:
  assumes "exec_lawful s" "exec_extends s0 s"
  shows "kept_lawful s (snd (executeTask dp env auth email ready up rid permitId tid cid s0 s))"
  using execute_state[OF refl, of dp env auth email ready up rid permitId tid cid s0 s]
proof (elim disjE exE conjE)
  fix q d
  assume r: "execution_row (se_tenant auth) rid s0 = Some (q, d)"
    and c: "commit_execution auth q (dr_daily d) (clean permitId 120) tid cid s = Some (snd (executeTask dp env auth email ready up rid permitId tid cid s0 s))"
  show ?thesis using commit_kept[OF assms(1,2) conjunct1[OF execution_row_request[OF r]] c] by (simp add: kept_lawful_def)
qed (use assms(1) in simp_all)

lemma loaded_grant:
  assumes "loadExecutionGrant t did s = Some (r, gid)"
  shows "backed_by (xd_auth s) t did r" "dr_action r = ACTION_KEY"
  using assms eligible_now_row unfolding loadExecutionGrant_def by (auto simp: eligible_delegation_def split: option.splits)

lemma write_request_kept:
  assumes "exec_lawful s" "exec_extends s0 s" "loadExecutionGrant (se_tenant auth) did s0 = Some (r, gid)"
  shows "kept_lawful s (snd (write_request auth p run proposal did gid key hash source iid rid s))"
proof -
  let ?i = "prepared_intent auth iid run proposal did hash key (exec_now s)"
  obtain r' where r': "backed_by (xd_auth s) (se_tenant auth) did r'" "same_grant r r'"
    using extends_backed[OF extends_parts(1)[OF assms(2)] loaded_grant(1)[OF assms(3)]] .
  have "lawful_intent (xd_auth s) ?i"
    using r'(1) same_grant_fields[OF r'(2)] loaded_grant(2)[OF assms(3)] by (auto simp: lawful_intent_def prepared_intent_def actionStatus_def)
  then have "kept_lawful s s'"
    if "insert_request ?i \<lparr>xr_id = rid, xr_tenant = se_tenant auth, xr_intent = iid, xr_delegation = did, xr_grant = gid, xr_user = se_user auth, xr_payload = p, xr_hash = hash,
              xr_status = Prepared, xr_approved_hash = None, xr_approver = None, xr_permit = None\<rparr> (map_option fst source) s = Some s'" for s'
    using insert_request_kept[OF assms(1) that] by (simp add: kept_lawful_def prepared_intent_def)
  then show ?thesis using assms(1) unfolding write_request_def Let_def by (auto split: option.splits)
qed

lemma prepare_kept:
  assumes "exec_lawful s" "exec_extends s0 s"
  shows "kept_lawful s (snd (prepareTask dp sha auth ready header body source iid rid s0 s))"
  using assms(1) write_request_kept[OF assms] unfolding prepareTask_def Let_def
  by (auto split: sum.splits option.splits)

lemma exec_step_kept:
  assumes "exec_step dp sha s0 s s'" "exec_lawful s0" "exec_extends s0 s" "exec_lawful s"
  shows "kept_lawful s s'"
  using assms(1)
proof cases
  case (do_authority a)
  have "store_lawful a \<and> store_extends (xd_auth s) a"
    using authority_step_lawful[OF do_authority(2)] assms(2-4) by (simp add: exec_lawful_def exec_extends_def)
  then show ?thesis using auth_changed[OF assms(4)] do_authority(1) by (simp add: kept_lawful_def)
next
  case (do_outside r ow mb)
  have "exec_extends s s'" unfolding do_outside by (simp add: exec_extends_def)
  moreover have "exec_lawful s'" using assms(4) unfolding do_outside
    by (simp add: exec_lawful_def keys_ok_def grant_ok_def request_ok_def granted_def permitted_by_def receipted_def task_ok_def permit_ok_def receipt_ok_def cong: request_status.case_cong)
  ultimately show ?thesis by (simp add: kept_lawful_def)
qed (use assms(3,4) grant_request_kept revoke_kept prepare_kept approve_kept cancel_kept permit_request_kept execute_kept in \<open>simp_all add: kept_lawful_def\<close>)

lemma exec_run_lawful:
  assumes "exec_run dp sha ss"
  shows "(\<forall>s \<in> set ss. exec_lawful s) \<and> (\<forall>s0 \<in> set ss. exec_extends s0 (hd ss))"
  using assms
proof (induction rule: exec_run.induct)
  case (exec_start s)
  then show ?case using empty_lawful by (simp add: no_work_def exec_lawful_def keys_ok_def)
next
  case (exec_more s ss s0 s')
  have "exec_lawful s0" "exec_extends s0 s" "exec_lawful s" using exec_more.IH exec_more.hyps(2) by auto
  from exec_step_kept[OF exec_more.hyps(3) this] show ?case
    using exec_more.IH exec_extends_trans by (auto simp: kept_lawful_def)
qed

section \<open>The daily limit\<close>

definition executions_on :: "string \<Rightarrow> string \<Rightarrow> int \<Rightarrow> exec_db \<Rightarrow> nat" where
  "executions_on tenant gid day s = length (filter (\<lambda>c. xc_tenant c = tenant \<and> xc_grant c = gid \<and> xc_at c div 86400000 = day) (xd_receipts s))"

definition exec_daily :: "exec_db \<Rightarrow> bool" where
  "exec_daily s \<longleftrightarrow> (\<forall>g \<in> set (xd_grants s). \<forall>d m day. backed_by (xd_auth s) (xg_tenant g) (xg_delegation g) d \<longrightarrow> dr_daily d = Some m \<longrightarrow>
     int (executions_on (xg_tenant g) (xg_id g) day s) \<le> m)"

lemma today_is_on:
  assumes "exec_lawful s"
  shows "executions_today t gid s = executions_on t gid (exec_now s div 86400000) s"
proof -
  have "xc_at c div 86400000 \<ge> exec_now s div 86400000 \<longleftrightarrow> xc_at c div 86400000 = exec_now s div 86400000" if "c \<in> set (xd_receipts s)" for c
  proof -
    have "xc_at c \<le> exec_now s" using assms that by (auto simp: exec_lawful_def receipt_ok_def)
    then show ?thesis using zdiv_mono1[of "xc_at c" "exec_now s" 86400000] by force
  qed
  then show ?thesis unfolding executions_today_def executions_on_def by (intro arg_cong[where f = length] filter_cong) auto
qed

lemma grant_unique: "exec_lawful s \<Longrightarrow> g \<in> set (xd_grants s) \<Longrightarrow> g' \<in> set (xd_grants s) \<Longrightarrow> xg_id g = xg_id g' \<Longrightarrow> g = g'"
  using key_unique[of xg_id] unfolding exec_lawful_def keys_ok_def by blast

lemma backed_unique: "exec_lawful s \<Longrightarrow> backed_by (xd_auth s) t did d \<Longrightarrow> backed_by (xd_auth s) t' did d' \<Longrightarrow> d = d'"
  using key_unique[of dr_id] unfolding exec_lawful_def store_lawful_def backed_by_def by metis

lemma receipt_grant:
  assumes "exec_lawful s" "c \<in> set (xd_receipts s)"
  shows "\<exists>g \<in> set (xd_grants s). xg_id g = xc_grant c"
proof -
  obtain t where t: "t \<in> set (xd_tasks s)" "xt_grant t = xc_grant c" using assms by (auto simp: exec_lawful_def receipt_ok_def)
  then obtain q where "q \<in> set (xd_requests s)" "task_of q t" using assms(1) by (auto simp: exec_lawful_def task_ok_def)
  then have "granted s q" "xr_grant q = xc_grant c" using assms(1) t(2) by (auto simp: exec_lawful_def request_ok_def task_of_def)
  then show ?thesis by (auto simp: granted_def)
qed

text \<open>What a later state says of a grant and its limit, the earlier state had kept.\<close>

lemma daily_before:
  assumes L: "exec_lawful s" "exec_lawful s'" and x: "exec_extends s s'" and D: "exec_daily s"
    and g: "g \<in> set (xd_grants s')" "backed_by (xd_auth s') (xg_tenant g) (xg_delegation g) d" "dr_daily d = Some m"
  shows "int (executions_on (xg_tenant g) (xg_id g) day s) \<le> m"
proof (cases "\<exists>c \<in> set (xd_receipts s). xc_grant c = xg_id g")
  case True
  then obtain g0 where g0: "g0 \<in> set (xd_grants s)" "xg_id g0 = xg_id g" using receipt_grant[OF L(1)] by metis
  obtain g1 where g1: "g1 \<in> set (xd_grants s')" "same_execution_grant g0 g1" using extends_parts(2)[OF x g0(1)] by blast
  have "g1 = g" using grant_unique[OF L(2) g1(1) g(1)] same_execution_grant_fields(1)[OF g1(2)] g0(2) by simp
  then have same: "xg_id g0 = xg_id g" "xg_tenant g0 = xg_tenant g" "xg_delegation g0 = xg_delegation g" using same_execution_grant_fields[OF g1(2)] by simp_all
  obtain r where r: "backed_by (xd_auth s) (xg_tenant g0) (xg_delegation g0) r" using L(1) g0(1) by (auto simp: exec_lawful_def grant_ok_def)
  obtain r' where r': "backed_by (xd_auth s') (xg_tenant g0) (xg_delegation g0) r'" "same_grant r r'" using extends_backed[OF extends_parts(1)[OF x] r] .
  have "r' = d" using backed_unique[OF L(2)] r'(1) g(2) same by metis
  then have "dr_daily r = Some m" using same_grant_fields(5)[OF r'(2)] g(3) by simp
  then show ?thesis using D g0(1) r same unfolding exec_daily_def by metis
next
  case False
  then have "executions_on (xg_tenant g) (xg_id g) day s = 0" by (simp add: executions_on_def filter_empty_conv)
  moreover have "0 \<le> m" using L(2) g(2,3) by (auto simp: exec_lawful_def store_lawful_def backed_by_def lawful_delegation_def split: option.splits)
  ultimately show ?thesis by simp
qed

lemma same_receipts_daily:
  assumes "exec_lawful s" "exec_lawful s'" "exec_extends s s'" "exec_daily s" "xd_receipts s' = xd_receipts s"
  shows "exec_daily s'"
proof -
  have "executions_on t gid day s' = executions_on t gid day s" for t gid day by (simp add: executions_on_def assms(5))
  then show ?thesis using daily_before[OF assms(1-4)] unfolding exec_daily_def by simp
qed

lemma commit_daily:
  assumes L: "exec_lawful s" "exec_lawful s'" and x: "exec_extends s0 s" "exec_extends s s'" and D: "exec_daily s"
    and r: "execution_row (se_tenant auth) rid s0 = Some (q0, d0)" and ex: "commit_execution auth q0 (dr_daily d0) pid tid cid s = Some s'"
  shows "exec_daily s'"
  using ex
proof (rule commit_effect)
  note R = execution_row_request[OF r]
  fix q p
  assume q: "q \<in> set (xd_requests s)" "xr_id q = xr_id q0" "executable auth (dr_daily d0) (xr_grant q0) s q"
    and s': "s' = audit_entry (se_tenant auth) ''AGENT_TASK_EXECUTED'' tid None
       (s\<lparr>xd_requests := update_where (\<lambda>q. xr_id q = xr_id q0 \<and> xr_tenant q = se_tenant auth \<and> executable auth (dr_daily d0) (xr_grant q0) s q)
              (\<lambda>q. q\<lparr>xr_status := Executed, xr_permit := Some pid\<rparr>) (xd_requests s),
          xd_permits := update_where (permit_good pid q s) (\<lambda>p. p\<lparr>xp_used := True\<rparr>) (xd_permits s),
          xd_tasks := xd_tasks s @ [new_task auth q0 tid], xd_receipts := xd_receipts s @ [new_receipt auth q0 tid cid (exec_now s)]\<rparr>)"
  have count: "executions_on t gid day s' = executions_on t gid day s + (if t = se_tenant auth \<and> gid = xr_grant q0 \<and> day = exec_now s div 86400000 then 1 else 0)" for t gid day
    unfolding executions_on_def s' by auto
  have same: "same_request q0 q" by (rule same_row[OF x(1) L(1) _ q(1,2)]) (use R in simp)
  have "int (executions_on (xg_tenant g) (xg_id g) day s') \<le> m"
    if g: "g \<in> set (xd_grants s')" "backed_by (xd_auth s') (xg_tenant g) (xg_delegation g) d" "dr_daily d = Some m" for g d m day
  proof (cases "xg_tenant g = se_tenant auth \<and> xg_id g = xr_grant q0 \<and> day = exec_now s div 86400000")
    case True
    have "granted s q" using L(1) q(1) by (auto simp: exec_lawful_def request_ok_def)
    then obtain h where h: "h \<in> set (xd_grants s)" "xg_id h = xr_grant q0" "xg_delegation h = xr_delegation q0"
      using same_request_fields[OF same] by (auto simp: granted_def)
    obtain h' where h': "h' \<in> set (xd_grants s')" "same_execution_grant h h'" using extends_parts(2)[OF x(2) h(1)] by blast
    have "h' = g" using grant_unique[OF L(2) h'(1) g(1)] same_execution_grant_fields(1)[OF h'(2)] h(2) True by simp
    then have del: "xg_delegation g = xr_delegation q0" using same_execution_grant_fields(3)[OF h'(2)] h(3) by simp
    obtain e where e: "backed_by (xd_auth s') (se_tenant auth) (xr_delegation q0) e" "same_grant d0 e"
      using extends_backed[OF extends_parts(1)[OF exec_extends_trans[OF x]]] R by blast
    have "e = d" using backed_unique[OF L(2) e(1)] g(2) del by metis
    then have "dr_daily d0 = Some m" using same_grant_fields(5)[OF e(2)] g(3) by simp
    then have "int (executions_today (se_tenant auth) (xr_grant q0) s) < m" using q(3) by (simp add: executable_def)
    then show ?thesis using today_is_on[OF L(1)] count True by simp
  next
    case False
    then have "executions_on (xg_tenant g) (xg_id g) day s' = executions_on (xg_tenant g) (xg_id g) day s" unfolding count by auto
    then show ?thesis using daily_before[OF L x(2) D g] by simp
  qed
  then show ?thesis unfolding exec_daily_def by blast
qed

end
