(* ===== verification/TaskPromises.thy ===== *)
theory TaskPromises imports TaskTrail begin

text \<open>
  The properties of the execution of tasks that an owner relies on, over the histories of \<open>TaskTrail\<close>, and a history that
  reaches an executed task.
\<close>

section \<open>Steps that execute nothing\<close>

definition uneventful :: "exec_db \<Rightarrow> exec_db \<Rightarrow> bool" where
  "uneventful s s' \<longleftrightarrow> xd_receipts s' = xd_receipts s \<and> (\<forall>p \<in> set (xd_permits s'). xp_used p \<longrightarrow> p \<in> set (xd_permits s))"

lemma uneventful_same [simp]: "uneventful s s" "uneventful s (audit_entry t k e p s') = uneventful s s'"
  "uneventful s (s\<lparr>xd_grants := gs\<rparr>)" "uneventful s (s\<lparr>xd_requests := qs\<rparr>)" "uneventful s (s\<lparr>xd_auth := a\<rparr>)"
  "uneventful s (s\<lparr>xd_auth := a, xd_requests := qs\<rparr>)" "uneventful s (s\<lparr>xd_registry := r, xd_owners := ow, xd_members := mb\<rparr>)"
  by (simp_all add: uneventful_def)

lemma grant_uneventful: "uneventful s (snd (createExecutionGrant auth ready up body gid s0 s))"
proof -
  have "uneventful s s'" if "insert_grant g s = Some s'" for g s'
    using that unfolding insert_grant_def by (auto split: if_splits)
  then show ?thesis unfolding createExecutionGrant_def Let_def by (auto split: sum.splits option.splits)
qed

lemma revoke_uneventful: "uneventful s (snd (revokeExecutionGrant auth ready gid s))"
  unfolding revokeExecutionGrant_def Let_def by simp

lemma write_uneventful: "uneventful s (snd (write_request auth p run proposal did gid key hash source iid rid s))"
proof -
  have "uneventful s s'" if "insert_request i q x s = Some s'" for i q x s'
    using that unfolding insert_request_def by (auto split: if_splits)
  then show ?thesis unfolding write_request_def Let_def by (auto split: option.splits)
qed

lemma prepare_uneventful: "uneventful s (snd (prepareTask dp sha auth ready header body source iid rid s0 s))"
  using write_uneventful unfolding prepareTask_def Let_def by (auto split: sum.splits option.splits)

lemma set_request_uneventful: "set_request t rid fs f s = (b, s') \<Longrightarrow> uneventful s s'"
  by (auto simp: set_request_def Let_def)

lemma approve_uneventful: "uneventful s (snd (approveTask auth ready rid s0 s))"
  using set_request_uneventful unfolding approveTask_def by (auto split: option.split prod.split bool.split)

lemma cancel_uneventful: "uneventful s (snd (cancelTask auth ready rid s0 s))"
  using set_request_uneventful unfolding cancelTask_def by (auto split: option.split prod.split bool.split)

lemma permit_uneventful: "uneventful s (snd (issueJitPermit env auth email ready up rid pid s0 s))"
proof -
  have "uneventful s s'" if "insert_permit p s = Some s'" "\<not> xp_used p" for p s'
    using that unfolding insert_permit_def by (auto simp: uneventful_def split: if_splits)
  then show ?thesis unfolding issueJitPermit_def Let_def by (auto split: option.splits)
qed

lemma exec_step_event:
  assumes "exec_step dp sha s0 s s'"
  shows "uneventful s s' \<or> (\<exists>auth rid q d pid tid cid. execution_row (se_tenant auth) rid s0 = Some (q, d) \<and>
    commit_execution auth q (dr_daily d) pid tid cid s = Some s')"
  using assms
proof cases
  case (do_execute env auth email ready up rid permitId tid cid)
  from execute_state[OF this] show ?thesis
  proof (elim disjE exE conjE)
    fix q d
    assume "execution_row (se_tenant auth) rid s0 = Some (q, d)" "commit_execution auth q (dr_daily d) (clean permitId 120) tid cid s = Some s'"
    then show ?thesis by blast
  qed simp_all
qed (simp_all add: grant_uneventful revoke_uneventful prepare_uneventful approve_uneventful cancel_uneventful permit_uneventful)

section \<open>The limit and the permits over a history\<close>

lemma exec_run_daily:
  assumes "exec_run dp sha ss"
  shows "exec_daily (hd ss)"
  using assms
proof (induction rule: exec_run.induct)
  case (exec_start s)
  then show ?case by (simp add: exec_daily_def no_work_def)
next
  case (exec_more s ss s0 s')
  have L: "exec_lawful s" "exec_extends s0 s" using exec_run_lawful[OF exec_more.hyps(1)] exec_more.hyps(2) by auto
  have L': "exec_lawful s'" "exec_extends s s'"
    using exec_run_lawful[OF exec_run.exec_more[OF exec_more.hyps]] by simp_all
  from exec_step_event[OF exec_more.hyps(3)] show ?case
  proof (elim disjE exE conjE)
    assume "uneventful s s'"
    then show ?case using same_receipts_daily[OF L(1) L' ] exec_more.IH by (simp add: uneventful_def)
  next
    fix auth rid q d pid tid cid
    assume "execution_row (se_tenant auth) rid s0 = Some (q, d)" "commit_execution auth q (dr_daily d) pid tid cid s = Some s'"
    from commit_daily[OF L(1) L'(1) L(2) L'(2) _ this] show ?case using exec_more.IH by simp
  qed
qed

text \<open>A permit that becomes used had not lapsed.\<close>

definition lapsed :: "exec_db \<Rightarrow> permit_row \<Rightarrow> bool" where
  "lapsed s p \<longleftrightarrow> \<not> xp_used p \<and> \<not> unexpired (exec_now s) p"

lemma step_uses_live_permit:
  assumes "exec_step dp sha s0 s s'" "p' \<in> set (xd_permits s')" "xp_used p'"
  shows "\<exists>p \<in> set (xd_permits s). xp_id p = xp_id p' \<and> \<not> lapsed s p"
  using exec_step_event[OF assms(1)]
proof (elim disjE exE conjE)
  assume "uneventful s s'"
  then show ?thesis using assms(2,3) unfolding uneventful_def lapsed_def by blast
next
  fix auth rid q0 d pid tid cid
  assume "commit_execution auth q0 (dr_daily d) pid tid cid s = Some s'"
  then show ?thesis
  proof (rule commit_effect)
    fix q p
    assume "s' = audit_entry (se_tenant auth) ''AGENT_TASK_EXECUTED'' tid None
       (s\<lparr>xd_requests := update_where (\<lambda>q. xr_id q = xr_id q0 \<and> xr_tenant q = se_tenant auth \<and> executable auth (dr_daily d) (xr_grant q0) s q)
              (\<lambda>q. q\<lparr>xr_status := Executed, xr_permit := Some pid\<rparr>) (xd_requests s),
          xd_permits := update_where (permit_good pid q s) (\<lambda>p. p\<lparr>xp_used := True\<rparr>) (xd_permits s),
          xd_tasks := xd_tasks s @ [new_task auth q0 tid], xd_receipts := xd_receipts s @ [new_receipt auth q0 tid cid (exec_now s)]\<rparr>)"
    then have "p' \<in> set (update_where (permit_good pid q s) (\<lambda>p. p\<lparr>xp_used := True\<rparr>) (xd_permits s))" using assms(2) by simp
    from update_row[OF this] obtain p0 where p0: "p0 \<in> set (xd_permits s)" "p' = (if permit_good pid q s p0 then p0\<lparr>xp_used := True\<rparr> else p0)" by blast
    then have "xp_id p0 = xp_id p'" "permit_good pid q s p0 \<or> xp_used p0" using assms(3) by (auto split: if_splits)
    then show ?thesis using p0(1) unfolding lapsed_def permit_good_def by blast
  qed
qed

lemma permit_unique: "exec_lawful s \<Longrightarrow> p \<in> set (xd_permits s) \<Longrightarrow> p' \<in> set (xd_permits s) \<Longrightarrow> xp_id p = xp_id p' \<Longrightarrow> p = p'"
  using key_unique[of xp_id] unfolding exec_lawful_def keys_ok_def by blast

lemma lapsed_stays:
  assumes "exec_run dp sha ss" "s0 \<in> set ss" "p \<in> set (xd_permits s0)" "lapsed s0 p"
    and "p' \<in> set (xd_permits (hd ss))" "xp_id p' = xp_id p"
  shows "\<not> xp_used p'"
  using assms
proof (induction arbitrary: p' rule: exec_run.induct)
  case (exec_start s)
  then show ?case by (simp add: no_work_def)
next
  case (exec_more s ss r s')
  note run = exec_run.exec_more[OF exec_more.hyps]
  show ?case
  proof (cases "s0 = s'")
    case True
    then have "p' = p" using permit_unique[of s' p' p] exec_run_lawful[OF run] exec_more.prems by simp
    then show ?thesis using exec_more.prems(3) by (simp add: lapsed_def)
  next
    case False
    then have s0: "s0 \<in> set (s # ss)" using exec_more.prems(1) by simp
    show ?thesis
    proof
      assume "xp_used p'"
      from step_uses_live_permit[OF exec_more.hyps(3) _ this] exec_more.prems(4)
      obtain x where x: "x \<in> set (xd_permits s)" "xp_id x = xp_id p'" "\<not> lapsed s x" by auto
      have L: "exec_lawful s" "exec_extends s0 s" using exec_run_lawful[OF exec_more.hyps(1)] s0 by auto
      obtain y where y: "y \<in> set (xd_permits s)" "same_permit p y" using extends_parts(4)[OF L(2) exec_more.prems(2)] by blast
      have "x = y" using permit_unique[OF L(1) x(1) y(1)] same_permit_fields(1)[OF y(2)] x(2) exec_more.prems(5) by simp
      then have "unexpired (exec_now s) p \<or> xp_used x" using x(3) same_permit_fields(7)[OF y(2)] by (auto simp: lapsed_def unexpired_def)
      moreover have "exec_now s0 div 1000 \<le> exec_now s div 1000" using zdiv_mono1[OF extends_parts(8)[OF L(2)], of 1000] by simp
      moreover have "\<not> xp_used x" using exec_more.IH[OF s0 exec_more.prems(2,3), of x] x(1,2) exec_more.prems(5) by simp
      ultimately show False using exec_more.prems(3) by (simp add: lapsed_def unexpired_def)
    qed
  qed
qed

section \<open>What an execution has passed\<close>

lemma executed_reply:
  assumes "fst (executeTask dp env auth email ready up rid permitId tid cid s0 s) = Task_Executed t c"
  obtains q d s' where "execution_row (se_tenant auth) rid s0 = Some (q, d)" "execution_gates dp env auth email ready up (clean permitId 120) q d s0"
    "commit_execution auth q (dr_daily d) (clean permitId 120) tid cid s = Some s'"
  using execute_effect[of dp env auth email ready up rid permitId tid cid s0 s] assms unfolding execute_outcome_def by auto

text \<open>A normalized grant keeps the status of its row.\<close>

lemma execution_authority_active:
  assumes "normalizeDelegation (execution_authority d) = Some g" "g_status g = ''active''"
  shows "dr_status d = ''active''"
  using assms by (cases "dr_status d = []") (auto simp: execution_authority_def normalizeDelegation_def row_value_def grant_value_def jor_def)

section \<open>Properties\<close>

text \<open>C14: whatever the requests and however they overlap, every task was created for one request that was executed, with the hash that its
  approver approved, on a used permit of that approver for that request, grant and hash, under a grant of the tenant for the delegation, for
  an evaluated intent with the same hash, and has a receipt; every executed request has its task and no request has two; no two permits are for one
  request; and later states keep every task, receipt, request and permit, but for a request's status while it is open and a permit's use.\<close>

theorem tasks_authorised_once:
  assumes "exec_run dp sha (s # ss)"
  shows "(\<forall>t \<in> set (xd_tasks s). \<exists>q \<in> set (xd_requests s). xr_status q = Executed \<and> task_of q t \<and> xr_approved_hash q = Some (xr_hash q) \<and>
        permitted_by s q \<and> granted s q \<and> receipted s q t) \<and>
      (\<forall>q \<in> set (xd_requests s). xr_status q = Executed \<longrightarrow> (\<exists>!t. t \<in> set (xd_tasks s) \<and> task_of q t)) \<and>
      distinct (map xt_request (xd_tasks s)) \<and> distinct (map xp_request (xd_permits s)) \<and> (\<forall>s0 \<in> set ss. exec_extends s0 s)"
proof -
  have L: "exec_lawful s" "\<forall>s0 \<in> set ss. exec_extends s0 s" using exec_run_lawful[OF assms] by simp_all
  have D: "distinct (map xt_request (xd_tasks s))" "distinct (map xp_request (xd_permits s))" using L(1) by (simp_all add: exec_lawful_def keys_ok_def)
  have one: "t = t'" if "t \<in> set (xd_tasks s)" "t' \<in> set (xd_tasks s)" "task_of q t" "task_of q t'" for q t t'
    using key_unique[OF D(1) that(1,2)] that(3,4) by (simp add: task_of_def)
  have X: "xr_approved_hash q = Some (xr_hash q) \<and> permitted_by s q \<and> granted s q \<and> (\<exists>t \<in> set (xd_tasks s). task_of q t \<and> receipted s q t)"
    if "q \<in> set (xd_requests s)" "xr_status q = Executed" for q
    using L(1) that by (auto simp: exec_lawful_def request_ok_def)
  have "\<exists>q \<in> set (xd_requests s). xr_status q = Executed \<and> task_of q t \<and> xr_approved_hash q = Some (xr_hash q) \<and> permitted_by s q \<and> granted s q \<and> receipted s q t"
    if t: "t \<in> set (xd_tasks s)" for t
  proof -
    obtain q where q: "q \<in> set (xd_requests s)" "xr_status q = Executed" "task_of q t" using L(1) t by (auto simp: exec_lawful_def task_ok_def)
    then show ?thesis using X[OF q(1,2)] one[OF t _ q(3)] by blast
  qed
  moreover have "\<exists>!t. t \<in> set (xd_tasks s) \<and> task_of q t" if "q \<in> set (xd_requests s)" "xr_status q = Executed" for q
    using X[OF that] one by blast
  ultimately show ?thesis using D L(2) by blast
qed

text \<open>C15: even when requests overlap, the tasks executed on one day under a grant never exceed the daily limit of its delegation: the
  statement that marks the request counts the receipts itself.\<close>

theorem execution_limit_kept:
  assumes "exec_run dp sha (s # ss)" "g \<in> set (xd_grants s)" "backed_by (xd_auth s) (xg_tenant g) (xg_delegation g) d" "dr_daily d = Some m"
  shows "int (executions_on (xg_tenant g) (xg_id g) day s) \<le> m"
  using exec_run_daily[OF assms(1)] assms(2-4) by (simp add: exec_daily_def)

text \<open>C16: a task is created only for an owner whose session may execute, with the switch off, the agent enabled, its budget within the limit and its
  authority active when the request is read, for a request that is approved for its very content, under a delegation that is active and that this owner
  approved. When it is written the request still stands approved, by this same owner and for its content; the user is still an owner, the agent is active,
  the grant is active, the daily limit is not reached, and there is a permit for this request, this owner, its content and its grant that is unused and has
  not lapsed.\<close>

theorem task_needs_every_gate:
  assumes "fst (executeTask dp env auth email ready up rid permitId tid cid s0 s) = Task_Executed t c"
  shows "roleAllowed auth [''owner''] \<and> ready \<and> authorityPermitsExecution (thebe_authority up s0) \<and> \<not> runtimeKillSwitch env \<and>
      runtimeAgentStatus env = ''enabled'' \<and> runtimeBudgetStatus env = ''within_limit'' \<and> sessionExecutionEnabled env auth email \<and>
      (\<exists>q d. execution_row (se_tenant auth) rid s0 = Some (q, d) \<and> xr_status q = Approved \<and> xr_approved_hash q = Some (xr_hash q) \<and>
         dr_status d = ''active'' \<and> dr_user d = se_user auth \<and>
         (se_tenant auth, se_user auth) \<in> set (xd_owners s) \<and> thebe_active s \<and> grant_active (se_tenant auth) (xr_grant q) s \<and>
         (\<forall>m. dr_daily d = Some m \<longrightarrow> int (executions_today (se_tenant auth) (xr_grant q) s) < m)) \<and>
      (\<exists>q1 \<in> set (xd_requests s). xr_id q1 = rid \<and> xr_tenant q1 = se_tenant auth \<and> approved_for (se_user auth) (xr_hash q1) q1 \<and> xr_permit q1 = None \<and>
         (\<exists>p \<in> set (xd_permits s). xp_id p = clean permitId 120 \<and> xp_tenant p = se_tenant auth \<and> xp_human p = se_user auth \<and> xp_request p = rid \<and>
            xp_hash p = xr_hash q1 \<and> xp_grant p = xr_grant q1 \<and> \<not> xp_used p \<and> unexpired (exec_now s) p))"
proof -
  from executed_reply[OF assms] obtain q d s' where r: "execution_row (se_tenant auth) rid s0 = Some (q, d)"
    "execution_gates dp env auth email ready up (clean permitId 120) q d s0" "commit_execution auth q (dr_daily d) (clean permitId 120) tid cid s = Some s'" .
  note G = r(2)[unfolded execution_gates_def]
  let ?w = "execution_guard dp env auth email True q d s0"
  have ex: "v_executionAllowed ?w" using G by simp
  note E = ex[unfolded execution_guard_def guard_executes0]
  have pre: "\<not> runtimeKillSwitch env" "runtimeAgentStatus env = ''enabled''" "runtimeBudgetStatus env = ''within_limit''"
    using E by (auto simp: guard_prechecks_def dflt_def)
  obtain g where g: "normalizeDelegation (execution_authority d) = Some g" "g_status g = ''active''" "sessionExecutionEnabled env auth email"
    using E by (auto simp: guard_authority_request_def execution_decided grant_covers_def dflt_def)
  from r(3) obtain q1 p where c: "q1 \<in> set (xd_requests s)" "xr_id q1 = xr_id q" "xr_tenant q1 = se_tenant auth"
      "executable auth (dr_daily d) (xr_grant q) s q1" "p \<in> set (xd_permits s)" "permit_good (clean permitId 120) q1 s p"
      "\<not> effect_refused (new_task auth q tid) (new_receipt auth q tid cid (exec_now s)) s"
    by (rule commit_effect)
  have rid: "xr_id q1 = rid" using execution_row_request[OF r(1)] c(2) by simp
  have act: "grant_active (se_tenant auth) (xr_grant q) s" using c(7) by (simp add: effect_refused_def)
  have ap: "approved_for (se_user auth) (xr_hash q1) q1" "xr_permit q1 = None" using c(4) by (simp_all add: executable_def)
  have p: "xp_id p = clean permitId 120 \<and> xp_tenant p = se_tenant auth \<and> xp_human p = se_user auth \<and> xp_request p = rid \<and>
      xp_hash p = xr_hash q1 \<and> xp_grant p = xr_grant q1 \<and> \<not> xp_used p \<and> unexpired (exec_now s) p"
    using c(3,6) rid ap(1) by (simp add: permit_good_def approved_for_def)
  have w: "(se_tenant auth, se_user auth) \<in> set (xd_owners s)" "thebe_active s" "\<forall>m. dr_daily d = Some m \<longrightarrow> int (executions_today (se_tenant auth) (xr_grant q) s) < m"
    using c(4) by (auto simp: executable_def)
  show ?thesis using G pre g(3) r(1) execution_authority_active[OF g(1,2)] w act by (intro conjI bexI[OF _ c(1)] bexI[OF _ c(5)] rid c(3) ap p) blast+
qed

text \<open>C17: once a request's permit has lapsed unused, the request is never executed, whatever comes after, and no other permit is ever issued for it.\<close>

theorem lapsed_permit_final:
  assumes "exec_run dp sha ss" "s0 \<in> set ss" "p \<in> set (xd_permits s0)" "lapsed s0 p" "q \<in> set (xd_requests (hd ss))" "xr_id q = xp_request p"
  shows "xr_status q \<noteq> Executed \<and> fst (issueJitPermit env auth email ready up (xp_request p) pid s1 (hd ss)) \<noteq> Permit_Issued pid' e"
proof
  have L: "exec_lawful (hd ss)" "exec_extends s0 (hd ss)" using exec_run_lawful[OF assms(1)] assms(1,2) by (auto elim: exec_run.cases)
  obtain p1 where p1: "p1 \<in> set (xd_permits (hd ss))" "same_permit p p1" using extends_parts(4)[OF L(2) assms(3)] by blast
  note P = same_permit_fields[OF p1(2)]
  show "xr_status q \<noteq> Executed"
  proof
    assume "xr_status q = Executed"
    then have "permitted_by (hd ss) q" using L(1) assms(5) by (auto simp: exec_lawful_def request_ok_def)
    then obtain p2 where p2: "p2 \<in> set (xd_permits (hd ss))" "xp_used p2" "xp_request p2 = xr_id q" by (auto simp: permitted_by_def)
    have "distinct (map xp_request (xd_permits (hd ss)))" using L(1) by (simp add: exec_lawful_def keys_ok_def)
    from key_unique[OF this p2(1) p1(1)] have "p2 = p1" using p2(3) P(4) assms(6) by simp
    then show False using lapsed_stays[OF assms(1-4) p1(1) P(1)] p2(2) by simp
  qed
  have "insert_permit x (hd ss) = None" if "xp_request x = xp_request p" for x
    using p1(1) P(4) that unfolding insert_permit_def by (auto simp: list_ex_iff)
  then show "fst (issueJitPermit env auth email ready up (xp_request p) pid s1 (hd ss)) \<noteq> Permit_Issued pid' e"
    unfolding issueJitPermit_def Let_def by (simp add: contained_def split: option.split)
qed

section \<open>A task from its delegation to its receipt\<close>

definition sample_exec_env :: jsval where
  "sample_exec_env = JObj [(''AGENT_BOUNDED_TASK_EXECUTION_MODE'', JStr ''owner_bounded'')]"

definition task_sha :: "string \<Rightarrow> string" where "task_sha s = take 6 (rev s)"

definition task_body :: jsval where
  "task_body = JObj [(''title'', JStr ''Call the supplier''), (''delegationId'', JStr ''d1'')]"

definition work0 :: exec_db where
  "work0 = \<lparr>xd_auth = store0,
     xd_registry = \<lparr>rg_agents = [\<lparr>ag_id = THEBE_AGENT_ID, ag_name = ''Thebe'', ag_type = ''agent'', ag_purpose = ''p'', ag_risk = ''high'', ag_state = ''active'', ag_exec = 1, ag_scope = ''platform''\<rparr>],
       rg_events = [], rg_findings = [], rg_audit = []\<rparr>,
     xd_grants = [], xd_requests = [], xd_permits = [], xd_tasks = [], xd_receipts = [], xd_audit = [], xd_owners = [(''t1'', ''u1'')], xd_members = [(''t1'', ''u1'')]\<rparr>"

definition sample_entry :: "string \<Rightarrow> string \<Rightarrow> exec_audit" where
  "sample_entry type entity = \<lparr>xa_tenant = ''t1'', xa_type = type, xa_entity = entity, xa_proposal = None\<rparr>"

definition sample_request :: task_request_row where
  "sample_request = \<lparr>xr_id = ''r1'', xr_tenant = ''t1'', xr_intent = ''i1'', xr_delegation = ''d1'', xr_grant = ''g1'', xr_user = ''u1'',
     xr_payload = \<lparr>tp_title = ''Call the supplier'', tp_description = None, tp_priority = 2, tp_due = None\<rparr>, xr_hash = ''}}llun'', xr_status = Prepared,
     xr_approved_hash = None, xr_approver = None, xr_permit = None\<rparr>"

definition approved_request :: task_request_row where
  "approved_request = sample_request\<lparr>xr_status := Approved, xr_approved_hash := Some ''}}llun'', xr_approver := Some ''u1''\<rparr>"

definition sample_permit :: permit_row where
  "sample_permit = \<lparr>xp_id = ''p1'', xp_tenant = ''t1'', xp_human = ''u1'', xp_request = ''r1'', xp_grant = ''g1'', xp_hash = ''}}llun'', xp_used = False, xp_expires = 86400300000\<rparr>"

definition sample_intent :: intent_row where
  "sample_intent = \<lparr>in_id = ''i1'', in_tenant = ''t1'', in_run = None, in_proposal = None, in_action = ''task.create'', in_user = ''u1'', in_delegation = Some ''d1'',
     in_decision = ''review_required'', in_code = ''human_confirmation_required'', in_level = 3, in_amount = 0, in_hash = ''}}llun'', in_key = ''task-key-1'',
     in_status = ''review_required'', in_at = 86400000000\<rparr>"

definition granted_store :: authority_db where
  "granted_store = \<lparr>ad_delegations = [sample_grant_row], ad_intents = [],
     ad_events = [\<lparr>de_id = ''e1'', de_tenant = ''t1'', de_delegation = ''d1'', de_type = ''CREATED'', de_user = ''u1''\<rparr>], ad_runs = [], ad_proposals = [], ad_now = 86400000000\<rparr>"

definition work1 :: exec_db where "work1 = work0\<lparr>xd_auth := granted_store\<rparr>"

definition work2 :: exec_db where
  "work2 = work1\<lparr>xd_grants := [\<lparr>xg_id = ''g1'', xg_tenant = ''t1'', xg_delegation = ''d1'', xg_active = True, xg_user = ''u1''\<rparr>],
     xd_audit := [sample_entry ''AGENT_EXECUTION_GRANT_CREATED'' ''g1'']\<rparr>"

definition work3 :: exec_db where
  "work3 = work2\<lparr>xd_auth := granted_store\<lparr>ad_intents := [sample_intent]\<rparr>, xd_requests := [sample_request], xd_audit := xd_audit work2 @ [sample_entry ''AGENT_TASK_PREPARED'' ''r1'']\<rparr>"

definition work4 :: exec_db where
  "work4 = work3\<lparr>xd_requests := [approved_request], xd_audit := xd_audit work3 @ [sample_entry ''AGENT_TASK_APPROVED'' ''r1'']\<rparr>"

definition work5 :: exec_db where
  "work5 = work4\<lparr>xd_permits := [sample_permit], xd_audit := xd_audit work4 @ [sample_entry ''AGENT_JIT_PERMIT_ISSUED'' ''p1'']\<rparr>"

definition sample_task :: internal_task where
  "sample_task = \<lparr>xt_id = ''k1'', xt_tenant = ''t1'', xt_title = ''Call the supplier'', xt_description = None, xt_priority = 2, xt_due = None, xt_request = ''r1'',
     xt_intent = ''i1'', xt_grant = ''g1'', xt_user = ''u1''\<rparr>"

definition work6 :: exec_db where
  "work6 = work5\<lparr>xd_requests := [approved_request\<lparr>xr_status := Executed, xr_permit := Some ''p1''\<rparr>], xd_permits := [sample_permit\<lparr>xp_used := True\<rparr>], xd_tasks := [sample_task],
     xd_receipts := [\<lparr>xc_id = ''c1'', xc_tenant = ''t1'', xc_intent = ''i1'', xc_grant = ''g1'', xc_hash = ''}}llun'', xc_task = ''k1'', xc_at = 86400000000\<rparr>],
     xd_audit := xd_audit work5 @ [sample_entry ''AGENT_TASK_EXECUTED'' ''k1'']\<rparr>"

text \<open>The state with the permit ten minutes later, with the permit unused.\<close>

definition work5_late :: exec_db where
  "work5_late = work5\<lparr>xd_auth := (xd_auth work5)\<lparr>ad_now := 86400600000, ad_runs := ad_runs (xd_auth work5) @ [], ad_proposals := ad_proposals (xd_auth work5) @ []\<rparr>\<rparr>"

text \<open>The handlers on these states.\<close>

lemma delegation_created: "snd (createDelegation no_dates sample_owner True True (Inr grant_body) ''d1'' ''e1'' store0 store0) = granted_store"
  by code_simp

lemma grant_created: "createExecutionGrant sample_owner True True (Inr (JObj [(''delegationId'', JStr ''d1'')])) ''g1'' work1 work1 = (Grant_Created ''g1'', work2)"
  by code_simp

lemma task_prepared: "prepareTask no_dates task_sha sample_owner True (JStr ''task-key-1'') (Inr task_body) None ''i1'' ''r1'' work2 work2 = (Task_Prepared ''r1'', work3)"
  by code_simp

lemma task_approved: "approveTask sample_owner True ''r1'' work3 work3 = (Task_Moved ''r1'' Approved, work4)"
  by code_simp

lemma permit_issued: "issueJitPermit sample_exec_env sample_owner [] True True ''r1'' ''p1'' work4 work4 = (Permit_Issued ''p1'' 86400300000, work5)"
  by code_simp

lemma task_executed:
  "executeTask no_dates sample_exec_env sample_owner [] True True ''r1'' (JStr ''p1'') ''k1'' ''c1'' work5 work5 = (Task_Executed sample_task ''c1'', work6)"
  by code_simp

lemma exec_next: "exec_run dp sha (s # ss) \<Longrightarrow> exec_step dp sha s s s' \<Longrightarrow> exec_run dp sha (s' # s # ss)"
  by (rule exec_more) simp_all

lemma permit_run: "exec_run no_dates task_sha [work5, work4, work3, work2, work1, work0]"
proof (intro exec_next)
  show "exec_run no_dates task_sha [work0]" by (rule exec_start) (simp add: no_work_def work0_def store0_def empty_store_def)
  have "authority_step no_dates task_sha (xd_auth work0) (xd_auth work0) granted_store"
    using step_create[of no_dates task_sha store0 store0 sample_owner True True "Inr grant_body" "''d1''" "''e1''"] by (simp add: delegation_created work0_def)
  then show "exec_step no_dates task_sha work0 work0 work1" unfolding work1_def by (rule do_authority)
  show "exec_step no_dates task_sha work1 work1 work2" by (metis do_grant grant_created snd_conv)
  show "exec_step no_dates task_sha work2 work2 work3" by (metis do_prepare task_prepared snd_conv)
  show "exec_step no_dates task_sha work3 work3 work4" by (metis do_approve task_approved snd_conv)
  show "exec_step no_dates task_sha work4 work4 work5" by (metis do_permit permit_issued snd_conv)
qed

lemma task_run: "exec_run no_dates task_sha [work6, work5, work4, work3, work2, work1, work0]"
  by (rule exec_next[OF permit_run]) (metis do_execute task_executed snd_conv)

lemma late_run: "exec_run no_dates task_sha [work5_late, work5, work4, work3, work2, work1, work0]"
proof (rule exec_next[OF permit_run])
  have "ad_now (xd_auth work5) \<le> 86400600000" by code_simp
  from step_pass[OF this] show "exec_step no_dates task_sha work5 work5 work5_late" unfolding work5_late_def by (rule do_authority)
qed

lemma work_rows:
  "xd_tasks work6 = [sample_task]" "xd_requests work6 = [approved_request\<lparr>xr_status := Executed, xr_permit := Some ''p1''\<rparr>]"
  "xd_grants work6 = [\<lparr>xg_id = ''g1'', xg_tenant = ''t1'', xg_delegation = ''d1'', xg_active = True, xg_user = ''u1''\<rparr>]"
  "ad_delegations (xd_auth work6) = [sample_grant_row]" "xd_permits work5_late = [sample_permit]" "xd_requests work5_late = [approved_request]"
  "exec_now work5_late = 86400600000"
  by (simp_all add: work6_def work5_late_def work5_def work4_def work3_def work2_def work1_def work0_def granted_store_def)

theorem tasks_authorised_once_witness:
  "\<exists>q. xd_requests work6 = [q] \<and> xd_tasks work6 = [sample_task] \<and> task_of q sample_task \<and> permitted_by work6 q \<and> granted work6 q \<and> receipted work6 q sample_task"
  using tasks_authorised_once[OF task_run] by (simp add: work_rows)

theorem execution_limit_kept_witness: "int (executions_on ''t1'' ''g1'' 1000 work6) \<le> 1"
proof -
  have "backed_by (xd_auth work6) ''t1'' ''d1'' sample_grant_row" by (simp add: backed_by_def work_rows sample_grant_row_def)
  then show ?thesis using execution_limit_kept[OF task_run, of "hd (xd_grants work6)" sample_grant_row 1 1000] work_rows(3) by (simp add: sample_grant_row_def)
qed

theorem task_needs_every_gate_witness: "sessionExecutionEnabled sample_exec_env sample_owner [] \<and> thebe_active work5 \<and> (''t1'', ''u1'') \<in> set (xd_owners work5)"
proof -
  have "fst (executeTask no_dates sample_exec_env sample_owner [] True True ''r1'' (JStr ''p1'') ''k1'' ''c1'' work5 work5) = Task_Executed sample_task ''c1''"
    by (simp add: task_executed)
  from task_needs_every_gate[OF this] show ?thesis by (auto simp: sample_owner_def)
qed

theorem lapsed_permit_final_witness:
  "xr_status approved_request \<noteq> Executed \<and>
   fst (issueJitPermit sample_exec_env sample_owner [] True True ''r1'' ''p2'' work5_late work5_late) \<noteq> Permit_Issued ''p2'' 86400900000"
proof -
  have "lapsed work5_late sample_permit" using work_rows(7) by (simp add: lapsed_def unexpired_def sample_permit_def)
  moreover have "xr_id approved_request = xp_request sample_permit" by (simp add: approved_request_def sample_request_def sample_permit_def)
  ultimately show ?thesis
    using lapsed_permit_final[OF late_run, of work5_late sample_permit approved_request sample_exec_env sample_owner "[]" True True "''p2''" work5_late "''p2''" 86400900000]
    by (simp add: work_rows(5,6)) (simp add: sample_permit_def)
qed

end
