(* ===== verification/Spec2Isabelle.thy ===== *)
theory Spec2Isabelle imports CostLedger Orchestration Continuation OwnerAttention VoiceRouting MarketProfile SpendEnvelope EmployeeDispatch FinanceBooks FinanceImports DispatchRefinement GoalLoop AuthorityTrail TaskPromises begin

text \<open>
  This library models the core of the business platform whose server runs in \<^verbatim>\<open>cloudflare/src\<close>: a tenant's records
  of money, and the assistant that watches them for the owner. Paths below are relative to that directory unless they
  say otherwise; the tables and triggers a module relies on are in \<^verbatim>\<open>cloudflare/migrations\<close>.

  The parts and how they meet.

  \<^item> Values. \<open>JsValue\<close> has the values a request, a row or an environment variable may hold (\<open>jsval\<close>) with the conversions
    the code uses on them: truthiness, \<^verbatim>\<open>Number\<close>, \<^verbatim>\<open>String\<close>, trimming, JSON and ISO dates. \<open>IsoDates\<close> reads the ISO texts
    back. \<open>Interfaces\<close> has the contracts the components share, as locales: a chain of early returns, a state machine with an
    invariant and final states, a comparison given to a sort.
  \<^item> What the assistant may do. \<open>AgentPolicy\<close> (\<^verbatim>\<open>agent-policy.js\<close>) is the catalogue of actions and the check of a request against
    it; \<open>DelegatedAuthority\<close> (\<^verbatim>\<open>delegated-authority.js\<close>) checks the grant of a tenant; \<open>AuthorityStore\<close>
    (\<^verbatim>\<open>agentic-authority-core.js\<close>) is where owners create, pause and revoke grants and where actions are judged in shadow mode, and
    \<open>AuthorityTrail\<close> has what holds of it over all histories. \<open>TaskExecution\<close> (\<^verbatim>\<open>agentic-task-execution.js\<close>) carries out the
    one action that may be executed, the creation of an internal task, through an execution grant, a prepared request, the owner's approval and a
    permit for one use; \<open>TaskTrail\<close> has its invariant over all histories and \<open>TaskPromises\<close> its properties. \<open>RuntimeGuard\<close> (\<^verbatim>\<open>agent-runtime-guard.js\<close>,
    \<^verbatim>\<open>agent-cost-admission.js\<close>) composes policy, authority and cost into one decision; \<open>CostLedger\<close>
    (\<^verbatim>\<open>agent-cost-reservations.js\<close>) reserves, settles and releases the budget. \<open>ControlPlane\<close> (\<^verbatim>\<open>agent-control-plane.js\<close>) is the
    registry of machine identities, and \<open>ToolTrust\<close> the pinned tools, the data boundary of their calls, the containment of a
    tenant and the security gate (\<^verbatim>\<open>agent-tool-trust-registry.js\<close>, \<^verbatim>\<open>agent-capability-security.js\<close>,
    \<^verbatim>\<open>agent-runtime-containment.js\<close>, \<^verbatim>\<open>agent-security-gate.js\<close>).
  \<^item> What it works on. \<open>EmployeeDispatch\<close> (\<^verbatim>\<open>employee-dispatch.js\<close>) is the queue of requested work with its leases, sweeps and stop;
    \<open>DispatchRefinement\<close> shows that it implements a ledger of requests done at most once. \<open>Orchestration\<close> and \<open>Continuation\<close>
    (\<^verbatim>\<open>agent-orchestration.js\<close>, \<^verbatim>\<open>agent-continuation.js\<close>) plan the read-only units of a run and checkpoint it. \<open>BusinessGoals\<close>,
    \<open>PersistentTasks\<close> and \<open>DurableGoals\<close> (\<^verbatim>\<open>business-goals.js\<close>, \<^verbatim>\<open>agentic-persistent-tasks.js\<close>,
    \<^verbatim>\<open>business-goal-durable-loop.js\<close>) are the goals an owner sets, the tasks that hold them and the scheduler that claims,
    observes and closes each occurrence; \<open>GoalLoop\<close> runs all three together. \<open>VoiceRouting\<close> and \<open>MarketProfile\<close>
    (\<^verbatim>\<open>voice-provider-routing.js\<close>, \<^verbatim>\<open>market-profile.js\<close>) choose the voice provider and the market.
  \<^item> Money. \<open>Allocations\<close>, \<open>FinanceReceivables\<close> and \<open>FinancePayables\<close> (\<^verbatim>\<open>finance-receivables.js\<close>, \<^verbatim>\<open>finance-payables.js\<close>) are the
    customer and the supplier ledger, which settle against the same transactions; \<open>FinanceBooks\<close> runs both. \<open>FinanceImports\<close> and
    \<open>FinanceLineage\<close> (\<^verbatim>\<open>finance-core.js\<close>) import transactions and chain the hashed events of a tenant. \<open>MoneyTrends\<close> and
    \<open>SpendEnvelope\<close> (\<^verbatim>\<open>money-intelligence.js\<close>) read the recorded money and plan from it. \<open>OwnerAttention\<close>
    (\<^verbatim>\<open>owner-attention.js\<close>) lists what needs the owner.

  How the code is modelled. An object with a fixed shape is a record, a value of unknown shape a \<open>jsval\<close>. A table is a list of
  rows, the newest last; a statement with \<^verbatim>\<open>WHERE\<close> is \<open>update_where\<close> or \<open>filter\<close>, a unique index or an aborting trigger makes the
  write fail, and a batch of statements is done as a whole or not at all, as the database documents. A handler returns its answer and
  the new state; every error answer of the source is a value of the answer's type. Where other requests may come in between a read
  and a write, the handler takes the state it reads and the state it writes, and the step relation of the component lets
  the first be any earlier one (\<open>authority_run\<close>, \<open>exec_run\<close>, \<open>registry_step\<close>, the stale arguments of the goal loop, the split
  void of \<open>FinanceBooks\<close>). A hash, a fresh id, the time, the reading of a date that is not an ISO text, the collation of
  texts, the compatibility normalization of Unicode and what another service answers are parameters; a law that a proof needs of one is a premise
  of the theorem, and its witness has a concrete function.

  Idealisations. Numbers are exact rationals with the infinities and NaN; amounts are integers in minor units that the code bounds by
  \<^verbatim>\<open>Number.MAX_SAFE_INTEGER\<close>, where doubles are exact. Texts are Latin-1. A JSON column holds the value it was written with.

  Bounds. The recursions of the library are structural or have a decreasing measure, so that every definition is total. The one
  cut is in printing a number: at most 17 decimals (\<open>frac_digits\<close>), as many as a double can need.

  What the theorems show. Of the queue: it is consistent in every reachable state, a finished row never changes, a worker that lost its
  lease changes nothing, a stopped tenant does nothing, a due job completes, work ends, and all of it refines the ledger of
  requests. Of the ledgers: no bill and no transaction is over-allocated, a repeated settlement changes nothing and a reversal is
  accepted and restores the balance (unless its shortened digest is an id already taken), a supplier name is unambiguous, the summaries agree with the books, and the race in which a void is unsafe. Of imports and
  lineage: sources are unique, a content is imported once, the chain of hashes has no gaps. Of cost: the ledger balances, and a closed
  reservation is final. Of authority: exactly when an action is allowed and which check a refusal names, exactly when
  the runtime guard authorises an execution, that grants stay bounded and have a complete history, that the daily limit is kept when requests do not overlap and can be passed when they do, and
  that a grant of today is not found before tomorrow. Of task execution: every task was created once for a request that its owner approved, with a used
  permit and a receipt, the daily limit is kept even when requests overlap, which gates a task has passed when it is read and when it is written, and that a
  permit that lapsed unused ends its request. Of goals: an accepted goal is well formed, an occurrence is observed once, a
  claimed occurrence settles, a closed task stays closed. Of planning: the spend envelope keeps the reserves and the
  calendar balances; further lemmas show that trends are the sums of their windows and that a blank profile counts as zeros.

  Not modelled. The request router and the screens it serves (\<^verbatim>\<open>worker.js\<close>, \<^verbatim>\<open>agentic-core.js\<close>, the entry modules): they read the session and
  the body, call the modules above and build SQL and HTML; sessions and bodies are parameters here. The live voice, WhatsApp
  and model adapters, which talk to outside services. The property, customer, registration and report modules, which store and list
  records. The runs of a standing policy, which chain the handlers of task execution. The signed capability tokens, whose content is cryptography. The browser code under \<^verbatim>\<open>public/js\<close>, the older server
  under \<^verbatim>\<open>server\<close>, the scripts and the tests. Within the modules above, the read-only lists and status reports, and the text of audit records.
\<close>

end
